(* ===== verification/Prelude.thy ===== *)
theory Prelude
  imports Complex_Main "HOL-Library.Word"
begin

text \<open>
  Shared vocabulary of the development: the names of the machine integer types of the C++
  code, the collections of rules the component proofs use, and facts about lists and words
  that more than one component needs.

  The C++ integers are kept at their width. A signed type is a word that is read with
  \<open>sint\<close>, an unsigned one a word that is read with \<open>uint\<close> or \<open>unat\<close>; a cast between
  integer types is \<open>ucast\<close> or \<open>scast\<close>, which wrap around as the code's casts do.
\<close>

unbundle bit_operations_syntax

section \<open>Machine integer types\<close>

type_synonym u8 = "8 word"
type_synonym u16 = "16 word"
type_synonym u32 = "32 word"
type_synonym u64 = "64 word"
type_synonym i32 = "32 word"

section \<open>Rule collections\<close>

named_theorems fp "case tables of the double-precision operations"
named_theorems op_defs "definitions of the operations of the component at hand"

section \<open>Lists\<close>

text \<open>Circular indices: what the ring buffers of the code need about \<open>mod\<close>.\<close>

lemma take_Cons_bound: "0 < n \<Longrightarrow> take n (x # xs) = x # take (n - 1) xs"
  by (cases n) auto

lemma in_set_takeD_mono: "x \<in> set (take m xs) \<Longrightarrow> m \<le> n \<Longrightarrow> x \<in> set (take n xs)"
  by (rule subsetD [OF set_take_subset_set_take])

lemma set_take_Cons: "set (take n (x # xs)) \<subseteq> insert x (set (take n xs))"
proof (cases n)
  case (Suc m)
  then show ?thesis
    using set_take_subset_set_take [of m "Suc m" xs] by auto
qed simp

lemma nth_ring_update:
  "length xs = n \<Longrightarrow> 0 < n \<Longrightarrow> (xs[i mod n := x]) ! (j mod n) = (if j mod n = i mod n then x else xs ! (j mod n))"
  by (simp add: nth_list_update)

lemma mod_ring_back:
  fixes i k n :: nat
  assumes "i < n" and "k < n"
  shows "(i + n - 1 - k) mod n = (if k < i then i - 1 - k else i + n - 1 - k)"
  using assms by (auto simp: mod_if)

text \<open>Strictly increasing index lists.\<close>

lemma strict_sorted_bounded_length:
  fixes xs :: "nat list"
  assumes "sorted_wrt (<) xs" and "\<forall>x \<in> set xs. x < n"
  shows "length xs \<le> n"
proof -
  have "distinct xs"
    using assms(1) by (simp add: strict_sorted_iff)
  then have "length xs = card (set xs)"
    by (simp add: distinct_card)
  also have "\<dots> \<le> card {..<n}"
    using assms(2) by (intro card_mono) auto
  finally show ?thesis by simp
qed

lemma find_Some_set: "find P xs = Some x \<Longrightarrow> x \<in> set xs \<and> P x"
  by (induction xs) (auto split: if_splits)

lemma find_None_iff_all: "find P xs = None \<longleftrightarrow> (\<forall>x \<in> set xs. \<not> P x)"
  by (induction xs) auto

end
