(* ===== verification/Doubles.thy ===== *)
theory Doubles
  imports Prelude
begin

text \<open>
  IEEE-754 numbers as the C++ code sees them: finite values, the two infinities and NaN,
  with the comparisons and operations of the language and of its mathematical library.

  A finite value is an exact real. Range is modelled: a finite result beyond the largest
  binary64 (or, after a cast to \<open>float\<close>, binary32) number becomes an infinity, an infinity
  or a NaN propagates, a comparison with a NaN is false, a division by zero is an infinity
  or a NaN. Two things of the hardware are not modelled: the rounding of a finite result to
  53 (or 24) bits, and the sign of zero (a zero counts as positive).
\<close>

section \<open>Values\<close>

datatype dbl = Fin real | PInf | NInf | NaN

definition dbl_max :: real where
  "dbl_max = (2 - 1 / 2 ^ 52) * 2 ^ 1023"

definition flt_max :: real where
  "flt_max = (2 - 1 / 2 ^ 23) * 2 ^ 127"

definition in_range :: "real \<Rightarrow> real \<Rightarrow> dbl" where
  "in_range m r = (if m < r then PInf else if r < - m then NInf else Fin r)"

abbreviation fl :: "real \<Rightarrow> dbl" where
  "fl r \<equiv> in_range dbl_max r"

fun isfinite :: "dbl \<Rightarrow> bool" where
  "isfinite (Fin r) = True"
| "isfinite PInf = False"
| "isfinite NInf = False"
| "isfinite NaN = False"

fun isnan :: "dbl \<Rightarrow> bool" where
  "isnan NaN = True"
| "isnan (Fin r) = False"
| "isnan PInf = False"
| "isnan NInf = False"

text \<open>The value of a finite number; 0 elsewhere (used in statements only).\<close>

fun value_of :: "dbl \<Rightarrow> real" where
  "value_of (Fin r) = r"
| "value_of PInf = 0"
| "value_of NInf = 0"
| "value_of NaN = 0"

text \<open>The sign that decides the infinity a product or a quotient overflows to.\<close>

fun sign_of :: "dbl \<Rightarrow> real" where
  "sign_of (Fin r) = sgn r"
| "sign_of PInf = 1"
| "sign_of NInf = -1"
| "sign_of NaN = 0"

definition inf_of :: "real \<Rightarrow> dbl" where
  "inf_of s = (if 0 < s then PInf else if s < 0 then NInf else NaN)"

text \<open>
  The values a \<open>double\<close> can hold. The operations below have results in this range whatever
  their arguments; a statement about an input says so with this predicate.
\<close>

fun is_double :: "dbl \<Rightarrow> bool" where
  "is_double (Fin r) = (\<bar>r\<bar> \<le> dbl_max)"
| "is_double PInf = True"
| "is_double NInf = True"
| "is_double NaN = True"

section \<open>Arithmetic and comparison\<close>

instantiation dbl :: "{zero, one, plus, uminus, minus, times, inverse, ord, abs}"
begin

definition zero_dbl :: dbl where
  "zero_dbl = Fin 0"

definition one_dbl :: dbl where
  "one_dbl = Fin 1"

fun plus_dbl :: "dbl \<Rightarrow> dbl \<Rightarrow> dbl" where
  "plus_dbl (Fin a) (Fin b) = fl (a + b)"
| "plus_dbl (Fin a) PInf = PInf"
| "plus_dbl (Fin a) NInf = NInf"
| "plus_dbl PInf (Fin b) = PInf"
| "plus_dbl NInf (Fin b) = NInf"
| "plus_dbl PInf PInf = PInf"
| "plus_dbl NInf NInf = NInf"
| "plus_dbl PInf NInf = NaN"
| "plus_dbl NInf PInf = NaN"
| "plus_dbl NaN y = NaN"
| "plus_dbl x NaN = NaN"

fun uminus_dbl :: "dbl \<Rightarrow> dbl" where
  "uminus_dbl (Fin a) = Fin (- a)"
| "uminus_dbl PInf = NInf"
| "uminus_dbl NInf = PInf"
| "uminus_dbl NaN = NaN"

definition minus_dbl :: "dbl \<Rightarrow> dbl \<Rightarrow> dbl" where
  "minus_dbl x y = x + (- y)"

fun times_dbl :: "dbl \<Rightarrow> dbl \<Rightarrow> dbl" where
  "times_dbl (Fin a) (Fin b) = fl (a * b)"
| "times_dbl NaN y = NaN"
| "times_dbl x NaN = NaN"
| "times_dbl PInf y = inf_of (sign_of y)"
| "times_dbl NInf y = inf_of (- sign_of y)"
| "times_dbl x PInf = inf_of (sign_of x)"
| "times_dbl x NInf = inf_of (- sign_of x)"

fun divide_dbl :: "dbl \<Rightarrow> dbl \<Rightarrow> dbl" where
  "divide_dbl (Fin a) (Fin b) = (if b = 0 then inf_of a else fl (a / b))"
| "divide_dbl NaN y = NaN"
| "divide_dbl x NaN = NaN"
| "divide_dbl PInf (Fin b) = (if b < 0 then NInf else PInf)"
| "divide_dbl NInf (Fin b) = (if b < 0 then PInf else NInf)"
| "divide_dbl (Fin a) y = Fin 0"
| "divide_dbl x y = NaN"

definition inverse_dbl :: "dbl \<Rightarrow> dbl" where
  "inverse_dbl x = 1 div x"

fun less_dbl :: "dbl \<Rightarrow> dbl \<Rightarrow> bool" where
  "less_dbl (Fin a) (Fin b) = (a < b)"
| "less_dbl (Fin a) PInf = True"
| "less_dbl NInf (Fin b) = True"
| "less_dbl NInf PInf = True"
| "less_dbl x y = False"

fun less_eq_dbl :: "dbl \<Rightarrow> dbl \<Rightarrow> bool" where
  "less_eq_dbl (Fin a) (Fin b) = (a \<le> b)"
| "less_eq_dbl (Fin a) PInf = True"
| "less_eq_dbl NInf (Fin b) = True"
| "less_eq_dbl NInf PInf = True"
| "less_eq_dbl PInf PInf = True"
| "less_eq_dbl NInf NInf = True"
| "less_eq_dbl x y = False"

fun abs_dbl :: "dbl \<Rightarrow> dbl" where
  "abs_dbl (Fin a) = Fin \<bar>a\<bar>"
| "abs_dbl PInf = PInf"
| "abs_dbl NInf = PInf"
| "abs_dbl NaN = NaN"

instance ..

end

text \<open>\<open>operator==\<close>: false on a NaN.\<close>

definition feq :: "dbl \<Rightarrow> dbl \<Rightarrow> bool" where
  "feq x y = (x \<noteq> NaN \<and> x = y)"

text \<open>\<open>std::min\<close>, \<open>std::max\<close> and \<open>std::clamp\<close>, with their behaviour on a NaN.\<close>

definition fmin :: "dbl \<Rightarrow> dbl \<Rightarrow> dbl" where
  "fmin x y = (if y < x then y else x)"

definition fmax :: "dbl \<Rightarrow> dbl \<Rightarrow> dbl" where
  "fmax x y = (if x < y then y else x)"

definition fclamp :: "dbl \<Rightarrow> dbl \<Rightarrow> dbl \<Rightarrow> dbl" where
  "fclamp v lo hi = (if v < lo then lo else if hi < v then hi else v)"

section \<open>The mathematical library\<close>

definition lift_real :: "(real \<Rightarrow> real) \<Rightarrow> dbl \<Rightarrow> dbl" where
  "lift_real f x = (case x of Fin r \<Rightarrow> Fin (f r) | PInf \<Rightarrow> NaN | NInf \<Rightarrow> NaN | NaN \<Rightarrow> NaN)"

definition fsin :: "dbl \<Rightarrow> dbl" where
  "fsin = lift_real sin"

definition fcos :: "dbl \<Rightarrow> dbl" where
  "fcos = lift_real cos"

fun fatan :: "dbl \<Rightarrow> dbl" where
  "fatan (Fin r) = Fin (arctan r)"
| "fatan PInf = Fin (pi / 2)"
| "fatan NInf = Fin (- (pi / 2))"
| "fatan NaN = NaN"

definition atan2_real :: "real \<Rightarrow> real \<Rightarrow> real" where
  "atan2_real y x =
     (if 0 < x then arctan (y / x)
      else if x < 0 then (if 0 \<le> y then arctan (y / x) + pi else arctan (y / x) - pi)
      else if 0 < y then pi / 2 else if y < 0 then - (pi / 2) else 0)"

fun fatan2 :: "dbl \<Rightarrow> dbl \<Rightarrow> dbl" where
  "fatan2 (Fin y) (Fin x) = Fin (atan2_real y x)"
| "fatan2 NaN x = NaN"
| "fatan2 y NaN = NaN"
| "fatan2 (Fin y) PInf = Fin 0"
| "fatan2 (Fin y) NInf = Fin (if 0 \<le> y then pi else - pi)"
| "fatan2 PInf (Fin x) = Fin (pi / 2)"
| "fatan2 NInf (Fin x) = Fin (- (pi / 2))"
| "fatan2 PInf PInf = Fin (pi / 4)"
| "fatan2 NInf PInf = Fin (- (pi / 4))"
| "fatan2 PInf NInf = Fin (3 * pi / 4)"
| "fatan2 NInf NInf = Fin (- (3 * pi / 4))"

fun fhypot :: "dbl \<Rightarrow> dbl \<Rightarrow> dbl" where
  "fhypot (Fin a) (Fin b) = fl (sqrt (a * a + b * b))"
| "fhypot PInf y = PInf"
| "fhypot NInf y = PInf"
| "fhypot x PInf = PInf"
| "fhypot x NInf = PInf"
| "fhypot NaN y = NaN"
| "fhypot x NaN = NaN"

fun fsqrt :: "dbl \<Rightarrow> dbl" where
  "fsqrt (Fin r) = (if r < 0 then NaN else Fin (sqrt r))"
| "fsqrt PInf = PInf"
| "fsqrt NInf = NaN"
| "fsqrt NaN = NaN"

definition keep_inf :: "(real \<Rightarrow> real) \<Rightarrow> dbl \<Rightarrow> dbl" where
  "keep_inf f x = (case x of Fin r \<Rightarrow> Fin (f r) | PInf \<Rightarrow> PInf | NInf \<Rightarrow> NInf | NaN \<Rightarrow> NaN)"

definition ffloor :: "dbl \<Rightarrow> dbl" where
  "ffloor = keep_inf (\<lambda>r. of_int \<lfloor>r\<rfloor>)"

definition fceil :: "dbl \<Rightarrow> dbl" where
  "fceil = keep_inf (\<lambda>r. of_int \<lceil>r\<rceil>)"

text \<open>\<open>std::round\<close>: halfway cases away from zero.\<close>

definition round_away :: "real \<Rightarrow> int" where
  "round_away r = (if 0 \<le> r then \<lfloor>r + 1 / 2\<rfloor> else \<lceil>r - 1 / 2\<rceil>)"

definition fround :: "dbl \<Rightarrow> dbl" where
  "fround = keep_inf (\<lambda>r. of_int (round_away r))"

section \<open>Casts\<close>

text \<open>\<open>static_cast<float>\<close>: the range of binary32.\<close>

fun to_float :: "dbl \<Rightarrow> dbl" where
  "to_float (Fin r) = in_range flt_max r"
| "to_float PInf = PInf"
| "to_float NInf = NInf"
| "to_float NaN = NaN"

text \<open>Truncation towards zero, the first step of a cast to an integer type.\<close>

definition trunc :: "real \<Rightarrow> int" where
  "trunc r = (if 0 \<le> r then \<lfloor>r\<rfloor> else \<lceil>r\<rceil>)"

text \<open>
  A cast to an integer type with values \<open>lo .. hi\<close>. C++ leaves the cast of a value outside
  that range, of an infinity and of a NaN undefined: \<open>None\<close>.
\<close>

definition cast_int :: "int \<Rightarrow> int \<Rightarrow> dbl \<Rightarrow> int option" where
  "cast_int lo hi x =
     (case x of Fin r \<Rightarrow> if lo \<le> trunc r \<and> trunc r \<le> hi then Some (trunc r) else None
      | PInf \<Rightarrow> None | NInf \<Rightarrow> None | NaN \<Rightarrow> None)"

abbreviation cast_u64 :: "dbl \<Rightarrow> int option" where
  "cast_u64 \<equiv> cast_int 0 (2 ^ 64 - 1)"

abbreviation cast_i64 :: "dbl \<Rightarrow> int option" where
  "cast_i64 \<equiv> cast_int (- (2 ^ 63)) (2 ^ 63 - 1)"

abbreviation cast_u32 :: "dbl \<Rightarrow> int option" where
  "cast_u32 \<equiv> cast_int 0 (2 ^ 32 - 1)"

abbreviation cast_i32 :: "dbl \<Rightarrow> int option" where
  "cast_i32 \<equiv> cast_int (- (2 ^ 31)) (2 ^ 31 - 1)"

section \<open>Rules\<close>

lemmas fp_case_tables [fp] =
  zero_dbl_def one_dbl_def minus_dbl_def fmin_def fmax_def fclamp_def feq_def

lemma dbl_max_ge: "10 ^ 30 \<le> dbl_max"
  unfolding dbl_max_def by simp

lemma flt_max_ge: "10 ^ 30 \<le> flt_max"
  unfolding flt_max_def by simp

lemma flt_max_le_dbl_max: "flt_max \<le> dbl_max"
  unfolding flt_max_def dbl_max_def by simp

lemma dbl_max_pos [simp]: "0 < dbl_max" "0 \<le> dbl_max"
  by (simp_all add: dbl_max_def)

lemma flt_max_pos [simp]: "0 < flt_max" "0 \<le> flt_max"
  by (simp_all add: flt_max_def)

lemma in_range_zero [simp]: "0 \<le> m \<Longrightarrow> in_range m 0 = Fin 0"
  by (simp add: in_range_def)

lemma in_range_Fin: "\<bar>r\<bar> \<le> m \<Longrightarrow> in_range m r = Fin r"
  by (auto simp: in_range_def abs_le_iff)

text \<open>The rule that evaluates arithmetic on literals of ordinary size.\<close>

lemma fl_small [simp]: "\<bar>r\<bar> \<le> 10 ^ 30 \<Longrightarrow> fl r = Fin r"
  using dbl_max_ge by (simp add: in_range_Fin)

lemma to_float_small [simp]: "\<bar>r\<bar> \<le> 10 ^ 30 \<Longrightarrow> to_float (Fin r) = Fin r"
  using flt_max_ge by (simp add: in_range_Fin)

lemma in_range_cases:
  assumes "0 \<le> m"
  obtains "m < r" "in_range m r = PInf" | "r < - m" "in_range m r = NInf"
    | "\<bar>r\<bar> \<le> m" "in_range m r = Fin r"
  using assms unfolding in_range_def by (cases "m < r"; cases "r < - m") auto

lemma in_range_not_NaN [simp]: "in_range m r \<noteq> NaN"
  by (simp add: in_range_def)

lemma in_range_eq_Fin: "in_range m r = Fin s \<longleftrightarrow> s = r \<and> r \<le> m \<and> - m \<le> r"
  by (auto simp: in_range_def)

lemma isfinite_iff: "isfinite x \<longleftrightarrow> (\<exists>r. x = Fin r)"
  by (cases x) auto

lemma isfinite_value: "isfinite x \<Longrightarrow> x = Fin (value_of x)"
  by (cases x) auto

lemma less_dbl_simps [simp]:
  "Fin a < Fin b \<longleftrightarrow> a < b" "Fin a < PInf" "NInf < Fin b" "NInf < PInf"
  "\<not> PInf < x" "\<not> x < NInf" "\<not> NaN < x" "\<not> x < NaN"
  by (cases x; simp)+

lemma less_eq_dbl_simps [simp]:
  "Fin a \<le> Fin b \<longleftrightarrow> a \<le> b" "Fin a \<le> PInf" "NInf \<le> Fin b" "PInf \<le> x \<longleftrightarrow> x = PInf"
  "x \<le> NInf \<longleftrightarrow> x = NInf" "\<not> NaN \<le> x" "\<not> x \<le> NaN" "NInf \<le> PInf"
  by (cases x; simp)+

lemma le_PInf_iff [simp]: "x \<le> PInf \<longleftrightarrow> x \<noteq> NaN" and NInf_le_iff [simp]: "NInf \<le> x \<longleftrightarrow> x \<noteq> NaN"
  by (cases x; simp)+

lemma dbl_le_less_trans: "x \<le> y \<Longrightarrow> y < z \<Longrightarrow> x < (z :: dbl)"
  by (cases x; cases y; cases z) auto

lemma dbl_less_le_trans: "x < y \<Longrightarrow> y \<le> z \<Longrightarrow> x < (z :: dbl)"
  by (cases x; cases y; cases z) auto

lemma dbl_le_trans: "x \<le> y \<Longrightarrow> y \<le> z \<Longrightarrow> x \<le> (z :: dbl)"
  by (cases x; cases y; cases z) auto

lemma dbl_less_imp_le: "x < y \<Longrightarrow> x \<le> (y :: dbl)"
  by (cases x; cases y) auto

lemma dbl_less_irrefl [simp]: "\<not> x < (x :: dbl)"
  by (cases x) auto

lemma dbl_refl: "x \<noteq> NaN \<Longrightarrow> x \<le> (x :: dbl)"
  by (cases x) auto

lemma dbl_linear: "x \<noteq> NaN \<Longrightarrow> y \<noteq> NaN \<Longrightarrow> \<not> x < y \<Longrightarrow> y \<le> (x :: dbl)"
  by (cases x; cases y) auto

lemma dbl_not_le: "x \<noteq> NaN \<Longrightarrow> y \<noteq> NaN \<Longrightarrow> \<not> x \<le> y \<longleftrightarrow> y < (x :: dbl)"
  by (cases x; cases y) auto

text \<open>Monotonicity of the range, and of addition, in the comparisons of the code.\<close>

lemma in_range_mono: "0 \<le> m \<Longrightarrow> r \<le> s \<Longrightarrow> in_range m r \<le> in_range m s"
  by (auto simp: in_range_def)

lemma in_range_le: "- m \<le> r \<Longrightarrow> r \<le> s \<Longrightarrow> in_range m r \<le> Fin s \<or> in_range m r = PInf"
  by (auto simp: in_range_def)

lemma abs_le_Fin_D: "\<bar>x\<bar> \<le> Fin m \<Longrightarrow> \<exists>r. x = Fin r \<and> \<bar>r\<bar> \<le> m"
  by (cases x) auto

lemma abs_le_imp_not_NaN: "\<bar>x\<bar> \<le> m \<Longrightarrow> x \<noteq> NaN"
  by auto

lemma value_of_fl: "isfinite (fl r) \<Longrightarrow> value_of (fl r) = r"
  by (auto simp: in_range_def split: if_splits)

section \<open>Order lemmas for arithmetic\<close>

lemma Fin_add_mono: "x \<le> y \<Longrightarrow> Fin z + x \<le> Fin z + (y :: dbl)"
  by (cases x; cases y) (auto intro: in_range_mono)

lemma uminus_antimono: "x \<le> y \<Longrightarrow> - y \<le> - (x :: dbl)"
  by (cases x; cases y) auto

lemma Fin_diff_antimono: "x \<le> y \<Longrightarrow> Fin z - y \<le> Fin z - (x :: dbl)"
  unfolding minus_dbl_def by (intro Fin_add_mono uminus_antimono)

lemma diff_Fin_mono: "x \<le> y \<Longrightarrow> x - Fin z \<le> y - (Fin z :: dbl)"
  by (cases x; cases y) (auto simp: minus_dbl_def intro: in_range_mono)

lemma Fin_mult_mono: "0 \<le> c \<Longrightarrow> x \<le> y \<Longrightarrow> Fin c * Fin x \<le> Fin c * Fin y"
  by (auto intro!: in_range_mono mult_left_mono)

lemma Fin_mult_not_NaN [simp]: "Fin a * Fin b \<noteq> NaN"
  by simp

lemma Fin_add_not_NaN [simp]: "y \<noteq> NaN \<Longrightarrow> Fin a + y \<noteq> NaN" "y \<noteq> NaN \<Longrightarrow> Fin a - y \<noteq> NaN"
  by (cases y; simp add: minus_dbl_def)+

lemma in_range_nonneg: "0 \<le> m \<Longrightarrow> 0 \<le> r \<Longrightarrow> Fin 0 \<le> in_range m r"
  by (auto simp: in_range_def)

lemma in_range_upper: "r \<le> s \<Longrightarrow> s \<le> m \<Longrightarrow> in_range m r \<le> Fin s"
  by (auto simp: in_range_def)

lemma is_double_in_range [simp]: "is_double (fl r)"
  by (auto simp: in_range_def)

lemma is_double_plus [simp]: "is_double x \<Longrightarrow> is_double y \<Longrightarrow> is_double (x + y)"
  by (cases x; cases y) simp_all

lemma is_double_uminus [simp]: "is_double (- x) = is_double x"
  by (cases x) simp_all

lemma is_double_minus [simp]: "is_double x \<Longrightarrow> is_double y \<Longrightarrow> is_double (x - y)"
  by (simp add: minus_dbl_def)

lemma is_double_inf_of [simp]: "is_double (inf_of s)"
  by (simp add: inf_of_def)

lemma is_double_times [simp]: "is_double (x * y)"
  by (cases x; cases y) simp_all

lemma is_double_divide [simp]: "is_double (x / y)"
  by (cases x; cases y) simp_all

text \<open>Subtracting a nonnegative number does not increase a double.\<close>

lemma diff_nonneg_le:
  assumes "is_double x" and "Fin 0 \<le> y" and "x - y \<noteq> NaN"
  shows "x - y \<le> x"
  using assms by (cases x; cases y) (auto simp: minus_dbl_def in_range_def)

text \<open>A cast to \<open>float\<close> keeps a value that is bounded by a \<open>float\<close>.\<close>

lemma to_float_bounded: "\<bar>x\<bar> \<le> Fin m \<Longrightarrow> m \<le> flt_max \<Longrightarrow> to_float x = x"
  by (auto dest!: abs_le_Fin_D intro!: in_range_Fin)

lemma to_float_abs_le: "\<bar>x\<bar> \<le> Fin m \<Longrightarrow> m \<le> flt_max \<Longrightarrow> \<bar>to_float x\<bar> \<le> Fin m"
  by (simp add: to_float_bounded)

lemma to_float_mono: "x \<le> y \<Longrightarrow> to_float x \<le> to_float y"
  by (cases x; cases y) (auto intro: in_range_mono simp: in_range_def)

end
