(* ===== verification/Messages.thy ===== *)
theory Messages
  imports Doubles
begin

text \<open>
  The DDS messages the controller reads and writes (the IDL files under
  \<open>autoware_msgs/msg\<close> and the aliases and the \<open>TrajectoryMsg\<close> structure of
  \<open>autoware_msgs/messages.hpp\<close>). Field names follow the IDL; a prefix tells apart fields
  that several messages share. IDL \<open>float\<close> and \<open>double\<close> fields are both \<open>dbl\<close>: a value
  written into a \<open>float\<close> field goes through \<open>to_float\<close>. The covariance matrices and the
  frame names, which no modelled code reads, are left out.
\<close>

section \<open>Time\<close>

record time_msg =
  sec :: i32
  nanosec :: u32

definition zero_time :: time_msg where
  "zero_time = \<lparr>sec = 0, nanosec = 0\<rparr>"

section \<open>Control commands\<close>

record lateral_msg =
  lat_stamp :: time_msg
  lat_control_time :: time_msg
  steering_tire_angle :: dbl
  steering_tire_rotation_rate :: dbl
  is_defined_steering_tire_rotation_rate :: bool

record longitudinal_msg =
  lon_stamp :: time_msg
  lon_control_time :: time_msg
  velocity :: dbl
  acceleration :: dbl
  jerk :: dbl
  is_defined_acceleration :: bool
  is_defined_jerk :: bool

record control_msg =
  ctl_stamp :: time_msg
  ctl_control_time :: time_msg
  lateral :: lateral_msg
  longitudinal :: longitudinal_msg

text \<open>Value initialisation, the \<open>{}\<close> of the code.\<close>

definition zero_lateral :: lateral_msg where
  "zero_lateral = \<lparr>lat_stamp = zero_time, lat_control_time = zero_time,
     steering_tire_angle = 0, steering_tire_rotation_rate = 0,
     is_defined_steering_tire_rotation_rate = False\<rparr>"

definition zero_longitudinal :: longitudinal_msg where
  "zero_longitudinal = \<lparr>lon_stamp = zero_time, lon_control_time = zero_time,
     velocity = 0, acceleration = 0, jerk = 0,
     is_defined_acceleration = False, is_defined_jerk = False\<rparr>"

definition zero_control :: control_msg where
  "zero_control = \<lparr>ctl_stamp = zero_time, ctl_control_time = zero_time,
     lateral = zero_lateral, longitudinal = zero_longitudinal\<rparr>"

section \<open>Geometry and trajectories\<close>

record vector3 =
  vx :: dbl
  vy :: dbl
  vz :: dbl

record quaternion =
  qx :: dbl
  qy :: dbl
  qz :: dbl
  qw :: dbl

record pose =
  position :: vector3
  orientation :: quaternion

definition zero_vector3 :: vector3 where
  "zero_vector3 = \<lparr>vx = 0, vy = 0, vz = 0\<rparr>"

definition zero_quaternion :: quaternion where
  "zero_quaternion = \<lparr>qx = 0, qy = 0, qz = 0, qw = 0\<rparr>"

definition zero_pose :: pose where
  "zero_pose = \<lparr>position = zero_vector3, orientation = zero_quaternion\<rparr>"

record trajectory_point =
  time_from_start :: time_msg
  tp_pose :: pose
  longitudinal_velocity_mps :: dbl
  lateral_velocity_mps :: dbl
  acceleration_mps2 :: dbl
  heading_rate_rps :: dbl
  front_wheel_angle_rad :: dbl
  rear_wheel_angle_rad :: dbl

definition zero_point :: trajectory_point where
  "zero_point = \<lparr>time_from_start = zero_time, tp_pose = zero_pose,
     longitudinal_velocity_mps = 0, lateral_velocity_mps = 0, acceleration_mps2 = 0,
     heading_rate_rps = 0, front_wheel_angle_rad = 0, rear_wheel_angle_rad = 0\<rparr>"

record trajectory =
  traj_stamp :: time_msg
  points :: "trajectory_point list"

definition empty_trajectory :: trajectory where
  "empty_trajectory = \<lparr>traj_stamp = zero_time, points = []\<rparr>"

section \<open>Vehicle feedback\<close>

record odometry =
  odom_stamp :: time_msg
  odom_pose :: pose
  twist_linear :: vector3
  twist_angular :: vector3

record accel_stamped =
  accel_stamp :: time_msg
  accel_linear :: vector3
  accel_angular :: vector3

record steering_report =
  steer_stamp :: time_msg
  report_steering_tire_angle :: dbl

record operation_mode =
  mode_stamp :: time_msg
  op_mode :: u8
  is_autoware_control_enabled :: bool
  is_in_transition :: bool
  is_stop_mode_available :: bool
  is_autonomous_mode_available :: bool
  is_local_mode_available :: bool
  is_remote_mode_available :: bool

definition OPERATION_MODE_STATE_AUTONOMOUS :: u8 where
  "OPERATION_MODE_STATE_AUTONOMOUS = 2"

definition zero_odometry :: odometry where
  "zero_odometry = \<lparr>odom_stamp = zero_time, odom_pose = zero_pose,
     twist_linear = zero_vector3, twist_angular = zero_vector3\<rparr>"

definition zero_accel :: accel_stamped where
  "zero_accel = \<lparr>accel_stamp = zero_time, accel_linear = zero_vector3, accel_angular = zero_vector3\<rparr>"

definition zero_steering :: steering_report where
  "zero_steering = \<lparr>steer_stamp = zero_time, report_steering_tire_angle = 0\<rparr>"

section \<open>VisionPilot inputs and the supervised output\<close>

record driving_reference =
  ref_source_stamp :: time_msg
  ref_has_source_stamp :: bool
  ref_session :: u32
  ref_cycle :: u64
  ref_valid :: bool
  path_valid :: bool
  path_a :: dbl
  path_b :: dbl
  path_c :: dbl
  path_x_max_m :: dbl
  horizon_dt_s :: dbl
  speed_horizon_mps :: "dbl list"

record driving_command =
  cmd_source_stamp :: time_msg
  cmd_has_source_stamp :: bool
  cmd_session :: u32
  cmd_cycle :: u64
  cmd_valid :: bool
  steering_tire_angle_rad :: dbl
  target_speed_mps :: dbl
  cmd_acceleration_mps2 :: dbl

record approved_request =
  apr_stamp :: time_msg
  apr_session :: u32
  output_sequence :: u64
  apr_decision :: u8
  apr_mode :: u8
  selected_source :: u8
  source_session :: u32
  source_cycle :: u64
  apr_fault_id :: u32
  control :: control_msg

lemmas zero_msg_defs =
  zero_time_def zero_lateral_def zero_longitudinal_def zero_control_def zero_vector3_def
  zero_quaternion_def zero_pose_def zero_point_def empty_trajectory_def zero_odometry_def
  zero_accel_def zero_steering_def

end
