(* ===== verification/Clock_Time.thy ===== *)
theory Clock_Time
  imports Messages "HOL-Library.Signed_Division"
begin

text \<open>
  \<open>Clock\<close> (\<open>common/clock/clock.hpp\<close>). The system clock and the steady clock are read
  outside the program: a reading is an \<open>int\<close>, the nanosecond count of its \<open>time_point\<close>,
  and the handlers of the model take the readings they make as arguments.
\<close>

definition nano_per_sec :: int where
  "nano_per_sec = 1000000000"

text \<open>\<open>std::chrono::duration<double>(d).count()\<close> of a nanosecond count.\<close>

definition seconds_of_ns :: "int \<Rightarrow> dbl" where
  "seconds_of_ns d = fl (of_int d / of_int nano_per_sec)"

text \<open>\<open>Clock::now\<close> for a system clock at \<open>ns\<close>.\<close>

definition Clock_now :: "int \<Rightarrow> dbl" where
  "Clock_now ns = seconds_of_ns ns"

text \<open>
  \<open>Clock::toRosTime\<close>. The cast of a time whose nanosecond count is not an \<open>int64_t\<close> is
  undefined in C++; the model gives the zero stamp there.
\<close>

definition toRosTime :: "dbl \<Rightarrow> time_msg" where
  "toRosTime time =
     (case cast_i64 (time * Fin (of_int nano_per_sec)) of
        None \<Rightarrow> zero_time
      | Some count \<Rightarrow> \<lparr>sec = of_int (count sdiv nano_per_sec), nanosec = of_int (count smod nano_per_sec)\<rparr>)"

text \<open>\<open>Clock::toRosDuration\<close> computes the same pair.\<close>

definition toRosDuration :: "dbl \<Rightarrow> time_msg" where
  "toRosDuration time =
     (case cast_i64 (time * Fin (of_int nano_per_sec)) of
        None \<Rightarrow> zero_time
      | Some count \<Rightarrow> \<lparr>sec = of_int (count sdiv nano_per_sec), nanosec = of_int (count smod nano_per_sec)\<rparr>)"

definition toDouble :: "time_msg \<Rightarrow> dbl" where
  "toDouble t = seconds_of_ns (sint (sec t) * nano_per_sec + uint (nanosec t))"

lemma seconds_of_ns_Fin:
  "\<bar>d\<bar> \<le> 2 ^ 63 \<Longrightarrow> seconds_of_ns d = Fin (of_int d / 1000000000)"
proof -
  assume "\<bar>d\<bar> \<le> 2 ^ 63"
  then have "\<bar>real_of_int d\<bar> \<le> 2 ^ 63"
    by (metis of_int_abs of_int_le_iff of_int_numeral of_int_power)
  then have "\<bar>real_of_int d / 1000000000\<bar> \<le> 10 ^ 30"
    by (simp add: abs_le_iff)
  then show ?thesis
    by (simp add: seconds_of_ns_def nano_per_sec_def)
qed

lemma Clock_now_finite: "\<bar>ns\<bar> \<le> 2 ^ 63 \<Longrightarrow> isfinite (Clock_now ns)"
  by (simp add: Clock_now_def seconds_of_ns_Fin)

lemma seconds_of_ns_mono: "d \<le> e \<Longrightarrow> seconds_of_ns d \<le> seconds_of_ns e"
  unfolding seconds_of_ns_def nano_per_sec_def
  by (rule in_range_mono) (simp_all add: divide_right_mono)

text \<open>\<open>toRosTime\<close> of a clock reading splits its nanosecond count exactly.\<close>

lemma toRosTime_Clock_now:
  assumes "0 \<le> ns" and "ns < 2 ^ 63"
  shows "toRosTime (Clock_now ns) = \<lparr>sec = of_int (ns div nano_per_sec), nanosec = of_int (ns mod nano_per_sec)\<rparr>"
proof -
  have now: "Clock_now ns = Fin (of_int ns / 1000000000)"
    using assms by (simp add: Clock_now_def seconds_of_ns_Fin)
  have "\<bar>real_of_int ns\<bar> \<le> 10 ^ 30"
  proof -
    have "real_of_int ns < 2 ^ 63"
      using assms(2) by (metis of_int_less_iff of_int_numeral of_int_power)
    then show ?thesis using assms(1) by simp
  qed
  then have "Clock_now ns * Fin (of_int nano_per_sec) = Fin (of_int ns)"
    by (simp add: now nano_per_sec_def)
  then have "cast_i64 (Clock_now ns * Fin (of_int nano_per_sec)) = Some ns"
    using assms by (simp add: cast_int_def trunc_def)
  then show ?thesis
    using assms
    by (cases "ns = 0")
      (simp_all add: toRosTime_def nano_per_sec_def signed_divide_int_def signed_modulo_int_def)
qed

text \<open>Until the 32-bit second count wraps, a stamp written from the clock reads back as the
  same time.\<close>

lemma toDouble_toRosTime:
  assumes "0 \<le> ns" and "ns < 2 ^ 31 * nano_per_sec"
  shows "toDouble (toRosTime (Clock_now ns)) = Clock_now ns"
proof -
  have lt: "ns < 2 ^ 63"
    using assms(2) by (simp add: nano_per_sec_def)
  define q where "q = ns div nano_per_sec"
  define r where "r = ns mod nano_per_sec"
  have q: "0 \<le> q" "q < 2 ^ 31" and r: "0 \<le> r" "r < 2 ^ 32"
    using assms by (auto simp: q_def r_def nano_per_sec_def)
  have "sint (of_int q :: i32) = q"
    using q by (simp add: sint_sbintrunc' signed_take_bit_int_eq_self)
  moreover have "uint (of_int r :: u32) = r"
    using r by (simp add: word_of_int_inverse)
  moreover have "q * nano_per_sec + r = ns"
    by (simp add: q_def r_def)
  ultimately have "toDouble (toRosTime (Clock_now ns)) = seconds_of_ns ns"
    using assms(1) lt by (simp add: toRosTime_Clock_now toDouble_def flip: q_def r_def)
  then show ?thesis by (simp add: Clock_now_def)
qed

end
