(* ===== verification/Supervision.thy ===== *)
theory Supervision
  imports Clock_Time
begin

text \<open>
  The supervision primitives of the Safety Island
  (\<open>trajectory_follower_node/supervision_latch.hpp\<close> and \<open>supervision.hpp\<close>): the session
  identity, the fault latch, the speed ramp of an SI stop, the operator's re-enable request,
  the arrival watch of one source, the actuation envelope and the stop payload.
\<close>

section \<open>Session identity\<close>

text \<open>\<open>siSessionFromClock\<close>; \<open>None\<close> where the cast to \<open>uint64_t\<close> is undefined.\<close>

definition siSessionFromClock :: "dbl \<Rightarrow> u32 option" where
  "siSessionFromClock now_seconds =
     (case cast_u64 (now_seconds * Fin 1000) of
        None \<Rightarrow> None
      | Some ms \<Rightarrow>
          let session = ucast ((of_int ms :: u64) AND 0x7fffffff) :: u32
          in Some (if session = 0 then 1 else session))"

section \<open>The fault latch\<close>

record supervision_state =
  latched :: bool
  fault_id :: u32
  reason :: string

definition init_supervision :: supervision_state where
  "init_supervision = \<lparr>latched = False, fault_id = 0, reason = []\<rparr>"

definition latch :: "string \<Rightarrow> supervision_state \<Rightarrow> supervision_state" where
  "latch why s =
     (let s = (if \<not> latched s then s\<lparr>fault_id := fault_id s + 1\<rparr> else s)
      in s\<lparr>latched := True, reason := why\<rparr>)"

text \<open>
  \<open>stopThisTick\<close>: the result, the new state, and the request flag it takes by reference.
\<close>

definition stopThisTick ::
  "supervision_state \<Rightarrow> bool \<Rightarrow> bool \<Rightarrow> bool \<times> supervision_state \<times> bool" where
  "stopThisTick s reenable_requested all_sources_fresh =
     (if \<not> latched s then (False, s, reenable_requested)
      else if reenable_requested \<and> all_sources_fresh
      then (False, s\<lparr>latched := False, reason := []\<rparr>, False)
      else (True, s, reenable_requested))"

section \<open>The stop ramp\<close>

definition stopRampVelocity :: "dbl \<Rightarrow> dbl \<Rightarrow> dbl \<Rightarrow> dbl \<Rightarrow> dbl" where
  "stopRampVelocity v0_mps decel_mps2 elapsed_s max_v0_mps =
     (if \<not> (v0_mps \<le> max_v0_mps) then Fin 0
      else let v = v0_mps - decel_mps2 * elapsed_s in if v > Fin 0 then v else Fin 0)"

section \<open>The re-enable request\<close>

record reenable_request =
  pending :: bool
  requested_at :: dbl

definition init_reenable :: reenable_request where
  "init_reenable = \<lparr>pending = False, requested_at = Fin 0\<rparr>"

definition request :: "dbl \<Rightarrow> reenable_request \<Rightarrow> reenable_request" where
  "request now r = r\<lparr>pending := True, requested_at := now\<rparr>"

definition clear :: "reenable_request \<Rightarrow> reenable_request" where
  "clear r = r\<lparr>pending := False\<rparr>"

definition expireIfOld :: "dbl \<Rightarrow> dbl \<Rightarrow> reenable_request \<Rightarrow> bool \<times> reenable_request" where
  "expireIfOld now window_s r =
     (if pending r \<and> now - requested_at r > window_s then (True, r\<lparr>pending := False\<rparr>)
      else (False, r))"

section \<open>Arrival watch of one source\<close>

record source_watch =
  last_arrival :: dbl

definition init_watch :: source_watch where
  "init_watch = \<lparr>last_arrival = Fin (-1)\<rparr>"

definition note_arrival :: "dbl \<Rightarrow> source_watch \<Rightarrow> source_watch" where
  "note_arrival now w = w\<lparr>last_arrival := now\<rparr>"

definition ever :: "source_watch \<Rightarrow> bool" where
  "ever w \<longleftrightarrow> last_arrival w \<ge> Fin 0"

definition ageSec :: "source_watch \<Rightarrow> dbl \<Rightarrow> dbl" where
  "ageSec w now = (let last = last_arrival w in if last \<ge> Fin 0 then now - last else Fin (-1))"

definition stale :: "source_watch \<Rightarrow> dbl \<Rightarrow> dbl \<Rightarrow> bool" where
  "stale w now timeout_sec \<longleftrightarrow>
     (let last = last_arrival w in last \<ge> Fin 0 \<and> now - last > timeout_sec)"

section \<open>Stop origin\<close>

text \<open>\<open>StopRamp\<close>; the steady clock's \<open>time_point\<close>s are nanosecond counts.\<close>

record stop_ramp =
  v0_mps :: dbl
  started_at :: int

definition init_ramp :: stop_ramp where
  "init_ramp = \<lparr>v0_mps = Fin 0, started_at = 0\<rparr>"

definition start_ramp ::
  "dbl \<Rightarrow> source_watch \<Rightarrow> dbl \<Rightarrow> dbl \<Rightarrow> int \<Rightarrow> stop_ramp \<Rightarrow> stop_ramp" where
  "start_ramp ego_velocity_mps odometry arrival_now odometry_timeout_s monotonic_now r =
     r\<lparr>v0_mps := (if ever odometry \<and> \<not> stale odometry arrival_now odometry_timeout_s
                 then ego_velocity_mps else Fin 0),
       started_at := monotonic_now\<rparr>"

definition ramp_velocity :: "stop_ramp \<Rightarrow> dbl \<Rightarrow> dbl \<Rightarrow> int \<Rightarrow> dbl" where
  "ramp_velocity r decel_mps2 max_v0_mps now =
     stopRampVelocity (v0_mps r) decel_mps2 (seconds_of_ns (now - started_at r)) max_v0_mps"

section \<open>The actuation envelope\<close>

record envelope =
  max_steering_rad :: dbl
  max_abs_velocity_mps :: dbl
  max_abs_accel_mps2 :: dbl

text \<open>\<open>nullptr\<close> is \<open>None\<close>.\<close>

definition envelopeViolation :: "dbl \<Rightarrow> dbl \<Rightarrow> dbl \<Rightarrow> envelope \<Rightarrow> string option" where
  "envelopeViolation steering_rad velocity_mps accel_mps2 limits =
     (if \<not> (\<bar>steering_rad\<bar> \<le> max_steering_rad limits) then Some ''steering out of range''
      else if \<not> (\<bar>velocity_mps\<bar> \<le> max_abs_velocity_mps limits) then Some ''speed out of range''
      else if \<not> (\<bar>accel_mps2\<bar> \<le> max_abs_accel_mps2 limits) then Some ''accel out of range''
      else None)"

section \<open>Decisions and the stop payload\<close>

datatype decision = NORMAL | SI_STOP | HOLD

datatype supervision_mode = SI_CONTROL | VP_CONTROL

datatype selected_src = FOLLOWER | VP_COMMAND

fun decision_octet :: "decision \<Rightarrow> u8" where
  "decision_octet NORMAL = 0"
| "decision_octet SI_STOP = 1"
| "decision_octet HOLD = 2"

fun mode_octet :: "supervision_mode \<Rightarrow> u8" where
  "mode_octet SI_CONTROL = 0"
| "mode_octet VP_CONTROL = 1"

fun source_octet :: "selected_src \<Rightarrow> u8" where
  "source_octet FOLLOWER = 0"
| "source_octet VP_COMMAND = 1"

text \<open>\<open>StopControl::operator()\<close>; the pointer to the last approved command is an option.\<close>

definition StopControl :: "control_msg option \<Rightarrow> dbl \<Rightarrow> control_msg" where
  "StopControl last_approved stop_accel_mps2 =
     (let out = zero_control;
          out = (case last_approved of None \<Rightarrow> out | Some la \<Rightarrow> out\<lparr>lateral := lateral la\<rparr>)
      in out\<lparr>longitudinal := (longitudinal out)
               \<lparr>velocity := Fin 0, acceleration := - stop_accel_mps2,
                is_defined_acceleration := True\<rparr>\<rparr>)"

lemmas supervision_defs [op_defs] =
  init_supervision_def latch_def stopThisTick_def init_reenable_def request_def clear_def
  expireIfOld_def init_watch_def note_arrival_def ever_def ageSec_def stale_def
  init_ramp_def start_ramp_def

section \<open>The latch\<close>

lemma latch_latched [simp]: "latched (latch why s)" "reason (latch why s) = why"
  by (simp_all add: latch_def Let_def)

lemma latch_fault_id: "fault_id (latch why s) = (if latched s then fault_id s else fault_id s + 1)"
  by (simp add: latch_def Let_def)

lemma stopThisTick_unlatched: "\<not> latched s \<Longrightarrow> stopThisTick s req fresh = (False, s, req)"
  by (simp add: stopThisTick_def)

lemma stopThisTick_latched:
  "latched s \<Longrightarrow> stopThisTick s req fresh =
     (if req \<and> fresh then (False, s\<lparr>latched := False, reason := []\<rparr>, False) else (True, s, req))"
  by (simp add: stopThisTick_def)

text \<open>The tick stops exactly as long as the state it leaves is latched.\<close>

lemma stopThisTick_iff_latched:
  "stopThisTick s req fresh = (stop, s', req') \<Longrightarrow> stop = latched s'"
  by (auto simp: stopThisTick_def split: if_splits)

lemma stopThisTick_fault_id:
  "stopThisTick s req fresh = (stop, s', req') \<Longrightarrow> fault_id s' = fault_id s"
  by (auto simp: stopThisTick_def split: if_splits)

section \<open>Ages and staleness\<close>

text \<open>
  The contract of an arrival watch: an age is counted from the last recorded arrival and
  from nothing else. Its client facts are about a source that was recorded at the times of a
  list, in that order.
\<close>

locale arrival_watch =
  fixes arrive :: "dbl \<Rightarrow> 'w \<Rightarrow> 'w"
    and seen :: "'w \<Rightarrow> bool"
    and too_old :: "'w \<Rightarrow> dbl \<Rightarrow> dbl \<Rightarrow> bool"
  assumes seen_arrive: "Fin 0 \<le> t \<Longrightarrow> seen (arrive t w)"
    and too_old_seen: "too_old w now limit \<Longrightarrow> seen w"
    and too_old_arrive: "Fin 0 \<le> t \<Longrightarrow> too_old (arrive t w) now limit \<longleftrightarrow> limit < now - t"
begin

lemma too_old_last:
  assumes "ts \<noteq> []" and "\<forall>t \<in> set ts. Fin 0 \<le> t"
  shows "too_old (fold arrive ts w) now limit \<longleftrightarrow> limit < now - last ts"
  using assms by (induction ts arbitrary: w rule: rev_induct) (auto simp: too_old_arrive)

lemma seen_last: "ts \<noteq> [] \<Longrightarrow> \<forall>t \<in> set ts. Fin 0 \<le> t \<Longrightarrow> seen (fold arrive ts w)"
  by (induction ts arbitrary: w rule: rev_induct) (auto simp: seen_arrive)

lemma not_too_old_on_arrival:
  "Fin 0 \<le> Fin r \<Longrightarrow> Fin 0 \<le> limit \<Longrightarrow> \<not> too_old (arrive (Fin r) w) (Fin r) limit"
  by (cases limit) (auto simp: too_old_arrive minus_dbl_def)

text \<open>A source that is too old stays so while nothing arrives.\<close>

lemma too_old_mono:
  assumes "too_old (arrive (Fin r) w) now limit" and "0 \<le> r" and "now \<le> now'"
  shows "too_old (arrive (Fin r) w) now' limit"
proof -
  have "limit < now - Fin r"
    using assms(1,2) by (simp add: too_old_arrive)
  moreover have "now - Fin r \<le> now' - Fin r"
    using assms(3) by (rule diff_Fin_mono)
  ultimately have "limit < now' - Fin r"
    by (rule dbl_less_le_trans)
  then show ?thesis
    using assms(2) by (simp add: too_old_arrive)
qed

end

interpretation watch: arrival_watch note_arrival ever stale
  by unfold_locales (auto simp: note_arrival_def ever_def stale_def Let_def)

lemma never_seen_not_stale: "\<not> ever w \<Longrightarrow> \<not> stale w now limit"
  using watch.too_old_seen by blast

lemma no_age_limit_not_stale: "\<not> stale w now PInf"
  by (simp add: stale_def Let_def)

lemma ageSec_stale: "stale w now limit \<longleftrightarrow> ever w \<and> limit < ageSec w now"
  by (auto simp: stale_def ageSec_def ever_def Let_def)

section \<open>The ramp\<close>

lemma stopRampVelocity_nonneg: "Fin 0 \<le> stopRampVelocity v0 decel elapsed max_v0"
  by (auto simp: stopRampVelocity_def Let_def dest: dbl_less_imp_le)

lemma stopRampVelocity_le:
  assumes "is_double v0" and "Fin 0 \<le> decel" "isfinite decel" and "Fin 0 \<le> elapsed" "isfinite elapsed"
  shows "stopRampVelocity v0 decel elapsed max_v0 = Fin 0
      \<or> stopRampVelocity v0 decel elapsed max_v0 \<le> v0 \<and> v0 \<le> max_v0"
proof -
  have "Fin 0 \<le> decel * elapsed"
    using assms(2-5) by (auto simp: isfinite_iff in_range_nonneg)
  then have "Fin 0 < v0 - decel * elapsed \<Longrightarrow> v0 - decel * elapsed \<le> v0"
    using assms(1) by (intro diff_nonneg_le) auto
  then show ?thesis
    by (auto simp: stopRampVelocity_def Let_def)
qed

lemma stopRampVelocity_antimono:
  assumes "isfinite v0" "Fin 0 \<le> decel" "isfinite decel"
    and "isfinite e1" "isfinite e2" "e1 \<le> e2"
  shows "stopRampVelocity v0 decel e2 max_v0 \<le> stopRampVelocity v0 decel e1 max_v0"
proof -
  obtain v d a b where vals: "v0 = Fin v" "decel = Fin d" "e1 = Fin a" "e2 = Fin b"
    and ord: "0 \<le> d" "a \<le> b"
    using assms by (auto simp: isfinite_iff)
  have "decel * e1 \<le> decel * e2"
    unfolding vals using ord by (intro Fin_mult_mono) simp_all
  then have le: "v0 - decel * e2 \<le> v0 - decel * e1"
    unfolding vals by (rule Fin_diff_antimono)
  show ?thesis
    using le by (auto simp: stopRampVelocity_def Let_def intro: dbl_less_imp_le
        dest: dbl_less_le_trans)
qed

section \<open>The envelope\<close>

lemma envelopeViolation_None_iff:
  "envelopeViolation s v a limits = None \<longleftrightarrow>
     \<bar>s\<bar> \<le> max_steering_rad limits \<and> \<bar>v\<bar> \<le> max_abs_velocity_mps limits
     \<and> \<bar>a\<bar> \<le> max_abs_accel_mps2 limits"
  by (simp add: envelopeViolation_def)

text \<open>With finite limits, a command inside the envelope has no infinity and no NaN.\<close>

lemma envelope_inside_finite:
  assumes "envelopeViolation s v a limits = None"
    and "isfinite (max_steering_rad limits)" "isfinite (max_abs_velocity_mps limits)"
      "isfinite (max_abs_accel_mps2 limits)"
  shows "isfinite s \<and> isfinite v \<and> isfinite a"
  using assms by (auto simp: envelopeViolation_None_iff isfinite_iff dest!: abs_le_Fin_D)

end
