(* ===== verification/Ring.thy ===== *)
theory Ring
  imports Prelude
begin

text \<open>
  Ring buffers. The code keeps two of them (\<open>VpCandidateIdentity\<close>'s retired sessions and
  \<open>EgoHistory\<close>), each as an array, the next slot to write and a count that stops at the
  array's size. This theory says what such a triple holds, newest entry first, and gives the
  contract under which clients use it.
\<close>

section \<open>The layout\<close>

definition ring_ok :: "nat \<Rightarrow> 'a list \<Rightarrow> nat \<Rightarrow> nat \<Rightarrow> bool" where
  "ring_ok n buf nxt cnt \<longleftrightarrow>
     length buf = n \<and> 0 < n \<and> nxt < n \<and> cnt \<le> n \<and> (cnt < n \<longrightarrow> nxt = cnt)"

definition ring_list :: "'a list \<Rightarrow> nat \<Rightarrow> nat \<Rightarrow> 'a list" where
  "ring_list buf nxt cnt =
     map (\<lambda>k. buf ! ((nxt + length buf - 1 - k) mod length buf)) [0..<cnt]"

lemma ring_ok_push:
  "ring_ok n buf nxt cnt \<Longrightarrow>
     ring_ok n (buf[nxt := x]) ((nxt + 1) mod n) (if cnt < n then cnt + 1 else cnt)"
  by (auto simp: ring_ok_def mod_if)

lemma length_ring_list [simp]: "length (ring_list buf nxt cnt) = cnt"
  by (simp add: ring_list_def)

lemma ring_list_nth:
  "ring_ok n buf nxt cnt \<Longrightarrow> k < cnt \<Longrightarrow>
     ring_list buf nxt cnt ! k = buf ! (if k < nxt then nxt - 1 - k else nxt + n - 1 - k)"
  using mod_ring_back [of nxt n k] by (auto simp: ring_list_def ring_ok_def)

text \<open>Writing the next slot pushes at the front and drops what exceeds the capacity.\<close>

lemma ring_list_push:
  assumes ok: "ring_ok n buf nxt cnt"
  shows "ring_list (buf[nxt := x]) ((nxt + 1) mod n) (if cnt < n then cnt + 1 else cnt)
       = take n (x # ring_list buf nxt cnt)" (is "?l = ?r")
proof (rule nth_equalityI)
  have facts: "length buf = n" "0 < n" "nxt < n" "cnt \<le> n" "cnt < n \<longrightarrow> nxt = cnt"
    using ok by (auto simp: ring_ok_def)
  show "length ?l = length ?r"
    using facts by auto
  fix k
  assume "k < length ?l"
  then have k: "k < (if cnt < n then cnt + 1 else cnt)" by simp
  note nth = ring_list_nth [OF ring_ok_push [OF ok, of x] k]
  show "?l ! k = ?r ! k"
  proof (cases k)
    case 0
    have "(if 0 < (nxt + 1) mod n then (nxt + 1) mod n - 1 - 0 else (nxt + 1) mod n + n - 1 - 0) = nxt"
      using facts by (cases "Suc nxt = n") auto
    then have "?l ! 0 = x"
      using nth facts unfolding 0 by simp
    then show ?thesis
      using facts 0 by (simp add: take_Cons')
  next
    case (Suc j)
    then have j: "j < cnt" "j + 1 < n"
      using k facts by (auto split: if_splits)
    have "?r ! k = buf ! (if j < nxt then nxt - 1 - j else nxt + n - 1 - j)"
      using Suc j facts ring_list_nth [OF ok j(1)] by simp
    moreover have "?l ! k = buf ! (if j < nxt then nxt - 1 - j else nxt + n - 1 - j)"
    proof (cases "Suc nxt = n")
      case True
      then show ?thesis
        unfolding nth using Suc j facts by (auto simp: nth_list_update)
    next
      case False
      then show ?thesis
        unfolding nth using Suc j facts by (auto simp: nth_list_update)
    qed
    ultimately show ?thesis by simp
  qed
qed

text \<open>A scan of the first \<open>cnt\<close> slots sees exactly the entries of the ring.\<close>

lemma set_ring_list:
  assumes ok: "ring_ok n buf nxt cnt"
  shows "set (ring_list buf nxt cnt) = set (take cnt buf)"
proof (cases "cnt < n")
  case True
  then have "nxt = cnt" "length buf = n"
    using ok by (auto simp: ring_ok_def)
  then have "ring_list buf nxt cnt = rev (take cnt buf)"
  proof (intro nth_equalityI)
    fix i
    assume "i < length (ring_list buf nxt cnt)"
    then have i: "i < cnt" by simp
    show "ring_list buf nxt cnt ! i = rev (take cnt buf) ! i"
      using i ring_list_nth [OF ok i] \<open>nxt = cnt\<close> \<open>length buf = n\<close> True
      by (simp add: rev_nth)
  qed (use ok in \<open>auto simp: ring_ok_def\<close>)
  then show ?thesis by simp
next
  case False
  then have facts: "cnt = n" "length buf = n" "nxt < n" "0 < n"
    using ok by (auto simp: ring_ok_def)
  have "buf ! i \<in> set (ring_list buf nxt cnt)" if "i < n" for i
  proof -
    define k where "k = (if i < nxt then nxt - 1 - i else nxt + n - 1 - i)"
    have "k < cnt" "(if k < nxt then nxt - 1 - k else nxt + n - 1 - k) = i"
      using that facts by (auto simp: k_def)
    then have "ring_list buf nxt cnt ! k = buf ! i"
      using ring_list_nth [OF ok, of k] by simp
    then show ?thesis
      using \<open>k < cnt\<close> by (metis length_ring_list nth_mem)
  qed
  moreover have "set (ring_list buf nxt cnt) \<subseteq> set buf"
    using facts by (auto simp: ring_list_def intro!: nth_mem mod_less_divisor)
  ultimately show ?thesis
    using facts by (auto simp: in_set_conv_nth)
qed

section \<open>The contract\<close>

text \<open>
  A bounded log: pushing keeps the last \<open>cap\<close> entries, newest first. Clients reason about
  the abstract list only.
\<close>

locale bounded_log =
  fixes push :: "'a \<Rightarrow> 'r \<Rightarrow> 'r"
    and entries :: "'r \<Rightarrow> 'a list"
    and good :: "'r \<Rightarrow> bool"
    and cap :: nat
  assumes good_push: "good r \<Longrightarrow> good (push x r)"
    and entries_push: "good r \<Longrightarrow> entries (push x r) = take cap (x # entries r)"
begin

lemma good_pushes: "good r \<Longrightarrow> good (fold push xs r)"
  by (induction xs arbitrary: r) (auto intro: good_push)

lemma entries_pushes: "good r \<Longrightarrow> entries (fold push xs r) = take cap (rev xs @ take cap (entries r))
    \<or> xs = []"
proof (induction xs rule: rev_induct)
  case (snoc x xs)
  have "entries (fold push (xs @ [x]) r) = take cap (x # entries (fold push xs r))"
    using snoc.prems by (simp add: entries_push good_pushes)
  also have "\<dots> = take cap (x # take cap (rev xs @ take cap (entries r)))"
    using snoc by (cases "xs = []") (auto simp: take_Cons' min_def)
  also have "\<dots> = take cap (rev (xs @ [x]) @ take cap (entries r))"
    by (cases cap) (auto simp: min_def)
  finally show ?case by simp
qed simp

text \<open>An entry is kept until \<open>cap\<close> further entries have been pushed.\<close>

lemma kept:
  assumes "good r" and "length ys < cap"
  shows "x \<in> set (entries (fold push (x # ys) r))"
proof -
  have "entries (fold push (x # ys) r) = take cap (rev (x # ys) @ take cap (entries r))"
    using entries_pushes [OF assms(1), of "x # ys"] by simp
  then show ?thesis
    using assms(2) by (simp add: take_Cons')
qed

text \<open>Nothing enters the log but what was pushed.\<close>

lemma only_pushed:
  assumes "good r" and "x \<in> set (entries (fold push xs r))"
  shows "x \<in> set xs \<or> x \<in> set (entries r)"
  using entries_pushes [OF assms(1), of xs] assms(2)
  by (auto dest!: in_set_takeD)

end

end
