(* ===== verification/Candidate_Identity.thy ===== *)
theory Candidate_Identity
  imports Ring
begin

text \<open>
  The replay gate of the candidate sources
  (\<open>trajectory_follower_node/candidate_identity.hpp\<close>): which VisionPilot sample or Autoware
  trajectory is new, which repeats the accepted one, and which goes back in time.

  \<open>retired_count_\<close> and \<open>retired_next_\<close> are \<open>nat\<close>: they stay at most 16.
\<close>

section \<open>Stamps\<close>

record source_stamp =
  ss_sec :: i32
  ss_nanosec :: u32

datatype candidate_check = ACCEPT | DUPLICATE | REGRESSION | INVALID_STAMP

definition stamp_equal :: "source_stamp \<Rightarrow> source_stamp \<Rightarrow> bool" where
  "stamp_equal a b \<longleftrightarrow> ss_sec a = ss_sec b \<and> ss_nanosec a = ss_nanosec b"

definition stamp_later :: "source_stamp \<Rightarrow> source_stamp \<Rightarrow> bool" where
  "stamp_later a b \<longleftrightarrow>
     sint (ss_sec a) > sint (ss_sec b) \<or> (ss_sec a = ss_sec b \<and> ss_nanosec a > ss_nanosec b)"

definition invalid_stamp :: "source_stamp \<Rightarrow> bool" where
  "invalid_stamp s \<longleftrightarrow> sint (ss_sec s) < 0 \<or> ss_nanosec s \<ge> 1000000000"

section \<open>\<open>VpCandidateIdentity\<close>\<close>

record vp_identity =
  vp_seen :: bool
  vp_session :: u32
  vp_cycle :: u64
  vp_stamp :: source_stamp
  retired_sessions :: "u32 list"
  retired_count :: nat
  retired_next :: nat

definition init_vp_identity :: vp_identity where
  "init_vp_identity = \<lparr>vp_seen = False, vp_session = 0, vp_cycle = 0,
     vp_stamp = \<lparr>ss_sec = 0, ss_nanosec = 0\<rparr>,
     retired_sessions = replicate 16 0, retired_count = 0, retired_next = 0\<rparr>"

definition vp_check :: "vp_identity \<Rightarrow> u32 \<Rightarrow> u64 \<Rightarrow> source_stamp \<Rightarrow> candidate_check" where
  "vp_check s session cycle stamp =
     (if invalid_stamp stamp then INVALID_STAMP
      else if \<not> vp_seen s then ACCEPT
      else if session \<in> set (take (retired_count s) (retired_sessions s)) then REGRESSION
      else if session = vp_session s \<and> cycle \<le> vp_cycle s then
        (if cycle = vp_cycle s \<and> stamp_equal stamp (vp_stamp s) then DUPLICATE else REGRESSION)
      else if stamp_equal stamp (vp_stamp s) then DUPLICATE
      else if stamp_later stamp (vp_stamp s) then ACCEPT else REGRESSION)"

definition retire_session :: "u32 \<Rightarrow> vp_identity \<Rightarrow> vp_identity" where
  "retire_session old s =
     s\<lparr>retired_sessions := (retired_sessions s)[retired_next s := old],
       retired_next := (retired_next s + 1) mod 16,
       retired_count := (if retired_count s < 16 then retired_count s + 1 else retired_count s)\<rparr>"

definition vp_note :: "u32 \<Rightarrow> u64 \<Rightarrow> source_stamp \<Rightarrow> vp_identity \<Rightarrow> vp_identity" where
  "vp_note session cycle stamp s =
     (let s = (if vp_seen s \<and> session \<noteq> vp_session s then retire_session (vp_session s) s else s)
      in s\<lparr>vp_session := session, vp_cycle := cycle, vp_stamp := stamp, vp_seen := True\<rparr>)"

section \<open>\<open>AutowareTrajectoryIdentity\<close>\<close>

record autoware_identity =
  aw_seen :: bool
  aw_stamp :: source_stamp

definition init_autoware_identity :: autoware_identity where
  "init_autoware_identity = \<lparr>aw_seen = False, aw_stamp = \<lparr>ss_sec = 0, ss_nanosec = 0\<rparr>\<rparr>"

definition aw_check :: "autoware_identity \<Rightarrow> source_stamp \<Rightarrow> candidate_check" where
  "aw_check s stamp =
     (if invalid_stamp stamp then INVALID_STAMP
      else if \<not> aw_seen s \<or> sint (ss_sec stamp) > sint (ss_sec (aw_stamp s))
        \<or> (ss_sec stamp = ss_sec (aw_stamp s) \<and> ss_nanosec stamp > ss_nanosec (aw_stamp s))
      then ACCEPT
      else if ss_sec stamp = ss_sec (aw_stamp s) \<and> ss_nanosec stamp = ss_nanosec (aw_stamp s)
      then DUPLICATE else REGRESSION)"

definition aw_note :: "source_stamp \<Rightarrow> autoware_identity \<Rightarrow> autoware_identity" where
  "aw_note stamp s = s\<lparr>aw_stamp := stamp, aw_seen := True\<rparr>"

section \<open>Stamps are ordered by their time\<close>

definition stamp_key :: "source_stamp \<Rightarrow> int" where
  "stamp_key s = sint (ss_sec s) * 2 ^ 32 + uint (ss_nanosec s)"

lemma uint32_bounds: "0 \<le> uint (w :: u32)" "uint (w :: u32) < 2 ^ 32"
  using uint_lt2p [of w] by simp_all

lemma sint_eq_iff: "sint (v :: i32) = sint w \<longleftrightarrow> v = w"
  by (auto intro: signed_word_eqI)

lemma lex_key_less:
  fixes x y u v :: int
  assumes "0 \<le> u" "u < 2 ^ 32" "0 \<le> v" "v < 2 ^ 32"
  shows "x * 2 ^ 32 + u < y * 2 ^ 32 + v \<longleftrightarrow> x < y \<or> x = y \<and> u < v"
proof (cases x y rule: linorder_cases)
  case less
  then have "(x + 1) * 2 ^ 32 \<le> y * 2 ^ 32" by (intro mult_right_mono) auto
  then show ?thesis using less assms by simp
next
  case greater
  then have "(y + 1) * 2 ^ 32 \<le> x * 2 ^ 32" by (intro mult_right_mono) auto
  then show ?thesis using greater assms by simp
qed simp

lemma lex_key_eq:
  fixes x y u v :: int
  assumes "0 \<le> u" "u < 2 ^ 32" "0 \<le> v" "v < 2 ^ 32"
  shows "x * 2 ^ 32 + u = y * 2 ^ 32 + v \<longleftrightarrow> x = y \<and> u = v"
  using lex_key_less [OF assms, of x y] lex_key_less [OF assms(3,4,1,2), of y x] by auto

lemma stamp_later_key: "stamp_later a b \<longleftrightarrow> stamp_key b < stamp_key a"
  unfolding stamp_later_def stamp_key_def lex_key_less [OF uint32_bounds uint32_bounds]
  by (auto simp: word_less_def sint_eq_iff)

lemma stamp_equal_key: "stamp_equal a b \<longleftrightarrow> stamp_key a = stamp_key b"
  unfolding stamp_equal_def stamp_key_def lex_key_eq [OF uint32_bounds uint32_bounds]
  by (auto simp: sint_eq_iff intro: word_uint_eqI)

section \<open>The contract of a candidate gate\<close>

text \<open>
  The callbacks offer each sample to \<open>check\<close> and call \<open>note\<close> only for a sample that
  \<open>check\<close> accepts and that passes their further validation (the flag of the offer).
\<close>

fun taken ::
  "('s \<Rightarrow> 'c \<Rightarrow> candidate_check) \<Rightarrow> ('c \<Rightarrow> 's \<Rightarrow> 's) \<Rightarrow> 's \<Rightarrow> ('c \<times> bool) list \<Rightarrow> 'c list" where
  "taken chk nt s [] = []"
| "taken chk nt s ((c, usable) # cs) =
     (if chk s c = ACCEPT \<and> usable then c # taken chk nt (nt c s) cs else taken chk nt s cs)"

locale candidate_gate =
  fixes chk :: "'s \<Rightarrow> 'c \<Rightarrow> candidate_check"
    and nt :: "'c \<Rightarrow> 's \<Rightarrow> 's"
    and latest :: "'s \<Rightarrow> 'c option"
    and key :: "'c \<Rightarrow> int"
  assumes latest_nt: "latest (nt c s) = Some c"
    and accept_newer: "chk s c = ACCEPT \<Longrightarrow> latest s = Some d \<Longrightarrow> key d < key c"
begin

lemma taken_newer: "latest s = Some d \<Longrightarrow> c \<in> set (taken chk nt s cs) \<Longrightarrow> key d < key c"
proof (induction cs arbitrary: s d)
  case (Cons p cs)
  obtain c' usable where p: "p = (c', usable)" by (cases p)
  show ?case
  proof (cases "chk s c' = ACCEPT \<and> usable")
    case True
    then have "key d < key c'"
      using Cons.prems(1) by (auto intro: accept_newer)
    moreover have "c = c' \<or> key c' < key c"
      using True Cons.prems(2) Cons.IH [OF latest_nt] by (auto simp: p)
    ultimately show ?thesis by auto
  next
    case False
    then have "taken chk nt s (p # cs) = taken chk nt s cs" by (auto simp: p)
    then show ?thesis
      using Cons.prems Cons.IH by simp
  qed
qed simp

lemma taken_increasing: "sorted_wrt (\<lambda>a b. key a < key b) (taken chk nt s cs)"
  by (induction cs arbitrary: s) (auto intro: taken_newer [OF latest_nt] split: prod.splits)

lemma taken_distinct: "distinct (taken chk nt s cs)"
proof -
  have "sorted_wrt (<) (map key (taken chk nt s cs))"
    using taken_increasing by (simp add: sorted_wrt_map)
  then have "distinct (map key (taken chk nt s cs))"
    by (simp add: strict_sorted_iff)
  then show ?thesis
    by (simp add: distinct_map)
qed

text \<open>Whatever was taken, it and everything as old as it is refused from then on.\<close>

lemma no_replay:
  assumes "key c \<le> key d" and "latest s = Some d"
  shows "chk s c \<noteq> ACCEPT"
  using assms accept_newer by fastforce

end

section \<open>Both identities keep the contract\<close>

type_synonym vp_candidate = "u32 \<times> u64 \<times> source_stamp"

definition vp_offer :: "vp_identity \<Rightarrow> vp_candidate \<Rightarrow> candidate_check" where
  "vp_offer s c = (case c of (session, cycle, stamp) \<Rightarrow> vp_check s session cycle stamp)"

definition vp_take :: "vp_candidate \<Rightarrow> vp_identity \<Rightarrow> vp_identity" where
  "vp_take c s = (case c of (session, cycle, stamp) \<Rightarrow> vp_note session cycle stamp s)"

definition vp_latest :: "vp_identity \<Rightarrow> vp_candidate option" where
  "vp_latest s = (if vp_seen s then Some (vp_session s, vp_cycle s, vp_stamp s) else None)"

definition cand_key :: "vp_candidate \<Rightarrow> int" where
  "cand_key c = stamp_key (snd (snd c))"

definition aw_latest :: "autoware_identity \<Rightarrow> source_stamp option" where
  "aw_latest s = (if aw_seen s then Some (aw_stamp s) else None)"

lemma vp_check_accept_later:
  "vp_check s session cycle stamp = ACCEPT \<Longrightarrow> vp_seen s \<Longrightarrow> stamp_later stamp (vp_stamp s)"
  by (auto simp: vp_check_def split: if_splits)

lemma aw_check_accept_later:
  "aw_check s stamp = ACCEPT \<Longrightarrow> aw_seen s \<Longrightarrow> stamp_later stamp (aw_stamp s)"
  by (auto simp: aw_check_def stamp_later_def split: if_splits)

lemma vp_note_fields [simp]:
  "vp_seen (vp_note se cy st s)" "vp_session (vp_note se cy st s) = se"
  "vp_cycle (vp_note se cy st s) = cy" "vp_stamp (vp_note se cy st s) = st"
  by (simp_all add: vp_note_def Let_def)

interpretation vp_gate: candidate_gate vp_offer vp_take vp_latest cand_key
  by unfold_locales
    (auto simp: vp_offer_def vp_take_def vp_latest_def cand_key_def stamp_later_key
      dest: vp_check_accept_later split: prod.splits if_splits)

interpretation aw_gate: candidate_gate aw_check aw_note aw_latest stamp_key
  by unfold_locales
    (auto simp: aw_latest_def aw_note_def stamp_later_key
      dest: aw_check_accept_later split: if_splits)

section \<open>The retired sessions are a bounded log\<close>

definition vp_ok :: "vp_identity \<Rightarrow> bool" where
  "vp_ok s \<longleftrightarrow> ring_ok 16 (retired_sessions s) (retired_next s) (retired_count s)"

definition retired :: "vp_identity \<Rightarrow> u32 list" where
  "retired s = ring_list (retired_sessions s) (retired_next s) (retired_count s)"

lemma vp_ok_retire: "vp_ok s \<Longrightarrow> vp_ok (retire_session old s)"
  unfolding vp_ok_def retire_session_def by (drule ring_ok_push [where x = old]) simp

lemma retired_retire: "vp_ok s \<Longrightarrow> retired (retire_session old s) = take 16 (old # retired s)"
  unfolding vp_ok_def retired_def retire_session_def
  by (drule ring_list_push [where x = old]) simp

interpretation retired_log: bounded_log retire_session retired vp_ok 16
  by unfold_locales (simp_all add: vp_ok_retire retired_retire)

lemma vp_ok_init: "vp_ok init_vp_identity"
  by (simp add: vp_ok_def ring_ok_def init_vp_identity_def)

lemma retired_init: "retired init_vp_identity = []"
  by (simp add: retired_def ring_list_def init_vp_identity_def)

lemma vp_ok_note: "vp_ok s \<Longrightarrow> vp_ok (vp_note se cy st s)"
  using retired_log.good_push [of s "vp_session s"]
  by (auto simp: vp_note_def Let_def vp_ok_def)

lemma retired_note:
  "vp_ok s \<Longrightarrow> retired (vp_note se cy st s) =
     (if vp_seen s \<and> se \<noteq> vp_session s then take 16 (vp_session s # retired s) else retired s)"
  using retired_log.entries_push [of s "vp_session s"]
  by (auto simp: vp_note_def Let_def retired_def)

lemma retired_scan:
  "vp_ok s \<Longrightarrow> set (take (retired_count s) (retired_sessions s)) = set (retired s)"
  unfolding retired_def vp_ok_def by (rule set_ring_list [symmetric])

section \<open>What the identity implements\<close>

text \<open>
  The specification keeps the whole history of accepted candidates, newest first. The
  sessions it has left are those of the entries followed by another session.
\<close>

fun left_sessions :: "vp_candidate list \<Rightarrow> u32 list" where
  "left_sessions (c # d # h) =
     (if fst c \<noteq> fst d then fst d # left_sessions (d # h) else left_sessions (d # h))"
| "left_sessions h = []"

definition spec_check :: "vp_candidate list \<Rightarrow> vp_candidate \<Rightarrow> candidate_check" where
  "spec_check h c =
     (case c of (session, cycle, stamp) \<Rightarrow>
        if sint (ss_sec stamp) < 0 \<or> uint (ss_nanosec stamp) \<ge> 1000000000 then INVALID_STAMP
        else (case h of [] \<Rightarrow> ACCEPT
              | (session', cycle', stamp') # _ \<Rightarrow>
                  if session \<in> set (take 16 (left_sessions h)) then REGRESSION
                  else if session = session' \<and> uint cycle < uint cycle' then REGRESSION
                  else if session = session' \<and> cycle = cycle' \<and> stamp_key stamp \<noteq> stamp_key stamp'
                  then REGRESSION
                  else if stamp_key stamp = stamp_key stamp' then DUPLICATE
                  else if stamp_key stamp' < stamp_key stamp then ACCEPT else REGRESSION))"

definition vp_history :: "vp_candidate list \<Rightarrow> vp_identity" where
  "vp_history h = fold vp_take (rev h) init_vp_identity"

lemma vp_history_Nil [simp]: "vp_history [] = init_vp_identity"
  by (simp add: vp_history_def)

lemma vp_history_Cons [simp]: "vp_history (c # h) = vp_take c (vp_history h)"
  by (simp add: vp_history_def)

lemma vp_ok_history: "vp_ok (vp_history h)"
  by (induction h) (auto simp: vp_ok_init vp_take_def intro: vp_ok_note split: prod.splits)

lemma vp_latest_history: "vp_latest (vp_history h) = (case h of [] \<Rightarrow> None | c # _ \<Rightarrow> Some c)"
  by (auto simp: vp_gate.latest_nt split: list.splits)
    (simp add: vp_latest_def init_vp_identity_def)

lemma vp_fields_history:
  "vp_seen (vp_history (c # h))" "vp_session (vp_history (c # h)) = fst c"
  "vp_cycle (vp_history (c # h)) = fst (snd c)" "vp_stamp (vp_history (c # h)) = snd (snd c)"
  by (simp_all add: vp_take_def split: prod.splits)

lemma vp_seen_init [simp]: "\<not> vp_seen init_vp_identity"
  by (simp add: init_vp_identity_def)

lemma retired_history: "retired (vp_history h) = take 16 (left_sessions h)"
proof (induction h)
  case (Cons c h)
  show ?case
  proof (cases h)
    case Nil
    then show ?thesis
      by (cases c) (simp add: vp_take_def retired_note vp_ok_init retired_init)
  next
    case (Cons d h')
    then show ?thesis
      using Cons.IH vp_fields_history(1,2) [of d h'] vp_ok_history [of h]
      by (cases c) (simp add: vp_take_def retired_note take_Cons')
  qed
qed (simp add: retired_init)

lemma invalid_stamp_uint:
  "invalid_stamp s \<longleftrightarrow> sint (ss_sec s) < 0 \<or> uint (ss_nanosec s) \<ge> 1000000000"
  by (simp add: invalid_stamp_def word_le_def)

lemma vp_offer_spec: "vp_offer (vp_history h) c = spec_check h c"
proof (cases h)
  case Nil
  then show ?thesis
    by (cases c) (simp add: vp_offer_def vp_check_def spec_check_def invalid_stamp_uint
        init_vp_identity_def)
next
  case (Cons d h')
  obtain se cy st where c: "c = (se, cy, st)" by (cases c)
  obtain se' cy' st' where d: "d = (se', cy', st')" by (cases d)
  have scan: "set (take (retired_count (vp_history h)) (retired_sessions (vp_history h)))
      = set (take 16 (left_sessions h))"
    using retired_scan [OF vp_ok_history] by (simp add: retired_history)
  show ?thesis
    unfolding vp_offer_def vp_check_def spec_check_def c prod.case scan
    using vp_fields_history [of d h'] Cons
    by (auto simp: d invalid_stamp_uint stamp_equal_key stamp_later_key word_le_def
        word_uint_eq_iff [symmetric])
qed

text \<open>
  Along the candidates the callbacks take, the session in force is never a retired one: a
  producer that keeps counting up is never locked out.
\<close>

lemma current_not_retired:
  assumes "h \<noteq> []" and "spec_check (tl h) (hd h) = ACCEPT"
  shows "fst (hd h) \<notin> set (take 16 (left_sessions h))"
proof (cases h rule: left_sessions.cases)
  case (1 c d h')
  obtain se cy st where c: "c = (se, cy, st)" by (cases c)
  obtain se' cy' st' where d: "d = (se', cy', st')" by (cases d)
  have "se \<notin> set (take 16 (left_sessions (d # h')))"
    using assms(2) 1 by (auto simp: spec_check_def c d split: if_splits)
  then show ?thesis
    using 1 set_take_Cons [of 16 se' "left_sessions (d # h')"] by (auto simp: c d)
qed (use assms in auto)

end
