(* ===== verification/Vp_Reference.thy ===== *)
theory Vp_Reference
  imports Messages Ring
begin

text \<open>
  From a VisionPilot driving reference to a follower trajectory
  (\<open>autoware_trajectory_follower_node/vp_reference.hpp\<close>): the usability test, the ego
  history, and \<open>convert\<close> with its sampling, densification, point selection and speed
  schedule. \<open>convert\<close> is split at the points where the code starts a new intermediate
  value; \<open>None\<close> is \<open>false\<close>.
\<close>

section \<open>Constants and data\<close>

definition kExtentCapM :: real where "kExtentCapM = 25"
definition kMaxPoints :: nat where "kMaxPoints = 13"
definition kMinFollowerPoints :: nat where "kMinFollowerPoints = 3"
definition kPathSpacingM :: real where "kPathSpacingM = 1"
definition kResampleStepM :: real where "kResampleStepM = 1 / 4"
definition kSpeedLeadM :: real where "kSpeedLeadM = 1"
definition kNearArcsM :: "real list" where "kNearArcsM = [1 / 4, 1 / 2, 1, 2]"
definition kMaxHorizon :: nat where "kMaxHorizon = 100"
definition kEgoHistory :: nat where "kEgoHistory = 400"

lemmas vp_consts =
  kExtentCapM_def kMaxPoints_def kMinFollowerPoints_def kPathSpacingM_def kResampleStepM_def
  kSpeedLeadM_def kNearArcsM_def

record pose2d =
  px :: dbl
  py :: dbl
  pyaw :: dbl

record vp_point =
  pt_x :: dbl
  pt_y :: dbl
  pt_yaw :: dbl
  velocity_mps :: dbl
  time_from_start_s :: dbl
  pt_acceleration :: dbl

definition zero_pose2d :: pose2d where
  "zero_pose2d = \<lparr>px = 0, py = 0, pyaw = 0\<rparr>"

datatype reject = Reject_NONE | INVALID_REFERENCE | NO_SOURCE_STAMP | NO_PATH | NO_HORIZON

fun rejectName :: "reject \<Rightarrow> string" where
  "rejectName INVALID_REFERENCE = ''invalid-reference''"
| "rejectName NO_SOURCE_STAMP = ''no-source-stamp''"
| "rejectName NO_PATH = ''no-path''"
| "rejectName NO_HORIZON = ''no-horizon''"
| "rejectName Reject_NONE = ''''"

definition referenceReason :: "bool \<Rightarrow> bool \<Rightarrow> bool \<Rightarrow> nat \<Rightarrow> dbl \<Rightarrow> dbl \<Rightarrow> reject" where
  "referenceReason valid path_ok has_source_stamp horizon_len dt x_max_m =
     (if \<not> valid then INVALID_REFERENCE
      else if \<not> has_source_stamp then NO_SOURCE_STAMP
      else if \<not> path_ok \<or> \<not> (x_max_m > 0) then NO_PATH
      else if horizon_len < 2 \<or> \<not> (dt > 0) then NO_HORIZON
      else Reject_NONE)"

definition wrapAngle :: "dbl \<Rightarrow> dbl" where
  "wrapAngle yaw = fatan2 (fsin yaw) (fcos yaw)"

definition yawFromQuaternion :: "dbl \<Rightarrow> dbl \<Rightarrow> dbl \<Rightarrow> dbl \<Rightarrow> dbl" where
  "yawFromQuaternion x y z w = fatan2 (Fin 2 * (w * z + x * y)) (Fin 1 - Fin 2 * (y * y + z * z))"

section \<open>The ego history\<close>

record ego_entry =
  ego_sec :: i32
  ego_nanosec :: u32
  ego_pose :: pose2d

record ego_history =
  ego_entries :: "ego_entry list"
  ego_next :: nat
  ego_count :: nat

definition EgoHistory :: ego_history where
  "EgoHistory = \<lparr>ego_entries = replicate kEgoHistory \<lparr>ego_sec = 0, ego_nanosec = 0, ego_pose = zero_pose2d\<rparr>,
     ego_next = 0, ego_count = 0\<rparr>"

definition ego_note :: "i32 \<Rightarrow> u32 \<Rightarrow> pose2d \<Rightarrow> ego_history \<Rightarrow> ego_history" where
  "ego_note s ns p h =
     (let h = h\<lparr>ego_entries := (ego_entries h)[ego_next h := \<lparr>ego_sec = s, ego_nanosec = ns, ego_pose = p\<rparr>]\<rparr>;
          h = h\<lparr>ego_next := (ego_next h + 1) mod length (ego_entries h)\<rparr>
      in if ego_count h < length (ego_entries h) then h\<lparr>ego_count := ego_count h + 1\<rparr> else h)"

definition ego_find :: "i32 \<Rightarrow> u32 \<Rightarrow> ego_history \<Rightarrow> pose2d option" where
  "ego_find s ns h =
     map_option ego_pose
       (find (\<lambda>e. ego_sec e = s \<and> ego_nanosec e = ns)
         (map (\<lambda>k. ego_entries h ! ((ego_next h + length (ego_entries h) - 1 - k) mod length (ego_entries h)))
           [0..<ego_count h]))"

section \<open>Polylines\<close>

definition seg_length :: "pose2d \<Rightarrow> pose2d \<Rightarrow> dbl" where
  "seg_length p q = fhypot (px q - px p) (py q - py p)"

fun arcs_from :: "dbl \<Rightarrow> pose2d \<Rightarrow> pose2d list \<Rightarrow> dbl list" where
  "arcs_from s p [] = []"
| "arcs_from s p (q # qs) = (let s' = s + seg_length p q in s' # arcs_from s' q qs)"

definition cumulativeArcLengths :: "pose2d list \<Rightarrow> dbl list" where
  "cumulativeArcLengths pts = (case pts of [] \<Rightarrow> [] | p # ps \<Rightarrow> 0 # arcs_from 0 p ps)"

text \<open>\<open>std::lower_bound\<close> on a sequence that the comparison partitions.\<close>

definition lower_bound :: "dbl list \<Rightarrow> dbl \<Rightarrow> nat" where
  "lower_bound s target = length (takeWhile (\<lambda>x. x < target) s)"

definition nearestIndex :: "dbl list \<Rightarrow> dbl \<Rightarrow> nat" where
  "nearestIndex s target =
     (let pos = lower_bound s target
      in if pos = 0 then 0
         else if pos \<ge> length s then length s - 1
         else
           let after = s ! pos - target;
               before = target - s ! (pos - 1)
           in if after < before then pos else pos - 1)"

definition selectIndices :: "dbl list \<Rightarrow> dbl \<Rightarrow> nat \<Rightarrow> nat list" where
  "selectIndices s extent_cap_m max_points =
     (if s = [] then []
      else if length s = 1 \<or> max_points \<le> 1 then [0]
      else
        let extent = fmin extent_cap_m (last s)
        in if extent \<le> 0 then [0]
           else
             let wanted = min max_points (length s)
             in foldl (\<lambda>out step.
                  let target = extent * Fin (real step) div Fin (real (wanted - 1));
                      index = nearestIndex s target
                  in if out = [] \<or> index > last out then out @ [index] else out) [] [0..<wanted])"

text \<open>
  \<open>resample\<close>: the inner loop over the steps of a segment and the outer loop over the
  segments. The boolean of the result is the early return at the arc cap. The number of steps
  is cast from a double; it is at most a million, and never a NaN for finite points.
\<close>

fun resample_steps ::
  "dbl \<Rightarrow> pose2d \<Rightarrow> pose2d \<Rightarrow> dbl \<Rightarrow> int \<Rightarrow> int list \<Rightarrow> pose2d list \<Rightarrow> dbl \<Rightarrow> pose2d list \<times> dbl \<times> bool" where
  "resample_steps arc_cap a b dyaw n [] out arc = (out, arc, False)"
| "resample_steps arc_cap a b dyaw n (k # ks) out arc =
     (let f = Fin (of_int k) div Fin (of_int n);
          p = \<lparr>px = px a + (px b - px a) * f, py = py a + (py b - py a) * f,
               pyaw = wrapAngle (pyaw a + dyaw * f)\<rparr>;
          arc = arc + seg_length (last out) p;
          out = out @ [p]
      in if arc \<ge> arc_cap then (out, arc, True)
         else resample_steps arc_cap a b dyaw n ks out arc)"

definition step_count :: "dbl \<Rightarrow> dbl \<Rightarrow> int option" where
  "step_count seg step_m = map_option (max 1) (cast_i32 (fceil (fmin (seg div step_m) (Fin 1000000))))"

fun resample_loop :: "dbl \<Rightarrow> dbl \<Rightarrow> pose2d \<Rightarrow> pose2d list \<Rightarrow> pose2d list \<Rightarrow> dbl \<Rightarrow> pose2d list" where
  "resample_loop step_m arc_cap a [] out arc = out"
| "resample_loop step_m arc_cap a (b # ps) out arc =
     (let seg = fhypot (px b - px a) (py b - py a)
      in if seg \<le> Fin (1 / 10 ^ 9) then resample_loop step_m arc_cap b ps out arc
         else
           let dyaw = wrapAngle (pyaw b - pyaw a);
               n = (case step_count seg step_m of None \<Rightarrow> 1 | Some n \<Rightarrow> n);
               (out, arc, stopped) = resample_steps arc_cap a b dyaw n [1..n] out arc
           in if stopped then out else resample_loop step_m arc_cap b ps out arc)"

definition resample :: "pose2d list \<Rightarrow> dbl \<Rightarrow> dbl \<Rightarrow> pose2d list" where
  "resample pts step_m arc_cap =
     (case pts of
        [] \<Rightarrow> []
      | [p] \<Rightarrow> [p]
      | p # q # ps \<Rightarrow> resample_loop step_m arc_cap p (q # ps) [p] 0)"

section \<open>The speed schedule\<close>

function schedule_search :: "dbl list \<Rightarrow> dbl \<Rightarrow> nat \<Rightarrow> nat \<Rightarrow> nat \<times> nat" where
  "schedule_search s_knots s lo hi =
     (if lo + 1 < hi then
        let mid = (lo + hi) div 2
        in if s_knots ! mid < s then schedule_search s_knots s mid hi
           else schedule_search s_knots s lo mid
      else (lo, hi))"
  by pat_completeness auto

termination
  by (relation "measure (\<lambda>(s_knots, s, lo, hi). hi - lo)") auto

declare schedule_search.simps [simp del]

text \<open>The result is the pair \<open>v_out\<close>, \<open>t_out\<close>.\<close>

definition sampleSpatial :: "dbl list \<Rightarrow> dbl list \<Rightarrow> dbl \<Rightarrow> dbl \<Rightarrow> dbl \<Rightarrow> dbl \<times> dbl" where
  "sampleSpatial s_knots v_knots s hold dt =
     (if s \<le> 0 then (fmax 0 (hd v_knots), 0)
      else if s \<ge> last s_knots then
        let extra = s - last s_knots
        in (fmax 0 hold,
            Fin (real (length s_knots - 1)) * dt + extra div fmax hold (Fin (3 / 10)))
      else
        let (lo, hi) = schedule_search s_knots s 0 (length s_knots - 1);
            seg = s_knots ! hi - s_knots ! lo;
            f = (if seg \<le> Fin (1 / 10 ^ 9) then 0 else (s - s_knots ! lo) div seg)
        in (fmax 0 (v_knots ! lo * (1 - f) + v_knots ! hi * f), (Fin (real lo) + f) * dt))"

section \<open>The conversion\<close>

text \<open>The path sampling loop. The outer option is the fuel, the inner one \<open>return false\<close>.\<close>

definition path_pose :: "dbl \<Rightarrow> dbl \<Rightarrow> dbl \<Rightarrow> pose2d \<Rightarrow> dbl \<Rightarrow> pose2d" where
  "path_pose a b c ego x =
     (let cy = fcos (pyaw ego);
          sy = fsin (pyaw ego);
          y = a * x * x + b * x + c;
          yaw = fatan (Fin 2 * a * x + b)
      in \<lparr>px = px ego + x * cy - y * sy, py = py ego + x * sy + y * cy,
          pyaw = wrapAngle (pyaw ego + yaw)\<rparr>)"

definition finite_pose :: "pose2d \<Rightarrow> bool" where
  "finite_pose p \<longleftrightarrow> isfinite (px p) \<and> isfinite (py p) \<and> isfinite (pyaw p)"

fun sample_path ::
  "nat \<Rightarrow> (dbl \<Rightarrow> pose2d) \<Rightarrow> dbl \<Rightarrow> dbl \<Rightarrow> pose2d list \<Rightarrow> pose2d list option option" where
  "sample_path 0 pose_at x_limit x world = None"
| "sample_path (Suc fuel) pose_at x_limit x world =
     (if x \<le> x_limit + Fin (1 / 10 ^ 9) then
        let p = pose_at x
        in if \<not> isfinite (px p) \<or> \<not> isfinite (py p) \<or> \<not> isfinite (pyaw p) then Some None
           else sample_path fuel pose_at x_limit (x + Fin kPathSpacingM) (world @ [p])
      else Some (Some world))"

definition path_fuel :: nat where "path_fuel = 27"

text \<open>The indices of the points that are kept.\<close>

definition chooseIndices :: "dbl list \<Rightarrow> nat list" where
  "chooseIndices full =
     (let indices = selectIndices full (Fin kExtentCapM) kMaxPoints
      in if indices = [] then []
         else
           let indices = (if hd indices \<noteq> 0 then take kMaxPoints (0 # indices) else indices);
               extent = fmin (Fin kExtentCapM) (last full);
               indices = indices @ map (\<lambda>want. nearestIndex full (Fin want))
                 (filter (\<lambda>want. Fin want > 0 \<and> Fin want < extent) kNearArcsM)
           in take kMaxPoints (remdups_adj (sort indices)))"

definition with_ego :: "pose2d \<Rightarrow> pose2d list \<Rightarrow> pose2d list" where
  "with_ego ego selected =
     (if fhypot (px (hd selected) - px ego) (py (hd selected) - py ego) > Fin (1 / 2)
      then take kMaxPoints (ego # selected) else selected)"

fun knots_from :: "dbl \<Rightarrow> dbl \<Rightarrow> dbl \<Rightarrow> dbl list \<Rightarrow> dbl list" where
  "knots_from dt s h0 [] = []"
| "knots_from dt s h0 (h1 # hs) =
     (let s' = s + Fin (1 / 2) * (h0 + h1) * dt in s' # knots_from dt s' h1 hs)"

definition scheduleKnots :: "dbl list \<Rightarrow> dbl \<Rightarrow> dbl list" where
  "scheduleKnots h dt = 0 # knots_from dt 0 (hd h) (tl h)"

definition pointAccels :: "dbl list \<Rightarrow> dbl list \<Rightarrow> dbl \<Rightarrow> dbl list" where
  "pointAccels speeds stimes fallback =
     (let n = length speeds
      in if n = 1 then [fallback]
         else map (\<lambda>i.
           let i0 = (if i = 0 then 0 else i - 1);
               i1 = (if i = n - 1 then n - 1 else i + 1);
               span = stimes ! i1 - stimes ! i0;
               dflt = (if i = 0 then fallback else 0)
           in if span > Fin (1 / 10 ^ 6) then (speeds ! i1 - speeds ! i0) div span else dflt)
           [0..<n])"

definition schedulePoints :: "pose2d list \<Rightarrow> dbl list \<Rightarrow> dbl \<Rightarrow> vp_point list option" where
  "schedulePoints selected horizon dt =
     (let lengths = cumulativeArcLengths selected;
          h = map (fmax 0) horizon;
          s_knots = scheduleKnots h dt;
          hold = last h;
          vts = map (\<lambda>l. sampleSpatial s_knots h (l + Fin kSpeedLeadM) hold dt) lengths;
          speeds = map fst vts;
          stimes = map snd vts;
          t_h = fmax (dt * Fin (real (length h - 1))) dt;
          fallback = (hold - hd h) div t_h;
          accels = pointAccels speeds stimes fallback
      in if \<exists>i \<in> set [0..<length speeds]. \<not> isfinite (speeds ! i) \<or> \<not> isfinite (stimes ! i)
              \<or> \<not> isfinite (accels ! i)
         then None
         else Some (map (\<lambda>i. \<lparr>pt_x = px (selected ! i), pt_y = py (selected ! i),
                              pt_yaw = pyaw (selected ! i), velocity_mps = speeds ! i,
                              time_from_start_s = stimes ! i, pt_acceleration = accels ! i\<rparr>)
                     [0..<length speeds]))"

definition convert ::
  "dbl \<Rightarrow> dbl \<Rightarrow> dbl \<Rightarrow> dbl \<Rightarrow> pose2d \<Rightarrow> dbl list \<Rightarrow> dbl \<Rightarrow> vp_point list option" where
  "convert a b c x_max_m ego horizon dt =
     (if \<not> (x_max_m > 0) \<or> length horizon < 2 \<or> \<not> (dt > 0) then None
      else
       (case sample_path path_fuel (path_pose a b c ego) (fmin x_max_m (Fin kExtentCapM)) 0 [] of
          None \<Rightarrow> None
        | Some None \<Rightarrow> None
        | Some (Some world) \<Rightarrow>
            let world = resample world (Fin kResampleStepM) (Fin kExtentCapM);
                full = cumulativeArcLengths world;
                indices = chooseIndices full
            in if indices = [] then None
               else
                (case schedulePoints (with_ego ego (map (\<lambda>i. world ! i) indices)) horizon dt of
                   None \<Rightarrow> None
                 | Some out \<Rightarrow> if length out < kMinFollowerPoints then None else Some out)))"

end
