(* ===== verification/Startup_Config.thy ===== *)
theory Startup_Config
  imports Prelude
begin

text \<open>
  The start-up selection of mode and trajectory source
  (\<open>trajectory_follower_node/startup_config.hpp\<close>). A C string is a \<open>string option\<close>, \<open>None\<close>
  for \<open>nullptr\<close>. \<open>std::invalid_argument\<close> is \<open>Inl\<close> of an error that names its message. The build-time defaults
  are those of the header; \<open>fromEnvironment\<close> is \<open>fromValues\<close> on what \<open>getenv\<close> returns.
\<close>

datatype config_mode = SI_CONTROL_MODE | VP_CONTROL_MODE
datatype trajectory_source = AUTOWARE | VP
datatype legacy_control_cmd = ALWAYS | STOP_ONLY
datatype op_mode_durability = TRANSIENT_LOCAL | VOLATILE

record startup_config =
  cfg_mode :: config_mode
  trajectory_source :: trajectory_source
  build_default :: bool
  legacy_control_cmd :: legacy_control_cmd
  operation_mode_durability :: op_mode_durability

text \<open>The six messages of the exceptions the code throws.\<close>

datatype config_error =
    Bad_Legacy_Control_Cmd     \<comment> \<open>must be always or stop_only\<close>
  | Bad_Operation_Mode_Durability \<comment> \<open>must be transient_local or volatile\<close>
  | Bad_Supervision_Mode       \<comment> \<open>must be si or vp\<close>
  | Bad_Trajectory_Source      \<comment> \<open>must be autoware or vp\<close>
  | Vp_Control_Requires_Vp     \<comment> \<open>VP_CONTROL requires SI_TRAJECTORY_SOURCE=vp\<close>
  | Set_Both_Or_Neither        \<comment> \<open>set both mode and source, or neither\<close>

type_synonym 'a config_result = "config_error + 'a"

definition SI_DEFAULT_SUPERVISION_MODE :: string where
  "SI_DEFAULT_SUPERVISION_MODE = ''si''"

definition SI_DEFAULT_TRAJECTORY_SOURCE :: string where
  "SI_DEFAULT_TRAJECTORY_SOURCE = ''autoware''"

definition SI_DEFAULT_LEGACY_CONTROL_CMD :: string where
  "SI_DEFAULT_LEGACY_CONTROL_CMD = ''always''"

definition SI_DEFAULT_OPERATION_MODE_DURABILITY :: string where
  "SI_DEFAULT_OPERATION_MODE_DURABILITY = ''transient_local''"

definition parseLegacyControlCmd :: "string option \<Rightarrow> legacy_control_cmd config_result" where
  "parseLegacyControlCmd val =
     (let v = (case val of Some v \<Rightarrow> v | None \<Rightarrow> SI_DEFAULT_LEGACY_CONTROL_CMD)
      in if v = ''always'' then Inr ALWAYS
         else if v = ''stop_only'' then Inr STOP_ONLY
         else Inl Bad_Legacy_Control_Cmd)"

definition parseOperationModeDurability :: "string option \<Rightarrow> op_mode_durability config_result" where
  "parseOperationModeDurability val =
     (let v = (case val of Some v \<Rightarrow> v | None \<Rightarrow> SI_DEFAULT_OPERATION_MODE_DURABILITY)
      in if v = ''transient_local'' then Inr TRANSIENT_LOCAL
         else if v = ''volatile'' then Inr VOLATILE
         else Inl Bad_Operation_Mode_Durability)"

definition parse_config :: "string \<Rightarrow> string \<Rightarrow> startup_config config_result" where
  "parse_config m source =
     (if m \<noteq> ''si'' \<and> m \<noteq> ''vp'' then Inl Bad_Supervision_Mode
      else if source \<noteq> ''autoware'' \<and> source \<noteq> ''vp''
      then Inl Bad_Trajectory_Source
      else if m = ''vp'' \<and> source \<noteq> ''vp''
      then Inl Vp_Control_Requires_Vp
      else Inr \<lparr>cfg_mode = (if m = ''vp'' then VP_CONTROL_MODE else SI_CONTROL_MODE),
                trajectory_source = (if source = ''vp'' then VP else AUTOWARE),
                build_default = False, legacy_control_cmd = ALWAYS,
                operation_mode_durability = TRANSIENT_LOCAL\<rparr>)"

definition fromValues ::
  "string option \<Rightarrow> string option \<Rightarrow> string option \<Rightarrow> string option \<Rightarrow> startup_config config_result" where
  "fromValues m source legacy durability =
     (case parseLegacyControlCmd legacy of Inl e \<Rightarrow> Inl e | Inr l \<Rightarrow>
      (case parseOperationModeDurability durability of Inl e \<Rightarrow> Inl e | Inr d \<Rightarrow>
       (case (m, source) of
          (None, None) \<Rightarrow>
            (case parse_config SI_DEFAULT_SUPERVISION_MODE SI_DEFAULT_TRAJECTORY_SOURCE of
               Inl e \<Rightarrow> Inl e
             | Inr c \<Rightarrow> Inr (c\<lparr>build_default := True, legacy_control_cmd := l,
                               operation_mode_durability := d\<rparr>))
        | (Some m', Some s') \<Rightarrow>
            (case parse_config m' s' of
               Inl e \<Rightarrow> Inl e
             | Inr c \<Rightarrow> Inr (c\<lparr>legacy_control_cmd := l, operation_mode_durability := d\<rparr>))
        | _ \<Rightarrow> Inl Set_Both_Or_Neither)))"

definition fromEnvironment :: "(string \<Rightarrow> string option) \<Rightarrow> startup_config config_result" where
  "fromEnvironment getenv =
     fromValues (getenv ''SI_SUPERVISION_MODE'') (getenv ''SI_TRAJECTORY_SOURCE'')
       (getenv ''SI_LEGACY_CONTROL_CMD'') (getenv ''SI_OPERATION_MODE_DURABILITY'')"

lemmas config_defs [op_defs] =
  parseLegacyControlCmd_def parseOperationModeDurability_def parse_config_def fromValues_def
  SI_DEFAULT_SUPERVISION_MODE_def SI_DEFAULT_TRAJECTORY_SOURCE_def
  SI_DEFAULT_LEGACY_CONTROL_CMD_def SI_DEFAULT_OPERATION_MODE_DURABILITY_def

text \<open>The configurations the node can start with.\<close>

definition allowed_config :: "startup_config \<Rightarrow> bool" where
  "allowed_config c \<longleftrightarrow> (cfg_mode c = VP_CONTROL_MODE \<longrightarrow> trajectory_source c = VP)"

lemma parse_config_allowed: "parse_config m s = Inr c \<Longrightarrow> allowed_config c"
  by (auto simp: parse_config_def allowed_config_def split: if_splits)

lemma parse_config_Inr_iff:
  "(\<exists>c. parse_config m s = Inr c) \<longleftrightarrow>
     (m, s) \<in> {(''si'', ''autoware''), (''si'', ''vp''), (''vp'', ''vp'')}"
  by (auto simp: parse_config_def)

lemma fromValues_allowed: "fromValues m s l d = Inr c \<Longrightarrow> allowed_config c"
  by (auto simp: fromValues_def allowed_config_def split: sum.splits option.splits
      dest!: parse_config_allowed)

text \<open>The inputs the start-up accepts, and what comes out of them.\<close>

definition accepted_values ::
  "string option \<Rightarrow> string option \<Rightarrow> string option \<Rightarrow> string option \<Rightarrow> bool" where
  "accepted_values m s l d \<longleftrightarrow>
     (m, s) \<in> {(None, None), (Some ''si'', Some ''autoware''), (Some ''si'', Some ''vp''),
                (Some ''vp'', Some ''vp'')}
     \<and> l \<in> {None, Some ''always'', Some ''stop_only''}
     \<and> d \<in> {None, Some ''transient_local'', Some ''volatile''}"

lemma parseLegacy_Inr:
  "parseLegacyControlCmd l = Inr x \<longleftrightarrow>
     (x = ALWAYS \<and> l \<in> {None, Some ''always''}) \<or> (x = STOP_ONLY \<and> l = Some ''stop_only'')"
  by (auto simp: parseLegacyControlCmd_def SI_DEFAULT_LEGACY_CONTROL_CMD_def Let_def
      split: option.splits if_splits)

lemma parseDurability_Inr:
  "parseOperationModeDurability d = Inr x \<longleftrightarrow>
     (x = TRANSIENT_LOCAL \<and> d \<in> {None, Some ''transient_local''})
     \<or> (x = VOLATILE \<and> d = Some ''volatile'')"
  by (auto simp: parseOperationModeDurability_def SI_DEFAULT_OPERATION_MODE_DURABILITY_def Let_def
      split: option.splits if_splits)

lemma parse_config_Inr:
  "parse_config m s = Inr c \<longleftrightarrow>
     (m, s) \<in> {(''si'', ''autoware''), (''si'', ''vp''), (''vp'', ''vp'')}
     \<and> c = \<lparr>cfg_mode = (if m = ''vp'' then VP_CONTROL_MODE else SI_CONTROL_MODE),
            trajectory_source = (if s = ''vp'' then VP else AUTOWARE),
            build_default = False, legacy_control_cmd = ALWAYS,
            operation_mode_durability = TRANSIENT_LOCAL\<rparr>"
  by (auto simp: parse_config_def)

lemma parse_config_defaults:
  "parse_config SI_DEFAULT_SUPERVISION_MODE SI_DEFAULT_TRAJECTORY_SOURCE
     = Inr \<lparr>cfg_mode = SI_CONTROL_MODE, trajectory_source = AUTOWARE, build_default = False,
            legacy_control_cmd = ALWAYS, operation_mode_durability = TRANSIENT_LOCAL\<rparr>"
  by (simp add: parse_config_def SI_DEFAULT_SUPERVISION_MODE_def
      SI_DEFAULT_TRAJECTORY_SOURCE_def)

lemma fromValues_defaults:
  "fromValues None None l d = Inr c \<longleftrightarrow>
     (\<exists>x y. parseLegacyControlCmd l = Inr x \<and> parseOperationModeDurability d = Inr y
       \<and> c = \<lparr>cfg_mode = SI_CONTROL_MODE, trajectory_source = AUTOWARE, build_default = True,
              legacy_control_cmd = x, operation_mode_durability = y\<rparr>)"
  by (cases "parseLegacyControlCmd l"; cases "parseOperationModeDurability d")
    (auto simp: fromValues_def parse_config_defaults)

lemma fromValues_given:
  "fromValues (Some m) (Some s) l d = Inr c \<longleftrightarrow>
     (\<exists>x y c'. parseLegacyControlCmd l = Inr x \<and> parseOperationModeDurability d = Inr y
       \<and> parse_config m s = Inr c'
       \<and> c = c'\<lparr>legacy_control_cmd := x, operation_mode_durability := y\<rparr>)"
  by (cases "parseLegacyControlCmd l"; cases "parseOperationModeDurability d";
      cases "parse_config m s") (auto simp: fromValues_def)

lemma fromValues_mixed:
  "fromValues (Some m) None l d \<noteq> Inr c" "fromValues None (Some s) l d \<noteq> Inr c"
  by (cases "parseLegacyControlCmd l"; cases "parseOperationModeDurability d";
      simp add: fromValues_def)+

end
