(* ===== verification/Can_Encoder.thy ===== *)
theory Can_Encoder
  imports Messages
begin

text \<open>
  The CAN encoding of a control command (\<open>common/can/control_command_encoder.hpp\<close>,
  \<open>control_command_output_mode.hpp\<close>, \<open>can_frame.hpp\<close>, \<open>can_fd_frame.hpp\<close>): fixed-point
  scaling, little-endian packing, the three classic frames and the CAN-FD frame that carries
  the same payload.

  An encoder's result structure is a sum: \<open>Inl\<close> is \<open>ok = false\<close> with the error text,
  \<open>Inr\<close> holds the \<open>count\<close> frames of \<open>ok = true\<close>.
\<close>

section \<open>Output modes\<close>

datatype output_mode = DDS_ONLY | CAN_ONLY | DDS_AND_CAN

fun output_mode_octet :: "output_mode \<Rightarrow> u8" where
  "output_mode_octet DDS_ONLY = 0"
| "output_mode_octet CAN_ONLY = 1"
| "output_mode_octet DDS_AND_CAN = 2"

definition output_mode_uses_dds :: "output_mode \<Rightarrow> bool" where
  "output_mode_uses_dds m \<longleftrightarrow> m = DDS_ONLY \<or> m = DDS_AND_CAN"

definition output_mode_uses_can :: "output_mode \<Rightarrow> bool" where
  "output_mode_uses_can m \<longleftrightarrow> m = CAN_ONLY \<or> m = DDS_AND_CAN"

text \<open>The build-time selection; the two arguments are the two configuration macros.\<close>

definition configured_control_command_output_mode :: "bool \<Rightarrow> bool \<Rightarrow> output_mode" where
  "configured_control_command_output_mode can_only dds_and_can =
     (if can_only then CAN_ONLY else if dds_and_can then DDS_AND_CAN else DDS_ONLY)"

section \<open>Frames\<close>

record can_frame =
  can_id :: u32
  dlc :: u8
  extended :: bool
  frame_data :: "u8 list"

definition zero_frame :: can_frame where
  "zero_frame = \<lparr>can_id = 0, dlc = 0, extended = False, frame_data = replicate 8 0\<rparr>"

record can_fd_frame =
  fd_id :: u32
  fd_length :: u8
  fd_brs :: bool
  fd_data :: "u8 list"

definition kControlCommandCanFrameCount :: nat where
  "kControlCommandCanFrameCount = 3"

definition kLateralCommandCanId :: u32 where "kLateralCommandCanId = 0x100"
definition kLongitudinalCommandCanId :: u32 where "kLongitudinalCommandCanId = 0x101"
definition kCommandStatusCanId :: u32 where "kCommandStatusCanId = 0x102"
definition kFdControlCommandCanId :: u32 where "kFdControlCommandCanId = 0x103"

section \<open>Little-endian writes\<close>

definition byte_of :: "nat \<Rightarrow> u32 \<Rightarrow> u8" where
  "byte_of k raw = ucast (drop_bit (8 * k) raw AND 0xFF)"

definition write_i32_le :: "can_frame \<Rightarrow> nat \<Rightarrow> i32 \<Rightarrow> can_frame" where
  "write_i32_le frame offset val =
     frame\<lparr>frame_data := (frame_data frame)
       [offset := byte_of 0 val, offset + 1 := byte_of 1 val,
        offset + 2 := byte_of 2 val, offset + 3 := byte_of 3 val]\<rparr>"

definition write_u16_le :: "can_frame \<Rightarrow> nat \<Rightarrow> u16 \<Rightarrow> can_frame" where
  "write_u16_le frame offset val =
     frame\<lparr>frame_data := (frame_data frame)
       [offset := ucast (val AND 0xFF), offset + 1 := ucast (drop_bit 8 val AND 0xFF)]\<rparr>"

definition write_u32_le :: "can_frame \<Rightarrow> nat \<Rightarrow> u32 \<Rightarrow> can_frame" where
  "write_u32_le frame offset val =
     frame\<lparr>frame_data := (frame_data frame)
       [offset := byte_of 0 val, offset + 1 := byte_of 1 val,
        offset + 2 := byte_of 2 val, offset + 3 := byte_of 3 val]\<rparr>"

section \<open>Scaling\<close>

text \<open>\<open>scale_to_i32\<close>: \<open>None\<close> is \<open>false\<close>, \<open>Some\<close> the value written to \<open>output\<close>.\<close>

definition scale_to_i32 :: "dbl \<Rightarrow> dbl \<Rightarrow> i32 option" where
  "scale_to_i32 val scale =
     (if \<not> isfinite val then None
      else
        let scaled = val * scale;
            min_i32 = Fin (- (2 ^ 31));
            max_i32 = Fin (2 ^ 31 - 1)
        in if scaled < min_i32 - Fin (1 / 2) \<or> scaled > max_i32 + Fin (1 / 2) then None
           else
             (case cast_i64 (if scaled \<ge> Fin 0 then scaled + Fin (1 / 2) else scaled - Fin (1 / 2)) of
                None \<Rightarrow> None
              | Some rounded \<Rightarrow>
                  if rounded < - (2 ^ 31) \<or> rounded > 2 ^ 31 - 1 then None
                  else Some (of_int rounded)))"

definition timestamp_ms_modulo :: "time_msg \<Rightarrow> u32" where
  "timestamp_ms_modulo stamp =
     (let sec_ms = (scast (sec stamp) :: u64) * 1000;
          nsec_ms = (ucast (nanosec stamp) :: u64) div 1000000
      in ucast (sec_ms + nsec_ms))"

section \<open>Encoding\<close>

definition validity_flags :: "control_msg \<Rightarrow> u8" where
  "validity_flags msg =
     (let f = (0 :: u8);
          f = (if is_defined_steering_tire_rotation_rate (lateral msg) then f OR 1 else f);
          f = (if is_defined_acceleration (longitudinal msg) then f OR 2 else f);
          f = (if is_defined_jerk (longitudinal msg) then f OR 4 else f)
      in f OR 8)"

definition encode_control_command ::
  "control_msg \<Rightarrow> output_mode \<Rightarrow> u16 \<Rightarrow> string + can_frame list" where
  "encode_control_command msg m sequence =
     (if \<not> output_mode_uses_can m then Inr []
      else
       (case scale_to_i32 (steering_tire_angle (lateral msg)) (Fin 1000000) of
          None \<Rightarrow> Inl ''invalid steering_tire_angle'' | Some steering_angle \<Rightarrow>
       (case scale_to_i32 (steering_tire_rotation_rate (lateral msg)) (Fin 1000000) of
          None \<Rightarrow> Inl ''invalid steering_tire_rotation_rate'' | Some steering_rate \<Rightarrow>
       (case scale_to_i32 (velocity (longitudinal msg)) (Fin 1000) of
          None \<Rightarrow> Inl ''invalid velocity'' | Some vel \<Rightarrow>
       (case scale_to_i32 (acceleration (longitudinal msg)) (Fin 1000) of
          None \<Rightarrow> Inl ''invalid acceleration'' | Some acc \<Rightarrow>
          let lat = zero_frame\<lparr>can_id := kLateralCommandCanId, dlc := 8\<rparr>;
              lat = write_i32_le lat 0 steering_angle;
              lat = write_i32_le lat 4 steering_rate;
              lon = zero_frame\<lparr>can_id := kLongitudinalCommandCanId, dlc := 8\<rparr>;
              lon = write_i32_le lon 0 vel;
              lon = write_i32_le lon 4 acc;
              status = zero_frame\<lparr>can_id := kCommandStatusCanId, dlc := 8\<rparr>;
              status = status\<lparr>frame_data := (frame_data status)
                         [0 := output_mode_octet m, 1 := validity_flags msg]\<rparr>;
              status = write_u16_le status 2 sequence;
              status = write_u32_le status 4 (timestamp_ms_modulo (ctl_stamp msg))
          in Inr [lat, lon, status])))))"

text \<open>The CAN-FD packing; its data array has 64 bytes, of which the first 24 are the payload.\<close>

definition encode_control_command_fd ::
  "control_msg \<Rightarrow> output_mode \<Rightarrow> u16 \<Rightarrow> string + can_fd_frame option" where
  "encode_control_command_fd msg m sequence =
     (case encode_control_command msg m sequence of
        Inl e \<Rightarrow> Inl e
      | Inr frames \<Rightarrow>
          if frames = [] then Inr None
          else if \<exists>f \<in> set frames. dlc f \<noteq> 8 \<or> extended f
          then Inl ''classic frames are not CAN-FD packable''
          else Inr (Some \<lparr>fd_id = kFdControlCommandCanId, fd_length = 24, fd_brs = False,
                     fd_data = concat (map frame_data frames) @ replicate 40 0\<rparr>))"

section \<open>Scaling is rounding to the nearest unit\<close>

lemma round_away_error: "\<bar>of_int (round_away x) - x\<bar> \<le> 1 / 2"
  unfolding round_away_def abs_le_iff by (auto; linarith)

lemma sint_of_int_32: "- (2 ^ 31) \<le> n \<Longrightarrow> n \<le> 2 ^ 31 - 1 \<Longrightarrow> sint (of_int n :: i32) = n"
  by (simp add: sint_sbintrunc' signed_take_bit_int_eq_self)

text \<open>
  The bounds tests before and after the conversion amount to one test of the rounded value:
  nothing is rejected that fits, nothing is wrapped.
\<close>

lemma scale_to_i32_eq:
  assumes "\<bar>r * s\<bar> \<le> dbl_max"
  shows "scale_to_i32 (Fin r) (Fin s) =
    (let n = round_away (r * s) in
     if - (2 ^ 31) \<le> n \<and> n \<le> 2 ^ 31 - 1 then Some (of_int n) else None)"
proof -
  define x where "x = r * s"
  have x: "fl x = Fin x"
    using assms by (simp add: x_def in_range_Fin)
  consider "x < - (2 ^ 31) - 1 / 2" | "2 ^ 31 - 1 / 2 < x" | "- (2 ^ 31) - 1 / 2 \<le> x" "x \<le> 2 ^ 31 - 1 / 2"
    by linarith
  then show ?thesis
  proof cases
    case 1
    then have "round_away x < - (2 ^ 31)"
      by (simp add: round_away_def)
    then show ?thesis
      using 1 by (simp add: scale_to_i32_def x minus_dbl_def x_def [symmetric])
  next
    case 2
    then have "2 ^ 31 - 1 < round_away x"
      by (simp add: round_away_def)
    then show ?thesis
      using 2 by (simp add: scale_to_i32_def x minus_dbl_def x_def [symmetric])
  next
    case 3
    then have small: "\<bar>x + 1 / 2\<bar> \<le> 10 ^ 30" "\<bar>x - 1 / 2\<bar> \<le> 10 ^ 30"
      by (auto simp: abs_le_iff)
    have "cast_i64 (if Fin x \<ge> Fin 0 then Fin x + Fin (1 / 2) else Fin x - Fin (1 / 2))
        = Some (round_away x)"
    proof (cases "0 \<le> x")
      case True
      then have "0 \<le> \<lfloor>x + 1 / 2\<rfloor>" "\<lfloor>x + 1 / 2\<rfloor> \<le> 2 ^ 63 - 1"
        using 3 by (simp_all add: le_floor_iff floor_le_iff)
      then show ?thesis
        using True small by (simp add: cast_int_def trunc_def round_away_def)
    next
      case False
      then have "- (2 ^ 63) \<le> \<lceil>x - 1 / 2\<rceil>" "\<lceil>x - 1 / 2\<rceil> \<le> 2 ^ 63 - 1"
        using 3 by (simp_all add: le_ceiling_iff ceiling_le_iff)
      then show ?thesis
        using False small by (simp add: minus_dbl_def cast_int_def trunc_def round_away_def)
    qed
    then show ?thesis
      using 3 by (auto simp: scale_to_i32_def x minus_dbl_def x_def [symmetric] Let_def)
  qed
qed

text \<open>What a \<open>float\<close> field holds, and that scaling one stays in the range of a double.\<close>

fun is_float :: "dbl \<Rightarrow> bool" where
  "is_float (Fin r) = (\<bar>r\<bar> \<le> flt_max)"
| "is_float PInf = True"
| "is_float NInf = True"
| "is_float NaN = True"

lemma is_float_to_float [simp]: "is_float (to_float x)"
  by (cases x) (auto simp: in_range_def)

lemma float_times_small:
  assumes "\<bar>r\<bar> \<le> flt_max" and "\<bar>s\<bar> \<le> 10 ^ 10"
  shows "\<bar>r * s\<bar> \<le> dbl_max"
proof -
  have "\<bar>r * s\<bar> \<le> flt_max * 10 ^ 10"
    unfolding abs_mult using assms by (intro mult_mono) auto
  also have "\<dots> \<le> dbl_max"
    by (simp add: flt_max_def dbl_max_def)
  finally show ?thesis .
qed

lemma scale_to_i32_Some:
  assumes "scale_to_i32 val (Fin s) = Some w" and "is_float val" and "\<bar>s\<bar> \<le> 10 ^ 10"
  shows "isfinite val" and "sint w = round_away (value_of val * s)"
    and "\<bar>of_int (sint w) - value_of val * s\<bar> \<le> 1 / 2"
proof -
  show fin: "isfinite val"
    using assms(1) by (auto simp: scale_to_i32_def split: if_splits)
  then obtain r where r: "val = Fin r" by (auto simp: isfinite_iff)
  have "\<bar>r * s\<bar> \<le> dbl_max"
    using assms by (intro float_times_small) (auto simp: r)
  then show "sint w = round_away (value_of val * s)"
    using assms(1) by (auto simp: r scale_to_i32_eq Let_def sint_of_int_32 split: if_splits)
  then show "\<bar>of_int (sint w) - value_of val * s\<bar> \<le> 1 / 2"
    using round_away_error by simp
qed

end
