(* ===== verification/Can_Tunnel.thy ===== *)
theory Can_Tunnel
  imports Can_Encoder
begin

text \<open>
  The UDP tunnel datagram (\<open>common/can/can_udp_tunnel.hpp\<close>): 48 bytes that carry the three
  classic frames and their sequence number. A pointer into a byte buffer is the list of the
  bytes from there on, a null pointer is \<open>None\<close>; the result structures are sums as in the
  encoder.
\<close>

definition kCanUdpTunnelDatagramSize :: nat where "kCanUdpTunnelDatagramSize = 48"
definition kCanUdpTunnelMagic0 :: u8 where "kCanUdpTunnelMagic0 = 0x43"
definition kCanUdpTunnelMagic1 :: u8 where "kCanUdpTunnelMagic1 = 0x54"
definition kCanUdpTunnelVersion :: u8 where "kCanUdpTunnelVersion = 1"
definition kCanUdpTunnelFlagClassicBatch :: u8 where "kCanUdpTunnelFlagClassicBatch = 1"

lemmas tunnel_consts =
  kCanUdpTunnelDatagramSize_def kCanUdpTunnelMagic0_def kCanUdpTunnelMagic1_def
  kCanUdpTunnelVersion_def kCanUdpTunnelFlagClassicBatch_def kControlCommandCanFrameCount_def
  kLateralCommandCanId_def kLongitudinalCommandCanId_def kCommandStatusCanId_def

section \<open>Bytes and frames on the wire\<close>

text \<open>The bytes a writer stores from \<open>dest\<close> on.\<close>

definition write_u16_le_bytes :: "u16 \<Rightarrow> u8 list" where
  "write_u16_le_bytes val = [ucast (val AND 0xFF), ucast (drop_bit 8 val AND 0xFF)]"

definition write_u32_le_bytes :: "u32 \<Rightarrow> u8 list" where
  "write_u32_le_bytes val =
     [ucast (val AND 0xFF), ucast (drop_bit 8 val AND 0xFF),
      ucast (drop_bit 16 val AND 0xFF), ucast (drop_bit 24 val AND 0xFF)]"

definition read_u16_le_bytes :: "u8 list \<Rightarrow> u16" where
  "read_u16_le_bytes src = ucast (src ! 0) OR push_bit 8 (ucast (src ! 1))"

definition read_u32_le_bytes :: "u8 list \<Rightarrow> u32" where
  "read_u32_le_bytes src =
     ucast (src ! 0) OR push_bit 8 (ucast (src ! 1)) OR push_bit 16 (ucast (src ! 2))
     OR push_bit 24 (ucast (src ! 3))"

definition status_sequence :: "can_frame \<Rightarrow> u16" where
  "status_sequence frame =
     ucast (frame_data frame ! 2) OR push_bit 8 (ucast (frame_data frame ! 3))"

definition write_wire_frame :: "can_frame \<Rightarrow> u8 list" where
  "write_wire_frame frame = write_u32_le_bytes (can_id frame) @ dlc frame # take 8 (frame_data frame)"

definition read_wire_frame :: "u8 list \<Rightarrow> can_frame" where
  "read_wire_frame src =
     \<lparr>can_id = read_u32_le_bytes src, dlc = src ! 4, extended = False,
      frame_data = take 8 (drop 5 src)\<rparr>"

section \<open>Packing\<close>

text \<open>The fields lie at offsets 0 (header), 4 (sequence), 6 (reserved), 8, 21 and 34 (the frames)
  and 47 (reserved).\<close>

definition pack_can_udp_tunnel :: "can_frame list option \<Rightarrow> u16 \<Rightarrow> string + u8 list" where
  "pack_can_udp_tunnel frames sequence =
     (case frames of
        None \<Rightarrow> Inl ''batch must contain three frames''
      | Some fs \<Rightarrow>
         if length fs \<noteq> kControlCommandCanFrameCount then Inl ''batch must contain three frames''
         else if can_id (fs ! 0) \<noteq> kLateralCommandCanId \<or> dlc (fs ! 0) \<noteq> 8 \<or> extended (fs ! 0)
         then Inl ''frame 0 must be classic 0x100 DLC 8''
         else if can_id (fs ! 1) \<noteq> kLongitudinalCommandCanId \<or> dlc (fs ! 1) \<noteq> 8 \<or> extended (fs ! 1)
         then Inl ''frame 1 must be classic 0x101 DLC 8''
         else if can_id (fs ! 2) \<noteq> kCommandStatusCanId \<or> dlc (fs ! 2) \<noteq> 8 \<or> extended (fs ! 2)
         then Inl ''frame 2 must be classic 0x102 DLC 8''
         else if status_sequence (fs ! 2) \<noteq> sequence
         then Inl ''batch sequence must match 0x102''
         else Inr ([kCanUdpTunnelMagic0, kCanUdpTunnelMagic1, kCanUdpTunnelVersion,
                    kCanUdpTunnelFlagClassicBatch]
                   @ write_u16_le_bytes sequence @ [0, 0]
                   @ write_wire_frame (fs ! 0) @ write_wire_frame (fs ! 1)
                   @ write_wire_frame (fs ! 2) @ [0]))"

definition unpack_can_udp_tunnel :: "u8 list option \<Rightarrow> string + (u16 \<times> can_frame list)" where
  "unpack_can_udp_tunnel datagram =
     (case datagram of
        None \<Rightarrow> Inl ''datagram length must be 48''
      | Some data \<Rightarrow>
         if length data \<noteq> kCanUdpTunnelDatagramSize then Inl ''datagram length must be 48''
         else if data ! 0 \<noteq> kCanUdpTunnelMagic0 \<or> data ! 1 \<noteq> kCanUdpTunnelMagic1
         then Inl ''invalid magic''
         else if data ! 2 \<noteq> kCanUdpTunnelVersion then Inl ''unsupported version''
         else if data ! 3 \<noteq> kCanUdpTunnelFlagClassicBatch then Inl ''unsupported flags''
         else if data ! 6 \<noteq> 0 \<or> data ! 7 \<noteq> 0 \<or> data ! 47 \<noteq> 0
         then Inl ''reserved bytes must be zero''
         else
           let sequence = read_u16_le_bytes (drop 4 data);
               f0 = read_wire_frame (drop 8 data);
               f1 = read_wire_frame (drop 21 data);
               f2 = read_wire_frame (drop 34 data)
           in if can_id f0 \<noteq> kLateralCommandCanId \<or> dlc f0 \<noteq> 8
              then Inl ''frame 0 must be classic 0x100 DLC 8''
              else if can_id f1 \<noteq> kLongitudinalCommandCanId \<or> dlc f1 \<noteq> 8
              then Inl ''frame 1 must be classic 0x101 DLC 8''
              else if can_id f2 \<noteq> kCommandStatusCanId \<or> dlc f2 \<noteq> 8
              then Inl ''frame 2 must be classic 0x102 DLC 8''
              else if status_sequence f2 \<noteq> sequence
              then Inl ''batch sequence must match 0x102''
              else Inr (sequence, [f0, f1, f2]))"

section \<open>Fixed-width codes\<close>

text \<open>
  The contract of a fixed-width code: every valid value has its own code of the given width,
  reading the code gives the value back, and every code that reads is the one written. A reader
  looks at its first bytes only, which is what lets a datagram be read field by field.
\<close>

locale fixed_code =
  fixes enc :: "'a \<Rightarrow> u8 list"
    and dec :: "u8 list \<Rightarrow> 'a"
    and valid :: "'a \<Rightarrow> bool"
    and width :: nat
  assumes enc_length: "valid x \<Longrightarrow> length (enc x) = width"
    and dec_enc: "valid x \<Longrightarrow> dec (enc x @ rest) = x"
    and enc_dec: "width \<le> length bs \<Longrightarrow> enc (dec bs) = take width bs"
    and valid_dec: "width \<le> length bs \<Longrightarrow> valid (dec bs)"
begin

lemma enc_inj: "inj_on enc (Collect valid)"
  by (rule inj_onI) (metis append_Nil2 dec_enc mem_Collect_eq)

text \<open>Reading a field at its offset.\<close>

lemma dec_field:
  assumes "valid x" and "length xs = n"
  shows "dec (drop n (xs @ enc x @ ys)) = x"
  using assms by (simp add: dec_enc)

text \<open>Writing back what was read at an offset restores those bytes.\<close>

lemma enc_field:
  assumes "n + width \<le> length bs"
  shows "enc (dec (drop n bs)) @ drop (n + width) bs = drop n bs"
proof -
  have "enc (dec (drop n bs)) = take width (drop n bs)"
    using assms by (intro enc_dec) simp
  then show ?thesis
    by (metis add.commute append_take_drop_id drop_drop)
qed

end

text \<open>The byte codes of the tunnel meet the contract.\<close>

lemma low_byte [simp]:
  "(ucast (w AND 0xFF) :: u8) = ucast (w :: 'a :: len word)"
proof -
  have "(ucast (w AND mask 8) :: u8) = ucast w"
    by (rule bit_word_eqI) (auto simp: bit_simps dest: bit_imp_le_length)
  then show ?thesis
    by (simp add: mask_eq_exp_minus_1)
qed

lemmas byte_defs =
  read_u16_le_bytes_def write_u16_le_bytes_def read_u32_le_bytes_def write_u32_le_bytes_def

lemma u16_bytes:
  "ucast (ucast w :: u8) OR push_bit 8 (ucast (ucast (drop_bit 8 w) :: u8)) = (w :: u16)"
  by (rule bit_word_eqI) (auto simp: bit_simps)

lemma u32_bytes:
  "ucast (ucast w :: u8) OR push_bit 8 (ucast (ucast (drop_bit 8 w) :: u8))
     OR push_bit 16 (ucast (ucast (drop_bit 16 w) :: u8))
     OR push_bit 24 (ucast (ucast (drop_bit 24 w) :: u8)) = (w :: u32)"
  (is "?l = w")
proof (rule bit_word_eqI)
  fix n assume "n < LENGTH(32)"
  then consider "n < 8" | "8 \<le> n" "n < 16" | "16 \<le> n" "n < 24" | "24 \<le> n" "n < 32"
    by fastforce
  then show "bit ?l n \<longleftrightarrow> bit w n"
    by cases (auto simp: bit_simps)
qed

lemma bytes_u16:
  fixes a b :: u8
  defines "w \<equiv> (ucast a OR push_bit 8 (ucast b) :: u16)"
  shows "ucast w = a" "ucast (drop_bit 8 w) = b"
  unfolding w_def by (rule bit_word_eqI, auto simp: bit_simps dest: bit_imp_le_length)+

lemma bytes_u32:
  fixes a b c d :: u8
  defines "w \<equiv> (ucast a OR push_bit 8 (ucast b) OR push_bit 16 (ucast c)
                OR push_bit 24 (ucast d) :: u32)"
  shows "ucast w = a" "ucast (drop_bit 8 w) = b" "ucast (drop_bit 16 w) = c"
    "ucast (drop_bit 24 w) = d"
  unfolding w_def by (rule bit_word_eqI, auto simp: bit_simps dest: bit_imp_le_length)+

interpretation u16_code: fixed_code write_u16_le_bytes read_u16_le_bytes "\<lambda>_. True" 2
proof
  fix bs :: "u8 list"
  assume "2 \<le> length bs"
  then obtain a b rest where "bs = a # b # rest"
    by (auto simp: Suc_le_length_iff numeral_2_eq_2)
  then show "write_u16_le_bytes (read_u16_le_bytes bs) = take 2 bs"
    by (simp add: byte_defs bytes_u16 del: drop_bit_or)
qed (simp_all add: byte_defs u16_bytes)

interpretation u32_code: fixed_code write_u32_le_bytes read_u32_le_bytes "\<lambda>_. True" 4
proof
  fix bs :: "u8 list"
  assume "4 \<le> length bs"
  then obtain a b c d rest where "bs = a # b # c # d # rest"
    by (auto simp: Suc_le_length_iff eval_nat_numeral)
  then show "write_u32_le_bytes (read_u32_le_bytes bs) = take 4 bs"
    by (simp add: byte_defs bytes_u32 del: drop_bit_or)
qed (simp_all add: byte_defs u32_bytes)

text \<open>A frame the wire layout can carry: a standard identifier and the full eight bytes.\<close>

definition wire_valid :: "can_frame \<Rightarrow> bool" where
  "wire_valid f \<longleftrightarrow> \<not> extended f \<and> length (frame_data f) = 8"

lemma write_wire_frame_read:
  assumes "13 \<le> length bs"
  shows "write_wire_frame (read_wire_frame bs) = take 13 bs"
proof -
  have "take 13 bs = take 4 bs @ take 1 (drop 4 bs) @ take 8 (drop 5 bs)"
    using take_add [of 4 9 bs] take_add [of 1 8 "drop 4 bs"] by simp
  moreover have "take 1 (drop 4 bs) = [bs ! 4]"
    using assms by (simp add: take_Suc_conv_app_nth One_nat_def)
  ultimately show ?thesis
    using assms u32_code.enc_dec [of bs] by (simp add: write_wire_frame_def read_wire_frame_def)
qed

interpretation frame_code: fixed_code write_wire_frame read_wire_frame wire_valid 13
proof
  show "length (write_wire_frame x) = 13" if "wire_valid x" for x
    using that by (simp add: wire_valid_def write_wire_frame_def write_u32_le_bytes_def)
  show "read_wire_frame (write_wire_frame x @ rest) = x" if "wire_valid x" for x rest
    using that u32_code.dec_enc [of "can_id x"]
    by (simp add: wire_valid_def write_wire_frame_def read_wire_frame_def)
      (simp add: write_u32_le_bytes_def)
qed (simp_all add: write_wire_frame_read, simp add: wire_valid_def read_wire_frame_def)

section \<open>Datagrams\<close>

lemma pack_Inr_iff:
  "pack_can_udp_tunnel (Some fs) sequence = Inr bytes \<longleftrightarrow>
     length fs = 3 \<and> status_sequence (fs ! 2) = sequence \<and>
     (\<forall>i < 3. dlc (fs ! i) = 8 \<and> \<not> extended (fs ! i)) \<and>
     map can_id fs = [kLateralCommandCanId, kLongitudinalCommandCanId, kCommandStatusCanId] \<and>
     bytes = [kCanUdpTunnelMagic0, kCanUdpTunnelMagic1, kCanUdpTunnelVersion,
              kCanUdpTunnelFlagClassicBatch] @ write_u16_le_bytes sequence @ [0, 0]
             @ write_wire_frame (fs ! 0) @ write_wire_frame (fs ! 1)
             @ write_wire_frame (fs ! 2) @ [0]"
proof (cases "length fs = 3")
  case True
  then obtain a b c where "fs = [a, b, c]"
    by (auto simp: length_Suc_conv numeral_3_eq_3)
  then show ?thesis
    by (auto simp: pack_can_udp_tunnel_def kControlCommandCanFrameCount_def less_Suc_eq
        numeral_3_eq_3)
next
  case False
  then show ?thesis
    by (simp add: pack_can_udp_tunnel_def kControlCommandCanFrameCount_def)
qed

lemma three_nth: "length fs = 3 \<Longrightarrow> [fs ! 0, fs ! 1, fs ! 2] = fs"
  by (auto simp: length_Suc_conv numeral_3_eq_3)

lemma pack_unpack:
  assumes "pack_can_udp_tunnel (Some fs) sequence = Inr bytes"
    and "\<forall>f \<in> set fs. length (frame_data f) = 8"
  shows "length bytes = 48 \<and> unpack_can_udp_tunnel (Some bytes) = Inr (sequence, fs)"
proof -
  define h where "h = [kCanUdpTunnelMagic0, kCanUdpTunnelMagic1, kCanUdpTunnelVersion,
              kCanUdpTunnelFlagClassicBatch]"
  define w where "w = write_u16_le_bytes sequence"
  define e where "e i = write_wire_frame (fs ! i)" for i
  have len: "length fs = 3" and seq: "status_sequence (fs ! 2) = sequence"
    and ids: "map can_id fs = [kLateralCommandCanId, kLongitudinalCommandCanId, kCommandStatusCanId]"
    and dlcs: "\<forall>i < 3. dlc (fs ! i) = 8 \<and> \<not> extended (fs ! i)"
    and bytes: "bytes = h @ w @ [0, 0] @ e 0 @ e 1 @ e 2 @ [0]"
    using assms(1) by (auto simp: pack_Inr_iff h_def w_def e_def)
  have valid: "wire_valid (fs ! i)" if "i < 3" for i
    using that dlcs assms(2) len by (simp add: wire_valid_def)
  have lw [simp]: "length h = 4" "length w = 2" "length (e 0) = 13" "length (e 1) = 13" "length (e 2) = 13"
    using valid frame_code.enc_length
    by (simp_all add: h_def w_def e_def write_u16_le_bytes_def)
  have f0: "read_wire_frame (drop 8 bytes) = fs ! 0"
    using frame_code.dec_field [OF valid [of 0], of "h @ w @ [0, 0]" 8 "e 1 @ e 2 @ [0]"]
    by (simp add: bytes e_def [symmetric] del: One_nat_def)
  have f1: "read_wire_frame (drop 21 bytes) = fs ! 1"
    using frame_code.dec_field [OF valid [of 1], of "h @ w @ [0, 0] @ e 0" 21 "e 2 @ [0]"]
    by (simp add: bytes e_def [symmetric] del: One_nat_def)
  have f2: "read_wire_frame (drop 34 bytes) = fs ! 2"
    using frame_code.dec_field [OF valid [of 2], of "h @ w @ [0, 0] @ e 0 @ e 1" 34 "[0]"]
    by (simp add: bytes e_def [symmetric] del: One_nat_def)
  have s: "read_u16_le_bytes (drop 4 bytes) = sequence"
    using u16_code.dec_field [where x = sequence and xs = h and n = 4
        and ys = "[0, 0] @ e 0 @ e 1 @ e 2 @ [0]"]
    by (simp add: bytes w_def [symmetric])
  have heads: "bytes ! 0 = kCanUdpTunnelMagic0" "bytes ! 1 = kCanUdpTunnelMagic1"
    "bytes ! 2 = kCanUdpTunnelVersion" "bytes ! 3 = kCanUdpTunnelFlagClassicBatch"
    "bytes ! 6 = 0" "bytes ! 7 = 0" "bytes ! 47 = 0"
    by (simp_all add: bytes nth_append del: One_nat_def) (simp_all add: h_def)
  have "can_id (fs ! 0) = kLateralCommandCanId" "can_id (fs ! 1) = kLongitudinalCommandCanId"
    "can_id (fs ! 2) = kCommandStatusCanId"
    using ids len by (auto simp: list_eq_iff_nth_eq numeral_3_eq_3 nth_Cons' dest: spec [of _ 0] spec [of _ 1] spec [of _ 2])
  moreover have "length bytes = 48"
    by (simp add: bytes del: One_nat_def)
  ultimately show ?thesis
    using heads s f0 f1 f2 seq dlcs three_nth [OF len]
    by (simp add: unpack_can_udp_tunnel_def kCanUdpTunnelDatagramSize_def)
qed

lemma unpack_Inr_iff:
  "unpack_can_udp_tunnel (Some data) = Inr (sequence, fs) \<longleftrightarrow>
     length data = 48 \<and>
     take 4 data = [kCanUdpTunnelMagic0, kCanUdpTunnelMagic1, kCanUdpTunnelVersion,
                    kCanUdpTunnelFlagClassicBatch] \<and>
     data ! 6 = 0 \<and> data ! 7 = 0 \<and> data ! 47 = 0 \<and>
     sequence = read_u16_le_bytes (drop 4 data) \<and>
     fs = [read_wire_frame (drop 8 data), read_wire_frame (drop 21 data),
           read_wire_frame (drop 34 data)] \<and>
     map can_id fs = [kLateralCommandCanId, kLongitudinalCommandCanId, kCommandStatusCanId] \<and>
     (\<forall>f \<in> set fs. dlc f = 8) \<and> status_sequence (fs ! 2) = sequence"
proof (cases "length data = 48")
  case True
  then have "take 4 data = [data ! 0, data ! 1, data ! 2, data ! 3]"
    by (simp add: list_eq_iff_nth_eq nth_Cons' less_Suc_eq eval_nat_numeral)
  then show ?thesis
    using True
    by (auto simp: unpack_can_udp_tunnel_def kCanUdpTunnelDatagramSize_def Let_def)
next
  case False
  then show ?thesis
    by (simp add: unpack_can_udp_tunnel_def kCanUdpTunnelDatagramSize_def)
qed

lemma unpack_pack:
  assumes "unpack_can_udp_tunnel (Some data) = Inr (sequence, fs)"
  shows "pack_can_udp_tunnel (Some fs) sequence = Inr data"
proof -
  have len: "length data = 48" and reserved: "data ! 6 = 0" "data ! 7 = 0" "data ! 47 = 0"
    and parts: "fs = [read_wire_frame (drop 8 data), read_wire_frame (drop 21 data),
        read_wire_frame (drop 34 data)]" "sequence = read_u16_le_bytes (drop 4 data)"
    and rest: "map can_id fs = [kLateralCommandCanId, kLongitudinalCommandCanId, kCommandStatusCanId]"
      "\<forall>f \<in> set fs. dlc f = 8" "status_sequence (fs ! 2) = sequence"
    and head: "take 4 data = [kCanUdpTunnelMagic0, kCanUdpTunnelMagic1, kCanUdpTunnelVersion,
        kCanUdpTunnelFlagClassicBatch]"
    using assms unfolding unpack_Inr_iff by blast+
  have "drop 34 data = write_wire_frame (fs ! 2) @ [0]"
    using frame_code.enc_field [of 34 data] len reserved Cons_nth_drop_Suc [of 47 data]
    by (simp add: parts)
  then have "drop 8 data = write_wire_frame (fs ! 0) @ write_wire_frame (fs ! 1)
      @ write_wire_frame (fs ! 2) @ [0]"
    using frame_code.enc_field [of 8 data] frame_code.enc_field [of 21 data] len
    by (simp add: parts)
  then have "drop 4 data = write_u16_le_bytes sequence @ [0, 0] @ write_wire_frame (fs ! 0)
      @ write_wire_frame (fs ! 1) @ write_wire_frame (fs ! 2) @ [0]"
    using u16_code.enc_field [of 4 data] len reserved Cons_nth_drop_Suc [of 6 data]
      Cons_nth_drop_Suc [of 7 data]
    by (simp add: parts)
  then have "data = take 4 data @ write_u16_le_bytes sequence @ [0, 0] @ write_wire_frame (fs ! 0)
      @ write_wire_frame (fs ! 1) @ write_wire_frame (fs ! 2) @ [0]"
    by (metis append_take_drop_id)
  then show ?thesis
    using rest unfolding pack_Inr_iff head
    by (simp add: parts(1) read_wire_frame_def less_Suc_eq numeral_3_eq_3)
qed

end
