(* ===== verification/Can_Output.thy ===== *)
theory Can_Output
  imports Can_Tunnel
begin

text \<open>
  The CAN output channel of the controller (\<open>common/can/control_command_can_output.hpp\<close>): it
  owns the batch sequence number and chooses between the classic and the CAN-FD encoding. The
  transport (\<open>platform::can_*\<close>, chosen at build time) is an argument: the answers it gives are
  a record, and what \<open>send\<close> hands to it is part of the result. The mutex only serialises the
  three operations, which are atomic here.
\<close>

record can_platform =
  can_init_ok :: bool
  can_fd_active :: bool
  can_send_fd_ok :: bool
  can_send_batch_ok :: bool

record can_output =
  can_initialized :: bool
  fd_active :: bool
  can_sequence :: u16

definition ControlCommandCanOutput :: can_output where
  "ControlCommandCanOutput = \<lparr>can_initialized = False, fd_active = False, can_sequence = 0\<rparr>"

definition can_output_init :: "can_platform \<Rightarrow> can_output \<Rightarrow> can_output \<times> bool" where
  "can_output_init p s =
     (let s = s\<lparr>fd_active := False\<rparr>;
          s = s\<lparr>can_initialized := can_init_ok p\<rparr>;
          s = (if can_initialized s then s\<lparr>fd_active := can_fd_active p\<rparr> else s)
      in (s, can_initialized s))"

datatype can_sent = Sent_Fd can_fd_frame | Sent_Batch "can_frame list"

text \<open>\<open>send\<close>: the new state, what went to the transport, and the result.\<close>

definition can_output_send ::
  "can_platform \<Rightarrow> control_msg \<Rightarrow> output_mode \<Rightarrow> can_output \<Rightarrow> can_output \<times> can_sent list \<times> bool" where
  "can_output_send p msg m s =
     (if \<not> output_mode_uses_can m then (s, [], True)
      else if \<not> can_initialized s then (s, [], False)
      else if fd_active s then
        (case encode_control_command_fd msg m (can_sequence s) of
           Inl e \<Rightarrow> (s, [], False)
         | Inr None \<Rightarrow> (s\<lparr>can_sequence := can_sequence s + 1\<rparr>, [], True)
         | Inr (Some frame) \<Rightarrow>
             if \<not> can_send_fd_ok p then (s, [Sent_Fd frame], False)
             else (s\<lparr>can_sequence := can_sequence s + 1\<rparr>, [Sent_Fd frame], True))
      else
        (case encode_control_command msg m (can_sequence s) of
           Inl e \<Rightarrow> (s, [], False)
         | Inr frames \<Rightarrow>
             if \<not> can_send_batch_ok p then (s, [Sent_Batch frames], False)
             else (s\<lparr>can_sequence := can_sequence s + 1\<rparr>, [Sent_Batch frames], True)))"

section \<open>The content of an encoded command\<close>

definition bytes32 :: "u32 \<Rightarrow> u8 list" where
  "bytes32 w = [byte_of 0 w, byte_of 1 w, byte_of 2 w, byte_of 3 w]"

lemma bytes32_eq: "bytes32 w = write_u32_le_bytes w"
  by (simp add: bytes32_def byte_of_def write_u32_le_bytes_def)

lemma read_bytes32 [simp]: "read_u32_le_bytes (bytes32 w @ rest) = w" "read_u32_le_bytes (bytes32 w) = w"
  using u32_code.dec_enc [of w rest] u32_code.dec_enc [of w "[]"] by (simp_all add: bytes32_eq)

lemma length_bytes32 [simp]: "length (bytes32 w) = 4"
  by (simp add: bytes32_def)

lemma encode_InrE:
  assumes "encode_control_command msg m sequence = Inr frames" and "output_mode_uses_can m"
  obtains a b c d where
    "scale_to_i32 (steering_tire_angle (lateral msg)) (Fin 1000000) = Some a"
    "scale_to_i32 (steering_tire_rotation_rate (lateral msg)) (Fin 1000000) = Some b"
    "scale_to_i32 (velocity (longitudinal msg)) (Fin 1000) = Some c"
    "scale_to_i32 (acceleration (longitudinal msg)) (Fin 1000) = Some d"
    "frames =
       [\<lparr>can_id = kLateralCommandCanId, dlc = 8, extended = False, frame_data = bytes32 a @ bytes32 b\<rparr>,
        \<lparr>can_id = kLongitudinalCommandCanId, dlc = 8, extended = False, frame_data = bytes32 c @ bytes32 d\<rparr>,
        \<lparr>can_id = kCommandStatusCanId, dlc = 8, extended = False,
         frame_data = [output_mode_octet m, validity_flags msg] @ write_u16_le_bytes sequence
           @ bytes32 (timestamp_ms_modulo (ctl_stamp msg))\<rparr>]"
  using assms
  by (auto simp: encode_control_command_def Let_def zero_frame_def write_i32_le_def
      write_u16_le_def write_u32_le_def bytes32_def write_u16_le_bytes_def eval_nat_numeral
      split: option.splits)

text \<open>The values a receiver reads from the frames.\<close>

definition frame_i32 :: "can_frame \<Rightarrow> nat \<Rightarrow> int" where
  "frame_i32 f off = sint (read_u32_le_bytes (drop off (frame_data f)))"

lemma frame_i32_bytes [simp]:
  "frame_data f = bytes32 a @ bytes32 b \<Longrightarrow> frame_i32 f 0 = sint a"
  "frame_data f = bytes32 a @ bytes32 b \<Longrightarrow> frame_i32 f 4 = sint b"
  by (simp_all add: frame_i32_def)

lemma encode_packs:
  assumes "encode_control_command msg m sequence = Inr frames" and "output_mode_uses_can m"
  shows "\<exists>bytes. pack_can_udp_tunnel (Some frames) sequence = Inr bytes"
    and "\<forall>f \<in> set frames. length (frame_data f) = 8"
  by (rule encode_InrE [OF assms],
      simp add: pack_can_udp_tunnel_def kControlCommandCanFrameCount_def status_sequence_def
      write_u16_le_bytes_def u16_bytes bytes32_def)+

text \<open>Once scaling accepts the four fields, both encodings succeed.\<close>

lemma encode_fd_iff:
  assumes "output_mode_uses_can m"
  shows "encode_control_command_fd msg m sequence =
    (case encode_control_command msg m sequence of Inl e \<Rightarrow> Inl e
     | Inr frames \<Rightarrow> Inr (Some \<lparr>fd_id = kFdControlCommandCanId, fd_length = 24, fd_brs = False,
         fd_data = concat (map frame_data frames) @ replicate 40 0\<rparr>))"
proof (cases "encode_control_command msg m sequence")
  case (Inr frames)
  show ?thesis
    by (rule encode_InrE [OF Inr assms]) (simp add: encode_control_command_fd_def Inr)
qed (simp add: encode_control_command_fd_def)

section \<open>The sequence number\<close>

lemma can_output_send_sequence:
  "can_output_send p msg m s = (s', sent, ok) \<Longrightarrow>
   s' = (if ok \<and> output_mode_uses_can m then s\<lparr>can_sequence := can_sequence s + 1\<rparr> else s)"
  by (auto simp: can_output_send_def split: if_splits sum.splits option.splits)

end
