(* ===== verification/Follower_Base.thy ===== *)
theory Follower_Base
  imports Messages
begin

text \<open>
  The interface between the node and its two controllers
  (\<open>autoware_trajectory_follower_base\<close>): the input they share, their outputs, and the two
  virtual base classes. A base class is a record of functions over the state of the object,
  so that the node is defined for any pair of controllers.
\<close>

record input_data =
  in_trajectory :: trajectory
  in_odometry :: odometry
  in_steering :: steering_report
  in_accel :: accel_stamped
  in_operation_mode :: operation_mode

record lateral_sync_data =
  is_steer_converged :: bool

record lateral_output =
  lat_control_cmd :: lateral_msg
  lat_horizon_step_ms :: dbl
  lat_horizon :: "lateral_msg list"
  lat_sync_data :: lateral_sync_data

record longitudinal_output =
  lon_control_cmd :: longitudinal_msg
  lon_horizon_step_ms :: dbl
  lon_horizon :: "longitudinal_msg list"

text \<open>\<open>LongitudinalSyncData\<close> has no field, so the lateral \<open>sync\<close> takes no data.\<close>

record ('lat, 'lon) follower =
  lat_isReady :: "input_data \<Rightarrow> 'lat \<Rightarrow> bool \<times> 'lat"
  lat_run :: "input_data \<Rightarrow> 'lat \<Rightarrow> lateral_output \<times> 'lat"
  lat_sync :: "'lat \<Rightarrow> 'lat"
  lon_isReady :: "input_data \<Rightarrow> 'lon \<Rightarrow> bool \<times> 'lon"
  lon_run :: "input_data \<Rightarrow> 'lon \<Rightarrow> longitudinal_output \<times> 'lon"
  lon_sync :: "lateral_sync_data \<Rightarrow> 'lon \<Rightarrow> 'lon"

end
