(* ===== verification/Controller_State.thy ===== *)
theory Controller_State
  imports Supervision Candidate_Identity Vp_Reference Startup_Config Can_Output Follower_Base
begin

text \<open>
  Configuration and state of the controller node
  (\<open>trajectory_follower_node/controller_node.hpp\<close>) and its constructor. What the constructor
  sets once is the record \<open>node_config\<close>; the members that change are \<open>node_state\<close>, whose two
  type parameters are the states of the lateral and the longitudinal controller.
\<close>

record node_config =
  startup :: startup_config
  node_mode :: supervision_mode
  timeout_thr_sec :: dbl
  source_timeout_candidate :: dbl
  source_timeout_ego :: dbl
  source_timeout_steering :: dbl
  source_timeout_opmode :: dbl
  source_timeout_heartbeat :: dbl
  cfg_max_steering_rad :: dbl
  cfg_max_abs_accel_mps2 :: dbl
  cfg_max_abs_velocity_mps :: dbl
  follower_max_steer_rad :: dbl
  stop_decel_mps2 :: dbl
  reenable_window_s :: dbl
  node_output_mode :: output_mode
  si_session :: u32
  platform_x5h :: bool

record ('lat, 'lon) node_state =
  lateral_controller :: 'lat
  longitudinal_controller :: 'lon
  current_trajectory :: trajectory
  current_odometry :: odometry
  current_steering :: steering_report
  current_accel :: accel_stamped
  current_operation_mode :: operation_mode
  has_trajectory :: bool
  has_odometry :: bool
  has_steering :: bool
  has_accel :: bool
  has_operation_mode :: bool
  node_can_output :: "can_output option"
  node_stop_ramp :: stop_ramp
  si_fault_events_seen :: u32
  watch_heartbeat :: source_watch
  watch_steering :: source_watch
  watch_odom :: source_watch
  watch_accel :: source_watch
  watch_candidate :: source_watch
  watch_vp_cmd :: source_watch
  watch_opmode :: source_watch
  vp_candidate_identity :: vp_identity
  node_ego_history :: ego_history
  vp_reference_rejects :: u64
  autoware_trajectory_identity :: autoware_identity
  supervision :: supervision_state
  reenable :: reenable_request
  last_approved :: control_msg
  has_approved :: bool
  out_seq :: u64
  current_vp_cmd :: driving_command
  has_vp_cmd :: bool
  accepted_source_session :: u32
  accepted_source_cycle :: u64

definition reset_data_flags :: "('lat, 'lon) node_state \<Rightarrow> ('lat, 'lon) node_state" where
  "reset_data_flags st =
     st\<lparr>has_accel := False, has_steering := False, has_odometry := False,
        has_trajectory := False, has_operation_mode := False\<rparr>"

section \<open>Construction\<close>

definition zero_driving_command :: driving_command where
  "zero_driving_command = \<lparr>cmd_source_stamp = zero_time, cmd_has_source_stamp = False, cmd_session = 0,
     cmd_cycle = 0, cmd_valid = False, steering_tire_angle_rad = 0, target_speed_mps = 0,
     cmd_acceleration_mps2 = 0\<rparr>"

definition default_operation_mode :: operation_mode where
  "default_operation_mode = \<lparr>mode_stamp = zero_time, op_mode = 1, is_autoware_control_enabled = True,
     is_in_transition = False, is_stop_mode_available = True, is_autonomous_mode_available = True,
     is_local_mode_available = True, is_remote_mode_available = True\<rparr>"

definition initial_state :: "'lat \<Rightarrow> 'lon \<Rightarrow> can_output option \<Rightarrow> ('lat, 'lon) node_state" where
  "initial_state lat lon can =
     \<lparr>lateral_controller = lat, longitudinal_controller = lon,
      current_trajectory = empty_trajectory, current_odometry = zero_odometry,
      current_steering = zero_steering, current_accel = zero_accel,
      current_operation_mode = default_operation_mode,
      has_trajectory = False, has_odometry = False, has_steering = False, has_accel = False,
      has_operation_mode = False, node_can_output = can, node_stop_ramp = init_ramp,
      si_fault_events_seen = 0, watch_heartbeat = init_watch, watch_steering = init_watch,
      watch_odom = init_watch, watch_accel = init_watch, watch_candidate = init_watch,
      watch_vp_cmd = init_watch, watch_opmode = init_watch,
      vp_candidate_identity = init_vp_identity, node_ego_history = EgoHistory,
      vp_reference_rejects = 0, autoware_trajectory_identity = init_autoware_identity,
      supervision = init_supervision, reenable = init_reenable, last_approved = zero_control,
      has_approved = False, out_seq = 0, current_vp_cmd = zero_driving_command,
      has_vp_cmd = False, accepted_source_session = 0, accepted_source_cycle = 0\<rparr>"

datatype LateralControllerMode = LAT_INVALID | MPC | PURE_PURSUIT
datatype LongitudinalControllerMode = LON_INVALID | PID

definition getLateralControllerMode :: "string \<Rightarrow> LateralControllerMode" where
  "getLateralControllerMode controller_mode = (if controller_mode = ''mpc'' then MPC else LAT_INVALID)"

definition getLongitudinalControllerMode :: "string \<Rightarrow> LongitudinalControllerMode" where
  "getLongitudinalControllerMode controller_mode = (if controller_mode = ''pid'' then PID else LON_INVALID)"

text \<open>
  What the constructor gets from outside: the values the node's parameters already have (a
  declared parameter keeps an existing value and takes the default otherwise), the vehicle's
  steering limit, the system clock, which subscriptions the middleware accepts, the build
  configuration, and the CAN transport.
\<close>

record node_env =
  real_params :: "string \<Rightarrow> dbl option"
  text_params :: "string \<Rightarrow> string option"
  vehicle_max_steer_angle :: dbl
  boot_clock :: int
  subscribe_ok :: "string \<Rightarrow> bool"
  build_output_mode :: output_mode
  build_x5h :: bool
  default_stop_decel :: dbl
  boot_can :: can_platform

definition declare_real :: "node_env \<Rightarrow> string \<Rightarrow> dbl \<Rightarrow> dbl" where
  "declare_real env name dflt = (case real_params env name of Some v \<Rightarrow> v | None \<Rightarrow> dflt)"

definition declare_text :: "node_env \<Rightarrow> string \<Rightarrow> string \<Rightarrow> string" where
  "declare_text env name dflt = (case text_params env name of Some v \<Rightarrow> v | None \<Rightarrow> dflt)"

datatype boot_error =
    Invalid_Lateral_Mode | Invalid_Longitudinal_Mode | Can_Init_Failed
  | No_Driving_Reference | No_Autoware_Trajectory | No_Driving_Command

definition configure :: "startup_config \<Rightarrow> node_env \<Rightarrow> node_config" where
  "configure config env =
     \<lparr>startup = config,
      node_mode = (if cfg_mode config = VP_CONTROL_MODE then VP_CONTROL else SI_CONTROL),
      timeout_thr_sec = declare_real env ''timeout_thr_sec'' (Fin (1 / 2)),
      source_timeout_candidate = declare_real env ''source_timeout_candidate_s'' (Fin 1),
      source_timeout_ego = declare_real env ''source_timeout_ego_s'' (Fin (4 / 10)),
      source_timeout_steering = declare_real env ''source_timeout_steering_s'' (Fin (1 / 2)),
      source_timeout_opmode = declare_real env ''source_timeout_opmode_s'' PInf,
      source_timeout_heartbeat = declare_real env ''source_timeout_heartbeat_s'' (Fin (1 / 2)),
      cfg_max_steering_rad = declare_real env ''max_steering_rad'' (Fin (6 / 10)),
      cfg_max_abs_accel_mps2 = declare_real env ''max_abs_accel_mps2'' (Fin 6),
      cfg_max_abs_velocity_mps = declare_real env ''max_abs_velocity_mps'' (Fin 60),
      follower_max_steer_rad = vehicle_max_steer_angle env,
      stop_decel_mps2 = to_float (declare_real env ''stop_decel_mps2'' (default_stop_decel env)),
      reenable_window_s = declare_real env ''reenable_window_s'' (Fin 5),
      node_output_mode = build_output_mode env,
      si_session = (case siSessionFromClock (Clock_now (boot_clock env)) of Some s \<Rightarrow> s | None \<Rightarrow> 0),
      platform_x5h = build_x5h env\<rparr>"

definition boot_can_output :: "node_env \<Rightarrow> boot_error + can_output option" where
  "boot_can_output env =
     (if output_mode_uses_can (build_output_mode env) then
        (case can_output_init (boot_can env) ControlCommandCanOutput of
           (s, True) \<Rightarrow> Inr (Some s)
         | (s, False) \<Rightarrow>
             if build_output_mode env = CAN_ONLY then Inl Can_Init_Failed else Inr None)
      else Inr None)"

text \<open>The constructor; the exceptions and the calls of \<open>exit\<close> are the errors.\<close>

definition Controller ::
  "startup_config \<Rightarrow> node_env \<Rightarrow> 'lat \<Rightarrow> 'lon \<Rightarrow> boot_error + (node_config \<times> ('lat, 'lon) node_state)" where
  "Controller config env lat lon =
     (let cfg = configure config env
      in if getLateralControllerMode (declare_text env ''lateral_controller_mode'' ''mpc'') \<noteq> MPC
         then Inl Invalid_Lateral_Mode
         else if getLongitudinalControllerMode (declare_text env ''longitudinal_controller_mode'' ''pid'') \<noteq> PID
         then Inl Invalid_Longitudinal_Mode
         else if node_mode cfg = SI_CONTROL \<and> trajectory_source config = VP
              \<and> \<not> subscribe_ok env ''/vehicle/driving_reference''
         then Inl No_Driving_Reference
         else if node_mode cfg = SI_CONTROL \<and> trajectory_source config = AUTOWARE
              \<and> \<not> subscribe_ok env ''/planning/trajectory''
         then Inl No_Autoware_Trajectory
         else if node_mode cfg = VP_CONTROL \<and> \<not> subscribe_ok env ''/vehicle/driving_command''
         then Inl No_Driving_Command
         else (case boot_can_output env of
                 Inl e \<Rightarrow> Inl e
               | Inr can \<Rightarrow> Inr (cfg, initial_state lat lon can)))"

end
