(* ===== verification/Si_Channel.thy ===== *)
theory Si_Channel
  imports Prelude
begin

text \<open>
  The fault channel to the supervising Linux side (\<open>freertos_x5h/si_channel.c\<close>): parsing of a
  datagram, the fault latch with its edge counter, and the heartbeat line. A datagram is
  \<open>None\<close> for a null pointer or the bytes of its given length; the three static counters are
  a record.
\<close>

datatype si_msg = SI_MSG_IGNORE | SI_MSG_HELLO | SI_MSG_FAULT_SET | SI_MSG_FAULT_CLEAR

definition newline :: char where "newline = CHR 0x0A"

definition si_eq :: "string \<Rightarrow> string \<Rightarrow> bool" where
  "si_eq s lit =
     (let n = length lit;
          len = (if length s = n + 1 \<and> s ! n = newline then n else length s)
      in len = n \<and> take n s = lit)"

definition si_channel_parse :: "string option \<Rightarrow> si_msg" where
  "si_channel_parse data =
     (case data of
        None \<Rightarrow> SI_MSG_IGNORE
      | Some s \<Rightarrow>
          if length s = 0 then SI_MSG_IGNORE
          else if si_eq s ''hello'' then SI_MSG_HELLO
          else if si_eq s ''fault=1'' then SI_MSG_FAULT_SET
          else if si_eq s ''fault=0'' then SI_MSG_FAULT_CLEAR
          else SI_MSG_IGNORE)"

record si_channel =
  s_fault :: bool
  s_fault_events :: u32
  s_rx_count :: u32

definition si_channel_boot :: si_channel where
  "si_channel_boot = \<lparr>s_fault = False, s_fault_events = 0, s_rx_count = 0\<rparr>"

definition si_channel_rx :: "string option \<Rightarrow> si_channel \<Rightarrow> si_channel" where
  "si_channel_rx data st =
     (let st = st\<lparr>s_rx_count := s_rx_count st + 1\<rparr>
      in case si_channel_parse data of
           SI_MSG_FAULT_SET \<Rightarrow>
             let st = (if \<not> s_fault st then st\<lparr>s_fault_events := s_fault_events st + 1\<rparr> else st)
             in st\<lparr>s_fault := True\<rparr>
         | SI_MSG_FAULT_CLEAR \<Rightarrow> st\<lparr>s_fault := False\<rparr>
         | _ \<Rightarrow> st)"

section \<open>The heartbeat line\<close>

definition SI_CHANNEL_HB_LINE_MAX :: nat where "SI_CHANNEL_HB_LINE_MAX = 48"

text \<open>\<open>%u\<close>: the decimal digits of an unsigned number.\<close>

fun decimal :: "nat \<Rightarrow> string" where
  "decimal n = (if n < 10 then [char_of (48 + n)] else decimal (n div 10) @ [char_of (48 + n mod 10)])"

declare decimal.simps [simp del]

definition hb_line :: "u32 \<Rightarrow> u32 \<Rightarrow> bool \<Rightarrow> string" where
  "hb_line sequence uptime_ms fault =
     ''hb seq='' @ decimal (unat sequence) @ '' uptime_ms='' @ decimal (unat uptime_ms)
     @ '' fault='' @ (if fault then ''1'' else ''0'') @ [newline]"

text \<open>The line and its length, or \<open>None\<close> for -1: with its final NUL it does not fit.\<close>

definition si_channel_format_hb :: "nat \<Rightarrow> u32 \<Rightarrow> u32 \<Rightarrow> bool \<Rightarrow> string option" where
  "si_channel_format_hb cap sequence uptime_ms fault =
     (let line = hb_line sequence uptime_ms fault
      in if length line \<ge> cap then None else Some line)"

section \<open>Lemmas\<close>

lemma si_eq_iff: "si_eq s lit \<longleftrightarrow> s = lit \<or> s = lit @ [newline]"
proof
  assume *: "si_eq s lit"
  show "s = lit \<or> s = lit @ [newline]"
  proof (cases "length s = length lit + 1 \<and> s ! length lit = newline")
    case True
    then have "s = take (length lit) s @ [newline]"
      by (metis Suc_eq_plus1 lessI take_Suc_conv_app_nth take_all_iff order_refl)
    then show ?thesis
      using * True by (simp add: si_eq_def)
  next
    case False
    then show ?thesis
      using * by (auto simp: si_eq_def Let_def)
  qed
qed (auto simp: si_eq_def Let_def)

lemma parse_fault_set: 
  "si_channel_parse data = SI_MSG_FAULT_SET \<longleftrightarrow>
     data = Some ''fault=1'' \<or> data = Some (''fault=1'' @ [newline])"
  by (auto simp: si_channel_parse_def si_eq_iff newline_def split: option.splits)

lemma parse_fault_clear:
  "si_channel_parse data = SI_MSG_FAULT_CLEAR \<longleftrightarrow>
     data = Some ''fault=0'' \<or> data = Some (''fault=0'' @ [newline])"
  by (auto simp: si_channel_parse_def si_eq_iff newline_def split: option.splits)

lemma length_decimal: "n < 10 ^ k \<Longrightarrow> 0 < k \<Longrightarrow> length (decimal n) \<le> k"
proof (induction n arbitrary: k rule: decimal.induct)
  case (1 n)
  show ?case
  proof (cases "n < 10")
    case True
    then show ?thesis
      using 1 by (simp add: decimal.simps [of n])
  next
    case False
    obtain j where "k = Suc j"
      using 1 by (cases k) auto
    then have j: "k = Suc j" "0 < j"
      using 1 False by (cases j; simp)+
    then show ?thesis
      using 1 False by (simp add: decimal.simps [of n] less_mult_imp_div_less mult.commute)
  qed
qed

text \<open>What the buffer constant is for: the longest line fits with its terminator.\<close>

lemma hb_line_fits: "length (hb_line sequence uptime_ms fault) < SI_CHANNEL_HB_LINE_MAX"
proof -
  have "length (decimal (unat w)) \<le> 10" for w :: u32
  proof (rule length_decimal)
    have "unat w < 2 ^ LENGTH(32)"
      by (rule unsigned_less)
    then show "unat w < 10 ^ 10" by simp
  qed simp
  from this [of sequence] this [of uptime_ms] show ?thesis
    by (simp add: hb_line_def SI_CHANNEL_HB_LINE_MAX_def)
qed

text \<open>Edges counted along a sequence of datagrams.\<close>

fun fault_edges :: "bool \<Rightarrow> si_msg list \<Rightarrow> nat" where
  "fault_edges level [] = 0"
| "fault_edges level (SI_MSG_FAULT_SET # ms) = (if level then 0 else 1) + fault_edges True ms"
| "fault_edges level (SI_MSG_FAULT_CLEAR # ms) = fault_edges False ms"
| "fault_edges level (SI_MSG_HELLO # ms) = fault_edges level ms"
| "fault_edges level (SI_MSG_IGNORE # ms) = fault_edges level ms"

lemma rx_counts:
  "s_fault_events (fold si_channel_rx ds st)
     = s_fault_events st + of_nat (fault_edges (s_fault st) (map si_channel_parse ds))"
  by (induction ds arbitrary: st)
    (auto simp: si_channel_rx_def Let_def algebra_simps split: si_msg.splits)

lemma fault_edges_le: "fault_edges level ms \<le> length ms"
  by (induction level ms rule: fault_edges.induct) (auto simp: le_SucI)

lemma fault_edges_pos: "SI_MSG_FAULT_SET \<in> set ms \<Longrightarrow> \<not> level \<Longrightarrow> 0 < fault_edges level ms"
  by (induction level ms rule: fault_edges.induct) auto

end
