(* ===== verification/Controller_Node.thy ===== *)
theory Controller_Node
  imports Controller_State Si_Channel
begin

text \<open>
  The handlers of the controller node (\<open>trajectory_follower_node/src/controller_node.cpp\<close>):
  the subscriber callbacks, the supervision of the selected sources, the control timer and
  the publication of the one supervised output. A handler takes the clock readings it makes
  as arguments, in nanoseconds; what it publishes is a list of outputs.
\<close>

section \<open>Latching a fault\<close>

definition latchFault ::
  "node_config \<Rightarrow> int \<Rightarrow> int \<Rightarrow> string \<Rightarrow> ('lat, 'lon) node_state \<Rightarrow> ('lat, 'lon) node_state" where
  "latchFault cfg clk steady why st =
     (if \<not> latched (supervision st) then
        let st = st\<lparr>supervision := latch why (supervision st)\<rparr>;
            st = st\<lparr>node_stop_ramp := start_ramp
                     (if has_odometry st then vx (twist_linear (current_odometry st)) else Fin 0)
                     (watch_odom st) (Clock_now clk) (source_timeout_ego cfg) steady (node_stop_ramp st)\<rparr>
        in st\<lparr>reenable := clear (reenable st)\<rparr>
      else if reason (supervision st) \<noteq> why then
        let st = st\<lparr>supervision := (supervision st)\<lparr>reason := why\<rparr>\<rparr>
        in st\<lparr>reenable := clear (reenable st)\<rparr>
      else st)"

section \<open>Source checks\<close>

definition feedback_checks ::
  "node_config \<Rightarrow> ('lat, 'lon) node_state \<Rightarrow> (source_watch \<times> dbl \<times> string) list" where
  "feedback_checks cfg st =
     [(watch_odom st, source_timeout_ego cfg, ''odometry''),
      (watch_accel st, source_timeout_ego cfg, ''acceleration''),
      (watch_steering st, source_timeout_steering cfg, ''steering report''),
      (watch_opmode st, source_timeout_opmode cfg, ''operation mode''),
      (watch_heartbeat st, source_timeout_heartbeat cfg, ''vp heartbeat'')]"

text \<open>The reason and the age of the first stale source.\<close>

definition supervisorStaleReason ::
  "node_config \<Rightarrow> dbl \<Rightarrow> ('lat, 'lon) node_state \<Rightarrow> (string \<times> dbl) option" where
  "supervisorStaleReason cfg now st =
     (case find (\<lambda>(w, timeout, name). stale w now timeout) (feedback_checks cfg st) of
        Some (w, timeout, name) \<Rightarrow> Some (name, ageSec w now)
      | None \<Rightarrow>
          if node_mode cfg = VP_CONTROL then
            (if stale (watch_vp_cmd st) now (source_timeout_candidate cfg)
             then Some (''vp command'', ageSec (watch_vp_cmd st) now) else None)
          else
            (if stale (watch_candidate st) now (source_timeout_candidate cfg)
             then Some (''trajectory'', ageSec (watch_candidate st) now) else None))"

text \<open>\<open>si_fault\<close> is the level of the fault input; only an X5H build reads it.\<close>

definition allSourcesFresh :: "node_config \<Rightarrow> dbl \<Rightarrow> bool \<Rightarrow> ('lat, 'lon) node_state \<Rightarrow> bool" where
  "allSourcesFresh cfg now si_fault st =
     (if list_ex (\<lambda>(w, timeout). \<not> ever w \<or> stale w now timeout)
           [(watch_odom st, source_timeout_ego cfg), (watch_accel st, source_timeout_ego cfg),
            (watch_steering st, source_timeout_steering cfg),
            (watch_opmode st, source_timeout_opmode cfg)] then False
      else if stale (watch_heartbeat st) now (source_timeout_heartbeat cfg) then False
      else if platform_x5h cfg \<and> si_fault then False
      else
        let selected = (if node_mode cfg = VP_CONTROL then watch_vp_cmd st else watch_candidate st)
        in if \<not> ever selected \<or> stale selected now (source_timeout_candidate cfg) then False else True)"

definition feedbackSeen :: "('lat, 'lon) node_state \<Rightarrow> bool" where
  "feedbackSeen st \<longleftrightarrow> ever (watch_odom st) \<and> ever (watch_accel st) \<and> ever (watch_steering st)
     \<and> ever (watch_opmode st)"

section \<open>Publication\<close>

datatype node_output =
    Legacy_Control control_msg
  | Can_Output can_sent
  | Approved approved_request
  | Processing_Time time_msg dbl

text \<open>The CAN part: a channel that failed to start (\<open>can_output_.reset()\<close>) sends nothing.\<close>

definition publish_can ::
  "node_config \<Rightarrow> can_platform \<Rightarrow> control_msg \<Rightarrow> can_output option \<Rightarrow> can_output option \<times> node_output list" where
  "publish_can cfg can legacy channel =
     (if output_mode_uses_can (node_output_mode cfg) then
        (case channel of
           None \<Rightarrow> (None, [])
         | Some c \<Rightarrow>
             (case can_output_send can legacy (node_output_mode cfg) c of
                (c', sent, ok) \<Rightarrow> (Some c', map Can_Output sent)))
      else (channel, []))"

text \<open>The publishers only log a failed write, so an output is a write that was attempted.\<close>

definition publishApprovedRequest ::
  "node_config \<Rightarrow> int \<Rightarrow> can_platform \<Rightarrow> decision \<Rightarrow> selected_src \<Rightarrow> control_msg \<Rightarrow> ('lat, 'lon) node_state
     \<Rightarrow> ('lat, 'lon) node_state \<times> node_output list" where
  "publishApprovedRequest cfg clk can dec source ctl st =
     (let st = (if dec = NORMAL then st\<lparr>last_approved := ctl, has_approved := True\<rparr> else st);
          approved_stamp = toRosTime (Clock_now clk);
          legacy = ctl\<lparr>ctl_stamp := approved_stamp,
                       lateral := (lateral ctl)\<lparr>lat_stamp := approved_stamp\<rparr>\<rparr>;
          legacy_dds_enabled = (legacy_control_cmd (startup cfg) = ALWAYS \<or> dec = SI_STOP);
          out_legacy = (if legacy_dds_enabled \<and> output_mode_uses_dds (node_output_mode cfg)
                        then [Legacy_Control legacy] else []);
          (can_state, out_can) = publish_can cfg can legacy (node_can_output st);
          st = st\<lparr>node_can_output := can_state\<rparr>;
          st = st\<lparr>out_seq := out_seq st + 1\<rparr>;
          approved = \<lparr>apr_stamp = approved_stamp, apr_session = si_session cfg,
            output_sequence = out_seq st, apr_decision = decision_octet dec,
            apr_mode = mode_octet (node_mode cfg), selected_source = source_octet source,
            source_session = accepted_source_session st, source_cycle = accepted_source_cycle st,
            apr_fault_id = (if latched (supervision st) then fault_id (supervision st) else 0),
            control = ctl\<rparr>
      in (st, out_legacy @ out_can @ [Approved approved]))"

definition stoppedPayload ::
  "node_config \<Rightarrow> dbl \<Rightarrow> int \<Rightarrow> ('lat, 'lon) node_state \<Rightarrow> control_msg" where
  "stoppedPayload cfg now steady st =
     (let known =
            (if has_approved st then Some (last_approved st)
             else if has_steering st then
               Some (zero_control\<lparr>lateral := (lateral zero_control)
                 \<lparr>steering_tire_angle := report_steering_tire_angle (current_steering st)\<rparr>\<rparr>)
             else None);
          out = StopControl known (stop_decel_mps2 cfg);
          out = (if latched (supervision st) then
                   out\<lparr>longitudinal := (longitudinal out)
                     \<lparr>velocity := to_float (ramp_velocity (node_stop_ramp st) (stop_decel_mps2 cfg)
                        (cfg_max_abs_velocity_mps cfg) steady)\<rparr>\<rparr>
                 else out);
          stamp = toRosTime now
      in out\<lparr>ctl_stamp := stamp, lateral := (lateral out)\<lparr>lat_stamp := stamp\<rparr>,
             longitudinal := (longitudinal out)\<lparr>lon_stamp := stamp\<rparr>\<rparr>)"

definition mode_source :: "node_config \<Rightarrow> selected_src" where
  "mode_source cfg = (if node_mode cfg = VP_CONTROL then VP_COMMAND else FOLLOWER)"

text \<open>
  The readings one publication makes: the monotonic clock for the payload and the system
  clock for its stamp; \<open>publishHold\<close> reads the system clock for the payload as well.
\<close>

record publish_env =
  pub_clock :: int
  pub_steady :: int
  pub_now :: int
  pub_can :: can_platform

definition publishSiStop ::
  "node_config \<Rightarrow> dbl \<Rightarrow> publish_env \<Rightarrow> ('lat, 'lon) node_state \<Rightarrow> ('lat, 'lon) node_state \<times> node_output list" where
  "publishSiStop cfg now pe st =
     publishApprovedRequest cfg (pub_clock pe) (pub_can pe) SI_STOP (mode_source cfg)
       (stoppedPayload cfg now (pub_steady pe) st) st"

definition publishHold ::
  "node_config \<Rightarrow> publish_env \<Rightarrow> ('lat, 'lon) node_state \<Rightarrow> ('lat, 'lon) node_state \<times> node_output list" where
  "publishHold cfg pe st =
     publishApprovedRequest cfg (pub_clock pe) (pub_can pe) HOLD (mode_source cfg)
       (stoppedPayload cfg (Clock_now (pub_now pe)) (pub_steady pe) st) st"

definition publishProcessingTime :: "int \<Rightarrow> dbl \<Rightarrow> node_output list" where
  "publishProcessingTime clk t_ms = [Processing_Time (toRosTime (Clock_now clk)) t_ms]"

definition vpToControl :: "int \<Rightarrow> driving_command \<Rightarrow> control_msg" where
  "vpToControl clk cmd =
     (let stamp = toRosTime (Clock_now clk)
      in zero_control
        \<lparr>ctl_stamp := stamp,
         lateral := zero_lateral\<lparr>lat_stamp := stamp,
           steering_tire_angle := to_float (steering_tire_angle_rad cmd),
           steering_tire_rotation_rate := Fin 0,
           is_defined_steering_tire_rotation_rate := False\<rparr>,
         longitudinal := zero_longitudinal\<lparr>lon_stamp := stamp,
           velocity := to_float (target_speed_mps cmd),
           acceleration := to_float (cmd_acceleration_mps2 cmd),
           jerk := Fin 0, is_defined_acceleration := True, is_defined_jerk := False\<rparr>\<rparr>)"

section \<open>The follower's output\<close>

text \<open>The readings of \<open>publishControlCommand\<close>, of which the last five serve a rejection.\<close>

record follower_env =
  fol_clock :: int
  fol_pub :: publish_env
  rej_clock :: int
  rej_steady :: int
  rej_now :: int
  rej_pub :: publish_env

definition follower_limits :: "node_config \<Rightarrow> envelope" where
  "follower_limits cfg =
     \<lparr>max_steering_rad = follower_max_steer_rad cfg + Fin (1 / 1000),
      max_abs_velocity_mps = cfg_max_abs_velocity_mps cfg,
      max_abs_accel_mps2 = cfg_max_abs_accel_mps2 cfg\<rparr>"

definition publishControlCommand ::
  "node_config \<Rightarrow> follower_env \<Rightarrow> longitudinal_output \<Rightarrow> lateral_output \<Rightarrow> ('lat, 'lon) node_state
     \<Rightarrow> ('lat, 'lon) node_state \<times> node_output list" where
  "publishControlCommand cfg fe lon_out lat_out st =
     (let stamp = toRosTime (Clock_now (fol_clock fe));
          lat = lat_control_cmd lat_out;
          out = zero_control
            \<lparr>ctl_stamp := stamp,
             lateral := zero_lateral
               \<lparr>steering_tire_angle := steering_tire_angle lat,
                steering_tire_rotation_rate := steering_tire_rotation_rate lat,
                is_defined_steering_tire_rotation_rate := is_defined_steering_tire_rotation_rate lat,
                lat_stamp := stamp\<rparr>,
             longitudinal := lon_control_cmd lon_out\<rparr>
      in case envelopeViolation (steering_tire_angle (lateral out)) (velocity (longitudinal out))
                (acceleration (longitudinal out)) (follower_limits cfg) of
           Some why \<Rightarrow>
             let st = latchFault cfg (rej_clock fe) (rej_steady fe) (''follower '' @ why) st
             in publishSiStop cfg (Clock_now (rej_now fe)) (rej_pub fe) st
         | None \<Rightarrow>
             publishApprovedRequest cfg (pub_clock (fol_pub fe)) (pub_can (fol_pub fe)) NORMAL FOLLOWER out st)"

section \<open>Input data\<close>

definition processData :: "('lat, 'lon) node_state \<Rightarrow> bool" where
  "processData st =
     (let is_ready = True;
          is_ready = (if \<not> has_accel st then False else is_ready);
          is_ready = (if \<not> has_steering st then False else is_ready);
          is_ready = (if \<not> has_trajectory st then False else is_ready);
          is_ready = (if \<not> has_odometry st then False else is_ready);
          is_ready = (if \<not> has_operation_mode st then False else is_ready)
      in is_ready)"

definition createInputData :: "('lat, 'lon) node_state \<Rightarrow> input_data option" where
  "createInputData st =
     (if \<not> processData st then None
      else Some \<lparr>in_trajectory = current_trajectory st, in_odometry = current_odometry st,
                 in_steering = current_steering st, in_accel = current_accel st,
                 in_operation_mode = current_operation_mode st\<rparr>)"

text \<open>Kept in the code, though its only call is commented out.\<close>

definition isTimeOut :: "node_config \<Rightarrow> int \<Rightarrow> longitudinal_output \<Rightarrow> lateral_output \<Rightarrow> bool" where
  "isTimeOut cfg clk lon_out lat_out =
     (let now = Clock_now clk
      in if now - toDouble (lat_stamp (lat_control_cmd lat_out)) > timeout_thr_sec cfg then True
         else if now - toDouble (lon_stamp (lon_control_cmd lon_out)) > timeout_thr_sec cfg then True
         else False)"

section \<open>The control timer\<close>

text \<open>
  The readings of one tick. At most one of the publications happens; each has its own
  readings. The fault input of the platform is read where the code reads it.
\<close>

record tick_env =
  tick_clock :: int
  latch_clock :: int
  latch_steady :: int
  si_events :: u32
  si_latch_clock :: int
  si_latch_steady :: int
  si_level :: bool
  stop_pub :: publish_env
  hold_pub :: publish_env
  vp_clock :: int
  vp_pub :: publish_env
  lat_time_clock :: int
  lat_time_ms :: dbl
  lon_time_clock :: int
  lon_time_ms :: dbl
  follower_env :: follower_env

text \<open>Step 1: the source checks and the platform's fault input.\<close>

definition tick_watch :: "node_config \<Rightarrow> tick_env \<Rightarrow> ('lat, 'lon) node_state \<Rightarrow> ('lat, 'lon) node_state" where
  "tick_watch cfg e st =
     (let st = (case supervisorStaleReason cfg (Clock_now (tick_clock e)) st of
                  None \<Rightarrow> st
                | Some (why, age) \<Rightarrow> latchFault cfg (latch_clock e) (latch_steady e) why st)
      in if platform_x5h cfg \<and> si_events e \<noteq> si_fault_events_seen st then
           let st = st\<lparr>si_fault_events_seen := si_events e\<rparr>
           in latchFault cfg (si_latch_clock e) (si_latch_steady e) ''si fault input'' st
         else st)"

text \<open>Step 2: the re-enable request; the boolean is \<open>publishSiStop\<close> and \<open>return\<close>.\<close>

definition tick_reenable ::
  "node_config \<Rightarrow> tick_env \<Rightarrow> ('lat, 'lon) node_state \<Rightarrow> bool \<times> ('lat, 'lon) node_state" where
  "tick_reenable cfg e st =
     (if latched (supervision st) then
        let now = Clock_now (tick_clock e);
            (expired, r) = expireIfOld now (reenable_window_s cfg) (reenable st);
            st = st\<lparr>reenable := r\<rparr>;
            requested = pending (reenable st);
            (stop, sup, req) = stopThisTick (supervision st) (pending (reenable st))
              (requested \<and> allSourcesFresh cfg now (si_level e) st)
        in (stop, st\<lparr>supervision := sup, reenable := (reenable st)\<lparr>pending := req\<rparr>\<rparr>)
      else (False, st))"

text \<open>Step 3 in \<open>VP_CONTROL\<close>.\<close>

definition tick_vp ::
  "node_config \<Rightarrow> tick_env \<Rightarrow> ('lat, 'lon) node_state \<Rightarrow> ('lat, 'lon) node_state \<times> node_output list" where
  "tick_vp cfg e st =
     (if \<not> has_vp_cmd st then publishHold cfg (hold_pub e) st
      else if \<not> feedbackSeen st then publishHold cfg (hold_pub e) st
      else
        let approved = vpToControl (vp_clock e) (current_vp_cmd st);
            st = st\<lparr>accepted_source_session := cmd_session (current_vp_cmd st)\<rparr>;
            st = st\<lparr>accepted_source_cycle := cmd_cycle (current_vp_cmd st)\<rparr>
        in publishApprovedRequest cfg (pub_clock (vp_pub e)) (pub_can (vp_pub e)) NORMAL VP_COMMAND approved st)"

text \<open>Steps 4 to 8 in \<open>SI_CONTROL\<close>.\<close>

definition tick_si ::
  "node_config \<Rightarrow> ('lat, 'lon) follower \<Rightarrow> tick_env \<Rightarrow> ('lat, 'lon) node_state
     \<Rightarrow> ('lat, 'lon) node_state \<times> node_output list" where
  "tick_si cfg fol e st =
     (case createInputData st of
        None \<Rightarrow> publishHold cfg (hold_pub e) st
      | Some input \<Rightarrow>
          let (is_lat_ready, lat) = lat_isReady fol input (lateral_controller st);
              st = st\<lparr>lateral_controller := lat\<rparr>;
              (is_lon_ready, lon) = lon_isReady fol input (longitudinal_controller st);
              st = st\<lparr>longitudinal_controller := lon\<rparr>
          in if \<not> is_lat_ready \<or> \<not> is_lon_ready then publishHold cfg (hold_pub e) st
             else
               let (lat_out, lat) = lat_run fol input (lateral_controller st);
                   st = st\<lparr>lateral_controller := lat\<rparr>;
                   out_lat = publishProcessingTime (lat_time_clock e) (lat_time_ms e);
                   (lon_out, lon) = lon_run fol input (longitudinal_controller st);
                   st = st\<lparr>longitudinal_controller := lon\<rparr>;
                   out_lon = publishProcessingTime (lon_time_clock e) (lon_time_ms e);
                   st = st\<lparr>longitudinal_controller :=
                     lon_sync fol (lat_sync_data lat_out) (longitudinal_controller st)\<rparr>;
                   st = st\<lparr>lateral_controller := lat_sync fol (lateral_controller st)\<rparr>;
                   (st, outs) = publishControlCommand cfg (follower_env e) lon_out lat_out st
               in (st, out_lat @ out_lon @ outs))"

definition callbackTimerControl ::
  "node_config \<Rightarrow> ('lat, 'lon) follower \<Rightarrow> tick_env \<Rightarrow> ('lat, 'lon) node_state
     \<Rightarrow> ('lat, 'lon) node_state \<times> node_output list" where
  "callbackTimerControl cfg fol e st =
     (let st = tick_watch cfg e st;
          (stop, st) = tick_reenable cfg e st
      in if stop then publishSiStop cfg (Clock_now (tick_clock e)) (stop_pub e) st
         else if node_mode cfg = VP_CONTROL then tick_vp cfg e st
         else tick_si cfg fol e st)"

end
