(* ===== verification/Controller_Callbacks.thy ===== *)
theory Controller_Callbacks
  imports Controller_Node
begin

text \<open>
  The subscriber callbacks of the controller node and its step relation. The node's main
  loop runs one callback or one timer tick at a time, so a run is a sequence of events; the
  events carry the samples and the clock readings.

  A sample pointer is an option: \<open>None\<close> is a null pointer, or a null buffer where the code
  treats both alike.
\<close>

section \<open>Vehicle feedback and operator input\<close>

definition callbackSteeringStatus ::
  "int \<Rightarrow> steering_report \<Rightarrow> ('lat, 'lon) node_state \<Rightarrow> ('lat, 'lon) node_state" where
  "callbackSteeringStatus clk msg st =
     st\<lparr>current_steering := msg, has_steering := True,
        watch_steering := note_arrival (Clock_now clk) (watch_steering st)\<rparr>"

definition callbackOperationModeState ::
  "int \<Rightarrow> operation_mode \<Rightarrow> ('lat, 'lon) node_state \<Rightarrow> ('lat, 'lon) node_state" where
  "callbackOperationModeState clk msg st =
     st\<lparr>current_operation_mode := msg, has_operation_mode := True,
        watch_opmode := note_arrival (Clock_now clk) (watch_opmode st)\<rparr>"

definition callbackOdometry ::
  "node_config \<Rightarrow> int \<Rightarrow> odometry \<Rightarrow> ('lat, 'lon) node_state \<Rightarrow> ('lat, 'lon) node_state" where
  "callbackOdometry cfg clk msg st =
     (let st = st\<lparr>current_odometry := msg, has_odometry := True,
                  watch_odom := note_arrival (Clock_now clk) (watch_odom st)\<rparr>
      in if node_mode cfg = SI_CONTROL \<and> trajectory_source (startup cfg) = VP then
           let q = orientation (odom_pose msg)
           in st\<lparr>node_ego_history := ego_note (sec (odom_stamp msg)) (nanosec (odom_stamp msg))
                  \<lparr>px = vx (position (odom_pose msg)), py = vy (position (odom_pose msg)),
                   pyaw = yawFromQuaternion (qx q) (qy q) (qz q) (qw q)\<rparr> (node_ego_history st)\<rparr>
         else st)"

definition callbackAcceleration ::
  "int \<Rightarrow> accel_stamped \<Rightarrow> ('lat, 'lon) node_state \<Rightarrow> ('lat, 'lon) node_state" where
  "callbackAcceleration clk msg st =
     st\<lparr>current_accel := msg, has_accel := True,
        watch_accel := note_arrival (Clock_now clk) (watch_accel st)\<rparr>"

definition callbackReenable ::
  "int \<Rightarrow> bool \<Rightarrow> ('lat, 'lon) node_state \<Rightarrow> ('lat, 'lon) node_state" where
  "callbackReenable clk data st =
     (if data then st\<lparr>reenable := request (Clock_now clk) (reenable st)\<rparr> else st)"

definition callbackHeartbeat ::
  "int \<Rightarrow> ('lat, 'lon) node_state \<Rightarrow> ('lat, 'lon) node_state" where
  "callbackHeartbeat clk st =
     st\<lparr>watch_heartbeat := note_arrival (Clock_now clk) (watch_heartbeat st)\<rparr>"

section \<open>The Autoware trajectory\<close>

definition finite_point :: "trajectory_point \<Rightarrow> bool" where
  "finite_point p \<longleftrightarrow>
     isfinite (vx (position (tp_pose p))) \<and> isfinite (vy (position (tp_pose p)))
     \<and> isfinite (vz (position (tp_pose p)))
     \<and> isfinite (qx (orientation (tp_pose p))) \<and> isfinite (qy (orientation (tp_pose p)))
     \<and> isfinite (qz (orientation (tp_pose p))) \<and> isfinite (qw (orientation (tp_pose p)))
     \<and> isfinite (longitudinal_velocity_mps p) \<and> isfinite (lateral_velocity_mps p)
     \<and> isfinite (acceleration_mps2 p) \<and> isfinite (heading_rate_rps p)
     \<and> isfinite (front_wheel_angle_rad p) \<and> isfinite (rear_wheel_angle_rad p)"

definition stamp_of :: "time_msg \<Rightarrow> source_stamp" where
  "stamp_of t = \<lparr>ss_sec = sec t, ss_nanosec = nanosec t\<rparr>"

definition callbackTrajectory ::
  "node_config \<Rightarrow> int \<Rightarrow> int \<Rightarrow> trajectory option \<Rightarrow> ('lat, 'lon) node_state \<Rightarrow> ('lat, 'lon) node_state" where
  "callbackTrajectory cfg clk steady msg st =
     (if node_mode cfg \<noteq> SI_CONTROL \<or> trajectory_source (startup cfg) \<noteq> AUTOWARE then st
      else
       (case msg of
          None \<Rightarrow> latchFault cfg clk steady ''invalid autoware trajectory'' st
        | Some m \<Rightarrow>
           if length (points m) < kMinFollowerPoints \<or> length (points m) > 250
           then latchFault cfg clk steady ''invalid autoware trajectory'' st
           else if \<exists>p \<in> set (points m). \<not> finite_point p
           then latchFault cfg clk steady ''non-finite autoware trajectory'' st
           else
            (let stamp = stamp_of (traj_stamp m)
             in case aw_check (autoware_trajectory_identity st) stamp of
                  DUPLICATE \<Rightarrow> st
                | ACCEPT \<Rightarrow>
                    st\<lparr>current_trajectory := m, has_trajectory := True,
                       autoware_trajectory_identity := aw_note stamp (autoware_trajectory_identity st),
                       watch_candidate := note_arrival (Clock_now clk) (watch_candidate st)\<rparr>
                | _ \<Rightarrow> latchFault cfg clk steady
                         ''autoware trajectory stamp regression or invalid stamp'' st)))"

section \<open>The VisionPilot driving reference\<close>

text \<open>
  \<open>time_from_start\<close> of a point: the seconds and the nanoseconds are clamped before the casts,
  which are therefore defined for the finite times \<open>convert\<close> returns.
\<close>

definition point_time :: "dbl \<Rightarrow> time_msg" where
  "point_time secs =
     (let t = fmax (Fin 0) secs;
          s = cast_i32 (fmin t (Fin (2 ^ 31 - 1)));
          ns = cast_u32 (fmin (Fin 999999999) (fround ((t - ffloor t) * Fin 1000000000)))
      in \<lparr>sec = (case s of Some n \<Rightarrow> of_int n | None \<Rightarrow> 0),
          nanosec = (case ns of Some n \<Rightarrow> of_int n | None \<Rightarrow> 0)\<rparr>)"

definition reference_point :: "vp_point \<Rightarrow> trajectory_point" where
  "reference_point p =
     zero_point
       \<lparr>tp_pose := \<lparr>position = zero_vector3\<lparr>vx := pt_x p, vy := pt_y p\<rparr>,
                    orientation = zero_quaternion
                      \<lparr>qz := fsin (Fin (1 / 2) * pt_yaw p), qw := fcos (Fin (1 / 2) * pt_yaw p)\<rparr>\<rparr>,
        longitudinal_velocity_mps := to_float (velocity_mps p),
        acceleration_mps2 := to_float (pt_acceleration p),
        time_from_start := point_time (time_from_start_s p)\<rparr>"

definition ignore_reference :: "('lat, 'lon) node_state \<Rightarrow> ('lat, 'lon) node_state" where
  "ignore_reference st = st\<lparr>vp_reference_rejects := vp_reference_rejects st + 1\<rparr>"

definition finite_reference :: "driving_reference \<Rightarrow> bool" where
  "finite_reference m \<longleftrightarrow>
     isfinite (path_a m) \<and> isfinite (path_b m) \<and> isfinite (path_c m) \<and> isfinite (path_x_max_m m)
     \<and> isfinite (horizon_dt_s m) \<and> (\<forall>v \<in> set (speed_horizon_mps m). isfinite v)"

definition callbackDrivingReference ::
  "node_config \<Rightarrow> int \<Rightarrow> int \<Rightarrow> driving_reference option \<Rightarrow> ('lat, 'lon) node_state \<Rightarrow> ('lat, 'lon) node_state" where
  "callbackDrivingReference cfg clk steady msg st =
     (if node_mode cfg \<noteq> SI_CONTROL \<or> trajectory_source (startup cfg) \<noteq> VP then st
      else
       (case msg of
          None \<Rightarrow> latchFault cfg clk steady ''invalid vp driving reference'' st
        | Some m \<Rightarrow>
           if length (speed_horizon_mps m) > kMaxHorizon
           then latchFault cfg clk steady ''invalid vp driving reference'' st
           else if referenceReason (ref_valid m) (path_valid m) (ref_has_source_stamp m)
                     (length (speed_horizon_mps m)) (horizon_dt_s m) (path_x_max_m m) \<noteq> Reject_NONE
           then ignore_reference st
           else if \<not> finite_reference m
           then latchFault cfg clk steady ''non-finite vp driving reference'' st
           else
            (let stamp = stamp_of (ref_source_stamp m)
             in case vp_check (vp_candidate_identity st) (ref_session m) (ref_cycle m) stamp of
                  DUPLICATE \<Rightarrow> st
                | ACCEPT \<Rightarrow>
                   (case ego_find (ss_sec stamp) (ss_nanosec stamp) (node_ego_history st) of
                      None \<Rightarrow> ignore_reference st
                    | Some ego \<Rightarrow>
                       (case convert (path_a m) (path_b m) (path_c m) (path_x_max_m m) ego
                               (speed_horizon_mps m) (horizon_dt_s m) of
                          None \<Rightarrow> ignore_reference st
                        | Some pts \<Rightarrow>
                            st\<lparr>current_trajectory := \<lparr>traj_stamp = ref_source_stamp m,
                                                      points = map reference_point pts\<rparr>,
                               has_trajectory := True,
                               vp_candidate_identity := vp_note (ref_session m) (ref_cycle m) stamp
                                 (vp_candidate_identity st),
                               accepted_source_session := ref_session m,
                               accepted_source_cycle := ref_cycle m,
                               watch_candidate := note_arrival (Clock_now clk) (watch_candidate st)\<rparr>))
                | _ \<Rightarrow> latchFault cfg clk steady
                         ''vp driving reference regression or invalid stamp'' st)))"

section \<open>The VisionPilot driving command\<close>

text \<open>\<open>now\<close> is read at the start of the handler, \<open>clk\<close> and \<open>steady\<close> by \<open>latchFault\<close>.\<close>

definition callbackDrivingCommand ::
  "node_config \<Rightarrow> int \<Rightarrow> int \<Rightarrow> int \<Rightarrow> driving_command \<Rightarrow> ('lat, 'lon) node_state \<Rightarrow> ('lat, 'lon) node_state" where
  "callbackDrivingCommand cfg now clk steady inp st =
     (if \<not> cmd_valid inp then st
      else if \<not> cmd_has_source_stamp inp then st
      else
       (let stamp = stamp_of (cmd_source_stamp inp)
        in case vp_check (vp_candidate_identity st) (cmd_session inp) (cmd_cycle inp) stamp of
             DUPLICATE \<Rightarrow> st
           | ACCEPT \<Rightarrow>
               if \<not> isfinite (steering_tire_angle_rad inp) \<or> \<not> isfinite (target_speed_mps inp)
                 \<or> \<not> isfinite (cmd_acceleration_mps2 inp)
               then latchFault cfg clk steady ''vp command not finite'' st
               else if \<bar>steering_tire_angle_rad inp\<bar> > cfg_max_steering_rad cfg
               then latchFault cfg clk steady ''vp steering out of range'' st
               else if target_speed_mps inp < 0 \<or> target_speed_mps inp > cfg_max_abs_velocity_mps cfg
               then latchFault cfg clk steady ''vp speed out of range'' st
               else if \<bar>cmd_acceleration_mps2 inp\<bar> > cfg_max_abs_accel_mps2 cfg
               then latchFault cfg clk steady ''vp accel out of range'' st
               else
                 st\<lparr>vp_candidate_identity := vp_note (cmd_session inp) (cmd_cycle inp) stamp
                      (vp_candidate_identity st),
                    current_vp_cmd := inp, has_vp_cmd := True,
                    watch_vp_cmd := note_arrival (Clock_now now) (watch_vp_cmd st)\<rparr>
           | _ \<Rightarrow> latchFault cfg clk steady ''vp command regression or invalid stamp'' st))"

section \<open>Runs of the node\<close>

text \<open>A driving command arrives only in \<open>VP_CONTROL\<close>: the constructor subscribes to it in
  that mode alone.\<close>

datatype ('lat, 'lon) node_event =
    Steering int steering_report
  | Operation_Mode int operation_mode
  | Odometry int odometry
  | Acceleration int accel_stamped
  | Trajectory int int "trajectory option"
  | Driving_Reference int int "driving_reference option"
  | Driving_Command int int int driving_command
  | Reenable int bool
  | Heartbeat int
  | Tick "('lat, 'lon) follower" tick_env

fun node_handle ::
  "node_config \<Rightarrow> ('lat, 'lon) node_event \<Rightarrow> ('lat, 'lon) node_state \<Rightarrow> ('lat, 'lon) node_state \<times> node_output list" where
  "node_handle cfg (Steering clk m) st = (callbackSteeringStatus clk m st, [])"
| "node_handle cfg (Operation_Mode clk m) st = (callbackOperationModeState clk m st, [])"
| "node_handle cfg (Odometry clk m) st = (callbackOdometry cfg clk m st, [])"
| "node_handle cfg (Acceleration clk m) st = (callbackAcceleration clk m st, [])"
| "node_handle cfg (Trajectory clk steady m) st = (callbackTrajectory cfg clk steady m st, [])"
| "node_handle cfg (Driving_Reference clk steady m) st = (callbackDrivingReference cfg clk steady m st, [])"
| "node_handle cfg (Driving_Command now clk steady m) st = (callbackDrivingCommand cfg now clk steady m st, [])"
| "node_handle cfg (Reenable clk d) st = (callbackReenable clk d st, [])"
| "node_handle cfg (Heartbeat clk) st = (callbackHeartbeat clk st, [])"
| "node_handle cfg (Tick fol e) st = callbackTimerControl cfg fol e st"

inductive node_step ::
  "node_config \<Rightarrow> ('lat, 'lon) node_state \<Rightarrow> ('lat, 'lon) node_event \<times> node_output list \<Rightarrow> ('lat, 'lon) node_state \<Rightarrow> bool"
  for cfg where
  callback: "node_mode cfg = VP_CONTROL \<or> (\<forall>n c s m. ev \<noteq> Driving_Command n c s m) \<Longrightarrow>
    node_handle cfg ev st = (st', outs) \<Longrightarrow> node_step cfg st (ev, outs) st'"

inductive node_run ::
  "node_config \<Rightarrow> ('lat, 'lon) node_state \<Rightarrow> (('lat, 'lon) node_event \<times> node_output list) list \<Rightarrow> ('lat, 'lon) node_state \<Rightarrow> bool"
  for cfg where
  run_nil: "node_run cfg st [] st"
| run_snoc: "node_run cfg st tr st' \<Longrightarrow> node_step cfg st' ev st'' \<Longrightarrow> node_run cfg st (tr @ [ev]) st''"

inductive_simps node_step_iff: "node_step cfg st (ev, outs) st'"
inductive_cases node_run_snocE: "node_run cfg st tr st''"

end
