(* ===== verification/Controller_Facts.thy ===== *)
theory Controller_Facts
  imports Controller_Callbacks
begin

text \<open>
  Facts about the handlers of the node: what one publication contains, how the latch, the
  re-enable request and the source watches change, and the cases of one timer tick.
\<close>

section \<open>One publication\<close>

fun approved_in :: "node_output list \<Rightarrow> approved_request list" where
  "approved_in [] = []"
| "approved_in (Approved r # outs) = r # approved_in outs"
| "approved_in (Legacy_Control m # outs) = approved_in outs"
| "approved_in (Can_Output s # outs) = approved_in outs"
| "approved_in (Processing_Time t d # outs) = approved_in outs"

fun legacy_in :: "node_output list \<Rightarrow> control_msg list" where
  "legacy_in [] = []"
| "legacy_in (Legacy_Control m # outs) = m # legacy_in outs"
| "legacy_in (Approved r # outs) = legacy_in outs"
| "legacy_in (Can_Output s # outs) = legacy_in outs"
| "legacy_in (Processing_Time t d # outs) = legacy_in outs"

lemma approved_in_append [simp]: "approved_in (xs @ ys) = approved_in xs @ approved_in ys"
  by (induction xs rule: approved_in.induct) auto

lemma legacy_in_append [simp]: "legacy_in (xs @ ys) = legacy_in xs @ legacy_in ys"
  by (induction xs rule: legacy_in.induct) auto

lemma in_Can [simp]: "approved_in (map Can_Output ss) = []" "legacy_in (map Can_Output ss) = []"
  by (induction ss) auto

lemma in_Time [simp]:
  "approved_in (publishProcessingTime c t) = []" "legacy_in (publishProcessingTime c t) = []"
  by (simp_all add: publishProcessingTime_def)

lemma Approved_in_set: "Approved r \<in> set outs \<longleftrightarrow> r \<in> set (approved_in outs)"
  by (induction outs rule: approved_in.induct) auto

definition request_of ::
  "node_config \<Rightarrow> int \<Rightarrow> decision \<Rightarrow> selected_src \<Rightarrow> control_msg \<Rightarrow> ('lat, 'lon) node_state \<Rightarrow> approved_request" where
  "request_of cfg clk dec source ctl st =
     \<lparr>apr_stamp = toRosTime (Clock_now clk), apr_session = si_session cfg,
      output_sequence = out_seq st + 1, apr_decision = decision_octet dec,
      apr_mode = mode_octet (node_mode cfg), selected_source = source_octet source,
      source_session = accepted_source_session st, source_cycle = accepted_source_cycle st,
      apr_fault_id = (if latched (supervision st) then fault_id (supervision st) else 0),
      control = ctl\<rparr>"

lemma publish_can_outputs [simp]:
  "publish_can cfg can legacy c = (c', outs) \<Longrightarrow> approved_in outs = [] \<and> legacy_in outs = []"
  by (auto simp: publish_can_def split: if_splits option.splits prod.splits)

lemma publish_approved:
  "approved_in (snd (publishApprovedRequest cfg clk can dec source ctl st)) = [request_of cfg clk dec source ctl st]"
  by (simp add: publishApprovedRequest_def request_of_def Let_def split: prod.splits)

lemma publish_legacy:
  "legacy_in (snd (publishApprovedRequest cfg clk can dec source ctl st)) =
     (if (legacy_control_cmd (startup cfg) = ALWAYS \<or> dec = SI_STOP) \<and> output_mode_uses_dds (node_output_mode cfg)
      then [ctl\<lparr>ctl_stamp := toRosTime (Clock_now clk),
                lateral := (lateral ctl)\<lparr>lat_stamp := toRosTime (Clock_now clk)\<rparr>\<rparr>] else [])"
  by (simp add: publishApprovedRequest_def Let_def split: prod.splits)

definition published ::
  "decision \<Rightarrow> control_msg \<Rightarrow> can_output option \<Rightarrow> ('lat, 'lon) node_state \<Rightarrow> ('lat, 'lon) node_state" where
  "published dec ctl c st =
     (if dec = NORMAL then st\<lparr>last_approved := ctl, has_approved := True\<rparr> else st)
       \<lparr>node_can_output := c, out_seq := out_seq st + 1\<rparr>"

lemma publish_state:
  "\<exists>c. fst (publishApprovedRequest cfg clk can dec source ctl st) = published dec ctl c st"
  by (cases "dec = NORMAL"; rule exI; simp add: publishApprovedRequest_def published_def Let_def split_beta; rule refl)

lemma published_simps [simp]:
  "supervision (published dec ctl c st) = supervision st"
  "reenable (published dec ctl c st) = reenable st"
  "out_seq (published dec ctl c st) = out_seq st + 1"
  "node_stop_ramp (published dec ctl c st) = node_stop_ramp st"
  "has_vp_cmd (published dec ctl c st) = has_vp_cmd st"
  "current_vp_cmd (published dec ctl c st) = current_vp_cmd st"
  "has_trajectory (published dec ctl c st) = has_trajectory st"
  "current_trajectory (published dec ctl c st) = current_trajectory st"
  by (simp_all add: published_def)

section \<open>The latch\<close>

lemma latchFault_latched [simp]: "latched (supervision (latchFault cfg clk steady why st))"
  by (simp add: latchFault_def Let_def)

lemma latchFault_frame [simp]:
  "watch_odom (latchFault cfg clk steady why st) = watch_odom st"
  "watch_accel (latchFault cfg clk steady why st) = watch_accel st"
  "watch_steering (latchFault cfg clk steady why st) = watch_steering st"
  "watch_opmode (latchFault cfg clk steady why st) = watch_opmode st"
  "watch_heartbeat (latchFault cfg clk steady why st) = watch_heartbeat st"
  "watch_candidate (latchFault cfg clk steady why st) = watch_candidate st"
  "watch_vp_cmd (latchFault cfg clk steady why st) = watch_vp_cmd st"
  "out_seq (latchFault cfg clk steady why st) = out_seq st"
  "has_vp_cmd (latchFault cfg clk steady why st) = has_vp_cmd st"
  "current_vp_cmd (latchFault cfg clk steady why st) = current_vp_cmd st"
  "has_trajectory (latchFault cfg clk steady why st) = has_trajectory st"
  "current_trajectory (latchFault cfg clk steady why st) = current_trajectory st"
  "has_approved (latchFault cfg clk steady why st) = has_approved st"
  "last_approved (latchFault cfg clk steady why st) = last_approved st"
  "has_steering (latchFault cfg clk steady why st) = has_steering st"
  "current_steering (latchFault cfg clk steady why st) = current_steering st"
  by (simp_all add: latchFault_def Let_def)

lemma latchFault_pending: "pending (reenable (latchFault cfg clk steady why st)) \<Longrightarrow> pending (reenable st)"
  by (auto simp: latchFault_def Let_def clear_def split: if_splits)

text \<open>A press that precedes a new fault, or a change of the fault, is dropped.\<close>

lemma latchFault_drops_press:
  "\<not> latched (supervision st) \<or> reason (supervision st) \<noteq> why \<Longrightarrow>
     \<not> pending (reenable (latchFault cfg clk steady why st))"
  by (auto simp: latchFault_def Let_def clear_def)

lemma latchFault_when_latched [simp]:
  "latched (supervision st) \<Longrightarrow> node_stop_ramp (latchFault cfg clk steady why st) = node_stop_ramp st"
  "latched (supervision st) \<Longrightarrow>
     fault_id (supervision (latchFault cfg clk steady why st)) = fault_id (supervision st)"
  by (simp_all add: latchFault_def Let_def)

lemma latchFault_reason [simp]: "reason (supervision (latchFault cfg clk steady why st)) = why"
  by (simp add: latchFault_def Let_def)

section \<open>Steps 1 and 2 of a tick\<close>

text \<open>What step 1 leaves alone: it only latches, or notes the fault event count.\<close>

lemma tick_watch_frame [simp]:
  "watch_odom (tick_watch cfg e st) = watch_odom st"
  "watch_accel (tick_watch cfg e st) = watch_accel st"
  "watch_steering (tick_watch cfg e st) = watch_steering st"
  "watch_opmode (tick_watch cfg e st) = watch_opmode st"
  "watch_heartbeat (tick_watch cfg e st) = watch_heartbeat st"
  "watch_candidate (tick_watch cfg e st) = watch_candidate st"
  "watch_vp_cmd (tick_watch cfg e st) = watch_vp_cmd st"
  "out_seq (tick_watch cfg e st) = out_seq st"
  "has_vp_cmd (tick_watch cfg e st) = has_vp_cmd st"
  "current_vp_cmd (tick_watch cfg e st) = current_vp_cmd st"
  "has_trajectory (tick_watch cfg e st) = has_trajectory st"
  "current_trajectory (tick_watch cfg e st) = current_trajectory st"
  "has_approved (tick_watch cfg e st) = has_approved st"
  "last_approved (tick_watch cfg e st) = last_approved st"
  "has_steering (tick_watch cfg e st) = has_steering st"
  "current_steering (tick_watch cfg e st) = current_steering st"
  by (simp_all add: tick_watch_def Let_def split: option.split prod.split)

lemma tick_watch_latched: "latched (supervision st) \<Longrightarrow> latched (supervision (tick_watch cfg e st))"
  by (simp add: tick_watch_def Let_def split: option.split prod.split)

lemma tick_watch_pending: "pending (reenable (tick_watch cfg e st)) \<Longrightarrow> pending (reenable st)"
  by (auto simp: tick_watch_def Let_def split: option.splits prod.splits if_splits dest!: latchFault_pending)

lemma tick_watch_when_latched:
  "latched (supervision st) \<Longrightarrow> node_stop_ramp (tick_watch cfg e st) = node_stop_ramp st
     \<and> fault_id (supervision (tick_watch cfg e st)) = fault_id (supervision st)"
  by (simp add: tick_watch_def Let_def latchFault_when_latched split: option.split prod.split)

lemma tick_watch_not_latched:
  assumes "\<not> latched (supervision (tick_watch cfg e st))"
  shows "\<not> latched (supervision st)" and "supervisorStaleReason cfg (Clock_now (tick_clock e)) st = None"
    and "platform_x5h cfg \<longrightarrow> si_events e = si_fault_events_seen st" and "tick_watch cfg e st = st"
  using assms by (auto simp: tick_watch_def Let_def split: option.splits prod.splits if_splits)

text \<open>When the tick goes on after step 2.\<close>

definition release_ok :: "node_config \<Rightarrow> tick_env \<Rightarrow> ('lat, 'lon) node_state \<Rightarrow> bool" where
  "release_ok cfg e st \<longleftrightarrow>
     pending (reenable st)
     \<and> \<not> (Clock_now (tick_clock e) - requested_at (reenable st) > reenable_window_s cfg)
     \<and> allSourcesFresh cfg (Clock_now (tick_clock e)) (si_level e) st"

lemma allSourcesFresh_cong:
  "allSourcesFresh cfg now lvl (st\<lparr>reenable := r\<rparr>) = allSourcesFresh cfg now lvl st"
  by (simp add: allSourcesFresh_def)

lemma tick_reenable_go:
  "fst (tick_reenable cfg e st) = (latched (supervision st) \<and> \<not> release_ok cfg e st)"
  by (auto simp: tick_reenable_def release_ok_def expireIfOld_def stopThisTick_def Let_def
      allSourcesFresh_cong)

lemma tick_reenable_latched:
  "latched (supervision (snd (tick_reenable cfg e st))) = fst (tick_reenable cfg e st)"
  by (auto simp: tick_reenable_def stopThisTick_def Let_def split: prod.splits)

lemma tick_reenable_frame:
  "\<exists>sup r. snd (tick_reenable cfg e st) = st\<lparr>supervision := sup, reenable := r\<rparr>
     \<and> fault_id sup = fault_id (supervision st) \<and> (pending r \<longrightarrow> pending (reenable st))"
proof (cases "latched (supervision st)")
  case True
  then show ?thesis
    unfolding tick_reenable_def
    by (auto simp: expireIfOld_def stopThisTick_def Let_def intro!: exI)
next
  case False
  then show ?thesis
    unfolding tick_reenable_def by (intro exI [of _ "supervision st"] exI [of _ "reenable st"]) simp
qed

section \<open>Freshness\<close>

definition sources :: "node_config \<Rightarrow> ('lat, 'lon) node_state \<Rightarrow> (source_watch \<times> dbl) list" where
  "sources cfg st =
     [(watch_odom st, source_timeout_ego cfg), (watch_accel st, source_timeout_ego cfg),
      (watch_steering st, source_timeout_steering cfg), (watch_opmode st, source_timeout_opmode cfg),
      (watch_heartbeat st, source_timeout_heartbeat cfg),
      (if node_mode cfg = VP_CONTROL then watch_vp_cmd st else watch_candidate st,
       source_timeout_candidate cfg)]"

lemma supervisorStaleReason_None:
  "supervisorStaleReason cfg now st = None \<longleftrightarrow> (\<forall>(w, timeout) \<in> set (sources cfg st). \<not> stale w now timeout)"
  by (auto simp: supervisorStaleReason_def feedback_checks_def sources_def split: option.splits if_splits)

lemma allSourcesFresh_not_stale:
  "allSourcesFresh cfg now lvl st \<Longrightarrow> (\<forall>(w, timeout) \<in> set (sources cfg st). \<not> stale w now timeout)"
  by (auto simp: allSourcesFresh_def sources_def Let_def split: if_splits)

lemma sources_tick_watch [simp]: "sources cfg (tick_watch cfg e st) = sources cfg st"
  by (simp add: sources_def)

lemma go_fresh:
  assumes "\<not> fst (tick_reenable cfg e (tick_watch cfg e st))"
  shows "\<forall>(w, timeout) \<in> set (sources cfg st). \<not> stale w (Clock_now (tick_clock e)) timeout"
proof (cases "latched (supervision (tick_watch cfg e st))")
  case True
  then have "allSourcesFresh cfg (Clock_now (tick_clock e)) (si_level e) (tick_watch cfg e st)"
    using assms by (simp add: tick_reenable_go release_ok_def)
  then show ?thesis
    using allSourcesFresh_not_stale by fastforce
next
  case False
  then show ?thesis
    using tick_watch_not_latched(2) supervisorStaleReason_None by blast
qed

section \<open>The cases of one tick\<close>

text \<open>
  Every tick ends in one publication. \<open>sta\<close> is the state it is made from; apart from the
  controllers, the latch and the re-enable request it is the state before the tick.
\<close>

definition same_inputs :: "('lat, 'lon) node_state \<Rightarrow> ('lat, 'lon) node_state \<Rightarrow> bool" where
  "same_inputs sta st \<longleftrightarrow>
     out_seq sta = out_seq st \<and> has_vp_cmd sta = has_vp_cmd st \<and> current_vp_cmd sta = current_vp_cmd st
     \<and> has_trajectory sta = has_trajectory st \<and> current_trajectory sta = current_trajectory st
     \<and> has_approved sta = has_approved st \<and> last_approved sta = last_approved st
     \<and> has_steering sta = has_steering st \<and> current_steering sta = current_steering st"

lemma same_inputs_refl [simp]: "same_inputs st st"
  by (simp add: same_inputs_def)

lemma same_inputs_latch [simp]: "same_inputs (latchFault cfg c s w sta) st = same_inputs sta st"
  by (simp add: same_inputs_def)

lemma same_inputs_update [simp]:
  "same_inputs (sta\<lparr>lateral_controller := l\<rparr>) st = same_inputs sta st"
  "same_inputs (sta\<lparr>longitudinal_controller := l'\<rparr>) st = same_inputs sta st"
  "same_inputs (sta\<lparr>accepted_source_session := a\<rparr>) st = same_inputs sta st"
  "same_inputs (sta\<lparr>accepted_source_cycle := b\<rparr>) st = same_inputs sta st"
  by (simp_all add: same_inputs_def)

inductive tick_case ::
  "node_config \<Rightarrow> tick_env \<Rightarrow> ('lat, 'lon) node_state \<Rightarrow> decision \<Rightarrow> selected_src \<Rightarrow> control_msg
     \<Rightarrow> ('lat, 'lon) node_state \<Rightarrow> bool"
  for cfg e st where
  stopped: "fst (tick_reenable cfg e (tick_watch cfg e st)) \<Longrightarrow>
    sta = snd (tick_reenable cfg e (tick_watch cfg e st)) \<Longrightarrow>
    tick_case cfg e st SI_STOP (mode_source cfg)
      (stoppedPayload cfg (Clock_now (tick_clock e)) (pub_steady (stop_pub e)) sta) sta"
| held: "\<not> fst (tick_reenable cfg e (tick_watch cfg e st)) \<Longrightarrow> same_inputs sta st \<Longrightarrow>
    \<not> latched (supervision sta) \<Longrightarrow>
    tick_case cfg e st HOLD (mode_source cfg)
      (stoppedPayload cfg (Clock_now (pub_now (hold_pub e))) (pub_steady (hold_pub e)) sta) sta"
| passed: "\<not> fst (tick_reenable cfg e (tick_watch cfg e st)) \<Longrightarrow> same_inputs sta st \<Longrightarrow>
    \<not> latched (supervision sta) \<Longrightarrow> node_mode cfg = VP_CONTROL \<Longrightarrow> has_vp_cmd st \<Longrightarrow> feedbackSeen st \<Longrightarrow>
    accepted_source_session sta = cmd_session (current_vp_cmd st) \<Longrightarrow>
    accepted_source_cycle sta = cmd_cycle (current_vp_cmd st) \<Longrightarrow>
    tick_case cfg e st NORMAL VP_COMMAND (vpToControl (vp_clock e) (current_vp_cmd st)) sta"
| followed: "\<not> fst (tick_reenable cfg e (tick_watch cfg e st)) \<Longrightarrow> same_inputs sta st \<Longrightarrow>
    \<not> latched (supervision sta) \<Longrightarrow> node_mode cfg = SI_CONTROL \<Longrightarrow>
    envelopeViolation (steering_tire_angle (lateral ctl)) (velocity (longitudinal ctl))
      (acceleration (longitudinal ctl)) (follower_limits cfg) = None \<Longrightarrow>
    tick_case cfg e st NORMAL FOLLOWER ctl sta"
| rejected: "\<not> fst (tick_reenable cfg e (tick_watch cfg e st)) \<Longrightarrow> same_inputs sta st \<Longrightarrow>
    \<not> latched (supervision sta0) \<Longrightarrow> node_mode cfg = SI_CONTROL \<Longrightarrow>
    sta = latchFault cfg (rej_clock (follower_env e)) (rej_steady (follower_env e)) (''follower '' @ why) sta0 \<Longrightarrow>
    tick_case cfg e st SI_STOP (mode_source cfg)
      (stoppedPayload cfg (Clock_now (rej_now (follower_env e))) (pub_steady (rej_pub (follower_env e))) sta) sta"

definition tick_result ::
  "node_config \<Rightarrow> tick_env \<Rightarrow> ('lat, 'lon) node_state \<Rightarrow> ('lat, 'lon) node_state \<times> node_output list \<Rightarrow> bool" where
  "tick_result cfg e st r \<longleftrightarrow>
     (\<exists>dec src ctl sta clk can. tick_case cfg e st dec src ctl sta
        \<and> (\<exists>pre. snd r = pre @ snd (publishApprovedRequest cfg clk can dec src ctl sta)
            \<and> approved_in pre = [] \<and> legacy_in pre = [])
        \<and> fst r = fst (publishApprovedRequest cfg clk can dec src ctl sta))"

lemma tick_resultI:
  "tick_case cfg e st dec src ctl sta \<Longrightarrow>
     tick_result cfg e st (publishApprovedRequest cfg clk can dec src ctl sta)"
  unfolding tick_result_def by (intro exI conjI, assumption) (auto intro: exI [of _ "[]"])

lemma tick_result_prefix:
  assumes "tick_result cfg e st (s, outs)" and pre: "approved_in pre = []" "legacy_in pre = []"
  shows "tick_result cfg e st (s, pre @ outs)"
proof -
  obtain dec src ctl sta clk can xs where r: "tick_case cfg e st dec src ctl sta"
    "outs = xs @ snd (publishApprovedRequest cfg clk can dec src ctl sta)"
    "approved_in xs = []" "legacy_in xs = []"
    "s = fst (publishApprovedRequest cfg clk can dec src ctl sta)"
    using assms(1) by (auto simp: tick_result_def)
  have "pre @ outs = (pre @ xs) @ snd (publishApprovedRequest cfg clk can dec src ctl sta)
      \<and> approved_in (pre @ xs) = [] \<and> legacy_in (pre @ xs) = []"
    using r pre by simp
  then show ?thesis
    unfolding tick_result_def fst_conv snd_conv using r(1,5) by blast
qed

lemma same_inputs_go:
  "same_inputs (snd (tick_reenable cfg e (tick_watch cfg e st))) st"
proof -
  obtain sup r where "snd (tick_reenable cfg e (tick_watch cfg e st)) =
      (tick_watch cfg e st)\<lparr>supervision := sup, reenable := r\<rparr>"
    using tick_reenable_frame by blast
  then show ?thesis
    by (simp add: same_inputs_def)
qed

lemma feedbackSeen_go:
  "feedbackSeen (snd (tick_reenable cfg e (tick_watch cfg e st))) = feedbackSeen st"
proof -
  obtain sup r where "snd (tick_reenable cfg e (tick_watch cfg e st)) =
      (tick_watch cfg e st)\<lparr>supervision := sup, reenable := r\<rparr>"
    using tick_reenable_frame by blast
  then show ?thesis
    by (simp add: feedbackSeen_def)
qed

lemma publishControlCommand_result:
  assumes "\<not> fst (tick_reenable cfg e (tick_watch cfg e st))" "same_inputs sta st"
    "\<not> latched (supervision sta)" "node_mode cfg = SI_CONTROL"
  shows "tick_result cfg e st (publishControlCommand cfg (follower_env e) lon_out lat_out sta)"
  unfolding publishControlCommand_def publishSiStop_def Let_def
  using assms
  by (auto split: option.split intro!: tick_resultI tick_case.followed tick_case.rejected)

lemma publishHold_result:
  assumes "\<not> fst (tick_reenable cfg e (tick_watch cfg e st))" "same_inputs sta st"
    "\<not> latched (supervision sta)"
  shows "tick_result cfg e st (publishHold cfg (hold_pub e) sta)"
  unfolding publishHold_def using assms by (intro tick_resultI tick_case.held)

lemma tick_vp_result:
  assumes go: "\<not> fst (tick_reenable cfg e (tick_watch cfg e st))"
    and sta: "sta = snd (tick_reenable cfg e (tick_watch cfg e st))"
    and vp: "node_mode cfg = VP_CONTROL"
  shows "tick_result cfg e st (tick_vp cfg e sta)"
proof -
  have same: "same_inputs sta st" and unlatched: "\<not> latched (supervision sta)"
    and seen: "feedbackSeen sta = feedbackSeen st"
    using go by (simp_all add: sta same_inputs_go tick_reenable_latched feedbackSeen_go)
  have cmd: "has_vp_cmd sta = has_vp_cmd st" "current_vp_cmd sta = current_vp_cmd st"
    using same by (auto simp: same_inputs_def)
  show ?thesis
    unfolding tick_vp_def Let_def
    using publishHold_result [OF go same unlatched] go same unlatched vp
    by (auto simp: cmd seen intro!: tick_resultI tick_case.passed)
qed

lemma tick_si_result:
  assumes go: "\<not> fst (tick_reenable cfg e (tick_watch cfg e st))"
    and sta: "same_inputs sta st" "\<not> latched (supervision sta)"
    and si: "node_mode cfg = SI_CONTROL"
  shows "tick_result cfg e st (tick_si cfg fol e sta)"
  unfolding tick_si_def Let_def
  using sta si
  by (auto split: option.split prod.split
      intro!: publishHold_result [OF go] tick_result_prefix publishControlCommand_result [OF go]
      dest!: sym [where s = "publishControlCommand _ _ _ _ _"])

theorem tick_cases:
  "tick_result cfg e st (callbackTimerControl cfg fol e st)"
proof (cases "fst (tick_reenable cfg e (tick_watch cfg e st))")
  case True
  then show ?thesis
    by (auto simp: callbackTimerControl_def publishSiStop_def Let_def split_beta
        intro!: tick_resultI tick_case.stopped)
next
  case False
  note go = False
  show ?thesis
  proof (cases "node_mode cfg")
    case VP_CONTROL
    then show ?thesis
      using go tick_vp_result [OF go refl]
      by (simp add: callbackTimerControl_def Let_def split_beta)
  next
    case SI_CONTROL
    then show ?thesis
      using go tick_si_result [OF go same_inputs_go] tick_reenable_latched [of cfg e "tick_watch cfg e st"]
      by (simp add: callbackTimerControl_def Let_def split_beta)
  qed
qed

text \<open>The form the properties use.\<close>

lemma tickE:
  assumes "callbackTimerControl cfg fol e st = (st', outs)"
  obtains dec src ctl sta clk c where "tick_case cfg e st dec src ctl sta"
    "approved_in outs = [request_of cfg clk dec src ctl sta]"
    "legacy_in outs =
     (if (legacy_control_cmd (startup cfg) = ALWAYS \<or> dec = SI_STOP) \<and> output_mode_uses_dds (node_output_mode cfg)
      then [ctl\<lparr>ctl_stamp := toRosTime (Clock_now clk),
                lateral := (lateral ctl)\<lparr>lat_stamp := toRosTime (Clock_now clk)\<rparr>\<rparr>] else [])"
    "st' = published dec ctl c sta"
proof -
  obtain dec src ctl sta clk can pre where r: "tick_case cfg e st dec src ctl sta"
    "outs = pre @ snd (publishApprovedRequest cfg clk can dec src ctl sta)"
    "approved_in pre = []" "legacy_in pre = []"
    "st' = fst (publishApprovedRequest cfg clk can dec src ctl sta)"
    using tick_cases [of cfg e st fol] unfolding assms tick_result_def fst_conv snd_conv by blast
  obtain c where c: "fst (publishApprovedRequest cfg clk can dec src ctl sta) = published dec ctl c sta"
    using publish_state by blast
  show thesis
    by (rule that [OF r(1), of clk c]) (simp_all only: r(2-5) c approved_in_append legacy_in_append
        publish_approved publish_legacy append_Nil)
qed

end
