(* ===== verification/Vp_Reference_Facts.thy ===== *)
theory Vp_Reference_Facts
  imports Vp_Reference
begin

text \<open>
  Facts about the conversion of a driving reference: the ego history as a bounded log, the
  termination of the path sampling, the finiteness of the geometry, the index selection and
  the speed schedule.
\<close>

section \<open>The ego history is a bounded log\<close>

definition ego_ok :: "ego_history \<Rightarrow> bool" where
  "ego_ok h \<longleftrightarrow> ring_ok kEgoHistory (ego_entries h) (ego_next h) (ego_count h)"

definition ego_list :: "ego_history \<Rightarrow> ego_entry list" where
  "ego_list h = ring_list (ego_entries h) (ego_next h) (ego_count h)"

definition note_entry :: "ego_entry \<Rightarrow> ego_history \<Rightarrow> ego_history" where
  "note_entry e = ego_note (ego_sec e) (ego_nanosec e) (ego_pose e)"

lemma ego_entry_eta [simp]:
  "\<lparr>ego_sec = ego_sec e, ego_nanosec = ego_nanosec e, ego_pose = ego_pose e\<rparr> = e"
  by (cases e) simp

lemma ego_ok_note: "ego_ok h \<Longrightarrow> ego_ok (note_entry e h)"
  unfolding ego_ok_def note_entry_def ego_note_def
  by (drule ring_ok_push [where x = e]) (simp add: ring_ok_def Let_def split: if_splits)

lemma ego_list_note: "ego_ok h \<Longrightarrow> ego_list (note_entry e h) = take kEgoHistory (e # ego_list h)"
  unfolding ego_ok_def note_entry_def ego_note_def ego_list_def
  by (frule ring_list_push [where x = e]) (simp add: ring_ok_def Let_def split: if_splits)

interpretation ego_log: bounded_log note_entry ego_list ego_ok kEgoHistory
  by unfold_locales (rule ego_ok_note ego_list_note; assumption)+

lemma ego_ok_empty: "ego_ok EgoHistory"
  by (simp add: ego_ok_def ring_ok_def EgoHistory_def kEgoHistory_def)

lemma ego_list_empty: "ego_list EgoHistory = []"
  by (simp add: ego_list_def ring_list_def EgoHistory_def)

lemma ego_find_eq:
  "ego_find s ns h = map_option ego_pose (find (\<lambda>e. ego_sec e = s \<and> ego_nanosec e = ns) (ego_list h))"
  by (simp add: ego_find_def ego_list_def ring_list_def)

lemma find_append: "find P (xs @ ys) = (case find P xs of None \<Rightarrow> find P ys | Some x \<Rightarrow> Some x)"
  by (induction xs) auto

text \<open>The newest pose of a frame is found as long as fewer than the capacity came after it.\<close>

lemma ego_find_kept:
  assumes "ego_ok h" and "length es < kEgoHistory"
    and "\<forall>e' \<in> set es. \<not> (ego_sec e' = ego_sec e \<and> ego_nanosec e' = ego_nanosec e)"
  shows "ego_find (ego_sec e) (ego_nanosec e) (fold note_entry (e # es) h) = Some (ego_pose e)"
proof -
  have "ego_list (fold note_entry (e # es) h) =
      take kEgoHistory (rev (e # es) @ take kEgoHistory (ego_list h))"
    using ego_log.entries_pushes [OF assms(1), of "e # es"] by simp
  also have "\<dots> = rev es @ e # take (kEgoHistory - 1 - length es) (take kEgoHistory (ego_list h))"
    using assms(2) by (simp add: take_Cons')
  finally have *: "ego_list (fold note_entry (e # es) h) = \<dots>" .
  have "find (\<lambda>e'. ego_sec e' = ego_sec e \<and> ego_nanosec e' = ego_nanosec e) (rev es) = None"
    using assms(3) by (simp add: find_None_iff_all)
  then show ?thesis
    by (simp only: ego_find_eq * find_append) simp
qed

text \<open>A pose that is found was noted for exactly that frame.\<close>

lemma ego_find_noted:
  assumes "ego_find s ns (fold note_entry es EgoHistory) = Some p"
  shows "\<lparr>ego_sec = s, ego_nanosec = ns, ego_pose = p\<rparr> \<in> set es"
proof -
  obtain e where "e \<in> set (ego_list (fold note_entry es EgoHistory))" "ego_sec e = s"
    "ego_nanosec e = ns" "ego_pose e = p"
    using assms by (auto simp: ego_find_eq dest: find_Some_set)
  then show ?thesis
    using ego_log.only_pushed [OF ego_ok_empty, of e es] by (auto simp: ego_list_empty)
qed

section \<open>Sampling the path terminates\<close>

lemma sample_path_fuel:
  assumes "x_limit \<le> Fin 25"
  shows "27 \<le> fuel + j \<Longrightarrow> j \<le> 26 \<Longrightarrow> sample_path fuel pose_at x_limit (Fin (real j)) world \<noteq> None"
proof (induction fuel arbitrary: j world)
  case (Suc fuel)
  show ?case
  proof (cases "Fin (real j) \<le> x_limit + Fin (1 / 10 ^ 9)")
    case True
    have "x_limit + Fin (1 / 10 ^ 9) \<le> Fin (25 + 1 / 10 ^ 9)"
      using assms dbl_max_ge by (cases x_limit) (auto simp: in_range_def)
    then have "Fin (real j) \<le> Fin (25 + 1 / 10 ^ 9)"
      using True dbl_le_trans by blast
    then have "real j < real 26"
      by simp
    then have j: "j \<le> 25"
      by (simp del: of_nat_numeral)
    then have "Fin (real j) + Fin kPathSpacingM = Fin (real (Suc j))"
      by (simp add: kPathSpacingM_def)
    then show ?thesis
      using Suc.IH [of "Suc j"] Suc.prems j by (simp add: Let_def)
  qed simp
qed simp

lemma sample_path_result:
  "sample_path fuel pose_at x_limit x world = Some (Some w) \<Longrightarrow>
     \<exists>ps. w = world @ ps \<and> length ps < fuel \<and> (\<forall>p \<in> set ps. finite_pose p \<and> (\<exists>x. p = pose_at x))
       \<and> (x \<le> x_limit + Fin (1 / 10 ^ 9) \<longrightarrow> ps \<noteq> [] \<and> hd ps = pose_at x)"
proof (induction fuel arbitrary: x world)
  case (Suc fuel)
  show ?case
  proof (cases "x \<le> x_limit + Fin (1 / 10 ^ 9)")
    case True
    then have fin: "finite_pose (pose_at x)"
      and "sample_path fuel pose_at x_limit (x + Fin kPathSpacingM) (world @ [pose_at x]) = Some (Some w)"
      using Suc.prems by (auto simp: Let_def finite_pose_def split: if_splits)
    then obtain ps where "w = world @ pose_at x # ps" "length ps < fuel"
        "\<forall>p \<in> set ps. finite_pose p \<and> (\<exists>x. p = pose_at x)"
      using Suc.IH by fastforce
    then show ?thesis
      using fin by (intro exI [of _ "pose_at x # ps"]) auto
  qed (use Suc.prems in simp)
qed simp

section \<open>Yaws are normalised\<close>

lemma atan2_real_bound: "\<bar>atan2_real y x\<bar> \<le> 6"
  using arctan_bounded [of "y / x"] pi_less_4 pi_gt_zero
  unfolding atan2_real_def by (auto simp: abs_le_iff)

definition small_angle :: "dbl \<Rightarrow> bool" where
  "small_angle x \<longleftrightarrow> \<bar>x\<bar> \<le> Fin 6"

lemma small_angle_iff: "small_angle x \<longleftrightarrow> (\<exists>r. x = Fin r \<and> \<bar>r\<bar> \<le> 6)"
  by (cases x) (auto simp: small_angle_def)

lemma wrapAngle_Fin: "wrapAngle (Fin r) = Fin (atan2_real (sin r) (cos r))"
  by (simp add: wrapAngle_def fsin_def fcos_def lift_real_def)

lemma wrapAngle_small: "isfinite x \<Longrightarrow> small_angle (wrapAngle x)"
  by (auto simp: isfinite_iff small_angle_iff wrapAngle_Fin atan2_real_bound)

lemma wrapAngle_finite_iff: "isfinite (wrapAngle x) \<longleftrightarrow> isfinite x"
  by (cases x) (simp_all add: wrapAngle_def fsin_def fcos_def lift_real_def)

text \<open>A pose on the path: a finite position and a normalised yaw.\<close>

definition good_pose :: "pose2d \<Rightarrow> bool" where
  "good_pose p \<longleftrightarrow> isfinite (px p) \<and> isfinite (py p) \<and> small_angle (pyaw p)"

lemma good_pose_finite: "good_pose p \<Longrightarrow> finite_pose p"
  by (auto simp: good_pose_def finite_pose_def small_angle_iff)

lemma path_pose_good: "finite_pose (path_pose a b c ego x) \<Longrightarrow> good_pose (path_pose a b c ego x)"
  by (auto simp: good_pose_def finite_pose_def path_pose_def Let_def wrapAngle_finite_iff
      intro: wrapAngle_small)

text \<open>A finite sample shows that the ego pose was finite.\<close>

lemma isfinite_plusD: "isfinite (x + y) \<Longrightarrow> isfinite x \<and> isfinite y"
  by (cases x; cases y) auto

lemma isfinite_minusD: "isfinite (x - y) \<Longrightarrow> isfinite x \<and> isfinite y"
  unfolding minus_dbl_def by (drule isfinite_plusD) (cases y; simp)

lemma path_pose_ego: "finite_pose (path_pose a b c ego x) \<Longrightarrow> finite_pose ego"
  by (auto simp: finite_pose_def path_pose_def Let_def wrapAngle_finite_iff
      dest!: isfinite_plusD isfinite_minusD)

section \<open>Arc lengths\<close>

lemma cumulative_Nil_iff [simp]: "cumulativeArcLengths pts = [] \<longleftrightarrow> pts = []"
  by (simp add: cumulativeArcLengths_def split: list.splits)

lemma length_arcs_from [simp]: "length (arcs_from s p qs) = length qs"
  by (induction qs arbitrary: s p) (simp_all add: Let_def)

lemma length_cumulative [simp]: "length (cumulativeArcLengths pts) = length pts"
  by (simp add: cumulativeArcLengths_def split: list.splits)

lemma cumulative_hd: "pts \<noteq> [] \<Longrightarrow> cumulativeArcLengths pts ! 0 = Fin 0"
  by (auto simp: cumulativeArcLengths_def zero_dbl_def split: list.splits)

lemma arcs_from_snoc:
  "arcs_from s p (qs @ [q]) = arcs_from s p qs @ [last (s # arcs_from s p qs) + seg_length (last (p # qs)) q]"
  by (induction qs arbitrary: s p) (simp_all add: Let_def)

lemma cumulative_snoc:
  "pts \<noteq> [] \<Longrightarrow> cumulativeArcLengths (pts @ [q]) =
     cumulativeArcLengths pts @ [last (cumulativeArcLengths pts) + seg_length (last pts) q]"
  by (cases pts) (simp_all add: cumulativeArcLengths_def arcs_from_snoc)

text \<open>
  The polyline that is built: arc lengths never decrease and are never a NaN, and where the
  arc length is finite so is the point. Only the last point can be infinite, after an
  overflow.
\<close>

definition arc_inv :: "pose2d list \<Rightarrow> bool" where
  "arc_inv out \<longleftrightarrow> out \<noteq> [] \<and> sorted_wrt (\<le>) (cumulativeArcLengths out)
     \<and> NaN \<notin> set (cumulativeArcLengths out)
     \<and> (\<forall>i < length out. isfinite (cumulativeArcLengths out ! i) \<longrightarrow> good_pose (out ! i))"

lemma fhypot_not_NaN: "x \<noteq> NaN \<Longrightarrow> y \<noteq> NaN \<Longrightarrow> fhypot x y \<noteq> NaN \<and> Fin 0 \<le> fhypot x y"
  by (cases x; cases y) (auto intro!: in_range_nonneg)

lemma fhypot_finite: "isfinite (fhypot x y) \<Longrightarrow> isfinite x \<and> isfinite y"
  by (cases x; cases y) auto

lemma diff_not_NaN: "x \<noteq> NaN \<Longrightarrow> isfinite y \<Longrightarrow> x - y \<noteq> NaN"
  by (cases x; cases y) (auto simp: minus_dbl_def)

lemma le_plus_nonneg: "isfinite x \<Longrightarrow> is_double x \<Longrightarrow> Fin 0 \<le> d \<Longrightarrow> x \<le> x + d \<and> x + d \<noteq> NaN"
  by (cases x; cases d) (auto simp: in_range_def)

lemma arc_inv_single: "good_pose p \<Longrightarrow> arc_inv [p]"
  by (simp add: arc_inv_def cumulativeArcLengths_def zero_dbl_def)

lemma is_double_arcs: "is_double s \<Longrightarrow> x \<in> set (arcs_from s p qs) \<Longrightarrow> is_double x"
proof (induction qs arbitrary: s p)
  case (Cons q qs)
  have "is_double (seg_length p q)"
    unfolding seg_length_def by (cases "px q - px p"; cases "py q - py p") simp_all
  then show ?case
    using Cons.IH [of "s + seg_length p q" q] Cons.prems by (auto simp: Let_def)
qed simp

lemma is_double_cumulative: "\<forall>x \<in> set (cumulativeArcLengths pts). is_double x"
  by (auto simp: cumulativeArcLengths_def zero_dbl_def dest!: is_double_arcs [rotated] split: list.splits)

lemma last_cumulative: "pts \<noteq> [] \<Longrightarrow> last (cumulativeArcLengths pts) = cumulativeArcLengths pts ! (length pts - 1)"
  by (simp add: last_conv_nth)

lemma arc_inv_last:
  assumes "arc_inv out" and "isfinite (last (cumulativeArcLengths out))"
  shows "good_pose (last out)"
proof -
  have "out \<noteq> []" using assms by (simp add: arc_inv_def)
  then show ?thesis
    using assms last_conv_nth [of out] by (simp add: arc_inv_def last_cumulative)
qed

lemma arc_inv_snoc:
  assumes inv: "arc_inv out" and fin: "isfinite (last (cumulativeArcLengths out))"
    and p: "px p \<noteq> NaN" "py p \<noteq> NaN" "small_angle (pyaw p)"
  shows "arc_inv (out @ [p])"
proof -
  let ?s = "cumulativeArcLengths out" and ?d = "seg_length (last out) p"
  have ne: "out \<noteq> []" using inv by (simp add: arc_inv_def)
  have l: "good_pose (last out)"
    using arc_inv_last inv fin by blast
  have d: "?d \<noteq> NaN" "Fin 0 \<le> ?d"
    using fhypot_not_NaN [OF diff_not_NaN diff_not_NaN] l p
    unfolding seg_length_def by (auto simp: good_pose_def)
  have step: "last ?s \<le> last ?s + ?d" "last ?s + ?d \<noteq> NaN"
    using le_plus_nonneg [OF fin _ d(2)] is_double_cumulative [of out] ne by auto
  have below: "x \<le> last ?s + ?d" if "x \<in> set ?s" for x
  proof -
    have "x \<le> last ?s \<or> x = last ?s"
      using that inv ne unfolding arc_inv_def
      by (metis append_butlast_last_id cumulative_Nil_iff in_set_conv_decomp_last sorted_wrt_append
          Un_iff empty_iff insert_iff list.set(1) list.set(2) set_append)
    then show ?thesis
      using step(1) dbl_le_trans by blast
  qed
  have "good_pose p" if "isfinite (last ?s + ?d)"
    using that p fhypot_finite isfinite_plusD isfinite_minusD
    unfolding good_pose_def seg_length_def by blast
  then have "\<forall>i < length (out @ [p]). isfinite ((?s @ [last ?s + ?d]) ! i) \<longrightarrow> good_pose ((out @ [p]) ! i)"
    using inv by (auto simp: arc_inv_def nth_append less_Suc_eq)
  then show ?thesis
    using inv below step ne by (auto simp: arc_inv_def cumulative_snoc sorted_wrt_append)
qed

lemma arc_inv_nonneg:
  assumes "arc_inv out" and "x \<in> set (cumulativeArcLengths out)"
  shows "Fin 0 \<le> x"
proof -
  have "hd (cumulativeArcLengths out) = Fin 0"
    using assms cumulative_hd [of out] by (simp add: arc_inv_def hd_conv_nth)
  then show ?thesis
    using assms by (cases "cumulativeArcLengths out") (auto simp: arc_inv_def)
qed

section \<open>Densification keeps the invariant\<close>

lemma small_angle_not_NaN: "small_angle x \<Longrightarrow> isfinite x"
  by (auto simp: small_angle_iff)

lemma step_coordinate:
  assumes "isfinite a" "isfinite b" "0 < f" "f \<le> 1"
  shows "a + (b - a) * Fin f \<noteq> NaN"
proof -
  obtain u v where uv: "a = Fin u" "b = Fin v" using assms by (auto simp: isfinite_iff)
  show ?thesis
    unfolding uv minus_dbl_def using assms(3)
    by (cases "fl (v + - u)") (simp_all add: inf_of_def)
qed

lemma step_yaw:
  assumes "small_angle y" and "small_angle d" and "0 < f" and "f \<le> 1"
  shows "small_angle (wrapAngle (y + d * Fin f))"
proof -
  obtain r q where rq: "y = Fin r" "\<bar>r\<bar> \<le> 6" "d = Fin q" "\<bar>q\<bar> \<le> 6"
    using assms by (auto simp: small_angle_iff)
  then have "\<bar>q * f\<bar> \<le> 6"
    using mult_mono [of "\<bar>q\<bar>" 6 "\<bar>f\<bar>" 1] assms by (simp add: abs_mult)
  then have "y + d * Fin f = Fin (r + q * f)"
    using rq by simp
  then show ?thesis
    by (simp add: wrapAngle_small)
qed

lemma isfinite_cap: "Fin 0 \<le> x \<Longrightarrow> \<not> Fin c \<le> x \<Longrightarrow> isfinite x"
  by (cases x) auto

lemma resample_steps_inv:
  assumes "good_pose a" "good_pose b" "small_angle dyaw" "1 \<le> n"
  shows "\<lbrakk>resample_steps (Fin cap) a b dyaw n ks out arc = (out', arc', stopped);
     \<forall>k \<in> set ks. 1 \<le> k \<and> k \<le> n; arc_inv out; arc = last (cumulativeArcLengths out);
     isfinite arc\<rbrakk> \<Longrightarrow>
     arc_inv out' \<and> arc' = last (cumulativeArcLengths out') \<and> (\<not> stopped \<longrightarrow> isfinite arc')
       \<and> hd out' = hd out"
proof (induction ks arbitrary: out arc)
  case (Cons k ks)
  define p where "p = \<lparr>px = px a + (px b - px a) * (Fin (of_int k) div Fin (of_int n)),
      py = py a + (py b - py a) * (Fin (of_int k) div Fin (of_int n)),
      pyaw = wrapAngle (pyaw a + dyaw * (Fin (of_int k) div Fin (of_int n)))\<rparr>"
  define f where "f = real_of_int k / real_of_int n"
  have f: "0 < f" "f \<le> 1" and "n \<noteq> 0"
    using Cons.prems(2) assms(4) by (auto simp: f_def)
  then have div: "Fin (of_int k) div Fin (of_int n) = Fin f"
    using fl_small [of f] unfolding f_def by simp
  have p: "p = \<lparr>px = px a + (px b - px a) * Fin f, py = py a + (py b - py a) * Fin f,
      pyaw = wrapAngle (pyaw a + dyaw * Fin f)\<rparr>"
    unfolding p_def div ..
  have ne: "out \<noteq> []" using Cons.prems by (simp add: arc_inv_def)
  have inv: "arc_inv (out @ [p])"
    using Cons.prems(3-5) assms f
    by (intro arc_inv_snoc) (auto simp: p good_pose_def step_coordinate intro: step_yaw)
  have last: "arc + seg_length (last out) p = last (cumulativeArcLengths (out @ [p]))"
    using Cons.prems(4) ne by (simp add: cumulative_snoc)
  then have "Fin 0 \<le> arc + seg_length (last out) p"
    using arc_inv_nonneg [OF inv] by simp
  then have "isfinite (arc + seg_length (last out) p)" if "\<not> Fin cap \<le> arc + seg_length (last out) p"
    using that isfinite_cap by blast
  moreover have "resample_steps (Fin cap) a b dyaw n (k # ks) out arc =
      (if Fin cap \<le> arc + seg_length (last out) p then (out @ [p], arc + seg_length (last out) p, True)
       else resample_steps (Fin cap) a b dyaw n ks (out @ [p]) (arc + seg_length (last out) p))"
    by (simp only: resample_steps.simps Let_def p_def)
  ultimately show ?case
    using Cons.IH [of "out @ [p]" "arc + seg_length (last out) p"] Cons.prems inv last ne
    by (auto simp del: resample_steps.simps split: if_splits)
qed simp

lemma step_count_ge: "step_count seg step_m = Some n \<Longrightarrow> 1 \<le> n"
  by (auto simp: step_count_def)

lemma dyaw_small: "good_pose a \<Longrightarrow> good_pose b \<Longrightarrow> small_angle (wrapAngle (pyaw b - pyaw a))"
  by (rule wrapAngle_small) (auto simp: good_pose_def small_angle_iff minus_dbl_def)

lemma resample_loop_inv:
  "\<lbrakk>good_pose a; \<forall>p \<in> set ps. good_pose p; arc_inv out;
    arc = last (cumulativeArcLengths out); isfinite arc\<rbrakk> \<Longrightarrow>
   arc_inv (resample_loop step_m (Fin cap) a ps out arc)
     \<and> hd (resample_loop step_m (Fin cap) a ps out arc) = hd out"
proof (induction ps arbitrary: a out arc)
  case (Cons b ps)
  define n where "n = (case step_count (fhypot (px b - px a) (py b - py a)) step_m of None \<Rightarrow> 1 | Some n \<Rightarrow> n)"
  have n: "1 \<le> n"
    using step_count_ge by (auto simp: n_def split: option.splits)
  obtain out' arc' stopped where r:
    "resample_steps (Fin cap) a b (wrapAngle (pyaw b - pyaw a)) n [1..n] out arc = (out', arc', stopped)"
    by (metis prod_cases3)
  have "arc_inv out' \<and> arc' = last (cumulativeArcLengths out') \<and> (\<not> stopped \<longrightarrow> isfinite arc')
       \<and> hd out' = hd out"
    using Cons.prems by (intro resample_steps_inv [OF _ _ _ n r] dyaw_small) auto
  then show ?case
    using Cons r by (auto simp: Let_def n_def [symmetric])
qed simp

lemma resample_inv:
  assumes "pts \<noteq> []" and "\<forall>p \<in> set pts. good_pose p"
  shows "arc_inv (resample pts step_m (Fin cap)) \<and> hd (resample pts step_m (Fin cap)) = hd pts"
proof (cases pts)
  case (Cons p ps)
  have "arc_inv [p]" "0 = last (cumulativeArcLengths [p])" "isfinite 0"
    using assms Cons by (simp_all add: arc_inv_single cumulativeArcLengths_def zero_dbl_def)
  then show ?thesis
    using resample_loop_inv [of p ps "[p]" 0] assms Cons
    by (cases ps) (auto simp: resample_def)
qed (use assms in simp)

text \<open>The number of steps is always defined, so that the code's cast is too.\<close>

lemma fmin_cap: "Fin 0 \<le> q \<Longrightarrow> 0 \<le> m \<Longrightarrow> \<exists>r. fmin q (Fin m) = Fin r \<and> 0 \<le> r \<and> r \<le> m"
  by (cases q) (auto simp: fmin_def)

lemma divide_nonneg: "Fin 0 \<le> x \<Longrightarrow> 0 < c \<Longrightarrow> Fin 0 \<le> x div Fin c"
  by (cases x) (auto intro: in_range_nonneg)

lemma step_count_defined:
  assumes "good_pose a" "good_pose b"
  shows "step_count (fhypot (px b - px a) (py b - py a)) (Fin kResampleStepM) \<noteq> None"
proof -
  have "Fin 0 \<le> fhypot (px b - px a) (py b - py a)"
    using assms by (intro fhypot_not_NaN [THEN conjunct2] diff_not_NaN) (auto simp: good_pose_def isfinite_iff)
  then obtain r where r: "fmin (fhypot (px b - px a) (py b - py a) div Fin kResampleStepM) (Fin 1000000) = Fin r"
      "0 \<le> r" "r \<le> 1000000"
    using fmin_cap [OF divide_nonneg, of "fhypot (px b - px a) (py b - py a)" "1 / 4" 1000000]
    by (auto simp: kResampleStepM_def)
  then have "0 \<le> \<lceil>r\<rceil>" "\<lceil>r\<rceil> \<le> 2 ^ 31 - 1"
    by (simp_all add: le_ceiling_iff ceiling_le_iff)
  then show ?thesis
    using r by (simp add: step_count_def fceil_def keep_inf_def cast_int_def trunc_def)
qed

section \<open>Index selection\<close>

definition arcs_ok :: "dbl list \<Rightarrow> bool" where
  "arcs_ok s \<longleftrightarrow> s \<noteq> [] \<and> s ! 0 = Fin 0 \<and> NaN \<notin> set s \<and> sorted_wrt (\<le>) s"

definition good_index :: "dbl list \<Rightarrow> nat \<Rightarrow> bool" where
  "good_index s i \<longleftrightarrow> i < length s \<and> isfinite (s ! i)"

lemma arcs_ok_cumulative: "arc_inv out \<Longrightarrow> arcs_ok (cumulativeArcLengths out)"
  by (simp add: arc_inv_def arcs_ok_def cumulative_hd)

lemma arcs_ok_nonneg: "arcs_ok s \<Longrightarrow> i < length s \<Longrightarrow> Fin 0 \<le> s ! i"
  by (cases s; cases i) (auto simp: arcs_ok_def)

lemma arcs_ok_not_NaN: "arcs_ok s \<Longrightarrow> i < length s \<Longrightarrow> s ! i \<noteq> NaN"
  by (metis arcs_ok_def nth_mem)

lemma finite_between: "Fin 0 \<le> x \<Longrightarrow> x < Fin t \<Longrightarrow> isfinite x"
  by (cases x) auto

lemma nearestIndex_good:
  assumes "arcs_ok s"
  shows "good_index s (nearestIndex s (Fin t))"
proof -
  define pos where "pos = lower_bound s (Fin t)"
  have le: "pos \<le> length s"
    by (simp add: pos_def lower_bound_def length_takeWhile_le)
  have ne: "0 < length s" using assms by (simp add: arcs_ok_def)
  have behind: "isfinite (s ! (pos - 1))" if "0 < pos"
  proof (rule finite_between)
    have lt: "pos - 1 < length (takeWhile (\<lambda>x. x < Fin t) s)"
      using that by (simp add: pos_def lower_bound_def)
    show "s ! (pos - 1) < Fin t"
      using nth_mem [OF lt] takeWhile_nth [OF lt] by (auto dest: set_takeWhileD)
    show "Fin 0 \<le> s ! (pos - 1)"
      using assms that le by (intro arcs_ok_nonneg) auto
  qed
  have ahead: "isfinite (s ! pos)" if "pos < length s" "s ! pos - Fin t < y" for y
    using that arcs_ok_nonneg [OF assms that(1)] by (cases "s ! pos") (auto simp: minus_dbl_def)
  show ?thesis
  proof (cases "pos = 0")
    case True
    then show ?thesis
      using assms ne by (simp add: nearestIndex_def pos_def [symmetric] good_index_def arcs_ok_def)
  next
    case False
    then show ?thesis
      using behind ahead le ne
      by (cases "pos = length s")
        (auto simp: nearestIndex_def pos_def [symmetric] good_index_def Let_def)
  qed
qed

lemma nearestIndex_zero: "arcs_ok s \<Longrightarrow> nearestIndex s (Fin 0) = 0"
  by (cases s) (auto simp: arcs_ok_def nearestIndex_def lower_bound_def)

lemma strict_sorted_last: "sorted_wrt (<) xs \<Longrightarrow> y \<in> set xs \<Longrightarrow> y \<le> (last xs :: nat)"
  by (induction xs) (auto simp: less_imp_le)

lemma strict_sorted_snoc:
  "sorted_wrt (<) xs \<Longrightarrow> xs = [] \<or> last xs < (y :: nat) \<Longrightarrow> sorted_wrt (<) (xs @ [y])"
  by (auto simp: sorted_wrt_append dest: strict_sorted_last)

definition push_step :: "(nat \<Rightarrow> nat) \<Rightarrow> nat list \<Rightarrow> nat \<Rightarrow> nat list" where
  "push_step f out step = (if out = [] \<or> f step > last out then out @ [f step] else out)"

lemma push_increasing:
  "sorted_wrt (<) (foldl (push_step f) [] xs) \<and> set (foldl (push_step f) [] xs) \<subseteq> f ` set xs
    \<and> length (foldl (push_step f) [] xs) \<le> length xs
    \<and> (xs \<noteq> [] \<longrightarrow> foldl (push_step f) [] xs \<noteq> [] \<and> hd (foldl (push_step f) [] xs) = f (hd xs))"
proof (induction xs rule: rev_induct)
  case (snoc x xs)
  define out where "out = foldl (push_step f) [] xs"
  have eq: "foldl (push_step f) [] (xs @ [x]) = push_step f out x"
    by (simp add: out_def)
  show ?case
    using snoc unfolding eq out_def [symmetric]
    by (cases "xs = []") (auto simp: push_step_def hd_append intro: strict_sorted_snoc)
qed simp

lemma extent_Fin:
  assumes "arcs_ok s" and "0 < e"
  shows "\<exists>r. fmin (Fin e) (last s) = Fin r \<and> 0 \<le> r \<and> r \<le> e"
proof -
  have "Fin 0 \<le> last s"
    using assms arcs_ok_nonneg [of s "length s - 1"] by (auto simp: arcs_ok_def last_conv_nth)
  then show ?thesis
    using assms(2) by (cases "last s") (auto simp: fmin_def)
qed

lemma selectIndices_good:
  assumes ok: "arcs_ok s" and n: "1 < n" "n \<le> 1000"
  defines "is \<equiv> selectIndices s (Fin kExtentCapM) n"
  shows "sorted_wrt (<) is \<and> (\<forall>i \<in> set is. good_index s i) \<and> length is \<le> n
    \<and> is \<noteq> [] \<and> hd is = 0"
proof -
  obtain e where e: "fmin (Fin kExtentCapM) (last s) = Fin e" "0 \<le> e" "e \<le> 25"
    using extent_Fin [OF ok, of kExtentCapM] by (auto simp: kExtentCapM_def)
  have ne: "s \<noteq> []" and zero: "good_index s 0"
    using ok by (auto simp: arcs_ok_def good_index_def)
  show ?thesis
  proof (cases "length s = 1 \<or> e \<le> 0")
    case True
    then show ?thesis
      using ne n zero e by (auto simp: is_def selectIndices_def zero_dbl_def)
  next
    case False
    define w where "w = min n (length s)"
    define f where "f step = nearestIndex s (Fin e * Fin (real step) div Fin (real (w - 1)))" for step
    have "2 \<le> length s"
      using False ne by (cases s) (auto simp: Suc_le_eq)
    then have w: "2 \<le> w" "w \<le> n" using n by (auto simp: w_def)
    have "Fin e * Fin (real step) div Fin (real (w - 1)) = Fin (e * real step / real (w - 1))"
      if "step < w" for step
    proof -
      have "e * real step \<le> 25 * 1000"
        using that w n e by (intro mult_mono) auto
      moreover have "e * real step / real (w - 1) \<le> e * real step / 1"
        using w e by (intro divide_left_mono) auto
      moreover have "0 \<le> e * real step" "0 \<le> e * real step / real (w - 1)"
        using e by auto
      ultimately show ?thesis
        using w by simp
    qed
    then have good: "good_index s (f step)" if "step < w" for step
      using that ok by (simp add: f_def nearestIndex_good)
    have "f 0 = 0"
      using ok w by (simp add: f_def nearestIndex_zero)
    moreover have "is = foldl (push_step f) [] [0..<w]"
      using False ne n e
      by (simp add: is_def selectIndices_def zero_dbl_def Let_def w_def [symmetric] f_def push_step_def [abs_def]
          cong: if_cong)
    ultimately show ?thesis
      using push_increasing [of f "[0..<w]"] good w
      by (auto simp: subset_iff image_iff)
  qed
qed

lemma strict_sorted_remdups_adj: "sorted xs \<Longrightarrow> sorted_wrt (<) (remdups_adj (xs :: nat list))"
  by (induction xs rule: remdups_adj.induct) (auto simp: less_le)

lemma take_min_sorted: "sorted_wrt (<) xs \<Longrightarrow> sorted_wrt (<) (take n xs)"
  by (simp add: sorted_wrt_take)

lemma hd_sorted_zero: "sorted xs \<Longrightarrow> (0 :: nat) \<in> set xs \<Longrightarrow> hd xs = 0"
  by (cases xs) auto

lemma chooseIndices_good:
  assumes "arcs_ok s"
  shows "sorted_wrt (<) (chooseIndices s) \<and> (\<forall>i \<in> set (chooseIndices s). good_index s i)
    \<and> length (chooseIndices s) \<le> kMaxPoints \<and> chooseIndices s \<noteq> [] \<and> hd (chooseIndices s) = 0"
proof -
  define js where "js = selectIndices s (Fin kExtentCapM) kMaxPoints"
  have js: "\<forall>i \<in> set js. good_index s i" "js \<noteq> []" "hd js = 0"
    using selectIndices_good [OF assms, of kMaxPoints] by (auto simp: js_def kMaxPoints_def)
  define ks where "ks = js @ map (\<lambda>want. nearestIndex s (Fin want))
      (filter (\<lambda>want. Fin want > 0 \<and> Fin want < fmin (Fin kExtentCapM) (last s)) kNearArcsM)"
  have eq: "chooseIndices s = take kMaxPoints (remdups_adj (sort ks))"
    using js by (simp add: chooseIndices_def js_def [symmetric] ks_def Let_def)
  have "hd (sort ks) = 0"
    using hd_in_set [OF js(2)] js(2,3) by (auto simp: ks_def intro!: hd_sorted_zero)
  moreover have "sort ks \<noteq> []"
    using js(2) by (metis append_is_Nil_conv ks_def length_0_conv length_sort)
  moreover have "\<forall>i \<in> set ks. good_index s i"
    using js assms by (auto simp: ks_def nearestIndex_good)
  ultimately show ?thesis
    unfolding eq
    by (auto simp: kMaxPoints_def hd_take strict_sorted_remdups_adj take_min_sorted
        dest!: in_set_takeD)
qed

section \<open>The speed schedule\<close>

lemma schedule_search_bounds:
  "lo < hi \<Longrightarrow> schedule_search ks s lo hi = (l, h) \<Longrightarrow>
     lo \<le> l \<and> h = l + 1 \<and> h \<le> hi \<and> (ks ! lo < s \<longrightarrow> ks ! l < s) \<and> (\<not> ks ! hi < s \<longrightarrow> \<not> ks ! h < s)"
proof (induction ks s lo hi rule: schedule_search.induct)
  case (1 ks s lo hi)
  show ?case
  proof (cases "lo + 1 < hi")
    case True
    define mid where "mid = (lo + hi) div 2"
    have mid: "lo < mid" "mid < hi"
      using True by (auto simp: mid_def)
    show ?thesis
    proof (cases "ks ! mid < s")
      case less: True
      then have "schedule_search ks s mid hi = (l, h)"
        using "1.prems"(2) True schedule_search.simps [of ks s lo hi] by (simp add: mid_def Let_def)
      then show ?thesis
        using "1.IH"(1) [OF True mid_def less mid(2)] less mid by auto
    next
      case ge: False
      then have "schedule_search ks s lo mid = (l, h)"
        using "1.prems"(2) True schedule_search.simps [of ks s lo hi] by (simp add: mid_def Let_def)
      then show ?thesis
        using "1.IH"(2) [OF True mid_def ge mid(1)] ge mid by auto
    qed
  next
    case False
    then show ?thesis
      using "1.prems" schedule_search.simps [of ks s lo hi] by (auto split: if_splits)
  qed
qed

lemma fmax0 [simp]: "Fin 0 \<le> fmax 0 x" "fmax 0 x \<noteq> NaN"
  by (cases x; auto simp: fmax_def zero_dbl_def)+

lemma sampleSpatial_nonneg: "Fin 0 \<le> fst (sampleSpatial ks vs s hold dt)"
  by (auto simp: sampleSpatial_def Let_def split: prod.splits)

text \<open>The knots of the schedule, for a finite positive step.\<close>

lemma length_knots_from [simp]: "length (knots_from dt s h0 hs) = length hs"
  by (induction hs arbitrary: s h0) (simp_all add: Let_def)

lemma length_scheduleKnots: "h \<noteq> [] \<Longrightarrow> length (scheduleKnots h dt) = length h"
  by (cases h) (simp_all add: scheduleKnots_def)

lemma plus_nonneg_dbl: "Fin 0 \<le> x \<Longrightarrow> Fin 0 \<le> y \<Longrightarrow> is_double x \<Longrightarrow> Fin 0 \<le> x + y \<and> x \<le> x + y"
  by (cases x; cases y) (auto simp: in_range_def)

lemma times_nonneg_dbl: "Fin 0 \<le> x \<Longrightarrow> 0 < c \<Longrightarrow> Fin 0 \<le> x * Fin c \<and> Fin 0 \<le> Fin c * x"
  by (cases x) (auto intro!: in_range_nonneg simp: inf_of_def)

lemma knots_from_ok:
  assumes "0 < d"
  shows "Fin 0 \<le> s \<Longrightarrow> is_double s \<Longrightarrow> \<forall>h \<in> set (h0 # hs). Fin 0 \<le> h \<and> is_double h \<Longrightarrow>
    sorted_wrt (\<le>) (s # knots_from (Fin d) s h0 hs)"
proof (induction hs arbitrary: s h0)
  case (Cons h1 hs)
  define s' where "s' = s + Fin (1 / 2) * (h0 + h1) * Fin d"
  have "Fin 0 \<le> h0 + h1"
    using Cons.prems plus_nonneg_dbl [of h0 h1] by simp
  then have "Fin 0 \<le> Fin (1 / 2) * (h0 + h1) * Fin d"
    using assms times_nonneg_dbl by simp
  then have s': "Fin 0 \<le> s'" "s \<le> s'" "is_double s'"
    using Cons.prems plus_nonneg_dbl [of s] by (simp_all add: s'_def)
  then have "sorted_wrt (\<le>) (s' # knots_from (Fin d) s' h1 hs)"
    using Cons.prems by (intro Cons.IH) auto
  then show ?case
    using s' dbl_le_trans [OF s'(2)] by (auto simp: Let_def s'_def [symmetric])
qed simp

lemma sorted_not_NaN: "sorted_wrt (\<le>) (x # xs) \<Longrightarrow> NaN \<notin> set xs"
  by (auto dest: bspec [where x = NaN])

lemma scheduleKnots_ok:
  assumes "0 < d" and "h \<noteq> []" and "\<forall>x \<in> set h. Fin 0 \<le> x \<and> is_double x"
  shows "arcs_ok (scheduleKnots h (Fin d))"
proof -
  have "sorted_wrt (\<le>) (Fin 0 # knots_from (Fin d) (Fin 0) (hd h) (tl h))"
    using assms by (intro knots_from_ok) (cases h; auto)+
  then show ?thesis
    using sorted_not_NaN by (auto simp: arcs_ok_def scheduleKnots_def zero_dbl_def)
qed

text \<open>Between two knots: the fraction of the interval that is passed.\<close>

definition knot_fraction :: "dbl list \<Rightarrow> nat \<Rightarrow> real \<Rightarrow> dbl" where
  "knot_fraction ks lo a =
     (let seg = ks ! (lo + 1) - ks ! lo
      in if seg \<le> Fin (1 / 10 ^ 9) then 0 else (Fin a - ks ! lo) div seg)"

definition in_interval :: "dbl list \<Rightarrow> nat \<Rightarrow> real \<Rightarrow> bool" where
  "in_interval ks lo a \<longleftrightarrow> lo + 1 < length ks \<and> ks ! lo < Fin a \<and> Fin a \<le> ks ! (lo + 1)"

lemma knot_fraction_value:
  assumes ok: "arcs_ok ks" and int: "in_interval ks lo a"
  obtains "\<And>b. in_interval ks lo b \<Longrightarrow> b \<le> dbl_max \<Longrightarrow> knot_fraction ks lo b = Fin 0"
  | l g where "0 < g" "l < a" "a \<le> l + g"
    "\<And>b. l < b \<Longrightarrow> b \<le> l + g \<Longrightarrow> knot_fraction ks lo b = Fin ((b - l) / g)"
    "\<And>b. in_interval ks lo b \<Longrightarrow> l < b \<and> b \<le> l + g"
proof -
  have nn: "Fin 0 \<le> ks ! lo" "ks ! lo < Fin a" "Fin a \<le> ks ! (lo + 1)"
    using int arcs_ok_nonneg [OF ok, of lo] by (auto simp: in_interval_def)
  then obtain l where l: "ks ! lo = Fin l" "0 \<le> l" "l < a"
    by (cases "ks ! lo") auto
  show thesis
  proof (cases "ks ! (lo + 1) - ks ! lo")
    case (Fin g)
    then obtain u where u: "ks ! (lo + 1) = Fin u" "g = u - l"
      using l nn by (cases "ks ! (lo + 1)") (auto simp: minus_dbl_def in_range_eq_Fin)
    show thesis
    proof (cases "g \<le> 1 / 10 ^ 9")
      case True
      then show thesis
        using that(1) Fin by (simp add: knot_fraction_def zero_dbl_def)
    next
      case False
      have g: "g \<le> dbl_max" "0 < g" "g > 1 / 10 ^ 9"
        using Fin u l False by (auto simp: minus_dbl_def in_range_eq_Fin)
      have frac: "knot_fraction ks lo b = Fin ((b - l) / g)" if b: "l < b" "b \<le> l + g" for b
      proof -
        have "0 \<le> (b - l) / g" "(b - l) / g \<le> 1"
          using b g by auto
        then have "fl ((b - l) / g) = Fin ((b - l) / g)"
          by (intro fl_small) simp
        moreover have "Fin b - Fin l = Fin (b - l)"
          using b g by (simp add: minus_dbl_def in_range_Fin)
        ultimately show ?thesis
          using False Fin by (simp add: knot_fraction_def l(1))
      qed
      show thesis
        by (rule that(2) [of g l]) (use g l u nn frac in \<open>auto simp: in_interval_def\<close>)
    qed
  next
    case PInf
    have "knot_fraction ks lo b = Fin 0" if "in_interval ks lo b" "b \<le> dbl_max" for b
    proof -
      have "\<bar>b - l\<bar> \<le> dbl_max"
        using that l by (auto simp: in_interval_def abs_le_iff)
      then have "Fin b - ks ! lo = Fin (b - l)"
        by (simp add: l(1) minus_dbl_def in_range_Fin)
      then show ?thesis
        using PInf by (simp add: knot_fraction_def)
    qed
    then show thesis by (rule that(1))
  qed (use l nn in \<open>cases "ks ! (lo + 1)"; auto simp: minus_dbl_def in_range_def split: if_splits\<close>)+
qed

lemma knot_fraction_bounds:
  assumes "arcs_ok ks" and "in_interval ks lo a" and "a \<le> dbl_max"
  shows "\<exists>r. knot_fraction ks lo a = Fin r \<and> 0 \<le> r \<and> r \<le> 1"
  by (rule knot_fraction_value [OF assms(1,2)]) (use assms in force)+

lemma knot_fraction_mono:
  assumes "arcs_ok ks" and "in_interval ks lo a" "in_interval ks lo b" and "a \<le> b" "b \<le> dbl_max"
  shows "knot_fraction ks lo a \<le> knot_fraction ks lo b"
proof (rule knot_fraction_value [OF assms(1,2)])
  fix l g
  assume "0 < g" and frac: "\<And>b. l < b \<Longrightarrow> b \<le> l + g \<Longrightarrow> knot_fraction ks lo b = Fin ((b - l) / g)"
    and "\<And>b. in_interval ks lo b \<Longrightarrow> l < b \<and> b \<le> l + g"
  then show ?thesis
    using assms(2-4) by (simp add: divide_right_mono)
qed (use assms in simp)

lemma sampleSpatial_inside:
  assumes ok: "arcs_ok ks" and len: "2 \<le> length ks" and a: "0 < a" "\<not> last ks \<le> Fin a"
  obtains lo where "in_interval ks lo a"
    "sampleSpatial ks vs (Fin a) hold dt =
       (fmax 0 (vs ! lo * (1 - knot_fraction ks lo a) + vs ! (lo + 1) * knot_fraction ks lo a),
        (Fin (real lo) + knot_fraction ks lo a) * dt)"
proof -
  obtain lo hi where r: "schedule_search ks (Fin a) 0 (length ks - 1) = (lo, hi)"
    by (metis prod.exhaust)
  have "ks ! 0 < Fin a"
    using ok a by (simp add: arcs_ok_def)
  moreover have "\<not> ks ! (length ks - 1) < Fin a"
    using a(2) len by (metis dbl_less_imp_le last_conv_nth list.size(3) not_numeral_le_zero)
  ultimately have b: "hi = lo + 1" "hi \<le> length ks - 1" "ks ! lo < Fin a" "\<not> ks ! hi < Fin a"
    using schedule_search_bounds [OF _ r] len by auto
  have "ks ! hi \<noteq> NaN"
    using b len by (intro arcs_ok_not_NaN [OF ok]) auto
  then have int: "in_interval ks lo a"
    using b len dbl_linear [of "ks ! hi" "Fin a"] by (auto simp: in_interval_def)
  moreover have "\<not> Fin a \<le> 0"
    using a by (simp add: zero_dbl_def)
  ultimately show thesis
    using b(1) a(2)
    by (intro that [OF int]) (simp add: sampleSpatial_def r [simplified] knot_fraction_def Let_def)
qed

lemma convex_le:
  assumes "0 \<le> p" "p \<le> M" "0 \<le> q" "q \<le> M" "M \<le> dbl_max" "0 \<le> r" "r \<le> 1"
  shows "Fin p * (1 - Fin r) + Fin q * Fin r \<le> Fin M"
proof -
  have "p * (1 - r) \<le> M * (1 - r)" "q * r \<le> M * r" "0 \<le> p * (1 - r)" "0 \<le> q * r"
    using assms by (auto intro: mult_right_mono)
  moreover have "M * (1 - r) + M * r = M"
    by (simp add: algebra_simps)
  moreover have "0 \<le> M * (1 - r)" "0 \<le> M * r"
    using assms by auto
  ultimately have sum: "0 \<le> p * (1 - r)" "p * (1 - r) \<le> dbl_max" "0 \<le> q * r" "q * r \<le> dbl_max"
    "p * (1 - r) + q * r \<le> M"
    using assms(5) by linarith+
  have "1 - Fin r = Fin (1 - r)"
    using assms by (simp add: one_dbl_def minus_dbl_def)
  then show ?thesis
    using sum assms(5) by (simp add: in_range_Fin)
qed

lemma fmax0_le: "x \<le> Fin M \<Longrightarrow> 0 \<le> M \<Longrightarrow> fmax 0 x \<le> Fin M"
  by (auto simp: fmax_def zero_dbl_def)

lemma sampleSpatial_le:
  assumes ok: "arcs_ok ks" and len: "2 \<le> length ks" "length vs = length ks"
    and vs: "\<forall>v \<in> set vs. Fin 0 \<le> v \<and> v \<le> Fin M" "0 \<le> M" "M \<le> dbl_max"
    and a: "0 < a" "a \<le> dbl_max" and hold: "hold \<in> set vs"
  shows "fst (sampleSpatial ks vs (Fin a) hold dt) \<le> Fin M"
proof (cases "last ks \<le> Fin a")
  case True
  then show ?thesis
    using a hold vs by (simp add: sampleSpatial_def zero_dbl_def fmax0_le [unfolded zero_dbl_def] Let_def)
next
  case False
  obtain lo where int: "in_interval ks lo a" and eq: "sampleSpatial ks vs (Fin a) hold dt =
       (fmax 0 (vs ! lo * (1 - knot_fraction ks lo a) + vs ! (lo + 1) * knot_fraction ks lo a),
        (Fin (real lo) + knot_fraction ks lo a) * dt)"
    using sampleSpatial_inside [OF ok len(1) a(1) False] by blast
  obtain r where r: "knot_fraction ks lo a = Fin r" "0 \<le> r" "r \<le> 1"
    using knot_fraction_bounds [OF ok int a(2)] by blast
  have "\<exists>p. vs ! i = Fin p \<and> 0 \<le> p \<and> p \<le> M" if "i < length vs" for i
    using vs(1) nth_mem [OF that] by (cases "vs ! i") force+
  then obtain p q where "vs ! lo = Fin p" "0 \<le> p" "p \<le> M" "vs ! (lo + 1) = Fin q" "0 \<le> q" "q \<le> M"
    using int len by (metis Suc_eq_plus1 Suc_lessD in_interval_def)
  then show ?thesis
    using r vs unfolding eq fst_conv r(1) by (metis convex_le fmax0_le)
qed

lemma sampleSpatial_PInf:
  assumes "arcs_ok ks"
  shows "\<not> isfinite (snd (sampleSpatial ks vs PInf hold dt))"
proof -
  have "last ks \<noteq> NaN"
    using assms by (metis arcs_ok_def last_in_set)
  moreover have "\<not> isfinite ((PInf - last ks) div fmax hold (Fin (3 / 10)))"
    using calculation by (cases "last ks"; cases hold) (auto simp: minus_dbl_def fmax_def)
  ultimately show ?thesis
    by (auto simp: sampleSpatial_def zero_dbl_def Let_def dest: isfinite_plusD)
qed

lemma isfinite_fl: "isfinite (fl r) \<Longrightarrow> fl r = Fin r"
  by (auto simp: in_range_def split: if_splits)

lemma isfinite_divideD:
  "isfinite (x div c) \<Longrightarrow> c = PInf \<or> c = Fin m \<and> 0 < m \<Longrightarrow> isfinite x"
  by (cases x; cases c) auto

lemma sampleSpatial_beyond:
  assumes "arcs_ok ks" and "0 < a" and "last ks \<le> Fin a"
    and "isfinite (snd (sampleSpatial ks vs (Fin a) hold (Fin d)))" and "hold \<noteq> NaN"
  shows "\<exists>z c. last ks = Fin z \<and> 0 \<le> c \<and>
    (\<forall>b. z \<le> b \<and> isfinite (snd (sampleSpatial ks vs (Fin b) hold (Fin d))) \<and> 0 < b \<longrightarrow>
      snd (sampleSpatial ks vs (Fin b) hold (Fin d)) = Fin (real (length ks - 1) * d + (b - z) * c))"
proof -
  have "Fin 0 \<le> last ks"
    using assms arcs_ok_nonneg [of ks "length ks - 1"] by (auto simp: arcs_ok_def last_conv_nth)
  then obtain z where z: "last ks = Fin z"
    using assms(3) by (cases "last ks") auto
  have "\<exists>m. fmax hold (Fin (3 / 10)) = PInf \<or> (fmax hold (Fin (3 / 10)) = Fin m \<and> 0 < m)"
  proof -
    have "Fin (3 / 10) \<le> fmax hold (Fin (3 / 10))"
      using assms(5) by (cases hold) (auto simp: fmax_def)
    then show ?thesis
      by (cases "fmax hold (Fin (3 / 10))") auto
  qed
  then obtain m where m: "fmax hold (Fin (3 / 10)) = PInf \<or> (fmax hold (Fin (3 / 10)) = Fin m \<and> 0 < m)"
    by blast
  define c where "c = (if fmax hold (Fin (3 / 10)) = PInf then 0 else 1 / m)"
  have "snd (sampleSpatial ks vs (Fin b) hold (Fin d)) = Fin (real (length ks - 1) * d + (b - z) * c)"
    if b: "z \<le> b" "isfinite (snd (sampleSpatial ks vs (Fin b) hold (Fin d)))" "0 < b" for b
  proof -
    have *: "snd (sampleSpatial ks vs (Fin b) hold (Fin d)) =
        Fin (real (length ks - 1)) * Fin d + (Fin b - Fin z) div fmax hold (Fin (3 / 10))"
      using b z by (simp add: sampleSpatial_def zero_dbl_def Let_def)
    define x where "x = Fin (real (length ks - 1)) * Fin d"
    define y where "y = (Fin b - Fin z) div fmax hold (Fin (3 / 10))"
    have fin: "isfinite (x + y)"
      using b(2) * by (simp add: x_def y_def)
    have xy: "isfinite x" "isfinite y"
      using isfinite_plusD [OF fin] by auto
    have "isfinite (Fin b - Fin z)"
      using xy(2) m unfolding y_def by (rule isfinite_divideD)
    then have "Fin b - Fin z = Fin (b - z)"
      by (simp add: minus_dbl_def isfinite_fl)
    then have "y = Fin ((b - z) * c)"
      using xy(2) m by (cases "fmax hold (Fin (3 / 10)) = PInf") (simp_all add: y_def c_def isfinite_fl)
    moreover have "x = Fin (real (length ks - 1) * d)"
      using xy(1) by (simp add: x_def isfinite_fl)
    moreover have "snd (sampleSpatial ks vs (Fin b) hold (Fin d)) = x + y"
      using * by (simp add: x_def y_def)
    ultimately show ?thesis
      using fin by (simp add: isfinite_fl)
  qed
  moreover have "0 \<le> c"
    using m by (auto simp: c_def)
  ultimately show ?thesis
    using z by blast
qed

text \<open>Inside the schedule, the time lies between the times of the two knots.\<close>

lemma sampleSpatial_time_inside:
  assumes ok: "arcs_ok ks" and len: "2 \<le> length ks" and a: "0 < a" "a \<le> dbl_max" "\<not> last ks \<le> Fin a"
    and fin: "isfinite (snd (sampleSpatial ks vs (Fin a) hold (Fin d)))"
  obtains lo r where "in_interval ks lo a" "knot_fraction ks lo a = Fin r" "0 \<le> r" "r \<le> 1"
    "snd (sampleSpatial ks vs (Fin a) hold (Fin d)) = Fin ((real lo + r) * d)"
proof -
  obtain lo where int: "in_interval ks lo a" and eq: "sampleSpatial ks vs (Fin a) hold (Fin d) =
       (fmax 0 (vs ! lo * (1 - knot_fraction ks lo a) + vs ! (lo + 1) * knot_fraction ks lo a),
        (Fin (real lo) + knot_fraction ks lo a) * Fin d)"
    using sampleSpatial_inside [OF ok len a(1) a(3)] by blast
  obtain r where r: "knot_fraction ks lo a = Fin r" "0 \<le> r" "r \<le> 1"
    using knot_fraction_bounds [OF ok int a(2)] by blast
  have "isfinite (fl (real lo + r) * Fin d)"
    using fin by (simp add: eq r)
  then have "isfinite (fl (real lo + r))"
    by (cases "fl (real lo + r)") (auto simp: inf_of_def split: if_splits)
  then have "snd (sampleSpatial ks vs (Fin a) hold (Fin d)) = Fin ((real lo + r) * d)"
    using fin by (simp add: eq r isfinite_fl)
  then show thesis
    using that int r by blast
qed

lemma sorted_nth_le: "arcs_ok ks \<Longrightarrow> i \<le> j \<Longrightarrow> j < length ks \<Longrightarrow> ks ! i \<le> ks ! j"
  using arcs_ok_not_NaN [of ks j] dbl_refl [of "ks ! j"]
  by (cases "i = j") (auto simp: arcs_ok_def sorted_wrt_iff_nth_less)

lemma sampleSpatial_time_mono:
  assumes ok: "arcs_ok ks" and len: "2 \<le> length ks" and ab: "0 < a" "a \<le> b" "b \<le> dbl_max"
    and d: "0 < d" and hold: "hold \<noteq> NaN"
    and fin: "isfinite (snd (sampleSpatial ks vs (Fin a) hold (Fin d)))"
      "isfinite (snd (sampleSpatial ks vs (Fin b) hold (Fin d)))"
  shows "snd (sampleSpatial ks vs (Fin a) hold (Fin d)) \<le> snd (sampleSpatial ks vs (Fin b) hold (Fin d))"
proof (cases "last ks \<le> Fin b")
  case b: True
  obtain z c where z: "last ks = Fin z" "0 \<le> c" and time:
    "\<And>x. z \<le> x \<Longrightarrow> isfinite (snd (sampleSpatial ks vs (Fin x) hold (Fin d))) \<Longrightarrow> 0 < x \<Longrightarrow>
      snd (sampleSpatial ks vs (Fin x) hold (Fin d)) = Fin (real (length ks - 1) * d + (x - z) * c)"
    using sampleSpatial_beyond [OF ok _ b fin(2) hold] ab by fastforce
  have tb: "snd (sampleSpatial ks vs (Fin b) hold (Fin d)) = Fin (real (length ks - 1) * d + (b - z) * c)"
    using time [of b] b z fin ab by simp
  show ?thesis
  proof (cases "last ks \<le> Fin a")
    case True
    have "(a - z) * c \<le> (b - z) * c"
      using ab z by (intro mult_right_mono) auto
    then show ?thesis
      using time [of a] True z fin ab tb by simp
  next
    case False
    obtain lo r where r: "in_interval ks lo a" "0 \<le> r" "r \<le> 1"
      "snd (sampleSpatial ks vs (Fin a) hold (Fin d)) = Fin ((real lo + r) * d)"
      using sampleSpatial_time_inside [OF ok len ab(1) _ False fin(1)] ab(2,3) by (metis order_trans)
    have "real lo + 1 \<le> real (length ks - 1)"
      using r(1) by (simp add: in_interval_def)
    then have "(real lo + r) * d \<le> real (length ks - 1) * d"
      using r d by (intro mult_right_mono) auto
    moreover have "0 \<le> (b - z) * c"
      using b z by simp
    ultimately show ?thesis
      using r tb by simp
  qed
next
  case False
  have a: "\<not> last ks \<le> Fin a"
    using False ab dbl_le_trans [of "last ks" "Fin a" "Fin b"] by auto
  obtain lo r where lo: "in_interval ks lo a" "knot_fraction ks lo a = Fin r" "0 \<le> r" "r \<le> 1"
    "snd (sampleSpatial ks vs (Fin a) hold (Fin d)) = Fin ((real lo + r) * d)"
    using sampleSpatial_time_inside [OF ok len ab(1) _ a fin(1)] ab(2,3) by (metis order_trans)
  obtain ub q where ub: "in_interval ks ub b" "knot_fraction ks ub b = Fin q" "0 \<le> q" "q \<le> 1"
    "snd (sampleSpatial ks vs (Fin b) hold (Fin d)) = Fin ((real ub + q) * d)"
    using sampleSpatial_time_inside [OF ok len _ ab(3) False fin(2)] ab(1,2) by (metis less_le_trans)
  have "lo \<le> ub"
  proof (rule ccontr)
    assume "\<not> lo \<le> ub"
    then have "ks ! (ub + 1) \<le> ks ! lo"
      using lo by (intro sorted_nth_le [OF ok]) (auto simp: in_interval_def)
    then have "Fin b < Fin a"
      using lo(1) ub(1) dbl_le_less_trans dbl_le_trans unfolding in_interval_def by blast
    then show False using ab by simp
  qed
  have "real lo + r \<le> real ub + q"
  proof (cases "lo = ub")
    case True
    then show ?thesis
      using knot_fraction_mono [OF ok lo(1) _ ab(2,3)] lo(2) ub(1,2) by simp
  next
    case False
    then have "real lo + 1 \<le> real ub" using \<open>lo \<le> ub\<close> by simp
    then show ?thesis using lo ub by linarith
  qed
  then show ?thesis
    using lo(5) ub(5) d by (simp add: mult_right_mono)
qed

section \<open>The points of the schedule\<close>

lemma sampleSpatial_dt_PInf:
  assumes "2 \<le> length ks" and "\<not> s \<le> 0"
  shows "\<not> isfinite (snd (sampleSpatial ks vs s hold PInf))"
proof -
  have times: "\<not> isfinite (x * PInf)" for x
    by (cases x) (auto simp: inf_of_def)
  show ?thesis
    using assms times
    by (auto simp: sampleSpatial_def Let_def inf_of_def split: prod.splits dest: isfinite_plusD)
qed

lemma arcs_from_sorted:
  "Fin 0 \<le> s \<Longrightarrow> is_double s \<Longrightarrow> \<forall>p \<in> set (q # qs). finite_pose p \<Longrightarrow>
     sorted_wrt (\<le>) (s # arcs_from s q qs)"
proof (induction qs arbitrary: s q)
  case (Cons r qs)
  define s' where "s' = s + seg_length q r"
  have "Fin 0 \<le> seg_length q r"
    unfolding seg_length_def using Cons.prems
    by (intro fhypot_not_NaN [THEN conjunct2] diff_not_NaN) (auto simp: finite_pose_def isfinite_iff)
  moreover have "is_double (seg_length q r)"
    unfolding seg_length_def by (cases "px r - px q"; cases "py r - py q") simp_all
  ultimately have s': "Fin 0 \<le> s'" "s \<le> s'" "is_double s'"
    using Cons.prems plus_nonneg_dbl [of s] by (simp_all add: s'_def)
  then have "sorted_wrt (\<le>) (s' # arcs_from s' r qs)"
    using Cons.prems by (intro Cons.IH) auto
  then show ?case
    using s' dbl_le_trans [OF s'(2)] by (auto simp: Let_def s'_def [symmetric])
qed simp

lemma cumulative_ok:
  assumes "pts \<noteq> []" and "\<forall>p \<in> set pts. finite_pose p"
  shows "arcs_ok (cumulativeArcLengths pts)"
proof (cases pts)
  case (Cons p ps)
  then have "sorted_wrt (\<le>) (Fin 0 # arcs_from (Fin 0) p ps)"
    using assms by (intro arcs_from_sorted) auto
  then show ?thesis
    using sorted_not_NaN Cons by (auto simp: arcs_ok_def cumulativeArcLengths_def zero_dbl_def)
qed (use assms in simp)

text \<open>Where the schedule is read, with the arguments \<open>convert\<close> passes.\<close>

definition sample_at :: "dbl list \<Rightarrow> dbl \<Rightarrow> dbl \<Rightarrow> dbl \<times> dbl" where
  "sample_at h dt l = sampleSpatial (scheduleKnots h dt) h (l + Fin kSpeedLeadM) (last h) dt"

lemma schedulePoints_eq:
  "schedulePoints sel horizon dt =
     (let h = map (fmax 0) horizon;
          vts = map (sample_at h dt) (cumulativeArcLengths sel);
          accels = pointAccels (map fst vts) (map snd vts)
            ((last h - hd h) div fmax (dt * Fin (real (length h - 1))) dt)
      in if \<exists>i \<in> set [0..<length sel]. \<not> isfinite (fst (vts ! i)) \<or> \<not> isfinite (snd (vts ! i))
            \<or> \<not> isfinite (accels ! i) then None
         else Some (map (\<lambda>i. \<lparr>pt_x = px (sel ! i), pt_y = py (sel ! i), pt_yaw = pyaw (sel ! i),
            velocity_mps = fst (vts ! i), time_from_start_s = snd (vts ! i),
            pt_acceleration = accels ! i\<rparr>) [0..<length sel]))"
  by (simp add: schedulePoints_def sample_at_def [abs_def] Let_def cong: if_cong)

definition clipped :: "dbl list \<Rightarrow> dbl list" where
  "clipped = map (fmax 0)"

lemma is_double_fmax0: "is_double x \<Longrightarrow> is_double (fmax 0 x)"
  by (simp add: fmax_def zero_dbl_def)

lemma clipped_ok:
  "\<forall>x \<in> set horizon. is_double x \<Longrightarrow> \<forall>x \<in> set (clipped horizon). Fin 0 \<le> x \<and> is_double x"
  by (auto simp: clipped_def is_double_fmax0)

lemma sample_at_finite:
  assumes h: "2 \<le> length horizon" "\<forall>x \<in> set horizon. is_double x" and dt: "dt > 0"
    and l: "Fin 0 \<le> l" "is_double l" and fin: "isfinite (snd (sample_at (clipped horizon) dt l))"
  obtains d a where "dt = Fin d" "0 < d" "arcs_ok (scheduleKnots (clipped horizon) (Fin d))"
    "l = Fin a" "0 \<le> a" "a + 1 \<le> dbl_max" "l + Fin kSpeedLeadM = Fin (a + 1)"
proof -
  have "horizon \<noteq> []"
    using h by auto
  then have len: "length (scheduleKnots (clipped horizon) dt) = length horizon" "horizon \<noteq> []"
    using length_scheduleKnots [of "clipped horizon" dt] by (auto simp: clipped_def)
  have pos: "\<not> l + Fin kSpeedLeadM \<le> 0"
    using l by (cases l) (auto simp: zero_dbl_def kSpeedLeadM_def in_range_def)
  have "dt \<noteq> PInf"
    using fin sampleSpatial_dt_PInf [OF _ pos] h len by (auto simp: sample_at_def)
  then obtain d where d: "dt = Fin d" "0 < d"
    using dt by (cases dt) (auto simp: zero_dbl_def)
  have ok: "arcs_ok (scheduleKnots (clipped horizon) (Fin d))"
    using d(2) len clipped_ok [OF h(2)] by (intro scheduleKnots_ok) (auto simp: clipped_def)
  have "l + Fin kSpeedLeadM \<noteq> PInf"
    using fin sampleSpatial_PInf [OF ok] by (auto simp: sample_at_def d)
  then obtain a where a: "l = Fin a" "0 \<le> a" "a + 1 \<le> dbl_max"
    using l by (cases l) (auto simp: kSpeedLeadM_def in_range_def split: if_splits)
  then have "l + Fin kSpeedLeadM = Fin (a + 1)"
    by (simp add: kSpeedLeadM_def in_range_Fin)
  then show thesis
    using that d ok a by blast
qed

lemma sample_at_le:
  assumes h: "2 \<le> length horizon" "\<forall>x \<in> set horizon. is_double x \<and> fmax 0 x \<le> Fin M" and dt: "dt > 0"
    and M: "0 \<le> M" "M \<le> dbl_max"
    and l: "Fin 0 \<le> l" "is_double l" and fin: "isfinite (snd (sample_at (clipped horizon) dt l))"
  shows "fst (sample_at (clipped horizon) dt l) \<le> Fin M"
proof -
  obtain d a where d: "dt = Fin d" "arcs_ok (scheduleKnots (clipped horizon) (Fin d))"
    "0 \<le> a" "a + 1 \<le> dbl_max" "l + Fin kSpeedLeadM = Fin (a + 1)"
    using sample_at_finite [OF h(1) _ dt l fin] h(2) by metis
  have len: "clipped horizon \<noteq> []" "length (clipped horizon) = length horizon"
    using h by (auto simp: clipped_def)
  have "fst (sampleSpatial (scheduleKnots (clipped horizon) (Fin d)) (clipped horizon) (Fin (a + 1))
      (last (clipped horizon)) (Fin d)) \<le> Fin M"
    using h M d len last_in_set [OF len(1)]
    by (intro sampleSpatial_le) (simp_all add: length_scheduleKnots, simp add: clipped_def)
  then show ?thesis
    by (simp add: sample_at_def d)
qed

lemma sample_at_time_mono:
  assumes h: "2 \<le> length horizon" "\<forall>x \<in> set horizon. is_double x" and dt: "dt > 0"
    and l: "Fin 0 \<le> l" "l \<le> l'" "is_double l" "is_double l'"
    and fin: "isfinite (snd (sample_at (clipped horizon) dt l))" "isfinite (snd (sample_at (clipped horizon) dt l'))"
  shows "snd (sample_at (clipped horizon) dt l) \<le> snd (sample_at (clipped horizon) dt l')"
proof -
  obtain d a where d: "dt = Fin d" "0 < d" "arcs_ok (scheduleKnots (clipped horizon) (Fin d))"
    "l = Fin a" "0 \<le> a" "l + Fin kSpeedLeadM = Fin (a + 1)"
    using sample_at_finite [OF h dt l(1,3) fin(1)] by metis
  obtain b where b: "l' = Fin b" "b + 1 \<le> dbl_max" "l' + Fin kSpeedLeadM = Fin (b + 1)"
    using sample_at_finite [OF h dt dbl_le_trans [OF l(1,2)] l(4) fin(2)] by metis
  have len: "clipped horizon \<noteq> []" "length (clipped horizon) = length horizon"
    using h by (auto simp: clipped_def)
  have "last (clipped horizon) \<noteq> NaN"
    using clipped_ok [OF h(2)] len by (metis last_in_set less_eq_dbl_simps(7))
  then show ?thesis
    using d b l fin h len unfolding sample_at_def
    by (simp only: d(1) d(6) b(3)) (intro sampleSpatial_time_mono, auto simp: length_scheduleKnots)
qed

text \<open>The points that \<open>schedulePoints\<close> returns.\<close>

lemma schedulePoints_SomeD:
  assumes "schedulePoints sel horizon dt = Some out"
  defines "vt \<equiv> \<lambda>i. sample_at (clipped horizon) dt (cumulativeArcLengths sel ! i)"
  shows "length out = length sel"
    and "i < length sel \<Longrightarrow> pt_x (out ! i) = px (sel ! i) \<and> pt_y (out ! i) = py (sel ! i)
      \<and> pt_yaw (out ! i) = pyaw (sel ! i)"
    and "i < length sel \<Longrightarrow> velocity_mps (out ! i) = fst (vt i) \<and> time_from_start_s (out ! i) = snd (vt i)"
    and "i < length sel \<Longrightarrow> isfinite (velocity_mps (out ! i)) \<and> isfinite (time_from_start_s (out ! i))
      \<and> isfinite (pt_acceleration (out ! i))"
    and "i < length sel \<Longrightarrow> pt_acceleration (out ! i) =
      pointAccels (map velocity_mps out) (map time_from_start_s out)
        ((last (clipped horizon) - hd (clipped horizon))
          div fmax (dt * Fin (real (length horizon - 1))) dt) ! i"
proof -
  have "map velocity_mps out = map (fst \<circ> sample_at (clipped horizon) dt) (cumulativeArcLengths sel)"
    "map time_from_start_s out = map (snd \<circ> sample_at (clipped horizon) dt) (cumulativeArcLengths sel)"
    using assms(1) by (auto simp: schedulePoints_eq Let_def clipped_def intro!: nth_equalityI split: if_splits)
  then show "i < length sel \<Longrightarrow> pt_acceleration (out ! i) =
      pointAccels (map velocity_mps out) (map time_from_start_s out)
        ((last (clipped horizon) - hd (clipped horizon))
          div fmax (dt * Fin (real (length horizon - 1))) dt) ! i"
    using assms(1) by (auto simp: schedulePoints_eq Let_def clipped_def split: if_splits)
qed (use assms in \<open>auto simp: schedulePoints_eq Let_def clipped_def split: if_splits\<close>)

lemma pointAccels_zero:
  assumes "\<forall>v \<in> set vs. v = Fin 0" and "i < length vs"
  shows "pointAccels vs ts (Fin 0) ! i = Fin 0"
proof -
  have zero: "(Fin 0 - Fin 0) div sp = Fin 0" if "Fin (1 / 10 ^ 6) < sp" for sp
    using that by (cases sp) (auto simp: minus_dbl_def)
  have "vs ! j = Fin 0" if "j < length vs" for j
    using that assms(1) by simp
  then show ?thesis
    using assms(2) zero by (cases "length vs = 1") (auto simp: pointAccels_def Let_def zero_dbl_def)
qed

end
