(* ===== verification/Vp_Convert.thy ===== *)
theory Vp_Convert
  imports Vp_Reference_Facts
begin

text \<open>
  What \<open>convert\<close> returns: the size, finiteness, timing and speed of every trajectory that is
  handed to the follower.
\<close>

lemma sampled_path:
  assumes "x_max > 0"
    and "sample_path path_fuel (path_pose a b c ego) (fmin x_max (Fin kExtentCapM)) 0 [] = Some (Some path)"
  shows "path \<noteq> []" "\<forall>p \<in> set path. good_pose p" "finite_pose ego"
proof -
  have "0 \<le> fmin x_max (Fin kExtentCapM) + Fin (1 / 10 ^ 9)"
    using assms(1) by (cases x_max) (auto simp: fmin_def kExtentCapM_def zero_dbl_def intro: in_range_nonneg)
  then have ne: "path \<noteq> []" and all: "\<forall>p \<in> set path. finite_pose p \<and> (\<exists>x. p = path_pose a b c ego x)"
    using sample_path_result [OF assms(2)] by auto
  then show "path \<noteq> []" "\<forall>p \<in> set path. good_pose p"
    using path_pose_good by auto
  show "finite_pose ego"
    using all hd_in_set [OF ne] path_pose_ego by metis
qed

section \<open>What \<open>convert\<close> returns\<close>

lemma convert_SomeE:
  assumes "convert a b c x_max ego horizon dt = Some out"
  obtains sel where "schedulePoints sel horizon dt = Some out" "sel \<noteq> []" "length sel \<le> kMaxPoints"
    "\<forall>p \<in> set sel. finite_pose p" "3 \<le> length out" "dt > 0" "2 \<le> length horizon"
    "hd sel = ego \<or> fhypot (px (hd sel) - px ego) (py (hd sel) - py ego) \<le> Fin (1 / 2)"
proof -
  obtain path where pre: "x_max > 0" "2 \<le> length horizon" "dt > 0"
    and path: "sample_path path_fuel (path_pose a b c ego) (fmin x_max (Fin kExtentCapM)) 0 [] = Some (Some path)"
    using assms by (auto simp: convert_def not_less split: if_splits option.splits)
  define world where "world = resample path (Fin kResampleStepM) (Fin kExtentCapM)"
  define idx where "idx = chooseIndices (cumulativeArcLengths world)"
  note start = sampled_path [OF pre(1) path]
  have inv: "arc_inv world"
    using resample_inv [OF start(1,2)] by (simp add: world_def)
  then have idx: "idx \<noteq> []" "length idx \<le> kMaxPoints" "\<forall>i \<in> set idx. good_index (cumulativeArcLengths world) i"
    using chooseIndices_good [OF arcs_ok_cumulative] by (auto simp: idx_def)
  define picked where "picked = map (\<lambda>i. world ! i) idx"
  have picked: "picked \<noteq> []" "length picked \<le> kMaxPoints" "\<forall>p \<in> set picked. finite_pose p"
    using idx inv good_pose_finite by (auto simp: picked_def good_index_def arc_inv_def)
  have result: "schedulePoints (with_ego ego picked) horizon dt = Some out" "3 \<le> length out"
    using assms pre idx
    by (auto simp: convert_def path Let_def world_def [symmetric] idx_def [symmetric]
        picked_def [symmetric] kMinFollowerPoints_def split: if_splits option.splits)
  have "finite_pose p" if "p \<in> set (with_ego ego picked)" for p
    using that picked start by (auto simp: with_ego_def split: if_splits dest!: in_set_takeD)
  moreover have "with_ego ego picked \<noteq> []" "length (with_ego ego picked) \<le> kMaxPoints"
    using picked by (auto simp: with_ego_def kMaxPoints_def)
  moreover have "fhypot (px (hd picked) - px ego) (py (hd picked) - py ego) \<noteq> NaN"
    using bspec [OF picked(3) hd_in_set [OF picked(1)]] start(3)
    by (intro fhypot_not_NaN [THEN conjunct1] diff_not_NaN) (auto simp: finite_pose_def isfinite_iff)
  then have "hd (with_ego ego picked) = ego \<or>
      fhypot (px (hd (with_ego ego picked)) - px ego) (py (hd (with_ego ego picked)) - py ego) \<le> Fin (1 / 2)"
    using dbl_linear by (auto simp: with_ego_def kMaxPoints_def hd_take)
  ultimately show thesis
    using that result pre by blast
qed

lemma convert_ok:
  assumes "convert a b c x_max ego horizon dt = Some out"
  shows "3 \<le> length out \<and> length out \<le> 13 \<and>
    (\<forall>p \<in> set out. isfinite (pt_x p) \<and> isfinite (pt_y p) \<and> isfinite (pt_yaw p)
      \<and> isfinite (velocity_mps p) \<and> isfinite (time_from_start_s p) \<and> isfinite (pt_acceleration p)
      \<and> Fin 0 \<le> velocity_mps p)"
proof -
  obtain sel where sel: "schedulePoints sel horizon dt = Some out" "length sel \<le> kMaxPoints"
      "\<forall>p \<in> set sel. finite_pose p" "3 \<le> length out"
    using convert_SomeE [OF assms] by metis
  note D = schedulePoints_SomeD [OF sel(1)]
  have "finite_pose (sel ! i)" if "i < length sel" for i
    using sel(3) that by auto
  then have "isfinite (pt_x p) \<and> isfinite (pt_y p) \<and> isfinite (pt_yaw p)
      \<and> isfinite (velocity_mps p) \<and> isfinite (time_from_start_s p) \<and> isfinite (pt_acceleration p)
      \<and> Fin 0 \<le> velocity_mps p" if "p \<in> set out" for p
    using that D sampleSpatial_nonneg by (fastforce simp: in_set_conv_nth finite_pose_def sample_at_def)
  then show ?thesis
    using sel D(1) by (simp add: kMaxPoints_def)
qed

lemma convert_pairs:
  assumes "convert a b c x_max ego horizon dt = Some out"
  obtains ls where "length ls = length out" "arcs_ok ls" "\<forall>l \<in> set ls. is_double l"
    "\<And>i. i < length out \<Longrightarrow> velocity_mps (out ! i) = fst (sample_at (clipped horizon) dt (ls ! i))"
    "\<And>i. i < length out \<Longrightarrow> time_from_start_s (out ! i) = snd (sample_at (clipped horizon) dt (ls ! i))"
    "\<And>i. i < length out \<Longrightarrow> isfinite (snd (sample_at (clipped horizon) dt (ls ! i)))"
    "dt > 0" "2 \<le> length horizon"
proof -
  obtain sel where sel: "schedulePoints sel horizon dt = Some out" "sel \<noteq> []"
      "\<forall>p \<in> set sel. finite_pose p" "dt > 0" "2 \<le> length horizon"
    using convert_SomeE [OF assms] by metis
  note D = schedulePoints_SomeD [OF sel(1)]
  show thesis
    by (rule that [of "cumulativeArcLengths sel"])
      (use D sel in \<open>auto simp: cumulative_ok is_double_cumulative\<close>)
qed

lemma convert_time_mono:
  assumes "convert a b c x_max ego horizon dt = Some out" and "\<forall>x \<in> set horizon. is_double x"
    and "i \<le> j" and "j < length out"
  shows "time_from_start_s (out ! i) \<le> time_from_start_s (out ! j)"
proof -
  obtain ls where ls: "length ls = length out" "arcs_ok ls" "\<forall>l \<in> set ls. is_double l"
    "\<And>i. i < length out \<Longrightarrow> time_from_start_s (out ! i) = snd (sample_at (clipped horizon) dt (ls ! i))"
    "\<And>i. i < length out \<Longrightarrow> isfinite (snd (sample_at (clipped horizon) dt (ls ! i)))"
    "dt > 0" "2 \<le> length horizon"
    using convert_pairs [OF assms(1)] by metis
  show ?thesis
    using ls assms sorted_nth_le [OF ls(2) assms(3)] arcs_ok_nonneg [OF ls(2), of i]
    by (simp add: sample_at_time_mono)
qed

lemma convert_speed_le:
  assumes "convert a b c x_max ego horizon dt = Some out"
    and "\<forall>x \<in> set horizon. is_double x \<and> fmax 0 x \<le> Fin M" and "0 \<le> M" "M \<le> dbl_max"
    and "p \<in> set out"
  shows "velocity_mps p \<le> Fin M"
proof -
  obtain ls where ls: "length ls = length out" "arcs_ok ls" "\<forall>l \<in> set ls. is_double l"
    "\<And>i. i < length out \<Longrightarrow> velocity_mps (out ! i) = fst (sample_at (clipped horizon) dt (ls ! i))"
    "\<And>i. i < length out \<Longrightarrow> isfinite (snd (sample_at (clipped horizon) dt (ls ! i)))"
    "dt > 0" "2 \<le> length horizon"
    using convert_pairs [OF assms(1)] by metis
  obtain i where i: "i < length out" "p = out ! i"
    using assms(5) by (auto simp: in_set_conv_nth)
  show ?thesis
    using ls i assms(2-4) arcs_ok_nonneg [OF ls(2), of i] by (simp add: sample_at_le)
qed

lemma fmax_step: "dt > 0 \<Longrightarrow> fmax x dt > 0 \<or> fmax x dt = NaN"
  by (cases x; cases dt) (auto simp: fmax_def zero_dbl_def)

lemma fallback_zero:
  assumes "dt > 0" and "isfinite dt"
  shows "(Fin 0 - Fin 0) div fmax (dt * Fin (real n)) dt = Fin 0"
proof -
  obtain d where d: "dt = Fin d" "0 < d"
    using assms by (auto simp: isfinite_iff zero_dbl_def)
  have "0 \<le> d * real n" using d by simp
  then have "Fin 0 \<le> fl (d * real n)"
    by (simp add: in_range_nonneg)
  then show ?thesis
    using d by (cases "fl (d * real n)") (auto simp: fmax_def minus_dbl_def)
qed

lemma convert_stop:
  assumes conv: "convert a b c x_max ego horizon dt = Some out"
    and stop: "\<forall>x \<in> set horizon. is_double x \<and> fmax 0 x = Fin 0" and p: "p \<in> set out"
  shows "velocity_mps p = Fin 0 \<and> pt_acceleration p = Fin 0"
proof -
  have vel: "velocity_mps q = Fin 0" if "q \<in> set out" for q
  proof -
    have "velocity_mps q \<le> Fin 0"
      using stop that by (intro convert_speed_le [OF conv]) auto
    moreover have "Fin 0 \<le> velocity_mps q"
      using convert_ok [OF conv] that by blast
    ultimately show ?thesis
      by (cases "velocity_mps q") auto
  qed
  obtain sel where sel: "schedulePoints sel horizon dt = Some out" "sel \<noteq> []"
      "\<forall>p \<in> set sel. finite_pose p" "dt > 0" "2 \<le> length horizon"
    using convert_SomeE [OF conv] by metis
  note D = schedulePoints_SomeD [OF sel(1)]
  have zero: "\<forall>x \<in> set (clipped horizon). x = Fin 0" "clipped horizon \<noteq> []"
    using stop sel(5) by (auto simp: clipped_def)
  have "isfinite dt"
  proof -
    have "isfinite (snd (sample_at (clipped horizon) dt (cumulativeArcLengths sel ! 0)))"
      using D(3,4) [of 0] sel(2) by simp
    then obtain d where "dt = Fin d"
      using sample_at_finite [OF sel(5) _ sel(4)] stop sel(2,3)
        arcs_ok_nonneg [OF cumulative_ok [OF sel(2,3)], of 0] is_double_cumulative [of sel]
      by (metis cumulative_hd is_double.simps(1) abs_zero dbl_max_pos(2) less_eq_dbl_simps(1) order_refl)
    then show "isfinite dt" by simp
  qed
  have fallback: "(last (clipped horizon) - hd (clipped horizon))
      div fmax (dt * Fin (real (length horizon - 1))) dt = Fin 0"
  proof -
    have "last (clipped horizon) = Fin 0" "hd (clipped horizon) = Fin 0"
      using zero(1) last_in_set [OF zero(2)] hd_in_set [OF zero(2)] by blast+
    then show ?thesis
      using fallback_zero [OF sel(4) \<open>isfinite dt\<close>] by simp
  qed
  obtain i where i: "i < length out" "p = out ! i"
    using p by (auto simp: in_set_conv_nth)
  have "pt_acceleration p = Fin 0"
    using D(5) [of i] D(1) i vel unfolding fallback by (simp add: pointAccels_zero)
  then show ?thesis
    using vel p by simp
qed

lemma convert_first:
  assumes "convert a b c x_max ego horizon dt = Some out"
  shows "pt_x (hd out) = px ego \<and> pt_y (hd out) = py ego \<and> pt_yaw (hd out) = pyaw ego
    \<or> fhypot (pt_x (hd out) - px ego) (pt_y (hd out) - py ego) \<le> Fin (1 / 2)"
proof -
  obtain sel where sel: "schedulePoints sel horizon dt = Some out" "sel \<noteq> []"
    "hd sel = ego \<or> fhypot (px (hd sel) - px ego) (py (hd sel) - py ego) \<le> Fin (1 / 2)"
    using convert_SomeE [OF assms] by metis
  then have "out \<noteq> []"
    using schedulePoints_SomeD(1) [OF sel(1)] by auto
  then show ?thesis
    using schedulePoints_SomeD(2) [OF sel(1), of 0] sel by (auto simp: hd_conv_nth)
qed

lemma convert_sampling_terminates:
  assumes "x_max > 0"
  shows "sample_path path_fuel pose_at (fmin x_max (Fin kExtentCapM)) 0 [] \<noteq> None"
proof -
  have "fmin x_max (Fin kExtentCapM) \<le> Fin 25"
    using assms by (cases x_max) (auto simp: fmin_def kExtentCapM_def zero_dbl_def)
  then show ?thesis
    using sample_path_fuel [of "fmin x_max (Fin kExtentCapM)" path_fuel 0]
    by (simp add: path_fuel_def zero_dbl_def)
qed

end
