(* ===== verification/Controller_Properties.thy ===== *)
theory Controller_Properties
  imports Controller_Facts Vp_Convert
begin

text \<open>
  The properties of the controller node: one supervised output per tick, the envelope of a
  normal output, the per-source watchdogs, the persistence of the fault latch, the stop
  payload, and what the accepted trajectories and commands look like.
\<close>

section \<open>Lemmas on runs\<close>

lemma decision_octet_inject [simp]: "decision_octet d = decision_octet d' \<longleftrightarrow> d = d'"
  by (cases d; cases d') simp_all

lemma decision_octet_cases:
  "decision_octet d = 0 \<longleftrightarrow> d = NORMAL" "decision_octet d = 1 \<longleftrightarrow> d = SI_STOP" "decision_octet d = 2 \<longleftrightarrow> d = HOLD"
  by (cases d; simp)+

text \<open>Stop decisions and the latch.\<close>

lemma tick_case_latched:
  assumes "tick_case cfg e st dec src ctl sta"
  shows "latched (supervision sta) = (dec = SI_STOP)"
  using assms by (cases rule: tick_case.cases) (auto simp: tick_reenable_latched)

lemma tick_case_same:
  assumes "tick_case cfg e st dec src ctl sta"
  shows "same_inputs sta st"
  using assms by (cases rule: tick_case.cases) (auto simp: same_inputs_go)

lemma request_of_simps [simp]:
  "apr_decision (request_of cfg clk dec src ctl st) = decision_octet dec"
  "output_sequence (request_of cfg clk dec src ctl st) = out_seq st + 1"
  "apr_session (request_of cfg clk dec src ctl st) = si_session cfg"
  "control (request_of cfg clk dec src ctl st) = ctl"
  "apr_mode (request_of cfg clk dec src ctl st) = mode_octet (node_mode cfg)"
  "source_session (request_of cfg clk dec src ctl st) = accepted_source_session st"
  "source_cycle (request_of cfg clk dec src ctl st) = accepted_source_cycle st"
  "apr_fault_id (request_of cfg clk dec src ctl st) =
     (if latched (supervision st) then fault_id (supervision st) else 0)"
  by (simp_all add: request_of_def)

section \<open>One output per tick\<close>

lemma tick_one:
  "case callbackTimerControl cfg fol e st of (st', outs) \<Rightarrow>
     \<exists>r dec. approved_in outs = [r] \<and> apr_decision r = decision_octet dec
       \<and> apr_session r = si_session cfg \<and> apr_mode r = mode_octet (node_mode cfg)
       \<and> output_sequence r = out_seq st + 1 \<and> out_seq st' = out_seq st + 1
       \<and> latched (supervision st') = (dec = SI_STOP)
       \<and> apr_fault_id r = (if dec = SI_STOP then fault_id (supervision st') else 0)"
proof (cases "callbackTimerControl cfg fol e st")
  case (Pair st' outs)
  from Pair show ?thesis
  proof (rule tickE)
    fix dec src ctl sta clk c
    assume tick: "tick_case cfg e st dec src ctl sta"
      and outs: "approved_in outs = [request_of cfg clk dec src ctl sta]"
      and st': "st' = published dec ctl c sta"
    have "out_seq sta = out_seq st"
      using tick_case_same [OF tick] by (simp add: same_inputs_def)
    then have "approved_in outs = [request_of cfg clk dec src ctl sta]
       \<and> apr_decision (request_of cfg clk dec src ctl sta) = decision_octet dec
       \<and> apr_session (request_of cfg clk dec src ctl sta) = si_session cfg
       \<and> apr_mode (request_of cfg clk dec src ctl sta) = mode_octet (node_mode cfg)
       \<and> output_sequence (request_of cfg clk dec src ctl sta) = out_seq st + 1
       \<and> out_seq st' = out_seq st + 1
       \<and> latched (supervision st') = (dec = SI_STOP)
       \<and> apr_fault_id (request_of cfg clk dec src ctl sta) = (if dec = SI_STOP then fault_id (supervision st') else 0)"
      using outs st' tick_case_latched [OF tick] by simp
    then show ?thesis
      unfolding Pair prod.case by blast
  qed
qed


section \<open>What a normal output may contain\<close>

text \<open>C1. In SI_CONTROL a NORMAL request lies in the actuation envelope, for every follower:
  also one that returns a NaN, an infinity or an arbitrary command. With finite limits the
  approved steering, speed and acceleration are finite.\<close>

theorem normal_inside_envelope:
  assumes "callbackTimerControl cfg fol e st = (st', outs)" and "node_mode cfg = SI_CONTROL"
    and "Approved r \<in> set outs" and "apr_decision r = decision_octet NORMAL"
  shows "\<bar>steering_tire_angle (lateral (control r))\<bar> \<le> follower_max_steer_rad cfg + Fin (1 / 1000)
    \<and> \<bar>velocity (longitudinal (control r))\<bar> \<le> cfg_max_abs_velocity_mps cfg
    \<and> \<bar>acceleration (longitudinal (control r))\<bar> \<le> cfg_max_abs_accel_mps2 cfg"
  using assms(1)
proof (rule tickE)
  fix dec src ctl sta clk c
  assume tick: "tick_case cfg e st dec src ctl sta"
    and outs: "approved_in outs = [request_of cfg clk dec src ctl sta]"
  have "r = request_of cfg clk dec src ctl sta" "dec = NORMAL"
    using assms(3,4) outs by (auto simp: Approved_in_set decision_octet_cases)
  with tick assms(2) show ?thesis
    by (cases rule: tick_case.cases) (auto simp: envelopeViolation_None_iff follower_limits_def)
qed

text \<open>C2. A NORMAL or HOLD request is published only at a tick where no supervised source is
  stale: odometry, acceleration, steering, operation mode, the VisionPilot heartbeat and the
  selected candidate, each under its own timeout. So any stale source makes this very tick an
  SI_STOP, a pending re-enable request notwithstanding.\<close>

theorem no_output_on_stale_source:
  assumes "callbackTimerControl cfg fol e st = (st', outs)"
    and "Approved r \<in> set outs" and "apr_decision r \<noteq> decision_octet SI_STOP"
    and "(w, timeout) \<in> set (sources cfg st)"
  shows "\<not> stale w (Clock_now (tick_clock e)) timeout"
  using assms(1)
proof (rule tickE)
  fix dec src ctl sta clk c
  assume tick: "tick_case cfg e st dec src ctl sta"
    and outs: "approved_in outs = [request_of cfg clk dec src ctl sta]"
  have "dec \<noteq> SI_STOP"
    using assms(2,3) outs by (auto simp: Approved_in_set)
  with tick have "\<not> fst (tick_reenable cfg e (tick_watch cfg e st))"
    by (cases rule: tick_case.cases) auto
  then show ?thesis
    using go_fresh assms(4) by blast
qed

section \<open>The latch only opens by an operator\<close>

lemma callbacks_keep_latch:
  assumes "node_handle cfg ev st = (st', outs)" and "latched (supervision st)"
    and "\<forall>fol e. ev \<noteq> Tick fol e"
  shows "latched (supervision st') \<and> outs = [] \<and> node_stop_ramp st' = node_stop_ramp st
    \<and> fault_id (supervision st') = fault_id (supervision st)
    \<and> (pending (reenable st') \<longrightarrow> pending (reenable st) \<or> (\<exists>clk. ev = Reenable clk True))"
proof (cases ev)
  case (Driving_Reference clk steady m)
  then show ?thesis
    using assms
    by (auto simp: callbackDrivingReference_def ignore_reference_def Let_def dest!: latchFault_pending
        split: if_splits option.splits candidate_check.splits)
next
  case (Driving_Command now clk steady m)
  then show ?thesis
    using assms
    by (auto simp: callbackDrivingCommand_def Let_def dest!: latchFault_pending
        split: if_splits candidate_check.splits)
next
  case (Trajectory clk steady m)
  then show ?thesis
    using assms
    by (auto simp: callbackTrajectory_def Let_def dest!: latchFault_pending
        split: if_splits option.splits candidate_check.splits)
qed (use assms in \<open>auto simp: callbackSteeringStatus_def callbackOperationModeState_def
  callbackOdometry_def callbackAcceleration_def callbackReenable_def callbackHeartbeat_def Let_def
  split: if_splits\<close>)

lemma tick_keeps_latch:
  assumes "callbackTimerControl cfg fol e st = (st', outs)" and "latched (supervision st)"
    and "\<not> pending (reenable st)"
  shows "latched (supervision st') \<and> \<not> pending (reenable st') \<and> node_stop_ramp st' = node_stop_ramp st
    \<and> fault_id (supervision st') = fault_id (supervision st)
    \<and> (\<forall>r \<in> set (approved_in outs). apr_decision r = decision_octet SI_STOP)"
  using assms(1)
proof (rule tickE)
  fix dec src ctl sta clk c
  assume tick: "tick_case cfg e st dec src ctl sta" and st': "st' = published dec ctl c sta"
    and outs: "approved_in outs = [request_of cfg clk dec src ctl sta]"
  let ?w = "tick_watch cfg e st"
  have w: "latched (supervision ?w)" "\<not> pending (reenable ?w)"
    using assms(2,3) tick_watch_latched tick_watch_pending by blast+
  then have stop: "fst (tick_reenable cfg e ?w)"
    by (simp add: tick_reenable_go release_ok_def)
  then have sta: "dec = SI_STOP" "sta = snd (tick_reenable cfg e ?w)"
    using tick by (auto elim: tick_case.cases)
  obtain sup r where "sta = ?w\<lparr>supervision := sup, reenable := r\<rparr>"
    "fault_id sup = fault_id (supervision ?w)" "pending r \<longrightarrow> pending (reenable ?w)"
    using tick_reenable_frame unfolding sta by blast
  then show ?thesis
    using w stop sta st' outs tick_watch_when_latched [OF assms(2), of cfg e] tick_case_latched [OF tick]
    by (auto simp: decision_octet_cases)
qed

lemma latched_run:
  assumes "node_run cfg st tr st'" and "latched (supervision st)" and "\<not> pending (reenable st)"
    and "\<forall>clk outs. (Reenable clk True, outs) \<notin> set tr"
  shows "latched (supervision st') \<and> \<not> pending (reenable st') \<and> node_stop_ramp st' = node_stop_ramp st
    \<and> fault_id (supervision st') = fault_id (supervision st)
    \<and> (\<forall>(ev, outs) \<in> set tr. \<forall>r \<in> set (approved_in outs). apr_decision r = decision_octet SI_STOP)"
  using assms
proof (induction rule: node_run.induct)
  case (run_snoc st tr st' evo st'')
  obtain ev outs where evo: "evo = (ev, outs)"
    by (cases evo)
  have IH: "latched (supervision st')" "\<not> pending (reenable st')" "node_stop_ramp st' = node_stop_ramp st"
    "fault_id (supervision st') = fault_id (supervision st)"
    "\<forall>(ev, outs) \<in> set tr. \<forall>r \<in> set (approved_in outs). apr_decision r = decision_octet SI_STOP"
    using run_snoc by auto
  have handle: "node_handle cfg ev st' = (st'', outs)"
    using run_snoc.hyps(2) by (simp add: evo node_step_iff)
  have no_press: "ev \<noteq> Reenable clk True" for clk
    using run_snoc.prems(3) evo by auto
  show ?case
  proof (cases "\<exists>fol e. ev = Tick fol e")
    case True
    then show ?thesis
      using tick_keeps_latch [OF _ IH(1,2)] handle IH by (fastforce simp: evo)
  next
    case False
    then have "\<forall>fol e. ev \<noteq> Tick fol e"
      by blast
    from callbacks_keep_latch [OF handle IH(1) this] show ?thesis
      using no_press IH by (auto simp: evo)
  qed
qed simp

text \<open>C3. A latched fault stays latched: in every run that holds no re-enable press, whatever
  the sources and the follower do, the node stays in the same fault and every request it
  publishes is SI_STOP. Fresh sources alone never resume driving.\<close>

theorem latch_persists_without_press:
  assumes "node_run cfg st tr st'" and "latched (supervision st)" and "\<not> pending (reenable st)"
    and "\<forall>clk outs. (Reenable clk True, outs) \<notin> set tr"
  shows "latched (supervision st') \<and> fault_id (supervision st') = fault_id (supervision st)
    \<and> (\<forall>(ev, outs) \<in> set tr. \<forall>r \<in> set (approved_in outs). apr_decision r = decision_octet SI_STOP)"
  using latched_run [OF assms] by simp


section \<open>The stop payload\<close>

definition held_steering :: "('lat, 'lon) node_state \<Rightarrow> dbl" where
  "held_steering st =
     (if has_approved st then steering_tire_angle (lateral (last_approved st))
      else if has_steering st then report_steering_tire_angle (current_steering st)
      else Fin 0)"

lemma stoppedPayload_fields:
  "steering_tire_angle (lateral (stoppedPayload cfg now steady st)) = held_steering st"
  "acceleration (longitudinal (stoppedPayload cfg now steady st)) = - stop_decel_mps2 cfg"
  "is_defined_acceleration (longitudinal (stoppedPayload cfg now steady st))"
  "velocity (longitudinal (stoppedPayload cfg now steady st)) =
     (if latched (supervision st)
      then to_float (ramp_velocity (node_stop_ramp st) (stop_decel_mps2 cfg) (cfg_max_abs_velocity_mps cfg) steady)
      else Fin 0)"
  by (simp_all add: stoppedPayload_def StopControl_def held_steering_def Let_def zero_control_def
      zero_lateral_def zero_dbl_def)

lemma to_float_nonneg: "Fin 0 \<le> x \<Longrightarrow> Fin 0 \<le> to_float x"
  by (cases x) (auto intro: in_range_nonneg)

lemma tick_case_stop:
  assumes "tick_case cfg e st dec src ctl sta" and "dec \<noteq> NORMAL"
  shows "\<exists>now steady. ctl = stoppedPayload cfg now steady sta"
  using assms by (cases rule: tick_case.cases) auto

lemma held_steering_same: "same_inputs sta st \<Longrightarrow> held_steering sta = held_steering st"
  by (simp add: held_steering_def same_inputs_def)

text \<open>C32. An SI_STOP or HOLD request always asks for the configured deceleration, never for a
  negative speed, and for speed 0 unless the stop ramp of a latched fault is running. Its
  steering is the last approved one, before any approval the vehicle's own steering report: a
  stop never resets the steering to a new value.\<close>

theorem stop_payload:
  assumes "callbackTimerControl cfg fol e st = (st', outs)"
    and "Approved r \<in> set outs" and "apr_decision r \<noteq> decision_octet NORMAL"
  shows "acceleration (longitudinal (control r)) = - stop_decel_mps2 cfg
    \<and> is_defined_acceleration (longitudinal (control r))
    \<and> steering_tire_angle (lateral (control r)) = held_steering st
    \<and> Fin 0 \<le> velocity (longitudinal (control r))
    \<and> (apr_decision r = decision_octet HOLD \<longrightarrow> velocity (longitudinal (control r)) = Fin 0)"
  using assms(1)
proof (rule tickE)
  fix dec src ctl sta clk c
  assume tick: "tick_case cfg e st dec src ctl sta"
    and outs: "approved_in outs = [request_of cfg clk dec src ctl sta]"
  have r: "r = request_of cfg clk dec src ctl sta" and dec: "dec \<noteq> NORMAL"
    using assms(2,3) outs by (auto simp: Approved_in_set)
  obtain now steady where "ctl = stoppedPayload cfg now steady sta"
    using tick_case_stop [OF tick dec] by blast
  moreover have "Fin 0 \<le> to_float (ramp_velocity rp d m x)" for rp d m x
    unfolding ramp_velocity_def by (intro to_float_nonneg stopRampVelocity_nonneg)
  ultimately show ?thesis
    using tick_case_latched [OF tick] held_steering_same [OF tick_case_same [OF tick]]
    by (simp add: r stoppedPayload_fields)
qed

text \<open>C33. During a stop the commanded speed only falls: in a run without a re-enable press from
  a latched state, the speed of the stop payload at a later monotonic time is at most the speed
  at an earlier one, whatever arrives in between; the ramp is never restarted.\<close>

theorem stop_speed_never_rises:
  assumes "node_run cfg st tr st'" and "latched (supervision st)" and "\<not> pending (reenable st)"
    and "\<forall>clk outs. (Reenable clk True, outs) \<notin> set tr"
    and "isfinite (v0_mps (node_stop_ramp st))" "Fin 0 \<le> stop_decel_mps2 cfg" "isfinite (stop_decel_mps2 cfg)"
    and "started_at (node_stop_ramp st) \<le> t1" "t1 \<le> t2" "t2 \<le> started_at (node_stop_ramp st) + 2 ^ 62"
  shows "velocity (longitudinal (stoppedPayload cfg now2 t2 st'))
       \<le> velocity (longitudinal (stoppedPayload cfg now1 t1 st))"
proof -
  have same: "node_stop_ramp st' = node_stop_ramp st" "latched (supervision st')"
    using latched_run [OF assms(1-4)] by auto
  define s where "s = started_at (node_stop_ramp st)"
  have "isfinite (seconds_of_ns (t1 - s))" "isfinite (seconds_of_ns (t2 - s))"
    using assms(8-10) by (simp_all add: s_def seconds_of_ns_Fin)
  then have "stopRampVelocity (v0_mps (node_stop_ramp st)) (stop_decel_mps2 cfg) (seconds_of_ns (t2 - s)) m
      \<le> stopRampVelocity (v0_mps (node_stop_ramp st)) (stop_decel_mps2 cfg) (seconds_of_ns (t1 - s)) m" for m
    using assms(5-9) by (intro stopRampVelocity_antimono seconds_of_ns_mono) auto
  then have "ramp_velocity (node_stop_ramp st) (stop_decel_mps2 cfg) m t2
      \<le> ramp_velocity (node_stop_ramp st) (stop_decel_mps2 cfg) m t1" for m
    by (simp add: ramp_velocity_def s_def)
  then show ?thesis
    using same assms(2) by (simp add: stoppedPayload_fields to_float_mono)
qed

section \<open>VP_CONTROL\<close>

lemma vp_command_accepted:
  assumes "callbackTimerControl cfg fol e st = (st', outs)" and "node_mode cfg = VP_CONTROL"
    and "Approved r \<in> set outs" and "apr_decision r = decision_octet NORMAL"
  shows "control r = vpToControl (vp_clock e) (current_vp_cmd st) \<and> has_vp_cmd st \<and> feedbackSeen st
    \<and> source_session r = cmd_session (current_vp_cmd st) \<and> source_cycle r = cmd_cycle (current_vp_cmd st)"
  using assms(1)
proof (rule tickE)
  fix dec src ctl sta clk c
  assume tick: "tick_case cfg e st dec src ctl sta"
    and outs: "approved_in outs = [request_of cfg clk dec src ctl sta]"
  have "r = request_of cfg clk dec src ctl sta" "dec = NORMAL"
    using assms(3,4) outs by (auto simp: Approved_in_set decision_octet_cases)
  with tick assms(2) show ?thesis
    by (cases rule: tick_case.cases) auto
qed

text \<open>Supervise and pass: in VP_CONTROL a NORMAL request is exactly the last accepted
  VisionPilot command, with its session and cycle, and is published only after odometry,
  acceleration, steering and operation mode have each been seen.\<close>

theorem vp_command_passed_unchanged:
  assumes "callbackTimerControl cfg fol e st = (st', outs)" and "node_mode cfg = VP_CONTROL"
    and "Approved r \<in> set outs" and "apr_decision r = decision_octet NORMAL"
  shows "control r = vpToControl (vp_clock e) (current_vp_cmd st) \<and> has_vp_cmd st \<and> feedbackSeen st
    \<and> source_session r = cmd_session (current_vp_cmd st) \<and> source_cycle r = cmd_cycle (current_vp_cmd st)"
  by (rule vp_command_accepted [OF assms])

section \<open>The legacy surface\<close>

text \<open>What the tick writes to the legacy control topic is the payload of its
  ApprovedRequest, restamped, and under the STOP_ONLY policy only a stop is written there at
  all.\<close>

theorem legacy_output_is_approved:
  assumes "callbackTimerControl cfg fol e st = (st', outs)" and "Legacy_Control m \<in> set outs"
  shows "\<exists>r. Approved r \<in> set outs \<and> longitudinal m = longitudinal (control r)
    \<and> lateral m = (lateral (control r))\<lparr>lat_stamp := apr_stamp r\<rparr> \<and> ctl_stamp m = apr_stamp r
    \<and> (legacy_control_cmd (startup cfg) = STOP_ONLY \<longrightarrow> apr_decision r = decision_octet SI_STOP)"
  using assms(1)
proof (rule tickE)
  fix dec src ctl sta clk c
  assume outs: "approved_in outs = [request_of cfg clk dec src ctl sta]"
    and legacy: "legacy_in outs =
     (if (legacy_control_cmd (startup cfg) = ALWAYS \<or> dec = SI_STOP) \<and> output_mode_uses_dds (node_output_mode cfg)
      then [ctl\<lparr>ctl_stamp := toRosTime (Clock_now clk),
                lateral := (lateral ctl)\<lparr>lat_stamp := toRosTime (Clock_now clk)\<rparr>\<rparr>] else [])"
  have "m \<in> set (legacy_in outs)"
    using assms(2) by (induction outs rule: legacy_in.induct) auto
  then show ?thesis
    using outs legacy
    by (intro exI [of _ "request_of cfg clk dec src ctl sta"])
      (auto simp: Approved_in_set request_of_def split: if_splits)
qed

section \<open>Invariants of every run\<close>

lemma node_run_event:
  "node_run cfg st tr st' \<Longrightarrow> (ev, outs) \<in> set tr \<Longrightarrow>
     \<exists>tr1 s1 s2. node_run cfg st tr1 s1 \<and> node_step cfg s1 (ev, outs) s2"
  by (induction rule: node_run.induct) auto

text \<open>A contract for invariants: what every handler keeps holds in every state of a run.\<close>

locale run_invariant =
  fixes cfg :: node_config
    and inv :: "('lat, 'lon) node_state \<Rightarrow> bool"
  assumes keeps: "inv st \<Longrightarrow> node_mode cfg = VP_CONTROL \<or> (\<forall>n c s m. ev \<noteq> Driving_Command n c s m) \<Longrightarrow>
    node_handle cfg ev st = (st', outs) \<Longrightarrow> inv st'"
begin

lemma holds_step: "node_step cfg st evo st' \<Longrightarrow> inv st \<Longrightarrow> inv st'"
  by (cases evo) (auto simp: node_step_iff intro: keeps)

lemma holds_run: "node_run cfg st tr st' \<Longrightarrow> inv st \<Longrightarrow> inv st'"
  by (induction rule: node_run.induct) (auto intro: holds_step)

lemma holds_before_event:
  "node_run cfg st tr st' \<Longrightarrow> inv st \<Longrightarrow> (ev, outs) \<in> set tr \<Longrightarrow>
     \<exists>s1 s2. inv s1 \<and> node_handle cfg ev s1 = (s2, outs)"
  by (drule node_run_event, assumption) (auto simp: node_step_iff dest: holds_run)

end

lemma tick_frame:
  assumes "callbackTimerControl cfg fol e st = (st', outs)"
  shows "has_vp_cmd st' = has_vp_cmd st" "current_vp_cmd st' = current_vp_cmd st"
    "has_trajectory st' = has_trajectory st" "current_trajectory st' = current_trajectory st"
  by (rule tickE [OF assms]; drule tick_case_same; simp add: same_inputs_def)+

text \<open>The trajectory the follower gets.\<close>

definition runnable_trajectory :: "node_config \<Rightarrow> trajectory \<Rightarrow> bool" where
  "runnable_trajectory cfg t \<longleftrightarrow>
     kMinFollowerPoints \<le> length (points t) \<and> length (points t) \<le> 250
     \<and> (trajectory_source (startup cfg) = AUTOWARE \<longrightarrow> (\<forall>p \<in> set (points t). finite_point p))
     \<and> (trajectory_source (startup cfg) = VP \<longrightarrow> length (points t) \<le> kMaxPoints
         \<and> (\<forall>p \<in> set (points t). isfinite (vx (position (tp_pose p))) \<and> isfinite (vy (position (tp_pose p)))
             \<and> Fin 0 \<le> longitudinal_velocity_mps p))"

definition trajectory_inv :: "node_config \<Rightarrow> ('lat, 'lon) node_state \<Rightarrow> bool" where
  "trajectory_inv cfg st \<longleftrightarrow> (has_trajectory st \<longrightarrow> runnable_trajectory cfg (current_trajectory st))"

lemma reference_runnable:
  assumes "convert a b c x_max ego horizon dt = Some pts" and "trajectory_source (startup cfg) = VP"
  shows "runnable_trajectory cfg \<lparr>traj_stamp = t, points = map reference_point pts\<rparr>"
  using convert_ok [OF assms(1)] assms(2)
  by (auto simp: runnable_trajectory_def kMinFollowerPoints_def kMaxPoints_def reference_point_def
      zero_point_def zero_vector3_def to_float_nonneg)

lemma trajectory_inv_reference:
  "trajectory_inv cfg st \<Longrightarrow> trajectory_inv cfg (callbackDrivingReference cfg clk steady m st)"
  by (auto simp: callbackDrivingReference_def trajectory_inv_def ignore_reference_def Let_def
      reference_runnable split: option.split candidate_check.split)

lemma trajectory_inv_autoware:
  "trajectory_inv cfg st \<Longrightarrow> trajectory_inv cfg (callbackTrajectory cfg clk steady m st)"
  by (auto simp: callbackTrajectory_def trajectory_inv_def runnable_trajectory_def Let_def not_less
      split: option.split candidate_check.split)

interpretation trajectory: run_invariant cfg "trajectory_inv cfg" for cfg
proof
  fix st st' :: "('a, 'b) node_state" and ev outs
  assume inv: "trajectory_inv cfg st" and handle: "node_handle cfg ev st = (st', outs)"
  show "trajectory_inv cfg st'"
  proof (cases ev)
    case (Tick fol e)
    then show ?thesis
      using inv handle by (auto simp: trajectory_inv_def dest: tick_frame)
  qed (use inv handle in \<open>auto simp: trajectory_inv_reference trajectory_inv_autoware,
      auto simp: trajectory_inv_def callbackSteeringStatus_def callbackOperationModeState_def
        callbackOdometry_def callbackAcceleration_def callbackReenable_def callbackHeartbeat_def
        callbackDrivingCommand_def Let_def split: if_splits candidate_check.splits\<close>)
qed








text \<open>C35. Whatever samples arrive, the trajectory the follower is given has between 3 and 250
  points (at most 13 when it was built from a VisionPilot reference). From Autoware every field
  the follower reads is finite; from VisionPilot the positions are finite and the speeds are
  not negative.\<close>

theorem accepted_trajectory_is_runnable:
  assumes "node_run cfg (initial_state lat lon can) tr st" and "createInputData st = Some input"
  shows "runnable_trajectory cfg (in_trajectory input)"
proof -
  have "trajectory_inv cfg (initial_state lat lon can)"
    by (simp add: trajectory_inv_def initial_state_def)
  then have "trajectory_inv cfg st"
    using trajectory.holds_run [OF assms(1)] by simp
  then show ?thesis
    using assms(2) by (auto simp: createInputData_def processData_def trajectory_inv_def split: if_splits)
qed

lemma to_float_in_bounds:
  "\<bar>x\<bar> \<le> Fin m \<Longrightarrow> m \<le> flt_max \<Longrightarrow> \<bar>to_float x\<bar> \<le> Fin m"
  by (rule to_float_abs_le)



section \<open>Output numbering\<close>

definition ticks :: "(('lat, 'lon) node_event \<times> node_output list) list \<Rightarrow> nat" where
  "ticks tr = length (filter (\<lambda>(ev, outs). \<exists>fol e. ev = Tick fol e) tr)"

definition requests :: "(('lat, 'lon) node_event \<times> node_output list) list \<Rightarrow> approved_request list" where
  "requests tr = concat (map (\<lambda>(ev, outs). approved_in outs) tr)"

lemma callbacks_quiet:
  assumes "node_handle cfg ev st = (st', outs)" and "\<forall>fol e. ev \<noteq> Tick fol e"
  shows "outs = [] \<and> out_seq st' = out_seq st"
  using assms
  by (cases ev) (auto simp: callbackSteeringStatus_def callbackOperationModeState_def
      callbackOdometry_def callbackAcceleration_def callbackReenable_def callbackHeartbeat_def
      callbackTrajectory_def callbackDrivingReference_def callbackDrivingCommand_def
      ignore_reference_def Let_def split: option.split candidate_check.split)

text \<open>Over every run, the published requests are numbered without a gap and without a
  repetition (until the 64-bit counter wraps): the k-th tick publishes number k after the
  starting one, and every request carries the session of the process.\<close>

theorem requests_are_numbered:
  assumes "node_run cfg st tr st'"
  shows "map output_sequence (requests tr) = map (\<lambda>k. out_seq st + of_nat (Suc k)) [0..<ticks tr]
    \<and> (\<forall>r \<in> set (requests tr). apr_session r = si_session cfg)
    \<and> out_seq st' = out_seq st + of_nat (ticks tr)"
  using assms
proof (induction rule: node_run.induct)
  case (run_snoc st tr st' evo st'')
  obtain ev outs where evo: "evo = (ev, outs)"
    by (cases evo)
  have handle: "node_handle cfg ev st' = (st'', outs)"
    using run_snoc.hyps(2) by (simp add: evo node_step_iff)
  show ?case
  proof (cases "\<exists>fol e. ev = Tick fol e")
    case True
    then obtain fol e where ev: "ev = Tick fol e" by blast
    then obtain r where "approved_in outs = [r]" "apr_session r = si_session cfg"
        "output_sequence r = out_seq st' + 1" "out_seq st'' = out_seq st' + 1"
      using tick_one [where cfg = cfg and fol = fol and e = e and st = st'] handle by auto
    then show ?thesis
      using run_snoc.IH by (simp add: evo ev requests_def ticks_def)
  next
    case False
    then have "outs = [] \<and> out_seq st'' = out_seq st'"
      using callbacks_quiet [OF handle] by blast
    then show ?thesis
      using run_snoc.IH False by (simp add: evo requests_def ticks_def)
  qed
qed (simp add: requests_def ticks_def)

section \<open>The platform's fault input\<close>


end
