(* ===== verification/Controller_Sample.thy ===== *)
theory Controller_Sample
  imports Controller_Properties
begin

text \<open>
  Sample configurations, states and clock readings of the node, on which the properties of the
  node are applied: each with a follower that returns a plain command, all clocks at one second
  and the timeouts of the code's defaults.
\<close>

definition sample_startup :: "config_mode \<Rightarrow> startup_config" where
  "sample_startup m =
     \<lparr>cfg_mode = m, trajectory_source = (if m = VP_CONTROL_MODE then VP else AUTOWARE), build_default = False,
      legacy_control_cmd = STOP_ONLY, operation_mode_durability = TRANSIENT_LOCAL\<rparr>"

definition sample_cfg :: "config_mode \<Rightarrow> node_config" where
  "sample_cfg m =
     \<lparr>startup = sample_startup m,
      node_mode = (if m = VP_CONTROL_MODE then VP_CONTROL else SI_CONTROL),
      timeout_thr_sec = Fin (1 / 2), source_timeout_candidate = Fin 1, source_timeout_ego = Fin (4 / 10),
      source_timeout_steering = Fin (1 / 2), source_timeout_opmode = PInf,
      source_timeout_heartbeat = Fin (1 / 2), cfg_max_steering_rad = Fin (6 / 10),
      cfg_max_abs_accel_mps2 = Fin 6, cfg_max_abs_velocity_mps = Fin 60,
      follower_max_steer_rad = Fin (7 / 10), stop_decel_mps2 = Fin (3 / 2),
      reenable_window_s = Fin 5, node_output_mode = DDS_ONLY, si_session = 7, platform_x5h = True\<rparr>"

definition sample_follower :: "(unit, unit) follower" where
  "sample_follower =
     \<lparr>lat_isReady = \<lambda>_ s. (True, s),
      lat_run = \<lambda>_ s. (\<lparr>lat_control_cmd = zero_lateral\<lparr>steering_tire_angle := Fin (1 / 10)\<rparr>,
        lat_horizon_step_ms = 0, lat_horizon = [], lat_sync_data = \<lparr>is_steer_converged = True\<rparr>\<rparr>, s),
      lat_sync = \<lambda>s. s,
      lon_isReady = \<lambda>_ s. (True, s),
      lon_run = \<lambda>_ s. (\<lparr>lon_control_cmd = zero_longitudinal\<lparr>velocity := Fin 5, acceleration := Fin 1\<rparr>,
        lon_horizon_step_ms = 0, lon_horizon = []\<rparr>, s),
      lon_sync = \<lambda>_ s. s\<rparr>"

definition second :: int where "second = 1000000000"

definition sample_pub :: publish_env where
  "sample_pub = \<lparr>pub_clock = second, pub_steady = second, pub_now = second,
     pub_can = \<lparr>can_init_ok = True, can_fd_active = False, can_send_fd_ok = True, can_send_batch_ok = True\<rparr>\<rparr>"

definition sample_tick :: "u32 \<Rightarrow> tick_env" where
  "sample_tick events =
     \<lparr>tick_clock = second, latch_clock = second, latch_steady = second, si_events = events,
      si_latch_clock = second, si_latch_steady = second, si_level = False, stop_pub = sample_pub,
      hold_pub = sample_pub, vp_clock = second, vp_pub = sample_pub, lat_time_clock = second,
      lat_time_ms = Fin 1, lon_time_clock = second, lon_time_ms = Fin 1,
      follower_env = \<lparr>fol_clock = second, fol_pub = sample_pub, rej_clock = second,
        rej_steady = second, rej_now = second, rej_pub = sample_pub\<rparr>\<rparr>"

definition boot_state :: "(unit, unit) node_state" where
  "boot_state = initial_state () () None"

definition ready_state :: "(unit, unit) node_state" where
  "ready_state = boot_state\<lparr>has_trajectory := True, has_odometry := True, has_steering := True,
     has_accel := True, has_operation_mode := True\<rparr>"

lemmas sample_defs = sample_startup_def sample_cfg_def sample_follower_def second_def sample_pub_def
  sample_tick_def boot_state_def ready_state_def initial_state_def init_watch_def init_supervision_def
  init_reenable_def init_ramp_def

lemmas tick_defs = callbackTimerControl_def tick_watch_def tick_reenable_def tick_si_def tick_vp_def
  supervisorStaleReason_def feedback_checks_def stale_def ever_def createInputData_def processData_def
  publishControlCommand_def publishApprovedRequest_def publishHold_def publishSiStop_def
  publishProcessingTime_def publish_can_def envelopeViolation_def follower_limits_def
  output_mode_uses_can_def output_mode_uses_dds_def mode_source_def

lemma sample_normal:
  "map apr_decision (approved_in (snd (callbackTimerControl (sample_cfg SI_CONTROL_MODE) sample_follower
     (sample_tick 0) ready_state))) = [0]"
  by (simp add: tick_defs sample_defs zero_lateral_def zero_longitudinal_def zero_control_def Let_def)

lemma sample_clock [simp]: "Clock_now 1000000000 = Fin 1"
  by (simp add: Clock_now_def seconds_of_ns_def nano_per_sec_def)

section \<open>Runs of a list of events\<close>

fun run_trace ::
  "node_config \<Rightarrow> ('lat, 'lon) node_event list \<Rightarrow> ('lat, 'lon) node_state
     \<Rightarrow> (('lat, 'lon) node_event \<times> node_output list) list \<times> ('lat, 'lon) node_state" where
  "run_trace cfg [] st = ([], st)"
| "run_trace cfg (ev # evs) st =
     (let (st', outs) = node_handle cfg ev st; (tr, st'') = run_trace cfg evs st' in ((ev, outs) # tr, st''))"

lemma node_run_trans: "node_run cfg s2 tr2 s3 \<Longrightarrow> node_run cfg s1 tr1 s2 \<Longrightarrow> node_run cfg s1 (tr1 @ tr2) s3"
proof (induction rule: node_run.induct)
  case (run_snoc st tr st' ev st'')
  then show ?case
    using node_run.run_snoc by (metis append_assoc)
qed simp

lemma run_trace_run:
  assumes "node_mode cfg = VP_CONTROL \<or> (\<forall>n c s m. Driving_Command n c s m \<notin> set evs)"
    and "run_trace cfg evs st = (tr, st')"
  shows "node_run cfg st tr st'"
  using assms
proof (induction evs arbitrary: st tr)
  case (Cons ev evs)
  obtain s outs where handle: "node_handle cfg ev st = (s, outs)"
    by (cases "node_handle cfg ev st")
  obtain tr' where rest: "run_trace cfg evs s = (tr', st')" and tr: "tr = (ev, outs) # tr'"
    using Cons.prems(2) handle by (auto simp: Let_def split: prod.splits)
  have "node_step cfg st (ev, outs) s"
    using Cons.prems(1) handle by (auto simp: node_step_iff)
  then have "node_run cfg st [(ev, outs)] s"
    using node_run.run_snoc [OF node_run.run_nil] by fastforce
  moreover have "node_run cfg s tr' st'"
    using Cons.prems(1) rest by (intro Cons.IH) auto
  ultimately show ?case
    using node_run_trans tr by fastforce
qed (auto intro: node_run.run_nil)

section \<open>Samples\<close>

definition fresh :: source_watch where "fresh = \<lparr>last_arrival = Fin (9 / 10)\<rparr>"

definition fresh_state :: "(unit, unit) node_state" where
  "fresh_state = ready_state\<lparr>watch_odom := fresh, watch_accel := fresh, watch_steering := fresh,
     watch_opmode := fresh, watch_candidate := fresh, watch_vp_cmd := fresh\<rparr>"

definition latched_state :: "(unit, unit) node_state" where
  "latched_state = fresh_state\<lparr>supervision := \<lparr>latched = True, fault_id = 1, reason = ''odometry''\<rparr>,
     node_stop_ramp := \<lparr>v0_mps = Fin 10, started_at = second\<rparr>\<rparr>"

definition pressed_state :: "(unit, unit) node_state" where
  "pressed_state = latched_state\<lparr>reenable := \<lparr>pending = True, requested_at = Fin (1 / 2)\<rparr>\<rparr>"

definition sample_command :: driving_command where
  "sample_command = \<lparr>cmd_source_stamp = \<lparr>sec = 1, nanosec = 0\<rparr>, cmd_has_source_stamp = True,
     cmd_session = 3, cmd_cycle = 9, cmd_valid = True, steering_tire_angle_rad = Fin (1 / 10),
     target_speed_mps = Fin 5, cmd_acceleration_mps2 = Fin 1\<rparr>"

definition vp_state :: "(unit, unit) node_state" where
  "vp_state = fresh_state\<lparr>has_vp_cmd := True, current_vp_cmd := sample_command\<rparr>"

lemmas state_defs = fresh_def fresh_state_def latched_state_def pressed_state_def vp_state_def
  sample_command_def zero_lateral_def zero_longitudinal_def zero_control_def

lemma one_decision:
  assumes "map apr_decision (approved_in (snd (callbackTimerControl cfg fol e st))) = [d]"
  obtains st' outs r where "callbackTimerControl cfg fol e st = (st', outs)" "Approved r \<in> set outs" "apr_decision r = d"
  using assms by (cases "callbackTimerControl cfg fol e st") (auto simp: Approved_in_set)

lemma fresh_normal:
  "map apr_decision (approved_in (snd (callbackTimerControl (sample_cfg SI_CONTROL_MODE) sample_follower
     (sample_tick 0) fresh_state))) = [0]"
  by (simp add: tick_defs sample_defs state_defs Let_def minus_dbl_def)

lemma latched_stops:
  "map apr_decision (approved_in (snd (callbackTimerControl (sample_cfg SI_CONTROL_MODE) sample_follower
     (sample_tick 0) latched_state))) = [1]"
  by (simp add: tick_defs sample_defs state_defs stopThisTick_def expireIfOld_def Let_def minus_dbl_def)


lemma vp_normal:
  "map apr_decision (approved_in (snd (callbackTimerControl (sample_cfg VP_CONTROL_MODE) sample_follower
     (sample_tick 0) vp_state))) = [0]"
  by (simp add: tick_defs sample_defs state_defs feedbackSeen_def Let_def minus_dbl_def)

section \<open>The properties applied\<close>

theorem normal_inside_envelope_witness:
  "\<exists>st' outs r. callbackTimerControl (sample_cfg SI_CONTROL_MODE) sample_follower (sample_tick 0) ready_state = (st', outs)
     \<and> Approved r \<in> set outs \<and> \<bar>steering_tire_angle (lateral (control r))\<bar> \<le> Fin (701 / 1000)"
proof -
  obtain st' outs r where r: "callbackTimerControl (sample_cfg SI_CONTROL_MODE) sample_follower (sample_tick 0) ready_state = (st', outs)"
    "Approved r \<in> set outs" "apr_decision r = 0"
    using one_decision [OF sample_normal] by metis
  then show ?thesis
    using normal_inside_envelope [OF r(1) _ r(2)] by (auto simp: sample_cfg_def)
qed

theorem no_output_on_stale_source_witness:
  "\<not> stale fresh (Fin 1) (Fin (4 / 10))"
proof -
  obtain st' outs r where r: "callbackTimerControl (sample_cfg SI_CONTROL_MODE) sample_follower (sample_tick 0) fresh_state = (st', outs)"
    "Approved r \<in> set outs" "apr_decision r = 0"
    using one_decision [OF fresh_normal] by metis
  then show ?thesis
    using no_output_on_stale_source [OF r(1,2), of fresh "Fin (4 / 10)"]
    by (simp add: sources_def fresh_state_def sample_cfg_def sample_tick_def second_def)
qed

theorem latch_persists_without_press_witness:
  "\<exists>tr st'. node_run (sample_cfg SI_CONTROL_MODE) latched_state tr st'
     \<and> map fst tr = [Heartbeat second, Tick sample_follower (sample_tick 0)] \<and> latched (supervision st')"
proof -
  define evs where "evs = [Heartbeat second, Tick sample_follower (sample_tick 0)]"
  obtain tr st' where r: "run_trace (sample_cfg SI_CONTROL_MODE) evs latched_state = (tr, st')"
    by (cases "run_trace (sample_cfg SI_CONTROL_MODE) evs latched_state")
  have run: "node_run (sample_cfg SI_CONTROL_MODE) latched_state tr st'"
    by (rule run_trace_run [OF _ r]) (simp add: evs_def)
  moreover have "map fst tr = evs"
    using r by (auto simp: evs_def Let_def split: prod.splits)
  moreover have "latched (supervision st')"
    using latch_persists_without_press [OF run] \<open>map fst tr = evs\<close>
    by (force simp: latched_state_def fresh_state_def ready_state_def boot_state_def initial_state_def init_reenable_def evs_def)
  ultimately show ?thesis
    unfolding evs_def by (intro exI conjI)
qed


theorem stop_payload_witness:
  "\<exists>st' outs r. callbackTimerControl (sample_cfg SI_CONTROL_MODE) sample_follower (sample_tick 0) latched_state = (st', outs)
     \<and> Approved r \<in> set outs \<and> acceleration (longitudinal (control r)) = Fin (- (3 / 2))"
proof -
  obtain st' outs r where r: "callbackTimerControl (sample_cfg SI_CONTROL_MODE) sample_follower (sample_tick 0) latched_state = (st', outs)"
    "Approved r \<in> set outs" "apr_decision r = 1"
    using one_decision [OF latched_stops] by metis
  then show ?thesis
    using stop_payload [OF r(1,2)] by (auto simp: sample_cfg_def)
qed

theorem stop_speed_never_rises_witness:
  "\<exists>tr st'. node_run (sample_cfg SI_CONTROL_MODE) latched_state tr st'
     \<and> velocity (longitudinal (stoppedPayload (sample_cfg SI_CONTROL_MODE) (Fin 3) (3 * second) st')) \<le> Fin (17 / 2)"
proof -
  obtain tr st' where r: "run_trace (sample_cfg SI_CONTROL_MODE) [Heartbeat second] latched_state = (tr, st')"
    by (cases "run_trace (sample_cfg SI_CONTROL_MODE) [Heartbeat second] latched_state")
  have run: "node_run (sample_cfg SI_CONTROL_MODE) latched_state tr st'"
    by (rule run_trace_run [OF _ r]) simp
  have "velocity (longitudinal (stoppedPayload (sample_cfg SI_CONTROL_MODE) (Fin 3) (3 * second) st'))
      \<le> velocity (longitudinal (stoppedPayload (sample_cfg SI_CONTROL_MODE) (Fin 2) (2 * second) latched_state))"
    using r
    by (intro stop_speed_never_rises [OF run]) (auto simp: sample_defs state_defs)
  also have "velocity (longitudinal (stoppedPayload (sample_cfg SI_CONTROL_MODE) (Fin 2) (2 * second) latched_state)) = Fin (17 / 2)"
    using flt_max_ge
    by (simp add: stoppedPayload_fields ramp_velocity_def stopRampVelocity_def sample_defs state_defs
        seconds_of_ns_def nano_per_sec_def minus_dbl_def in_range_Fin)
  finally show ?thesis
    using run by blast
qed

theorem vp_command_passed_unchanged_witness:
  "\<exists>st' outs r. callbackTimerControl (sample_cfg VP_CONTROL_MODE) sample_follower (sample_tick 0) vp_state = (st', outs)
     \<and> Approved r \<in> set outs \<and> source_cycle r = 9"
proof -
  obtain st' outs r where r: "callbackTimerControl (sample_cfg VP_CONTROL_MODE) sample_follower (sample_tick 0) vp_state = (st', outs)"
    "Approved r \<in> set outs" "apr_decision r = 0"
    using one_decision [OF vp_normal] by metis
  then show ?thesis
    using vp_command_passed_unchanged [OF r(1) _ r(2)]
    by (auto simp: sample_cfg_def vp_state_def sample_command_def)
qed

theorem legacy_output_is_approved_witness:
  "\<exists>st' outs m. callbackTimerControl (sample_cfg SI_CONTROL_MODE) sample_follower (sample_tick 0) latched_state = (st', outs)
     \<and> Legacy_Control m \<in> set outs \<and> (\<exists>r. Approved r \<in> set outs \<and> apr_decision r = 1)"
proof -
  obtain st' outs where r: "callbackTimerControl (sample_cfg SI_CONTROL_MODE) sample_follower (sample_tick 0) latched_state = (st', outs)"
    by (cases "callbackTimerControl (sample_cfg SI_CONTROL_MODE) sample_follower (sample_tick 0) latched_state")
  moreover have "\<exists>m. Legacy_Control m \<in> set outs"
    using r by (auto simp: tick_defs sample_defs state_defs stopThisTick_def expireIfOld_def Let_def minus_dbl_def)
  then obtain m where m: "Legacy_Control m \<in> set outs" by blast
  ultimately show ?thesis
    using legacy_output_is_approved [OF r m] by (auto simp: sample_cfg_def sample_startup_def)
qed


theorem requests_are_numbered_witness:
  "\<exists>tr st'. node_run (sample_cfg SI_CONTROL_MODE) boot_state tr st' \<and> map output_sequence (requests tr) = [1, 2]"
proof -
  define evs where "evs = [Tick sample_follower (sample_tick 0), Heartbeat second, Tick sample_follower (sample_tick 0)]"
  obtain tr st' where r: "run_trace (sample_cfg SI_CONTROL_MODE) evs boot_state = (tr, st')"
    by (cases "run_trace (sample_cfg SI_CONTROL_MODE) evs boot_state")
  have run: "node_run (sample_cfg SI_CONTROL_MODE) boot_state tr st'"
    by (rule run_trace_run [OF _ r]) (simp add: evs_def)
  have "ticks tr = 2"
    using r by (auto simp: evs_def ticks_def Let_def split: prod.splits)
  then show ?thesis
    using requests_are_numbered [OF run] run
    by (auto simp: boot_state_def initial_state_def upt_conv_Cons)
qed

section \<open>Runs from the start\<close>

definition sample_point :: trajectory_point where
  "sample_point = zero_point\<lparr>longitudinal_velocity_mps := Fin 5\<rparr>"

definition sample_trajectory :: trajectory where
  "sample_trajectory = \<lparr>traj_stamp = \<lparr>sec = 1, nanosec = 0\<rparr>, points = [sample_point, sample_point, sample_point]\<rparr>"

definition feedback :: "(unit, unit) node_event list" where
  "feedback = [Odometry second zero_odometry, Acceleration second zero_accel, Steering second zero_steering,
     Operation_Mode second default_operation_mode]"

lemmas callback_defs = callbackSteeringStatus_def callbackOperationModeState_def callbackOdometry_def
  callbackAcceleration_def callbackTrajectory_def callbackDrivingCommand_def note_arrival_def

theorem accepted_trajectory_is_runnable_witness:
  "\<exists>tr st input. node_run (sample_cfg SI_CONTROL_MODE) boot_state tr st \<and> createInputData st = Some input
     \<and> runnable_trajectory (sample_cfg SI_CONTROL_MODE) (in_trajectory input)"
proof -
  define evs where "evs = feedback @ [Trajectory second second (Some sample_trajectory)]"
  obtain tr st where r: "run_trace (sample_cfg SI_CONTROL_MODE) evs boot_state = (tr, st)"
    by (cases "run_trace (sample_cfg SI_CONTROL_MODE) evs boot_state")
  have run: "node_run (sample_cfg SI_CONTROL_MODE) boot_state tr st"
    by (rule run_trace_run [OF _ r]) (simp add: evs_def feedback_def)
  have "processData (snd (run_trace (sample_cfg SI_CONTROL_MODE) evs boot_state))"
    by (simp add: evs_def feedback_def callback_defs sample_defs processData_def sample_trajectory_def
        sample_point_def finite_point_def zero_msg_defs zero_dbl_def kMinFollowerPoints_def stamp_of_def
        aw_check_def init_autoware_identity_def invalid_stamp_def Let_def)
  then obtain input where "createInputData st = Some input"
    by (auto simp: r createInputData_def)
  then show ?thesis
    using accepted_trajectory_is_runnable [OF run [unfolded boot_state_def]] run by blast
qed


end
