(* ===== verification/Can_Properties.thy ===== *)
theory Can_Properties
  imports Can_Output
begin

text \<open>
  The properties of the CAN output: what a receiver reads from the encoded frames, the two
  directions of the tunnel datagram, the CAN-FD packing and the sequence numbers.
\<close>

section \<open>The encoding\<close>

lemma encoded_fields:
  assumes "encode_control_command msg m sequence = Inr frames" and "output_mode_uses_can m"
    and "is_float (steering_tire_angle (lateral msg))" "is_float (steering_tire_rotation_rate (lateral msg))"
      "is_float (velocity (longitudinal msg))" "is_float (acceleration (longitudinal msg))"
  shows "\<bar>of_int (frame_i32 (frames ! 0) 0) - value_of (steering_tire_angle (lateral msg)) * 1000000\<bar> \<le> 1 / 2
    \<and> \<bar>of_int (frame_i32 (frames ! 0) 4) - value_of (steering_tire_rotation_rate (lateral msg)) * 1000000\<bar> \<le> 1 / 2
    \<and> \<bar>of_int (frame_i32 (frames ! 1) 0) - value_of (velocity (longitudinal msg)) * 1000\<bar> \<le> 1 / 2
    \<and> \<bar>of_int (frame_i32 (frames ! 1) 4) - value_of (acceleration (longitudinal msg)) * 1000\<bar> \<le> 1 / 2"
proof (rule encode_InrE [OF assms(1,2)])
  fix a b c d
  assume scaled: "scale_to_i32 (steering_tire_angle (lateral msg)) (Fin 1000000) = Some a"
    "scale_to_i32 (steering_tire_rotation_rate (lateral msg)) (Fin 1000000) = Some b"
    "scale_to_i32 (velocity (longitudinal msg)) (Fin 1000) = Some c"
    "scale_to_i32 (acceleration (longitudinal msg)) (Fin 1000) = Some d"
    and frames: "frames =
       [\<lparr>can_id = kLateralCommandCanId, dlc = 8, extended = False, frame_data = bytes32 a @ bytes32 b\<rparr>,
        \<lparr>can_id = kLongitudinalCommandCanId, dlc = 8, extended = False, frame_data = bytes32 c @ bytes32 d\<rparr>,
        \<lparr>can_id = kCommandStatusCanId, dlc = 8, extended = False,
         frame_data = [output_mode_octet m, validity_flags msg] @ write_u16_le_bytes sequence
           @ bytes32 (timestamp_ms_modulo (ctl_stamp msg))\<rparr>]"
  show ?thesis
    using scale_to_i32_Some(3) [OF scaled(1)] scale_to_i32_Some(3) [OF scaled(2)]
      scale_to_i32_Some(3) [OF scaled(3)] scale_to_i32_Some(3) [OF scaled(4)] assms(3-6)
    by (simp add: frames)
qed

text \<open>C38. A receiver of an encoded command reads each of the four quantities within half a unit
  of its fixed-point scale (micro-radians, millimetres per second): no wrap-around and no byte
  order error is possible for any command the encoder accepts.\<close>

theorem encoded_command_decodes:
  assumes "encode_control_command msg m sequence = Inr frames" and "output_mode_uses_can m"
    and "is_float (steering_tire_angle (lateral msg))" "is_float (steering_tire_rotation_rate (lateral msg))"
      "is_float (velocity (longitudinal msg))" "is_float (acceleration (longitudinal msg))"
  shows "\<bar>of_int (frame_i32 (frames ! 0) 0) - value_of (steering_tire_angle (lateral msg)) * 1000000\<bar> \<le> 1 / 2
    \<and> \<bar>of_int (frame_i32 (frames ! 0) 4) - value_of (steering_tire_rotation_rate (lateral msg)) * 1000000\<bar> \<le> 1 / 2
    \<and> \<bar>of_int (frame_i32 (frames ! 1) 0) - value_of (velocity (longitudinal msg)) * 1000\<bar> \<le> 1 / 2
    \<and> \<bar>of_int (frame_i32 (frames ! 1) 4) - value_of (acceleration (longitudinal msg)) * 1000\<bar> \<le> 1 / 2"
  by (rule encoded_fields [OF assms])

definition sample_message :: control_msg where
  "sample_message = zero_control\<lparr>lateral := zero_lateral\<lparr>steering_tire_angle := Fin (1 / 10)\<rparr>,
     longitudinal := zero_longitudinal\<lparr>velocity := Fin 5, acceleration := Fin (- 1)\<rparr>\<rparr>"

lemmas sample_message_defs = sample_message_def zero_control_def zero_lateral_def
  zero_longitudinal_def zero_time_def zero_dbl_def

lemma sample_encodes: "\<exists>frames. encode_control_command sample_message CAN_ONLY 7 = Inr frames"
  by (simp add: encode_control_command_def scale_to_i32_def output_mode_uses_can_def sample_message_defs
      cast_int_def trunc_def minus_dbl_def)

theorem encoded_command_decodes_witness:
  "\<exists>frames. encode_control_command sample_message CAN_ONLY 7 = Inr frames
     \<and> \<bar>of_int (frame_i32 (frames ! 1) 0) - (5000 :: real)\<bar> \<le> 1 / 2"
proof -
  obtain frames where f: "encode_control_command sample_message CAN_ONLY 7 = Inr frames"
    using sample_encodes by blast
  then show ?thesis
    using encoded_command_decodes [OF f] flt_max_ge
    by (auto simp: output_mode_uses_can_def sample_message_defs)
qed

definition fits_i32 :: "dbl \<Rightarrow> real \<Rightarrow> bool" where
  "fits_i32 x scale \<longleftrightarrow> isfinite x \<and> - (2 ^ 31) \<le> round_away (value_of x * scale)
     \<and> round_away (value_of x * scale) \<le> 2 ^ 31 - 1"

lemma scale_to_i32_iff:
  assumes "is_float x" and "\<bar>s\<bar> \<le> 10 ^ 10"
  shows "scale_to_i32 x (Fin s) \<noteq> None \<longleftrightarrow> fits_i32 x s"
proof (cases x)
  case (Fin r)
  then have "\<bar>r * s\<bar> \<le> dbl_max"
    using assms by (intro float_times_small) auto
  then show ?thesis
    by (simp add: Fin fits_i32_def scale_to_i32_eq Let_def)
qed (simp_all add: scale_to_i32_def fits_i32_def)

text \<open>The encoder accepts exactly the commands whose four quantities round to a 32-bit
  signed number of units; every other one, a NaN and an infinity included, is an error.\<close>

theorem encoder_accepts_iff:
  assumes "output_mode_uses_can m"
    and "is_float (steering_tire_angle (lateral msg))" "is_float (steering_tire_rotation_rate (lateral msg))"
      "is_float (velocity (longitudinal msg))" "is_float (acceleration (longitudinal msg))"
  shows "(\<exists>frames. encode_control_command msg m sequence = Inr frames) \<longleftrightarrow>
     fits_i32 (steering_tire_angle (lateral msg)) 1000000
     \<and> fits_i32 (steering_tire_rotation_rate (lateral msg)) 1000000
     \<and> fits_i32 (velocity (longitudinal msg)) 1000 \<and> fits_i32 (acceleration (longitudinal msg)) 1000"
proof -
  have "scale_to_i32 x (Fin s) = None \<longleftrightarrow> \<not> fits_i32 x s" if "is_float x" "\<bar>s\<bar> \<le> 10 ^ 10" for x s
    using scale_to_i32_iff [OF that] by blast
  note none = this [OF assms(2), of 1000000, simplified] this [OF assms(3), of 1000000, simplified]
    this [OF assms(4), of 1000, simplified] this [OF assms(5), of 1000, simplified]
  show ?thesis
    unfolding encode_control_command_def using assms(1) none
    by (simp split: option.split) (metis option.distinct(1))
qed

theorem encoder_accepts_iff_witness:
  "\<exists>frames. encode_control_command sample_message CAN_ONLY 7 = Inr frames
     \<and> fits_i32 (velocity (longitudinal sample_message)) 1000"
proof -
  obtain frames where f: "encode_control_command sample_message CAN_ONLY 7 = Inr frames"
    using sample_encodes by blast
  then show ?thesis
    using encoder_accepts_iff [of CAN_ONLY sample_message 7] flt_max_ge
    by (auto simp: output_mode_uses_can_def sample_message_defs)
qed

section \<open>The tunnel\<close>

text \<open>C39. Packing and unpacking a datagram are inverse to each other: a batch of frames with
  full data packs to a datagram exactly when that datagram unpacks to this batch and sequence,
  and it is then 48 bytes long. So no field is lost, and no other datagram is accepted.\<close>

theorem tunnel_roundtrip:
  assumes "\<forall>f \<in> set fs. length (frame_data f) = 8"
  shows "pack_can_udp_tunnel (Some fs) sequence = Inr bytes \<longleftrightarrow>
    unpack_can_udp_tunnel (Some bytes) = Inr (sequence, fs) \<and> length bytes = 48"
  using pack_unpack [OF _ assms] unpack_pack by blast

theorem tunnel_roundtrip_witness:
  "\<exists>bytes. unpack_can_udp_tunnel (Some bytes) = Inr (0,
     [\<lparr>can_id = 0x100, dlc = 8, extended = False, frame_data = replicate 8 0\<rparr>,
      \<lparr>can_id = 0x101, dlc = 8, extended = False, frame_data = replicate 8 0\<rparr>,
      \<lparr>can_id = 0x102, dlc = 8, extended = False, frame_data = replicate 8 0\<rparr>])"
proof -
  let ?fs = "[\<lparr>can_id = 0x100, dlc = 8, extended = False, frame_data = replicate 8 0\<rparr>,
      \<lparr>can_id = 0x101, dlc = 8, extended = False, frame_data = replicate 8 0\<rparr>,
      \<lparr>can_id = 0x102, dlc = 8, extended = False, frame_data = replicate 8 0\<rparr>]"
  have "\<exists>bytes. pack_can_udp_tunnel (Some ?fs) 0 = Inr bytes"
    by (simp add: pack_can_udp_tunnel_def tunnel_consts status_sequence_def)
  then show ?thesis
    using tunnel_roundtrip [of ?fs 0] by auto
qed

text \<open>The output of the encoder always passes through the tunnel: packing it with its own
  sequence number succeeds, and unpacking gives back the number and the frames.\<close>

theorem encoded_batch_tunnels:
  assumes "encode_control_command msg m sequence = Inr frames" and "output_mode_uses_can m"
  shows "\<exists>bytes. pack_can_udp_tunnel (Some frames) sequence = Inr bytes
    \<and> unpack_can_udp_tunnel (Some bytes) = Inr (sequence, frames)"
  using encode_packs [OF assms] pack_unpack by blast

theorem encoded_batch_tunnels_witness:
  "\<exists>bytes frames. encode_control_command sample_message CAN_ONLY 7 = Inr frames
     \<and> unpack_can_udp_tunnel (Some bytes) = Inr (7, frames)"
proof -
  obtain frames where f: "encode_control_command sample_message CAN_ONLY 7 = Inr frames"
    using sample_encodes by blast
  then show ?thesis
    using encoded_batch_tunnels [OF f] by (auto simp: output_mode_uses_can_def)
qed

section \<open>CAN-FD\<close>

text \<open>The CAN-FD path accepts exactly what the classic path accepts, with the same error
  otherwise, and its frame carries the same 24 bytes in the same order followed by zeros.\<close>

theorem fd_matches_classic:
  assumes "output_mode_uses_can m"
  shows "encode_control_command_fd msg m sequence =
    (case encode_control_command msg m sequence of Inl e \<Rightarrow> Inl e
     | Inr frames \<Rightarrow> Inr (Some \<lparr>fd_id = kFdControlCommandCanId, fd_length = 24, fd_brs = False,
         fd_data = concat (map frame_data frames) @ replicate 40 0\<rparr>))"
  by (rule encode_fd_iff [OF assms])

theorem fd_matches_classic_witness:
  "\<exists>frame. encode_control_command_fd sample_message CAN_ONLY 7 = Inr (Some frame) \<and> fd_length frame = 24"
proof -
  obtain frames where "encode_control_command sample_message CAN_ONLY 7 = Inr frames"
    using sample_encodes by blast
  then show ?thesis
    using fd_matches_classic [of CAN_ONLY sample_message 7] by (simp add: output_mode_uses_can_def)
qed

section \<open>Sequence numbers\<close>

text \<open>The sequence numbers of the batches the transport accepted, over a list of sends.\<close>

fun send_all :: "output_mode \<Rightarrow> (can_platform \<times> control_msg) list \<Rightarrow> can_output \<Rightarrow> can_output \<times> u16 list" where
  "send_all m [] s = (s, [])"
| "send_all m ((p, msg) # rest) s =
     (case can_output_send p msg m s of
        (s', sent, ok) \<Rightarrow>
          (case send_all m rest s' of
             (s'', ns) \<Rightarrow>
               (s'', (if ok then concat (map (\<lambda>x. case x of Sent_Batch fs \<Rightarrow> [status_sequence (fs ! 2)]
                                                  | Sent_Fd f \<Rightarrow> []) sent) else []) @ ns)))"

lemma sent_batch_sequence:
  assumes "can_output_send p msg m s = (s', sent, True)" and "output_mode_uses_can m" "\<not> fd_active s"
  shows "\<exists>fs. sent = [Sent_Batch fs] \<and> status_sequence (fs ! 2) = can_sequence s"
proof -
  obtain fs where fs: "encode_control_command msg m (can_sequence s) = Inr fs" "sent = [Sent_Batch fs]"
    using assms by (auto simp: can_output_send_def split: if_splits sum.splits)
  then show ?thesis
    using encode_InrE [OF fs(1) assms(2)]
    by (force simp: status_sequence_def write_u16_le_bytes_def u16_bytes)
qed

text \<open>On a classic CAN channel the batches the transport accepts are numbered without a gap
  and without a repetition (modulo 2 to the 16): a failed encoding or a failed transmission
  never consumes a number.\<close>

theorem accepted_batches_are_consecutive:
  assumes "output_mode_uses_can m" and "\<not> fd_active s" and "send_all m sends s = (s', ns)"
  shows "ns = map (\<lambda>i. can_sequence s + of_nat i) [0..<length ns]
    \<and> can_sequence s' = can_sequence s + of_nat (length ns)"
  using assms
proof (induction sends arbitrary: s ns)
  case (Cons send rest)
  obtain p msg where send: "send = (p, msg)" by (cases send)
  obtain s1 sent ok where first: "can_output_send p msg m s = (s1, sent, ok)" by (metis prod_cases3)
  obtain ns1 where rest: "send_all m rest s1 = (s', ns1)"
    and ns: "ns = (if ok then concat (map (\<lambda>x. case x of Sent_Batch fs \<Rightarrow> [status_sequence (fs ! 2)]
                                         | Sent_Fd f \<Rightarrow> []) sent) else []) @ ns1"
    using Cons.prems(3) first by (auto simp: send split: prod.splits)
  have s1: "s1 = (if ok then s\<lparr>can_sequence := can_sequence s + 1\<rparr> else s)"
    using can_output_send_sequence [OF first] Cons.prems(1) by simp
  have IH: "ns1 = map (\<lambda>i. can_sequence s1 + of_nat i) [0..<length ns1]"
    "can_sequence s' = can_sequence s1 + of_nat (length ns1)"
    using Cons.IH [OF Cons.prems(1) _ rest] Cons.prems(2) s1 by auto
  show ?case
  proof (cases ok)
    case True
    then have "ns = can_sequence s # ns1"
      using sent_batch_sequence [of p msg m s s1 sent] first Cons.prems(1,2) ns by auto
    moreover have "ns1 = map (\<lambda>i. can_sequence s + of_nat i) [1..<Suc (length ns1)]"
      using IH(1) s1 True by (simp add: map_Suc_upt [symmetric] del: upt_Suc) (simp add: add.assoc o_def)
    ultimately show ?thesis
      using IH(2) s1 True by (simp add: upt_conv_Cons del: upt_Suc)
  qed (use ns IH s1 in auto)
qed simp

theorem accepted_batches_are_consecutive_witness:
  "\<exists>s' ns. send_all CAN_ONLY [(\<lparr>can_init_ok = True, can_fd_active = False, can_send_fd_ok = True,
       can_send_batch_ok = True\<rparr>, sample_message)] \<lparr>can_initialized = True, fd_active = False, can_sequence = 9\<rparr> = (s', ns)
     \<and> can_sequence s' = 9 + of_nat (length ns)"
proof -
  let ?s = "\<lparr>can_initialized = True, fd_active = False, can_sequence = 9\<rparr>"
  let ?p = "\<lparr>can_init_ok = True, can_fd_active = False, can_send_fd_ok = True, can_send_batch_ok = True\<rparr>"
  obtain s' ns where r: "send_all CAN_ONLY [(?p, sample_message)] ?s = (s', ns)"
    by (cases "send_all CAN_ONLY [(?p, sample_message)] ?s")
  then show ?thesis
    using accepted_batches_are_consecutive [OF _ _ r] by (simp add: output_mode_uses_can_def)
qed

end
