(* ===== verification/Vp_Properties.thy ===== *)
theory Vp_Properties
  imports
    Vp_Convert
begin

text \<open>
  One conversion evaluated: a straight path of one metre from the origin and a constant speed
  schedule of 2 m/s with two samples one second apart.
\<close>

definition origin :: pose2d where
  "origin = \<lparr>px = Fin 0, py = Fin 0, pyaw = Fin 0\<rparr>"

definition on_axis :: "real \<Rightarrow> pose2d" where
  "on_axis x = \<lparr>px = Fin x, py = Fin 0, pyaw = Fin 0\<rparr>"

lemma wrapAngle_zero [simp]: "wrapAngle (Fin 0) = Fin 0"
  by (simp add: wrapAngle_Fin atan2_real_def)

lemma path_on_axis:
  assumes "\<bar>x\<bar> \<le> 10"
  shows "path_pose (Fin 0) (Fin 0) (Fin 0) origin (Fin x) = on_axis x"
  using assms
  by (simp add: path_pose_def origin_def on_axis_def fcos_def fsin_def lift_real_def minus_dbl_def Let_def)

lemma sampled:
  "sample_path path_fuel (path_pose (Fin 0) (Fin 0) (Fin 0) origin) (fmin (Fin 1) (Fin kExtentCapM)) 0 []
     = Some (Some [on_axis 0, on_axis 1])"
proof -
  have fuel: "path_fuel = Suc (Suc (Suc n))" if "n = 24" for n
    using that by (simp add: path_fuel_def)
  show ?thesis
    unfolding fuel [OF refl]
    by (simp add: path_on_axis fmin_def kExtentCapM_def kPathSpacingM_def zero_dbl_def Let_def
        del: numeral_eq_Suc Suc_numeral)
      (simp add: on_axis_def)
qed

lemma hypot_axis: "\<bar>a\<bar> \<le> 10 ^ 30 \<Longrightarrow> fhypot (Fin a) (Fin 0) = Fin \<bar>a\<bar>"
  by simp

lemma seg_axis:
  assumes "\<bar>x\<bar> \<le> 10" "\<bar>y\<bar> \<le> 10"
  shows "seg_length (on_axis x) (on_axis y) = Fin \<bar>y - x\<bar>"
  using assms hypot_axis [of "y - x"]
  by (simp add: seg_length_def on_axis_def minus_dbl_def del: fhypot.simps)

lemma densified:
  "resample [on_axis 0, on_axis 1] (Fin kResampleStepM) (Fin kExtentCapM) =
     [on_axis 0, on_axis (1 / 4), on_axis (1 / 2), on_axis (3 / 4), on_axis 1]"
proof -
  have step: "\<lparr>px = px (on_axis 0) + (px (on_axis 1) - px (on_axis 0)) * Fin f,
        py = py (on_axis 0) + (py (on_axis 1) - py (on_axis 0)) * Fin f,
        pyaw = wrapAngle (pyaw (on_axis 0) + wrapAngle (pyaw (on_axis 1) - pyaw (on_axis 0)) * Fin f)\<rparr> = on_axis f"
    if "\<bar>f\<bar> \<le> 10" for f
    using that by (simp add: on_axis_def minus_dbl_def)
  have count: "step_count (Fin 1) (Fin (1 / 4)) = Some 4"
    by (simp add: step_count_def fceil_def keep_inf_def fmin_def cast_int_def trunc_def)
  have seg: "fhypot (px (on_axis 1) - px (on_axis 0)) (py (on_axis 1) - py (on_axis 0)) = Fin 1"
    using seg_axis [of 0 1] by (simp add: seg_length_def)
  have "[1..4] = [1, 2, 3, 4 :: int]"
    by (simp add: upto_rec1)
  then show ?thesis
    by (simp add: resample_def seg count step seg_axis kResampleStepM_def kExtentCapM_def Let_def
        zero_dbl_def del: fhypot.simps)
qed

lemma arcs:
  "cumulativeArcLengths [on_axis 0, on_axis (1 / 4), on_axis (1 / 2), on_axis (3 / 4), on_axis 1] =
     [Fin 0, Fin (1 / 4), Fin (1 / 2), Fin (3 / 4), Fin 1]"
  by (simp add: cumulativeArcLengths_def seg_axis zero_dbl_def Let_def)

lemma chosen: "chooseIndices [Fin 0, Fin (1 / 4), Fin (1 / 2), Fin (3 / 4), Fin 1] = [0, 1, 2, 3, 4]"
  by (simp add: chooseIndices_def selectIndices_def nearestIndex_def lower_bound_def kMaxPoints_def
      kExtentCapM_def kNearArcsM_def fmin_def zero_dbl_def minus_dbl_def Let_def upt_conv_Cons nth_Cons')

text \<open>A constant schedule gives the constant speed everywhere and no acceleration.\<close>

lemma constant_speed:
  assumes "1 \<le> a" "a \<le> 2"
  shows "sampleSpatial [Fin 0, Fin 2] [Fin 2, Fin 2] (Fin a) (Fin 2) (Fin 1) = (Fin 2, Fin (a / 2))"
proof (cases "a = 2")
  case False
  then show ?thesis
    using assms
    by (simp add: sampleSpatial_def schedule_search.simps fmax_def zero_dbl_def one_dbl_def minus_dbl_def Let_def)
qed (simp add: sampleSpatial_def fmax_def zero_dbl_def minus_dbl_def)

lemma zero_speed:
  assumes "1 \<le> a" "a \<le> 2"
  shows "sampleSpatial [Fin 0, Fin 0] [Fin 0, Fin 0] (Fin a) (Fin 0) (Fin 1) = (Fin 0, Fin (1 + a * 10 / 3))"
  using assms by (simp add: sampleSpatial_def fmax_def zero_dbl_def minus_dbl_def Let_def)

lemma constant_accels:
  assumes "t0 + 1 / 10 < t1" "t1 + 1 / 10 < t2" "t2 + 1 / 10 < t3" "t3 + 1 / 10 < t4" "0 \<le> t0" "t4 \<le> 10"
  shows "pointAccels [Fin v, Fin v, Fin v, Fin v, Fin v] [Fin t0, Fin t1, Fin t2, Fin t3, Fin t4] (Fin 0) =
    [Fin 0, Fin 0, Fin 0, Fin 0, Fin 0]"
  using assms by (simp add: pointAccels_def minus_dbl_def zero_dbl_def upt_conv_Cons Let_def)

lemma scheduled:
  assumes v: "v = 2 \<or> v = 0"
  shows "\<exists>out. schedulePoints [on_axis 0, on_axis (1 / 4), on_axis (1 / 2), on_axis (3 / 4), on_axis 1]
     [Fin v, Fin v] (Fin 1) = Some out \<and> length out = 5"
  using v
  by (elim disjE; simp add: schedulePoints_def arcs scheduleKnots_def constant_speed zero_speed
      constant_accels fmax_def zero_dbl_def minus_dbl_def kSpeedLeadM_def Let_def upt_conv_Cons nth_Cons')

lemma converted:
  assumes v: "v = 2 \<or> v = 0"
  shows "\<exists>out. convert (Fin 0) (Fin 0) (Fin 0) (Fin 1) origin [Fin v, Fin v] (Fin 1) = Some out \<and> length out = 5"
proof -
  obtain out where out: "schedulePoints [on_axis 0, on_axis (1 / 4), on_axis (1 / 2), on_axis (3 / 4), on_axis 1]
      [Fin v, Fin v] (Fin 1) = Some out" "length out = 5"
    using scheduled [OF v] by blast
  have "with_ego origin [on_axis 0, on_axis (1 / 4), on_axis (1 / 2), on_axis (3 / 4), on_axis 1] =
      [on_axis 0, on_axis (1 / 4), on_axis (1 / 2), on_axis (3 / 4), on_axis 1]"
    by (simp add: with_ego_def origin_def on_axis_def minus_dbl_def)
  then show ?thesis
    by (simp add: convert_def sampled [unfolded zero_dbl_def] densified arcs chosen out
        kMinFollowerPoints_def zero_dbl_def)
qed

text \<open>The properties of the conversion of a VisionPilot driving reference.\<close>

text \<open>C34. A trajectory \<open>convert\<close> returns has 3 to 13 points; every position, yaw, speed, time and
  acceleration in it is finite and no speed is negative, for every path polynomial, ego pose and
  schedule, also when intermediate results overflow.\<close>

theorem converted_trajectory_is_sound:
  assumes "convert a b c x_max ego horizon dt = Some out"
  shows "3 \<le> length out \<and> length out \<le> 13 \<and>
    (\<forall>p \<in> set out. isfinite (pt_x p) \<and> isfinite (pt_y p) \<and> isfinite (pt_yaw p)
      \<and> isfinite (velocity_mps p) \<and> isfinite (time_from_start_s p) \<and> isfinite (pt_acceleration p)
      \<and> Fin 0 \<le> velocity_mps p)"
  by (rule convert_ok [OF assms])

theorem converted_trajectory_is_sound_witness:
  "\<exists>out. convert (Fin 0) (Fin 0) (Fin 0) (Fin 1) origin [Fin 2, Fin 2] (Fin 1) = Some out \<and> 3 \<le> length out"
proof -
  obtain out where out: "convert (Fin 0) (Fin 0) (Fin 0) (Fin 1) origin [Fin 2, Fin 2] (Fin 1) = Some out"
    using converted [of 2] by auto
  then show ?thesis
    using converted_trajectory_is_sound [OF out] by blast
qed

text \<open>The times of the points never decrease along the trajectory.\<close>

theorem converted_times_increase:
  assumes "convert a b c x_max ego horizon dt = Some out" and "\<forall>x \<in> set horizon. is_double x"
    and "i \<le> j" and "j < length out"
  shows "time_from_start_s (out ! i) \<le> time_from_start_s (out ! j)"
  by (rule convert_time_mono [OF assms])

theorem converted_times_increase_witness:
  "\<exists>out. convert (Fin 0) (Fin 0) (Fin 0) (Fin 1) origin [Fin 2, Fin 2] (Fin 1) = Some out
     \<and> time_from_start_s (out ! 0) \<le> time_from_start_s (out ! 2)"
proof -
  obtain out where out: "convert (Fin 0) (Fin 0) (Fin 0) (Fin 1) origin [Fin 2, Fin 2] (Fin 1) = Some out"
    "length out = 5"
    using converted [of 2] by auto
  then show ?thesis
    using converted_times_increase [OF out(1), of 0 2] dbl_max_ge by auto
qed

text \<open>No point is faster than the fastest sample of VisionPilot's schedule: the conversion
  never invents speed, although it reads the schedule ahead of the point.\<close>

theorem converted_speed_bounded:
  assumes "convert a b c x_max ego horizon dt = Some out"
    and "\<forall>x \<in> set horizon. is_double x \<and> fmax 0 x \<le> Fin M" and "0 \<le> M" "M \<le> dbl_max"
    and "p \<in> set out"
  shows "velocity_mps p \<le> Fin M"
  by (rule convert_speed_le [OF assms])

theorem converted_speed_bounded_witness:
  "\<exists>out. convert (Fin 0) (Fin 0) (Fin 0) (Fin 1) origin [Fin 2, Fin 2] (Fin 1) = Some out
     \<and> velocity_mps (hd out) \<le> Fin 2"
proof -
  obtain out where out: "convert (Fin 0) (Fin 0) (Fin 0) (Fin 1) origin [Fin 2, Fin 2] (Fin 1) = Some out"
    "length out = 5"
    using converted [of 2] by auto
  then have "hd out \<in> set out" by (intro hd_in_set) auto
  then show ?thesis
    using converted_speed_bounded [OF out(1), of 2 "hd out"] out dbl_max_ge
    by (auto simp: fmax_def zero_dbl_def)
qed

text \<open>A stop reaches the follower as a stop: a schedule without a positive sample converts to
  points with speed 0 and acceleration 0.\<close>

theorem stop_stays_stop:
  assumes "convert a b c x_max ego horizon dt = Some out"
    and "\<forall>x \<in> set horizon. is_double x \<and> fmax 0 x = Fin 0" and "p \<in> set out"
  shows "velocity_mps p = Fin 0 \<and> pt_acceleration p = Fin 0"
  by (rule convert_stop [OF assms])

theorem stop_stays_stop_witness:
  "\<exists>out. convert (Fin 0) (Fin 0) (Fin 0) (Fin 1) origin [Fin 0, Fin 0] (Fin 1) = Some out
     \<and> velocity_mps (hd out) = Fin 0"
proof -
  obtain out where out: "convert (Fin 0) (Fin 0) (Fin 0) (Fin 1) origin [Fin 0, Fin 0] (Fin 1) = Some out"
    "length out = 5"
    using converted [of 0] by auto
  then have "hd out \<in> set out" by (intro hd_in_set) auto
  then show ?thesis
    using stop_stays_stop [OF out(1), of "hd out"] out by (auto simp: fmax_def zero_dbl_def)
qed

text \<open>The trajectory starts at the ego pose of its own frame or within half a metre of it.\<close>

theorem converted_starts_at_ego:
  assumes "convert a b c x_max ego horizon dt = Some out"
  shows "pt_x (hd out) = px ego \<and> pt_y (hd out) = py ego \<and> pt_yaw (hd out) = pyaw ego
    \<or> fhypot (pt_x (hd out) - px ego) (pt_y (hd out) - py ego) \<le> Fin (1 / 2)"
  by (rule convert_first [OF assms])

theorem converted_starts_at_ego_witness:
  "\<exists>out. convert (Fin 0) (Fin 0) (Fin 0) (Fin 1) origin [Fin 2, Fin 2] (Fin 1) = Some out
     \<and> (pt_x (hd out) = Fin 0 \<or> fhypot (pt_x (hd out) - Fin 0) (pt_y (hd out) - Fin 0) \<le> Fin (1 / 2))"
proof -
  obtain out where out: "convert (Fin 0) (Fin 0) (Fin 0) (Fin 1) origin [Fin 2, Fin 2] (Fin 1) = Some out"
    using converted [of 2] by auto
  then show ?thesis
    using converted_starts_at_ego [OF out] by (auto simp: origin_def simp del: fhypot.simps)
qed

text \<open>Path sampling is bounded work: whatever \<open>x_max\<close> the reference claims, an infinite one
  included, the sampling loop leaves within its 27 iterations.\<close>

theorem path_sampling_terminates:
  assumes "x_max > 0"
  shows "sample_path path_fuel (path_pose a b c ego) (fmin x_max (Fin kExtentCapM)) 0 [] \<noteq> None"
  by (rule convert_sampling_terminates [OF assms])

theorem path_sampling_terminates_witness:
  "sample_path path_fuel (path_pose (Fin 1) (Fin 0) (Fin 0) origin) (fmin PInf (Fin kExtentCapM)) 0 [] \<noteq> None"
  by (rule path_sampling_terminates) (simp add: zero_dbl_def)

text \<open>The ego history finds the pose of a frame as long as fewer than 400 other frames have
  come since, whatever it held before, and it finds the latest pose noted for that frame.\<close>

theorem ego_pose_found:
  assumes "length es < kEgoHistory"
    and "\<forall>e' \<in> set es. \<not> (ego_sec e' = ego_sec e \<and> ego_nanosec e' = ego_nanosec e)"
  shows "ego_find (ego_sec e) (ego_nanosec e)
    (fold note_entry es (note_entry e (fold note_entry old EgoHistory))) = Some (ego_pose e)"
  using ego_find_kept [OF ego_log.good_pushes [OF ego_ok_empty] assms, of old] by simp

theorem ego_pose_found_witness:
  "ego_find 5 0 (fold note_entry [\<lparr>ego_sec = 6, ego_nanosec = 0, ego_pose = on_axis 1\<rparr>]
     (note_entry \<lparr>ego_sec = 5, ego_nanosec = 0, ego_pose = origin\<rparr> (fold note_entry [] EgoHistory))) = Some origin"
  using ego_pose_found [of "[\<lparr>ego_sec = 6, ego_nanosec = 0, ego_pose = on_axis 1\<rparr>]"
      "\<lparr>ego_sec = 5, ego_nanosec = 0, ego_pose = origin\<rparr>" "[]"]
  by (simp add: kEgoHistory_def)

text \<open>A pose that is found was noted for exactly that frame: a path is never placed with the
  pose of another frame.\<close>

theorem ego_pose_is_of_frame:
  assumes "ego_find s ns (fold note_entry es EgoHistory) = Some p"
  shows "\<lparr>ego_sec = s, ego_nanosec = ns, ego_pose = p\<rparr> \<in> set es"
  by (rule ego_find_noted [OF assms])

theorem ego_pose_is_of_frame_witness:
  "\<lparr>ego_sec = 5, ego_nanosec = 0, ego_pose = origin\<rparr> \<in> set [\<lparr>ego_sec = 5, ego_nanosec = 0, ego_pose = origin\<rparr>]"
proof (rule ego_pose_is_of_frame)
  show "ego_find 5 0 (fold note_entry [\<lparr>ego_sec = 5, ego_nanosec = 0, ego_pose = origin\<rparr>] EgoHistory) = Some origin"
    using ego_find_kept [OF ego_ok_empty, of "[]" "\<lparr>ego_sec = 5, ego_nanosec = 0, ego_pose = origin\<rparr>"]
    by (simp add: kEgoHistory_def)
qed

end
