(* ===== verification/Staleness_Gate.thy ===== *)
theory Staleness_Gate
  imports Supervision
begin

text \<open>
  \<open>InputStalenessGate\<close> (\<open>trajectory_follower_node/input_staleness_gate.hpp\<close>): a two-threshold
  gate over the age of the freshest input, which reports its edges at a bounded rate.
\<close>

datatype transition = kNone | kBecameStale | kBecameFresh

record staleness_gate =
  stale_threshold_sec :: dbl
  fresh_threshold_sec :: dbl
  min_edge_report_interval_sec :: dbl
  last_input_sec :: dbl
  gate_stale :: bool
  last_edge_report_sec :: dbl

definition InputStalenessGate :: "dbl \<Rightarrow> dbl \<Rightarrow> dbl \<Rightarrow> staleness_gate" where
  "InputStalenessGate stale_thr fresh_thr min_interval =
     \<lparr>stale_threshold_sec = stale_thr, fresh_threshold_sec = fresh_thr,
      min_edge_report_interval_sec = min_interval, last_input_sec = Fin (-1),
      gate_stale = False, last_edge_report_sec = Fin (-1)\<rparr>"

definition noteInput :: "dbl \<Rightarrow> staleness_gate \<Rightarrow> staleness_gate" where
  "noteInput now_sec g = g\<lparr>last_input_sec := now_sec\<rparr>"

definition gate_update :: "staleness_gate \<Rightarrow> dbl \<Rightarrow> transition \<times> staleness_gate" where
  "gate_update g now_sec =
     (let last = last_input_sec g in
      if last < Fin 0 then (kNone, g)
      else
        let age = now_sec - last;
            next_stale = (if \<not> gate_stale g \<and> age > stale_threshold_sec g then True
                          else if gate_stale g \<and> age < fresh_threshold_sec g then False
                          else gate_stale g)
        in if next_stale = gate_stale g then (kNone, g)
           else
             let g = g\<lparr>gate_stale := next_stale\<rparr>
             in if last_edge_report_sec g \<ge> Fin 0
                   \<and> now_sec - last_edge_report_sec g < min_edge_report_interval_sec g
                then (kNone, g)
                else (if gate_stale g then kBecameStale else kBecameFresh,
                      g\<lparr>last_edge_report_sec := now_sec\<rparr>))"

definition publishAllowed :: "staleness_gate \<Rightarrow> bool" where
  "publishAllowed g \<longleftrightarrow> \<not> gate_stale g"

definition gate_ageSec :: "staleness_gate \<Rightarrow> dbl \<Rightarrow> dbl" where
  "gate_ageSec g now_sec =
     (let last = last_input_sec g in if last < Fin 0 then Fin (-1) else now_sec - last)"

section \<open>One update\<close>

lemma gate_update_config [simp]:
  "stale_threshold_sec (snd (gate_update g now)) = stale_threshold_sec g"
  "fresh_threshold_sec (snd (gate_update g now)) = fresh_threshold_sec g"
  "min_edge_report_interval_sec (snd (gate_update g now)) = min_edge_report_interval_sec g"
  "last_input_sec (snd (gate_update g now)) = last_input_sec g"
  by (simp_all add: gate_update_def Let_def)

text \<open>The state follows the two thresholds and is never rate limited.\<close>

lemma gate_update_stale:
  assumes "\<not> last_input_sec g < Fin 0"
  shows "gate_stale (snd (gate_update g now)) =
    (if gate_stale g then \<not> (gate_ageSec g now < fresh_threshold_sec g)
     else gate_ageSec g now > stale_threshold_sec g)"
  using assms by (auto simp: gate_update_def gate_ageSec_def Let_def)

lemma gate_update_silent_before_input:
  "last_input_sec g < Fin 0 \<Longrightarrow> gate_update g now = (kNone, g)"
  by (simp add: gate_update_def)

text \<open>A returned edge is a change of state, in its direction.\<close>

lemma gate_update_edge:
  assumes "gate_update g now = (t, g')"
  shows "t = kBecameStale \<Longrightarrow> \<not> gate_stale g \<and> gate_stale g'"
    and "t = kBecameFresh \<Longrightarrow> gate_stale g \<and> \<not> gate_stale g'"
    and "t \<noteq> kNone \<Longrightarrow> last_edge_report_sec g' = now"
    and "t = kNone \<Longrightarrow> last_edge_report_sec g' = last_edge_report_sec g"
  using assms by (auto simp: gate_update_def Let_def split: if_splits)

lemma gate_update_rate:
  assumes "gate_update g now = (t, g')" and "t \<noteq> kNone" and "Fin 0 \<le> last_edge_report_sec g"
  shows "\<not> now - last_edge_report_sec g < min_edge_report_interval_sec g"
  using assms by (auto simp: gate_update_def Let_def split: if_splits)

section \<open>The gate as an arrival watch\<close>

definition gate_seen :: "staleness_gate \<Rightarrow> bool" where
  "gate_seen g \<longleftrightarrow> Fin 0 \<le> last_input_sec g"

definition gate_older :: "staleness_gate \<Rightarrow> dbl \<Rightarrow> dbl \<Rightarrow> bool" where
  "gate_older g now limit \<longleftrightarrow> gate_seen g \<and> limit < gate_ageSec g now"

lemma not_less_zero_if_nonneg: "Fin 0 \<le> x \<Longrightarrow> \<not> x < Fin 0"
  by (cases x) auto

interpretation gate_watch: arrival_watch noteInput gate_seen gate_older
  by unfold_locales
    (auto simp: noteInput_def gate_seen_def gate_older_def gate_ageSec_def Let_def
      not_less_zero_if_nonneg)

section \<open>Runs\<close>

text \<open>
  A run of the gate: inputs and updates in the order the controller thread and the callbacks
  make them. The edges it reports, with their times.
\<close>

datatype gate_event = Input dbl | Update dbl

fun gate_run :: "staleness_gate \<Rightarrow> gate_event list \<Rightarrow> (dbl \<times> transition) list \<times> staleness_gate" where
  "gate_run g [] = ([], g)"
| "gate_run g (Input t # es) = gate_run (noteInput t g) es"
| "gate_run g (Update t # es) =
     (case gate_update g t of (tr, g') \<Rightarrow>
        (case gate_run g' es of (edges, g'') \<Rightarrow>
           (if tr = kNone then edges else (t, tr) # edges, g'')))"

fun event_time :: "gate_event \<Rightarrow> dbl" where
  "event_time (Input t) = t"
| "event_time (Update t) = t"

text \<open>Two edges of a run are never closer than the configured interval.\<close>

abbreviation spaced :: "dbl \<Rightarrow> dbl \<times> transition \<Rightarrow> dbl \<times> transition \<Rightarrow> bool" where
  "spaced gap e e' \<equiv> \<not> fst e' - fst e < gap"

lemma gate_run_after:
  assumes "Fin 0 \<le> last_edge_report_sec g" and "\<forall>e \<in> set es. Fin 0 \<le> event_time e"
  shows "successively (spaced (min_edge_report_interval_sec g))
      ((last_edge_report_sec g, tr) # fst (gate_run g es))"
  using assms
proof (induction es arbitrary: g tr)
  case (Cons e es)
  show ?case
  proof (cases e)
    case (Input t)
    have "min_edge_report_interval_sec (noteInput t g) = min_edge_report_interval_sec g"
      "last_edge_report_sec (noteInput t g) = last_edge_report_sec g"
      by (simp_all add: noteInput_def)
    then show ?thesis
      using Cons.IH [of "noteInput t g" tr] Cons.prems Input by simp
  next
    case (Update t)
    obtain tr' g' where up: "gate_update g t = (tr', g')" by (cases "gate_update g t")
    have gap: "min_edge_report_interval_sec g' = min_edge_report_interval_sec g"
      using gate_update_config(3) [of g t] up by simp
    show ?thesis
    proof (cases "tr' = kNone")
      case True
      then have "last_edge_report_sec g' = last_edge_report_sec g"
        using gate_update_edge(4) [OF up] by simp
      then show ?thesis
        using Cons.IH [of g' tr] Cons.prems Update up gap True by (auto split: prod.splits)
    next
      case False
      then have "last_edge_report_sec g' = t"
        using gate_update_edge(3) [OF up] by simp
      moreover have "\<not> t - last_edge_report_sec g < min_edge_report_interval_sec g"
        using gate_update_rate [OF up False] Cons.prems by simp
      ultimately show ?thesis
        using Cons.IH [of g' tr'] Cons.prems Update up gap False by (auto split: prod.splits)
    qed
  qed
qed simp

lemma successively_Cons_D: "successively P (x # xs) \<Longrightarrow> successively P xs"
  by (cases xs) auto

lemma gate_run_spaced:
  assumes "\<forall>e \<in> set es. Fin 0 \<le> event_time e"
  shows "successively (spaced (min_edge_report_interval_sec g)) (fst (gate_run g es))"
  using assms
proof (induction es arbitrary: g)
  case (Cons e es)
  show ?case
  proof (cases e)
    case (Input t)
    have "min_edge_report_interval_sec (noteInput t g) = min_edge_report_interval_sec g"
      by (simp add: noteInput_def)
    then show ?thesis
      using Cons.IH [of "noteInput t g"] Cons.prems Input by simp
  next
    case (Update t)
    obtain tr g' where up: "gate_update g t = (tr, g')" by (cases "gate_update g t")
    have gap: "min_edge_report_interval_sec g' = min_edge_report_interval_sec g"
      using gate_update_config(3) [of g t] up by simp
    show ?thesis
    proof (cases "tr = kNone")
      case True
      then show ?thesis
        using Cons.IH [of g'] Cons.prems Update up gap by (auto split: prod.splits)
    next
      case False
      then have "last_edge_report_sec g' = t"
        using gate_update_edge(3) [OF up] by simp
      then show ?thesis
        using gate_run_after [of g' es tr] Cons.prems Update up gap False
        by (auto split: prod.splits)
    qed
  qed
qed simp

end
