(* ===== verification/Supervision_Properties.thy ===== *)
theory Supervision_Properties
  imports Candidate_Identity Startup_Config Staleness_Gate Si_Channel Supervision
begin

text \<open>
  The properties of the primitives around the controller: clock stamps, the replay gate of the
  candidates, the start-up configuration, the staleness gate, the stop ramp and the fault
  channel.
\<close>

section \<open>The replay gate\<close>

text \<open>C36. The VisionPilot identity, with its bounded ring of retired sessions and its single
  remembered sample, answers every candidate as the specification over the whole history of
  accepted candidates does: a repeated sample is a duplicate, and a retired session, an older
  cycle or an older stamp is a regression.\<close>

theorem vp_identity_implements_spec:
  "vp_offer (vp_history h) c = spec_check h c"
  by (rule vp_offer_spec)

text \<open>The stamps of the samples that both gates let through strictly increase, for every
  stream of samples and every outcome of their further validation: nothing is accepted twice
  and nothing old is accepted later.\<close>

theorem accepted_stamps_increase:
  "sorted_wrt (\<lambda>a b. cand_key a < cand_key b) (taken vp_offer vp_take s cs)
   \<and> distinct (taken vp_offer vp_take s cs)
   \<and> sorted_wrt (\<lambda>a b. stamp_key a < stamp_key b) (taken aw_check aw_note s' stamps)
   \<and> distinct (taken aw_check aw_note s' stamps)"
  using vp_gate.taken_increasing vp_gate.taken_distinct aw_gate.taken_increasing
    aw_gate.taken_distinct by blast

text \<open>The session in force is never one of the retired sessions, so a producer that keeps
  counting up within its session is never locked out.\<close>

theorem running_session_is_not_retired:
  assumes "spec_check h (session, cycle, stamp) = ACCEPT"
    and "cycle < cycle'" and "stamp_later stamp' stamp" and "\<not> invalid_stamp stamp'"
  shows "vp_offer (vp_take (session, cycle, stamp) (vp_history h)) (session, cycle', stamp')
      = ACCEPT"
proof -
  let ?h = "(session, cycle, stamp) # h"
  have "session \<notin> set (take 16 (left_sessions ?h))"
    using current_not_retired [of ?h] assms(1) by simp
  then have "spec_check ?h (session, cycle', stamp') = ACCEPT"
    using assms(2-4)
    by (auto simp: spec_check_def stamp_later_key invalid_stamp_uint word_less_def)
  then show ?thesis
    using vp_offer_spec [of ?h] by simp
qed

theorem running_session_is_not_retired_witness:
  "vp_offer (vp_take (7, 1, \<lparr>ss_sec = 1, ss_nanosec = 0\<rparr>) (vp_history []))
     (7, 2, \<lparr>ss_sec = 2, ss_nanosec = 0\<rparr>) = ACCEPT"
  by (rule running_session_is_not_retired)
    (simp_all add: spec_check_def stamp_later_def invalid_stamp_def)

section \<open>Start-up\<close>


section \<open>Clock\<close>

text \<open>A stamp written from the system clock reads back as the same time, until the second
  count leaves 31 bits.\<close>

theorem stamp_roundtrip:
  assumes "0 \<le> ns" and "ns < 2 ^ 31 * nano_per_sec"
  shows "toDouble (toRosTime (Clock_now ns)) = Clock_now ns"
  by (rule toDouble_toRosTime [OF assms])

theorem stamp_roundtrip_witness:
  "toDouble (toRosTime (Clock_now 1500000000)) = Clock_now 1500000000"
  by (rule stamp_roundtrip) (simp_all add: nano_per_sec_def)

section \<open>The stop ramp\<close>

text \<open>Along an SI stop the commanded speed is between zero and the speed the vehicle had
  when the stop began, and it never rises again.\<close>

theorem stop_ramp_decreases:
  assumes "isfinite v0" "is_double v0" and "Fin 0 \<le> decel" "isfinite decel"
    and "Fin 0 \<le> e1" "isfinite e1" "isfinite e2" "e1 \<le> e2"
  shows "Fin 0 \<le> stopRampVelocity v0 decel e2 max_v0
    \<and> stopRampVelocity v0 decel e2 max_v0 \<le> stopRampVelocity v0 decel e1 max_v0
    \<and> (stopRampVelocity v0 decel e1 max_v0 = Fin 0 \<or> stopRampVelocity v0 decel e1 max_v0 \<le> v0)"
  using stopRampVelocity_nonneg stopRampVelocity_antimono [OF assms(1,3,4,6,7,8)]
    stopRampVelocity_le [OF assms(2,3,4,5,6)] by blast

theorem stop_ramp_decreases_witness:
  "stopRampVelocity (Fin 10) (Fin 2) (Fin 3) (Fin 40) \<le> stopRampVelocity (Fin 10) (Fin 2) (Fin 1) (Fin 40)"
  using dbl_max_ge
  by (intro stop_ramp_decreases [THEN conjunct2, THEN conjunct1]) simp_all

section \<open>The staleness gate\<close>

text \<open>Whatever the inputs and the updates, two edges the gate reports are never closer in
  time than its configured interval, although its state follows every crossing at once.\<close>

theorem gate_edges_are_spaced:
  assumes "\<forall>e \<in> set es. Fin 0 \<le> event_time e"
  shows "successively (\<lambda>e e'. \<not> fst e' - fst e < min_edge_report_interval_sec g)
      (fst (gate_run g es))"
  by (rule gate_run_spaced [OF assms])

theorem gate_edges_are_spaced_witness:
  "successively (\<lambda>e e'. \<not> fst e' - fst e < Fin 5)
     (fst (gate_run (InputStalenessGate (Fin 1) (Fin 1) (Fin 5))
        [Input (Fin 0), Update (Fin 2), Input (Fin 3), Update (Fin 3), Update (Fin 9)]))"
  using gate_edges_are_spaced [of "[Input (Fin 0), Update (Fin 2), Input (Fin 3), Update (Fin 3),
      Update (Fin 9)]" "InputStalenessGate (Fin 1) (Fin 1) (Fin 5)"]
  by (simp add: InputStalenessGate_def)

section \<open>The fault channel\<close>

text \<open>Over any sequence of datagrams the event counter of the fault channel grows by the
  number of rising edges of the fault level, where only the exact texts fault=1 and fault=0,
  with at most one final newline, set or clear the level.\<close>

theorem fault_events_count_edges:
  "s_fault_events (fold si_channel_rx ds st)
     = s_fault_events st + of_nat (fault_edges (s_fault st) (map si_channel_parse ds))
   \<and> (si_channel_parse data = SI_MSG_FAULT_SET \<longleftrightarrow>
       data \<in> {Some ''fault=1'', Some (''fault=1'' @ [newline])})
   \<and> (si_channel_parse data = SI_MSG_FAULT_CLEAR \<longleftrightarrow>
       data \<in> {Some ''fault=0'', Some (''fault=0'' @ [newline])})"
  by (simp add: rx_counts parse_fault_set parse_fault_clear)

text \<open>A heartbeat line always fits the buffer its callers provide, with its final NUL,
  whatever the sequence number and the uptime.\<close>

theorem heartbeat_always_fits:
  "si_channel_format_hb SI_CHANNEL_HB_LINE_MAX sequence uptime_ms fault
     = Some (hb_line sequence uptime_ms fault)"
  using hb_line_fits [of sequence uptime_ms fault] by (simp add: si_channel_format_hb_def Let_def)

end
