(* ===== verification/Double_Bounds.thy ===== *)
theory Double_Bounds
  imports Doubles
begin

text \<open>
  Magnitude bounds of finite double-precision values, and how the operations of the code change
  them. A bound far below the largest double shows that no intermediate result overflows.
\<close>

definition bounded_by :: "real \<Rightarrow> dbl \<Rightarrow> bool" where
  "bounded_by B x \<longleftrightarrow> isfinite x \<and> \<bar>value_of x\<bar> \<le> B"

named_theorems bounded_intros "bounds of the results of operations"

lemma bounded_Fin [simp]: "bounded_by B (Fin r) \<longleftrightarrow> \<bar>r\<bar> \<le> B"
  by (simp add: bounded_by_def)

lemma bounded_cases [elim?]:
  assumes "bounded_by B x"
  obtains r where "x = Fin r" and "\<bar>r\<bar> \<le> B"
  using assms by (cases x) (auto simp: bounded_by_def)

lemma bounded_finite: "bounded_by B x \<Longrightarrow> isfinite x"
  by (simp add: bounded_by_def)

lemma bounded_not_NaN: "bounded_by B x \<Longrightarrow> x \<noteq> NaN"
  by (auto simp: bounded_by_def)

lemma bounded_mono: "bounded_by A x \<Longrightarrow> A \<le> B \<Longrightarrow> bounded_by B x"
  by (auto simp: bounded_by_def)

lemma bounded_nonneg: "bounded_by B x \<Longrightarrow> 0 \<le> B"
  by (auto simp: bounded_by_def)

lemma dbl_max_ge300: "10 ^ 300 \<le> dbl_max"
  unfolding dbl_max_def by simp

lemma bounded_plus [bounded_intros]:
  assumes "bounded_by A x" and "bounded_by B y" and "A + B \<le> dbl_max"
  shows "bounded_by (A + B) (x + y)"
proof -
  obtain a b where "x = Fin a" "\<bar>a\<bar> \<le> A" "y = Fin b" "\<bar>b\<bar> \<le> B"
    using assms(1,2) by (metis bounded_cases)
  moreover from this have "\<bar>a + b\<bar> \<le> A + B"
    by linarith
  ultimately show ?thesis
    using assms(3) by (simp add: in_range_Fin)
qed

lemma bounded_uminus [bounded_intros]: "bounded_by A x \<Longrightarrow> bounded_by A (- x)"
  by (auto elim: bounded_cases)

lemma bounded_minus [bounded_intros]:
  "bounded_by A x \<Longrightarrow> bounded_by B y \<Longrightarrow> A + B \<le> dbl_max \<Longrightarrow> bounded_by (A + B) (x - y)"
  unfolding minus_dbl_def by (intro bounded_intros)

lemma bounded_times [bounded_intros]:
  assumes "bounded_by A x" and "bounded_by B y" and "A * B \<le> dbl_max"
  shows "bounded_by (A * B) (x * y)"
proof -
  obtain a b where "x = Fin a" "\<bar>a\<bar> \<le> A" "y = Fin b" "\<bar>b\<bar> \<le> B"
    using assms(1,2) by (metis bounded_cases)
  moreover from this have "\<bar>a * b\<bar> \<le> A * B"
    by (simp add: abs_mult mult_mono)
  ultimately show ?thesis
    using assms(3) by (simp add: in_range_Fin)
qed

lemma bounded_divide:
  assumes "bounded_by A x" and "Fin c \<le> y" and "isfinite y" and "0 < c" and "A / c \<le> dbl_max"
  shows "bounded_by (A / c) (x div y)"
proof -
  obtain a where a: "x = Fin a" "\<bar>a\<bar> \<le> A"
    using assms(1) by (metis bounded_cases)
  obtain b where b: "y = Fin b" "c \<le> b"
    using assms(2,3) by (auto simp: isfinite_iff)
  have "\<bar>a / b\<bar> \<le> A / c"
    using a b assms(4) by (simp add: abs_divide frac_le)
  then show ?thesis
    using a b assms(4,5) by (simp add: in_range_Fin)
qed

lemma bounded_abs [bounded_intros]: "bounded_by A x \<Longrightarrow> bounded_by A \<bar>x\<bar>"
  by (auto elim: bounded_cases)

lemma bounded_fmin [bounded_intros]: "bounded_by A x \<Longrightarrow> bounded_by A y \<Longrightarrow> bounded_by A (fmin x y)"
  by (simp add: fmin_def)

lemma bounded_fmax [bounded_intros]: "bounded_by A x \<Longrightarrow> bounded_by A y \<Longrightarrow> bounded_by A (fmax x y)"
  by (simp add: fmax_def)

text \<open>A value clamped with finite limits is finite, whatever was clamped except a NaN.\<close>

lemma bounded_limit:
  "x \<noteq> NaN \<Longrightarrow> bounded_by A lo \<Longrightarrow> bounded_by A hi \<Longrightarrow> bounded_by A (fmin (fmax x lo) hi)"
  by (cases x) (auto simp: fmin_def fmax_def elim!: bounded_cases)

lemma limit_bounds:
  assumes "lo \<le> hi" and "x \<noteq> NaN"
  shows "lo \<le> fmin (fmax x lo) hi" "fmin (fmax x lo) hi \<le> hi"
  using assms by (cases x; cases lo; cases hi; auto simp: fmin_def fmax_def)+

lemma limit_NaN: "lo \<noteq> NaN \<Longrightarrow> hi \<noteq> NaN \<Longrightarrow> fmin (fmax x lo) hi = NaN \<longleftrightarrow> x = NaN"
  by (auto simp: fmin_def fmax_def)

lemma fclamp_bounds:
  assumes "lo \<le> hi" and "x \<noteq> NaN"
  shows "lo \<le> fclamp x lo hi" "fclamp x lo hi \<le> hi"
  using assms by (cases x; cases lo; cases hi; auto simp: fclamp_def)+

lemma fclamp_NaN: "lo \<noteq> NaN \<Longrightarrow> hi \<noteq> NaN \<Longrightarrow> fclamp x lo hi = NaN \<longleftrightarrow> x = NaN"
  by (auto simp: fclamp_def)

text \<open>A NaN propagates.\<close>

lemma NaN_propagates [simp]:
  "NaN + x = NaN" "x + NaN = NaN" "NaN * x = NaN" "x * NaN = NaN" "NaN - x = NaN" "x - NaN = NaN"
  "NaN div x = NaN" "x div NaN = NaN"
  by (cases x; simp add: minus_dbl_def)+

end
