(* ===== verification/Pid_Controller.thy ===== *)
theory Pid_Controller
  imports Double_Bounds
begin

text \<open>
  The filter and the feedback law of the longitudinal controller:
  \<open>LowpassFilter1d\<close> (\<open>lowpass_filter.hpp\<close>) and \<open>PIDController\<close> (\<open>pid.hpp\<close>, \<open>pid.cpp\<close>).
\<close>

section \<open>\<open>LowpassFilter1d\<close>\<close>

record lowpass =
  lpf_x :: dbl
  lpf_gain :: dbl

definition LowpassFilter1d :: "dbl \<Rightarrow> dbl \<Rightarrow> lowpass" where
  "LowpassFilter1d x gain = \<lparr>lpf_x = x, lpf_gain = gain\<rparr>"

definition lpf_reset :: "dbl \<Rightarrow> lowpass \<Rightarrow> lowpass" where
  "lpf_reset x f = f\<lparr>lpf_x := x\<rparr>"

definition lpf_getValue :: "lowpass \<Rightarrow> dbl" where
  "lpf_getValue f = lpf_x f"

definition lpf_filter :: "dbl \<Rightarrow> lowpass \<Rightarrow> dbl \<times> lowpass" where
  "lpf_filter u f =
     (let ret = lpf_gain f * lpf_x f + (Fin 1 - lpf_gain f) * u in (ret, f\<lparr>lpf_x := ret\<rparr>))"

definition lpf_setGain :: "dbl \<Rightarrow> lowpass \<Rightarrow> lowpass" where
  "lpf_setGain g f = f\<lparr>lpf_gain := g\<rparr>"

section \<open>\<open>PIDController\<close>\<close>

record pid_params =
  kp :: dbl
  ki :: dbl
  kd :: dbl
  max_ret_p :: dbl
  min_ret_p :: dbl
  max_ret_i :: dbl
  min_ret_i :: dbl
  max_ret_d :: dbl
  min_ret_d :: dbl
  max_ret :: dbl
  min_ret :: dbl

record pid_controller =
  m_params :: pid_params
  m_error_integral :: dbl
  m_prev_error :: dbl
  m_is_first_time :: bool
  m_is_gains_set :: bool
  m_is_limits_set :: bool

definition zero_pid_params :: pid_params where
  "zero_pid_params = \<lparr>kp = 0, ki = 0, kd = 0, max_ret_p = 0, min_ret_p = 0, max_ret_i = 0,
     min_ret_i = 0, max_ret_d = 0, min_ret_d = 0, max_ret = 0, min_ret = 0\<rparr>"

definition PIDController :: pid_controller where
  "PIDController = \<lparr>m_params = zero_pid_params, m_error_integral = Fin 0, m_prev_error = Fin 0,
     m_is_first_time = True, m_is_gains_set = False, m_is_limits_set = False\<rparr>"

text \<open>
  The result and the three contributions with the new state, or \<open>None\<close> for \<open>exit(1)\<close> on an
  object whose gains or limits were never set.
\<close>

definition pid_calculate ::
  "dbl \<Rightarrow> dbl \<Rightarrow> bool \<Rightarrow> pid_controller \<Rightarrow> (dbl \<times> dbl list \<times> pid_controller) option" where
  "pid_calculate error dt enable_integration c =
     (if \<not> m_is_gains_set c \<or> \<not> m_is_limits_set c then None
      else
        let p = m_params c;
            ret_p = kp p * error;
            ret_p = fmin (fmax ret_p (min_ret_p p)) (max_ret_p p);
            integral =
              (if enable_integration
               then fmin (fmax (m_error_integral c + error * dt) (min_ret_i p div ki p))
                      (max_ret_i p div ki p)
               else m_error_integral c);
            ret_i = ki p * integral;
            error_differential =
              (if m_is_first_time c then Fin 0 else (error - m_prev_error c) div dt);
            ret_d = kd p * error_differential;
            ret_d = fmin (fmax ret_d (min_ret_d p)) (max_ret_d p);
            ret = ret_p + ret_i + ret_d;
            ret = fmin (fmax ret (min_ret p)) (max_ret p)
        in Some (ret, [ret_p, ret_i, ret_d],
             c\<lparr>m_error_integral := integral, m_is_first_time := False, m_prev_error := error\<rparr>))"

definition setGains :: "dbl \<Rightarrow> dbl \<Rightarrow> dbl \<Rightarrow> pid_controller \<Rightarrow> pid_controller" where
  "setGains p i d c = c\<lparr>m_params := (m_params c)\<lparr>kp := p, ki := i, kd := d\<rparr>, m_is_gains_set := True\<rparr>"

definition setLimits ::
  "dbl \<Rightarrow> dbl \<Rightarrow> dbl \<Rightarrow> dbl \<Rightarrow> dbl \<Rightarrow> dbl \<Rightarrow> dbl \<Rightarrow> dbl \<Rightarrow> pid_controller \<Rightarrow> pid_controller" where
  "setLimits maxr minr maxp minp maxi mini maxd mind c =
     c\<lparr>m_params := (m_params c)\<lparr>max_ret := maxr, min_ret := minr, max_ret_p := maxp,
         min_ret_p := minp, max_ret_d := maxd, min_ret_d := mind, max_ret_i := maxi,
         min_ret_i := mini\<rparr>, m_is_limits_set := True\<rparr>"

definition pid_reset :: "pid_controller \<Rightarrow> pid_controller" where
  "pid_reset c = c\<lparr>m_error_integral := Fin 0, m_prev_error := Fin 0, m_is_first_time := True\<rparr>"

lemmas pid_defs [op_defs] =
  LowpassFilter1d_def lpf_reset_def lpf_getValue_def lpf_filter_def lpf_setGain_def
  PIDController_def setGains_def setLimits_def pid_reset_def

section \<open>The filter\<close>

text \<open>A gain between 0 and 1 makes the output a mean of the state and the input.\<close>

lemma convex_between:
  fixes g x u lo hi :: real
  assumes "0 \<le> g" "g \<le> 1" "lo \<le> x" "x \<le> hi" "lo \<le> u" "u \<le> hi"
  shows "lo \<le> g * x + (1 - g) * u" "g * x + (1 - g) * u \<le> hi"
proof -
  have "g * lo + (1 - g) * lo \<le> g * x + (1 - g) * u"
    using assms by (intro add_mono mult_left_mono) auto
  then show "lo \<le> g * x + (1 - g) * u" by (simp add: algebra_simps)
  have "g * x + (1 - g) * u \<le> g * hi + (1 - g) * hi"
    using assms by (intro add_mono mult_left_mono) auto
  then show "g * x + (1 - g) * u \<le> hi" by (simp add: algebra_simps)
qed

lemma lpf_filter_value:
  assumes "lpf_x f = Fin x" "lpf_gain f = Fin g" "0 \<le> g" "g \<le> 1"
    and "\<bar>x\<bar> \<le> dbl_max" "\<bar>u\<bar> \<le> dbl_max"
  shows "lpf_filter (Fin u) f = (Fin (g * x + (1 - g) * u), f\<lparr>lpf_x := Fin (g * x + (1 - g) * u)\<rparr>)"
proof -
  have m: "\<bar>c * y\<bar> \<le> dbl_max" if "0 \<le> c" "c \<le> 1" "\<bar>y\<bar> \<le> dbl_max" for c y :: real
    using that mult_mono [of c 1 "\<bar>y\<bar>" dbl_max] by (simp add: abs_mult)
  have "\<bar>1 - g\<bar> \<le> dbl_max"
    using assms dbl_max_ge by simp
  moreover have "\<bar>g * x + (1 - g) * u\<bar> \<le> dbl_max"
    using convex_between [of g "- dbl_max" x dbl_max u] assms by (simp add: abs_le_iff)
  ultimately show ?thesis
    using assms m [of g x] m [of "1 - g" u]
    by (simp add: lpf_filter_def Let_def minus_dbl_def in_range_Fin)
qed

lemma lpf_filter_NaN: "lpf_x f = NaN \<Longrightarrow> fst (lpf_filter u f) = NaN \<and> lpf_x (snd (lpf_filter u f)) = NaN"
  by (simp add: lpf_filter_def Let_def)

section \<open>The feedback law\<close>

definition pid_limits_ok :: "pid_params \<Rightarrow> bool" where
  "pid_limits_ok p \<longleftrightarrow> min_ret_p p \<le> max_ret_p p \<and> min_ret_d p \<le> max_ret_d p \<and> min_ret p \<le> max_ret p
     \<and> Fin 0 < ki p \<and> min_ret_i p \<le> Fin 0 \<and> Fin 0 \<le> max_ret_i p
     \<and> isfinite (ki p) \<and> isfinite (min_ret_i p) \<and> isfinite (max_ret_i p)"

text \<open>The integral stays inside the limits it is clamped to.\<close>

definition integral_ok :: "pid_controller \<Rightarrow> bool" where
  "integral_ok c \<longleftrightarrow> m_error_integral c = NaN
     \<or> (min_ret_i (m_params c) div ki (m_params c) \<le> m_error_integral c
        \<and> m_error_integral c \<le> max_ret_i (m_params c) div ki (m_params c))"

lemma limits_ordered:
  assumes "pid_limits_ok p"
  shows "min_ret_i p div ki p \<le> Fin 0" "Fin 0 \<le> max_ret_i p div ki p"
    "min_ret_i p div ki p \<le> max_ret_i p div ki p"
proof -
  obtain k lo hi where v: "ki p = Fin k" "0 < k" "min_ret_i p = Fin lo" "lo \<le> 0"
    "max_ret_i p = Fin hi" "0 \<le> hi"
    using assms by (auto simp: pid_limits_ok_def isfinite_iff)
  have q: "lo / k \<le> 0" "0 \<le> hi / k"
    using v by (auto simp: divide_nonpos_pos)
  show 1: "min_ret_i p div ki p \<le> Fin 0"
    using v q less_le_trans [OF dbl_max_pos(1), of "lo / k"] by (auto simp: in_range_def)
  show 2: "Fin 0 \<le> max_ret_i p div ki p"
    using v q by (simp add: in_range_nonneg)
  show "min_ret_i p div ki p \<le> max_ret_i p div ki p"
    using 1 2 by (rule dbl_le_trans)
qed

lemma integral_ok_reset: "pid_limits_ok (m_params c) \<Longrightarrow> integral_ok (pid_reset c)"
  by (simp add: integral_ok_def pid_reset_def limits_ordered)

lemma pid_calculate_params:
  "pid_calculate e dt en c = Some (r, cs, c') \<Longrightarrow>
     m_params c' = m_params c \<and> m_is_gains_set c' \<and> m_is_limits_set c'"
  by (auto simp: pid_calculate_def Let_def split: if_splits)

lemma pid_calculate_Some:
  "m_is_gains_set c \<Longrightarrow> m_is_limits_set c \<Longrightarrow> \<exists>r cs c'. pid_calculate e dt en c = Some (r, cs, c')"
  by (simp add: pid_calculate_def Let_def)

lemma integral_ok_calculate:
  assumes "pid_calculate e dt en c = Some (r, cs, c')" and "integral_ok c" "pid_limits_ok (m_params c)"
  shows "integral_ok c'"
proof -
  let ?lo = "min_ret_i (m_params c) div ki (m_params c)" and ?hi = "max_ret_i (m_params c) div ki (m_params c)"
  have "integral_ok c'" if "en"
  proof -
    have "m_error_integral c' = fmin (fmax (m_error_integral c + e * dt) ?lo) ?hi"
      "m_params c' = m_params c"
      using assms(1) that by (auto simp: pid_calculate_def Let_def split: if_splits)
    then show ?thesis
      using limit_bounds [OF limits_ordered(3) [OF assms(3)], of "m_error_integral c + e * dt"]
        limits_ordered [OF assms(3)]
      by (cases "m_error_integral c + e * dt = NaN") (auto simp: integral_ok_def fmin_def fmax_def)
  qed
  moreover have "integral_ok c'" if "\<not> en"
    using assms(1,2) that by (auto simp: pid_calculate_def Let_def integral_ok_def split: if_splits)
  ultimately show ?thesis by blast
qed

lemma pid_result:
  assumes "pid_calculate e dt en c = Some (r, cs, c')" and "pid_limits_ok (m_params c)"
  shows "r = NaN \<or> (min_ret (m_params c) \<le> r \<and> r \<le> max_ret (m_params c))"
proof -
  obtain x where "r = fmin (fmax x (min_ret (m_params c))) (max_ret (m_params c))"
    using assms(1) by (auto simp: pid_calculate_def Let_def split: if_splits)
  then show ?thesis
    using assms(2) limit_bounds [of "min_ret (m_params c)" "max_ret (m_params c)" x]
      limit_NaN [of "min_ret (m_params c)" "max_ret (m_params c)" x]
    by (cases "x = NaN") (auto simp: pid_limits_ok_def fmin_def fmax_def)
qed

section \<open>The feedback law never overflows\<close>

text \<open>
  Gains and limits of any size up to a million, errors of the size of single-precision
  numbers and time steps of at least a millisecond.
\<close>

definition pid_moderate :: "pid_params \<Rightarrow> bool" where
  "pid_moderate p \<longleftrightarrow> pid_limits_ok p \<and> Fin (1 / 10 ^ 6) \<le> ki p
     \<and> (\<forall>x \<in> {kp p, ki p, kd p, max_ret_p p, min_ret_p p, max_ret_i p, min_ret_i p,
              max_ret_d p, min_ret_d p, max_ret p, min_ret p}. bounded_by (10 ^ 6) x)"

definition pid_sane :: "pid_controller \<Rightarrow> bool" where
  "pid_sane c \<longleftrightarrow> m_is_gains_set c \<and> m_is_limits_set c \<and> pid_moderate (m_params c)
     \<and> bounded_by (10 ^ 12) (m_error_integral c) \<and> bounded_by (10 ^ 40) (m_prev_error c) \<and> integral_ok c"

lemma bounded_big: "bounded_by B x \<Longrightarrow> B \<le> 10 ^ 300 \<Longrightarrow> isfinite x \<and> x \<noteq> NaN"
  by (auto simp: bounded_by_def)

lemma pid_sane_reset: "pid_sane c \<Longrightarrow> pid_sane (pid_reset c)"
  using integral_ok_reset [of c]
  by (simp add: pid_sane_def pid_reset_def pid_moderate_def)

lemma pid_sane_calculate:
  assumes "pid_sane c" and "bounded_by (10 ^ 40) e" and "Fin (1 / 10 ^ 3) \<le> dt" and "bounded_by (10 ^ 3) dt"
  obtains r cs c' where "pid_calculate e dt en c = Some (r, cs, c')" and "bounded_by (10 ^ 6) r"
    and "min_ret (m_params c) \<le> r" and "r \<le> max_ret (m_params c)" and "pid_sane c'"
    and "m_params c' = m_params c"
proof -
  let ?p = "m_params c"
  have mod: "pid_moderate ?p"
    using assms(1) by (simp add: pid_sane_def)
  then have w: "bounded_by (10 ^ 6) (kp ?p)" "bounded_by (10 ^ 6) (ki ?p)" "bounded_by (10 ^ 6) (kd ?p)"
    "bounded_by (10 ^ 6) (max_ret_p ?p)" "bounded_by (10 ^ 6) (min_ret_p ?p)" "bounded_by (10 ^ 6) (max_ret_i ?p)"
    "bounded_by (10 ^ 6) (min_ret_i ?p)" "bounded_by (10 ^ 6) (max_ret_d ?p)" "bounded_by (10 ^ 6) (min_ret_d ?p)"
    "bounded_by (10 ^ 6) (max_ret ?p)" "bounded_by (10 ^ 6) (min_ret ?p)"
    and lim: "pid_limits_ok ?p" and kil: "Fin (1 / 10 ^ 6) \<le> ki ?p"
    by (auto simp: pid_moderate_def)
  note big = order_trans [OF _ dbl_max_ge300]
  have p1: "bounded_by (10 ^ 46) (kp ?p * e)"
    by (rule bounded_mono [OF bounded_times [OF w(1) assms(2)]]; (rule big)?; simp)
  have p: "bounded_by (10 ^ 6) (fmin (fmax (kp ?p * e) (min_ret_p ?p)) (max_ret_p ?p))"
    by (rule bounded_limit [OF bounded_not_NaN [OF p1] w(5,4)])
  have kf: "isfinite (ki ?p)"
    using w(2) by (rule bounded_finite)
  have lo: "bounded_by (10 ^ 12) (min_ret_i ?p div ki ?p)"
    by (rule bounded_mono [OF bounded_divide [OF w(7) kil kf]]; (rule big)?; simp)
  have hi: "bounded_by (10 ^ 12) (max_ret_i ?p div ki ?p)"
    by (rule bounded_mono [OF bounded_divide [OF w(6) kil kf]]; (rule big)?; simp)
  define integral where "integral = (if en then fmin (fmax (m_error_integral c + e * dt)
      (min_ret_i ?p div ki ?p)) (max_ret_i ?p div ki ?p) else m_error_integral c)"
  have ei: "bounded_by (10 ^ 12) (m_error_integral c)"
    using assms(1) by (simp add: pid_sane_def)
  have edt: "bounded_by (10 ^ 43) (e * dt)"
    by (rule bounded_mono [OF bounded_times [OF assms(2,4)]]; (rule big)?; simp)
  have "bounded_by (10 ^ 44) (m_error_integral c + e * dt)"
    by (rule bounded_mono [OF bounded_plus [OF ei edt]]; (rule big)?; simp)
  then have i: "bounded_by (10 ^ 12) integral"
    using ei bounded_limit [OF bounded_not_NaN lo hi]
    by (auto simp: integral_def)
  have ri: "bounded_by (10 ^ 18) (ki ?p * integral)"
    by (rule bounded_mono [OF bounded_times [OF w(2) i]]; (rule big)?; simp)
  define diff where "diff = (if m_is_first_time c then Fin 0 else (e - m_prev_error c) div dt)"
  have pe: "bounded_by (10 ^ 40) (m_prev_error c)"
    using assms(1) by (simp add: pid_sane_def)
  have de: "bounded_by (10 ^ 41) (e - m_prev_error c)"
    by (rule bounded_mono [OF bounded_minus [OF assms(2) pe]]; (rule big)?; simp)
  have "bounded_by (10 ^ 44) ((e - m_prev_error c) div dt)"
    by (rule bounded_mono [OF bounded_divide [OF de assms(3) bounded_finite [OF assms(4)]]];
        (rule big)?; simp)
  then have d0: "bounded_by (10 ^ 44) diff"
    by (simp add: diff_def)
  have d1: "bounded_by (10 ^ 50) (kd ?p * diff)"
    by (rule bounded_mono [OF bounded_times [OF w(3) d0]]; (rule big)?; simp)
  have d: "bounded_by (10 ^ 6) (fmin (fmax (kd ?p * diff) (min_ret_d ?p)) (max_ret_d ?p))"
    by (rule bounded_limit [OF bounded_not_NaN [OF d1] w(9,8)])
  define total where "total = fmin (fmax (kp ?p * e) (min_ret_p ?p)) (max_ret_p ?p) + ki ?p * integral
      + fmin (fmax (kd ?p * diff) (min_ret_d ?p)) (max_ret_d ?p)"
  have pi_sum: "bounded_by (10 ^ 20) (fmin (fmax (kp ?p * e) (min_ret_p ?p)) (max_ret_p ?p) + ki ?p * integral)"
    by (rule bounded_mono [OF bounded_plus [OF p ri]]; (rule big)?; simp)
  have "bounded_by (10 ^ 21) total"
    unfolding total_def by (rule bounded_mono [OF bounded_plus [OF pi_sum d]]; (rule big)?; simp)
  then have tot: "total \<noteq> NaN"
    by (rule bounded_not_NaN)
  define r where "r = fmin (fmax total (min_ret ?p)) (max_ret ?p)"
  define c' where "c' = c\<lparr>m_error_integral := integral, m_is_first_time := False, m_prev_error := e\<rparr>"
  obtain cs where calc: "pid_calculate e dt en c = Some (r, cs, c')"
    using assms(1)
    by (simp add: pid_calculate_def pid_sane_def Let_def r_def c'_def total_def integral_def diff_def)
  have "integral_ok c'"
    using integral_ok_calculate [OF calc] assms(1) lim by (simp add: pid_sane_def)
  then have "pid_sane c'"
    using assms(1,2) i by (simp add: pid_sane_def c'_def)
  moreover have "bounded_by (10 ^ 6) r"
    unfolding r_def by (rule bounded_limit [OF tot w(11,10)])
  moreover have "min_ret ?p \<le> r" "r \<le> max_ret ?p"
    unfolding r_def using limit_bounds [OF _ tot] lim by (auto simp: pid_limits_ok_def)
  ultimately show ?thesis
    using calc by (intro that [of r cs c']) (auto simp: c'_def)
qed

end
