(* ===== verification/Smooth_Stop.thy ===== *)
theory Smooth_Stop
  imports Double_Bounds Clock_Time
begin

text \<open>
  \<open>SmoothStop\<close> (\<open>smooth_stop.hpp\<close>, \<open>smooth_stop.cpp\<close>): the deceleration profile of the last
  metres. \<open>m_strong_acc\<close> and \<open>m_weak_acc_time\<close> have no initial value in the code: they are
  options, and reading one before \<open>init\<close> has set it is an error of the model.
\<close>

record stop_params =
  max_strong_acc :: dbl
  min_strong_acc :: dbl
  weak_acc :: dbl
  weak_stop_acc :: dbl
  strong_stop_acc :: dbl
  min_fast_vel :: dbl
  min_running_vel :: dbl
  min_running_acc :: dbl
  weak_stop_time :: dbl
  weak_stop_dist :: dbl
  strong_stop_dist :: dbl

record smooth_stop =
  stop_params :: stop_params
  m_strong_acc :: "dbl option"
  m_weak_acc_time :: "dbl option"
  m_is_set_params :: bool

definition SmoothStop :: smooth_stop where
  "SmoothStop = \<lparr>stop_params = \<lparr>max_strong_acc = 0, min_strong_acc = 0, weak_acc = 0,
       weak_stop_acc = 0, strong_stop_acc = 0, min_fast_vel = 0, min_running_vel = 0,
       min_running_acc = 0, weak_stop_time = 0, weak_stop_dist = 0, strong_stop_dist = 0\<rparr>,
     m_strong_acc = None, m_weak_acc_time = None, m_is_set_params = False\<rparr>"

text \<open>\<open>std::numeric_limits<double>::epsilon()\<close>.\<close>

definition double_epsilon :: dbl where
  "double_epsilon = Fin (1 / 2 ^ 52)"

definition smooth_init :: "int \<Rightarrow> dbl \<Rightarrow> dbl \<Rightarrow> smooth_stop \<Rightarrow> smooth_stop" where
  "smooth_init clk pred_vel_in_target pred_stop_dist s =
     (let s = s\<lparr>m_weak_acc_time := Some (Clock_now clk)\<rparr>;
          p = stop_params s
      in if pred_stop_dist < double_epsilon then s\<lparr>m_strong_acc := Some (min_strong_acc p)\<rparr>
         else
           let acc = (- (pred_vel_in_target * pred_vel_in_target)) div (Fin 2 * pred_stop_dist)
           in s\<lparr>m_strong_acc := Some (fmax (fmin acc (max_strong_acc p)) (min_strong_acc p))\<rparr>)"

definition smooth_setParams :: "stop_params \<Rightarrow> smooth_stop \<Rightarrow> smooth_stop" where
  "smooth_setParams p s = s\<lparr>stop_params := p, m_is_set_params := True\<rparr>"

text \<open>The sums of the fit: mean time, mean speed, and the two sums of products.\<close>

fun fit_sums :: "dbl \<Rightarrow> dbl \<Rightarrow> (dbl \<times> dbl) list \<Rightarrow> dbl \<times> dbl \<times> dbl \<times> dbl \<Rightarrow> dbl \<times> dbl \<times> dbl \<times> dbl" where
  "fit_sums now n [] totals = totals"
| "fit_sums now n ((time, v) # hist) (mean_t, mean_v, sum_tv, sum_tt) =
     (let t = time - now
      in fit_sums now n hist (mean_t + t div n, mean_v + v div n, sum_tv + t * v, sum_tt + t * t))"

text \<open>The outer option is \<open>exit\<close>, the inner one the result of \<open>calcTimeToStop\<close>.\<close>

definition calcTimeToStop :: "int \<Rightarrow> (dbl \<times> dbl) list \<Rightarrow> smooth_stop \<Rightarrow> dbl option option" where
  "calcTimeToStop clk vel_hist s =
     (if \<not> m_is_set_params s then None
      else
        let n = Fin (real (length vel_hist))
        in if vel_hist = [] then Some None
           else
             case fit_sums (Clock_now clk) n vel_hist (Fin 0, Fin 0, Fin 0, Fin 0) of
               (mean_t, mean_v, sum_tv, sum_tt) \<Rightarrow>
                 if \<bar>n * mean_t * mean_t - sum_tt\<bar> < double_epsilon then Some None
                 else
                   let a = (n * mean_t * mean_v - sum_tv) div (n * mean_t * mean_t - sum_tt);
                       b = mean_v - a * mean_t
                   in if \<bar>a\<bar> < double_epsilon then Some None
                      else
                        let time_to_stop = (- b) div a
                        in if time_to_stop > Fin 0 then Some (Some time_to_stop) else Some None)"

text \<open>The two clock readings are those of the fit and of the weak-acceleration timer.\<close>

definition smooth_calculate ::
  "int \<Rightarrow> int \<Rightarrow> dbl \<Rightarrow> dbl \<Rightarrow> dbl \<Rightarrow> (dbl \<times> dbl) list \<Rightarrow> dbl \<Rightarrow> smooth_stop \<Rightarrow> (dbl \<times> smooth_stop) option" where
  "smooth_calculate fit_clk weak_clk stop_dist current_vel current_acc vel_hist delay_time s =
     (case calcTimeToStop fit_clk vel_hist s of
        None \<Rightarrow> None
      | Some time_to_stop \<Rightarrow>
          let p = stop_params s;
              is_fast_vel = (\<bar>current_vel\<bar> > min_fast_vel p);
              is_running = (\<bar>current_vel\<bar> > min_running_vel p \<or> \<bar>current_acc\<bar> > min_running_acc p)
          in if stop_dist < strong_stop_dist p then Some (strong_stop_acc p, s)
             else if stop_dist < weak_stop_dist p then Some (weak_stop_acc p, s)
             else if is_running then
               (if (case time_to_stop of Some t \<Rightarrow> t > weak_stop_time p + delay_time
                    | None \<Rightarrow> is_fast_vel)
                then map_option (\<lambda>a. (a, s)) (m_strong_acc s)
                else Some (weak_acc p, s\<lparr>m_weak_acc_time := Some (Clock_now weak_clk)\<rparr>))
             else
               (case m_weak_acc_time s of
                  None \<Rightarrow> None
                | Some t0 \<Rightarrow>
                    Some (if Clock_now weak_clk - t0 < Fin (1 / 2) then weak_acc p else strong_stop_acc p,
                          s)))"

section \<open>Lemmas\<close>

definition smooth_ready :: "smooth_stop \<Rightarrow> bool" where
  "smooth_ready s \<longleftrightarrow> m_is_set_params s \<and> m_strong_acc s \<noteq> None \<and> m_weak_acc_time s \<noteq> None"

text \<open>The strong acceleration is inside its limits, or was computed from a NaN.\<close>

definition strong_ok :: "smooth_stop \<Rightarrow> bool" where
  "strong_ok s \<longleftrightarrow> (\<forall>a. m_strong_acc s = Some a \<longrightarrow>
     a = NaN \<or> (min_strong_acc (stop_params s) \<le> a \<and> a \<le> max_strong_acc (stop_params s)))"

lemma fmax_fmin_bounds:
  assumes "lo \<le> hi"
  shows "fmax (fmin x hi) lo = NaN \<or> (lo \<le> fmax (fmin x hi) lo \<and> fmax (fmin x hi) lo \<le> hi)"
  using assms by (cases x; cases lo; cases hi) (auto simp: fmax_def fmin_def)

lemma smooth_init_ready: "m_is_set_params s \<Longrightarrow> smooth_ready (smooth_init clk v d s)"
  by (simp add: smooth_ready_def smooth_init_def Let_def)

lemma smooth_init_params [simp]:
  "stop_params (smooth_init clk v d s) = stop_params s"
  "m_is_set_params (smooth_init clk v d s) = m_is_set_params s"
  by (simp_all add: smooth_init_def Let_def)

lemma smooth_init_strong:
  "min_strong_acc (stop_params s) \<le> max_strong_acc (stop_params s) \<Longrightarrow> strong_ok (smooth_init clk v d s)"
  using fmax_fmin_bounds [of "min_strong_acc (stop_params s)" "max_strong_acc (stop_params s)"]
    dbl_refl [of "min_strong_acc (stop_params s)"]
  by (auto simp: strong_ok_def smooth_init_def Let_def)

lemma calcTimeToStop_Some: "m_is_set_params s \<Longrightarrow> \<exists>t. calcTimeToStop clk h s = Some t"
  by (auto simp: calcTimeToStop_def Let_def split: prod.splits)

lemma smooth_calculate_Some:
  assumes "smooth_ready s"
  obtains a s' where "smooth_calculate c1 c2 d v acc h dt s = Some (a, s')" and "smooth_ready s'"
    and "stop_params s' = stop_params s" and "m_strong_acc s' = m_strong_acc s"
    and "a \<in> {strong_stop_acc (stop_params s), weak_stop_acc (stop_params s), weak_acc (stop_params s),
              the (m_strong_acc s)}"
proof -
  obtain t where t: "calcTimeToStop c1 h s = Some t"
    using calcTimeToStop_Some [of s c1 h] assms by (auto simp: smooth_ready_def)
  obtain sa where sa: "m_strong_acc s = Some sa"
    using assms by (auto simp: smooth_ready_def)
  obtain w where w: "m_weak_acc_time s = Some w"
    using assms by (auto simp: smooth_ready_def)
  have "\<exists>a s'. smooth_calculate c1 c2 d v acc h dt s = Some (a, s') \<and> smooth_ready s'
      \<and> stop_params s' = stop_params s \<and> m_strong_acc s' = m_strong_acc s
      \<and> a \<in> {strong_stop_acc (stop_params s), weak_stop_acc (stop_params s), weak_acc (stop_params s),
              the (m_strong_acc s)}"
    unfolding smooth_calculate_def t Let_def option.case sa w
    using assms by (auto simp: smooth_ready_def sa)
  then show ?thesis using that by blast
qed

text \<open>One sample fits every line, so the fit gives nothing.\<close>

lemma single_sample_no_estimate:
  assumes "m_is_set_params s" and "bounded_by (10 ^ 30) t" and "\<bar>clk\<bar> \<le> 2 ^ 63"
  shows "calcTimeToStop clk [(t, v)] s = Some None"
proof -
  have "isfinite (Clock_now clk)"
    by (rule Clock_now_finite [OF assms(3)])
  moreover have "\<bar>value_of (Clock_now clk)\<bar> \<le> 10 ^ 12"
  proof -
    have "\<bar>real_of_int clk\<bar> \<le> 2 ^ 63"
      using assms(3) by (metis of_int_abs of_int_le_iff of_int_numeral of_int_power)
    then show ?thesis
      using assms(3) by (simp add: Clock_now_def seconds_of_ns_Fin abs_le_iff)
  qed
  ultimately have "bounded_by (10 ^ 12) (Clock_now clk)"
    by (simp add: bounded_by_def)
  then have "bounded_by (10 ^ 30 + 10 ^ 12) (t - Clock_now clk)"
    using assms(2) by (intro bounded_intros) (auto intro: order_trans [OF _ dbl_max_ge300])
  then obtain r where r: "t - Clock_now clk = Fin r" "\<bar>r\<bar> \<le> 10 ^ 30 + 10 ^ 12"
    by (rule bounded_cases)
  have "\<bar>r\<bar> \<le> dbl_max"
    using r(2) by (rule order_trans) (rule order_trans [OF _ dbl_max_ge300], simp)
  moreover have "\<bar>r * r\<bar> \<le> dbl_max"
  proof -
    have "\<bar>r\<bar> * \<bar>r\<bar> \<le> (10 ^ 30 + 10 ^ 12) * (10 ^ 30 + 10 ^ 12)"
      using r(2) by (intro mult_mono) auto
    then show ?thesis
      unfolding abs_mult by (rule order_trans) (rule order_trans [OF _ dbl_max_ge300], simp)
  qed
  ultimately show ?thesis
    using assms(1) r(1)
    by (simp add: calcTimeToStop_def Let_def in_range_Fin minus_dbl_def [of "Fin _" "Fin _"]
        double_epsilon_def)
qed

end
