(* ===== verification/Geometry.thy ===== *)
theory Geometry
  imports Doubles Messages
begin

text \<open>
  The part of \<open>autoware_universe_utils\<close> that computes with points and poses
  (\<open>geometry.hpp\<close>, \<open>geometry.cpp\<close>, \<open>pose_deviation.cpp\<close>, \<open>normalization.hpp\<close>), and the
  orientation interpolation of \<open>autoware_interpolation\<close>. The overloads that only select the
  position of a message are written out at their use.

  Eigen is not part of the sources: its operations are the fields of a record that the
  definitions using them take as an argument.
\<close>

record eigen_ops =
  e_slerp :: "quaternion \<Rightarrow> dbl \<Rightarrow> quaternion \<Rightarrow> quaternion"
  e_rotation :: "quaternion \<Rightarrow> nat \<Rightarrow> nat \<Rightarrow> dbl"
  e_dot :: "vector3 \<Rightarrow> vector3 \<Rightarrow> dbl"
  e_norm :: "vector3 \<Rightarrow> dbl"
  e_cross :: "vector3 \<Rightarrow> vector3 \<Rightarrow> vector3"
  e_rotate :: "quaternion \<Rightarrow> vector3 \<Rightarrow> vector3"
  e_compose :: "quaternion \<Rightarrow> quaternion \<Rightarrow> quaternion"
  e_normalize :: "quaternion \<Rightarrow> quaternion"

section \<open>More of the mathematical library\<close>

fun fasin :: "dbl \<Rightarrow> dbl" where
  "fasin (Fin r) = (if \<bar>r\<bar> \<le> 1 then Fin (arcsin r) else NaN)"
| "fasin PInf = NaN"
| "fasin NInf = NaN"
| "fasin NaN = NaN"

text \<open>\<open>std::fmod\<close>: the remainder of the quotient truncated towards zero.\<close>

fun ffmod :: "dbl \<Rightarrow> dbl \<Rightarrow> dbl" where
  "ffmod (Fin a) (Fin b) = (if b = 0 then NaN else Fin (a - b * of_int (trunc (a / b))))"
| "ffmod NaN y = NaN"
| "ffmod x NaN = NaN"
| "ffmod (Fin a) y = Fin a"
| "ffmod x y = NaN"

text \<open>\<open>std::copysign\<close>; a zero and a NaN count as positive.\<close>

definition fcopysign :: "dbl \<Rightarrow> dbl \<Rightarrow> dbl" where
  "fcopysign mag sgn_of = (if sgn_of < 0 then - \<bar>mag\<bar> else \<bar>mag\<bar>)"

section \<open>Angles\<close>

definition normalizeDegree :: "dbl \<Rightarrow> dbl \<Rightarrow> dbl" where
  "normalizeDegree deg min_deg =
     (let max_deg = min_deg + Fin 360;
          val = ffmod deg (Fin 360)
      in if min_deg \<le> val \<and> val < max_deg then val else val - fcopysign (Fin 360) val)"

definition normalizeRadian :: "dbl \<Rightarrow> dbl" where
  "normalizeRadian rad =
     (let min_rad = Fin (- pi);
          max_rad = min_rad + Fin (2 * pi);
          val = ffmod rad (Fin (2 * pi))
      in if min_rad \<le> val \<and> val < max_rad then val else val - fcopysign (Fin (2 * pi)) val)"

definition getYaw :: "quaternion \<Rightarrow> dbl" where
  "getYaw q =
     (let siny_cosp = Fin 2 * (qw q * qz q + qx q * qy q);
          cosy_cosp = Fin 1 - Fin 2 * (qy q * qy q + qz q * qz q)
      in fatan2 siny_cosp cosy_cosp)"

definition getRPY :: "eigen_ops \<Rightarrow> quaternion \<Rightarrow> vector3" where
  "getRPY eig q =
     (let m = e_rotation eig q
      in \<lparr>vx = fatan2 (m 2 1) (m 2 2), vy = fasin (- m 2 0), vz = fatan2 (m 1 0) (m 0 0)\<rparr>)"

definition createQuaternion :: "dbl \<Rightarrow> dbl \<Rightarrow> dbl \<Rightarrow> dbl \<Rightarrow> quaternion" where
  "createQuaternion x y z w = \<lparr>qx = x, qy = y, qz = z, qw = w\<rparr>"

definition createQuaternionFromRPY :: "dbl \<Rightarrow> dbl \<Rightarrow> dbl \<Rightarrow> quaternion" where
  "createQuaternionFromRPY roll pitch yaw =
     (let cr = fcos (roll * Fin (1 / 2)); sr = fsin (roll * Fin (1 / 2));
          cp = fcos (pitch * Fin (1 / 2)); sp = fsin (pitch * Fin (1 / 2));
          cy = fcos (yaw * Fin (1 / 2)); sy = fsin (yaw * Fin (1 / 2))
      in \<lparr>qx = sr * cp * cy - cr * sp * sy, qy = cr * sp * cy + sr * cp * sy,
          qz = cr * cp * sy - sr * sp * cy, qw = cr * cp * cy + sr * sp * sy\<rparr>)"

definition createQuaternionFromYaw :: "dbl \<Rightarrow> quaternion" where
  "createQuaternionFromYaw yaw =
     (let half_yaw = yaw * Fin (1 / 2)
      in \<lparr>qx = 0, qy = 0, qz = fsin half_yaw, qw = fcos half_yaw\<rparr>)"

definition createTranslation :: "dbl \<Rightarrow> dbl \<Rightarrow> dbl \<Rightarrow> vector3" where
  "createTranslation x y z = \<lparr>vx = x, vy = y, vz = z\<rparr>"

section \<open>Distances and directions\<close>

definition calcDistance2d :: "vector3 \<Rightarrow> vector3 \<Rightarrow> dbl" where
  "calcDistance2d p1 p2 = fhypot (vx p1 - vx p2) (vy p1 - vy p2)"

definition calcSquaredDistance2d :: "vector3 \<Rightarrow> vector3 \<Rightarrow> dbl" where
  "calcSquaredDistance2d p1 p2 =
     (let dx = vx p1 - vx p2; dy = vy p1 - vy p2 in dx * dx + dy * dy)"

definition calcDistance3d :: "vector3 \<Rightarrow> vector3 \<Rightarrow> dbl" where
  "calcDistance3d p1 p2 = fhypot (fhypot (vx p1 - vx p2) (vy p1 - vy p2)) (vz p1 - vz p2)"

definition calcElevationAngle :: "vector3 \<Rightarrow> vector3 \<Rightarrow> dbl" where
  "calcElevationAngle p_from p_to = fatan2 (vz p_to - vz p_from) (calcDistance2d p_from p_to)"

definition calcAzimuthAngle :: "vector3 \<Rightarrow> vector3 \<Rightarrow> dbl" where
  "calcAzimuthAngle p_from p_to = fatan2 (vy p_to - vy p_from) (vx p_to - vx p_from)"

text \<open>\<open>calcCurvature\<close> of three points.\<close>

definition calcCurvature :: "vector3 \<Rightarrow> vector3 \<Rightarrow> vector3 \<Rightarrow> dbl" where
  "calcCurvature p1 p2 p3 =
     (let denominator = calcDistance2d p1 p2 * calcDistance2d p2 p3 * calcDistance2d p3 p1
      in if \<bar>denominator\<bar> < Fin (1 / 10 ^ 10) then Fin 0
         else Fin 2 * ((vx p2 - vx p1) * (vy p3 - vy p1) - (vy p2 - vy p1) * (vx p3 - vx p1))
              div denominator)"

definition intersect :: "vector3 \<Rightarrow> vector3 \<Rightarrow> vector3 \<Rightarrow> vector3 \<Rightarrow> vector3 option" where
  "intersect p1 p2 p3 p4 =
     (let det = (vx p1 - vx p2) * (vy p4 - vy p3) - (vx p4 - vx p3) * (vy p1 - vy p2)
      in if feq det (Fin 0) then None
         else
           let t = ((vy p4 - vy p3) * (vx p4 - vx p2) + (vx p3 - vx p4) * (vy p4 - vy p2)) div det;
               s = ((vy p2 - vy p1) * (vx p4 - vx p2) + (vx p1 - vx p2) * (vy p4 - vy p2)) div det
           in if t < 0 \<or> Fin 1 < t \<or> s < 0 \<or> Fin 1 < s then None
              else Some \<lparr>vx = t * vx p1 + (Fin 1 - t) * vx p2,
                         vy = t * vy p1 + (Fin 1 - t) * vy p2,
                         vz = t * vz p1 + (Fin 1 - t) * vz p2\<rparr>)"

definition calcLateralDeviation :: "eigen_ops \<Rightarrow> pose \<Rightarrow> vector3 \<Rightarrow> dbl" where
  "calcLateralDeviation eig base_pose target_point =
     (let base_point = position base_pose;
          yaw = getYaw (orientation base_pose);
          base_unit_vec = \<lparr>vx = fcos yaw, vy = fsin yaw, vz = 0\<rparr>;
          diff_vec = \<lparr>vx = vx target_point - vx base_point,
                      vy = vy target_point - vy base_point, vz = 0\<rparr>
      in vz (e_cross eig base_unit_vec diff_vec))"

definition calcYawDeviation :: "pose \<Rightarrow> pose \<Rightarrow> dbl" where
  "calcYawDeviation base_pose target_pose =
     normalizeRadian (getYaw (orientation target_pose) - getYaw (orientation base_pose))"

text \<open>\<open>isDrivingForward\<close> of two poses.\<close>

definition drivingForward :: "pose \<Rightarrow> pose \<Rightarrow> bool" where
  "drivingForward src_pose dst_pose \<longleftrightarrow>
     \<bar>normalizeRadian (getYaw (orientation src_pose)
        - calcAzimuthAngle (position src_pose) (position dst_pose))\<bar> < Fin (pi / 2)"

section \<open>Interpolation\<close>

text \<open>\<open>autoware::interpolation::lerp\<close> and \<open>autoware::universe_utils::lerp\<close>.\<close>

definition lerp :: "dbl \<Rightarrow> dbl \<Rightarrow> dbl \<Rightarrow> dbl" where
  "lerp src_val dst_val ratio = src_val + (dst_val - src_val) * ratio"

definition lerp_vector :: "vector3 \<Rightarrow> vector3 \<Rightarrow> dbl \<Rightarrow> vector3" where
  "lerp_vector src_vec dst_vec ratio =
     \<lparr>vx = vx src_vec + ratio * (vx dst_vec - vx src_vec),
      vy = vy src_vec + ratio * (vy dst_vec - vy src_vec),
      vz = vz src_vec + ratio * (vz dst_vec - vz src_vec)\<rparr>"

definition lerpOrientation :: "eigen_ops \<Rightarrow> quaternion \<Rightarrow> quaternion \<Rightarrow> dbl \<Rightarrow> quaternion" where
  "lerpOrientation eig o_from o_to ratio = e_slerp eig o_from ratio o_to"

definition calcInterpolatedPoint :: "vector3 \<Rightarrow> vector3 \<Rightarrow> dbl \<Rightarrow> vector3" where
  "calcInterpolatedPoint src dst ratio = lerp_vector src dst (fclamp ratio (Fin 0) (Fin 1))"

definition calcInterpolatedPose :: "eigen_ops \<Rightarrow> pose \<Rightarrow> pose \<Rightarrow> dbl \<Rightarrow> bool \<Rightarrow> pose" where
  "calcInterpolatedPose eig src_pose dst_pose ratio set_orientation_from_position_direction =
     (let clamped_ratio = fclamp ratio (Fin 0) (Fin 1);
          pos = calcInterpolatedPoint (position src_pose) (position dst_pose) clamped_ratio
      in if set_orientation_from_position_direction then
           let input_poses_dist = calcDistance2d (position src_pose) (position dst_pose);
               is_driving_forward = drivingForward src_pose dst_pose
           in if (is_driving_forward \<and> clamped_ratio > Fin 1 - Fin (1 / 10 ^ 6))
                 \<or> input_poses_dist < Fin (1 / 10 ^ 3)
              then \<lparr>position = pos, orientation = orientation dst_pose\<rparr>
              else if \<not> is_driving_forward \<and> clamped_ratio < Fin (1 / 10 ^ 6)
              then \<lparr>position = pos, orientation = orientation src_pose\<rparr>
              else
                let base_pose = (if is_driving_forward then dst_pose else src_pose);
                    pitch = calcElevationAngle pos (position base_pose);
                    yaw = calcAzimuthAngle pos (position base_pose)
                in \<lparr>position = pos, orientation = createQuaternionFromRPY (Fin 0) pitch yaw\<rparr>
         else \<lparr>position = pos,
               orientation = e_slerp eig (orientation src_pose) clamped_ratio (orientation dst_pose)\<rparr>)"

definition calcOffsetPose :: "eigen_ops \<Rightarrow> pose \<Rightarrow> dbl \<Rightarrow> dbl \<Rightarrow> dbl \<Rightarrow> dbl \<Rightarrow> pose" where
  "calcOffsetPose eig p x y z yaw =
     (let offset_translation = createTranslation x y z;
          offset_rotation = createQuaternionFromYaw yaw;
          rotated_offset = e_rotate eig (orientation p) offset_translation;
          result_rotation = e_normalize eig (e_compose eig (orientation p) offset_rotation)
      in \<lparr>position = \<lparr>vx = vx (position p) + vx rotated_offset,
                      vy = vy (position p) + vy rotated_offset,
                      vz = vz (position p) + vz rotated_offset\<rparr>,
          orientation = result_rotation\<rparr>)"

section \<open>Lemmas\<close>

text \<open>A finite angle is normalised into the half-open circle, without a change of direction.\<close>

lemma trunc_frac: "\<bar>r - of_int (trunc r)\<bar> < 1"
  unfolding trunc_def by (auto simp: abs_if) linarith+

lemma ffmod_bound:
  assumes "0 < b"
  obtains r k where "ffmod (Fin a) (Fin b) = Fin r" and "\<bar>r\<bar> < b" and "a = r + b * of_int k"
proof -
  let ?k = "trunc (a / b)"
  have "a - b * of_int ?k = b * (a / b - of_int ?k)"
    using assms by (simp add: right_diff_distrib)
  then have "\<bar>a - b * of_int ?k\<bar> = b * \<bar>a / b - of_int ?k\<bar>"
    using assms by (simp add: abs_mult)
  also have "\<dots> < b * 1"
    using assms trunc_frac by (intro mult_strict_left_mono)
  finally show ?thesis
    using assms by (intro that [of "a - b * of_int ?k" ?k]) auto
qed

lemma normalizeRadian_Fin:
  obtains r k where "normalizeRadian (Fin a) = Fin r" "- pi \<le> r" "r \<le> pi" "a = r + 2 * pi * of_int k"
proof -
  have small: "\<bar>x\<bar> \<le> 10 \<Longrightarrow> fl x = Fin x" for x :: real
    by simp
  obtain v k where v: "ffmod (Fin a) (Fin (2 * pi)) = Fin v" "\<bar>v\<bar> < 2 * pi" "a = v + 2 * pi * of_int k"
    using ffmod_bound [of "2 * pi" a] by auto
  have pi4: "2 \<le> pi" "pi < 4"
    using pi_ge_two pi_half_less_two by auto
  show ?thesis
  proof (cases "- pi \<le> v \<and> v < pi")
    case True
    then have "normalizeRadian (Fin a) = Fin v"
      unfolding normalizeRadian_def v(1) Let_def using pi4 by (simp add: small del: ffmod.simps)
    with True v(3) show ?thesis by (intro that) auto
  next
    case False
    then have "normalizeRadian (Fin a) = Fin v - fcopysign (Fin (2 * pi)) (Fin v)"
      unfolding normalizeRadian_def v(1) Let_def using pi4 by (auto simp: small)
    also have "\<dots> = Fin (if v < 0 then v + 2 * pi else v - 2 * pi)"
      using v(2) pi4 by (auto simp: fcopysign_def minus_dbl_def zero_dbl_def small)
    finally have eq: "normalizeRadian (Fin a) = Fin (if v < 0 then v + 2 * pi else v - 2 * pi)" .
    show ?thesis
      using False v(2,3) pi4
      by (intro that [OF eq, of "if v < 0 then k - 1 else k + 1"]) (auto simp: algebra_simps)
  qed
qed

lemma normalizeRadian_finite: "isfinite x \<Longrightarrow> isfinite (normalizeRadian x)"
  by (metis isfinite.simps(1) isfinite_iff normalizeRadian_Fin)

lemma lerp_ends: "isfinite a \<Longrightarrow> \<bar>value_of a\<bar> \<le> dbl_max \<Longrightarrow> lerp a b (Fin 0) = a \<or> \<not> isfinite (b - a)"
  by (cases a; cases b) (auto simp: lerp_def minus_dbl_def in_range_def)

end
