(* ===== verification/Trajectory_Utils.thy ===== *)
theory Trajectory_Utils
  imports Geometry "HOL-Library.Monad_Syntax"
begin

text \<open>
  \<open>autoware_motion_utils\<close> (\<open>trajectory.hpp\<close>): searches and lengths on the points of a
  trajectory. A function that can throw returns an option, \<open>None\<close> for the exception
  (\<open>std::invalid_argument\<close> on an empty container, \<open>std::out_of_range\<close> of \<open>at\<close>) or the call of
  \<open>exit\<close>. The two overloads that also return an optional value have an option inside.
\<close>

type_synonym tp = trajectory_point

abbreviation tp_position :: "tp \<Rightarrow> vector3" where
  "tp_position p \<equiv> position (tp_pose p)"

definition at_opt :: "'a list \<Rightarrow> nat \<Rightarrow> 'a option" where
  "at_opt xs i = (if i < length xs then Some (xs ! i) else None)"

text \<open>Unsigned subtraction at the 32 bits of \<open>size_t\<close> on the targets.\<close>

definition size_sub :: "nat \<Rightarrow> nat \<Rightarrow> nat" where
  "size_sub a b = (if b \<le> a then a - b else a + 2 ^ 32 - b)"

definition validateNonEmpty :: "tp list \<Rightarrow> unit option" where
  "validateNonEmpty pts = (if pts = [] then None else Some ())"

section \<open>Nearest points\<close>

text \<open>\<open>findNearestIndex\<close> for a point.\<close>

fun nearest_loop :: "vector3 \<Rightarrow> nat \<Rightarrow> dbl \<Rightarrow> nat \<Rightarrow> tp list \<Rightarrow> nat" where
  "nearest_loop p i min_dist min_idx [] = min_idx"
| "nearest_loop p i min_dist min_idx (q # qs) =
     (let dist = calcSquaredDistance2d (tp_position q) p
      in if dist < min_dist then nearest_loop p (i + 1) dist i qs
         else nearest_loop p (i + 1) min_dist min_idx qs)"

definition findNearestIndex :: "tp list \<Rightarrow> vector3 \<Rightarrow> nat option" where
  "findNearestIndex pts p =
     do { validateNonEmpty pts; Some (nearest_loop p 0 (Fin dbl_max) 0 pts) }"

text \<open>\<open>findNearestIndex\<close> for a pose; nothing is found in an empty container.\<close>

fun nearest_pose_loop ::
  "pose \<Rightarrow> dbl \<Rightarrow> dbl \<Rightarrow> nat \<Rightarrow> dbl \<Rightarrow> nat option \<Rightarrow> tp list \<Rightarrow> nat option" where
  "nearest_pose_loop ps max_sq max_yaw i min_sq found [] = found"
| "nearest_pose_loop ps max_sq max_yaw i min_sq found (q # qs) =
     (let squared_dist = calcSquaredDistance2d (tp_position q) (position ps)
      in if squared_dist > max_sq \<or> squared_dist \<ge> min_sq
         then nearest_pose_loop ps max_sq max_yaw (i + 1) min_sq found qs
         else if \<bar>calcYawDeviation (tp_pose q) ps\<bar> > max_yaw
         then nearest_pose_loop ps max_sq max_yaw (i + 1) min_sq found qs
         else nearest_pose_loop ps max_sq max_yaw (i + 1) squared_dist (Some i) qs)"

definition findNearestIndex_pose :: "tp list \<Rightarrow> pose \<Rightarrow> dbl \<Rightarrow> dbl \<Rightarrow> nat option" where
  "findNearestIndex_pose pts ps max_dist max_yaw =
     (if pts = [] then None
      else nearest_pose_loop ps (max_dist * max_dist) max_yaw 0 (Fin dbl_max) None pts)"

text \<open>
  The loop that both constrained searches of
  \<open>findFirstNearestIndexWithSoftConstraints\<close> run: it leaves at the first point outside the
  constraints after one inside.
\<close>

fun soft_loop ::
  "(tp \<Rightarrow> dbl) \<Rightarrow> (tp \<Rightarrow> bool) \<Rightarrow> nat \<Rightarrow> dbl \<Rightarrow> nat option \<Rightarrow> tp list \<Rightarrow> nat option" where
  "soft_loop sq outside i min_sq found [] = found"
| "soft_loop sq outside i min_sq found (q # qs) =
     (if outside q then
        (if found \<noteq> None then found else soft_loop sq outside (i + 1) min_sq found qs)
      else if min_sq \<le> sq q then soft_loop sq outside (i + 1) min_sq found qs
      else soft_loop sq outside (i + 1) (sq q) (Some i) qs)"

definition findFirstNearestIndexWithSoftConstraints ::
  "tp list \<Rightarrow> pose \<Rightarrow> dbl \<Rightarrow> dbl \<Rightarrow> nat option" where
  "findFirstNearestIndexWithSoftConstraints pts ps dist_threshold yaw_threshold =
     do {
       validateNonEmpty pts;
       let squared_dist_threshold = dist_threshold * dist_threshold;
       let sq = (\<lambda>q. calcSquaredDistance2d (tp_position q) (position ps));
       let far = (\<lambda>q. squared_dist_threshold < sq q);
       let turned = (\<lambda>q. yaw_threshold < \<bar>calcYawDeviation (tp_pose q) ps\<bar>);
       (case soft_loop sq (\<lambda>q. far q \<or> turned q) 0 (Fin dbl_max) None pts of
          Some i \<Rightarrow> Some i
        | None \<Rightarrow>
            (case soft_loop sq far 0 (Fin dbl_max) None pts of
               Some i \<Rightarrow> Some i
             | None \<Rightarrow> findNearestIndex pts (position ps)))
     }"

section \<open>Overlapping points\<close>

definition overlapping :: "tp \<Rightarrow> tp \<Rightarrow> bool" where
  "overlapping prev_p curr_p \<longleftrightarrow>
     \<bar>vx (tp_position prev_p) - vx (tp_position curr_p)\<bar> < Fin (1 / 10 ^ 8)
     \<and> \<bar>vy (tp_position prev_p) - vy (tp_position curr_p)\<bar> < Fin (1 / 10 ^ 8)"

fun remove_overlap :: "tp \<Rightarrow> tp list \<Rightarrow> tp list" where
  "remove_overlap prev [] = []"
| "remove_overlap prev (p # ps) =
     (if overlapping prev p then remove_overlap prev ps else p # remove_overlap p ps)"

definition removeOverlapPoints :: "tp list \<Rightarrow> nat \<Rightarrow> tp list" where
  "removeOverlapPoints pts start_idx =
     (if length pts < start_idx + 1 then pts
      else take (start_idx + 1) pts @ remove_overlap (pts ! start_idx) (drop (start_idx + 1) pts))"

section \<open>Lengths\<close>

definition calcLongitudinalOffsetToSegment ::
  "eigen_ops \<Rightarrow> tp list \<Rightarrow> nat \<Rightarrow> vector3 \<Rightarrow> bool \<Rightarrow> dbl option" where
  "calcLongitudinalOffsetToSegment eig pts seg_idx p_target throw_exception =
     (if seg_idx \<ge> size_sub (length pts) 1
      then (if throw_exception then None else Some NaN)
      else
        let kept = removeOverlapPoints pts seg_idx
        in if kept = [] then (if throw_exception then None else Some NaN)
           else if seg_idx \<ge> size_sub (length kept) 1 then Some (Fin 0)
           else do {
             p_front \<leftarrow> at_opt kept seg_idx;
             p_back \<leftarrow> at_opt kept (seg_idx + 1);
             let a = tp_position p_front;
             let b = tp_position p_back;
             let segment_vec = \<lparr>vx = vx b - vx a, vy = vy b - vy a, vz = 0\<rparr>;
             let target_vec = \<lparr>vx = vx p_target - vx a, vy = vy p_target - vy a, vz = 0\<rparr>;
             Some (e_dot eig segment_vec target_vec div e_norm eig segment_vec)
           })"

definition findFirstNearestSegmentIndexWithSoftConstraints ::
  "eigen_ops \<Rightarrow> tp list \<Rightarrow> pose \<Rightarrow> dbl \<Rightarrow> dbl \<Rightarrow> nat option" where
  "findFirstNearestSegmentIndexWithSoftConstraints eig pts ps dist_threshold yaw_threshold =
     do {
       nearest_idx \<leftarrow> findFirstNearestIndexWithSoftConstraints pts ps dist_threshold yaw_threshold;
       if nearest_idx = 0 then Some 0
       else if nearest_idx = size_sub (length pts) 1 then Some (size_sub (length pts) 2)
       else do {
         signed_length \<leftarrow> calcLongitudinalOffsetToSegment eig pts nearest_idx (position ps) False;
         Some (if signed_length \<le> 0 then nearest_idx - 1 else nearest_idx)
       }
     }"

text \<open>\<open>searchZeroVelocityIndex\<close> over a range of indices and over the whole container.\<close>

fun zero_velocity_loop :: "tp list \<Rightarrow> nat list \<Rightarrow> nat option option" where
  "zero_velocity_loop pts [] = Some None"
| "zero_velocity_loop pts (i # is) =
     do {
       p \<leftarrow> at_opt pts i;
       if \<bar>longitudinal_velocity_mps p\<bar> < Fin (1 / 10 ^ 3) then Some (Some i)
       else zero_velocity_loop pts is
     }"

definition searchZeroVelocityIndex :: "tp list \<Rightarrow> nat \<Rightarrow> nat \<Rightarrow> nat option option" where
  "searchZeroVelocityIndex pts src_idx dst_idx =
     (if pts = [] then Some None else zero_velocity_loop pts [src_idx..<dst_idx])"

definition searchZeroVelocityIndex_all :: "tp list \<Rightarrow> nat option option" where
  "searchZeroVelocityIndex_all pts = searchZeroVelocityIndex pts 0 (length pts)"

text \<open>\<open>calcSignedArcLength\<close> between two indices and between two points on their segments.\<close>

fun arc_length_loop :: "tp list \<Rightarrow> nat list \<Rightarrow> dbl \<Rightarrow> dbl option" where
  "arc_length_loop pts [] dist_sum = Some dist_sum"
| "arc_length_loop pts (i # is) dist_sum =
     do {
       p \<leftarrow> at_opt pts i;
       q \<leftarrow> at_opt pts (i + 1);
       arc_length_loop pts is (dist_sum + calcDistance2d (tp_position p) (tp_position q))
     }"

definition calcSignedArcLength :: "tp list \<Rightarrow> nat \<Rightarrow> nat \<Rightarrow> dbl option" where
  "calcSignedArcLength pts src_idx dst_idx =
     (if pts = [] then Some (Fin 0)
      else if src_idx > dst_idx
      then map_option uminus (arc_length_loop pts [dst_idx..<src_idx] (Fin 0))
      else arc_length_loop pts [src_idx..<dst_idx] (Fin 0))"

definition calcSignedArcLength_points ::
  "eigen_ops \<Rightarrow> tp list \<Rightarrow> vector3 \<Rightarrow> nat \<Rightarrow> vector3 \<Rightarrow> nat \<Rightarrow> dbl option" where
  "calcSignedArcLength_points eig pts src_point src_seg_idx dst_point dst_seg_idx =
     do {
       validateNonEmpty pts;
       signed_length_on_traj \<leftarrow> calcSignedArcLength pts src_seg_idx dst_seg_idx;
       src_offset \<leftarrow> calcLongitudinalOffsetToSegment eig pts src_seg_idx src_point False;
       dst_offset \<leftarrow> calcLongitudinalOffsetToSegment eig pts dst_seg_idx dst_point False;
       Some (signed_length_on_traj - src_offset + dst_offset)
     }"

section \<open>Curvature and direction\<close>

text \<open>\<open>calcCurvature\<close> of the points of a container: the ends repeat their neighbours.\<close>

definition curvature_at :: "tp list \<Rightarrow> nat \<Rightarrow> dbl" where
  "curvature_at pts i =
     calcCurvature (tp_position (pts ! (i - 1))) (tp_position (pts ! i)) (tp_position (pts ! (i + 1)))"

definition calcCurvature_points :: "tp list \<Rightarrow> dbl list" where
  "calcCurvature_points pts =
     (let n = length pts
      in if n < 3 then replicate n (Fin 0)
         else
           let inner = map (curvature_at pts) [1..<n - 1]
           in hd inner # inner @ [last inner])"

definition isDrivingForward :: "tp list \<Rightarrow> bool option" where
  "isDrivingForward pts =
     (if length pts < 2 then None else Some (drivingForward (tp_pose (pts ! 0)) (tp_pose (pts ! 1))))"

section \<open>Where the searches end\<close>

lemma at_opt_Some [simp]: "i < length xs \<Longrightarrow> at_opt xs i = Some (xs ! i)"
  by (simp add: at_opt_def)

lemma size_sub_le [simp]: "b \<le> a \<Longrightarrow> size_sub a b = a - b"
  by (simp add: size_sub_def)

lemma validateNonEmpty_Some [simp]: "pts \<noteq> [] \<Longrightarrow> validateNonEmpty pts = Some ()"
  by (simp add: validateNonEmpty_def)

lemma nearest_loop_bound: "m \<le> i \<Longrightarrow> nearest_loop p i d m qs < Suc (i + length qs)"
  by (induction p i d m qs rule: nearest_loop.induct) (auto simp: Let_def less_Suc_eq_le intro: le_SucI)

lemma nearest_loop_index:
  "nearest_loop p i d m qs = m \<or> (i \<le> nearest_loop p i d m qs \<and> nearest_loop p i d m qs < i + length qs)"
  by (induction p i d m qs rule: nearest_loop.induct) (auto simp: Let_def)

lemma findNearestIndex_Some:
  assumes "pts \<noteq> []"
  obtains i where "findNearestIndex pts p = Some i" and "i < length pts"
  using assms nearest_loop_index [of p 0 "Fin dbl_max" 0 pts] by (auto simp: findNearestIndex_def)

lemma soft_loop_index:
  "soft_loop sq outside i m found qs = Some k \<Longrightarrow> found = Some k \<or> (i \<le> k \<and> k < i + length qs)"
proof (induction qs arbitrary: i m found)
  case (Cons q qs)
  show ?case
    using Cons.prems by (auto split: if_splits dest!: Cons.IH)
qed simp

lemma findFirstNearest_Some:
  assumes "pts \<noteq> []"
  obtains i where "findFirstNearestIndexWithSoftConstraints pts ps d y = Some i" and "i < length pts"
proof -
  obtain j where j: "findNearestIndex pts (position ps) = Some j" "j < length pts"
    using findNearestIndex_Some [OF assms] .
  have "\<exists>i. findFirstNearestIndexWithSoftConstraints pts ps d y = Some i \<and> i < length pts"
    using assms j
    by (auto simp: findFirstNearestIndexWithSoftConstraints_def Let_def split: option.splits
        dest: soft_loop_index)
  then show ?thesis using that by blast
qed

text \<open>The nearest index is nearest: no other point is strictly closer.\<close>

lemma nearest_loop_min:
  assumes "\<forall>q \<in> set qs. calcSquaredDistance2d (tp_position q) p \<noteq> NaN" and "d \<noteq> NaN"
    and "nearest_loop p i d m qs = k"
  shows "(k = m \<and> (\<forall>q \<in> set qs. d \<le> calcSquaredDistance2d (tp_position q) p))
    \<or> (i \<le> k \<and> k < i + length qs \<and> calcSquaredDistance2d (tp_position (qs ! (k - i))) p < d
       \<and> (\<forall>q \<in> set qs. calcSquaredDistance2d (tp_position (qs ! (k - i))) p
            \<le> calcSquaredDistance2d (tp_position q) p))"
  using assms
proof (induction p i d m qs rule: nearest_loop.induct)
  case (2 p i d m q qs)
  let ?d = "calcSquaredDistance2d (tp_position q) p"
  have nn: "?d \<noteq> NaN" "\<forall>q \<in> set qs. calcSquaredDistance2d (tp_position q) p \<noteq> NaN"
    using "2.prems" by auto
  show ?case
  proof (cases "?d < d")
    case True
    then have "nearest_loop p (i + 1) ?d i qs = k"
      using "2.prems" by (simp add: Let_def)
    from "2.IH"(1) [OF refl True nn(2,1) this] show ?thesis
    proof
      assume a: "k = i \<and> (\<forall>q \<in> set qs. ?d \<le> calcSquaredDistance2d (tp_position q) p)"
      then show ?thesis using True nn(1) by (auto intro: dbl_refl)
    next
      let ?e = "calcSquaredDistance2d (tp_position (qs ! (k - (i + 1)))) p"
      assume a: "i + 1 \<le> k \<and> k < i + 1 + length qs \<and> ?e < ?d
        \<and> (\<forall>q \<in> set qs. ?e \<le> calcSquaredDistance2d (tp_position q) p)"
      then have "(q # qs) ! (k - i) = qs ! (k - (i + 1))"
        by (simp add: nth_Cons')
      moreover have "?e < d"
        using a True by (meson dbl_less_imp_le dbl_less_le_trans)
      ultimately show ?thesis
        using a True by (auto intro: dbl_less_imp_le)
    qed
  next
    case False
    then have "nearest_loop p (i + 1) d m qs = k"
      using "2.prems" by (simp add: Let_def)
    from "2.IH"(2) [OF refl False nn(2) "2.prems"(2) this] show ?thesis
    proof
      assume "k = m \<and> (\<forall>q \<in> set qs. d \<le> calcSquaredDistance2d (tp_position q) p)"
      then show ?thesis using False nn(1) "2.prems"(2) by (auto intro: dbl_linear)
    next
      let ?e = "calcSquaredDistance2d (tp_position (qs ! (k - (i + 1)))) p"
      assume a: "i + 1 \<le> k \<and> k < i + 1 + length qs \<and> ?e < d
        \<and> (\<forall>q \<in> set qs. ?e \<le> calcSquaredDistance2d (tp_position q) p)"
      then have "(q # qs) ! (k - i) = qs ! (k - (i + 1))"
        by (simp add: nth_Cons')
      moreover have "?e \<le> ?d"
        using a False nn(1) "2.prems"(2)
        by (meson dbl_less_imp_le dbl_less_le_trans dbl_linear)
      ultimately show ?thesis
        using a by auto
    qed
  qed
qed auto

section \<open>Overlap removal\<close>

lemma remove_overlap_length: "length (remove_overlap prev ps) \<le> length ps"
  by (induction prev ps rule: remove_overlap.induct) auto

lemma remove_overlap_apart: "successively (\<lambda>a b. \<not> overlapping a b) (prev # remove_overlap prev ps)"
  by (induction prev ps rule: remove_overlap.induct) auto

lemma remove_overlap_id:
  "successively (\<lambda>a b. \<not> overlapping a b) (prev # ps) \<Longrightarrow> remove_overlap prev ps = ps"
  by (induction prev ps rule: remove_overlap.induct) auto

lemma removeOverlap_zero:
  "removeOverlapPoints pts 0 = (case pts of [] \<Rightarrow> [] | p # ps \<Rightarrow> p # remove_overlap p ps)"
  by (cases pts) (auto simp: removeOverlapPoints_def)

lemma removeOverlap_nonempty [simp]: "removeOverlapPoints pts s = [] \<longleftrightarrow> pts = []"
  by (auto simp: removeOverlapPoints_def)

lemma removeOverlap_apart: "successively (\<lambda>a b. \<not> overlapping a b) (removeOverlapPoints pts 0)"
  using remove_overlap_apart by (auto simp: removeOverlap_zero split: list.splits)

lemma removeOverlap_idem: "removeOverlapPoints (removeOverlapPoints pts 0) 0 = removeOverlapPoints pts 0"
  using remove_overlap_id [OF remove_overlap_apart]
  by (auto simp: removeOverlap_zero split: list.splits)

lemma removeOverlap_length: "length (removeOverlapPoints pts s) \<le> length pts"
proof (cases "length pts < s + 1")
  case False
  then show ?thesis
    using remove_overlap_length [of "pts ! s" "drop (s + 1) pts"]
    by (simp add: removeOverlapPoints_def)
qed (simp add: removeOverlapPoints_def)

lemma set_remove_overlap: "set (remove_overlap prev ps) \<subseteq> set ps"
  by (induction prev ps rule: remove_overlap.induct) auto

lemma set_removeOverlap: "set (removeOverlapPoints pts s) \<subseteq> set pts"
  using set_remove_overlap [of "pts ! s" "drop (s + 1) pts"] set_drop_subset [of "s + 1" pts]
    set_take_subset [of "s + 1" pts]
  by (auto simp: removeOverlapPoints_def)

section \<open>Lengths are defined\<close>

lemma offset_Some:
  assumes "pts \<noteq> []"
  obtains d where "calcLongitudinalOffsetToSegment eig pts i p False = Some d"
proof -
  let ?k = "removeOverlapPoints pts i"
  have "1 \<le> length pts" "1 \<le> length ?k"
    using assms by (simp_all add: Suc_le_eq)
  then have "\<exists>d. calcLongitudinalOffsetToSegment eig pts i p False = Some d"
    by (auto simp: calcLongitudinalOffsetToSegment_def Let_def)
  then show ?thesis using that by blast
qed

lemma nearest_segment_Some:
  assumes "2 \<le> length pts"
  obtains i where "findFirstNearestSegmentIndexWithSoftConstraints eig pts ps d y = Some i"
    and "i + 2 \<le> length pts"
proof -
  have ne: "pts \<noteq> []"
    using assms by auto
  obtain n where n: "findFirstNearestIndexWithSoftConstraints pts ps d y = Some n" "n < length pts"
    using findFirstNearest_Some [OF ne] .
  obtain l where l: "calcLongitudinalOffsetToSegment eig pts n (position ps) False = Some l"
    using offset_Some [OF ne] .
  have "\<exists>i. findFirstNearestSegmentIndexWithSoftConstraints eig pts ps d y = Some i \<and> i + 2 \<le> length pts"
    using assms n l by (auto simp: findFirstNearestSegmentIndexWithSoftConstraints_def)
  then show ?thesis using that by blast
qed

lemma nearest_segment_single:
  "findFirstNearestSegmentIndexWithSoftConstraints eig [p] ps d y = Some 0"
proof -
  obtain n where "findFirstNearestIndexWithSoftConstraints [p] ps d y = Some n" "n < length [p]"
    using findFirstNearest_Some [of "[p]"] by blast
  then show ?thesis
    by (simp add: findFirstNearestSegmentIndexWithSoftConstraints_def)
qed

lemma zero_velocity_loop_cases:
  assumes "\<forall>i \<in> set is. i < length pts"
  shows "zero_velocity_loop pts is =
    Some (find (\<lambda>i. \<bar>longitudinal_velocity_mps (pts ! i)\<bar> < Fin (1 / 10 ^ 3)) is)"
  using assms by (induction "is") auto

lemma searchZero_find:
  "searchZeroVelocityIndex_all pts =
     Some (find (\<lambda>i. \<bar>longitudinal_velocity_mps (pts ! i)\<bar> < Fin (1 / 10 ^ 3)) [0..<length pts])"
  by (simp add: searchZeroVelocityIndex_all_def searchZeroVelocityIndex_def zero_velocity_loop_cases)

lemma searchZero_Some:
  "\<exists>r. searchZeroVelocityIndex_all pts = Some r \<and> (\<forall>i. r = Some i \<longrightarrow> i < length pts)"
  by (auto simp: searchZero_find dest: find_Some_set)

lemma arc_length_loop_Some: "\<forall>i \<in> set is. i + 1 < length pts \<Longrightarrow> \<exists>d. arc_length_loop pts is s = Some d"
  by (induction pts "is" s rule: arc_length_loop.induct) auto

lemma arc_length_Some:
  assumes "i < length pts" and "j < length pts"
  obtains d where "calcSignedArcLength pts i j = Some d"
proof -
  have "\<exists>d. calcSignedArcLength pts i j = Some d"
    using assms arc_length_loop_Some [of "[i..<j]" pts "Fin 0"] arc_length_loop_Some [of "[j..<i]" pts "Fin 0"]
    by (auto simp: calcSignedArcLength_def)
  then show ?thesis using that by blast
qed

lemma arc_length_swap:
  assumes "pts \<noteq> []" and "i \<noteq> j"
  shows "calcSignedArcLength pts j i = map_option uminus (calcSignedArcLength pts i j)"
proof -
  have "- (- x) = x" for x :: dbl
    by (cases x) auto
  then show ?thesis
    using assms by (auto simp: calcSignedArcLength_def option.map_comp o_def option.map_ident)
qed

lemma arc_length_points_Some:
  assumes "i < length pts" and "j < length pts"
  obtains d where "calcSignedArcLength_points eig pts p i q j = Some d"
proof -
  have ne: "pts \<noteq> []"
    using assms by auto
  obtain l where "calcSignedArcLength pts i j = Some l"
    using arc_length_Some [OF assms] .
  moreover obtain a where "calcLongitudinalOffsetToSegment eig pts i p False = Some a"
    using offset_Some [OF ne] .
  moreover obtain b where "calcLongitudinalOffsetToSegment eig pts j q False = Some b"
    using offset_Some [OF ne] .
  ultimately have "calcSignedArcLength_points eig pts p i q j = Some (l - a + b)"
    using ne by (simp add: calcSignedArcLength_points_def)
  then show ?thesis using that by blast
qed

end
