(* ===== verification/Longitudinal_Utils.thy ===== *)
theory Longitudinal_Utils
  imports Trajectory_Utils
begin

text \<open>
  \<open>longitudinal_utils\<close> (\<open>longitudinal_controller_utils.hpp\<close> and \<open>.cpp\<close>). As in the
  trajectory utilities, \<open>None\<close> stands for an exception. Fields of a message that the code
  leaves uninitialised and never reads are zero.
\<close>

definition finite_trajectory_point :: "tp \<Rightarrow> bool" where
  "finite_trajectory_point p \<longleftrightarrow>
     (let ps = tp_pose p in
      isfinite (vx (position ps)) \<and> isfinite (vy (position ps)) \<and> isfinite (vz (position ps))
      \<and> isfinite (qw (orientation ps)) \<and> isfinite (qx (orientation ps))
      \<and> isfinite (qy (orientation ps)) \<and> isfinite (qz (orientation ps))
      \<and> isfinite (longitudinal_velocity_mps p) \<and> isfinite (lateral_velocity_mps p)
      \<and> isfinite (acceleration_mps2 p) \<and> isfinite (heading_rate_rps p))"

definition isValidTrajectory :: "trajectory \<Rightarrow> bool" where
  "isValidTrajectory traj \<longleftrightarrow>
     (if \<exists>p \<in> set (points traj). \<not> finite_trajectory_point p then False
      else if points traj = [] then False else True)"

definition calcStopDistance :: "eigen_ops \<Rightarrow> pose \<Rightarrow> tp list \<Rightarrow> dbl \<Rightarrow> dbl \<Rightarrow> dbl option" where
  "calcStopDistance eig current_pose pts max_dist max_yaw =
     do {
       stop_idx_opt \<leftarrow> searchZeroVelocityIndex_all pts;
       let end_idx = (case stop_idx_opt of Some i \<Rightarrow> i | None \<Rightarrow> size_sub (length pts) 1);
       seg_idx \<leftarrow> findFirstNearestSegmentIndexWithSoftConstraints eig pts current_pose max_dist max_yaw;
       end_point \<leftarrow> at_opt pts end_idx;
       signed_length_on_traj \<leftarrow> calcSignedArcLength_points eig pts (position current_pose) seg_idx
         (tp_position end_point) (min end_idx (size_sub (length pts) 2));
       Some (if isnan signed_length_on_traj then Fin 0 else signed_length_on_traj)
     }"

definition getPitchByPose :: "eigen_ops \<Rightarrow> quaternion \<Rightarrow> dbl" where
  "getPitchByPose eig q = fasin (- e_rotation eig q 2 0)"

text \<open>The indices of \<open>getPitchByTraj\<close>: the first point further away than the wheel base.\<close>

definition pitch_indices :: "tp list \<Rightarrow> nat \<Rightarrow> dbl \<Rightarrow> nat \<times> nat" where
  "pitch_indices pts start_idx wheel_base =
     (case find (\<lambda>i. calcDistance3d (tp_position (pts ! start_idx)) (tp_position (pts ! i)) > wheel_base)
             [start_idx + 1..<length pts] of
        Some i \<Rightarrow> (start_idx, i)
      | None \<Rightarrow> (min start_idx (size_sub (length pts) 2), size_sub (length pts) 1))"

definition getPitchByTraj :: "tp list \<Rightarrow> nat \<Rightarrow> dbl \<Rightarrow> dbl option" where
  "getPitchByTraj pts start_idx wheel_base =
     (if length pts \<le> 1 then Some (Fin 0)
      else do {
        let (prev_idx, next_idx) = pitch_indices pts start_idx wheel_base;
        p \<leftarrow> at_opt pts prev_idx;
        q \<leftarrow> at_opt pts next_idx;
        Some (calcElevationAngle (tp_position p) (tp_position q))
      })"

definition calcPoseAfterTimeDelay :: "pose \<Rightarrow> dbl \<Rightarrow> dbl \<Rightarrow> dbl \<Rightarrow> pose" where
  "calcPoseAfterTimeDelay current_pose delay_time current_vel current_acc =
     (if delay_time \<le> 0 then current_pose
      else
        let time_to_stop = (- current_vel) div current_acc;
            t = (if time_to_stop > 0 \<and> time_to_stop < delay_time then time_to_stop else delay_time);
            yaw = getYaw (orientation current_pose);
            running_distance = t * current_vel + Fin (1 / 2) * current_acc * t * t;
            dx = running_distance * fcos yaw;
            dy = running_distance * fsin yaw;
            pos = position current_pose
        in current_pose\<lparr>position := pos\<lparr>vx := vx pos + dx, vy := vy pos + dy\<rparr>\<rparr>)"

text \<open>\<open>applyDiffLimitFilter\<close> with two limits and with a symmetric one.\<close>

definition applyDiffLimitFilter :: "dbl \<Rightarrow> dbl \<Rightarrow> dbl \<Rightarrow> dbl \<Rightarrow> dbl \<Rightarrow> dbl" where
  "applyDiffLimitFilter input_val prev_val dt max_val min_val =
     (let diff_raw = (input_val - prev_val) div dt;
          diff = fmin (fmax diff_raw min_val) max_val
      in prev_val + diff * dt)"

definition applyDiffLimitFilter_sym :: "dbl \<Rightarrow> dbl \<Rightarrow> dbl \<Rightarrow> dbl \<Rightarrow> dbl" where
  "applyDiffLimitFilter_sym input_val prev_val dt lim_val =
     (let max_val = \<bar>lim_val\<bar>; min_val = - max_val
      in applyDiffLimitFilter input_val prev_val dt max_val min_val)"

definition lerp_position :: "vector3 \<Rightarrow> vector3 \<Rightarrow> dbl \<Rightarrow> vector3" where
  "lerp_position a b ratio =
     \<lparr>vx = lerp (vx a) (vx b) ratio, vy = lerp (vy a) (vy b) ratio, vz = lerp (vz a) (vz b) ratio\<rparr>"

definition lerp_pose :: "eigen_ops \<Rightarrow> pose \<Rightarrow> pose \<Rightarrow> dbl \<Rightarrow> pose" where
  "lerp_pose eig a b ratio =
     \<lparr>position = lerp_position (position a) (position b) ratio,
      orientation = lerpOrientation eig (orientation a) (orientation b) ratio\<rparr>"

definition interpolate_point :: "eigen_ops \<Rightarrow> tp \<Rightarrow> tp \<Rightarrow> dbl \<Rightarrow> tp" where
  "interpolate_point eig a b ratio =
     zero_point\<lparr>tp_pose := lerp_pose eig (tp_pose a) (tp_pose b) ratio,
       longitudinal_velocity_mps :=
         to_float (lerp (longitudinal_velocity_mps a) (longitudinal_velocity_mps b) ratio),
       lateral_velocity_mps := to_float (lerp (lateral_velocity_mps a) (lateral_velocity_mps b) ratio),
       acceleration_mps2 := to_float (lerp (acceleration_mps2 a) (acceleration_mps2 b) ratio),
       heading_rate_rps := to_float (lerp (heading_rate_rps a) (heading_rate_rps b) ratio)\<rparr>"

definition lerpTrajectoryPoint ::
  "eigen_ops \<Rightarrow> tp list \<Rightarrow> pose \<Rightarrow> dbl \<Rightarrow> dbl \<Rightarrow> (tp \<times> nat) option" where
  "lerpTrajectoryPoint eig pts ps max_dist max_yaw =
     (if pts = [] then Some (zero_point, 0)
      else if length pts = 1 then Some (hd pts, 0)
      else do {
        seg_idx \<leftarrow> findFirstNearestSegmentIndexWithSoftConstraints eig pts ps max_dist max_yaw;
        if seg_idx \<ge> size_sub (length pts) 1 then Some (last pts, size_sub (length pts) 2)
        else do {
          len_to_interpolated \<leftarrow> calcLongitudinalOffsetToSegment eig pts seg_idx (position ps) False;
          len_segment \<leftarrow> calcSignedArcLength pts seg_idx (seg_idx + 1);
          let interpolate_ratio =
            (if isfinite len_to_interpolated \<and> isfinite len_segment \<and> \<bar>len_segment\<bar> > Fin (1 / 10 ^ 6)
             then fclamp (len_to_interpolated div len_segment) (Fin 0) (Fin 1) else Fin 0);
          a \<leftarrow> at_opt pts seg_idx;
          b \<leftarrow> at_opt pts (seg_idx + 1);
          Some (interpolate_point eig a b interpolate_ratio, seg_idx)
        }
      })"

fun pose_after_loop :: "eigen_ops \<Rightarrow> tp list \<Rightarrow> nat list \<Rightarrow> dbl \<Rightarrow> pose \<Rightarrow> pose option" where
  "pose_after_loop eig pts [] remain_dist p = Some p"
| "pose_after_loop eig pts (i # is) remain_dist p =
     do {
       a \<leftarrow> at_opt pts i;
       b \<leftarrow> at_opt pts (i + 1);
       let dist = calcDistance3d (tp_position a) (tp_position b);
       if remain_dist < dist then
         if remain_dist \<le> 0 then Some (tp_pose a)
         else Some (lerp_pose eig (tp_pose a) (tp_pose b) (remain_dist div dist))
       else pose_after_loop eig pts is (remain_dist - dist) p
     }"

definition findTrajectoryPoseAfterDistance ::
  "eigen_ops \<Rightarrow> nat \<Rightarrow> dbl \<Rightarrow> tp list \<Rightarrow> pose option" where
  "findTrajectoryPoseAfterDistance eig src_idx distance pts =
     (if pts = [] then None
      else pose_after_loop eig pts [src_idx..<size_sub (length pts) 1] distance (tp_pose (last pts)))"

section \<open>The functions are defined on a trajectory\<close>

lemma calcStopDistance_Some:
  assumes "pts \<noteq> []" and "length pts < 2 ^ 32"
  obtains d where "calcStopDistance eig ps pts md my = Some d"
proof -
  obtain r where r: "searchZeroVelocityIndex_all pts = Some r" "\<And>i. r = Some i \<Longrightarrow> i < length pts"
    using searchZero_Some by blast
  define end_idx where "end_idx = (case r of Some i \<Rightarrow> i | None \<Rightarrow> size_sub (length pts) 1)"
  have len: "1 \<le> length pts"
    using assms(1) by (simp add: Suc_le_eq)
  then have e: "end_idx < length pts"
    using r(2) by (auto simp: end_idx_def split: option.splits)
  have m: "min end_idx (size_sub (length pts) 2) < length pts"
    using e len by (simp add: min_less_iff_disj)
  obtain s where s: "findFirstNearestSegmentIndexWithSoftConstraints eig pts ps md my = Some s"
    "s < length pts"
  proof (cases "2 \<le> length pts")
    case True
    then obtain s where "findFirstNearestSegmentIndexWithSoftConstraints eig pts ps md my = Some s"
      "s + 2 \<le> length pts"
      by (rule nearest_segment_Some)
    then show ?thesis by (intro that) auto
  next
    case False
    then obtain p where p: "pts = [p]"
      using len by (cases pts rule: remdups_adj.cases) auto
    show ?thesis
      by (rule that [of 0]) (simp_all add: p nearest_segment_single)
  qed
  obtain l where "calcSignedArcLength_points eig pts (position ps) s (tp_position (pts ! end_idx))
      (min end_idx (size_sub (length pts) 2)) = Some l"
    using arc_length_points_Some [OF s(2) m] .
  then have "calcStopDistance eig ps pts md my = Some (if isnan l then Fin 0 else l)"
    using r(1) s(1) e by (simp add: calcStopDistance_def end_idx_def [symmetric])
  then show ?thesis using that by blast
qed

lemma getPitchByTraj_Some: "i < length pts \<Longrightarrow> \<exists>d. getPitchByTraj pts i wb = Some d"
  by (auto simp: getPitchByTraj_def pitch_indices_def Let_def split: option.splits
      dest!: find_Some_set)

lemma lerpTrajectoryPoint_Some:
  assumes "pts \<noteq> []"
  obtains p i where "lerpTrajectoryPoint eig pts ps md my = Some (p, i)" and "i + 1 \<le> length pts"
    and "2 \<le> length pts \<longrightarrow> i + 2 \<le> length pts"
proof (cases "2 \<le> length pts")
  case True
  obtain s where s: "findFirstNearestSegmentIndexWithSoftConstraints eig pts ps md my = Some s"
    "s + 2 \<le> length pts"
    using nearest_segment_Some [OF True] .
  obtain o1 where o1: "calcLongitudinalOffsetToSegment eig pts s (position ps) False = Some o1"
    using offset_Some [OF assms] .
  obtain l where l: "calcSignedArcLength pts s (s + 1) = Some l"
    using s(2) by (auto intro: arc_length_Some [of s pts "s + 1"])
  show ?thesis
    using s True
    by (intro that [of "interpolate_point eig (pts ! s) (pts ! (s + 1))
          (if isfinite o1 \<and> isfinite l \<and> \<bar>l\<bar> > Fin (1 / 10 ^ 6)
           then fclamp (o1 div l) (Fin 0) (Fin 1) else Fin 0)" s])
      (auto simp: lerpTrajectoryPoint_def o1 l [simplified] Let_def)
next
  case False
  then have "length pts = 1"
    using assms by (cases pts rule: remdups_adj.cases) auto
  then show ?thesis
    using assms by (intro that [of "hd pts" 0]) (auto simp: lerpTrajectoryPoint_def)
qed

lemma pose_after_loop_Some: "\<forall>i \<in> set is. i + 1 < length pts \<Longrightarrow> \<exists>p. pose_after_loop eig pts is d p0 = Some p"
  by (induction eig pts "is" d p0 rule: pose_after_loop.induct) (auto simp: Let_def)

lemma findTrajectoryPose_Some:
  assumes "pts \<noteq> []"
  obtains p where "findTrajectoryPoseAfterDistance eig i d pts = Some p"
proof -
  have len: "1 \<le> length pts"
    using assms by (simp add: Suc_le_eq)
  have "\<forall>j \<in> set [i..<length pts - 1]. j + 1 < length pts"
    by auto
  then have "\<exists>p. findTrajectoryPoseAfterDistance eig i d pts = Some p"
    using assms len pose_after_loop_Some [of "[i..<length pts - 1]" pts eig d "tp_pose (last pts)"]
    by (simp add: findTrajectoryPoseAfterDistance_def)
  then show ?thesis using that by blast
qed

section \<open>The rate limiter\<close>

text \<open>
  With limits around zero and a positive time step, the filtered value lies between the
  previous value and the input, and moves by at most the limits allow.
\<close>

lemma diff_limit_real:
  fixes x p d hi lo :: real
  assumes "0 < d" and "lo \<le> 0" and "0 \<le> hi"
  defines "y \<equiv> p + min (max ((x - p) / d) lo) hi * d"
  shows "min x p \<le> y" "y \<le> max x p" "y \<le> p + hi * d" "p + lo * d \<le> y"
proof -
  let ?q = "(x - p) / d"
  have q: "?q * d = x - p"
    using assms(1) by simp
  have "min (max ?q lo) hi \<le> max ?q 0" "min ?q 0 \<le> min (max ?q lo) hi"
    "min (max ?q lo) hi \<le> hi" "lo \<le> min (max ?q lo) hi"
    using assms(2,3) by (auto simp: min_def max_def)
  then have "min (max ?q lo) hi * d \<le> max ?q 0 * d" "min ?q 0 * d \<le> min (max ?q lo) hi * d"
    "min (max ?q lo) hi * d \<le> hi * d" "lo * d \<le> min (max ?q lo) hi * d"
    using assms(1) by (auto intro: mult_right_mono)
  moreover have "max ?q 0 * d = max (x - p) 0" "min ?q 0 * d = min (x - p) 0"
    using assms(1) q by (auto simp: max_def min_def field_simps)
  ultimately show "min x p \<le> y" "y \<le> max x p" "y \<le> p + hi * d" "p + lo * d \<le> y"
    unfolding y_def by (auto simp: max_def min_def split: if_splits)
qed

end
