(* ===== verification/Longitudinal_State.thy ===== *)
theory Longitudinal_State
  imports Pid_Controller Smooth_Stop Longitudinal_Utils Follower_Base
begin

text \<open>
  The state of \<open>PidLongitudinalController\<close> (\<open>pid_longitudinal_controller.hpp\<close>): what the
  constructor fixes is a configuration, what changes afterwards is a state.
  \<open>m_debug_values\<close> and \<open>m_diagnostic_data\<close> are written and never read; they are left out,
  and so are the two vehicle dimensions no code reads.
\<close>

record motion =
  vel :: dbl
  acc :: dbl

record state_after_delay =
  sad_vel :: dbl
  sad_acc :: dbl
  running_distance :: dbl

datatype shift = Forward | Reverse

datatype control_state = DRIVE | STOPPING | STOPPED | EMERGENCY

datatype slope_source = RAW_PITCH | TRAJECTORY_PITCH | TRAJECTORY_ADAPTIVE

record control_data =
  is_far_from_trajectory :: bool
  interpolated_traj :: "tp list"
  nearest_idx :: nat
  target_idx :: nat
  cd_state_after_delay :: state_after_delay
  current_motion :: motion
  cd_shift :: shift
  stop_dist :: dbl
  slope_angle :: dbl
  cd_dt :: dbl

definition zero_control_data :: control_data where
  "zero_control_data =
     \<lparr>is_far_from_trajectory = False, interpolated_traj = [], nearest_idx = 0, target_idx = 0,
      cd_state_after_delay = \<lparr>sad_vel = Fin 0, sad_acc = Fin 0, running_distance = Fin 0\<rparr>,
      current_motion = \<lparr>vel = Fin 0, acc = Fin 0\<rparr>, cd_shift = Forward, stop_dist = Fin 0,
      slope_angle = Fin 0, cd_dt = Fin 0\<rparr>"

record lon_config =
  longitudinal_ctrl_period :: dbl
  wheel_base :: dbl
  delay_compensation_time :: dbl
  enable_smooth_stop :: bool
  enable_overshoot_emergency :: bool
  enable_slope_compensation :: bool
  enable_large_tracking_error_emergency :: bool
  enable_keep_stopped_until_steer_convergence :: bool
  drive_state_stop_dist :: dbl
  drive_state_offset_stop_dist :: dbl
  stopping_state_stop_dist :: dbl
  stopped_state_entry_duration_time :: dbl
  stopped_state_entry_vel :: dbl
  stopped_state_entry_acc :: dbl
  emergency_state_overshoot_stop_dist :: dbl
  emergency_state_traj_trans_dev :: dbl
  emergency_state_traj_rot_dev :: dbl
  enable_integration_at_low_speed :: bool
  current_vel_threshold_pid_integrate :: dbl
  time_threshold_before_pid_integrate :: dbl
  enable_brake_keeping_before_stop :: bool
  brake_keeping_acc :: dbl
  stopped_vel :: dbl
  stopped_acc :: dbl
  emergency_vel :: dbl
  emergency_acc :: dbl
  emergency_jerk :: dbl
  acc_feedback_gain :: dbl
  max_acc :: dbl
  min_acc :: dbl
  max_jerk :: dbl
  min_jerk :: dbl
  max_acc_cmd_diff :: dbl
  slope_src :: slope_source
  adaptive_trajectory_velocity_th :: dbl
  max_pitch_rad :: dbl
  min_pitch_rad :: dbl
  ego_nearest_dist_threshold :: dbl
  ego_nearest_yaw_threshold :: dbl

record lon_state =
  m_current_kinematic_state :: odometry
  m_current_accel :: accel_stamped
  m_trajectory :: trajectory
  m_current_operation_mode :: operation_mode
  m_prev_vehicle_is_under_control :: bool
  m_under_control_starting_time :: dbl
  m_control_state :: control_state
  m_pid_vel :: pid_controller
  m_lpf_vel_error :: lowpass
  m_smooth_stop :: smooth_stop
  m_lpf_acc_error :: lowpass
  m_lpf_pitch :: lowpass
  m_ctrl_cmd_vec :: "longitudinal_msg list"
  m_prev_control_time :: dbl
  m_prev_shift :: shift
  m_prev_ctrl_cmd :: motion
  m_prev_raw_ctrl_cmd :: motion
  m_vel_hist :: "(dbl \<times> dbl) list"
  m_prev_keep_stopped_condition :: "bool option"
  m_last_running_time :: dbl
  lateral_sync :: lateral_sync_data

section \<open>Construction\<close>

text \<open>The build-time parameter profile (\<open>common/actuation_param_profile.h\<close>).\<close>

datatype param_profile = Before | After

record actuation_params =
  ap_stopped_acc :: dbl
  ap_emergency_acc :: dbl
  ap_emergency_jerk :: dbl
  ap_min_acc :: dbl
  ap_min_jerk :: dbl

fun actuation_param_profile :: "param_profile \<Rightarrow> actuation_params" where
  "actuation_param_profile Before =
     \<lparr>ap_stopped_acc = Fin (- (4 / 10)), ap_emergency_acc = Fin (- (75 / 100)),
      ap_emergency_jerk = Fin (- 1), ap_min_acc = Fin (- (75 / 100)), ap_min_jerk = Fin (- 1)\<rparr>"
| "actuation_param_profile After =
     \<lparr>ap_stopped_acc = Fin (- (34 / 10)), ap_emergency_acc = Fin (- 5),
      ap_emergency_jerk = Fin (- 3), ap_min_acc = Fin (- 5), ap_min_jerk = Fin (- 5)\<rparr>"

text \<open>The parameters the node already has, by name and type, and the vehicle's wheel base.\<close>

record param_env =
  real_param :: "string \<Rightarrow> dbl option"
  bool_param :: "string \<Rightarrow> bool option"
  text_param :: "string \<Rightarrow> string option"
  vehicle_wheel_base :: dbl
  profile :: param_profile

definition default_to :: "'a \<Rightarrow> 'a option \<Rightarrow> 'a" where
  "default_to d v = (case v of Some x \<Rightarrow> x | None \<Rightarrow> d)"

definition slope_source_of :: "string \<Rightarrow> slope_source" where
  "slope_source_of s =
     (if s = ''raw_pitch'' then RAW_PITCH
      else if s = ''trajectory_pitch'' then TRAJECTORY_PITCH
      else if s = ''trajectory_adaptive'' then TRAJECTORY_ADAPTIVE
      else RAW_PITCH)"

definition lon_configure :: "param_env \<Rightarrow> lon_config" where
  "lon_configure env =
     (let real = (\<lambda>name d. default_to d (real_param env name));
          flag = (\<lambda>name d. default_to d (bool_param env name));
          prof = actuation_param_profile (profile env)
      in \<lparr>longitudinal_ctrl_period = real ''ctrl_period'' (Fin 0),
          wheel_base = vehicle_wheel_base env,
          delay_compensation_time = real ''delay_compensation_time'' (Fin (17 / 100)),
          enable_smooth_stop = flag ''enable_smooth_stop'' True,
          enable_overshoot_emergency = flag ''enable_overshoot_emergency'' True,
          enable_slope_compensation = flag ''enable_slope_compensation'' True,
          enable_large_tracking_error_emergency =
            flag ''enable_large_tracking_error_emergency'' True,
          enable_keep_stopped_until_steer_convergence =
            flag ''enable_keep_stopped_until_steer_convergence'' True,
          drive_state_stop_dist = real ''drive_state_stop_dist'' (Fin (5 / 10)),
          drive_state_offset_stop_dist = real ''drive_state_offset_stop_dist'' (Fin 1),
          stopping_state_stop_dist = real ''stopping_state_stop_dist'' (Fin (5 / 10)),
          stopped_state_entry_duration_time =
            real ''stopped_state_entry_duration_time'' (Fin (1 / 10)),
          stopped_state_entry_vel = real ''stopped_state_entry_vel'' (Fin (1 / 100)),
          stopped_state_entry_acc = real ''stopped_state_entry_acc'' (Fin (1 / 10)),
          emergency_state_overshoot_stop_dist =
            real ''emergency_state_overshoot_stop_dist'' (Fin (15 / 10)),
          emergency_state_traj_trans_dev = real ''emergency_state_traj_trans_dev'' (Fin 3),
          emergency_state_traj_rot_dev = real ''emergency_state_traj_rot_dev'' (Fin (7854 / 10000)),
          enable_integration_at_low_speed = flag ''enable_integration_at_low_speed'' False,
          current_vel_threshold_pid_integrate =
            real ''current_vel_threshold_pid_integration'' (Fin (5 / 10)),
          time_threshold_before_pid_integrate =
            real ''time_threshold_before_pid_integration'' (Fin 2),
          enable_brake_keeping_before_stop = flag ''enable_brake_keeping_before_stop'' False,
          brake_keeping_acc = real ''brake_keeping_acc'' (Fin (- (2 / 10))),
          stopped_vel = real ''stopped_vel'' (Fin 0),
          stopped_acc = real ''stopped_acc'' (ap_stopped_acc prof),
          emergency_vel = real ''emergency_vel'' (Fin 0),
          emergency_acc = real ''emergency_acc'' (ap_emergency_acc prof),
          emergency_jerk = real ''emergency_jerk'' (ap_emergency_jerk prof),
          acc_feedback_gain = real ''acc_feedback_gain'' (Fin 0),
          max_acc = real ''max_acc'' (Fin 3),
          min_acc = real ''min_acc'' (ap_min_acc prof),
          max_jerk = real ''max_jerk'' (Fin 2),
          min_jerk = real ''min_jerk'' (ap_min_jerk prof),
          max_acc_cmd_diff = real ''max_acc_cmd_diff'' (Fin 50),
          slope_src = slope_source_of (default_to ''raw_pitch'' (text_param env ''slope_source'')),
          adaptive_trajectory_velocity_th = real ''adaptive_trajectory_velocity_th'' (Fin 1),
          max_pitch_rad = real ''max_pitch_rad'' (Fin (1 / 10)),
          min_pitch_rad = real ''min_pitch_rad'' (Fin (- (1 / 10))),
          ego_nearest_dist_threshold = real ''ego_nearest_dist_threshold'' (Fin 0),
          ego_nearest_yaw_threshold = real ''ego_nearest_yaw_threshold'' (Fin 0)\<rparr>)"

definition initial_pid :: "param_env \<Rightarrow> pid_controller" where
  "initial_pid env =
     (let real = (\<lambda>name d. default_to d (real_param env name))
      in setLimits (real ''max_out'' (Fin 1)) (real ''min_out'' (Fin (- 1)))
           (real ''max_p_effort'' (Fin 1)) (real ''min_p_effort'' (Fin (- 1)))
           (real ''max_i_effort'' (Fin (3 / 10))) (real ''min_i_effort'' (Fin (- (3 / 10))))
           (real ''max_d_effort'' (Fin 0)) (real ''min_d_effort'' (Fin 0))
           (setGains (real ''kp'' (Fin 1)) (real ''ki'' (Fin (1 / 10))) (real ''kd'' (Fin 0))
              PIDController))"

definition initial_smooth_stop :: "param_env \<Rightarrow> smooth_stop" where
  "initial_smooth_stop env =
     (let real = (\<lambda>name d. default_to d (real_param env name))
      in smooth_setParams
           \<lparr>max_strong_acc = real ''smooth_stop_max_strong_acc'' (Fin (- (5 / 10))),
            min_strong_acc = real ''smooth_stop_min_strong_acc'' (Fin (- (8 / 10))),
            weak_acc = real ''smooth_stop_weak_acc'' (Fin (- (3 / 10))),
            weak_stop_acc = real ''smooth_stop_weak_stop_acc'' (Fin (- (8 / 10))),
            strong_stop_acc = real ''smooth_stop_strong_stop_acc'' (Fin (- (34 / 10))),
            min_fast_vel = real ''smooth_stop_max_fast_vel'' (Fin (5 / 10)),
            min_running_vel = real ''smooth_stop_min_running_vel'' (Fin (1 / 100)),
            min_running_acc = real ''smooth_stop_min_running_acc'' (Fin (1 / 100)),
            weak_stop_time = real ''smooth_stop_weak_stop_time'' (Fin (8 / 10)),
            weak_stop_dist = real ''smooth_stop_weak_stop_dist'' (Fin (- (3 / 10))),
            strong_stop_dist = real ''smooth_stop_strong_stop_dist'' (Fin (- (5 / 10)))\<rparr>
           SmoothStop)"

text \<open>
  The members after the constructor. The messages the code value-initialises are zero;
  \<open>run\<close> sets all of them but the trajectory before it reads them.
\<close>

definition lon_construct :: "param_env \<Rightarrow> int \<Rightarrow> lon_state" where
  "lon_construct env clk =
     (let real = (\<lambda>name d. default_to d (real_param env name))
      in \<lparr>m_current_kinematic_state = zero_odometry, m_current_accel = zero_accel,
          m_trajectory = empty_trajectory,
          m_current_operation_mode = \<lparr>mode_stamp = zero_time, op_mode = 0,
            is_autoware_control_enabled = False, is_in_transition = False,
            is_stop_mode_available = False, is_autonomous_mode_available = False,
            is_local_mode_available = False, is_remote_mode_available = False\<rparr>,
          m_prev_vehicle_is_under_control = False, m_under_control_starting_time = Fin 0,
          m_control_state = STOPPED, m_pid_vel = initial_pid env,
          m_lpf_vel_error = LowpassFilter1d (Fin 0) (real ''lpf_vel_error_gain'' (Fin (9 / 10))),
          m_smooth_stop = initial_smooth_stop env,
          m_lpf_acc_error = LowpassFilter1d (Fin 0) (real ''lpf_acc_error_gain'' (Fin (98 / 100))),
          m_lpf_pitch = LowpassFilter1d (Fin 0) (real ''lpf_pitch_gain'' (Fin (95 / 100))),
          m_ctrl_cmd_vec = [], m_prev_control_time = Fin 0, m_prev_shift = Forward,
          m_prev_ctrl_cmd = \<lparr>vel = Fin 0, acc = Fin 0\<rparr>,
          m_prev_raw_ctrl_cmd = \<lparr>vel = Fin 0, acc = Fin 0\<rparr>,
          m_vel_hist = [], m_prev_keep_stopped_condition = None,
          m_last_running_time = Clock_now clk,
          lateral_sync = \<lparr>is_steer_converged = False\<rparr>\<rparr>)"

end
