(* ===== verification/Longitudinal_Controller.thy ===== *)
theory Longitudinal_Controller
  imports Longitudinal_State
begin

text \<open>
  The operations of \<open>PidLongitudinalController\<close> (\<open>pid_longitudinal_controller.cpp\<close>) in the
  order of the source. A result \<open>None\<close> is an exception, a call of \<open>exit\<close> or undefined
  behaviour: an index out of range, an uninitialised member, a cast out of range. Log output,
  debug values and the code that is commented out have no counterpart.
\<close>

section \<open>Clock readings\<close>

text \<open>The calls of \<open>Clock::now\<close> of one run, in nanoseconds of the system clock.\<close>

record lon_clock =
  dt_clock :: int
  dt_store_clock :: int
  delay_clock :: "nat \<Rightarrow> int"
  delay_last_clock :: int
  running_clock :: int
  stopped_clock :: int
  control_clock :: int
  smooth_init_clock :: int
  integrate_clock :: int
  fit_clock :: int
  weak_clock :: int
  store_clock :: int
  expire_clock :: int
  stamp_clock :: int
  hist_clock :: int

section \<open>Inputs\<close>

definition setKinematicState :: "odometry \<Rightarrow> lon_state \<Rightarrow> lon_state" where
  "setKinematicState msg st = st\<lparr>m_current_kinematic_state := msg\<rparr>"

definition setCurrentAcceleration :: "accel_stamped \<Rightarrow> lon_state \<Rightarrow> lon_state" where
  "setCurrentAcceleration msg st = st\<lparr>m_current_accel := msg\<rparr>"

definition setCurrentOperationMode :: "operation_mode \<Rightarrow> lon_state \<Rightarrow> lon_state" where
  "setCurrentOperationMode msg st = st\<lparr>m_current_operation_mode := msg\<rparr>"

definition setTrajectory :: "trajectory \<Rightarrow> lon_state \<Rightarrow> lon_state" where
  "setTrajectory msg st =
     (if \<not> isValidTrajectory msg then st
      else if length (points msg) < 2 then st
      else st\<lparr>m_trajectory := msg\<rparr>)"

definition lon_controller_isReady :: "input_data \<Rightarrow> bool" where
  "lon_controller_isReady input \<longleftrightarrow> length (points (in_trajectory input)) \<ge> 2"

text \<open>The base class: \<open>sync\<close> and \<open>reset\<close>.\<close>

definition lon_controller_sync :: "lateral_sync_data \<Rightarrow> lon_state \<Rightarrow> lon_state" where
  "lon_controller_sync d st = st\<lparr>lateral_sync := d\<rparr>"

definition lon_controller_reset :: "lon_state \<Rightarrow> lon_state" where
  "lon_controller_reset st = st\<lparr>lateral_sync := (lateral_sync st)\<lparr>is_steer_converged := False\<rparr>\<rparr>"

section \<open>Time\<close>

definition getDt :: "lon_config \<Rightarrow> lon_clock \<Rightarrow> lon_state \<Rightarrow> dbl \<times> lon_state" where
  "getDt cfg clk st =
     (let first = feq (m_prev_control_time st) (Fin 0);
          dt = (if first then longitudinal_ctrl_period cfg
                else Clock_now (dt_clock clk) - m_prev_control_time st);
          st = st\<lparr>m_prev_control_time := Clock_now (dt_store_clock clk)\<rparr>;
          max_dt = longitudinal_ctrl_period cfg * Fin 2;
          min_dt = longitudinal_ctrl_period cfg * Fin (1 / 2)
      in (fmax (fmin dt max_dt) min_dt, st))"

definition getTimeUnderControl :: "lon_clock \<Rightarrow> lon_state \<Rightarrow> dbl" where
  "getTimeUnderControl clk st =
     (if feq (m_under_control_starting_time st) (Fin 0) then Fin 0
      else Clock_now (integrate_clock clk) - m_under_control_starting_time st)"

section \<open>Control data\<close>

definition under_control :: "lon_state \<Rightarrow> bool" where
  "under_control st \<longleftrightarrow> is_autoware_control_enabled (m_current_operation_mode st)
     \<and> op_mode (m_current_operation_mode st) = OPERATION_MODE_STATE_AUTONOMOUS"

definition calcInterpolatedTrajPointAndSegment ::
  "lon_config \<Rightarrow> eigen_ops \<Rightarrow> tp list \<Rightarrow> pose \<Rightarrow> (tp \<times> nat) option" where
  "calcInterpolatedTrajPointAndSegment cfg eig pts ps =
     (if length pts = 1 then Some (hd pts, 0)
      else lerpTrajectoryPoint eig pts ps (ego_nearest_dist_threshold cfg) (ego_nearest_yaw_threshold cfg))"

text \<open>\<open>vector::insert\<close> at an index; undefined behind the end.\<close>

definition insert_at :: "'a list \<Rightarrow> nat \<Rightarrow> 'a \<Rightarrow> 'a list option" where
  "insert_at xs i x = (if i \<le> length xs then Some (take i xs @ x # drop i xs) else None)"

text \<open>\<open>predictedStateAfterDelay\<close>: the loop over the stored commands.\<close>

fun predict_loop ::
  "lon_clock \<Rightarrow> dbl \<Rightarrow> dbl \<Rightarrow> longitudinal_msg list \<Rightarrow> nat list \<Rightarrow> dbl \<times> dbl \<times> dbl \<Rightarrow> dbl \<times> dbl \<times> dbl" where
  "predict_loop clk delay current_vel cmds [] s = s"
| "predict_loop clk delay current_vel cmds (i # is) (pred_vel, pred_acc, travel) =
     (let cmd = cmds ! i;
          stamp = toDouble (lon_stamp cmd)
      in if Clock_now (delay_clock clk i) - stamp < delay then
           let time_to_next_acc =
                 (if i = length cmds - 1
                  then fmin (Clock_now (delay_last_clock clk) - toDouble (lon_stamp (last cmds))) delay
                  else fmin (toDouble (lon_stamp (cmds ! (i + 1))) - stamp) delay);
               a = acceleration cmd;
               pred_acc = fcopysign (Fin 1) (to_float pred_vel) * a;
               travel = travel + \<bar>\<bar>pred_vel\<bar> * time_to_next_acc
                             + Fin (1 / 2) * a * time_to_next_acc * time_to_next_acc\<bar>;
               pred_vel = pred_vel + (if pred_vel < Fin 0 then (- a) * time_to_next_acc
                                      else a * time_to_next_acc)
           in if pred_vel div current_vel < Fin 0 then (Fin 0, pred_acc, travel)
              else predict_loop clk delay current_vel cmds is (pred_vel, pred_acc, travel)
         else predict_loop clk delay current_vel cmds is (pred_vel, pred_acc, travel))"

definition predictedStateAfterDelay ::
  "lon_clock \<Rightarrow> motion \<Rightarrow> dbl \<Rightarrow> lon_state \<Rightarrow> state_after_delay" where
  "predictedStateAfterDelay clk m delay st =
     (let current_vel = vel m; current_acc = acc m
      in if m_ctrl_cmd_vec st = []
            \<or> op_mode (m_current_operation_mode st) \<noteq> OPERATION_MODE_STATE_AUTONOMOUS then
           let time_to_stop = (- current_vel) div current_acc;
               t = (if time_to_stop > Fin 0 \<and> time_to_stop < delay then time_to_stop else delay)
           in \<lparr>sad_vel = current_vel + current_acc * t, sad_acc = current_acc,
               running_distance = \<bar>t * current_vel + Fin (1 / 2) * current_acc * t * t\<bar>\<rparr>
         else
           case predict_loop clk delay current_vel (m_ctrl_cmd_vec st)
                  [0..<length (m_ctrl_cmd_vec st)] (current_vel, current_acc, Fin 0) of
             (pred_vel, pred_acc, travel) \<Rightarrow>
               \<lparr>sad_vel = pred_vel, sad_acc = pred_acc, running_distance = travel\<rparr>)"

definition getCurrentShift :: "control_data \<Rightarrow> lon_state \<Rightarrow> shift option" where
  "getCurrentShift cd st =
     do {
       p \<leftarrow> at_opt (interpolated_traj cd) (target_idx cd);
       let target_vel = longitudinal_velocity_mps p;
       Some (if target_vel > Fin (1 / 10 ^ 5) then Forward
             else if target_vel < Fin (- (1 / 10 ^ 5)) then Reverse
             else m_prev_shift st)
     }"

text \<open>The slope: which pitch is used, and the filter that follows the raw pitch.\<close>

definition slope_of :: "lon_config \<Rightarrow> dbl \<Rightarrow> dbl \<Rightarrow> dbl \<Rightarrow> lon_state \<Rightarrow> dbl \<times> lon_state" where
  "slope_of cfg current_vel raw_pitch traj_pitch st =
     (case lpf_filter raw_pitch (m_lpf_pitch st) of
        (filtered, lpf) \<Rightarrow>
          (case slope_src cfg of
             RAW_PITCH \<Rightarrow> (filtered, st\<lparr>m_lpf_pitch := lpf\<rparr>)
           | TRAJECTORY_PITCH \<Rightarrow> (traj_pitch, st)
           | TRAJECTORY_ADAPTIVE \<Rightarrow>
               (if current_vel > adaptive_trajectory_velocity_th cfg then traj_pitch else filtered,
                st\<lparr>m_lpf_pitch := lpf\<rparr>)))"

text \<open>The two deviations of the ego pose from the trajectory against their limits.\<close>

definition deviates :: "lon_config \<Rightarrow> tp \<Rightarrow> pose \<Rightarrow> bool" where
  "deviates cfg p current_pose \<longleftrightarrow>
     emergency_state_traj_trans_dev cfg < calcDistance2d (tp_position p) (position current_pose)
     \<or> emergency_state_traj_rot_dev cfg <
         \<bar>normalizeRadian (getYaw (orientation (tp_pose p)) - getYaw (orientation current_pose))\<bar>"

text \<open>Delay compensation: the trajectory with the target point, and that point.\<close>

definition compensate_delay ::
  "lon_config \<Rightarrow> eigen_ops \<Rightarrow> state_after_delay \<Rightarrow> tp list \<Rightarrow> nat \<Rightarrow> tp \<Rightarrow> (tp list \<times> tp) option" where
  "compensate_delay cfg eig after pts nearest target_point =
     (if running_distance after > Fin (1 / 100) then
        do {
          let pts = removeOverlapPoints pts 0;
          target_pose \<leftarrow> findTrajectoryPoseAfterDistance eig nearest (running_distance after) pts;
          (q, seg) \<leftarrow> calcInterpolatedTrajPointAndSegment cfg eig pts target_pose;
          pts \<leftarrow> insert_at pts (seg + 1) q;
          Some (pts, q)
        }
      else Some (pts, target_point))"

definition getControlData ::
  "lon_config \<Rightarrow> eigen_ops \<Rightarrow> lon_clock \<Rightarrow> pose \<Rightarrow> lon_state \<Rightarrow> (control_data \<times> lon_state) option" where
  "getControlData cfg eig clk current_pose st =
     (case getDt cfg clk st of
        (dt, st) \<Rightarrow>
          let m = \<lparr>vel = vx (twist_linear (m_current_kinematic_state st)),
                   acc = vx (accel_linear (m_current_accel st))\<rparr>;
              pts = points (m_trajectory st);
              cd = zero_control_data\<lparr>cd_dt := dt, current_motion := m, interpolated_traj := pts\<rparr>
          in if pts = [] then Some (cd\<lparr>is_far_from_trajectory := True\<rparr>, st)
             else do {
               (nearest_point, seg) \<leftarrow> calcInterpolatedTrajPointAndSegment cfg eig pts current_pose;
               pts \<leftarrow> insert_at pts (seg + 1) nearest_point;
               let cd = cd\<lparr>interpolated_traj := pts, nearest_idx := seg + 1, target_idx := seg + 1\<rparr>;
               if deviates cfg nearest_point current_pose
               then Some (cd\<lparr>is_far_from_trajectory := True\<rparr>, st)
               else do {
                 let after = predictedStateAfterDelay clk m (delay_compensation_time cfg) st;
                 (pts, target_point) \<leftarrow> compensate_delay cfg eig after pts (seg + 1) nearest_point;
                 let pts = removeOverlapPoints pts 0;
                 nearest \<leftarrow> findFirstNearestIndexWithSoftConstraints pts (tp_pose nearest_point)
                   (ego_nearest_dist_threshold cfg) (ego_nearest_yaw_threshold cfg);
                 target \<leftarrow> findFirstNearestIndexWithSoftConstraints pts (tp_pose target_point)
                   (ego_nearest_dist_threshold cfg) (ego_nearest_yaw_threshold cfg);
                 let cd = cd\<lparr>cd_state_after_delay := after, interpolated_traj := pts,
                             nearest_idx := nearest, target_idx := target\<rparr>;
                 sh \<leftarrow> getCurrentShift cd st;
                 let st = (if sh \<noteq> m_prev_shift st then st\<lparr>m_pid_vel := pid_reset (m_pid_vel st)\<rparr> else st);
                 let st = st\<lparr>m_prev_shift := sh\<rparr>;
                 near \<leftarrow> at_opt pts nearest;
                 travel \<leftarrow> calcStopDistance eig (tp_pose near) pts
                   (ego_nearest_dist_threshold cfg) (ego_nearest_yaw_threshold cfg);
                 let raw_pitch = Fin (- 1) * getPitchByPose eig (orientation current_pose);
                 traj_pitch \<leftarrow> getPitchByTraj pts target (wheel_base cfg);
                 (case slope_of cfg (vel m) raw_pitch traj_pitch st of
                    (slope, st) \<Rightarrow>
                      Some (cd\<lparr>cd_shift := sh, stop_dist := travel, slope_angle := slope\<rparr>, st))
               }
             })"

section \<open>Control state\<close>

definition changeControlState :: "control_state \<Rightarrow> lon_state \<Rightarrow> lon_state" where
  "changeControlState s st = st\<lparr>m_control_state := s\<rparr>"

definition is_not_running :: "lon_config \<Rightarrow> control_data \<Rightarrow> bool" where
  "is_not_running cfg cd \<longleftrightarrow>
     (let current_vel = vel (current_motion cd);
          is_stopped = (\<bar>current_vel\<bar> < stopped_state_entry_vel cfg)
      in if cd_shift cd = Forward then is_stopped \<or> current_vel < Fin 0
         else is_stopped \<or> Fin 0 < current_vel)"

text \<open>What \<open>updateControlState\<close> updates before the transition.\<close>

definition note_running :: "lon_config \<Rightarrow> lon_clock \<Rightarrow> control_data \<Rightarrow> lon_state \<Rightarrow> lon_state" where
  "note_running cfg clk cd st =
     (if \<not> is_not_running cfg cd then st\<lparr>m_last_running_time := Clock_now (running_clock clk)\<rparr> else st)"

definition stopped_condition :: "lon_config \<Rightarrow> lon_clock \<Rightarrow> lon_state \<Rightarrow> bool" where
  "stopped_condition cfg clk st \<longleftrightarrow>
     (if \<not> feq (m_last_running_time st) (Fin 0)
      then Clock_now (stopped_clock clk) - m_last_running_time st > stopped_state_entry_duration_time cfg
      else False)"

definition note_control :: "lon_clock \<Rightarrow> lon_state \<Rightarrow> lon_state" where
  "note_control clk st =
     (if under_control st \<noteq> m_prev_vehicle_is_under_control st
      then st\<lparr>m_prev_vehicle_is_under_control := under_control st,
              m_under_control_starting_time :=
                (if under_control st then Clock_now (control_clock clk) else Fin 0)\<rparr>
      else st)"

definition emergency_condition :: "lon_config \<Rightarrow> control_data \<Rightarrow> dbl \<Rightarrow> bool" where
  "emergency_condition cfg cd current_vel_cmd \<longleftrightarrow>
     enable_overshoot_emergency cfg \<and> stop_dist cd < - emergency_state_overshoot_stop_dist cfg
     \<and> current_vel_cmd < Fin (1 / 10 ^ 3)"

definition departs_from_stopped :: "lon_config \<Rightarrow> control_data \<Rightarrow> bool" where
  "departs_from_stopped cfg cd \<longleftrightarrow> stop_dist cd > drive_state_stop_dist cfg"

text \<open>The transition out of each control state.\<close>

definition from_drive ::
  "lon_config \<Rightarrow> lon_clock \<Rightarrow> control_data \<Rightarrow> bool \<Rightarrow> bool \<Rightarrow> lon_state \<Rightarrow> lon_state" where
  "from_drive cfg clk cd emergency stopped st =
     (if emergency then changeControlState EMERGENCY st
      else if \<not> under_control st \<and> stopped then changeControlState STOPPED st
      else if enable_smooth_stop cfg then
        (if stop_dist cd < stopping_state_stop_dist cfg then
           let pred_vel_in_target = sad_vel (cd_state_after_delay cd);
               pred_stop_dist = stop_dist cd
                 - Fin (1 / 2) * (pred_vel_in_target + vel (current_motion cd)) * delay_compensation_time cfg
           in changeControlState STOPPING
                (st\<lparr>m_smooth_stop := smooth_init (smooth_init_clock clk) pred_vel_in_target pred_stop_dist
                                       (m_smooth_stop st)\<rparr>)
         else st)
      else if stopped \<and> \<not> departs_from_stopped cfg cd then changeControlState STOPPED st
      else st)"

definition from_stopping ::
  "lon_config \<Rightarrow> control_data \<Rightarrow> bool \<Rightarrow> bool \<Rightarrow> lon_state \<Rightarrow> lon_state" where
  "from_stopping cfg cd emergency stopped st =
     (if emergency then changeControlState EMERGENCY st
      else if stopped then changeControlState STOPPED st
      else if stop_dist cd > drive_state_stop_dist cfg + drive_state_offset_stop_dist cfg then
        changeControlState DRIVE
          (st\<lparr>m_pid_vel := pid_reset (m_pid_vel st),
              m_lpf_vel_error := lpf_reset (Fin 0) (m_lpf_vel_error st),
              m_prev_ctrl_cmd := (m_prev_ctrl_cmd st)\<lparr>acc := fmax (Fin 0) (acc (m_prev_raw_ctrl_cmd st))\<rparr>\<rparr>)
      else st)"

definition from_stopped :: "lon_config \<Rightarrow> control_data \<Rightarrow> lon_state \<Rightarrow> lon_state" where
  "from_stopped cfg cd st =
     (if departs_from_stopped cfg cd then
        let current_keep = (\<bar>vel (current_motion cd)\<bar> < Fin (1 / 10 ^ 3)
              \<and> \<not> is_steer_converged (lateral_sync st));
            keep = (case m_prev_keep_stopped_condition st of
                      None \<Rightarrow> True | Some prev \<Rightarrow> current_keep \<or> prev);
            st = st\<lparr>m_prev_keep_stopped_condition := Some current_keep\<rparr>
        in if enable_keep_stopped_until_steer_convergence cfg \<and> keep then st
           else changeControlState DRIVE
                  (st\<lparr>m_pid_vel := pid_reset (m_pid_vel st),
                      m_lpf_vel_error := lpf_reset (Fin 0) (m_lpf_vel_error st),
                      m_lpf_acc_error := lpf_reset (Fin 0) (m_lpf_acc_error st)\<rparr>)
      else st)"

definition from_emergency :: "bool \<Rightarrow> bool \<Rightarrow> lon_state \<Rightarrow> lon_state" where
  "from_emergency emergency stopped st =
     (if stopped then changeControlState STOPPED st
      else if \<not> emergency \<and> \<not> under_control st then changeControlState DRIVE st
      else st)"

definition updateControlState ::
  "lon_config \<Rightarrow> lon_clock \<Rightarrow> control_data \<Rightarrow> lon_state \<Rightarrow> lon_state option" where
  "updateControlState cfg clk cd st =
     do {
       let st = note_running cfg clk cd st;
       let stopped = stopped_condition cfg clk st;
       p \<leftarrow> at_opt (interpolated_traj cd) (nearest_idx cd);
       let emergency = emergency_condition cfg cd \<bar>longitudinal_velocity_mps p\<bar>;
       let st = note_control clk st;
       let st = (if m_control_state st \<noteq> STOPPED then st\<lparr>m_prev_keep_stopped_condition := None\<rparr> else st);
       Some (case m_control_state st of
               DRIVE \<Rightarrow> from_drive cfg clk cd emergency stopped st
             | STOPPING \<Rightarrow> from_stopping cfg cd emergency stopped st
             | STOPPED \<Rightarrow> from_stopped cfg cd st
             | EMERGENCY \<Rightarrow> from_emergency emergency stopped st)
     }"

end
