(* ===== verification/Longitudinal_Command.thy ===== *)
theory Longitudinal_Command
  imports Longitudinal_Controller
begin

text \<open>
  \<open>PidLongitudinalController\<close>, continued: the acceleration command of each control state, its
  limits, and \<open>run\<close>.
\<close>

section \<open>Commands\<close>

definition calcEmergencyCtrlCmd :: "lon_config \<Rightarrow> dbl \<Rightarrow> lon_state \<Rightarrow> motion" where
  "calcEmergencyCtrlCmd cfg dt st =
     (let v = applyDiffLimitFilter_sym (emergency_vel cfg) (vel (m_prev_raw_ctrl_cmd st)) dt
                (emergency_acc cfg);
          a = fclamp (emergency_acc cfg) (min_acc cfg) (max_acc cfg);
          a = applyDiffLimitFilter_sym a (acc (m_prev_raw_ctrl_cmd st)) dt (emergency_jerk cfg)
      in \<lparr>vel = v, acc = a\<rparr>)"

definition applySlopeCompensation :: "lon_config \<Rightarrow> dbl \<Rightarrow> dbl \<Rightarrow> shift \<Rightarrow> dbl" where
  "applySlopeCompensation cfg input_acc pitch sh =
     (if \<not> enable_slope_compensation cfg then input_acc
      else
        let pitch_limited = fmin (fmax pitch (min_pitch_rad cfg)) (max_pitch_rad cfg);
            sign = (if sh = Forward then Fin 1 else Fin (- 1))
        in input_acc + sign * Fin (981 / 100) * fsin pitch_limited)"

text \<open>The search for the smallest acceleration before the stop point, backwards.\<close>

fun brake_loop :: "tp list \<Rightarrow> nat list \<Rightarrow> dbl \<times> nat \<Rightarrow> dbl \<times> nat" where
  "brake_loop pts [] s = s"
| "brake_loop pts (i # is) (min_acc_before_stop, min_acc_idx) =
     (if acceleration_mps2 (pts ! i) > to_float min_acc_before_stop
      then (min_acc_before_stop, min_acc_idx)
      else brake_loop pts is (acceleration_mps2 (pts ! i), i))"

definition keepBrakeBeforeStop ::
  "lon_config \<Rightarrow> control_data \<Rightarrow> motion \<Rightarrow> nat \<Rightarrow> motion option" where
  "keepBrakeBeforeStop cfg cd target_motion nearest =
     (if \<not> enable_brake_keeping_before_stop cfg then Some target_motion
      else do {
        let pts = interpolated_traj cd;
        stop_idx \<leftarrow> searchZeroVelocityIndex_all pts;
        Some (case stop_idx of
                None \<Rightarrow> target_motion
              | Some k \<Rightarrow>
                  (case brake_loop pts (rev [0..<k + 1]) (Fin dbl_max, 2 ^ 32 - 1) of
                     (min_acc_before_stop, min_acc_idx) \<Rightarrow>
                       let keeping = fmax (brake_keeping_acc cfg) min_acc_before_stop
                       in if nearest \<ge> min_acc_idx \<and> acc target_motion > keeping
                          then target_motion\<lparr>acc := keeping\<rparr> else target_motion))
      })"

definition applyVelocityFeedback ::
  "lon_config \<Rightarrow> lon_clock \<Rightarrow> control_data \<Rightarrow> lon_state \<Rightarrow> (dbl \<times> lon_state) option" where
  "applyVelocityFeedback cfg clk cd st =
     do {
       let vel_sign = (if cd_shift cd = Forward then Fin 1 else Fin (- 1));
       let current_vel = vel (current_motion cd);
       target \<leftarrow> at_opt (interpolated_traj cd) (target_idx cd);
       let target_vel = longitudinal_velocity_mps target;
       let diff_vel = (target_vel - current_vel) * vel_sign;
       let vehicle_is_moving = (\<bar>current_vel\<bar> > current_vel_threshold_pid_integrate cfg);
       let vehicle_is_stuck = (\<not> vehicle_is_moving
             \<and> getTimeUnderControl clk st > time_threshold_before_pid_integrate cfg);
       let enable_integration =
         ((vehicle_is_moving \<or> (enable_integration_at_low_speed cfg \<and> vehicle_is_stuck))
          \<and> under_control st);
       (case lpf_filter diff_vel (m_lpf_vel_error st) of
          (error_vel_filtered, lpf) \<Rightarrow>
            do {
              let st = st\<lparr>m_lpf_vel_error := lpf\<rparr>;
              (pid_acc, contributions, pid) \<leftarrow>
                pid_calculate error_vel_filtered (cd_dt cd) enable_integration (m_pid_vel st);
              let st = st\<lparr>m_pid_vel := pid\<rparr>;
              let ff_scale = fclamp (\<bar>current_vel\<bar> div fmax \<bar>target_vel\<bar> (Fin (1 / 10)))
                    (Fin (1 / 2)) (Fin 2);
              let ff_acc = acceleration_mps2 target * ff_scale;
              Some (ff_acc + pid_acc, st)
            })
     }"

definition storeAccelCmd :: "lon_config \<Rightarrow> lon_clock \<Rightarrow> dbl \<Rightarrow> lon_state \<Rightarrow> lon_state" where
  "storeAccelCmd cfg clk accel st =
     (let cmd = zero_longitudinal\<lparr>lon_stamp := toRosTime (Clock_now (store_clock clk)),
                                  acceleration := to_float accel\<rparr>;
          vec = (if m_control_state st = DRIVE then m_ctrl_cmd_vec st @ [cmd] else []);
          vec = (if length vec \<le> 2 then vec
                 else if Clock_now (expire_clock clk) - toDouble (lon_stamp (vec ! 1))
                         > delay_compensation_time cfg
                 then tl vec else vec)
      in st\<lparr>m_ctrl_cmd_vec := vec\<rparr>)"

text \<open>
  The limits on the raw command outside \<open>EMERGENCY\<close>, and what follows for every control state
  but \<open>STOPPED\<close>: acceleration feedback and slope compensation.
\<close>

definition limit_raw :: "lon_config \<Rightarrow> dbl \<Rightarrow> motion \<Rightarrow> lon_state \<Rightarrow> motion" where
  "limit_raw cfg dt raw st =
     raw\<lparr>acc := applyDiffLimitFilter (fclamp (acc raw) (min_acc cfg) (max_acc cfg))
                 (acc (m_prev_raw_ctrl_cmd st)) dt (max_jerk cfg) (min_jerk cfg)\<rparr>"

definition raw_command ::
  "lon_config \<Rightarrow> lon_clock \<Rightarrow> control_data \<Rightarrow> lon_state \<Rightarrow> (motion \<times> lon_state) option" where
  "raw_command cfg clk cd st =
     (case m_control_state st of
        EMERGENCY \<Rightarrow> Some (calcEmergencyCtrlCmd cfg (cd_dt cd) st, st)
      | DRIVE \<Rightarrow>
          do {
            target \<leftarrow> at_opt (interpolated_traj cd) (target_idx cd);
            (a, st) \<leftarrow> applyVelocityFeedback cfg clk cd st;
            raw \<leftarrow> keepBrakeBeforeStop cfg cd \<lparr>vel = longitudinal_velocity_mps target, acc = a\<rparr>
                     (target_idx cd);
            Some (limit_raw cfg (cd_dt cd) raw st, st)
          }
      | STOPPING \<Rightarrow>
          do {
            (a, ss) \<leftarrow> smooth_calculate (fit_clock clk) (weak_clock clk) (stop_dist cd)
              (vel (current_motion cd)) (acc (current_motion cd)) (m_vel_hist st)
              (delay_compensation_time cfg) (m_smooth_stop st);
            let st = st\<lparr>m_smooth_stop := ss\<rparr>;
            Some (limit_raw cfg (cd_dt cd) \<lparr>vel = stopped_vel cfg, acc = a\<rparr> st, st)
          }
      | STOPPED \<Rightarrow> None)"

definition compensated ::
  "lon_config \<Rightarrow> control_data \<Rightarrow> motion \<Rightarrow> lon_state \<Rightarrow> motion \<times> lon_state" where
  "compensated cfg cd raw st =
     (let st = st\<lparr>m_prev_raw_ctrl_cmd := raw\<rparr>;
          acc_err = acc (current_motion cd) - acc raw
      in case lpf_filter acc_err (m_lpf_acc_error st) of
           (filtered, lpf) \<Rightarrow>
             let st = st\<lparr>m_lpf_acc_error := lpf\<rparr>;
                 acc_cmd = acc raw - lpf_getValue lpf * acc_feedback_gain cfg
             in (\<lparr>vel = vel raw,
                  acc = applySlopeCompensation cfg acc_cmd (slope_angle cd) (cd_shift cd)\<rparr>, st))"

definition calcCtrlCmd ::
  "lon_config \<Rightarrow> lon_clock \<Rightarrow> control_data \<Rightarrow> lon_state \<Rightarrow> (motion \<times> lon_state) option" where
  "calcCtrlCmd cfg clk cd st =
     do {
       at_opt (interpolated_traj cd) (target_idx cd);
       (cmd, st) \<leftarrow>
         (if m_control_state st = STOPPED
          then Some (\<lparr>vel = stopped_vel cfg, acc = stopped_acc cfg\<rparr>,
                     st\<lparr>m_prev_raw_ctrl_cmd := \<lparr>vel = Fin 0, acc = Fin 0\<rparr>\<rparr>)
          else do {
            (raw, st) \<leftarrow> raw_command cfg clk cd st;
            Some (compensated cfg cd raw st)
          });
       let st = storeAccelCmd cfg clk (acc (m_prev_raw_ctrl_cmd st)) st;
       let a = applyDiffLimitFilter_sym (acc cmd) (acc (m_prev_ctrl_cmd st)) (cd_dt cd)
                 (max_acc_cmd_diff cfg);
       Some (cmd\<lparr>acc := a\<rparr>, st)
     }"

text \<open>The message, and the history of at most delay divided by period speeds.\<close>

definition createCtrlCmdMsg ::
  "lon_config \<Rightarrow> lon_clock \<Rightarrow> motion \<Rightarrow> dbl \<Rightarrow> lon_state \<Rightarrow> (longitudinal_msg \<times> lon_state) option" where
  "createCtrlCmdMsg cfg clk cmd current_vel st =
     do {
       let msg = zero_longitudinal\<lparr>lon_stamp := toRosTime (Clock_now (stamp_clock clk)),
             velocity := to_float (vel cmd), acceleration := to_float (acc cmd), jerk := Fin 0,
             is_defined_acceleration := True, is_defined_jerk := False\<rparr>;
       let hist = m_vel_hist st @ [(Clock_now (hist_clock clk), current_vel)];
       room \<leftarrow> cast_u32 (delay_compensation_time cfg div longitudinal_ctrl_period cfg);
       Some (msg, st\<lparr>m_vel_hist := drop (length hist - nat room) hist, m_prev_ctrl_cmd := cmd\<rparr>)
     }"

section \<open>\<open>run\<close>\<close>

definition lon_output_of :: "longitudinal_msg \<Rightarrow> longitudinal_output" where
  "lon_output_of msg = \<lparr>lon_control_cmd = msg, lon_horizon_step_ms = Fin 0, lon_horizon = [msg]\<rparr>"

definition lon_controller_run ::
  "lon_config \<Rightarrow> eigen_ops \<Rightarrow> lon_clock \<Rightarrow> input_data \<Rightarrow> lon_state \<Rightarrow> (longitudinal_output \<times> lon_state) option" where
  "lon_controller_run cfg eig clk input st =
     do {
       let st = setTrajectory (in_trajectory input) st;
       let st = setKinematicState (in_odometry input) st;
       let st = setCurrentAcceleration (in_accel input) st;
       let st = setCurrentOperationMode (in_operation_mode input) st;
       let current_pose = odom_pose (m_current_kinematic_state st);
       (cd, st) \<leftarrow> getControlData cfg eig clk current_pose st;
       if is_far_from_trajectory cd then
         do {
           let st = (if enable_large_tracking_error_emergency cfg
                     then changeControlState EMERGENCY st else st);
           let raw = calcEmergencyCtrlCmd cfg (cd_dt cd) st;
           let st = st\<lparr>m_prev_raw_ctrl_cmd := raw\<rparr>;
           (msg, st) \<leftarrow> createCtrlCmdMsg cfg clk raw (vel (current_motion cd)) st;
           Some (lon_output_of msg, st)
         }
       else
         do {
           st \<leftarrow> updateControlState cfg clk cd st;
           (cmd, st) \<leftarrow> calcCtrlCmd cfg clk cd st;
           (msg, st) \<leftarrow> createCtrlCmdMsg cfg clk cmd (vel (current_motion cd)) st;
           Some (lon_output_of msg, st)
         }
     }"

end
