(* ===== verification/Longitudinal_Facts.thy ===== *)
theory Longitudinal_Facts
  imports Longitudinal_Command
begin

text \<open>
  Facts about one run of the longitudinal controller: what each step leaves unchanged, that no
  step fails, and which points the trajectory it works on can contain.
\<close>

section \<open>Interpolated points\<close>

text \<open>A property of points that interpolation keeps.\<close>

definition convex_points :: "(tp \<Rightarrow> bool) \<Rightarrow> bool" where
  "convex_points Q \<longleftrightarrow>
     (\<forall>eig a b r. Q a \<longrightarrow> Q b \<longrightarrow> 0 \<le> r \<longrightarrow> r \<le> 1 \<longrightarrow> Q (interpolate_point eig a b (Fin r)))"

lemma fclamp_unit:
  assumes "x \<noteq> NaN"
  obtains r where "fclamp x (Fin 0) (Fin 1) = Fin r" "0 \<le> r" "r \<le> 1"
proof -
  have "\<exists>r. fclamp x (Fin 0) (Fin 1) = Fin r \<and> 0 \<le> r \<and> r \<le> 1"
    using assms by (cases x) (auto simp: fclamp_def)
  then show ?thesis using that by blast
qed

lemma finite_quotient_not_NaN: "isfinite x \<Longrightarrow> isfinite y \<Longrightarrow> \<bar>y\<bar> > Fin c \<Longrightarrow> 0 \<le> c \<Longrightarrow> x div y \<noteq> NaN"
  by (cases x; cases y) auto

lemma at_opt_eq_Some: "at_opt xs i = Some x \<longleftrightarrow> i < length xs \<and> x = xs ! i"
  by (auto simp: at_opt_def)

lemma lerpTrajectoryPoint_convex:
  assumes "convex_points Q" and "\<forall>p \<in> set pts. Q p" and "pts \<noteq> []"
    and "lerpTrajectoryPoint eig pts ps md my = Some (p, i)"
  shows "Q p"
proof (cases "length pts = 1")
  case True
  then show ?thesis using assms by (auto simp: lerpTrajectoryPoint_def)
next
  case False
  obtain s where s: "findFirstNearestSegmentIndexWithSoftConstraints eig pts ps md my = Some s"
    using assms(3,4) False by (auto simp: lerpTrajectoryPoint_def bind_eq_Some_conv)
  show ?thesis
  proof (cases "s \<ge> size_sub (length pts) 1")
    case True
    then show ?thesis using assms False s by (auto simp: lerpTrajectoryPoint_def)
  next
    case nlast: False
    then obtain x l where xl: "calcLongitudinalOffsetToSegment eig pts s (position ps) False = Some x"
      "calcSignedArcLength pts s (s + 1) = Some l" "s + 1 < length pts"
      and p: "p = interpolate_point eig (pts ! s) (pts ! (s + 1))
        (if isfinite x \<and> isfinite l \<and> \<bar>l\<bar> > Fin (1 / 10 ^ 6)
         then fclamp (x div l) (Fin 0) (Fin 1) else Fin 0)"
      using assms(3,4) False s
      by (auto simp: lerpTrajectoryPoint_def bind_eq_Some_conv at_opt_eq_Some Let_def)
    obtain r where "(if isfinite x \<and> isfinite l \<and> \<bar>l\<bar> > Fin (1 / 10 ^ 6)
         then fclamp (x div l) (Fin 0) (Fin 1) else Fin 0) = Fin r" "0 \<le> r" "r \<le> 1"
      using fclamp_unit [of "x div l"] finite_quotient_not_NaN [of x l "1 / 10 ^ 6"]
      by (metis (no_types, lifting) divide_nonneg_nonneg order_refl zero_le_numeral zero_le_one zero_le_power)
    then show ?thesis
      using assms(1,2) xl(3) by (auto simp: p convex_points_def)
  qed
qed

lemma interpolated_Some:
  assumes "pts \<noteq> []"
  obtains p i where "calcInterpolatedTrajPointAndSegment cfg eig pts ps = Some (p, i)"
    and "i + 1 \<le> length pts"
proof (cases "length pts = 1")
  case True
  then show ?thesis
    by (intro that [of "hd pts" 0]) (auto simp: calcInterpolatedTrajPointAndSegment_def)
next
  case False
  obtain p i where "lerpTrajectoryPoint eig pts ps (ego_nearest_dist_threshold cfg)
      (ego_nearest_yaw_threshold cfg) = Some (p, i)" "i + 1 \<le> length pts"
    using lerpTrajectoryPoint_Some [OF assms] by blast
  then show ?thesis
    using False by (intro that) (auto simp: calcInterpolatedTrajPointAndSegment_def)
qed

lemma interpolated_convex:
  assumes "convex_points Q" and "\<forall>p \<in> set pts. Q p" and "pts \<noteq> []"
    and "calcInterpolatedTrajPointAndSegment cfg eig pts ps = Some (p, i)"
  shows "Q p"
  using assms lerpTrajectoryPoint_convex [OF assms(1-3)]
  by (auto simp: calcInterpolatedTrajPointAndSegment_def split: if_splits)

lemma insert_at_Some: "i \<le> length xs \<Longrightarrow> insert_at xs i x = Some (take i xs @ x # drop i xs)"
  by (simp add: insert_at_def)

lemma insert_at_eq_Some:
  "insert_at xs i x = Some ys \<longleftrightarrow> i \<le> length xs \<and> ys = take i xs @ x # drop i xs"
  by (auto simp: insert_at_def)

lemma insert_at_set:
  assumes "insert_at xs i x = Some ys"
  shows "set ys = insert x (set xs)" "length ys = Suc (length xs)" "ys \<noteq> []"
proof -
  have "ys = take i xs @ x # drop i xs" "i \<le> length xs"
    using assms by (auto simp: insert_at_eq_Some)
  moreover have "set (take i xs) \<union> set (drop i xs) = set xs"
    by (metis append_take_drop_id set_append)
  ultimately show "set ys = insert x (set xs)" "length ys = Suc (length xs)" "ys \<noteq> []"
    by auto
qed

section \<open>Delay compensation\<close>

lemma compensate_delay_Some:
  assumes "pts \<noteq> []"
  obtains pts' q where "compensate_delay cfg eig after pts n p = Some (pts', q)" and "pts' \<noteq> []"
    and "length pts' \<le> Suc (length pts)"
proof (cases "running_distance after > Fin (1 / 100)")
  case True
  let ?pts = "removeOverlapPoints pts 0"
  have ne: "?pts \<noteq> []"
    using assms by simp
  obtain tp where tp: "findTrajectoryPoseAfterDistance eig n (running_distance after) ?pts = Some tp"
    using findTrajectoryPose_Some [OF ne] .
  obtain q i where q: "calcInterpolatedTrajPointAndSegment cfg eig ?pts tp = Some (q, i)"
    "i + 1 \<le> length ?pts"
    using interpolated_Some [OF ne] .
  let ?ys = "take (i + 1) ?pts @ q # drop (i + 1) ?pts"
  have ys: "insert_at ?pts (i + 1) q = Some ?ys"
    using q(2) by (rule insert_at_Some)
  have "length ?ys \<le> Suc (length pts)"
    using insert_at_set(2) [OF ys] removeOverlap_length [of pts 0] by linarith
  then show ?thesis
    using True tp q ys by (intro that [of ?ys q]) (auto simp: compensate_delay_def Let_def)
next
  case False
  then show ?thesis
    using assms by (intro that [of pts p]) (auto simp: compensate_delay_def)
qed

lemma compensate_delay_convex:
  assumes "convex_points Q" and "\<forall>p \<in> set pts. Q p" and "pts \<noteq> []" and "Q p"
    and "compensate_delay cfg eig after pts n p = Some (pts', q)"
  shows "(\<forall>p \<in> set pts'. Q p) \<and> Q q"
proof (cases "running_distance after > Fin (1 / 100)")
  case True
  let ?pts = "removeOverlapPoints pts 0"
  have ne: "?pts \<noteq> []" and all: "\<forall>p \<in> set ?pts. Q p"
    using assms(2,3) set_removeOverlap [of pts 0] by auto
  obtain tp i where q: "calcInterpolatedTrajPointAndSegment cfg eig ?pts tp = Some (q, i)"
    and ys: "insert_at ?pts (i + 1) q = Some pts'"
    using assms(5) True by (auto simp: compensate_delay_def Let_def bind_eq_Some_conv)
  have "Q q"
    by (rule interpolated_convex [OF assms(1) all ne q])
  then show ?thesis
    using all insert_at_set(1) [OF ys] by auto
qed (use assms in \<open>auto simp: compensate_delay_def\<close>)

section \<open>Control data\<close>

lemma slope_of_state:
  obtains f where "snd (slope_of cfg v rp tp st) = st\<lparr>m_lpf_pitch := f\<rparr>"
proof -
  have "\<exists>f. snd (slope_of cfg v rp tp st) = st\<lparr>m_lpf_pitch := f\<rparr>"
    by (cases "slope_src cfg") (auto simp: slope_of_def split: prod.splits intro: exI [of _ "m_lpf_pitch st"])
  then show ?thesis using that by blast
qed

lemma getCurrentShift_Some:
  "target_idx cd < length (interpolated_traj cd) \<Longrightarrow> \<exists>s. getCurrentShift cd st = Some s"
  by (simp add: getCurrentShift_def Let_def)

text \<open>Every member but the four it names is left alone by \<open>getControlData\<close>.\<close>

definition data_step :: "lon_state \<Rightarrow> lon_state \<Rightarrow> bool" where
  "data_step st st' \<longleftrightarrow>
     (\<exists>t p sh f. st' = st\<lparr>m_prev_control_time := t, m_pid_vel := p, m_prev_shift := sh, m_lpf_pitch := f\<rparr>
        \<and> (p = m_pid_vel st \<or> p = pid_reset (m_pid_vel st)))"

definition data_ok :: "control_data \<Rightarrow> bool" where
  "data_ok cd \<longleftrightarrow> is_far_from_trajectory cd
     \<or> (nearest_idx cd < length (interpolated_traj cd) \<and> target_idx cd < length (interpolated_traj cd))"

lemma getDt_state: "snd (getDt cfg clk st) = st\<lparr>m_prev_control_time := Clock_now (dt_store_clock clk)\<rparr>"
  by (simp add: getDt_def Let_def)

lemma data_step_time: "data_step st (st\<lparr>m_prev_control_time := t\<rparr>)"
proof -
  have "st\<lparr>m_prev_control_time := t\<rparr> = st\<lparr>m_prev_control_time := t, m_pid_vel := m_pid_vel st,
      m_prev_shift := m_prev_shift st, m_lpf_pitch := m_lpf_pitch st\<rparr>"
    by simp
  then show ?thesis
    unfolding data_step_def by blast
qed

text \<open>The ego pose is close to the trajectory.\<close>

definition on_trajectory :: "lon_config \<Rightarrow> eigen_ops \<Rightarrow> pose \<Rightarrow> tp list \<Rightarrow> bool" where
  "on_trajectory cfg eig ps pts \<longleftrightarrow> pts \<noteq> [] \<and>
     (case calcInterpolatedTrajPointAndSegment cfg eig pts ps of
        Some (np, seg) \<Rightarrow> \<not> deviates cfg np ps | None \<Rightarrow> False)"

text \<open>The run of \<open>getControlData\<close> that is not far from the trajectory, step by step.\<close>

lemma getControlData_near:
  assumes "points (m_trajectory st) \<noteq> []" and "length (points (m_trajectory st)) + 2 < 2 ^ 32"
    and "calcInterpolatedTrajPointAndSegment cfg eig (points (m_trajectory st)) ps = Some (np, seg)"
    and "\<not> deviates cfg np ps"
  obtains cd st' where "getControlData cfg eig clk ps st = Some (cd, st')" and "data_step st st'"
    and "data_ok cd" and "\<not> is_far_from_trajectory cd" and "cd_dt cd = fst (getDt cfg clk st)"
    and "current_motion cd = \<lparr>vel = vx (twist_linear (m_current_kinematic_state st)),
                              acc = vx (accel_linear (m_current_accel st))\<rparr>"
    and "\<And>Q. convex_points Q \<Longrightarrow> \<forall>p \<in> set (points (m_trajectory st)). Q p \<Longrightarrow>
           \<forall>p \<in> set (interpolated_traj cd). Q p"
proof -
  let ?pts = "points (m_trajectory st)"
  define m where "m = \<lparr>vel = vx (twist_linear (m_current_kinematic_state st)),
      acc = vx (accel_linear (m_current_accel st))\<rparr>"
  obtain dt where dt: "getDt cfg clk st = (dt, st\<lparr>m_prev_control_time := Clock_now (dt_store_clock clk)\<rparr>)"
    using getDt_state [of cfg clk st] by (cases "getDt cfg clk st") auto
  define st1 where "st1 = st\<lparr>m_prev_control_time := Clock_now (dt_store_clock clk)\<rparr>"
  have st1: "m_trajectory st1 = m_trajectory st" "m_current_kinematic_state st1 = m_current_kinematic_state st"
    "m_current_accel st1 = m_current_accel st"
    by (simp_all add: st1_def)
  define after where "after = predictedStateAfterDelay clk m (delay_compensation_time cfg) st1"
  have seg: "seg + 1 \<le> length ?pts"
    using interpolated_Some [OF assms(1), of cfg eig ps] assms(3) by auto
  define pts1 where "pts1 = take (seg + 1) ?pts @ np # drop (seg + 1) ?pts"
  have ins: "insert_at ?pts (seg + 1) np = Some pts1"
    unfolding pts1_def by (rule insert_at_Some [OF seg])
  note pts1 = insert_at_set [OF ins]
  obtain pts2 q where comp: "compensate_delay cfg eig after pts1 (seg + 1) np = Some (pts2, q)"
    "pts2 \<noteq> []" "length pts2 \<le> Suc (length pts1)"
    using compensate_delay_Some [OF pts1(3)] by blast
  define pts3 where "pts3 = removeOverlapPoints pts2 0"
  have pts3: "pts3 \<noteq> []" "length pts3 < 2 ^ 32"
    using comp(2,3) pts1(2) assms(2) removeOverlap_length [of pts2 0] by (simp_all add: pts3_def)
  obtain n where n: "findFirstNearestIndexWithSoftConstraints pts3 (tp_pose np)
      (ego_nearest_dist_threshold cfg) (ego_nearest_yaw_threshold cfg) = Some n" "n < length pts3"
    using findFirstNearest_Some [OF pts3(1)] .
  obtain t where t: "findFirstNearestIndexWithSoftConstraints pts3 (tp_pose q)
      (ego_nearest_dist_threshold cfg) (ego_nearest_yaw_threshold cfg) = Some t" "t < length pts3"
    using findFirstNearest_Some [OF pts3(1)] .
  define cd where "cd = zero_control_data\<lparr>cd_dt := dt, current_motion := m,
      cd_state_after_delay := after, interpolated_traj := pts3, nearest_idx := n, target_idx := t\<rparr>"
  obtain sh where sh: "getCurrentShift cd st1 = Some sh"
    using getCurrentShift_Some [of cd st1] t(2) by (auto simp: cd_def)
  define st2 where "st2 = (if sh \<noteq> m_prev_shift st1 then st1\<lparr>m_pid_vel := pid_reset (m_pid_vel st1)\<rparr> else st1)
      \<lparr>m_prev_shift := sh\<rparr>"
  obtain sd where sd: "calcStopDistance eig (tp_pose (pts3 ! n)) pts3
      (ego_nearest_dist_threshold cfg) (ego_nearest_yaw_threshold cfg) = Some sd"
    using calcStopDistance_Some [OF pts3] .
  obtain tpitch where tpitch: "getPitchByTraj pts3 t (wheel_base cfg) = Some tpitch"
    using getPitchByTraj_Some [OF t(2)] by blast
  obtain slope f where slope: "slope_of cfg (vel m) (Fin (- 1) * getPitchByPose eig (orientation ps)) tpitch st2
      = (slope, st2\<lparr>m_lpf_pitch := f\<rparr>)"
    using slope_of_state [of cfg "vel m" "Fin (- 1) * getPitchByPose eig (orientation ps)" tpitch st2]
    by (metis prod.collapse)
  define cd' where "cd' = cd\<lparr>cd_shift := sh, stop_dist := sd, slope_angle := slope\<rparr>"
  have "getControlData cfg eig clk ps st = Some (cd', st2\<lparr>m_lpf_pitch := f\<rparr>)"
    unfolding getControlData_def dt prod.case st1_def [symmetric] st1 m_def [symmetric]
    using assms(1,3,4) ins comp(1) n t sh [unfolded cd_def zero_control_data_def] sd tpitch slope
    by (simp add: Let_def after_def [symmetric] pts3_def [symmetric] cd_def cd'_def
        st2_def [symmetric] zero_control_data_def)
  moreover have "data_step st (st2\<lparr>m_lpf_pitch := f\<rparr>)"
    unfolding data_step_def
    by (intro exI [of _ "Clock_now (dt_store_clock clk)"] exI [of _ "m_pid_vel st2"]
        exI [of _ sh] exI [of _ f]) (simp add: st2_def st1_def)
  moreover have "\<forall>p \<in> set pts3. Q p" if Q: "convex_points Q" "\<forall>p \<in> set ?pts. Q p" for Q
  proof -
    have "Q np"
      by (rule interpolated_convex [OF Q assms(1,3)])
    then have "\<forall>p \<in> set pts1. Q p"
      using Q(2) pts1(1) by auto
    from compensate_delay_convex [OF Q(1) this pts1(3) \<open>Q np\<close> comp(1)]
    show ?thesis
      using set_removeOverlap [of pts2 0] by (auto simp: pts3_def)
  qed
  ultimately show ?thesis
    using n(2) t(2) dt
    by (intro that [of cd' "st2\<lparr>m_lpf_pitch := f\<rparr>"])
      (auto simp: cd'_def cd_def zero_control_data_def data_ok_def m_def)
qed

lemma getControlData_Some:
  assumes "length (points (m_trajectory st)) + 2 < 2 ^ 32"
  obtains cd st' where "getControlData cfg eig clk ps st = Some (cd, st')" and "data_step st st'"
    and "data_ok cd" and "cd_dt cd = fst (getDt cfg clk st)"
    and "is_far_from_trajectory cd = (\<not> on_trajectory cfg eig ps (points (m_trajectory st)))"
    and "current_motion cd = \<lparr>vel = vx (twist_linear (m_current_kinematic_state st)),
                              acc = vx (accel_linear (m_current_accel st))\<rparr>"
    and "\<And>Q. convex_points Q \<Longrightarrow> \<forall>p \<in> set (points (m_trajectory st)). Q p \<Longrightarrow>
           \<not> is_far_from_trajectory cd \<Longrightarrow> \<forall>p \<in> set (interpolated_traj cd). Q p"
proof -
  let ?pts = "points (m_trajectory st)"
  define st1 where "st1 = st\<lparr>m_prev_control_time := Clock_now (dt_store_clock clk)\<rparr>"
  obtain dt where dt: "getDt cfg clk st = (dt, st1)"
    using getDt_state [of cfg clk st] by (cases "getDt cfg clk st") (auto simp: st1_def)
  have step: "data_step st st1"
    unfolding st1_def by (rule data_step_time)
  have st1: "m_trajectory st1 = m_trajectory st" "m_current_kinematic_state st1 = m_current_kinematic_state st"
    "m_current_accel st1 = m_current_accel st"
    by (simp_all add: st1_def)
  define cd0 where "cd0 = zero_control_data\<lparr>cd_dt := dt, current_motion :=
      \<lparr>vel = vx (twist_linear (m_current_kinematic_state st)),
       acc = vx (accel_linear (m_current_accel st))\<rparr>, interpolated_traj := ?pts\<rparr>"
  show ?thesis
  proof (cases "?pts = []")
    case True
    show ?thesis
      using True dt step
      by (intro that [of "cd0\<lparr>is_far_from_trajectory := True\<rparr>" st1])
        (auto simp: getControlData_def dt st1 cd0_def data_ok_def Let_def zero_control_data_def
          on_trajectory_def)
  next
    case False
    obtain np seg where i: "calcInterpolatedTrajPointAndSegment cfg eig ?pts ps = Some (np, seg)"
      "seg + 1 \<le> length ?pts"
      using interpolated_Some [OF False] .
    define pts1 where "pts1 = take (seg + 1) ?pts @ np # drop (seg + 1) ?pts"
    have ins: "insert_at ?pts (seg + 1) np = Some pts1"
      unfolding pts1_def by (rule insert_at_Some [OF i(2)])
    show ?thesis
    proof (cases "deviates cfg np ps")
      case True
      show ?thesis
        using False True dt step i ins
        by (intro that [of "cd0\<lparr>interpolated_traj := pts1, nearest_idx := seg + 1,
              target_idx := seg + 1, is_far_from_trajectory := True\<rparr>" st1])
          (auto simp: getControlData_def dt st1 cd0_def data_ok_def Let_def zero_control_data_def
          on_trajectory_def)
    next
      case near: False
      have "on_trajectory cfg eig ps ?pts"
        using False i(1) near by (simp add: on_trajectory_def)
      with getControlData_near [OF False assms i(1) near, of clk] show ?thesis
        using that by (metis (no_types, lifting))
    qed
  qed
qed

lemma data_step_frame:
  assumes "data_step st st'"
  shows "m_control_state st' = m_control_state st" "m_smooth_stop st' = m_smooth_stop st"
    "m_prev_ctrl_cmd st' = m_prev_ctrl_cmd st" "m_prev_raw_ctrl_cmd st' = m_prev_raw_ctrl_cmd st"
    "m_vel_hist st' = m_vel_hist st" "m_lpf_vel_error st' = m_lpf_vel_error st"
    "m_lpf_acc_error st' = m_lpf_acc_error st" "m_trajectory st' = m_trajectory st"
    "m_current_operation_mode st' = m_current_operation_mode st" "m_ctrl_cmd_vec st' = m_ctrl_cmd_vec st"
    "m_is_gains_set (m_pid_vel st') = m_is_gains_set (m_pid_vel st)"
    "m_is_limits_set (m_pid_vel st') = m_is_limits_set (m_pid_vel st)"
    "m_pid_vel st' = m_pid_vel st \<or> m_pid_vel st' = pid_reset (m_pid_vel st)"
  using assms by (auto simp: data_step_def pid_reset_def)

section \<open>Transitions\<close>

text \<open>Which control states one call of \<open>updateControlState\<close> can connect, and when.\<close>

inductive transition_allowed :: "bool \<Rightarrow> control_state \<Rightarrow> control_state \<Rightarrow> bool" for engaged where
  stay: "transition_allowed engaged s s"
| fault: "s \<in> {DRIVE, STOPPING} \<Longrightarrow> transition_allowed engaged s EMERGENCY"
| halt: "s \<in> {STOPPING, EMERGENCY, DRIVE} \<Longrightarrow> transition_allowed engaged s STOPPED"
| brake: "transition_allowed engaged DRIVE STOPPING"
| depart: "s \<in> {STOPPING, STOPPED} \<Longrightarrow> transition_allowed engaged s DRIVE"
| manual: "\<not> engaged \<Longrightarrow> transition_allowed engaged EMERGENCY DRIVE"

inductive_simps from_emergency_simps: "transition_allowed engaged EMERGENCY s"
inductive_simps from_stopped_simps: "transition_allowed engaged STOPPED s"

lemmas transition_defs =
  from_drive_def from_stopping_def from_stopped_def from_emergency_def changeControlState_def
  note_running_def note_control_def

lemma updateControlState_eq:
  assumes "nearest_idx cd < length (interpolated_traj cd)"
  obtains emergency stopped st1 where "updateControlState cfg clk cd st = Some (case m_control_state st1 of
      DRIVE \<Rightarrow> from_drive cfg clk cd emergency stopped st1
    | STOPPING \<Rightarrow> from_stopping cfg cd emergency stopped st1
    | STOPPED \<Rightarrow> from_stopped cfg cd st1
    | EMERGENCY \<Rightarrow> from_emergency emergency stopped st1)"
    and "\<exists>t u s k. st1 = st\<lparr>m_last_running_time := t, m_prev_vehicle_is_under_control := u,
            m_under_control_starting_time := s, m_prev_keep_stopped_condition := k\<rparr>"
proof -
  define st0 where "st0 = note_control clk (note_running cfg clk cd st)"
  define st1 where "st1 = (if m_control_state st0 \<noteq> STOPPED
      then st0\<lparr>m_prev_keep_stopped_condition := None\<rparr> else st0)"
  have "\<exists>t u s k. st1 = st\<lparr>m_last_running_time := t, m_prev_vehicle_is_under_control := u,
            m_under_control_starting_time := s, m_prev_keep_stopped_condition := k\<rparr>"
    by (intro exI [of _ "m_last_running_time st1"] exI [of _ "m_prev_vehicle_is_under_control st1"]
        exI [of _ "m_under_control_starting_time st1"] exI [of _ "m_prev_keep_stopped_condition st1"])
      (simp add: st1_def st0_def note_control_def note_running_def)
  moreover have "\<exists>em sp. updateControlState cfg clk cd st = Some (case m_control_state st1 of
      DRIVE \<Rightarrow> from_drive cfg clk cd em sp st1
    | STOPPING \<Rightarrow> from_stopping cfg cd em sp st1
    | STOPPED \<Rightarrow> from_stopped cfg cd st1
    | EMERGENCY \<Rightarrow> from_emergency em sp st1)"
    by (rule exI [of _ "emergency_condition cfg cd
          \<bar>longitudinal_velocity_mps (interpolated_traj cd ! nearest_idx cd)\<bar>"],
        rule exI [of _ "stopped_condition cfg clk (note_running cfg clk cd st)"])
      (simp add: assms updateControlState_def Let_def st1_def st0_def split: control_state.splits)
  ultimately show ?thesis using that by blast
qed

lemma under_control_eq:
  "m_current_operation_mode st' = m_current_operation_mode st \<Longrightarrow> under_control st' = under_control st"
  by (simp add: under_control_def)

lemma updateControlState_step:
  assumes "nearest_idx cd < length (interpolated_traj cd)"
  obtains st' where "updateControlState cfg clk cd st = Some st'"
    and "transition_allowed (under_control st) (m_control_state st) (m_control_state st')"
    and "m_control_state st' = STOPPING \<longrightarrow> m_control_state st = STOPPING \<and> m_smooth_stop st' = m_smooth_stop st
           \<or> (\<exists>c v d. m_smooth_stop st' = smooth_init c v d (m_smooth_stop st))"
    and "stop_params (m_smooth_stop st') = stop_params (m_smooth_stop st)"
    and "m_is_set_params (m_smooth_stop st') = m_is_set_params (m_smooth_stop st)"
    and "m_pid_vel st' = m_pid_vel st \<or> m_pid_vel st' = pid_reset (m_pid_vel st)"
    and "m_prev_raw_ctrl_cmd st' = m_prev_raw_ctrl_cmd st"
    and "m_prev_ctrl_cmd st' = m_prev_ctrl_cmd st
      \<or> (m_control_state st = STOPPING \<and> m_control_state st' = DRIVE
         \<and> m_prev_ctrl_cmd st' = (m_prev_ctrl_cmd st)\<lparr>acc := fmax (Fin 0) (acc (m_prev_raw_ctrl_cmd st))\<rparr>)"
    and "m_vel_hist st' = m_vel_hist st" and "m_trajectory st' = m_trajectory st"
    and "m_current_operation_mode st' = m_current_operation_mode st"
    and "m_control_state st = DRIVE \<and> m_control_state st' = DRIVE \<longrightarrow> m_lpf_vel_error st' = m_lpf_vel_error st"
proof -
  obtain em sp st1 where upd: "updateControlState cfg clk cd st = Some (case m_control_state st1 of
      DRIVE \<Rightarrow> from_drive cfg clk cd em sp st1
    | STOPPING \<Rightarrow> from_stopping cfg cd em sp st1
    | STOPPED \<Rightarrow> from_stopped cfg cd st1
    | EMERGENCY \<Rightarrow> from_emergency em sp st1)"
    and fr: "\<exists>t u s k. st1 = st\<lparr>m_last_running_time := t, m_prev_vehicle_is_under_control := u,
            m_under_control_starting_time := s, m_prev_keep_stopped_condition := k\<rparr>"
    using updateControlState_eq [OF assms] by blast
  have same: "m_control_state st1 = m_control_state st" "under_control st1 = under_control st"
    "m_smooth_stop st1 = m_smooth_stop st" "m_pid_vel st1 = m_pid_vel st"
    "m_prev_raw_ctrl_cmd st1 = m_prev_raw_ctrl_cmd st" "m_prev_ctrl_cmd st1 = m_prev_ctrl_cmd st"
    "m_vel_hist st1 = m_vel_hist st" "m_trajectory st1 = m_trajectory st"
    "m_current_operation_mode st1 = m_current_operation_mode st"
    "m_lpf_vel_error st1 = m_lpf_vel_error st"
    using fr by (auto simp: under_control_def)
  show ?thesis
  proof (cases "m_control_state st")
    case DRIVE
    show ?thesis
      by (rule that, use upd DRIVE same in \<open>simp\<close>)
        (auto simp: from_drive_def changeControlState_def same DRIVE Let_def
          intro: transition_allowed.intros)
  next
    case STOPPING
    show ?thesis
      by (rule that, use upd STOPPING same in \<open>simp\<close>)
        (auto simp: from_stopping_def changeControlState_def same STOPPING intro: transition_allowed.intros)
  next
    case STOPPED
    show ?thesis
      by (rule that, use upd STOPPED same in \<open>simp\<close>)
        (auto simp: from_stopped_def changeControlState_def same STOPPED Let_def
          intro: transition_allowed.intros)
  next
    case EMERGENCY
    show ?thesis
      by (rule that, use upd EMERGENCY same in \<open>simp\<close>)
        (auto simp: from_emergency_def changeControlState_def same EMERGENCY intro: transition_allowed.intros)
  qed
qed

section \<open>No step fails\<close>

text \<open>
  The members whose uninitialised use would be undefined behaviour, and the length of the
  stored trajectory, which has to leave room for the two inserted points in a \<open>size_t\<close>.
\<close>

definition lon_ok :: "lon_state \<Rightarrow> bool" where
  "lon_ok st \<longleftrightarrow> m_is_gains_set (m_pid_vel st) \<and> m_is_limits_set (m_pid_vel st)
     \<and> m_is_set_params (m_smooth_stop st)
     \<and> (m_control_state st = STOPPING \<longrightarrow> smooth_ready (m_smooth_stop st))
     \<and> length (points (m_trajectory st)) + 2 < 2 ^ 32"

lemma pid_reset_set [simp]:
  "m_is_gains_set (pid_reset c) = m_is_gains_set c" "m_is_limits_set (pid_reset c) = m_is_limits_set c"
  "m_params (pid_reset c) = m_params c"
  by (simp_all add: pid_reset_def)

lemma lon_ok_data_step: "data_step st st' \<Longrightarrow> lon_ok st \<Longrightarrow> lon_ok st'"
  using data_step_frame [of st st'] by (simp add: lon_ok_def)

lemma keepBrake_Some:
  obtains a where "keepBrakeBeforeStop cfg cd \<lparr>vel = v, acc = b\<rparr> n = Some \<lparr>vel = v, acc = a\<rparr>"
proof -
  obtain r where r: "searchZeroVelocityIndex_all (interpolated_traj cd) = Some r"
    using searchZero_Some by blast
  have "\<exists>a. keepBrakeBeforeStop cfg cd \<lparr>vel = v, acc = b\<rparr> n = Some \<lparr>vel = v, acc = a\<rparr>"
    by (auto simp: keepBrakeBeforeStop_def r Let_def split: option.splits prod.splits)
  then show ?thesis using that by blast
qed

text \<open>The members a command leaves alone.\<close>

definition command_frame :: "lon_state \<Rightarrow> lon_state \<Rightarrow> bool" where
  "command_frame st st' \<longleftrightarrow>
     m_control_state st' = m_control_state st \<and> m_prev_ctrl_cmd st' = m_prev_ctrl_cmd st
     \<and> m_vel_hist st' = m_vel_hist st \<and> m_trajectory st' = m_trajectory st
     \<and> stop_params (m_smooth_stop st') = stop_params (m_smooth_stop st)
     \<and> m_strong_acc (m_smooth_stop st') = m_strong_acc (m_smooth_stop st)
     \<and> m_params (m_pid_vel st') = m_params (m_pid_vel st)"

lemma applyVelocityFeedback_Some:
  assumes "lon_ok st" and "target_idx cd < length (interpolated_traj cd)"
  obtains a st' where "applyVelocityFeedback cfg clk cd st = Some (a, st')"
    and "lon_ok st'" and "command_frame st st'" and "m_prev_raw_ctrl_cmd st' = m_prev_raw_ctrl_cmd st"
    and "lpf_x (m_lpf_vel_error st) = NaN \<longrightarrow> lpf_x (m_lpf_vel_error st') = NaN"
proof -
  obtain e f where f: "lpf_filter ((longitudinal_velocity_mps (interpolated_traj cd ! target_idx cd)
        - vel (current_motion cd)) * (if cd_shift cd = Forward then Fin 1 else Fin (- 1)))
      (m_lpf_vel_error st) = (e, f)"
    by fastforce
  have nan: "lpf_x (m_lpf_vel_error st) = NaN \<longrightarrow> lpf_x f = NaN"
    using lpf_filter_NaN f by (metis snd_conv)
  have pid: "\<exists>r cs c. pid_calculate e' dt en (m_pid_vel st) = Some (r, cs, c)" for e' dt en
    using assms(1) by (intro pid_calculate_Some) (auto simp: lon_ok_def)
  define en where "en = ((\<bar>vel (current_motion cd)\<bar> > current_vel_threshold_pid_integrate cfg \<or>
       (enable_integration_at_low_speed cfg \<and>
        (\<not> \<bar>vel (current_motion cd)\<bar> > current_vel_threshold_pid_integrate cfg
         \<and> getTimeUnderControl clk st > time_threshold_before_pid_integrate cfg))) \<and> under_control st)"
  obtain r cs c where c: "pid_calculate e (cd_dt cd) en (m_pid_vel st) = Some (r, cs, c)"
    using pid by blast
  define st' where "st' = st\<lparr>m_lpf_vel_error := f, m_pid_vel := c\<rparr>"
  have "\<exists>a. applyVelocityFeedback cfg clk cd st = Some (a, st')"
    using assms(2) c
    by (simp add: applyVelocityFeedback_def Let_def f [simplified] st'_def en_def split: prod.splits)
  moreover have "lon_ok st'" "command_frame st st'" "m_prev_raw_ctrl_cmd st' = m_prev_raw_ctrl_cmd st"
    "lpf_x (m_lpf_vel_error st) = NaN \<longrightarrow> lpf_x (m_lpf_vel_error st') = NaN"
    using assms(1) pid_calculate_params [OF c] nan
    by (auto simp: lon_ok_def command_frame_def st'_def)
  ultimately show ?thesis using that by blast
qed

lemma raw_command_Some:
  assumes "lon_ok st" and "target_idx cd < length (interpolated_traj cd)" and "m_control_state st \<noteq> STOPPED"
  obtains raw st' where "raw_command cfg clk cd st = Some (raw, st')" and "lon_ok st'"
    and "command_frame st st'" and "m_prev_raw_ctrl_cmd st' = m_prev_raw_ctrl_cmd st"
    and "(m_control_state st = EMERGENCY \<and> raw = calcEmergencyCtrlCmd cfg (cd_dt cd) st)
      \<or> (\<exists>v a. raw = limit_raw cfg (cd_dt cd) \<lparr>vel = v, acc = a\<rparr> st
           \<and> v \<in> {stopped_vel cfg, longitudinal_velocity_mps (interpolated_traj cd ! target_idx cd)})"
proof (cases "m_control_state st")
  case EMERGENCY
  then show ?thesis
    using assms(1) by (intro that [of "calcEmergencyCtrlCmd cfg (cd_dt cd) st" st])
      (auto simp: raw_command_def command_frame_def)
next
  case DRIVE
  obtain a st1 where a: "applyVelocityFeedback cfg clk cd st = Some (a, st1)" "lon_ok st1"
    "command_frame st st1" "m_prev_raw_ctrl_cmd st1 = m_prev_raw_ctrl_cmd st"
    using applyVelocityFeedback_Some [OF assms(1,2)] by metis
  let ?v = "longitudinal_velocity_mps (interpolated_traj cd ! target_idx cd)"
  obtain b where b: "keepBrakeBeforeStop cfg cd \<lparr>vel = ?v, acc = a\<rparr> (target_idx cd) = Some \<lparr>vel = ?v, acc = b\<rparr>"
    using keepBrake_Some .
  show ?thesis
    using DRIVE assms(2) a b
    by (intro that [of "limit_raw cfg (cd_dt cd) \<lparr>vel = ?v, acc = b\<rparr> st" st1])
      (auto simp: raw_command_def limit_raw_def)
next
  case STOPPING
  then have ready: "smooth_ready (m_smooth_stop st)"
    using assms(1) by (simp add: lon_ok_def)
  obtain a ss where s: "smooth_calculate (fit_clock clk) (weak_clock clk) (stop_dist cd)
      (vel (current_motion cd)) (acc (current_motion cd)) (m_vel_hist st)
      (delay_compensation_time cfg) (m_smooth_stop st) = Some (a, ss)"
    "smooth_ready ss" "stop_params ss = stop_params (m_smooth_stop st)"
    "m_strong_acc ss = m_strong_acc (m_smooth_stop st)"
    using smooth_calculate_Some [OF ready] by metis
  show ?thesis
    using STOPPING s assms(1)
    by (intro that [of "limit_raw cfg (cd_dt cd) \<lparr>vel = stopped_vel cfg, acc = a\<rparr> st"
          "st\<lparr>m_smooth_stop := ss\<rparr>"])
      (auto simp: raw_command_def limit_raw_def lon_ok_def command_frame_def smooth_ready_def)
qed (use assms(3) in simp)

lemma storeAccelCmd_frame:
  "lon_ok (storeAccelCmd cfg clk a st) = lon_ok st"
  "command_frame st (storeAccelCmd cfg clk a st)"
  "m_prev_raw_ctrl_cmd (storeAccelCmd cfg clk a st) = m_prev_raw_ctrl_cmd st"
  by (simp_all add: storeAccelCmd_def Let_def lon_ok_def command_frame_def)

lemma command_frame_trans: "command_frame a b \<Longrightarrow> command_frame b c \<Longrightarrow> command_frame a c"
  by (simp add: command_frame_def)

lemma calcCtrlCmd_Some:
  assumes "lon_ok st" and "target_idx cd < length (interpolated_traj cd)"
  obtains cmd st' x where "calcCtrlCmd cfg clk cd st = Some (cmd, st')" and "lon_ok st'"
    and "command_frame st st'"
    and "acc cmd = applyDiffLimitFilter_sym x (acc (m_prev_ctrl_cmd st)) (cd_dt cd) (max_acc_cmd_diff cfg)"
    and "(m_control_state st = STOPPED \<and> vel cmd = stopped_vel cfg \<and> x = stopped_acc cfg
          \<and> m_prev_raw_ctrl_cmd st' = \<lparr>vel = Fin 0, acc = Fin 0\<rparr>)
      \<or> (\<exists>e. vel cmd = vel (m_prev_raw_ctrl_cmd st')
           \<and> x = applySlopeCompensation cfg (acc (m_prev_raw_ctrl_cmd st') - e * acc_feedback_gain cfg)
                   (slope_angle cd) (cd_shift cd)
           \<and> ((m_control_state st = EMERGENCY
                \<and> m_prev_raw_ctrl_cmd st' = calcEmergencyCtrlCmd cfg (cd_dt cd) st)
              \<or> (\<exists>v a. m_prev_raw_ctrl_cmd st' = limit_raw cfg (cd_dt cd) \<lparr>vel = v, acc = a\<rparr> st
                  \<and> v \<in> {stopped_vel cfg, longitudinal_velocity_mps (interpolated_traj cd ! target_idx cd)})))"
proof (cases "m_control_state st = STOPPED")
  case True
  let ?z = "\<lparr>vel = Fin 0, acc = Fin 0\<rparr>"
  let ?st = "storeAccelCmd cfg clk (Fin 0) (st\<lparr>m_prev_raw_ctrl_cmd := ?z\<rparr>)"
  have "lon_ok ?st" "command_frame st ?st" "m_prev_raw_ctrl_cmd ?st = ?z"
    "m_prev_ctrl_cmd ?st = m_prev_ctrl_cmd st"
    using assms(1) by (auto simp: storeAccelCmd_def Let_def lon_ok_def command_frame_def)
  then show ?thesis
    using True assms(2)
    by (intro that [of "\<lparr>vel = stopped_vel cfg, acc = applyDiffLimitFilter_sym (stopped_acc cfg)
          (acc (m_prev_ctrl_cmd st)) (cd_dt cd) (max_acc_cmd_diff cfg)\<rparr>" ?st "stopped_acc cfg"])
      (auto simp: calcCtrlCmd_def Let_def)
next
  case False
  obtain raw st1 where raw: "raw_command cfg clk cd st = Some (raw, st1)" "lon_ok st1"
    "command_frame st st1" "m_prev_raw_ctrl_cmd st1 = m_prev_raw_ctrl_cmd st"
    and kind: "(m_control_state st = EMERGENCY \<and> raw = calcEmergencyCtrlCmd cfg (cd_dt cd) st)
      \<or> (\<exists>v a. raw = limit_raw cfg (cd_dt cd) \<lparr>vel = v, acc = a\<rparr> st
           \<and> v \<in> {stopped_vel cfg, longitudinal_velocity_mps (interpolated_traj cd ! target_idx cd)})"
    using raw_command_Some [OF assms False, where cfg = cfg and clk = clk] by metis
  obtain fe f where f: "lpf_filter (acc (current_motion cd) - acc raw) (m_lpf_acc_error st1) = (fe, f)"
    by fastforce
  define st2 where "st2 = st1\<lparr>m_prev_raw_ctrl_cmd := raw, m_lpf_acc_error := f\<rparr>"
  define st3 where "st3 = storeAccelCmd cfg clk (acc raw) st2"
  define x where "x = applySlopeCompensation cfg (acc raw - lpf_getValue f * acc_feedback_gain cfg)
      (slope_angle cd) (cd_shift cd)"
  have c: "compensated cfg cd raw st1 = (\<lparr>vel = vel raw, acc = x\<rparr>, st2)"
    by (simp add: compensated_def Let_def f st2_def x_def)
  have st2: "lon_ok st2" "command_frame st1 st2" "m_prev_raw_ctrl_cmd st2 = raw"
    using raw(2) by (auto simp: st2_def lon_ok_def command_frame_def)
  have st3: "lon_ok st3" "command_frame st st3" "m_prev_raw_ctrl_cmd st3 = raw"
    "m_prev_ctrl_cmd st3 = m_prev_ctrl_cmd st"
    using st2 raw(3) storeAccelCmd_frame [where cfg = cfg and clk = clk and a = "acc raw" and st = st2]
    by (auto simp: st3_def dest: command_frame_trans) (simp_all add: command_frame_def)
  show ?thesis
    using False assms(2) raw(1) c st3 kind st2(3)
    by (intro that [of "\<lparr>vel = vel raw, acc = applyDiffLimitFilter_sym x
          (acc (m_prev_ctrl_cmd st)) (cd_dt cd) (max_acc_cmd_diff cfg)\<rparr>" st3 x])
      (auto simp: calcCtrlCmd_def Let_def st3_def x_def)
qed

end
