(* ===== verification/Longitudinal_Run.thy ===== *)
theory Longitudinal_Run
  imports Longitudinal_Facts
begin

text \<open>
  One run of the longitudinal controller as a whole: it always gives a command, and the cases
  the properties of the controller are proved from.
\<close>

section \<open>Inputs\<close>

definition lon_input :: "input_data \<Rightarrow> lon_state \<Rightarrow> lon_state" where
  "lon_input input st =
     setCurrentOperationMode (in_operation_mode input)
       (setCurrentAcceleration (in_accel input)
         (setKinematicState (in_odometry input) (setTrajectory (in_trajectory input) st)))"

lemmas lon_input_defs =
  lon_input_def setCurrentOperationMode_def setCurrentAcceleration_def setKinematicState_def
  setTrajectory_def

lemma lon_input_frame [simp]:
  "m_control_state (lon_input input st) = m_control_state st"
  "m_prev_ctrl_cmd (lon_input input st) = m_prev_ctrl_cmd st"
  "m_prev_raw_ctrl_cmd (lon_input input st) = m_prev_raw_ctrl_cmd st"
  "m_pid_vel (lon_input input st) = m_pid_vel st"
  "m_smooth_stop (lon_input input st) = m_smooth_stop st"
  "m_vel_hist (lon_input input st) = m_vel_hist st"
  "m_lpf_vel_error (lon_input input st) = m_lpf_vel_error st"
  "m_lpf_acc_error (lon_input input st) = m_lpf_acc_error st"
  "m_prev_control_time (lon_input input st) = m_prev_control_time st"
  "m_current_operation_mode (lon_input input st) = in_operation_mode input"
  "m_current_kinematic_state (lon_input input st) = in_odometry input"
  "m_current_accel (lon_input input st) = in_accel input"
  by (simp_all add: lon_input_defs)

lemma lon_input_trajectory:
  "m_trajectory (lon_input input st) \<in> {m_trajectory st, in_trajectory input}"
  by (simp add: lon_input_defs)

lemma lon_ok_input:
  "lon_ok st \<Longrightarrow> length (points (in_trajectory input)) + 2 < 2 ^ 32 \<Longrightarrow> lon_ok (lon_input input st)"
  using lon_input_trajectory [of input st] by (auto simp: lon_ok_def)

lemma getDt_cong: "m_prev_control_time st = m_prev_control_time st' \<Longrightarrow> fst (getDt cfg clk st) = fst (getDt cfg clk st')"
  by (simp add: getDt_def Let_def)

lemma emergency_cong:
  "m_prev_raw_ctrl_cmd st = m_prev_raw_ctrl_cmd st' \<Longrightarrow>
     calcEmergencyCtrlCmd cfg dt st = calcEmergencyCtrlCmd cfg dt st'"
  by (simp add: calcEmergencyCtrlCmd_def)

lemma limit_raw_cong:
  "m_prev_raw_ctrl_cmd st = m_prev_raw_ctrl_cmd st' \<Longrightarrow> limit_raw cfg dt m st = limit_raw cfg dt m st'"
  by (simp add: limit_raw_def)

section \<open>The message\<close>

definition command_msg :: "lon_clock \<Rightarrow> motion \<Rightarrow> longitudinal_msg" where
  "command_msg clk cmd =
     zero_longitudinal\<lparr>lon_stamp := toRosTime (Clock_now (stamp_clock clk)),
       velocity := to_float (vel cmd), acceleration := to_float (acc cmd), jerk := Fin 0,
       is_defined_acceleration := True, is_defined_jerk := False\<rparr>"

text \<open>The history keeps its newest samples, as many as there is room for.\<close>

definition hist_step :: "lon_clock \<Rightarrow> int \<Rightarrow> (dbl \<times> dbl) list \<Rightarrow> (dbl \<times> dbl) list \<Rightarrow> bool" where
  "hist_step clk room h h' \<longleftrightarrow> length h' \<le> nat room
     \<and> (\<exists>v. set h' \<subseteq> insert (Clock_now (hist_clock clk), v) (set h))"

lemma createCtrlCmdMsg_Some:
  assumes "cast_u32 (delay_compensation_time cfg div longitudinal_ctrl_period cfg) = Some room"
  obtains h where "createCtrlCmdMsg cfg clk cmd v st
      = Some (command_msg clk cmd, st\<lparr>m_vel_hist := h, m_prev_ctrl_cmd := cmd\<rparr>)"
    and "hist_step clk room (m_vel_hist st) h"
proof -
  let ?hist = "m_vel_hist st @ [(Clock_now (hist_clock clk), v)]"
  let ?h = "drop (length ?hist - nat room) ?hist"
  have "createCtrlCmdMsg cfg clk cmd v st
      = Some (command_msg clk cmd, st\<lparr>m_vel_hist := ?h, m_prev_ctrl_cmd := cmd\<rparr>)"
    using assms by (simp add: createCtrlCmdMsg_def command_msg_def)
  moreover have "set ?h \<subseteq> set ?hist"
    by (rule set_drop_subset)
  then have "hist_step clk room (m_vel_hist st) ?h"
    unfolding hist_step_def by auto
  ultimately show ?thesis using that by blast
qed

section \<open>The cases of a run\<close>

text \<open>The raw command of a run that is not far from the trajectory, by control state.\<close>

definition raw_kind ::
  "lon_config \<Rightarrow> dbl \<Rightarrow> dbl \<Rightarrow> lon_state \<Rightarrow> control_state \<Rightarrow> motion \<Rightarrow> bool" where
  "raw_kind cfg dt target_vel st s raw \<longleftrightarrow>
     (s = EMERGENCY \<and> raw = calcEmergencyCtrlCmd cfg dt st)
     \<or> (\<exists>v a. raw = limit_raw cfg dt \<lparr>vel = v, acc = a\<rparr> st \<and> v \<in> {stopped_vel cfg, target_vel})"

definition near_command ::
  "lon_config \<Rightarrow> control_data \<Rightarrow> lon_state \<Rightarrow> lon_state \<Rightarrow> motion \<Rightarrow> bool" where
  "near_command cfg cd st st' cmd \<longleftrightarrow>
     (\<exists>x p. acc cmd = applyDiffLimitFilter_sym x p (cd_dt cd) (max_acc_cmd_diff cfg)
       \<and> (p = acc (m_prev_ctrl_cmd st)
          \<or> (m_control_state st = STOPPING \<and> m_control_state st' = DRIVE
             \<and> p = fmax (Fin 0) (acc (m_prev_raw_ctrl_cmd st))))
       \<and> ((m_control_state st' = STOPPED \<and> vel cmd = stopped_vel cfg \<and> x = stopped_acc cfg
            \<and> m_prev_raw_ctrl_cmd st' = \<lparr>vel = Fin 0, acc = Fin 0\<rparr>)
          \<or> (\<exists>e. vel cmd = vel (m_prev_raw_ctrl_cmd st')
               \<and> x = applySlopeCompensation cfg (acc (m_prev_raw_ctrl_cmd st') - e * acc_feedback_gain cfg)
                       (slope_angle cd) (cd_shift cd)
               \<and> raw_kind cfg (cd_dt cd)
                   (longitudinal_velocity_mps (interpolated_traj cd ! target_idx cd)) st
                   (m_control_state st') (m_prev_raw_ctrl_cmd st'))))"

text \<open>What a run leaves of the members its command does not write.\<close>

definition run_frame :: "input_data \<Rightarrow> lon_state \<Rightarrow> lon_state \<Rightarrow> bool" where
  "run_frame input st st' \<longleftrightarrow>
     lon_ok st' \<and> m_trajectory st' = m_trajectory (lon_input input st)
     \<and> stop_params (m_smooth_stop st') = stop_params (m_smooth_stop st)
     \<and> m_params (m_pid_vel st') = m_params (m_pid_vel st)"

lemma lon_ok_update:
  assumes "lon_ok st"
    and "m_control_state st' = STOPPING \<longrightarrow> m_control_state st = STOPPING \<and> m_smooth_stop st' = m_smooth_stop st
           \<or> (\<exists>c v d. m_smooth_stop st' = smooth_init c v d (m_smooth_stop st))"
    and "m_is_set_params (m_smooth_stop st') = m_is_set_params (m_smooth_stop st)"
    and "m_pid_vel st' = m_pid_vel st \<or> m_pid_vel st' = pid_reset (m_pid_vel st)"
    and "m_trajectory st' = m_trajectory st"
  shows "lon_ok st'"
  using assms smooth_init_ready by (auto simp: lon_ok_def)

lemma lon_run_cases:
  assumes ok: "lon_ok st"
    and room: "cast_u32 (delay_compensation_time cfg div longitudinal_ctrl_period cfg) = Some room"
    and len: "length (points (in_trajectory input)) + 2 < 2 ^ 32"
  obtains (far) st' where
      "lon_controller_run cfg eig clk input st =
         Some (lon_output_of (command_msg clk (calcEmergencyCtrlCmd cfg (fst (getDt cfg clk st)) st)), st')"
      and "run_frame input st st'" and "hist_step clk room (m_vel_hist st) (m_vel_hist st')"
      and "m_prev_ctrl_cmd st' = calcEmergencyCtrlCmd cfg (fst (getDt cfg clk st)) st"
      and "m_prev_raw_ctrl_cmd st' = calcEmergencyCtrlCmd cfg (fst (getDt cfg clk st)) st"
      and "m_control_state st' = (if enable_large_tracking_error_emergency cfg then EMERGENCY
             else m_control_state st)"
      and "\<not> on_trajectory cfg eig (odom_pose (in_odometry input)) (points (m_trajectory (lon_input input st)))"
    | (near) cd cmd st' where
      "lon_controller_run cfg eig clk input st = Some (lon_output_of (command_msg clk cmd), st')"
      and "run_frame input st st'" and "hist_step clk room (m_vel_hist st) (m_vel_hist st')"
      and "m_prev_ctrl_cmd st' = cmd"
      and "cd_dt cd = fst (getDt cfg clk st)"
      and "target_idx cd < length (interpolated_traj cd)"
      and "near_command cfg cd st st' cmd"
      and "transition_allowed (under_control (lon_input input st)) (m_control_state st) (m_control_state st')"
      and "\<And>Q. convex_points Q \<Longrightarrow> \<forall>p \<in> set (points (m_trajectory (lon_input input st))). Q p \<Longrightarrow>
             \<forall>p \<in> set (interpolated_traj cd). Q p"
      and "on_trajectory cfg eig (odom_pose (in_odometry input)) (points (m_trajectory (lon_input input st)))"
proof -
  define st0 where "st0 = lon_input input st"
  have ok0: "lon_ok st0"
    unfolding st0_def by (rule lon_ok_input [OF ok len])
  then have "length (points (m_trajectory st0)) + 2 < 2 ^ 32"
    by (simp add: lon_ok_def)
  then obtain cd st1 where data: "getControlData cfg eig clk (odom_pose (in_odometry input)) st0 = Some (cd, st1)"
    "data_step st0 st1" "data_ok cd" "cd_dt cd = fst (getDt cfg clk st0)"
    and far_iff: "is_far_from_trajectory cd
      = (\<not> on_trajectory cfg eig (odom_pose (in_odometry input)) (points (m_trajectory st0)))"
    and convex: "\<And>Q. convex_points Q \<Longrightarrow> \<forall>p \<in> set (points (m_trajectory st0)). Q p \<Longrightarrow>
           \<not> is_far_from_trajectory cd \<Longrightarrow> \<forall>p \<in> set (interpolated_traj cd). Q p"
    using getControlData_Some [of st0 cfg eig clk "odom_pose (in_odometry input)"] by metis
  have run: "lon_controller_run cfg eig clk input st =
      (if is_far_from_trajectory cd then
         do {
           let st = (if enable_large_tracking_error_emergency cfg
                     then changeControlState EMERGENCY st1 else st1);
           let raw = calcEmergencyCtrlCmd cfg (cd_dt cd) st;
           let st = st\<lparr>m_prev_raw_ctrl_cmd := raw\<rparr>;
           (msg, st) \<leftarrow> createCtrlCmdMsg cfg clk raw (vel (current_motion cd)) st;
           Some (lon_output_of msg, st)
         }
       else
         do {
           st \<leftarrow> updateControlState cfg clk cd st1;
           (cmd, st) \<leftarrow> calcCtrlCmd cfg clk cd st;
           (msg, st) \<leftarrow> createCtrlCmdMsg cfg clk cmd (vel (current_motion cd)) st;
           Some (lon_output_of msg, st)
         })"
    using data(1)
    by (simp add: lon_controller_run_def lon_input_def [symmetric] st0_def [symmetric])
      (simp add: st0_def)
  have ok1: "lon_ok st1"
    using data(2) ok0 by (rule lon_ok_data_step)
  note f1 = data_step_frame [OF data(2)]
  have dt: "cd_dt cd = fst (getDt cfg clk st)"
    using data(4) getDt_cong [of st0 st] by (simp add: st0_def)
  have par1: "m_params (m_pid_vel st1) = m_params (m_pid_vel st)"
    using f1(13) by (auto simp: st0_def)
  show ?thesis
  proof (cases "is_far_from_trajectory cd")
    case True
    define st2 where "st2 = (if enable_large_tracking_error_emergency cfg
        then changeControlState EMERGENCY st1 else st1)"
    define raw where "raw = calcEmergencyCtrlCmd cfg (cd_dt cd) st2"
    have raw: "raw = calcEmergencyCtrlCmd cfg (fst (getDt cfg clk st)) st"
      using emergency_cong [of st2 st] f1(4) by (simp add: raw_def dt st2_def changeControlState_def st0_def)
    obtain h where h: "createCtrlCmdMsg cfg clk raw (vel (current_motion cd)) (st2\<lparr>m_prev_raw_ctrl_cmd := raw\<rparr>)
        = Some (command_msg clk raw, st2\<lparr>m_prev_raw_ctrl_cmd := raw\<rparr>\<lparr>m_vel_hist := h, m_prev_ctrl_cmd := raw\<rparr>)"
      "hist_step clk room (m_vel_hist (st2\<lparr>m_prev_raw_ctrl_cmd := raw\<rparr>)) h"
      by (rule createCtrlCmdMsg_Some [OF room])
    have "m_vel_hist st2 = m_vel_hist st"
      using f1(5) by (simp add: st2_def changeControlState_def st0_def)
    then have hist: "hist_step clk room (m_vel_hist st) h"
      using h(2) by simp
    have ok2: "lon_ok st2" and s2: "m_trajectory st2 = m_trajectory (lon_input input st)"
      "stop_params (m_smooth_stop st2) = stop_params (m_smooth_stop st)"
      "m_params (m_pid_vel st2) = m_params (m_pid_vel st)"
      "m_control_state st2 = (if enable_large_tracking_error_emergency cfg then EMERGENCY else m_control_state st)"
      using ok1 f1(1,2,8) par1
      by (auto simp: st2_def changeControlState_def lon_ok_def st0_def)
    define st' where "st' = st2\<lparr>m_prev_raw_ctrl_cmd := raw, m_vel_hist := h, m_prev_ctrl_cmd := raw\<rparr>"
    have "run_frame input st st'"
      using ok2 s2 by (simp add: run_frame_def lon_ok_def st'_def)
    moreover have "lon_controller_run cfg eig clk input st = Some (lon_output_of (command_msg clk raw), st')"
      using True h(1) by (simp add: run st2_def [symmetric] raw_def [symmetric] Let_def st'_def)
    ultimately show ?thesis
      using hist s2(4) far_iff True unfolding raw st0_def by (intro far [of st']) (simp_all add: st'_def raw)
  next
    case False
    then have idx: "nearest_idx cd < length (interpolated_traj cd)" "target_idx cd < length (interpolated_traj cd)"
      using data(3) by (auto simp: data_ok_def)
    obtain st2 where up: "updateControlState cfg clk cd st1 = Some st2"
      and trans: "transition_allowed (under_control st1) (m_control_state st1) (m_control_state st2)"
      and stop: "m_control_state st2 = STOPPING \<longrightarrow> m_control_state st1 = STOPPING \<and> m_smooth_stop st2 = m_smooth_stop st1
           \<or> (\<exists>c v d. m_smooth_stop st2 = smooth_init c v d (m_smooth_stop st1))"
      and fr: "stop_params (m_smooth_stop st2) = stop_params (m_smooth_stop st1)"
        "m_is_set_params (m_smooth_stop st2) = m_is_set_params (m_smooth_stop st1)"
        "m_pid_vel st2 = m_pid_vel st1 \<or> m_pid_vel st2 = pid_reset (m_pid_vel st1)"
        "m_prev_raw_ctrl_cmd st2 = m_prev_raw_ctrl_cmd st1"
        "m_prev_ctrl_cmd st2 = m_prev_ctrl_cmd st1
          \<or> (m_control_state st1 = STOPPING \<and> m_control_state st2 = DRIVE
             \<and> m_prev_ctrl_cmd st2 = (m_prev_ctrl_cmd st1)\<lparr>acc := fmax (Fin 0) (acc (m_prev_raw_ctrl_cmd st1))\<rparr>)"
        "m_trajectory st2 = m_trajectory st1" "m_vel_hist st2 = m_vel_hist st1"
      by (rule updateControlState_step [OF idx(1), of cfg clk st1])
    have ok2: "lon_ok st2"
      by (rule lon_ok_update [OF ok1 stop fr(2,3,6)])
    obtain cmd st3 x where calc: "calcCtrlCmd cfg clk cd st2 = Some (cmd, st3)" "lon_ok st3" "command_frame st2 st3"
      "acc cmd = applyDiffLimitFilter_sym x (acc (m_prev_ctrl_cmd st2)) (cd_dt cd) (max_acc_cmd_diff cfg)"
      and kind: "(m_control_state st2 = STOPPED \<and> vel cmd = stopped_vel cfg \<and> x = stopped_acc cfg
          \<and> m_prev_raw_ctrl_cmd st3 = \<lparr>vel = Fin 0, acc = Fin 0\<rparr>)
      \<or> (\<exists>e. vel cmd = vel (m_prev_raw_ctrl_cmd st3)
           \<and> x = applySlopeCompensation cfg (acc (m_prev_raw_ctrl_cmd st3) - e * acc_feedback_gain cfg)
                   (slope_angle cd) (cd_shift cd)
           \<and> ((m_control_state st2 = EMERGENCY
                \<and> m_prev_raw_ctrl_cmd st3 = calcEmergencyCtrlCmd cfg (cd_dt cd) st2)
              \<or> (\<exists>v a. m_prev_raw_ctrl_cmd st3 = limit_raw cfg (cd_dt cd) \<lparr>vel = v, acc = a\<rparr> st2
                  \<and> v \<in> {stopped_vel cfg, longitudinal_velocity_mps (interpolated_traj cd ! target_idx cd)})))"
      using calcCtrlCmd_Some [OF ok2 idx(2), of cfg clk] by blast
    have raw2: "m_prev_raw_ctrl_cmd st2 = m_prev_raw_ctrl_cmd st"
      using fr(4) f1(4) by (simp add: st0_def)
    obtain h where h: "createCtrlCmdMsg cfg clk cmd (vel (current_motion cd)) st3
        = Some (command_msg clk cmd, st3\<lparr>m_vel_hist := h, m_prev_ctrl_cmd := cmd\<rparr>)"
      "hist_step clk room (m_vel_hist st3) h"
      using createCtrlCmdMsg_Some [OF room, of clk cmd "vel (current_motion cd)" st3] by blast
    define st' where "st' = st3\<lparr>m_vel_hist := h, m_prev_ctrl_cmd := cmd\<rparr>"
    have s3: "m_control_state st3 = m_control_state st2" "m_trajectory st3 = m_trajectory st2"
      "stop_params (m_smooth_stop st3) = stop_params (m_smooth_stop st2)"
      "m_params (m_pid_vel st3) = m_params (m_pid_vel st2)"
      using calc(3) by (simp_all add: command_frame_def)
    have hist3: "m_vel_hist st3 = m_vel_hist st"
      using calc(3) fr(7) f1(5) by (simp add: command_frame_def st0_def)
    have "near_command cfg cd st st' cmd"
      unfolding near_command_def raw_kind_def
      using calc(4) kind fr(5) f1(1,3,4) s3(1) emergency_cong [OF raw2] limit_raw_cong [OF raw2]
      by (intro exI [of _ x] exI [of _ "acc (m_prev_ctrl_cmd st2)"]) (auto simp: st'_def st0_def)
    moreover have "run_frame input st st'"
      using calc(2) fr(1,3,6) f1(2,8) par1 s3
      by (auto simp: run_frame_def st'_def lon_ok_def st0_def)
    moreover have "lon_controller_run cfg eig clk input st = Some (lon_output_of (command_msg clk cmd), st')"
      using False up calc(1) h(1) by (simp add: run st'_def)
    moreover have "transition_allowed (under_control (lon_input input st)) (m_control_state st) (m_control_state st')"
      using trans f1(1,9) s3(1) under_control_eq [of st1 "lon_input input st"]
      by (simp add: st'_def st0_def)
    ultimately show ?thesis
      using False dt idx(2) h(2) convex hist3 far_iff
      by (intro near [of cmd st' cd]) (auto simp: st'_def st0_def)
  qed
qed

end
