(* ===== verification/Longitudinal_Limits.thy ===== *)
theory Longitudinal_Limits
  imports Longitudinal_Run
begin

text \<open>
  The limits on the commands of the longitudinal controller: the values a rate limiter keeps,
  and the two invariants of the state (accelerations and speeds) that every run preserves.
\<close>

section \<open>Limited values\<close>

text \<open>A NaN, or a finite value between two limits.\<close>

definition limited :: "real \<Rightarrow> real \<Rightarrow> dbl \<Rightarrow> bool" where
  "limited lo hi x \<longleftrightarrow> x = NaN \<or> (\<exists>r. x = Fin r \<and> lo \<le> r \<and> r \<le> hi)"

named_theorems limited_intros "values that stay between two limits"

lemma limited_NaN [simp]: "limited lo hi NaN"
  by (simp add: limited_def)

lemma limited_Fin [simp]: "limited lo hi (Fin r) \<longleftrightarrow> lo \<le> r \<and> r \<le> hi"
  by (simp add: limited_def)

lemma limited_mono: "limited lo hi x \<Longrightarrow> lo' \<le> lo \<Longrightarrow> hi \<le> hi' \<Longrightarrow> limited lo' hi' x"
  by (auto simp: limited_def)

lemma limited_cases:
  assumes "limited lo hi x"
  obtains "x = NaN" | r where "x = Fin r" "lo \<le> r" "r \<le> hi"
  using assms by (auto simp: limited_def)

lemma limited_to_float:
  "limited lo hi x \<Longrightarrow> - flt_max \<le> lo \<Longrightarrow> hi \<le> flt_max \<Longrightarrow> limited lo hi (to_float x)"
  by (auto elim!: limited_cases simp: in_range_def)

lemma limited_fclamp: "lo \<le> hi \<Longrightarrow> limited lo hi (fclamp x (Fin lo) (Fin hi))"
  by (cases x) (auto simp: fclamp_def)

text \<open>What a limiter does to a quotient that may have overflowed.\<close>

lemma clamp_quotient:
  assumes "- m \<le> lo" "lo \<le> hi" "hi \<le> m" "m \<le> dbl_max"
  shows "fmin (fmax (fl q) (Fin lo)) (Fin hi) = Fin (min (max q lo) hi)"
  using assms by (auto simp: in_range_def fmin_def fmax_def min_def max_def)

definition step_ok :: "dbl \<Rightarrow> bool" where
  "step_ok dt \<longleftrightarrow> dt = NaN \<or> (\<exists>t. dt = Fin t \<and> 0 < t \<and> t \<le> 10 ^ 7)"

lemma limited_diff_limit [limited_intros]:
  assumes x: "limited lo hi x" and p: "limited lo hi p" and dt: "step_ok dt"
    and mx: "bounded_by (10 ^ 7) mx" "Fin 0 \<le> mx" and mn: "bounded_by (10 ^ 7) mn" "mn \<le> Fin 0"
    and big: "- flt_max \<le> lo" "hi \<le> flt_max"
  shows "limited lo hi (applyDiffLimitFilter x p dt mx mn)"
proof (cases "x = NaN \<or> p = NaN \<or> dt = NaN")
  case True
  then show ?thesis
    using mx mn
    by (auto simp: applyDiffLimitFilter_def Let_def fmin_def fmax_def minus_dbl_def
        elim!: bounded_cases)
next
  case False
  obtain u v where uv: "x = Fin u" "lo \<le> u" "u \<le> hi" "p = Fin v" "lo \<le> v" "v \<le> hi"
    using False x p by (auto elim!: limited_cases)
  obtain t where t: "dt = Fin t" "0 < t" "t \<le> 10 ^ 7"
    using False dt by (auto simp: step_ok_def)
  obtain h l where hl: "mx = Fin h" "0 \<le> h" "h \<le> 10 ^ 7" "mn = Fin l" "l \<le> 0" "- (10 ^ 7) \<le> l"
    using mx mn by (auto elim!: bounded_cases)
  have flt: "4 * flt_max \<le> dbl_max" "(10 :: real) ^ 14 \<le> flt_max"
    by (simp_all add: flt_max_def dbl_max_def)
  have sub: "x - p = Fin (u - v)"
    using uv flt big by (simp add: minus_dbl_def in_range_Fin abs_le_iff)
  define d where "d = min (max ((u - v) / t) l) h"
  have "fmin (fmax ((x - p) div dt) mn) mx = Fin d"
    unfolding sub t(1) hl(1,4) d_def using t hl dbl_max_ge
    by (simp add: clamp_quotient [of "10 ^ 7"])
  moreover have "\<bar>d * t\<bar> \<le> 10 ^ 14"
  proof -
    have "\<bar>d\<bar> \<le> 10 ^ 7"
      using hl by (auto simp: d_def min_def max_def abs_le_iff)
    then have "\<bar>d\<bar> * \<bar>t\<bar> \<le> 10 ^ 7 * 10 ^ 7"
      using t by (intro mult_mono) auto
    then show ?thesis
      by (simp add: abs_mult)
  qed
  ultimately have "applyDiffLimitFilter x p dt mx mn = fl (v + d * t)"
    using uv t by (simp add: applyDiffLimitFilter_def Let_def)
  moreover have "min u v \<le> v + d * t" "v + d * t \<le> max u v"
    using diff_limit_real [where x = u and p = v and d = t and hi = h and lo = l] t hl by (auto simp: d_def)
  then have "lo \<le> v + d * t" "v + d * t \<le> hi"
    using uv by (auto simp: min_def max_def split: if_splits)
  ultimately show ?thesis
    using flt big by (simp add: in_range_Fin)
qed

lemma limited_diff_limit_sym [limited_intros]:
  "limited lo hi x \<Longrightarrow> limited lo hi p \<Longrightarrow> step_ok dt \<Longrightarrow> bounded_by (10 ^ 7) bnd \<Longrightarrow>
     - flt_max \<le> lo \<Longrightarrow> hi \<le> flt_max \<Longrightarrow> limited lo hi (applyDiffLimitFilter_sym x p dt bnd)"
  unfolding applyDiffLimitFilter_sym_def Let_def
  by (rule limited_diff_limit) (auto elim!: bounded_cases)

lemma diff_limit_NaN:
  "p = NaN \<Longrightarrow> applyDiffLimitFilter_sym x p dt bnd = NaN"
  by (simp add: applyDiffLimitFilter_sym_def applyDiffLimitFilter_def Let_def)

section \<open>The time step\<close>

lemma getDt_step:
  assumes "longitudinal_ctrl_period cfg = Fin t" "0 < t" "t \<le> 10 ^ 6"
  shows "limited (t / 2) (2 * t) (fst (getDt cfg clk st))" "step_ok (fst (getDt cfg clk st))"
proof -
  have *: "Fin t * Fin 2 = Fin (2 * t)" "Fin t * Fin (1 / 2) = Fin (t / 2)"
    using assms dbl_max_ge by (simp_all add: in_range_Fin)
  have "limited (t / 2) (2 * t) (fmax (fmin x (Fin (2 * t))) (Fin (t / 2)))" for x
    using assms by (cases x) (auto simp: fmin_def fmax_def)
  then show l: "limited (t / 2) (2 * t) (fst (getDt cfg clk st))"
    by (simp add: getDt_def Let_def assms(1) * del: times_dbl.simps)
  show "step_ok (fst (getDt cfg clk st))"
    using l assms by (auto elim!: limited_cases simp: step_ok_def)
qed

section \<open>Slope compensation\<close>

definition max_pitch :: "lon_config \<Rightarrow> real" where
  "max_pitch cfg = max \<bar>value_of (min_pitch_rad cfg)\<bar> \<bar>value_of (max_pitch_rad cfg)\<bar>"

definition slope_margin :: "lon_config \<Rightarrow> real" where
  "slope_margin cfg = 981 / 100 * max_pitch cfg"

lemma limited_slope:
  assumes a: "limited lo hi a" and pitch: "isfinite (min_pitch_rad cfg)" "isfinite (max_pitch_rad cfg)"
    and big: "- flt_max \<le> lo" "hi \<le> flt_max"
  shows "limited (lo - slope_margin cfg) (hi + slope_margin cfg) (applySlopeCompensation cfg a ps sh)"
proof (cases "\<not> enable_slope_compensation cfg \<or> a = NaN \<or> ps = NaN")
  case True
  have "0 \<le> slope_margin cfg"
    by (simp add: slope_margin_def max_pitch_def)
  then have "limited (lo - slope_margin cfg) (hi + slope_margin cfg) a"
    using a by (auto elim: limited_mono)
  then show ?thesis
    using True pitch
    by (auto simp: applySlopeCompensation_def Let_def fmin_def fmax_def fsin_def lift_real_def isfinite_iff)
next
  case False
  obtain mn mx where m: "min_pitch_rad cfg = Fin mn" "max_pitch_rad cfg = Fin mx"
    using pitch by (auto simp: isfinite_iff)
  have "\<exists>y. fmin (fmax ps (Fin mn)) (Fin mx) = Fin y \<and> \<bar>y\<bar> \<le> max \<bar>mn\<bar> \<bar>mx\<bar>"
    using False by (cases ps) (auto simp: fmin_def fmax_def)
  then obtain y where y: "fmin (fmax ps (Fin mn)) (Fin mx) = Fin y" "\<bar>y\<bar> \<le> max_pitch cfg"
    by (auto simp: m max_pitch_def)
  define s :: real where "s = (if sh = Forward then 1 else - 1)"
  define c where "c = s * (981 / 100) * sin y"
  have sy: "\<bar>sin y\<bar> \<le> \<bar>y\<bar>" "\<bar>sin y\<bar> \<le> 1"
    by (simp_all add: abs_sin_x_le_abs_x)
  have c: "\<bar>c\<bar> \<le> 981 / 100" "\<bar>c\<bar> \<le> slope_margin cfg"
    using sy y(2) by (auto simp: c_def s_def abs_mult slope_margin_def)
  obtain u where u: "a = Fin u" "lo \<le> u" "u \<le> hi"
    using False a by (auto elim!: limited_cases)
  have flt: "flt_max + 10 \<le> dbl_max"
    by (simp add: flt_max_def dbl_max_def)
  have sg: "(if sh = Forward then Fin 1 else Fin (- 1)) = Fin s"
    by (simp add: s_def)
  have "s * (981 / 100) * sin y = c" "\<bar>s * (981 / 100)\<bar> \<le> 10 ^ 30"
    by (auto simp: c_def s_def)
  then have "Fin s * Fin (981 / 100) * fsin (Fin y) = fl c"
    by (simp add: fsin_def lift_real_def)
  moreover have "fl c = Fin c"
    using c(1) by (intro fl_small) simp
  moreover have "\<bar>u + c\<bar> \<le> dbl_max"
    using c(1) u(2,3) flt big unfolding abs_le_iff by linarith
  ultimately have "applySlopeCompensation cfg a ps sh = Fin (u + c)"
    using False u(1) y(1) m
    by (simp add: applySlopeCompensation_def Let_def sg in_range_Fin del: times_dbl.simps)
  then show ?thesis
    using c(2) u(2,3) by (simp add: abs_le_iff)
qed

end
