(* ===== verification/Longitudinal_Invariants.thy ===== *)
theory Longitudinal_Invariants
  imports Longitudinal_Limits
begin

text \<open>
  What holds after any sequence of calls the node makes on its longitudinal controller. The
  contract of an invariant is a locale, interpreted for four of them: a run always gives
  a command, accelerations are limited, speeds stay within those of the trajectories, and the
  speed history holds no more samples than its room allows.
\<close>

section \<open>Sequences of calls\<close>

datatype lon_event =
    Run lon_clock input_data
  | Sync lateral_sync_data
  | Reset

text \<open>The outputs of the runs and the last state; \<open>None\<close> as soon as a run fails.\<close>

fun lon_history ::
  "lon_config \<Rightarrow> eigen_ops \<Rightarrow> lon_event list \<Rightarrow> lon_state \<Rightarrow> (longitudinal_output list \<times> lon_state) option" where
  "lon_history cfg eig [] st = Some ([], st)"
| "lon_history cfg eig (Run clk input # es) st =
     do {
       (out, st) \<leftarrow> lon_controller_run cfg eig clk input st;
       (outs, st) \<leftarrow> lon_history cfg eig es st;
       Some (out # outs, st)
     }"
| "lon_history cfg eig (Sync d # es) st = lon_history cfg eig es (lon_controller_sync d st)"
| "lon_history cfg eig (Reset # es) st = lon_history cfg eig es (lon_controller_reset st)"

fun lon_inputs :: "lon_event list \<Rightarrow> (lon_clock \<times> input_data) list" where
  "lon_inputs [] = []"
| "lon_inputs (Run clk input # es) = (clk, input) # lon_inputs es"
| "lon_inputs (Sync d # es) = lon_inputs es"
| "lon_inputs (Reset # es) = lon_inputs es"

text \<open>A trajectory short enough for its indices to be \<open>size_t\<close> values of the 32-bit target.\<close>

definition short_input :: "input_data \<Rightarrow> bool" where
  "short_input input \<longleftrightarrow> length (points (in_trajectory input)) + 2 < 2 ^ 32"

text \<open>The room for samples of the speed history is a \<open>size_t\<close>.\<close>

definition room_ok :: "lon_config \<Rightarrow> bool" where
  "room_ok cfg \<longleftrightarrow> cast_u32 (delay_compensation_time cfg div longitudinal_ctrl_period cfg) \<noteq> None"

section \<open>Invariants\<close>

locale lon_invariant =
  fixes cfg :: lon_config and eig :: eigen_ops and keeps :: "lon_state \<Rightarrow> bool"
    and allowed :: "lon_clock \<Rightarrow> input_data \<Rightarrow> bool" and good :: "longitudinal_output \<Rightarrow> bool"
  assumes run_keeps: "keeps st \<Longrightarrow> allowed clk input \<Longrightarrow>
      \<exists>out st'. lon_controller_run cfg eig clk input st = Some (out, st') \<and> good out \<and> keeps st'"
    and sync_keeps: "keeps st \<Longrightarrow> keeps (lon_controller_sync d st)"
    and reset_keeps: "keeps st \<Longrightarrow> keeps (lon_controller_reset st)"
begin

lemma history_keeps:
  assumes "keeps st" and "\<forall>(clk, input) \<in> set (lon_inputs es). allowed clk input"
  shows "\<exists>outs st'. lon_history cfg eig es st = Some (outs, st')
    \<and> length outs = length (lon_inputs es) \<and> (\<forall>out \<in> set outs. good out) \<and> keeps st'"
  using assms
proof (induction es arbitrary: st)
  case (Cons e es)
  show ?case
  proof (cases e)
    case (Run clk input)
    obtain out st1 where r: "lon_controller_run cfg eig clk input st = Some (out, st1)" "good out" "keeps st1"
      using run_keeps [of st clk input] Cons.prems by (auto simp: Run)
    obtain outs st2 where "lon_history cfg eig es st1 = Some (outs, st2)"
      "length outs = length (lon_inputs es)" "\<forall>out \<in> set outs. good out" "keeps st2"
      using Cons.IH [OF r(3)] Cons.prems(2) by (auto simp: Run)
    then show ?thesis
      using r by (auto simp: Run)
  qed (use Cons sync_keeps reset_keeps in auto)
qed simp

end

lemma sync_frame [simp]:
  "m_prev_ctrl_cmd (lon_controller_sync d st) = m_prev_ctrl_cmd st"
  "m_prev_raw_ctrl_cmd (lon_controller_sync d st) = m_prev_raw_ctrl_cmd st"
  "m_trajectory (lon_controller_sync d st) = m_trajectory st"
  "m_vel_hist (lon_controller_sync d st) = m_vel_hist st"
  "lon_ok (lon_controller_sync d st) = lon_ok st"
  "m_prev_ctrl_cmd (lon_controller_reset st) = m_prev_ctrl_cmd st"
  "m_prev_raw_ctrl_cmd (lon_controller_reset st) = m_prev_raw_ctrl_cmd st"
  "m_trajectory (lon_controller_reset st) = m_trajectory st"
  "m_vel_hist (lon_controller_reset st) = m_vel_hist st"
  "lon_ok (lon_controller_reset st) = lon_ok st"
  by (simp_all add: lon_controller_sync_def lon_controller_reset_def lon_ok_def)

section \<open>A run always gives a command\<close>

lemma lon_ok_construct: "lon_ok (lon_construct env clk)"
  by (simp add: lon_ok_def lon_construct_def Let_def initial_pid_def setLimits_def setGains_def
      initial_smooth_stop_def smooth_setParams_def empty_trajectory_def)

lemma lon_run_total:
  assumes "lon_ok st" "room_ok cfg" "short_input input"
  obtains out st' where "lon_controller_run cfg eig clk input st = Some (out, st')" and "lon_ok st'"
proof -
  obtain room where room: "cast_u32 (delay_compensation_time cfg div longitudinal_ctrl_period cfg) = Some room"
    using assms(2) by (auto simp: room_ok_def)
  have len: "length (points (in_trajectory input)) + 2 < 2 ^ 32"
    using assms(3) by (simp add: short_input_def)
  show ?thesis
    by (rule lon_run_cases [OF assms(1) room len, where eig = eig and clk = clk])
      (use that in \<open>auto simp: run_frame_def\<close>)
qed

interpretation total: lon_invariant cfg eig "\<lambda>st. lon_ok st \<and> room_ok cfg" "\<lambda>clk. short_input" "\<lambda>out. True"
  for cfg eig
  by unfold_locales (use lon_run_total in \<open>auto, metis\<close>)

section \<open>Accelerations\<close>

definition lon_limits :: "lon_config \<Rightarrow> bool" where
  "lon_limits cfg \<longleftrightarrow>
     (\<exists>t. longitudinal_ctrl_period cfg = Fin t \<and> 0 < t \<and> t \<le> 10 ^ 6)
     \<and> (\<forall>x \<in> {min_acc cfg, max_acc cfg, stopped_acc cfg, stopped_vel cfg, emergency_acc cfg, emergency_vel cfg,
             emergency_jerk cfg, max_jerk cfg, min_jerk cfg, max_acc_cmd_diff cfg, min_pitch_rad cfg,
             max_pitch_rad cfg}. bounded_by (10 ^ 6) x)
     \<and> min_acc cfg \<le> Fin 0 \<and> Fin 0 \<le> max_acc cfg \<and> min_jerk cfg \<le> Fin 0 \<and> Fin 0 \<le> max_jerk cfg
     \<and> acc_feedback_gain cfg = Fin 0"

definition acc_floor :: "lon_config \<Rightarrow> real" where
  "acc_floor cfg = min (value_of (min_acc cfg)) (value_of (stopped_acc cfg)) - slope_margin cfg"

definition acc_ceiling :: "lon_config \<Rightarrow> real" where
  "acc_ceiling cfg = max (value_of (max_acc cfg)) (value_of (stopped_acc cfg)) + slope_margin cfg"

definition acc_inv :: "lon_config \<Rightarrow> lon_state \<Rightarrow> bool" where
  "acc_inv cfg st \<longleftrightarrow>
     limited (value_of (min_acc cfg)) (value_of (max_acc cfg)) (acc (m_prev_raw_ctrl_cmd st))
     \<and> limited (acc_floor cfg) (acc_ceiling cfg) (acc (m_prev_ctrl_cmd st))"

definition acc_good :: "lon_config \<Rightarrow> longitudinal_output \<Rightarrow> bool" where
  "acc_good cfg out \<longleftrightarrow>
     limited (acc_floor cfg) (acc_ceiling cfg) (acceleration (lon_control_cmd out))"

text \<open>The numbers behind \<open>lon_limits\<close>.\<close>

lemma lon_limits_cases:
  assumes "lon_limits cfg"
  obtains a b s where "min_acc cfg = Fin a" "max_acc cfg = Fin b" "stopped_acc cfg = Fin s"
    "a \<le> 0" "0 \<le> b" "- flt_max \<le> a" "b \<le> flt_max"
    "acc_floor cfg \<le> a" "acc_floor cfg \<le> s" "b \<le> acc_ceiling cfg" "s \<le> acc_ceiling cfg"
    "- flt_max \<le> acc_floor cfg" "acc_ceiling cfg \<le> flt_max"
    "a - slope_margin cfg \<ge> acc_floor cfg" "b + slope_margin cfg \<le> acc_ceiling cfg"
proof -
  have *: "bounded_by (10 ^ 6) (min_acc cfg)" "bounded_by (10 ^ 6) (max_acc cfg)"
    "bounded_by (10 ^ 6) (stopped_acc cfg)" "bounded_by (10 ^ 6) (min_pitch_rad cfg)"
    "bounded_by (10 ^ 6) (max_pitch_rad cfg)" "min_acc cfg \<le> Fin 0" "Fin 0 \<le> max_acc cfg"
    using assms by (auto simp: lon_limits_def)
  obtain a b s p q where v: "min_acc cfg = Fin a" "max_acc cfg = Fin b" "stopped_acc cfg = Fin s"
    "min_pitch_rad cfg = Fin p" "max_pitch_rad cfg = Fin q" "\<bar>a\<bar> \<le> 10 ^ 6" "\<bar>b\<bar> \<le> 10 ^ 6" "\<bar>s\<bar> \<le> 10 ^ 6"
    "\<bar>p\<bar> \<le> 10 ^ 6" "\<bar>q\<bar> \<le> 10 ^ 6"
    using *(1-5) by (metis bounded_cases)
  have m: "0 \<le> slope_margin cfg" "slope_margin cfg \<le> 10000000"
    using v by (auto simp: slope_margin_def max_pitch_def)
  have flt: "100000000 \<le> flt_max"
    by (simp add: flt_max_def)
  have f: "acc_floor cfg = min a s - slope_margin cfg" "acc_ceiling cfg = max b s + slope_margin cfg"
    using v by (simp_all add: acc_floor_def acc_ceiling_def)
  have mm: "min a s \<le> a" "min a s \<le> s" "b \<le> max b s" "s \<le> max b s" "- 1000000 \<le> min a s" "max b s \<le> 1000000"
    using v(6-8) by (auto simp: abs_le_iff)
  have ab: "a \<le> 0" "0 \<le> b" "- 1000000 \<le> a" "b \<le> 1000000"
    using *(6,7) v by (auto simp: abs_le_iff)
  show ?thesis
    by (rule that [OF v(1-3) ab(1,2)]) (use m flt mm ab in \<open>unfold f, linarith+\<close>)
qed

lemma feedback_off:
  assumes "limited lo hi a" "- flt_max \<le> lo" "hi \<le> flt_max"
  shows "limited lo hi (a - e * Fin 0)"
proof -
  have e: "e * Fin 0 = Fin 0 \<or> e * Fin 0 = NaN"
    by (cases e) (auto simp: inf_of_def)
  show ?thesis
    using assms(1)
  proof (cases rule: limited_cases)
    case (2 r)
    then have "\<bar>r\<bar> \<le> dbl_max"
      using assms(2,3) flt_max_le_dbl_max unfolding abs_le_iff by linarith
    then have "Fin r - Fin 0 = Fin r"
      by (simp add: minus_dbl_def in_range_Fin)
    then show ?thesis
      using e 2 by auto
  qed simp
qed

text \<open>The raw command of every control state.\<close>

lemma limited_raw:
  assumes lim: "lon_limits cfg" and dt: "step_ok dt"
    and raw: "limited (value_of (min_acc cfg)) (value_of (max_acc cfg)) (acc (m_prev_raw_ctrl_cmd st))"
  shows "limited (value_of (min_acc cfg)) (value_of (max_acc cfg)) (acc (calcEmergencyCtrlCmd cfg dt st))"
    "limited (value_of (min_acc cfg)) (value_of (max_acc cfg)) (acc (limit_raw cfg dt m st))"
proof -
  obtain a b where v: "min_acc cfg = Fin a" "max_acc cfg = Fin b" "a \<le> 0" "0 \<le> b" "- flt_max \<le> a" "b \<le> flt_max"
    using lon_limits_cases [OF lim] by blast
  have *: "bounded_by (10 ^ 7) (emergency_jerk cfg)" "bounded_by (10 ^ 7) (max_jerk cfg)"
    "bounded_by (10 ^ 7) (min_jerk cfg)" "min_jerk cfg \<le> Fin 0" "Fin 0 \<le> max_jerk cfg"
    using lim by (auto simp: lon_limits_def intro: bounded_mono)
  have c: "limited a b (fclamp x (Fin a) (Fin b))" for x
    using v by (intro limited_fclamp) simp
  show "limited (value_of (min_acc cfg)) (value_of (max_acc cfg)) (acc (calcEmergencyCtrlCmd cfg dt st))"
    using raw v * dt c by (auto simp: calcEmergencyCtrlCmd_def Let_def intro!: limited_intros)
  show "limited (value_of (min_acc cfg)) (value_of (max_acc cfg)) (acc (limit_raw cfg dt m st))"
    using raw v * dt c by (auto simp: limit_raw_def intro!: limited_intros)
qed

lemma limited_raw_kind:
  "raw_kind cfg dt v st s raw \<Longrightarrow> lon_limits cfg \<Longrightarrow> step_ok dt \<Longrightarrow>
     limited (value_of (min_acc cfg)) (value_of (max_acc cfg)) (acc (m_prev_raw_ctrl_cmd st)) \<Longrightarrow>
     limited (value_of (min_acc cfg)) (value_of (max_acc cfg)) (acc raw)"
  using limited_raw by (auto simp: raw_kind_def)

lemma acc_inv_near:
  assumes lim: "lon_limits cfg" and inv: "acc_inv cfg st" and dt: "step_ok (cd_dt cd)"
    and near: "near_command cfg cd st st' cmd"
  shows "limited (value_of (min_acc cfg)) (value_of (max_acc cfg)) (acc (m_prev_raw_ctrl_cmd st'))"
    and "limited (acc_floor cfg) (acc_ceiling cfg) (acc cmd)"
proof -
  obtain a b s where v: "min_acc cfg = Fin a" "max_acc cfg = Fin b" "stopped_acc cfg = Fin s"
    "a \<le> 0" "0 \<le> b" "acc_floor cfg \<le> a" "acc_floor cfg \<le> s" "b \<le> acc_ceiling cfg" "s \<le> acc_ceiling cfg"
    "- flt_max \<le> acc_floor cfg" "acc_ceiling cfg \<le> flt_max"
    "a - slope_margin cfg \<ge> acc_floor cfg" "b + slope_margin cfg \<le> acc_ceiling cfg"
    using lon_limits_cases [OF lim] by blast
  obtain x p where cmd: "acc cmd = applyDiffLimitFilter_sym x p (cd_dt cd) (max_acc_cmd_diff cfg)"
    and p: "p = acc (m_prev_ctrl_cmd st)
          \<or> (m_control_state st = STOPPING \<and> m_control_state st' = DRIVE
             \<and> p = fmax (Fin 0) (acc (m_prev_raw_ctrl_cmd st)))"
    and kind: "(x = stopped_acc cfg \<and> m_prev_raw_ctrl_cmd st' = \<lparr>vel = Fin 0, acc = Fin 0\<rparr>)
          \<or> (\<exists>e. x = applySlopeCompensation cfg (acc (m_prev_raw_ctrl_cmd st') - e * acc_feedback_gain cfg)
                       (slope_angle cd) (cd_shift cd)
               \<and> raw_kind cfg (cd_dt cd)
                   (longitudinal_velocity_mps (interpolated_traj cd ! target_idx cd)) st
                   (m_control_state st') (m_prev_raw_ctrl_cmd st'))"
    using near unfolding near_command_def by blast
  have raw: "limited a b (acc (m_prev_raw_ctrl_cmd st))"
    and prev: "limited (acc_floor cfg) (acc_ceiling cfg) (acc (m_prev_ctrl_cmd st))"
    using inv v by (auto simp: acc_inv_def)
  show "limited (value_of (min_acc cfg)) (value_of (max_acc cfg)) (acc (m_prev_raw_ctrl_cmd st'))"
    using kind limited_raw_kind [OF _ lim dt] raw v by auto
  then have raw': "limited a b (acc (m_prev_raw_ctrl_cmd st'))"
    using v by simp
  have off: "limited a b (acc (m_prev_raw_ctrl_cmd st') - e * acc_feedback_gain cfg)" for e
    using feedback_off [OF raw'] v lim by (auto simp: lon_limits_def)
  have pitch: "isfinite (min_pitch_rad cfg)" "isfinite (max_pitch_rad cfg)"
    using lim bounded_finite by (auto simp: lon_limits_def)
  have "limited (a - slope_margin cfg) (b + slope_margin cfg) (applySlopeCompensation cfg
      (acc (m_prev_raw_ctrl_cmd st') - e * acc_feedback_gain cfg) (slope_angle cd) (cd_shift cd))" for e
    by (rule limited_slope [OF off pitch]) (use v in auto)
  then have x: "limited (acc_floor cfg) (acc_ceiling cfg) x"
    using kind v by (auto intro: limited_mono)
  have "limited (acc_floor cfg) (acc_ceiling cfg) (fmax (Fin 0) (acc (m_prev_raw_ctrl_cmd st)))"
    using raw v by (auto elim!: limited_cases simp: fmax_def)
  then have "limited (acc_floor cfg) (acc_ceiling cfg) p"
    using p prev by auto
  moreover have "bounded_by (10 ^ 7) (max_acc_cmd_diff cfg)"
    using lim by (auto simp: lon_limits_def intro: bounded_mono)
  ultimately show "limited (acc_floor cfg) (acc_ceiling cfg) (acc cmd)"
    unfolding cmd by (intro limited_diff_limit_sym x dt v(10,11))
qed

lemma acc_good_msg:
  assumes "lon_limits cfg" "limited (acc_floor cfg) (acc_ceiling cfg) (acc cmd)"
  shows "acc_good cfg (lon_output_of (command_msg clk cmd))"
  using limited_to_float [OF assms(2)] lon_limits_cases [OF assms(1)]
  by (auto simp: acc_good_def lon_output_of_def command_msg_def)

lemma acc_inv_run:
  assumes "lon_ok st" "room_ok cfg" "lon_limits cfg" "acc_inv cfg st" "short_input input"
  shows "\<exists>out st'. lon_controller_run cfg eig clk input st = Some (out, st') \<and> acc_good cfg out
    \<and> lon_ok st' \<and> acc_inv cfg st'"
proof -
  obtain room where room: "cast_u32 (delay_compensation_time cfg div longitudinal_ctrl_period cfg) = Some room"
    using assms(2) by (auto simp: room_ok_def)
  have len: "length (points (in_trajectory input)) + 2 < 2 ^ 32"
    using assms(5) by (simp add: short_input_def)
  have dt: "step_ok (fst (getDt cfg clk st))"
    using getDt_step(2) assms(3) unfolding lon_limits_def by blast
  have raw: "limited (value_of (min_acc cfg)) (value_of (max_acc cfg)) (acc (m_prev_raw_ctrl_cmd st))"
    using assms(4) by (simp add: acc_inv_def)
  show ?thesis
  proof (rule lon_run_cases [OF assms(1) room len, where eig = eig and clk = clk], goal_cases)
    case (1 st')
    define raw' where "raw' = calcEmergencyCtrlCmd cfg (fst (getDt cfg clk st)) st"
    have a: "limited (value_of (min_acc cfg)) (value_of (max_acc cfg)) (acc raw')"
      unfolding raw'_def by (rule limited_raw(1) [OF assms(3) dt raw])
    then have "limited (acc_floor cfg) (acc_ceiling cfg) (acc raw')"
      using lon_limits_cases [OF assms(3)] limited_mono by (metis value_of.simps(1))
    then show ?case
      using 1 a acc_good_msg [OF assms(3)] unfolding raw'_def
      by (auto simp: acc_inv_def run_frame_def)
  next
    case (2 cd cmd st')
    note near = acc_inv_near [OF assms(3,4) dt [folded 2(5)] 2(7)]
    then show ?case
      using 2(1,2,4) acc_good_msg [OF assms(3)] by (auto simp: acc_inv_def run_frame_def)
  qed
qed

interpretation accelerations: lon_invariant cfg eig
  "\<lambda>st. lon_ok st \<and> room_ok cfg \<and> lon_limits cfg \<and> acc_inv cfg st" "\<lambda>clk. short_input" "acc_good cfg"
  for cfg eig
proof (unfold_locales, goal_cases)
  case (1 st clk input)
  then show ?case
    using acc_inv_run [of st cfg input eig clk] by blast
qed (simp_all add: acc_inv_def)

section \<open>Speeds\<close>

text \<open>The speeds of a plan lie between two limits that include standstill.\<close>

definition speed_in :: "real \<Rightarrow> real \<Rightarrow> tp \<Rightarrow> bool" where
  "speed_in lo hi p \<longleftrightarrow> (\<exists>v. longitudinal_velocity_mps p = Fin v \<and> lo \<le> v \<and> v \<le> hi)"

definition plan_in :: "real \<Rightarrow> real \<Rightarrow> input_data \<Rightarrow> bool" where
  "plan_in lo hi input \<longleftrightarrow> short_input input \<and> (\<forall>p \<in> set (points (in_trajectory input)). speed_in lo hi p)"

definition speed_limits :: "real \<Rightarrow> real \<Rightarrow> lon_config \<Rightarrow> bool" where
  "speed_limits lo hi cfg \<longleftrightarrow> lo \<le> 0 \<and> 0 \<le> hi \<and> - flt_max \<le> lo \<and> hi \<le> flt_max
     \<and> (\<exists>t. longitudinal_ctrl_period cfg = Fin t \<and> 0 < t \<and> t \<le> 10 ^ 6)
     \<and> bounded_by (10 ^ 7) (emergency_acc cfg) \<and> emergency_vel cfg = Fin 0 \<and> stopped_vel cfg = Fin 0"

definition speed_inv :: "real \<Rightarrow> real \<Rightarrow> lon_state \<Rightarrow> bool" where
  "speed_inv lo hi st \<longleftrightarrow> limited lo hi (vel (m_prev_raw_ctrl_cmd st))
     \<and> (\<forall>p \<in> set (points (m_trajectory st)). speed_in lo hi p)"

definition speed_good :: "real \<Rightarrow> real \<Rightarrow> longitudinal_output \<Rightarrow> bool" where
  "speed_good lo hi out \<longleftrightarrow> limited lo hi (velocity (lon_control_cmd out))"

lemma speed_in_convex:
  assumes "- flt_max \<le> lo" "hi \<le> flt_max"
  shows "convex_points (speed_in lo hi)"
  unfolding convex_points_def
proof (intro allI impI)
  fix eig a b and r :: real
  assume ab: "speed_in lo hi a" "speed_in lo hi b" and r: "0 \<le> r" "r \<le> 1"
  obtain u v where uv: "longitudinal_velocity_mps a = Fin u" "lo \<le> u" "u \<le> hi"
    "longitudinal_velocity_mps b = Fin v" "lo \<le> v" "v \<le> hi"
    using ab by (auto simp: speed_in_def)
  have flt: "4 * flt_max \<le> dbl_max"
    by (simp add: flt_max_def dbl_max_def)
  define w where "w = u + (v - u) * r"
  have w: "lo \<le> w" "w \<le> hi"
    using convex_between [of "1 - r" lo u hi v] uv r by (simp_all add: w_def algebra_simps)
  have "\<bar>v - u\<bar> \<le> 2 * flt_max"
    using uv assms unfolding abs_le_iff by linarith
  moreover from this have "\<bar>(v - u) * r\<bar> \<le> 2 * flt_max"
    using r mult_mono [of "\<bar>v - u\<bar>" "2 * flt_max" r 1] by (simp add: abs_mult)
  moreover have "\<bar>w\<bar> \<le> flt_max"
    using w assms unfolding abs_le_iff by linarith
  moreover have "\<bar>x\<bar> \<le> dbl_max" if "\<bar>x\<bar> \<le> 2 * flt_max" for x
    using that flt flt_max_pos(2) by linarith
  ultimately have "lerp (Fin u) (Fin v) (Fin r) = Fin w" "to_float (Fin w) = Fin w"
    using flt_max_pos(2) unfolding w_def
    by (simp_all add: lerp_def minus_dbl_def in_range_Fin)
  then show "speed_in lo hi (interpolate_point eig a b (Fin r))"
    using uv w by (simp add: speed_in_def interpolate_point_def)
qed

lemma speed_good_msg:
  "speed_limits lo hi cfg \<Longrightarrow> limited lo hi (vel cmd) \<Longrightarrow> speed_good lo hi (lon_output_of (command_msg clk cmd))"
  using limited_to_float [of lo hi "vel cmd"]
  by (auto simp: speed_good_def lon_output_of_def command_msg_def speed_limits_def)

lemma limited_emergency_speed:
  assumes "speed_limits lo hi cfg" "limited lo hi (vel (m_prev_raw_ctrl_cmd st))" "step_ok dt"
  shows "limited lo hi (vel (calcEmergencyCtrlCmd cfg dt st))"
  using assms by (auto simp: calcEmergencyCtrlCmd_def Let_def speed_limits_def intro!: limited_intros)

lemma speed_inv_run:
  assumes "lon_ok st" "room_ok cfg" "speed_limits lo hi cfg" "speed_inv lo hi st" "plan_in lo hi input"
  shows "\<exists>out st'. lon_controller_run cfg eig clk input st = Some (out, st') \<and> speed_good lo hi out
    \<and> lon_ok st' \<and> speed_inv lo hi st'"
proof -
  obtain room where room: "cast_u32 (delay_compensation_time cfg div longitudinal_ctrl_period cfg) = Some room"
    using assms(2) by (auto simp: room_ok_def)
  have len: "length (points (in_trajectory input)) + 2 < 2 ^ 32"
    using assms(5) by (simp add: plan_in_def short_input_def)
  have dt: "step_ok (fst (getDt cfg clk st))"
    using getDt_step(2) assms(3) unfolding speed_limits_def by blast
  have raw: "limited lo hi (vel (m_prev_raw_ctrl_cmd st))"
    using assms(4) by (simp add: speed_inv_def)
  have pts: "\<forall>p \<in> set (points (m_trajectory (lon_input input st))). speed_in lo hi p"
    using lon_input_trajectory [of input st] assms(4,5) by (auto simp: speed_inv_def plan_in_def)
  have zero: "limited lo hi (stopped_vel cfg)" "limited lo hi (Fin 0)" "stopped_vel cfg = Fin 0"
    using assms(3) by (auto simp: speed_limits_def)
  show ?thesis
  proof (rule lon_run_cases [OF assms(1) room len, where eig = eig and clk = clk], goal_cases)
    case (1 st')
    then show ?case
      using limited_emergency_speed [OF assms(3) raw dt] speed_good_msg [OF assms(3)] pts
      by (auto simp: speed_inv_def run_frame_def)
  next
    case (2 cd cmd st')
    have "convex_points (speed_in lo hi)"
      using assms(3) by (auto simp: speed_limits_def intro: speed_in_convex)
    then have "speed_in lo hi (interpolated_traj cd ! target_idx cd)"
      using 2(6) 2(9) pts nth_mem by blast
    then have target: "limited lo hi (longitudinal_velocity_mps (interpolated_traj cd ! target_idx cd))"
      by (auto simp: speed_in_def)
    have "limited lo hi (vel (m_prev_raw_ctrl_cmd st')) \<and> limited lo hi (vel cmd)"
      using 2(7) target zero limited_emergency_speed [OF assms(3) raw dt, folded 2(5)]
      by (auto simp: near_command_def raw_kind_def limit_raw_def)
    then show ?case
      using 2(1,2) speed_good_msg [OF assms(3)] pts by (auto simp: speed_inv_def run_frame_def)
  qed
qed

interpretation speeds: lon_invariant cfg eig
  "\<lambda>st. lon_ok st \<and> room_ok cfg \<and> speed_limits lo hi cfg \<and> speed_inv lo hi st" "\<lambda>clk. plan_in lo hi" "speed_good lo hi"
  for cfg eig lo hi
proof (unfold_locales, goal_cases)
  case (1 st clk input)
  then show ?case
    using speed_inv_run [of st cfg lo hi input eig clk] by blast
qed (simp_all add: speed_inv_def)

section \<open>The speed history\<close>

definition clocks_ok :: "lon_clock \<Rightarrow> bool" where
  "clocks_ok clk \<longleftrightarrow> \<bar>hist_clock clk\<bar> \<le> 2 ^ 63"

text \<open>The history has at most as many samples as delay divided by period allows, each taken at
  a reading of the clock.\<close>

definition hist_inv :: "lon_config \<Rightarrow> lon_state \<Rightarrow> bool" where
  "hist_inv cfg st \<longleftrightarrow>
     (\<exists>room. cast_u32 (delay_compensation_time cfg div longitudinal_ctrl_period cfg) = Some room
        \<and> length (m_vel_hist st) \<le> nat room)
     \<and> (\<forall>(t, v) \<in> set (m_vel_hist st). \<exists>c. t = Clock_now c \<and> \<bar>c\<bar> \<le> 2 ^ 63)"

lemma hist_inv_run:
  assumes "lon_ok st" "hist_inv cfg st" "short_input input" "clocks_ok clk"
  shows "\<exists>out st'. lon_controller_run cfg eig clk input st = Some (out, st') \<and> lon_ok st' \<and> hist_inv cfg st'"
proof -
  obtain room where room: "cast_u32 (delay_compensation_time cfg div longitudinal_ctrl_period cfg) = Some room"
    using assms(2) by (auto simp: hist_inv_def)
  have len: "length (points (in_trajectory input)) + 2 < 2 ^ 32"
    using assms(3) by (simp add: short_input_def)
  have old: "\<forall>(t, v) \<in> set (m_vel_hist st). \<exists>c. t = Clock_now c \<and> \<bar>c\<bar> \<le> 2 ^ 63"
    using assms(2) by (simp add: hist_inv_def)
  have step: "hist_inv cfg st'" if "hist_step clk room (m_vel_hist st) (m_vel_hist st')" for st'
    using that old room assms(4) by (fastforce simp: hist_inv_def hist_step_def clocks_ok_def)
  show ?thesis
    by (rule lon_run_cases [OF assms(1) room len, where eig = eig and clk = clk])
      (use step in \<open>auto simp: run_frame_def\<close>)
qed

interpretation histories: lon_invariant cfg eig "\<lambda>st. lon_ok st \<and> hist_inv cfg st"
  "\<lambda>clk input. short_input input \<and> clocks_ok clk" "\<lambda>out. True"
  for cfg eig
proof (unfold_locales, goal_cases)
  case (1 st clk input)
  then show ?case
    using hist_inv_run [of st cfg input clk eig] by blast
qed (simp_all add: hist_inv_def)

text \<open>With room for one sample there is never an estimate.\<close>

lemma one_sample_no_estimate:
  assumes inv: "hist_inv cfg st"
    and one: "cast_u32 (delay_compensation_time cfg div longitudinal_ctrl_period cfg) = Some 1"
    and clk: "\<bar>clk\<bar> \<le> 2 ^ 63" and set: "m_is_set_params s"
  shows "calcTimeToStop clk (m_vel_hist st) s = Some None"
proof (cases "m_vel_hist st")
  case Nil
  then show ?thesis
    using set by (simp add: calcTimeToStop_def Let_def)
next
  case (Cons x h)
  obtain t v where x: "x = (t, v)"
    by fastforce
  have h: "h = []"
    using inv one Cons by (cases h) (auto simp: hist_inv_def)
  obtain c where c: "t = Clock_now c" "\<bar>c\<bar> \<le> 2 ^ 63"
    using inv Cons x by (auto simp: hist_inv_def)
  have "\<bar>real_of_int c\<bar> \<le> 2 ^ 63"
    using c(2) by (metis of_int_abs of_int_le_iff of_int_numeral of_int_power)
  then have "bounded_by (10 ^ 30) t"
    using c by (simp add: Clock_now_def seconds_of_ns_Fin abs_le_iff)
  then show ?thesis
    using single_sample_no_estimate [OF set _ clk, of t v] by (simp add: Cons x h)
qed

end
