(* ===== verification/Longitudinal_Sample.thy ===== *)
theory Longitudinal_Sample
  imports Longitudinal_Invariants
begin

text \<open>
  Sample parameters, inputs and clocks of the longitudinal controller: the parameters of the
  node with the code's defaults, a straight plan along the x axis and a vehicle at its start.
  The node sets the control period only; the two thresholds of the nearest-point search, which
  nothing sets, get the default value of their type, zero.
\<close>

text \<open>The operations of Eigen on the values the samples use.\<close>

definition plain_eigen :: eigen_ops where
  "plain_eigen =
     \<lparr>e_slerp = \<lambda>a r b. a, e_rotation = \<lambda>q i j. if i = j then Fin 1 else Fin 0,
      e_dot = \<lambda>a b. vx a * vx b + vy a * vy b + vz a * vz b,
      e_norm = \<lambda>a. fsqrt (vx a * vx a + vy a * vy a + vz a * vz a),
      e_cross = \<lambda>a b. \<lparr>vx = vy a * vz b - vz a * vy b, vy = vz a * vx b - vx a * vz b,
                       vz = vx a * vy b - vy a * vx b\<rparr>,
      e_rotate = \<lambda>q v. v, e_compose = \<lambda>a b. a, e_normalize = \<lambda>q. q\<rparr>"

definition shipped_env :: "param_profile \<Rightarrow> param_env" where
  "shipped_env p =
     \<lparr>real_param = [''ctrl_period'' \<mapsto> Fin (15 / 100)],
      bool_param = \<lambda>n. None, text_param = \<lambda>n. None, vehicle_wheel_base = Fin (274 / 100), profile = p\<rparr>"

definition shipped :: "param_profile \<Rightarrow> lon_config" where
  "shipped p = lon_configure (shipped_env p)"

definition second_clock :: lon_clock where
  "second_clock =
     \<lparr>dt_clock = 10 ^ 9, dt_store_clock = 10 ^ 9, delay_clock = \<lambda>i. 10 ^ 9, delay_last_clock = 10 ^ 9,
      running_clock = 10 ^ 9, stopped_clock = 10 ^ 9, control_clock = 10 ^ 9, smooth_init_clock = 10 ^ 9,
      integrate_clock = 10 ^ 9, fit_clock = 10 ^ 9, weak_clock = 10 ^ 9, store_clock = 10 ^ 9,
      expire_clock = 10 ^ 9, stamp_clock = 10 ^ 9, hist_clock = 10 ^ 9\<rparr>"

definition level :: quaternion where
  "level = \<lparr>qx = Fin 0, qy = Fin 0, qz = Fin 0, qw = Fin 1\<rparr>"

definition point_at :: "real \<Rightarrow> real \<Rightarrow> tp" where
  "point_at x v = zero_point\<lparr>tp_pose := \<lparr>position = \<lparr>vx = Fin x, vy = Fin 0, vz = Fin 0\<rparr>, orientation = level\<rparr>,
     longitudinal_velocity_mps := Fin v\<rparr>"

text \<open>Two points ten metres apart at 5 m/s, and a vehicle that stands on the first.\<close>

definition straight_plan :: trajectory where
  "straight_plan = empty_trajectory\<lparr>points := [point_at 0 5, point_at 10 5]\<rparr>"

definition mode_msg :: "bool \<Rightarrow> operation_mode" where
  "mode_msg engaged = \<lparr>mode_stamp = zero_time, op_mode = OPERATION_MODE_STATE_AUTONOMOUS,
     is_autoware_control_enabled = engaged, is_in_transition = False, is_stop_mode_available = True,
     is_autonomous_mode_available = True, is_local_mode_available = True, is_remote_mode_available = True\<rparr>"

definition start_input :: input_data where
  "start_input =
     \<lparr>in_trajectory = straight_plan,
      in_odometry = zero_odometry\<lparr>odom_pose := tp_pose (point_at 0 0)\<rparr>,
      in_steering = zero_steering, in_accel = zero_accel, in_operation_mode = mode_msg True\<rparr>"

lemmas lon_sample_defs =
  shipped_def shipped_env_def lon_configure_def default_to_def second_clock_def start_input_def
  straight_plan_def point_at_def level_def mode_msg_def plain_eigen_def

section \<open>The parameters\<close>

lemma shipped_fields [simp]:
  "longitudinal_ctrl_period (shipped p) = Fin (15 / 100)" "delay_compensation_time (shipped p) = Fin (17 / 100)"
  "max_acc (shipped p) = Fin 3" "min_acc (shipped p) = ap_min_acc (actuation_param_profile p)"
  "stopped_acc (shipped p) = ap_stopped_acc (actuation_param_profile p)"
  "emergency_acc (shipped p) = ap_emergency_acc (actuation_param_profile p)"
  "emergency_jerk (shipped p) = ap_emergency_jerk (actuation_param_profile p)"
  "min_jerk (shipped p) = ap_min_jerk (actuation_param_profile p)"
  "max_jerk (shipped p) = Fin 2" "stopped_vel (shipped p) = Fin 0" "emergency_vel (shipped p) = Fin 0"
  "max_acc_cmd_diff (shipped p) = Fin 50" "acc_feedback_gain (shipped p) = Fin 0"
  "min_pitch_rad (shipped p) = Fin (- (1 / 10))" "max_pitch_rad (shipped p) = Fin (1 / 10)"
  "ego_nearest_dist_threshold (shipped p) = Fin 0" "ego_nearest_yaw_threshold (shipped p) = Fin 0"
  "emergency_state_traj_trans_dev (shipped p) = Fin 3"
  "emergency_state_traj_rot_dev (shipped p) = Fin (7854 / 10000)"
  by (simp_all add: shipped_def shipped_env_def lon_configure_def Let_def default_to_def)

lemma shipped_room: "cast_u32 (delay_compensation_time (shipped p) div longitudinal_ctrl_period (shipped p)) = Some 1"
  by (simp add: cast_int_def trunc_def)

lemma shipped_room_ok: "room_ok (shipped p)"
  unfolding room_ok_def shipped_room by simp

lemma shipped_limits: "lon_limits (shipped p)"
  by (cases p) (simp_all add: lon_limits_def exI [of _ "15 / 100"])

lemma shipped_speed_limits: "0 \<le> hi \<Longrightarrow> hi \<le> flt_max \<Longrightarrow> speed_limits 0 hi (shipped p)"
  by (cases p) (simp_all add: speed_limits_def exI [of _ "15 / 100"] order_trans [of "- flt_max" 0])

lemma shipped_acc_range: "acc_floor (shipped p) \<ge> - 5.981" "acc_ceiling (shipped p) \<le> 3.981"
  by (cases p; simp add: acc_floor_def acc_ceiling_def slope_margin_def max_pitch_def)+

lemma start_short: "short_input start_input"
  by (simp add: short_input_def start_input_def straight_plan_def)

lemma start_in_plan: "plan_in 0 5 start_input"
  using start_short
  by (simp add: plan_in_def speed_in_def start_input_def straight_plan_def point_at_def)

lemma start_accepted: "m_trajectory (lon_input start_input st) = in_trajectory start_input"
  by (simp add: lon_input_defs isValidTrajectory_def finite_trajectory_point_def start_input_def
      straight_plan_def point_at_def level_def zero_msg_defs zero_dbl_def)

lemma second_clocks_ok: "clocks_ok second_clock"
  by (simp add: clocks_ok_def second_clock_def)

section \<open>The vehicle stands on the plan\<close>

lemma yaw_level: "getYaw level = Fin 0"
  by (simp add: getYaw_def level_def minus_dbl_def atan2_real_def Let_def)

lemma normalize_zero: "normalizeRadian (Fin 0) = Fin 0"
proof -
  have "\<bar>pi\<bar> \<le> dbl_max"
    using pi_less_4 pi_gt_zero dbl_max_ge by simp
  then have "Fin (- pi) + Fin (2 * pi) = Fin pi"
    by (simp add: in_range_Fin)
  then show ?thesis
    by (simp add: normalizeRadian_def trunc_def Let_def del: plus_dbl.simps)
qed

lemma start_on_plan:
  "on_trajectory (shipped p) plain_eigen (odom_pose (in_odometry start_input)) (points (in_trajectory start_input))"
proof -
  have max: "\<not> dbl_max \<le> 0"
    using dbl_max_pos by linarith
  have near: "findFirstNearestIndexWithSoftConstraints [point_at 0 5, point_at 10 5] (tp_pose (point_at 0 0))
      (Fin 0) (Fin 0) = Some 0"
    by (simp add: findFirstNearestIndexWithSoftConstraints_def Let_def point_at_def calcSquaredDistance2d_def
        calcYawDeviation_def yaw_level normalize_zero minus_dbl_def max)
  have offset: "calcLongitudinalOffsetToSegment plain_eigen [point_at 0 5, point_at 10 5] 0
      (position (tp_pose (point_at 0 0))) False = Some (Fin 0)"
    by (simp add: calcLongitudinalOffsetToSegment_def removeOverlapPoints_def overlapping_def Let_def
        plain_eigen_def point_at_def minus_dbl_def zero_dbl_def)
  have len: "calcSignedArcLength [point_at 0 5, point_at 10 5] 0 1 = Some (Fin 10)"
    by (simp add: calcSignedArcLength_def calcDistance2d_def point_at_def minus_dbl_def)
  have p: "calcInterpolatedTrajPointAndSegment (shipped p) plain_eigen [point_at 0 5, point_at 10 5]
      (tp_pose (point_at 0 0)) = Some (interpolate_point plain_eigen (point_at 0 5) (point_at 10 5) (Fin 0), 0)"
    by (simp add: calcInterpolatedTrajPointAndSegment_def lerpTrajectoryPoint_def
        findFirstNearestSegmentIndexWithSoftConstraints_def near [simplified] offset len [simplified]
        fclamp_def Let_def)
  have "\<not> deviates (shipped p) (interpolate_point plain_eigen (point_at 0 5) (point_at 10 5) (Fin 0))
      (tp_pose (point_at 0 0))"
    by (simp add: deviates_def interpolate_point_def lerp_pose_def lerp_position_def lerp_def
        lerpOrientation_def plain_eigen_def point_at_def calcDistance2d_def minus_dbl_def yaw_level normalize_zero)
  then show ?thesis
    by (simp add: on_trajectory_def start_input_def straight_plan_def p)
qed

end
