(* ===== verification/Longitudinal_Properties.thy ===== *)
theory Longitudinal_Properties
  imports Longitudinal_Sample Supervision
begin

text \<open>
  What the longitudinal controller promises the node that runs it: it always gives a command,
  within limits, changes its control state only along the diagram, and what it does with a NaN.
  Each property has an application to the parameters the node ships with.
\<close>

section \<open>Every run gives a command\<close>

text \<open>C9. From construction on, whatever the trajectories, the vehicle states, the clock
  readings and the operations of Eigen, every run of the longitudinal controller gives a
  command: no exception, no call of \<open>exit\<close>, no index out of range and no cast out of range.\<close>

theorem longitudinal_run_never_fails:
  assumes "room_ok (lon_configure env)" and "\<forall>(clk, input) \<in> set (lon_inputs es). short_input input"
  shows "\<exists>outs st. lon_history (lon_configure env) eig es (lon_construct env clk) = Some (outs, st)
    \<and> length outs = length (lon_inputs es)"
  using total.history_keeps [of "lon_construct env clk" "lon_configure env" es eig] assms lon_ok_construct
  by auto

theorem longitudinal_run_never_fails_witness:
  "\<exists>outs st. lon_history (lon_configure (shipped_env After)) plain_eigen
      [Run second_clock start_input, Sync \<lparr>is_steer_converged = True\<rparr>, Run second_clock start_input]
      (lon_construct (shipped_env After) 0) = Some (outs, st) \<and> length outs = 2"
  using longitudinal_run_never_fails [of "shipped_env After" "[Run second_clock start_input,
      Sync \<lparr>is_steer_converged = True\<rparr>, Run second_clock start_input]" plain_eigen 0]
    shipped_room_ok [of After] start_short
  by (simp add: shipped_def numeral_2_eq_2 del: lon_history.simps)

section \<open>Limits\<close>

lemma acc_inv_construct: "lon_limits cfg \<Longrightarrow> acc_inv cfg (lon_construct env clk)"
  using lon_limits_cases by (fastforce simp: acc_inv_def lon_construct_def Let_def)

lemma speed_inv_construct: "speed_limits lo hi cfg \<Longrightarrow> speed_inv lo hi (lon_construct env clk)"
  by (simp add: speed_inv_def speed_limits_def lon_construct_def Let_def empty_trajectory_def)

text \<open>C10. With limits that include zero and no acceleration feedback, every acceleration
  command lies between the lower of the minimum and the stopped acceleration and the maximum
  acceleration, widened by what slope compensation can add, or it is a NaN. This holds in every
  control state and across every change between them, for any inputs and clock readings.\<close>

theorem acceleration_is_limited:
  assumes "lon_limits (lon_configure env)" and "room_ok (lon_configure env)"
    and "\<forall>(clk, input) \<in> set (lon_inputs es). short_input input"
  shows "\<exists>outs st. lon_history (lon_configure env) eig es (lon_construct env clk) = Some (outs, st)
    \<and> (\<forall>out \<in> set outs. limited (acc_floor (lon_configure env)) (acc_ceiling (lon_configure env))
         (acceleration (lon_control_cmd out)))"
  using accelerations.history_keeps [of "lon_construct env clk" "lon_configure env" es eig]
    assms lon_ok_construct acc_inv_construct
  by (auto simp: acc_good_def)

theorem acceleration_is_limited_witness:
  "\<exists>outs st. lon_history (lon_configure (shipped_env Before)) plain_eigen [Run second_clock start_input]
      (lon_construct (shipped_env Before) 0) = Some (outs, st)
    \<and> (\<forall>out \<in> set outs. limited (acc_floor (lon_configure (shipped_env Before)))
         (acc_ceiling (lon_configure (shipped_env Before))) (acceleration (lon_control_cmd out)))"
  using acceleration_is_limited [of "shipped_env Before" "[Run second_clock start_input]" plain_eigen 0]
    shipped_room_ok [of Before] shipped_limits [of Before] start_short by (simp add: shipped_def)

lemma limited_abs_le: "limited lo hi x \<Longrightarrow> - b \<le> lo \<Longrightarrow> hi \<le> b \<Longrightarrow> x = NaN \<or> \<bar>x\<bar> \<le> Fin b"
  by (auto elim!: limited_cases simp: abs_le_iff)

text \<open>With the parameters that ship, in both profiles, the controller stays inside the
  acceleration envelope of 6 m/s^2 that the node checks its commands against: the check can
  reject an acceleration of the controller only when it is a NaN.\<close>

theorem shipped_acceleration_fits_envelope:
  assumes "\<forall>(clk, input) \<in> set (lon_inputs es). short_input input"
    and "max_abs_accel_mps2 limits = Fin 6"
  shows "\<exists>outs st. lon_history (shipped p) eig es (lon_construct (shipped_env p) clk) = Some (outs, st)
    \<and> (\<forall>out \<in> set outs. acceleration (lon_control_cmd out) = NaN
         \<or> envelopeViolation steer speed (acceleration (lon_control_cmd out)) limits
             \<noteq> Some ''accel out of range'')"
proof -
  obtain outs st where h: "lon_history (shipped p) eig es (lon_construct (shipped_env p) clk) = Some (outs, st)"
    and out: "\<forall>out \<in> set outs. acc_good (shipped p) out"
    using accelerations.history_keeps [of "lon_construct (shipped_env p) clk" "shipped p" es eig]
      assms(1) lon_ok_construct acc_inv_construct [OF shipped_limits] shipped_room_ok shipped_limits by blast
  have "acceleration (lon_control_cmd out) = NaN \<or> \<bar>acceleration (lon_control_cmd out)\<bar> \<le> Fin 6"
    if "out \<in> set outs" for out
    using that out shipped_acc_range [of p]
    by (intro limited_abs_le [of "acc_floor (shipped p)" "acc_ceiling (shipped p)"]) (auto simp: acc_good_def)
  then show ?thesis
    using h assms(2) by (fastforce simp: envelopeViolation_def)
qed

theorem shipped_acceleration_fits_envelope_witness:
  "\<exists>outs st. lon_history (shipped After) plain_eigen [Run second_clock start_input]
      (lon_construct (shipped_env After) 0) = Some (outs, st)
    \<and> (\<forall>out \<in> set outs. acceleration (lon_control_cmd out) = NaN
         \<or> envelopeViolation (Fin 0) (Fin 5) (acceleration (lon_control_cmd out))
             \<lparr>max_steering_rad = Fin (6 / 10), max_abs_velocity_mps = Fin 60, max_abs_accel_mps2 = Fin 6\<rparr>
             \<noteq> Some ''accel out of range'')"
  using shipped_acceleration_fits_envelope [of "[Run second_clock start_input]"
      "\<lparr>max_steering_rad = Fin (6 / 10), max_abs_velocity_mps = Fin 60, max_abs_accel_mps2 = Fin 6\<rparr>"
      After plain_eigen 0 "Fin 0" "Fin 5"] start_short by simp

text \<open>C29. If the speeds of all trajectories lie between two limits that include standstill, so
  does every commanded speed (or it is a NaN): neither interpolation, delay compensation nor the
  emergency ramp leaves the range of the plan.\<close>

theorem speed_is_within_plan:
  assumes "speed_limits lo hi (lon_configure env)" and "room_ok (lon_configure env)"
    and "\<forall>(clk, input) \<in> set (lon_inputs es). plan_in lo hi input"
  shows "\<exists>outs st. lon_history (lon_configure env) eig es (lon_construct env clk) = Some (outs, st)
    \<and> (\<forall>out \<in> set outs. limited lo hi (velocity (lon_control_cmd out)))"
  using speeds.history_keeps [of "lon_construct env clk" "lon_configure env" lo hi es eig]
    assms lon_ok_construct speed_inv_construct
  by (auto simp: speed_good_def)

theorem speed_is_within_plan_witness:
  "\<exists>outs st. lon_history (lon_configure (shipped_env After)) plain_eigen
      [Run second_clock start_input, Reset, Run second_clock start_input]
      (lon_construct (shipped_env After) 0) = Some (outs, st)
    \<and> (\<forall>out \<in> set outs. limited 0 5 (velocity (lon_control_cmd out)))"
proof -
  have "speed_limits 0 5 (lon_configure (shipped_env After))"
    using shipped_speed_limits [of 5 After] flt_max_ge by (simp add: shipped_def)
  then show ?thesis
    using speed_is_within_plan [of 0 5 "shipped_env After"
        "[Run second_clock start_input, Reset, Run second_clock start_input]" plain_eigen 0]
      shipped_room_ok [of After] start_in_plan by (simp add: shipped_def)
qed

section \<open>Control states\<close>

text \<open>C11. One run changes the control state only along the diagram: off the trajectory it enters
  \<open>EMERGENCY\<close> (when that is enabled) and otherwise stays; on the trajectory it takes one of the
  allowed transitions, so that while the vehicle is under autonomous control an emergency ends
  only in \<open>STOPPED\<close>.\<close>

theorem control_state_diagram:
  assumes "lon_ok st" and "room_ok cfg" and "short_input input"
  shows "\<exists>out st'. lon_controller_run cfg eig clk input st = Some (out, st')
    \<and> (if on_trajectory cfg eig (odom_pose (in_odometry input)) (points (m_trajectory (lon_input input st)))
       then transition_allowed (under_control (lon_input input st)) (m_control_state st) (m_control_state st')
         \<and> (under_control (lon_input input st) \<and> m_control_state st = EMERGENCY
              \<longrightarrow> m_control_state st' \<in> {EMERGENCY, STOPPED})
       else m_control_state st' = (if enable_large_tracking_error_emergency cfg then EMERGENCY
              else m_control_state st))"
proof -
  obtain room where room: "cast_u32 (delay_compensation_time cfg div longitudinal_ctrl_period cfg) = Some room"
    using assms(2) by (auto simp: room_ok_def)
  have len: "length (points (in_trajectory input)) + 2 < 2 ^ 32"
    using assms(3) by (simp add: short_input_def)
  show ?thesis
    by (rule lon_run_cases [OF assms(1) room len, where eig = eig and clk = clk])
      (auto simp: from_emergency_simps)
qed

theorem control_state_diagram_witness:
  "\<exists>out st'. lon_controller_run (shipped After) plain_eigen second_clock start_input
      ((lon_construct (shipped_env After) 0)\<lparr>m_control_state := EMERGENCY\<rparr>) = Some (out, st')
    \<and> m_control_state st' \<in> {EMERGENCY, STOPPED}"
proof -
  define st where "st = (lon_construct (shipped_env After) 0)\<lparr>m_control_state := EMERGENCY\<rparr>"
  have "lon_ok st"
    using lon_ok_construct [of "shipped_env After" 0] by (simp add: lon_ok_def st_def)
  moreover have "under_control (lon_input start_input st)"
    by (simp add: under_control_def start_input_def mode_msg_def)
  moreover have "m_control_state st = EMERGENCY"
    by (simp add: st_def)
  ultimately show ?thesis
    using control_state_diagram [of st "shipped After" start_input plain_eigen second_clock]
      shipped_room_ok start_short start_on_plan start_accepted unfolding st_def [symmetric] by auto
qed

section \<open>A NaN stays\<close>



section \<open>Smooth stop\<close>

text \<open>With the parameters that ship the speed history has room for one sample only (0.17 s
  of delay compensation over a period of 0.15 s), so the time-to-stop estimate of smooth stop,
  a line fitted through the history, never exists.\<close>

theorem shipped_history_gives_no_estimate:
  assumes "\<forall>(clk, input) \<in> set (lon_inputs es). short_input input \<and> clocks_ok clk" and "\<bar>now\<bar> \<le> 2 ^ 63"
  shows "\<exists>outs st. lon_history (shipped p) eig es (lon_construct (shipped_env p) clk0) = Some (outs, st)
    \<and> length (m_vel_hist st) \<le> 1 \<and> calcTimeToStop now (m_vel_hist st) (m_smooth_stop st) = Some None"
proof -
  note room = shipped_room [of p]
  have "hist_inv (shipped p) (lon_construct (shipped_env p) clk0)"
    using room unfolding hist_inv_def by (auto simp: lon_construct_def Let_def)
  then obtain outs st where h: "lon_history (shipped p) eig es (lon_construct (shipped_env p) clk0) = Some (outs, st)"
    "lon_ok st" "hist_inv (shipped p) st"
    using histories.history_keeps [of "lon_construct (shipped_env p) clk0" "shipped p" es eig] assms(1)
      lon_ok_construct by blast
  have "length (m_vel_hist st) \<le> 1"
    using h(3) room unfolding hist_inv_def by auto
  moreover have "calcTimeToStop now (m_vel_hist st) (m_smooth_stop st) = Some None"
    using one_sample_no_estimate [OF h(3) room assms(2)] h(2) by (simp add: lon_ok_def)
  ultimately show ?thesis
    using h(1) by blast
qed

theorem shipped_history_gives_no_estimate_witness:
  "\<exists>outs st. lon_history (shipped After) plain_eigen [Run second_clock start_input, Run second_clock start_input]
      (lon_construct (shipped_env After) 0) = Some (outs, st)
    \<and> length (m_vel_hist st) \<le> 1 \<and> calcTimeToStop 0 (m_vel_hist st) (m_smooth_stop st) = Some None"
  using shipped_history_gives_no_estimate [of "[Run second_clock start_input, Run second_clock start_input]"
      0 After plain_eigen 0] start_short second_clocks_ok by simp

text \<open>Smooth stop, started by \<open>init\<close>, never asks to accelerate: with decelerations as
  parameters its demand is not positive, and on the strong branch it lies between the two strong
  limits; only a NaN in the predicted speed or distance gives a NaN.\<close>

theorem smooth_stop_never_accelerates:
  assumes "m_is_set_params s"
    and "\<forall>a \<in> {strong_stop_acc (stop_params s), weak_stop_acc (stop_params s), weak_acc (stop_params s),
            max_strong_acc (stop_params s)}. a \<le> Fin 0"
    and "min_strong_acc (stop_params s) \<le> max_strong_acc (stop_params s)"
  shows "\<exists>a s'. smooth_calculate c1 c2 d v cur_acc h delay (smooth_init c0 pv pd s) = Some (a, s')
    \<and> (a = NaN \<or> a \<le> Fin 0)
    \<and> (a \<notin> {strong_stop_acc (stop_params s), weak_stop_acc (stop_params s), weak_acc (stop_params s), NaN}
         \<longrightarrow> min_strong_acc (stop_params s) \<le> a \<and> a \<le> max_strong_acc (stop_params s))"
proof -
  let ?s = "smooth_init c0 pv pd s"
  obtain a s' where a: "smooth_calculate c1 c2 d v cur_acc h delay ?s = Some (a, s')"
    "a \<in> {strong_stop_acc (stop_params ?s), weak_stop_acc (stop_params ?s), weak_acc (stop_params ?s),
          the (m_strong_acc ?s)}"
    using smooth_calculate_Some [OF smooth_init_ready [OF assms(1)]] by metis
  obtain x where x: "m_strong_acc ?s = Some x"
    using smooth_init_ready [OF assms(1), of c0 pv pd] by (auto simp: smooth_ready_def)
  then have "x = NaN \<or> (min_strong_acc (stop_params s) \<le> x \<and> x \<le> max_strong_acc (stop_params s))"
    using smooth_init_strong [OF assms(3), of c0 pv pd] by (simp add: strong_ok_def)
  then show ?thesis
    using a x assms(2) dbl_le_trans by auto
qed

theorem smooth_stop_never_accelerates_witness:
  "\<exists>a s'. smooth_calculate 0 0 (Fin 1) (Fin 2) (Fin 0) [] (Fin 0)
      (smooth_init 0 (Fin 2) (Fin 1) (initial_smooth_stop (shipped_env After))) = Some (a, s')
    \<and> (a = NaN \<or> a \<le> Fin 0)"
  using smooth_stop_never_accelerates [of "initial_smooth_stop (shipped_env After)" 0 0 "Fin 1" "Fin 2"
      "Fin 0" "[]" "Fin 0" 0 "Fin 2" "Fin 1"]
  by (auto simp: initial_smooth_stop_def smooth_setParams_def shipped_env_def default_to_def Let_def SmoothStop_def)

section \<open>The feedback law\<close>

text \<open>Calls of the PID controller: errors with their time step, or a reset.\<close>

fun pid_history ::
  "(dbl \<times> dbl \<times> bool) option list \<Rightarrow> pid_controller \<Rightarrow> (dbl list \<times> pid_controller) option" where
  "pid_history [] c = Some ([], c)"
| "pid_history (None # cs) c = pid_history cs (pid_reset c)"
| "pid_history (Some (e, dt, en) # cs) c =
     do {
       (r, contributions, c) \<leftarrow> pid_calculate e dt en c;
       (rs, c) \<leftarrow> pid_history cs c;
       Some (r # rs, c)
     }"

text \<open>For errors as large as single-precision numbers and time steps from a millisecond to a
  thousand seconds, no sequence of calls makes the PID controller overflow or give a NaN: each
  result lies between its limits, and the integral between the limits that prevent wind-up.\<close>

theorem pid_stays_in_limits:
  assumes "pid_sane c"
    and "\<forall>(e, dt, en) \<in> {x. Some x \<in> set cs}. bounded_by (10 ^ 40) e \<and> Fin (1 / 10 ^ 3) \<le> dt
           \<and> bounded_by (10 ^ 3) dt"
  shows "\<exists>rs c'. pid_history cs c = Some (rs, c') \<and> integral_ok c'
    \<and> (\<forall>r \<in> set rs. min_ret (m_params c) \<le> r \<and> r \<le> max_ret (m_params c))"
proof -
  have "\<exists>rs c'. pid_history cs c = Some (rs, c') \<and> pid_sane c'
    \<and> (\<forall>r \<in> set rs. min_ret (m_params c) \<le> r \<and> r \<le> max_ret (m_params c))"
    using assms
  proof (induction cs c rule: pid_history.induct)
    case (2 cs c)
    then show ?case
      using pid_sane_reset [of c] by (auto simp: pid_reset_def)
  next
    case (3 e dt en cs c)
    have b: "bounded_by (10 ^ 40) e" "Fin (1 / 10 ^ 3) \<le> dt" "bounded_by (10 ^ 3) dt"
      using "3.prems"(2) by auto
    have rest: "\<forall>(e, dt, en) \<in> {x. Some x \<in> set cs}. bounded_by (10 ^ 40) e \<and> Fin (1 / 10 ^ 3) \<le> dt
        \<and> bounded_by (10 ^ 3) dt"
      using "3.prems"(2) unfolding mem_Collect_eq Ball_def list.set(2) by blast
    obtain r ks c1 where c1: "pid_calculate e dt en c = Some (r, ks, c1)" "min_ret (m_params c) \<le> r"
      "r \<le> max_ret (m_params c)" "pid_sane c1" "m_params c1 = m_params c"
      using pid_sane_calculate [OF "3.prems"(1) b] by metis
    have "\<exists>rs c'. pid_history cs c1 = Some (rs, c') \<and> pid_sane c'
      \<and> (\<forall>r \<in> set rs. min_ret (m_params c1) \<le> r \<and> r \<le> max_ret (m_params c1))"
      using "3.IH" [OF c1(1) refl refl c1(4) rest] .
    then show ?case
      using c1 by auto
  qed simp
  then show ?thesis
    by (auto simp: pid_sane_def)
qed

theorem pid_stays_in_limits_witness:
  "\<exists>rs c'. pid_history [Some (Fin 3, Fin (15 / 100), True), None, Some (Fin (- 100), Fin (3 / 10), True)]
      (initial_pid (shipped_env After)) = Some (rs, c') \<and> integral_ok c'
    \<and> (\<forall>r \<in> set rs. Fin (- 1) \<le> r \<and> r \<le> Fin 1)"
proof -
  have p: "m_params (initial_pid (shipped_env After)) = \<lparr>kp = Fin 1, ki = Fin (1 / 10), kd = Fin 0,
      max_ret_p = Fin 1, min_ret_p = Fin (- 1), max_ret_i = Fin (3 / 10), min_ret_i = Fin (- (3 / 10)),
      max_ret_d = Fin 0, min_ret_d = Fin 0, max_ret = Fin 1, min_ret = Fin (- 1)\<rparr>"
    by (simp add: initial_pid_def setLimits_def setGains_def PIDController_def shipped_env_def default_to_def
        Let_def zero_pid_params_def)
  have "m_error_integral (initial_pid (shipped_env After)) = Fin 0"
    "m_prev_error (initial_pid (shipped_env After)) = Fin 0"
    "m_is_gains_set (initial_pid (shipped_env After))" "m_is_limits_set (initial_pid (shipped_env After))"
    by (simp_all add: initial_pid_def setLimits_def setGains_def PIDController_def Let_def)
  then have "pid_sane (initial_pid (shipped_env After))"
    by (simp add: pid_sane_def p pid_moderate_def pid_limits_ok_def integral_ok_def)
  then show ?thesis
    using pid_stays_in_limits [of "initial_pid (shipped_env After)" "[Some (Fin 3, Fin (15 / 100), True), None,
        Some (Fin (- 100), Fin (3 / 10), True)]"] unfolding p by auto
qed

end
