(* ===== verification/Trajectory_Properties.thy ===== *)
theory Trajectory_Properties
  imports Longitudinal_Sample
begin

text \<open>
  What the searches on a trajectory and the angles promise their callers, the longitudinal
  controller among them.
\<close>

section \<open>The search under soft constraints\<close>

text \<open>The first run of points inside the constraints.\<close>

definition first_run :: "(tp \<Rightarrow> bool) \<Rightarrow> tp list \<Rightarrow> tp list" where
  "first_run outside pts = takeWhile (\<lambda>q. \<not> outside q) (dropWhile outside pts)"

text \<open>Once a point inside was found, the loop looks at the rest of that run.\<close>

lemma soft_loop_found:
  assumes "\<forall>q \<in> set qs. sq q \<noteq> NaN" and "m \<noteq> NaN"
    and "soft_loop sq outside i m (Some k) qs = r"
  defines "inside \<equiv> takeWhile (\<lambda>q. \<not> outside q) qs"
  shows "(r = Some k \<and> (\<forall>q \<in> set inside. m \<le> sq q))
    \<or> (\<exists>j < length inside. r = Some (i + j) \<and> sq (inside ! j) \<le> m
         \<and> (\<forall>q \<in> set inside. sq (inside ! j) \<le> sq q))"
  using assms(1-3) unfolding inside_def
proof (induction qs arbitrary: i m k)
  case (Cons q qs)
  have nn: "sq q \<noteq> NaN" "\<forall>q \<in> set qs. sq q \<noteq> NaN"
    using Cons.prems(1) by auto
  let ?in = "takeWhile (\<lambda>q. \<not> outside q) qs"
  consider "outside q" | "\<not> outside q" "m \<le> sq q" | "\<not> outside q" "\<not> m \<le> sq q"
    by blast
  then show ?case
  proof cases
    case 1
    then show ?thesis using Cons.prems(3) by auto
  next
    case 2
    then have "soft_loop sq outside (i + 1) m (Some k) qs = r"
      using Cons.prems(3) by simp
    from Cons.IH [OF nn(2) Cons.prems(2) this] show ?thesis
    proof
      assume "\<exists>j < length ?in. r = Some (i + 1 + j) \<and> sq (?in ! j) \<le> m \<and> (\<forall>q \<in> set ?in. sq (?in ! j) \<le> sq q)"
      then obtain j where "j < length ?in" "r = Some (i + Suc j)" "sq (?in ! j) \<le> m"
        "\<forall>q \<in> set ?in. sq (?in ! j) \<le> sq q"
        by auto
      then show ?thesis
        using 2 by (intro disjI2 exI [of _ "Suc j"]) (auto intro: dbl_le_trans)
    qed (use 2 in auto)
  next
    case 3
    then have le: "sq q \<le> m"
      using nn(1) Cons.prems(2) by (simp add: dbl_not_le dbl_less_imp_le)
    have "soft_loop sq outside (i + 1) (sq q) (Some i) qs = r"
      using 3 Cons.prems(3) by simp
    from Cons.IH [OF nn(2,1) this] show ?thesis
    proof
      assume "r = Some i \<and> (\<forall>x \<in> set ?in. sq q \<le> sq x)"
      then show ?thesis
        using 3(1) le nn(1) by (intro disjI2 exI [of _ 0]) (auto intro: dbl_refl)
    next
      assume "\<exists>j < length ?in. r = Some (i + 1 + j) \<and> sq (?in ! j) \<le> sq q \<and> (\<forall>q \<in> set ?in. sq (?in ! j) \<le> sq q)"
      then obtain j where "j < length ?in" "r = Some (i + Suc j)" "sq (?in ! j) \<le> sq q"
        "\<forall>q \<in> set ?in. sq (?in ! j) \<le> sq q"
        by auto
      then show ?thesis
        using 3 le by (intro disjI2 exI [of _ "Suc j"]) (auto intro: dbl_le_trans)
    qed
  qed
qed simp

text \<open>Points too far for the initial minimum cannot be inside.\<close>

lemma soft_loop_first:
  assumes "\<forall>q \<in> set qs. sq q \<noteq> NaN" and "\<forall>q \<in> set qs. \<not> outside q \<longrightarrow> sq q < m"
    and "\<exists>q \<in> set qs. \<not> outside q"
  shows "\<exists>j < length (first_run outside qs).
    soft_loop sq outside i m None qs = Some (i + length (takeWhile outside qs) + j)
    \<and> (\<forall>q \<in> set (first_run outside qs). sq (first_run outside qs ! j) \<le> sq q)"
  using assms
proof (induction qs arbitrary: i)
  case (Cons q qs)
  show ?case
  proof (cases "outside q")
    case True
    then show ?thesis
      using Cons.IH [of "i + 1"] Cons.prems by (auto simp: first_run_def)
  next
    case False
    let ?in = "takeWhile (\<lambda>q. \<not> outside q) qs"
    have nn: "sq q \<noteq> NaN" "\<forall>q \<in> set qs. sq q \<noteq> NaN" and lt: "sq q < m"
      using Cons.prems False by auto
    then have "\<not> m \<le> sq q"
      by (meson dbl_le_less_trans dbl_less_irrefl)
    then have step: "soft_loop sq outside i m None (q # qs) = soft_loop sq outside (i + 1) (sq q) (Some i) qs"
      using False by simp
    have run: "first_run outside (q # qs) = q # ?in" "takeWhile outside (q # qs) = []"
      using False by (simp_all add: first_run_def)
    from soft_loop_found [OF nn(2,1) refl, of outside "i + 1" i] show ?thesis
    proof
      assume "soft_loop sq outside (i + 1) (sq q) (Some i) qs = Some i \<and> (\<forall>x \<in> set ?in. sq q \<le> sq x)"
      then show ?thesis
        using nn(1) unfolding step run by (intro exI [of _ 0]) (auto intro: dbl_refl)
    next
      assume "\<exists>j < length ?in. soft_loop sq outside (i + 1) (sq q) (Some i) qs = Some (i + 1 + j)
        \<and> sq (?in ! j) \<le> sq q \<and> (\<forall>q \<in> set ?in. sq (?in ! j) \<le> sq q)"
      then obtain j where "j < length ?in"
        "soft_loop sq outside (i + 1) (sq q) (Some i) qs = Some (i + Suc j)" "sq (?in ! j) \<le> sq q"
        "\<forall>q \<in> set ?in. sq (?in ! j) \<le> sq q"
        by auto
      then show ?thesis
        unfolding step run by (intro exI [of _ "Suc j"]) auto
    qed
  qed
qed simp

lemma first_run_nth:
  assumes "j < length (first_run outside pts)"
  shows "first_run outside pts ! j = pts ! (length (takeWhile outside pts) + j)"
    "length (takeWhile outside pts) + j < length pts" "\<not> outside (first_run outside pts ! j)"
proof -
  have l: "length (first_run outside pts) \<le> length (dropWhile outside pts)"
    by (simp add: first_run_def length_takeWhile_le)
  have len: "length pts = length (takeWhile outside pts) + length (dropWhile outside pts)"
    by (metis length_append takeWhile_dropWhile_id)
  then show "length (takeWhile outside pts) + j < length pts"
    using assms l by linarith
  have "first_run outside pts ! j = dropWhile outside pts ! j"
    using assms by (simp add: first_run_def takeWhile_nth)
  then show "first_run outside pts ! j = pts ! (length (takeWhile outside pts) + j)"
    by (metis nth_append_length_plus takeWhile_dropWhile_id)
  show "\<not> outside (first_run outside pts ! j)"
    using assms nth_mem set_takeWhileD unfolding first_run_def by fastforce
qed

text \<open>The search for the nearest point under soft constraints: if some point meets both the
  distance and the yaw constraint, the index found lies in the first run of points that do, and
  no point of that run is closer. A later, closer pass of the trajectory is not taken.\<close>

theorem constrained_search_takes_first_run:
  fixes ps :: pose and dist yaw
  defines "sq \<equiv> \<lambda>q. calcSquaredDistance2d (tp_position q) (position ps)"
    and "outside \<equiv> \<lambda>q. dist * dist < calcSquaredDistance2d (tp_position q) (position ps)
           \<or> yaw < \<bar>calcYawDeviation (tp_pose q) ps\<bar>"
  assumes "\<forall>q \<in> set pts. sq q \<noteq> NaN" and "dist * dist < Fin dbl_max" and "\<exists>q \<in> set pts. \<not> outside q"
  shows "\<exists>i. findFirstNearestIndexWithSoftConstraints pts ps dist yaw = Some i \<and> i < length pts
    \<and> \<not> outside (pts ! i) \<and> pts ! i \<in> set (first_run outside pts)
    \<and> (\<forall>q \<in> set (first_run outside pts). sq (pts ! i) \<le> sq q)"
proof -
  have lt: "\<forall>q \<in> set pts. \<not> outside q \<longrightarrow> sq q < Fin dbl_max"
  proof (intro ballI impI)
    fix q assume "q \<in> set pts" "\<not> outside q"
    then have "\<not> dist * dist < sq q" "sq q \<noteq> NaN" "dist * dist \<noteq> NaN"
      using assms(3,4) by (auto simp: outside_def sq_def)
    then have "sq q \<le> dist * dist"
      by (intro dbl_linear)
    then show "sq q < Fin dbl_max"
      using assms(4) by (rule dbl_le_less_trans)
  qed
  obtain j where j: "j < length (first_run outside pts)"
    "soft_loop sq outside 0 (Fin dbl_max) None pts = Some (length (takeWhile outside pts) + j)"
    "\<forall>q \<in> set (first_run outside pts). sq (first_run outside pts ! j) \<le> sq q"
    using soft_loop_first [OF assms(3) lt assms(5), of 0] by auto
  have "pts \<noteq> []"
    using assms(5) by auto
  then have "findFirstNearestIndexWithSoftConstraints pts ps dist yaw = Some (length (takeWhile outside pts) + j)"
    using j(2) by (simp add: findFirstNearestIndexWithSoftConstraints_def sq_def outside_def Let_def)
  then show ?thesis
    using first_run_nth [OF j(1)] j by (metis nth_mem)
qed

theorem constrained_search_takes_first_run_witness:
  "\<exists>i. findFirstNearestIndexWithSoftConstraints [point_at 0 5, point_at 10 5] (tp_pose (point_at 0 0))
      (Fin 3) (Fin 1) = Some i \<and> i < 2"
proof -
  have "\<not> (Fin 3 * Fin 3 < calcSquaredDistance2d (tp_position (point_at 0 5)) (position (tp_pose (point_at 0 0)))
      \<or> Fin 1 < \<bar>calcYawDeviation (tp_pose (point_at 0 5)) (tp_pose (point_at 0 0))\<bar>)"
    "calcSquaredDistance2d (tp_position (point_at 0 5)) (position (tp_pose (point_at 0 0))) \<noteq> NaN"
    "calcSquaredDistance2d (tp_position (point_at 10 5)) (position (tp_pose (point_at 0 0))) \<noteq> NaN"
    by (simp_all add: point_at_def calcSquaredDistance2d_def calcYawDeviation_def yaw_level normalize_zero
        minus_dbl_def)
  moreover have "Fin 3 * Fin 3 < Fin dbl_max"
    using dbl_max_ge by simp
  ultimately show ?thesis
    using constrained_search_takes_first_run [of "[point_at 0 5, point_at 10 5]" "tp_pose (point_at 0 0)"
        "Fin 3" "Fin 1"] by auto
qed

text \<open>With the thresholds that ship, both zero, the constraints select nothing: unless some
  point coincides with the vehicle, the search is the plain search for the nearest point, also
  where the trajectory passes the vehicle twice or in the opposite direction.\<close>

theorem shipped_search_is_unconstrained:
  assumes "\<forall>q \<in> set pts. Fin 0 < calcSquaredDistance2d (tp_position q) (position ps)"
  shows "findFirstNearestIndexWithSoftConstraints pts ps (ego_nearest_dist_threshold (shipped p))
      (ego_nearest_yaw_threshold (shipped p)) = findNearestIndex pts (position ps)"
proof -
  have none: "soft_loop sq outside i m None qs = None" if "\<forall>q \<in> set qs. outside q" for sq outside i m qs
    using that by (induction qs arbitrary: i) auto
  show ?thesis
  proof (cases "pts = []")
    case True
    then show ?thesis
      by (simp add: findFirstNearestIndexWithSoftConstraints_def findNearestIndex_def validateNonEmpty_def)
  next
    case False
    then show ?thesis
      using assms by (simp add: findFirstNearestIndexWithSoftConstraints_def none)
  qed
qed

theorem shipped_search_is_unconstrained_witness:
  "findFirstNearestIndexWithSoftConstraints [point_at 1 5, point_at 10 5] (tp_pose (point_at 0 0))
      (ego_nearest_dist_threshold (shipped After)) (ego_nearest_yaw_threshold (shipped After))
    = findNearestIndex [point_at 1 5, point_at 10 5] (position (tp_pose (point_at 0 0)))"
  by (rule shipped_search_is_unconstrained)
    (simp add: point_at_def calcSquaredDistance2d_def minus_dbl_def)

section \<open>Overlapping points\<close>

text \<open>Removing overlapping points keeps the first point, leaves no two neighbours closer than
  the tolerance in both coordinates, takes points from the trajectory only, and does nothing when
  applied again.\<close>

theorem overlap_removal:
  "set (removeOverlapPoints pts 0) \<subseteq> set pts
    \<and> (pts \<noteq> [] \<longrightarrow> removeOverlapPoints pts 0 \<noteq> [] \<and> hd (removeOverlapPoints pts 0) = hd pts)
    \<and> successively (\<lambda>a b. \<not> overlapping a b) (removeOverlapPoints pts 0)
    \<and> removeOverlapPoints (removeOverlapPoints pts 0) 0 = removeOverlapPoints pts 0"
  using set_removeOverlap [of pts 0] removeOverlap_apart [of pts] removeOverlap_idem [of pts]
  by (auto simp: removeOverlap_zero split: list.splits)

theorem overlap_removal_witness:
  "point_at 0 5 # point_at 0 5 # [point_at 10 5] \<noteq> []
    \<and> hd (removeOverlapPoints [point_at 0 5, point_at 0 5, point_at 10 5] 0) = point_at 0 5"
  using overlap_removal [of "[point_at 0 5, point_at 0 5, point_at 10 5]"] by simp

section \<open>Angles\<close>

text \<open>\<open>normalizeRadian\<close> of a finite angle is the same angle up to whole turns and lies in
  [-pi, pi]; an infinite angle or a NaN gives a NaN.\<close>

theorem normalized_angle:
  "case a of Fin x \<Rightarrow> (\<exists>r k. normalizeRadian (Fin x) = Fin r \<and> - pi \<le> r \<and> r \<le> pi \<and> x = r + 2 * pi * of_int k)
   | _ \<Rightarrow> normalizeRadian a = NaN"
proof (cases a)
  case (Fin x)
  obtain r k where "normalizeRadian (Fin x) = Fin r" "- pi \<le> r" "r \<le> pi" "x = r + 2 * pi * of_int k"
    by (rule normalizeRadian_Fin)
  then show ?thesis
    using Fin by auto
qed (auto simp: normalizeRadian_def Let_def fcopysign_def)

end
