(* ===== verification/Interpolation.thy ===== *)
theory Interpolation
  imports Trajectory_Utils
begin

text \<open>
  \<open>autoware_interpolation\<close>: the validation of the keys (\<open>interpolation_utils.hpp\<close>), the linear
  and the spherical interpolation of a table (\<open>linear_interpolation.cpp\<close>,
  \<open>spherical_linear_interpolation.cpp\<close>). A function that calls \<open>std::exit\<close> returns an option,
  \<open>None\<close> for the end of the process. The interpolations have a second option inside: its \<open>None\<close>
  is the exception \<open>std::out_of_range\<close> of \<open>at\<close>, which a caller may catch.
\<close>

section \<open>Validation\<close>

definition isIncreasing :: "dbl list \<Rightarrow> bool option" where
  "isIncreasing x = (if x = [] then None else Some (successively (\<lambda>a b. \<not> b \<le> a) x))"

definition isNotDecreasing :: "dbl list \<Rightarrow> bool option" where
  "isNotDecreasing x = (if x = [] then None else Some (successively (\<lambda>a b. \<not> b < a) x))"

text \<open>A query that lies outside the keys by less than a thousandth is moved to the end of the range.\<close>

definition cropped :: "dbl list \<Rightarrow> dbl list \<Rightarrow> dbl list" where
  "cropped base_keys query_keys =
     (let front = query_keys[0 := fmax (hd query_keys) (hd base_keys)]
      in front[length front - 1 := fmin (last front) (last base_keys)])"

definition validateKeys :: "dbl list \<Rightarrow> dbl list \<Rightarrow> dbl list option" where
  "validateKeys base_keys query_keys =
     (if base_keys = [] \<or> query_keys = [] then None
      else if length base_keys < 2 then None
      else do {
        increasing \<leftarrow> isIncreasing base_keys;
        not_decreasing \<leftarrow> isNotDecreasing query_keys;
        if \<not> increasing \<or> \<not> not_decreasing then None
        else if hd query_keys < hd base_keys - Fin (1 / 10 ^ 3)
          \<or> last base_keys + Fin (1 / 10 ^ 3) < last query_keys then None
        else Some (cropped base_keys query_keys)
      })"

definition validateKeysAndValues :: "dbl list \<Rightarrow> 'a list \<Rightarrow> unit option" where
  "validateKeysAndValues base_keys base_values =
     (if base_keys = [] \<or> base_values = [] then None
      else if length base_keys < 2 \<or> length base_values < 2 then None
      else if length base_keys \<noteq> length base_values then None
      else Some ())"

section \<open>Interpolation of a table\<close>

text \<open>The cursor moves forward to the first segment that does not end before the query.\<close>

function advance :: "dbl list \<Rightarrow> nat \<Rightarrow> dbl \<Rightarrow> nat option" where
  "advance base_keys key_index query_key =
     (case at_opt base_keys (key_index + 1) of
        None \<Rightarrow> None
      | Some b \<Rightarrow>
          if b < query_key then advance base_keys (key_index + 1) query_key else Some key_index)"
  by auto
termination
  by (relation "measure (\<lambda>(base_keys, key_index, q). length base_keys - key_index)")
    (auto simp: at_opt_def split: if_splits)

declare advance.simps [simp del]

definition key_ratio :: "dbl list \<Rightarrow> nat \<Rightarrow> dbl \<Rightarrow> dbl" where
  "key_ratio base_keys k query_key =
     (query_key - base_keys ! k) div (base_keys ! (k + 1) - base_keys ! k)"

text \<open>The loop over the queries, which the linear and the spherical interpolation share.\<close>

fun interpolation_loop ::
  "('a \<Rightarrow> 'a \<Rightarrow> dbl \<Rightarrow> 'a) \<Rightarrow> dbl list \<Rightarrow> 'a list \<Rightarrow> nat \<Rightarrow> dbl list \<Rightarrow> 'a list option" where
  "interpolation_loop f base_keys base_values key_index [] = Some []"
| "interpolation_loop f base_keys base_values key_index (q # qs) =
     do {
       k \<leftarrow> advance base_keys key_index q;
       src_val \<leftarrow> at_opt base_values k;
       dst_val \<leftarrow> at_opt base_values (k + 1);
       rest \<leftarrow> interpolation_loop f base_keys base_values k qs;
       Some (f src_val dst_val (key_ratio base_keys k q) # rest)
     }"

definition lerp_table :: "dbl list \<Rightarrow> dbl list \<Rightarrow> dbl list \<Rightarrow> dbl list option option" where
  "lerp_table base_keys base_values query_keys =
     do {
       validated_query_keys \<leftarrow> validateKeys base_keys query_keys;
       validateKeysAndValues base_keys base_values;
       Some (interpolation_loop lerp base_keys base_values 0 validated_query_keys)
     }"

text \<open>The overload for one query.\<close>

definition lerp_at :: "dbl list \<Rightarrow> dbl list \<Rightarrow> dbl \<Rightarrow> dbl option option" where
  "lerp_at base_keys base_values query_key =
     map_option (map_option hd) (lerp_table base_keys base_values [query_key])"

definition slerp_table ::
  "eigen_ops \<Rightarrow> dbl list \<Rightarrow> quaternion list \<Rightarrow> dbl list \<Rightarrow> quaternion list option option" where
  "slerp_table eig base_keys base_values query_keys =
     do {
       validated_query_keys \<leftarrow> validateKeys base_keys query_keys;
       validateKeysAndValues base_keys base_values;
       Some (interpolation_loop (\<lambda>src_quat dst_quat ratio. e_slerp eig src_quat ratio dst_quat)
               base_keys base_values 0 validated_query_keys)
     }"

section \<open>The loop and a search from the start\<close>

text \<open>The segment of a query, found from the start of the table.\<close>

definition segment_of :: "dbl list \<Rightarrow> dbl \<Rightarrow> nat" where
  "segment_of base_keys q = length (takeWhile (\<lambda>b. b < q) (tl base_keys))"

definition table_value :: "('a \<Rightarrow> 'a \<Rightarrow> dbl \<Rightarrow> 'a) \<Rightarrow> dbl list \<Rightarrow> 'a list \<Rightarrow> dbl \<Rightarrow> 'a" where
  "table_value f base_keys base_values q =
     (let k = segment_of base_keys q
      in f (base_values ! k) (base_values ! (k + 1)) (key_ratio base_keys k q))"

lemma advance_from_before:
  "m \<le> segment_of bs q \<Longrightarrow> segment_of bs q < length bs - 1 \<Longrightarrow> advance bs m q = Some (segment_of bs q)"
proof (induction "segment_of bs q - m" arbitrary: m)
  case 0
  then have m: "m = segment_of bs q" by simp
  have "segment_of bs q < length (tl bs)" using 0 by simp
  then have "\<not> tl bs ! m < q"
    unfolding m segment_of_def by (rule nth_length_takeWhile)
  with 0 m show ?case
    by (subst advance.simps) (simp add: nth_tl)
next
  case (Suc d)
  then have m: "m < segment_of bs q" by simp
  then have "takeWhile (\<lambda>b. b < q) (tl bs) ! m \<in> set (takeWhile (\<lambda>b. b < q) (tl bs))"
    unfolding segment_of_def by (rule nth_mem)
  then have "takeWhile (\<lambda>b. b < q) (tl bs) ! m < q"
    by (auto dest: set_takeWhileD)
  moreover have "takeWhile (\<lambda>b. b < q) (tl bs) ! m = tl bs ! m"
    using m unfolding segment_of_def by (rule takeWhile_nth)
  ultimately have "bs ! (m + 1) < q"
    using m Suc.prems by (simp add: nth_tl)
  moreover have "advance bs (m + 1) q = Some (segment_of bs q)"
    using Suc.hyps(1) [of "m + 1"] Suc.hyps(2) m Suc.prems by simp
  ultimately show ?case
    using m Suc.prems by (subst advance.simps) simp
qed

lemma segment_mono:
  assumes "q \<le> r"
  shows "segment_of bs q \<le> segment_of bs r"
proof -
  have "length (takeWhile (\<lambda>b. b < q) xs) \<le> length (takeWhile (\<lambda>b. b < r) xs)" for xs
    using assms by (induction xs) (auto dest: dbl_less_le_trans)
  then show ?thesis by (simp add: segment_of_def)
qed

lemma segment_in_table:
  assumes "1 < length bs" and "\<not> last bs < q"
  shows "segment_of bs q < length bs - 1"
proof -
  have ne: "tl bs \<noteq> []" and "last (tl bs) = last bs"
    using assms(1) by (cases bs; auto)+
  then have "\<not> (\<forall>b \<in> set (tl bs). b < q)"
    using assms(2) by (metis last_in_set)
  then have "length (takeWhile (\<lambda>b. b < q) (tl bs)) < length (tl bs)"
    by (metis length_takeWhile_le nat_less_le set_takeWhileD takeWhile_eq_all_conv takeWhile_eq_take take_all)
  then show ?thesis by (simp add: segment_of_def)
qed

lemma interpolation_loop_eq:
  assumes "sorted_wrt (\<lambda>q r. segment_of bs q \<le> segment_of bs r) qs"
    and "\<forall>q \<in> set qs. segment_of bs q < length bs - 1"
    and "length vs = length bs" and "\<forall>q \<in> set qs. m \<le> segment_of bs q"
  shows "interpolation_loop f bs vs m qs = Some (map (table_value f bs vs) qs)"
  using assms
proof (induction qs arbitrary: m)
  case (Cons q qs)
  have k: "advance bs m q = Some (segment_of bs q)"
    using Cons.prems by (intro advance_from_before) auto
  have "\<forall>r \<in> set qs. segment_of bs q \<le> segment_of bs r"
    using Cons.prems(1) by auto
  then have "interpolation_loop f bs vs (segment_of bs q) qs = Some (map (table_value f bs vs) qs)"
    using Cons.prems by (intro Cons.IH) auto
  moreover have "segment_of bs q < length bs - 1"
    using Cons.prems(2) by simp
  then have "segment_of bs q + 1 < length bs"
    by linarith
  ultimately show ?case
    using k Cons.prems(3) by (simp add: table_value_def Let_def at_opt_def)
qed simp

end
