(* ===== verification/Mpc_Trajectory.thy ===== *)
theory Mpc_Trajectory
  imports Interpolation
begin

text \<open>
  The trajectory of the lateral controller (\<open>mpc_trajectory.hpp\<close>, \<open>mpc_trajectory.cpp\<close>): one
  vector for each quantity, so that a filter can work on one of them. \<open>at\<close> and \<open>back\<close> return an
  option; \<open>back\<close> of an empty vector is undefined in C++ and \<open>None\<close> here.
\<close>

record mpc_point =
  mpt_x :: dbl
  mpt_y :: dbl
  mpt_z :: dbl
  mpt_yaw :: dbl
  mpt_vx :: dbl
  mpt_k :: dbl
  mpt_smooth_k :: dbl
  mpt_relative_time :: dbl

record mpc_trajectory =
  t_x :: "dbl list"
  t_y :: "dbl list"
  t_z :: "dbl list"
  t_yaw :: "dbl list"
  t_vx :: "dbl list"
  t_k :: "dbl list"
  t_smooth_k :: "dbl list"
  t_relative_time :: "dbl list"

definition no_points :: mpc_trajectory where
  "no_points = \<lparr>t_x = [], t_y = [], t_z = [], t_yaw = [], t_vx = [], t_k = [], t_smooth_k = [],
     t_relative_time = []\<rparr>"

definition mt_push_back :: "mpc_point \<Rightarrow> mpc_trajectory \<Rightarrow> mpc_trajectory" where
  "mt_push_back p t =
     \<lparr>t_x = t_x t @ [mpt_x p], t_y = t_y t @ [mpt_y p], t_z = t_z t @ [mpt_z p],
      t_yaw = t_yaw t @ [mpt_yaw p], t_vx = t_vx t @ [mpt_vx p], t_k = t_k t @ [mpt_k p],
      t_smooth_k = t_smooth_k t @ [mpt_smooth_k p],
      t_relative_time = t_relative_time t @ [mpt_relative_time p]\<rparr>"

definition back_opt :: "'a list \<Rightarrow> 'a option" where
  "back_opt xs = (if xs = [] then None else Some (last xs))"

definition mt_back :: "mpc_trajectory \<Rightarrow> mpc_point option" where
  "mt_back t =
     do {
       x \<leftarrow> back_opt (t_x t); y \<leftarrow> back_opt (t_y t); z \<leftarrow> back_opt (t_z t);
       yaw \<leftarrow> back_opt (t_yaw t); v \<leftarrow> back_opt (t_vx t); k \<leftarrow> back_opt (t_k t);
       s \<leftarrow> back_opt (t_smooth_k t); r \<leftarrow> back_opt (t_relative_time t);
       Some \<lparr>mpt_x = x, mpt_y = y, mpt_z = z, mpt_yaw = yaw, mpt_vx = v, mpt_k = k,
             mpt_smooth_k = s, mpt_relative_time = r\<rparr>
     }"

definition mt_at :: "mpc_trajectory \<Rightarrow> nat \<Rightarrow> mpc_point option" where
  "mt_at t i =
     do {
       x \<leftarrow> at_opt (t_x t) i; y \<leftarrow> at_opt (t_y t) i; z \<leftarrow> at_opt (t_z t) i;
       yaw \<leftarrow> at_opt (t_yaw t) i; v \<leftarrow> at_opt (t_vx t) i; k \<leftarrow> at_opt (t_k t) i;
       s \<leftarrow> at_opt (t_smooth_k t) i; r \<leftarrow> at_opt (t_relative_time t) i;
       Some \<lparr>mpt_x = x, mpt_y = y, mpt_z = z, mpt_yaw = yaw, mpt_vx = v, mpt_k = k,
             mpt_smooth_k = s, mpt_relative_time = r\<rparr>
     }"

definition mt_clear :: "mpc_trajectory \<Rightarrow> mpc_trajectory" where
  "mt_clear t =
     t\<lparr>t_x := [], t_y := [], t_z := [], t_yaw := [], t_vx := [], t_k := [], t_smooth_k := [],
       t_relative_time := []\<rparr>"

text \<open>The size is 0 when the vectors have different lengths.\<close>

definition mt_size :: "mpc_trajectory \<Rightarrow> nat" where
  "mt_size t =
     (if length (t_x t) = length (t_y t) \<and> length (t_x t) = length (t_z t)
         \<and> length (t_x t) = length (t_yaw t) \<and> length (t_x t) = length (t_vx t)
         \<and> length (t_x t) = length (t_k t) \<and> length (t_x t) = length (t_smooth_k t)
         \<and> length (t_x t) = length (t_relative_time t)
      then length (t_x t) else 0)"

definition mt_empty :: "mpc_trajectory \<Rightarrow> bool" where
  "mt_empty t \<longleftrightarrow> mt_size t = 0"

text \<open>\<open>toPoints\<close> and \<open>toTrajectoryPoints\<close> run over the length of \<open>x\<close> and read the others with \<open>at\<close>.\<close>

definition toPoints :: "mpc_trajectory \<Rightarrow> vector3 list option" where
  "toPoints t =
     those (map (\<lambda>i. do {
       x \<leftarrow> at_opt (t_x t) i; y \<leftarrow> at_opt (t_y t) i; z \<leftarrow> at_opt (t_z t) i;
       Some \<lparr>vx = x, vy = y, vz = z\<rparr> }) [0..<length (t_x t)])"

definition toTrajectoryPoints :: "mpc_trajectory \<Rightarrow> tp list option" where
  "toTrajectoryPoints t =
     those (map (\<lambda>i. do {
       x \<leftarrow> at_opt (t_x t) i; y \<leftarrow> at_opt (t_y t) i; z \<leftarrow> at_opt (t_z t) i;
       yaw \<leftarrow> at_opt (t_yaw t) i; v \<leftarrow> at_opt (t_vx t) i;
       Some (zero_point\<lparr>
         tp_pose := \<lparr>position = \<lparr>vx = x, vy = y, vz = z\<rparr>, orientation = createQuaternionFromYaw yaw\<rparr>,
         longitudinal_velocity_mps := to_float v\<rparr>) }) [0..<length (t_x t)])"

section \<open>Vectors of one length\<close>

definition aligned :: "nat \<Rightarrow> mpc_trajectory \<Rightarrow> bool" where
  "aligned n t \<longleftrightarrow> length (t_x t) = n \<and> length (t_y t) = n \<and> length (t_z t) = n
     \<and> length (t_yaw t) = n \<and> length (t_vx t) = n \<and> length (t_k t) = n
     \<and> length (t_smooth_k t) = n \<and> length (t_relative_time t) = n"

lemma aligned_size: "aligned n t \<Longrightarrow> mt_size t = n"
  by (auto simp: mt_size_def aligned_def)

lemma size_aligned: "mt_size t = n \<Longrightarrow> 0 < n \<Longrightarrow> aligned n t"
  by (auto simp: mt_size_def aligned_def split: if_splits)

lemma aligned_empty: "aligned n t \<Longrightarrow> mt_empty t \<longleftrightarrow> n = 0"
  by (simp add: mt_empty_def aligned_size)

lemma aligned_push_back: "aligned n t \<Longrightarrow> aligned (n + 1) (mt_push_back p t)"
  by (auto simp: aligned_def mt_push_back_def)

lemma those_map_Some: "(\<And>x. x \<in> set xs \<Longrightarrow> f x = Some (g x)) \<Longrightarrow> those (map f xs) = Some (map g xs)"
  by (induction xs) auto

end
