(* ===== verification/Spline_Interpolation.thy ===== *)
theory Spline_Interpolation
  imports Interpolation
begin

text \<open>
  The cubic splines of \<open>autoware_interpolation\<close> (\<open>spline_interpolation.cpp\<close>). An Eigen vector
  is a list; its coefficient access and its coefficient-wise arithmetic are those of the list.
  As in \<open>Interpolation\<close>, \<open>None\<close> is the end of the process.
\<close>

section \<open>Tridiagonal systems\<close>

text \<open>The forward sweep, from the second row on: the pairs of \<open>c_prime\<close> and \<open>d_prime\<close>.\<close>

fun forward_sweep ::
  "dbl list \<Rightarrow> dbl list \<Rightarrow> dbl list \<Rightarrow> dbl list \<Rightarrow> nat \<Rightarrow> dbl \<times> dbl \<Rightarrow> nat list \<Rightarrow> (dbl \<times> dbl) list" where
  "forward_sweep a b c d n prev [] = []"
| "forward_sweep a b c d n (c_prev, d_prev) (i # is) =
     (let m = Fin 1 div (b ! i - a ! (i - 1) * c_prev);
          c_prime = (if i < n - 1 then c ! i * m else Fin 0);
          d_prime = (d ! i - a ! (i - 1) * d_prev) * m
      in (c_prime, d_prime) # forward_sweep a b c d n (c_prime, d_prime) is)"

text \<open>The back substitution over the rows in reverse order.\<close>

fun back_substitute :: "dbl \<Rightarrow> (dbl \<times> dbl) list \<Rightarrow> dbl list" where
  "back_substitute x_next [] = []"
| "back_substitute x_next ((c_prime, d_prime) # rows) =
     (let x = d_prime - c_prime * x_next in x # back_substitute x rows)"

definition solve_tridiagonal_matrix_algorithm ::
  "dbl list \<Rightarrow> dbl list \<Rightarrow> dbl list \<Rightarrow> dbl list \<Rightarrow> dbl list" where
  "solve_tridiagonal_matrix_algorithm a b c d =
     (let n = length d
      in if n = 1 then [d ! 0 div b ! 0]
         else
           let row = (c ! 0 div b ! 0, d ! 0 div b ! 0);
               rows = row # forward_sweep a b c d n row [1..<n];
               x_last = snd (last rows)
           in rev (x_last # back_substitute x_last (rev (butlast rows))))"

section \<open>The spline of a table\<close>

record spline =
  s_a :: "dbl list"
  s_b :: "dbl list"
  s_c :: "dbl list"
  s_d :: "dbl list"
  s_base_keys :: "dbl list"

text \<open>The differences of neighbours, \<open>tail(n - 1) - head(n - 1)\<close>.\<close>

definition diffs :: "dbl list \<Rightarrow> dbl list" where
  "diffs xs = map2 (-) (tl xs) (butlast xs)"

definition spline_moments :: "dbl list \<Rightarrow> dbl list \<Rightarrow> dbl list" where
  "spline_moments x y =
     (let h = diffs x;
          a = butlast (tl h);
          b = map2 (\<lambda>h0 h1. Fin 2 * (h0 + h1)) (butlast h) (tl h);
          c = butlast (tl h);
          y_diff = diffs y;
          d = map2 (\<lambda>s1 s0. Fin 6 * (s1 - s0))
                (map2 (div) (tl y_diff) (tl h)) (map2 (div) (butlast y_diff) (butlast h))
      in [Fin 0] @ solve_tridiagonal_matrix_algorithm a b c d @ [Fin 0])"

definition calcSplineCoefficients :: "dbl list \<Rightarrow> dbl list \<Rightarrow> spline option" where
  "calcSplineCoefficients base_keys base_values =
     do {
       validateKeysAndValues base_keys base_values;
       let x = base_keys;
       let y = base_values;
       Some (if length x = 2 then
         \<lparr>s_a = [Fin 0], s_b = [Fin 0], s_c = [(y ! 1 - y ! 0) div (x ! 1 - x ! 0)], s_d = [y ! 0],
          s_base_keys = base_keys\<rparr>
       else
         let v = spline_moments x y;
             h = diffs x
         in \<lparr>s_a = map2 (\<lambda>dv hi. dv div Fin 6 div hi) (diffs v) h,
             s_b = map (\<lambda>vi. vi div Fin 2) (butlast v),
             s_c = map2 (-) (map2 (div) (diffs y) h)
                     (map2 (\<lambda>hi vs. hi * vs div Fin 6) h
                       (map2 (\<lambda>v0 v1. Fin 2 * v0 + v1) (butlast v) (tl v))),
             s_d = butlast y,
             s_base_keys = base_keys\<rparr>)
     }"

text \<open>\<open>get_index\<close>: \<open>std::lower_bound\<close> on the increasing keys is the first one not below the key.\<close>

definition get_index :: "spline \<Rightarrow> dbl \<Rightarrow> nat" where
  "get_index s key =
     (let it = int (length (takeWhile (\<lambda>b. b < key) (s_base_keys s)))
      in nat (max 0 (min (it - 1) (int (length (s_base_keys s)) - 2))))"

text \<open>
  The three evaluations. The validated keys are computed but the loops run over the keys that
  were passed.
\<close>

definition getSplineInterpolatedValues :: "spline \<Rightarrow> dbl list \<Rightarrow> dbl list option" where
  "getSplineInterpolatedValues s query_keys =
     do {
       validateKeys (s_base_keys s) query_keys;
       Some (map (\<lambda>key.
         let idx = get_index s key;
             dx = key - s_base_keys s ! idx
         in s_a s ! idx * dx * dx * dx + s_b s ! idx * dx * dx + s_c s ! idx * dx + s_d s ! idx)
         query_keys)
     }"

definition getSplineInterpolatedDiffValues :: "spline \<Rightarrow> dbl list \<Rightarrow> dbl list option" where
  "getSplineInterpolatedDiffValues s query_keys =
     do {
       validateKeys (s_base_keys s) query_keys;
       Some (map (\<lambda>key.
         let idx = get_index s key;
             dx = key - s_base_keys s ! idx
         in Fin 3 * s_a s ! idx * dx * dx + Fin 2 * s_b s ! idx * dx + s_c s ! idx) query_keys)
     }"

definition getSplineInterpolatedQuadDiffValues :: "spline \<Rightarrow> dbl list \<Rightarrow> dbl list option" where
  "getSplineInterpolatedQuadDiffValues s query_keys =
     do {
       validateKeys (s_base_keys s) query_keys;
       Some (map (\<lambda>key.
         let idx = get_index s key;
             dx = key - s_base_keys s ! idx
         in Fin 6 * s_a s ! idx * dx + Fin 2 * s_b s ! idx) query_keys)
     }"

definition spline_values :: "dbl list \<Rightarrow> dbl list \<Rightarrow> dbl list \<Rightarrow> dbl list option" where
  "spline_values base_keys base_values query_keys =
     do {
       interpolator \<leftarrow> calcSplineCoefficients base_keys base_values;
       getSplineInterpolatedValues interpolator query_keys
     }"

end
