(* ===== verification/Mpc_Utils.thy ===== *)
theory Mpc_Utils
  imports Mpc_Trajectory Spline_Interpolation
begin

text \<open>
  The functions on trajectories of the lateral controller (\<open>mpc_utils.cpp\<close>). \<open>None\<close> is a run
  that does not come back to the caller: the process ends, an exception leaves the function, or
  a sampling loop never stops.
\<close>

section \<open>Lengths and angles\<close>

definition mt_distance2d :: "mpc_trajectory \<Rightarrow> nat \<Rightarrow> nat \<Rightarrow> dbl option" where
  "mt_distance2d t idx1 idx2 =
     do {
       x1 \<leftarrow> at_opt (t_x t) idx1; x2 \<leftarrow> at_opt (t_x t) idx2;
       y1 \<leftarrow> at_opt (t_y t) idx1; y2 \<leftarrow> at_opt (t_y t) idx2;
       Some (fhypot (x1 - x2) (y1 - y2))
     }"

definition mt_distance3d :: "mpc_trajectory \<Rightarrow> nat \<Rightarrow> nat \<Rightarrow> dbl option" where
  "mt_distance3d t idx1 idx2 =
     do {
       x1 \<leftarrow> at_opt (t_x t) idx1; x2 \<leftarrow> at_opt (t_x t) idx2;
       y1 \<leftarrow> at_opt (t_y t) idx1; y2 \<leftarrow> at_opt (t_y t) idx2;
       z1 \<leftarrow> at_opt (t_z t) idx1; z2 \<leftarrow> at_opt (t_z t) idx2;
       Some (fhypot (fhypot (x1 - x2) (y1 - y2)) (z1 - z2))
     }"

text \<open>Each angle is compared with its predecessor, which has been moved already.\<close>

fun monotonic_from :: "dbl \<Rightarrow> dbl list \<Rightarrow> dbl list" where
  "monotonic_from prev [] = []"
| "monotonic_from prev (a # as) =
     (let a' = prev + normalizeRadian (a - prev) in a' # monotonic_from a' as)"

fun convertEulerAngleToMonotonic :: "dbl list \<Rightarrow> dbl list" where
  "convertEulerAngleToMonotonic [] = []"
| "convertEulerAngleToMonotonic (a # as) = a # monotonic_from a as"

definition calcLateralError :: "pose \<Rightarrow> pose \<Rightarrow> dbl" where
  "calcLateralError ego_pose ref_pose =
     (let err_x = vx (position ego_pose) - vx (position ref_pose);
          err_y = vy (position ego_pose) - vy (position ref_pose);
          ref_yaw = getYaw (orientation ref_pose)
      in - fsin ref_yaw * err_x + fcos ref_yaw * err_y)"

fun arc_lengths_from :: "mpc_trajectory \<Rightarrow> dbl \<Rightarrow> nat list \<Rightarrow> dbl list option" where
  "arc_lengths_from t len [] = Some []"
| "arc_lengths_from t len (i # is) =
     do {
       d \<leftarrow> mt_distance2d t i (i - 1);
       rest \<leftarrow> arc_lengths_from t (len + d) is;
       Some ((len + d) # rest)
     }"

definition mpcArcLengths :: "mpc_trajectory \<Rightarrow> dbl list option" where
  "mpcArcLengths t =
     map_option (\<lambda>rest. Fin 0 # rest) (arc_lengths_from t (Fin 0) [1..<mt_size t])"

text \<open>The overload that returns the length of the whole trajectory.\<close>

definition mpcArcLength :: "mpc_trajectory \<Rightarrow> dbl option" where
  "mpcArcLength t = map_option (\<lambda>rest. last (Fin 0 # rest)) (arc_lengths_from t (Fin 0) [1..<mt_size t])"

section \<open>Time and speed\<close>

fun times_from :: "mpc_trajectory \<Rightarrow> dbl \<Rightarrow> nat list \<Rightarrow> dbl list option" where
  "times_from t time [] = Some []"
| "times_from t time (i # is) =
     do {
       dist \<leftarrow> mt_distance3d t i (i + 1);
       speed \<leftarrow> at_opt (t_vx t) i;
       let v = fmax \<bar>speed\<bar> (Fin (1 / 10));
       let time = time + fmax (dist div v) (Fin (1 / 10 ^ 4));
       rest \<leftarrow> times_from t time is;
       Some (time # rest)
     }"

text \<open>An empty \<open>x\<close> makes the bound of the loop wrap around, and its first access throws.\<close>

definition calcMPCTrajectoryTime :: "mpc_trajectory \<Rightarrow> mpc_trajectory option" where
  "calcMPCTrajectoryTime t =
     (if t_x t = [] then None
      else map_option (\<lambda>rest. t\<lparr>t_relative_time := Fin 0 # rest\<rparr>)
             (times_from t (Fin 0) [0..<length (t_x t) - 1]))"

definition dbl_epsilon :: dbl where
  "dbl_epsilon = Fin (1 / 2 ^ 52)"

fun smooth_speed_loop ::
  "dbl \<Rightarrow> dbl \<Rightarrow> dbl \<Rightarrow> nat list \<Rightarrow> mpc_trajectory \<Rightarrow> mpc_trajectory option" where
  "smooth_speed_loop acc_lim tau curr_v [] t = Some t"
| "smooth_speed_loop acc_lim tau curr_v (i # is) t =
     do {
       ds \<leftarrow> mt_distance2d t i (i - 1);
       v \<leftarrow> at_opt (t_vx t) i;
       let dt = ds div fmax \<bar>curr_v\<bar> dbl_epsilon;
       let a = tau div fmax (tau + dt) dbl_epsilon;
       let updated_v = a * curr_v + (Fin 1 - a) * v;
       let dv = fmax (- acc_lim * dt) (fmin (acc_lim * dt) (updated_v - curr_v));
       let curr_v = curr_v + dv;
       smooth_speed_loop acc_lim tau curr_v is (t\<lparr>t_vx := (t_vx t)[i := curr_v]\<rparr>)
     }"

definition set_at :: "'a list \<Rightarrow> nat \<Rightarrow> 'a \<Rightarrow> 'a list option" where
  "set_at xs i x = (if i < length xs then Some (xs[i := x]) else None)"

definition dynamicSmoothingVelocity ::
  "nat \<Rightarrow> dbl \<Rightarrow> dbl \<Rightarrow> dbl \<Rightarrow> mpc_trajectory \<Rightarrow> mpc_trajectory option" where
  "dynamicSmoothingVelocity start_seg_idx start_vel acc_lim tau t =
     do {
       v \<leftarrow> set_at (t_vx t) start_seg_idx start_vel;
       v \<leftarrow> (if 1 < length v then set_at v (start_seg_idx + 1) start_vel else Some v);
       let t = t\<lparr>t_vx := v\<rparr>;
       t \<leftarrow> smooth_speed_loop acc_lim tau start_vel [start_seg_idx + 2..<mt_size t] t;
       calcMPCTrajectoryTime t
     }"

section \<open>Resampling\<close>

text \<open>The samples before and after the ego position; a step that is not positive never ends.\<close>

partial_function (option) samples_before :: "dbl \<Rightarrow> dbl \<Rightarrow> dbl list option" where
  "samples_before step s =
     (if 0 \<le> s then do { rest \<leftarrow> samples_before step (s - step); Some (s # rest) } else Some [])"

partial_function (option) samples_after :: "dbl \<Rightarrow> dbl \<Rightarrow> dbl \<Rightarrow> dbl list option" where
  "samples_after step end s =
     (if s < end then do { rest \<leftarrow> samples_after step end (s + step); Some (s # rest) } else Some [])"

declare samples_before.simps [code] samples_after.simps [code]

definition output_arc_lengths :: "dbl list \<Rightarrow> dbl \<Rightarrow> nat \<Rightarrow> dbl \<Rightarrow> dbl list option" where
  "output_arc_lengths input_arclength step nearest_seg_idx ego_offset =
     do {
       seg \<leftarrow> at_opt input_arclength nearest_seg_idx;
       before \<leftarrow> samples_before step
         (fclamp (seg + ego_offset) (Fin 0) (last input_arclength - Fin (1 / 10 ^ 6)));
       after \<leftarrow> samples_after step (last input_arclength) (fmax (seg + ego_offset) (Fin 0) + step);
       Some (rev before @ after)
     }"

text \<open>The exception of an interpolation, which the caller does not catch, ends the process.\<close>

definition uncaught :: "'a option option \<Rightarrow> 'a option" where
  "uncaught r = Option.bind r (\<lambda>x. x)"

definition resampleMPCTrajectoryByDistance ::
  "mpc_trajectory \<Rightarrow> dbl \<Rightarrow> nat \<Rightarrow> dbl \<Rightarrow> (bool \<times> mpc_trajectory) option" where
  "resampleMPCTrajectoryByDistance input step nearest_seg_idx ego_offset_to_segment =
     (if mt_empty input then Some (True, no_points)
      else do {
        input_arclength \<leftarrow> mpcArcLengths input;
        if input_arclength = [] then Some (False, no_points)
        else do {
          output_arclength \<leftarrow>
            output_arc_lengths input_arclength step nearest_seg_idx ego_offset_to_segment;
          let input_yaw = convertEulerAngleToMonotonic (t_yaw input);
          let spline = (\<lambda>vs. spline_values input_arclength vs output_arclength);
          let linear = (\<lambda>vs. uncaught (lerp_table input_arclength vs output_arclength));
          x \<leftarrow> spline (t_x input);
          y \<leftarrow> spline (t_y input);
          z \<leftarrow> spline (t_z input);
          yaw \<leftarrow> spline input_yaw;
          v \<leftarrow> linear (t_vx input);
          k \<leftarrow> spline (t_k input);
          smooth_k \<leftarrow> spline (t_smooth_k input);
          relative_time \<leftarrow> linear (t_relative_time input);
          Some (True, \<lparr>t_x = x, t_y = y, t_z = z, t_yaw = yaw, t_vx = v, t_k = k,
                       t_smooth_k = smooth_k, t_relative_time = relative_time\<rparr>)
        }
      })"

text \<open>
  A sequence of assignments inside a \<open>try\<close> block: the first exception ends the sequence and
  leaves the vectors that were assigned before it.
\<close>

fun assign_all :: "(mpc_trajectory \<Rightarrow> mpc_trajectory option option) list \<Rightarrow> mpc_trajectory \<Rightarrow>
  mpc_trajectory option" where
  "assign_all [] out = Some out"
| "assign_all (f # fs) out =
     do {
       r \<leftarrow> f out;
       (case r of None \<Rightarrow> Some out | Some out \<Rightarrow> assign_all fs out)
     }"

definition linearInterpMPCTrajectory ::
  "dbl list \<Rightarrow> mpc_trajectory \<Rightarrow> dbl list \<Rightarrow> mpc_trajectory \<Rightarrow> (bool \<times> mpc_trajectory) option" where
  "linearInterpMPCTrajectory in_index in_traj out_index out_traj =
     (if mt_empty in_traj then Some (True, in_traj)
      else do {
        let linear = (\<lambda>vs. lerp_table in_index vs out_index);
        out_traj \<leftarrow> assign_all
          [\<lambda>t. map_option (map_option (\<lambda>v. t\<lparr>t_x := v\<rparr>)) (linear (t_x in_traj)),
           \<lambda>t. map_option (map_option (\<lambda>v. t\<lparr>t_y := v\<rparr>)) (linear (t_y in_traj)),
           \<lambda>t. map_option (map_option (\<lambda>v. t\<lparr>t_z := v\<rparr>)) (linear (t_z in_traj)),
           \<lambda>t. map_option (map_option (\<lambda>v. t\<lparr>t_yaw := v\<rparr>)) (linear (t_yaw in_traj)),
           \<lambda>t. map_option (map_option (\<lambda>v. t\<lparr>t_vx := v\<rparr>)) (linear (t_vx in_traj)),
           \<lambda>t. map_option (map_option (\<lambda>v. t\<lparr>t_k := v\<rparr>)) (linear (t_k in_traj)),
           \<lambda>t. map_option (map_option (\<lambda>v. t\<lparr>t_smooth_k := v\<rparr>)) (linear (t_smooth_k in_traj)),
           \<lambda>t. map_option (map_option (\<lambda>v. t\<lparr>t_relative_time := v\<rparr>))
                 (linear (t_relative_time in_traj))]
          out_traj;
        Some (if mt_empty out_traj then (False, out_traj) else (True, out_traj))
      })"

end
