(* ===== verification/Mpc_Path.thy ===== *)
theory Mpc_Path
  imports Mpc_Utils
begin

text \<open>
  The rest of \<open>mpc_utils.cpp\<close>: direction and curvature of a trajectory, the conversions to and
  from the message, the nearest pose, the stop distance, the extension and the clipping.
\<close>

section \<open>Direction and curvature\<close>

definition yaw_at :: "bool \<Rightarrow> mpc_trajectory \<Rightarrow> nat \<Rightarrow> dbl option" where
  "yaw_at is_forward_shift t i =
     do {
       x1 \<leftarrow> at_opt (t_x t) (i + 1); x0 \<leftarrow> at_opt (t_x t) (i - 1);
       y1 \<leftarrow> at_opt (t_y t) (i + 1); y0 \<leftarrow> at_opt (t_y t) (i - 1);
       let yaw = fatan2 (y1 - y0) (x1 - x0);
       Some (if is_forward_shift then yaw else yaw + Fin pi)
     }"

text \<open>The loop sets the inner angles, which the ends then repeat.\<close>

definition calcTrajectoryYawFromXY :: "mpc_trajectory \<Rightarrow> bool \<Rightarrow> mpc_trajectory option" where
  "calcTrajectoryYawFromXY t is_forward_shift =
     (let n = length (t_yaw t)
      in if n < 3 then Some t
         else if n \<noteq> length (t_vx t) then Some t
         else do {
           inner \<leftarrow> those (map (yaw_at is_forward_shift t) [1..<n - 1]);
           Some (t\<lparr>t_yaw := hd inner # inner @ [last inner]\<rparr>)
         })"

definition three_point_curvature :: "mpc_trajectory \<Rightarrow> nat \<Rightarrow> nat \<Rightarrow> dbl option" where
  "three_point_curvature t L i =
     do {
       x1 \<leftarrow> at_opt (t_x t) (i - L); x2 \<leftarrow> at_opt (t_x t) i; x3 \<leftarrow> at_opt (t_x t) (i + L);
       y1 \<leftarrow> at_opt (t_y t) (i - L); y2 \<leftarrow> at_opt (t_y t) i; y3 \<leftarrow> at_opt (t_y t) (i + L);
       Some (calcCurvature \<lparr>vx = x1, vy = y1, vz = 0\<rparr> \<lparr>vx = x2, vy = y2, vz = 0\<rparr>
               \<lparr>vx = x3, vy = y3, vz = 0\<rparr>)
     }"

fun inner_curvature :: "mpc_trajectory \<Rightarrow> nat \<Rightarrow> nat list \<Rightarrow> dbl list \<Rightarrow> dbl list option" where
  "inner_curvature t L [] ks = Some ks"
| "inner_curvature t L (i # is) ks =
     do {
       k \<leftarrow> three_point_curvature t L i;
       ks \<leftarrow> set_at ks i k;
       inner_curvature t L is ks
     }"

fun end_curvature :: "nat \<Rightarrow> nat \<Rightarrow> nat list \<Rightarrow> dbl list \<Rightarrow> dbl list option" where
  "end_curvature n L [] ks = Some ks"
| "end_curvature n L (i # is) ks =
     do {
       k \<leftarrow> at_opt ks (min L (n - 1));
       ks \<leftarrow> set_at ks i k;
       k \<leftarrow> at_opt ks (max (size_sub (size_sub n L) 1) 0);
       ks \<leftarrow> set_at ks (n - i - 1) k;
       end_curvature n L is ks
     }"

text \<open>
  The index distance, a \<open>size_t\<close>, wraps around for a negative parameter. The bound of the first
  loop wraps around for an empty trajectory, whose first access throws.
\<close>

definition curvature_vector :: "int \<Rightarrow> mpc_trajectory \<Rightarrow> dbl list option" where
  "curvature_vector curvature_smoothing_num t =
     (let n = length (t_x t);
          max_smoothing_num = int ((n - 1) div 2);
          L = nat (min curvature_smoothing_num max_smoothing_num mod 2 ^ 32)
      in if n = 0 then None
         else do {
           ks \<leftarrow> inner_curvature t L [L..<size_sub n L] (replicate n (Fin 0));
           end_curvature n L [0..<min L n] ks
         })"

definition calcTrajectoryCurvature :: "int \<Rightarrow> int \<Rightarrow> mpc_trajectory \<Rightarrow> mpc_trajectory option" where
  "calcTrajectoryCurvature num_traj num_ref_steer t =
     do {
       k \<leftarrow> curvature_vector num_traj t;
       let t = t\<lparr>t_k := k\<rparr>;
       smooth_k \<leftarrow> curvature_vector num_ref_steer t;
       Some (t\<lparr>t_smooth_k := smooth_k\<rparr>)
     }"

section \<open>Conversions\<close>

definition point_of_message :: "tp \<Rightarrow> mpc_point" where
  "point_of_message p =
     \<lparr>mpt_x = vx (tp_position p), mpt_y = vy (tp_position p), mpt_z = vz (tp_position p),
      mpt_yaw = getYaw (orientation (tp_pose p)), mpt_vx = longitudinal_velocity_mps p,
      mpt_k = Fin 0, mpt_smooth_k = Fin 0, mpt_relative_time = Fin 0\<rparr>"

text \<open>The result of \<open>calcMPCTrajectoryTime\<close> replaces the times that \<open>push_back\<close> stored.\<close>

definition convertToMPCTrajectory :: "tp list \<Rightarrow> mpc_trajectory option" where
  "convertToMPCTrajectory pts =
     calcMPCTrajectoryTime (fold (\<lambda>p t. mt_push_back (point_of_message p) t) pts no_points)"

text \<open>
  \<open>convertToAutowareTrajectory\<close>. The other fields of a point are not initialised in the code and
  not read by the searches that use the result.
\<close>

definition message_point :: "mpc_trajectory \<Rightarrow> nat \<Rightarrow> tp option" where
  "message_point t i =
     do {
       x \<leftarrow> at_opt (t_x t) i; y \<leftarrow> at_opt (t_y t) i; z \<leftarrow> at_opt (t_z t) i;
       yaw \<leftarrow> at_opt (t_yaw t) i; v \<leftarrow> at_opt (t_vx t) i;
       Some (zero_point\<lparr>
         tp_pose := \<lparr>position = \<lparr>vx = x, vy = y, vz = z\<rparr>, orientation = createQuaternionFromYaw yaw\<rparr>,
         longitudinal_velocity_mps := to_float v\<rparr>)
     }"

definition convertToAutowareTrajectory :: "mpc_trajectory \<Rightarrow> tp list option" where
  "convertToAutowareTrajectory t = those (map (message_point t) [0..<mt_size t])"

section \<open>The nearest pose\<close>

text \<open>\<open>calcLongitudinalOffset\<close> of a point along a segment.\<close>

definition calcLongitudinalOffset :: "eigen_ops \<Rightarrow> vector3 \<Rightarrow> vector3 \<Rightarrow> vector3 \<Rightarrow> dbl" where
  "calcLongitudinalOffset eig p_front p_back p_target =
     (let segment_vec = \<lparr>vx = vx p_back - vx p_front, vy = vy p_back - vy p_front, vz = 0\<rparr>;
          target_vec = \<lparr>vx = vx p_target - vx p_front, vy = vy p_target - vy p_front, vz = 0\<rparr>
      in e_dot eig segment_vec target_vec div e_norm eig segment_vec)"

definition plane_point :: "mpc_trajectory \<Rightarrow> nat \<Rightarrow> vector3 option" where
  "plane_point t i =
     do { x \<leftarrow> at_opt (t_x t) i; y \<leftarrow> at_opt (t_y t) i; Some \<lparr>vx = x, vy = y, vz = 0\<rparr> }"

record nearest =
  nearest_pose :: pose
  nearest_index :: nat
  nearest_time :: dbl

text \<open>The pose of a point of the trajectory; its height keeps the initial value.\<close>

definition nearest_at :: "mpc_trajectory \<Rightarrow> nat \<Rightarrow> nearest option" where
  "nearest_at t i =
     do {
       x \<leftarrow> at_opt (t_x t) i; y \<leftarrow> at_opt (t_y t) i; yaw \<leftarrow> at_opt (t_yaw t) i;
       time \<leftarrow> at_opt (t_relative_time t) i;
       Some \<lparr>nearest_pose = \<lparr>position = \<lparr>vx = x, vy = y, vz = 0\<rparr>,
                             orientation = createQuaternionFromYaw yaw\<rparr>,
             nearest_index = i, nearest_time = time\<rparr>
     }"

definition nearest_segment :: "eigen_ops \<Rightarrow> mpc_trajectory \<Rightarrow> vector3 \<Rightarrow> nat \<Rightarrow> (nat \<times> nat) option" where
  "nearest_segment eig t self i =
     (if i = 0 then Some (0, 1)
      else if i = mt_size t - 1 then Some (mt_size t - 2, mt_size t - 1)
      else do {
        near \<leftarrow> plane_point t i;
        next \<leftarrow> plane_point t (i + 1);
        Some (if calcLongitudinalOffset eig near next self \<le> 0 then (i - 1, i) else (i, i + 1))
      })"

text \<open>\<open>calcNearestPoseInterp\<close>; the inner \<open>None\<close> is the result \<open>false\<close>.\<close>

definition calcNearestPoseInterp ::
  "eigen_ops \<Rightarrow> mpc_trajectory \<Rightarrow> pose \<Rightarrow> dbl \<Rightarrow> dbl \<Rightarrow> nearest option option" where
  "calcNearestPoseInterp eig t self_pose max_dist max_yaw =
     (if mt_empty t then Some None
      else do {
        pts \<leftarrow> convertToAutowareTrajectory t;
        if pts = [] then Some None
        else do {
          i \<leftarrow> findFirstNearestIndexWithSoftConstraints pts self_pose max_dist max_yaw;
          if mt_size t = 1 then map_option Some (nearest_at t i)
          else do {
            (prev, next) \<leftarrow> nearest_segment eig t (position self_pose) i;
            next_point \<leftarrow> plane_point t next;
            prev_point \<leftarrow> plane_point t prev;
            let seg_length = calcDistance2d prev_point next_point;
            if seg_length < Fin (1 / 10 ^ 5) then map_option Some (nearest_at t i)
            else do {
              let ratio = fclamp
                (calcLongitudinalOffset eig prev_point next_point (position self_pose) div seg_length)
                (Fin 0) (Fin 1);
              yaw0 \<leftarrow> at_opt (t_yaw t) prev; yaw1 \<leftarrow> at_opt (t_yaw t) next;
              time0 \<leftarrow> at_opt (t_relative_time t) prev; time1 \<leftarrow> at_opt (t_relative_time t) next;
              let tmp_yaw_err = normalizeRadian (yaw0 - yaw1);
              let nearest_yaw = normalizeRadian (yaw1 + (Fin 1 - ratio) * tmp_yaw_err);
              Some (Some
                \<lparr>nearest_pose =
                   \<lparr>position =
                      \<lparr>vx = (Fin 1 - ratio) * vx prev_point + ratio * vx next_point,
                       vy = (Fin 1 - ratio) * vy prev_point + ratio * vy next_point, vz = 0\<rparr>,
                    orientation = createQuaternionFromYaw nearest_yaw\<rparr>,
                 nearest_index = i,
                 nearest_time = (Fin 1 - ratio) * time0 + ratio * time1\<rparr>)
            }
          }
        }
      })"

section \<open>Stop distance, extension, clipping\<close>

text \<open>\<open>std::numeric_limits<float>::epsilon()\<close>.\<close>

definition zero_velocity :: dbl where
  "zero_velocity = Fin (1 / 2 ^ 23)"

fun stop_forward :: "tp list \<Rightarrow> dbl \<Rightarrow> nat list \<Rightarrow> dbl" where
  "stop_forward pts stop_dist [] = stop_dist"
| "stop_forward pts stop_dist (i # is) =
     (let stop_dist = stop_dist + calcDistance2d (tp_position (pts ! i)) (tp_position (pts ! (i - 1)))
      in if \<bar>longitudinal_velocity_mps (pts ! i)\<bar> < zero_velocity then stop_dist
         else stop_forward pts stop_dist is)"

fun stop_backward :: "tp list \<Rightarrow> dbl \<Rightarrow> nat list \<Rightarrow> dbl" where
  "stop_backward pts stop_dist [] = stop_dist"
| "stop_backward pts stop_dist (i # is) =
     (if \<bar>longitudinal_velocity_mps (pts ! i)\<bar> > zero_velocity then stop_dist
      else stop_backward pts
        (stop_dist - calcDistance2d (tp_position (pts ! i)) (tp_position (pts ! (i + 1)))) is)"

definition mpc_calcStopDistance :: "tp list \<Rightarrow> nat \<Rightarrow> dbl option" where
  "mpc_calcStopDistance pts origin =
     do {
       p \<leftarrow> at_opt pts origin;
       Some (if \<bar>longitudinal_velocity_mps p\<bar> > zero_velocity
             then stop_forward pts (Fin 0) [origin + 1..<length pts - 1]
             else stop_backward pts (Fin 0) (rev [1..<origin]))
     }"

fun extend_loop :: "eigen_ops \<Rightarrow> dbl \<Rightarrow> dbl \<Rightarrow> nat \<Rightarrow> pose \<Rightarrow> mpc_trajectory \<Rightarrow> mpc_trajectory option" where
  "extend_loop eig x_offset dt 0 extended_pose t = Some t"
| "extend_loop eig x_offset dt (Suc n) extended_pose t =
     do {
       let extended_pose = calcOffsetPose eig extended_pose x_offset (Fin 0) (Fin 0) (Fin 0);
       p \<leftarrow> mt_back t;
       extend_loop eig x_offset dt n extended_pose
         (mt_push_back
            (p\<lparr>mpt_x := vx (position extended_pose), mpt_y := vy (position extended_pose),
               mpt_z := vz (position extended_pose), mpt_vx := Fin 10,
               mpt_relative_time := mpt_relative_time p + dt\<rparr>) t)
     }"

text \<open>A count that is no \<open>size_t\<close>, from an interval near zero, is undefined in C++: \<open>None\<close>.\<close>

definition extendTrajectoryInYawDirection ::
  "eigen_ops \<Rightarrow> dbl \<Rightarrow> dbl \<Rightarrow> bool \<Rightarrow> mpc_trajectory \<Rightarrow> mpc_trajectory option" where
  "extendTrajectoryInYawDirection eig yaw interval is_forward_shift t =
     do {
       t \<leftarrow> map_option (\<lambda>v. t\<lparr>t_yaw := v\<rparr>) (set_at (t_yaw t) (size_sub (length (t_yaw t)) 1) yaw);
       pts \<leftarrow> convertToAutowareTrajectory t;
       last_point \<leftarrow> back_opt pts;
       let x_offset = (if is_forward_shift then interval else - interval);
       n \<leftarrow> cast_u32 (Fin 10 div interval);
       extend_loop eig x_offset (interval div Fin 10) (nat n) (tp_pose last_point) t
     }"

fun clip_loop :: "mpc_trajectory \<Rightarrow> dbl \<Rightarrow> dbl \<Rightarrow> nat list \<Rightarrow> mpc_trajectory \<Rightarrow> mpc_trajectory option" where
  "clip_loop t bound current_length [] clipped = Some clipped"
| "clip_loop t bound current_length (i # is) clipped =
     do {
       d \<leftarrow> mt_distance3d t i (i - 1);
       let current_length = current_length + d;
       if current_length > bound then Some clipped
       else do {
         p \<leftarrow> mt_at t i;
         clip_loop t bound current_length is (mt_push_back p clipped)
       }
     }"

definition clipTrajectoryByLength :: "mpc_trajectory \<Rightarrow> dbl \<Rightarrow> mpc_trajectory option" where
  "clipTrajectoryByLength t bound =
     do {
       p \<leftarrow> mt_at t 0;
       clip_loop t bound (Fin 0) [1..<mt_size t] (mt_push_back p no_points)
     }"

end
