(* ===== verification/Mpc_Filters.thy ===== *)
theory Mpc_Filters
  imports Trajectory_Utils Double_Bounds
begin

text \<open>
  The low-pass filters of the lateral controller (\<open>autoware_mpc_lateral_controller\<close>,
  \<open>lowpass_filter.cpp\<close>): the second-order Butterworth filter and the moving average.
\<close>

section \<open>The Butterworth filter\<close>

text \<open>
  \<open>std::tan\<close>. No \<open>double\<close> is a pole of the tangent; the ones next to it have a tangent of the
  order of \<open>10 ^ 16\<close>, which the model, whose angles are exact, takes as infinite.
\<close>

definition ftan :: "dbl \<Rightarrow> dbl" where
  "ftan x = (case x of Fin r \<Rightarrow> if cos r = 0 then PInf else fl (tan r)
             | PInf \<Rightarrow> NaN | NInf \<Rightarrow> NaN | NaN \<Rightarrow> NaN)"

record butterworth =
  m_y1 :: dbl
  m_y2 :: dbl
  m_u1 :: dbl
  m_u2 :: dbl
  m_a1 :: dbl
  m_a2 :: dbl
  m_b0 :: dbl
  m_b1 :: dbl
  m_b2 :: dbl

definition butterworth_initialize :: "dbl \<Rightarrow> dbl \<Rightarrow> butterworth" where
  "butterworth_initialize dt f_cutoff_hz =
     (let f_sampling_hz = Fin 1 div dt;
          xi = Fin 1 div ftan (Fin pi * f_cutoff_hz div f_sampling_hz);
          xi_2 = xi * xi;
          q = fsqrt (Fin 2);
          b0 = Fin 1 div (Fin 1 + q * xi + xi_2)
      in \<lparr>m_y1 = Fin 0, m_y2 = Fin 0, m_u1 = Fin 0, m_u2 = Fin 0,
          m_a1 = Fin 2 * (xi_2 - Fin 1) * b0,
          m_a2 = - (Fin 1 - q * xi + xi_2) * b0,
          m_b0 = b0, m_b1 = Fin 2 * b0, m_b2 = b0\<rparr>)"

text \<open>The recurrence, as \<open>filter\<close> and \<open>filt_vector\<close> evaluate it.\<close>

definition butterworth_step :: "butterworth \<Rightarrow> dbl \<Rightarrow> dbl \<Rightarrow> dbl \<Rightarrow> dbl \<Rightarrow> dbl \<Rightarrow> dbl" where
  "butterworth_step b y1 y2 u1 u2 u0 =
     m_b2 b * u2 + m_b1 b * u1 + m_b0 b * u0 + m_a2 b * y2 + m_a1 b * y1"

definition butterworth_filter :: "butterworth \<Rightarrow> dbl \<Rightarrow> dbl \<times> butterworth" where
  "butterworth_filter b u0 =
     (let y0 = butterworth_step b (m_y1 b) (m_y2 b) (m_u1 b) (m_u2 b) u0
      in (y0, b\<lparr>m_y2 := m_y1 b, m_y1 := y0, m_u2 := m_u1 b, m_u1 := u0\<rparr>))"

fun filt_loop :: "butterworth \<Rightarrow> dbl \<Rightarrow> dbl \<Rightarrow> dbl \<Rightarrow> dbl \<Rightarrow> dbl list \<Rightarrow> dbl list" where
  "filt_loop b y1 y2 u1 u2 [] = []"
| "filt_loop b y1 y2 u1 u2 (u0 # us) =
     (let y0 = butterworth_step b y1 y2 u1 u2 u0 in y0 # filt_loop b y0 y1 u0 u1 us)"

text \<open>\<open>filt_vector\<close>; \<open>None\<close> is the exception of \<open>at(0)\<close> on an empty vector.\<close>

definition filt_vector :: "butterworth \<Rightarrow> dbl list \<Rightarrow> dbl list option" where
  "filt_vector b t =
     do { t0 \<leftarrow> at_opt t 0; Some (filt_loop b t0 t0 t0 t0 t) }"

text \<open>
  \<open>filtfilt_vector\<close>. The reversed copy \<open>t_rev\<close> is only the output of the second call of
  \<open>filt_vector\<close>, whose input is again \<open>t\<close>.
\<close>

definition filtfilt_vector :: "butterworth \<Rightarrow> dbl list \<Rightarrow> dbl list option" where
  "filtfilt_vector b t =
     do {
       t_fwd \<leftarrow> filt_vector b t;
       t_rev \<leftarrow> filt_vector b t;
       Some (map2 (\<lambda>f r. (f + r) * Fin (1 / 2)) t_fwd (rev t_rev))
     }"

definition getCoefficients :: "butterworth \<Rightarrow> dbl list" where
  "getCoefficients b = [m_a1 b, m_a2 b, m_b0 b, m_b1 b, m_b2 b]"

section \<open>The moving average\<close>

text \<open>
  \<open>MoveAverageFilter::filt_vector\<close>: the flag and the vector. The window shrinks to the
  distance to the nearer end.
\<close>

definition average_window :: "int \<Rightarrow> int \<Rightarrow> int \<Rightarrow> int" where
  "average_window num n i =
     (if i - num < 0 \<or> i + num > n - 1 then min i (n - i - 1) else num)"

definition window_average :: "dbl list \<Rightarrow> int \<Rightarrow> int \<Rightarrow> dbl" where
  "window_average u num_tmp i =
     (let n = int (length u);
          inside = filter (\<lambda>index. 0 \<le> index \<and> index < n) (map (\<lambda>j. i + j) [- num_tmp..num_tmp]);
          tmp = foldl (\<lambda>tmp index. tmp + u ! nat index) (Fin 0) inside;
          count = foldl (\<lambda>count index. count + Fin 1) (Fin 0) inside
      in tmp div count)"

definition average_filt_vector :: "int \<Rightarrow> dbl list \<Rightarrow> bool \<times> dbl list" where
  "average_filt_vector num u =
     (let n = int (length u)
      in if n < num then (False, u)
         else (True, map (\<lambda>i. window_average u (average_window num n i) i) [0..n - 1]))"

section \<open>The filter of the shipped parameters\<close>

text \<open>
  At a cutoff and a sampling period whose product is an odd multiple of one half, the filter has
  the coefficients of a double zero that cancels a double pole: its output is its input, for a
  history that agrees with the past outputs.
\<close>

definition cancelled :: "butterworth \<Rightarrow> bool" where
  "cancelled b \<longleftrightarrow> m_b0 b = Fin 1 \<and> m_b1 b = Fin 2 \<and> m_b2 b = Fin 1
     \<and> m_a1 b = Fin (- 2) \<and> m_a2 b = Fin (- 1)"

definition passing :: "real \<Rightarrow> butterworth \<Rightarrow> bool" where
  "passing m b \<longleftrightarrow> cancelled b \<and> m_y1 b = m_u1 b \<and> m_y2 b = m_u2 b
     \<and> bounded_by m (m_u1 b) \<and> bounded_by m (m_u2 b)"

end
