(* ===== verification/Vehicle_Model.thy ===== *)
theory Vehicle_Model
  imports Mpc_Path Mpc_Filters
begin

text \<open>
  The vehicle models of the lateral controller (\<open>vehicle_model/\<close>): the discrete matrices of the
  error dynamics and the reference steering angle. Eigen's dense matrices are not part of the
  sources: their type and their operations are a record that the definitions take as an
  argument. A vector is a matrix with one column.
\<close>

record 'm eigen_matrix =
  em_zero :: "nat \<Rightarrow> nat \<Rightarrow> 'm"
  em_identity :: "nat \<Rightarrow> 'm"
  em_fill :: "nat \<Rightarrow> nat \<Rightarrow> dbl list \<Rightarrow> 'm"
  em_coeff :: "'m \<Rightarrow> nat \<Rightarrow> nat \<Rightarrow> dbl"
  em_set :: "'m \<Rightarrow> nat \<Rightarrow> nat \<Rightarrow> dbl \<Rightarrow> 'm"
  em_block :: "'m \<Rightarrow> nat \<Rightarrow> nat \<Rightarrow> nat \<Rightarrow> nat \<Rightarrow> 'm"
  em_set_block :: "'m \<Rightarrow> nat \<Rightarrow> nat \<Rightarrow> 'm \<Rightarrow> 'm"
  em_column :: "'m \<Rightarrow> dbl list"
  em_rows :: "'m \<Rightarrow> nat"
  em_cols :: "'m \<Rightarrow> nat"
  em_add :: "'m \<Rightarrow> 'm \<Rightarrow> 'm"
  em_sub :: "'m \<Rightarrow> 'm \<Rightarrow> 'm"
  em_neg :: "'m \<Rightarrow> 'm"
  em_scale :: "dbl \<Rightarrow> 'm \<Rightarrow> 'm"
  em_mult :: "'m \<Rightarrow> 'm \<Rightarrow> 'm"
  em_transpose :: "'m \<Rightarrow> 'm"
  em_inverse :: "'m \<Rightarrow> 'm"
  em_determinant :: "'m \<Rightarrow> dbl"
  em_llt_solve :: "'m \<Rightarrow> 'm \<Rightarrow> 'm"
  em_set_upper :: "'m \<Rightarrow> 'm \<Rightarrow> 'm"
  em_add_upper :: "'m \<Rightarrow> 'm \<Rightarrow> 'm"
  em_set_lower :: "'m \<Rightarrow> 'm \<Rightarrow> 'm"
  em_any_nan :: "'m \<Rightarrow> bool"
  em_any_inf :: "'m \<Rightarrow> bool"

section \<open>The three models\<close>

datatype vehicle_kind =
    Kinematics dbl dbl
  | KinematicsNoDelay dbl
  | Dynamics dbl dbl dbl dbl dbl dbl

text \<open>
  \<open>Kinematics\<close> has the steering limit and the time constant, \<open>Dynamics\<close> has \<open>m_lf\<close>, \<open>m_lr\<close>,
  \<open>m_mass\<close>, \<open>m_iz\<close>, \<open>m_cf\<close> and \<open>m_cr\<close>. The velocity and the curvature have no initial value in
  the code; every use follows an assignment.
\<close>

record vehicle_model =
  vm_kind :: vehicle_kind
  vm_wheelbase :: dbl
  vm_velocity :: dbl
  vm_curvature :: dbl

definition KinematicsBicycleModel :: "dbl \<Rightarrow> dbl \<Rightarrow> dbl \<Rightarrow> vehicle_model" where
  "KinematicsBicycleModel wheelbase steer_lim steer_tau =
     \<lparr>vm_kind = Kinematics steer_lim steer_tau, vm_wheelbase = wheelbase, vm_velocity = Fin 0,
      vm_curvature = Fin 0\<rparr>"

definition KinematicsBicycleModelNoDelay :: "dbl \<Rightarrow> dbl \<Rightarrow> vehicle_model" where
  "KinematicsBicycleModelNoDelay wheelbase steer_lim =
     \<lparr>vm_kind = KinematicsNoDelay steer_lim, vm_wheelbase = wheelbase, vm_velocity = Fin 0,
      vm_curvature = Fin 0\<rparr>"

definition DynamicsBicycleModel ::
  "dbl \<Rightarrow> dbl \<Rightarrow> dbl \<Rightarrow> dbl \<Rightarrow> dbl \<Rightarrow> dbl \<Rightarrow> dbl \<Rightarrow> vehicle_model" where
  "DynamicsBicycleModel wheelbase mass_fl mass_fr mass_rl mass_rr cf cr =
     (let mass_front = mass_fl + mass_fr;
          mass_rear = mass_rl + mass_rr;
          mass = mass_front + mass_rear;
          lf = wheelbase * (Fin 1 - mass_front div mass);
          lr = wheelbase * (Fin 1 - mass_rear div mass);
          iz = lf * lf * mass_front + lr * lr * mass_rear
      in \<lparr>vm_kind = Dynamics lf lr mass iz cf cr, vm_wheelbase = wheelbase, vm_velocity = Fin 0,
          vm_curvature = Fin 0\<rparr>)"

fun dim_x_of :: "vehicle_kind \<Rightarrow> nat" where
  "dim_x_of (Kinematics sl tau) = 3"
| "dim_x_of (KinematicsNoDelay sl) = 2"
| "dim_x_of (Dynamics lf lr mass iz cf cr) = 4"

definition getDimX :: "vehicle_model \<Rightarrow> nat" where
  "getDimX vm = dim_x_of (vm_kind vm)"

definition getDimU :: "vehicle_model \<Rightarrow> nat" where
  "getDimU vm = 1"

definition getDimY :: "vehicle_model \<Rightarrow> nat" where
  "getDimY vm = 2"

definition setVelocity :: "dbl \<Rightarrow> vehicle_model \<Rightarrow> vehicle_model" where
  "setVelocity v vm = vm\<lparr>vm_velocity := v\<rparr>"

definition setCurvature :: "dbl \<Rightarrow> vehicle_model \<Rightarrow> vehicle_model" where
  "setCurvature k vm = vm\<lparr>vm_curvature := k\<rparr>"

section \<open>The discrete matrices\<close>

record 'm discrete =
  d_a :: 'm
  d_b :: 'm
  d_c :: 'm
  d_w :: 'm

text \<open>The linearisation point: the steering angle of the curvature, within the limit.\<close>

definition fsign :: "dbl \<Rightarrow> dbl" where
  "fsign x = (if Fin 0 < x then Fin 1 else if x < Fin 0 then Fin (- 1) else Fin 0)"

definition reference_delta :: "dbl \<Rightarrow> vehicle_model \<Rightarrow> dbl" where
  "reference_delta steer_lim vm =
     (let delta_r = fatan (vm_wheelbase vm * vm_curvature vm)
      in if \<bar>delta_r\<bar> \<ge> steer_lim then steer_lim * fsign delta_r else delta_r)"

definition kinematic_velocity :: "dbl \<Rightarrow> dbl" where
  "kinematic_velocity v =
     (if \<bar>v\<bar> < Fin (1 / 10 ^ 4) then Fin (1 / 10 ^ 4) * (if Fin 0 \<le> v then Fin 1 else Fin (- 1)) else v)"

text \<open>The bilinear discretisation that both kinematic models end with.\<close>

definition bilinear :: "'m eigen_matrix \<Rightarrow> nat \<Rightarrow> dbl \<Rightarrow> 'm discrete \<Rightarrow> 'm discrete" where
  "bilinear em n dt d =
     (let i = em_identity em n;
          half = em_scale em (dt * Fin (1 / 2)) (d_a d);
          i_dt2a_inv = em_inverse em (em_sub em i half)
      in \<lparr>d_a = em_mult em i_dt2a_inv (em_add em i half),
          d_b = em_scale em dt (em_mult em i_dt2a_inv (d_b d)),
          d_c = d_c d,
          d_w = em_scale em dt (em_mult em i_dt2a_inv (d_w d))\<rparr>)"

definition kinematics_discrete ::
  "'m eigen_matrix \<Rightarrow> dbl \<Rightarrow> dbl \<Rightarrow> vehicle_model \<Rightarrow> dbl \<Rightarrow> 'm discrete" where
  "kinematics_discrete em steer_lim steer_tau vm dt =
     (let delta_r = reference_delta steer_lim vm;
          inv = Fin 1 div (fcos delta_r * fcos delta_r);
          velocity = kinematic_velocity (vm_velocity vm);
          wheelbase = vm_wheelbase vm
      in bilinear em 3 dt
           \<lparr>d_a = em_fill em 3 3 [Fin 0, velocity, Fin 0,
                                  Fin 0, Fin 0, velocity div wheelbase * inv,
                                  Fin 0, Fin 0, Fin (- 1) div steer_tau],
            d_b = em_fill em 3 1 [Fin 0, Fin 0, Fin 1 div steer_tau],
            d_c = em_fill em 2 3 [Fin 1, Fin 0, Fin 0, Fin 0, Fin 1, Fin 0],
            d_w = em_fill em 3 1
              [Fin 0,
               - velocity * vm_curvature vm
                 + velocity div wheelbase * (ftan delta_r - delta_r * inv),
               Fin 0]\<rparr>)"

definition kinematics_no_delay_discrete ::
  "'m eigen_matrix \<Rightarrow> dbl \<Rightarrow> vehicle_model \<Rightarrow> dbl \<Rightarrow> 'm discrete" where
  "kinematics_no_delay_discrete em steer_lim vm dt =
     (let delta_r = reference_delta steer_lim vm;
          inv = Fin 1 div (fcos delta_r * fcos delta_r);
          velocity = vm_velocity vm;
          wheelbase = vm_wheelbase vm
      in bilinear em 2 dt
           \<lparr>d_a = em_fill em 2 2 [Fin 0, velocity, Fin 0, Fin 0],
            d_b = em_fill em 2 1 [Fin 0, velocity div wheelbase * inv],
            d_c = em_fill em 2 2 [Fin 1, Fin 0, Fin 0, Fin 1],
            d_w = em_fill em 2 1 [Fin 0, - velocity div wheelbase * delta_r * inv]\<rparr>)"

definition set_coeffs :: "'m eigen_matrix \<Rightarrow> (nat \<times> nat \<times> dbl) list \<Rightarrow> 'm \<Rightarrow> 'm" where
  "set_coeffs em cs m = fold (\<lambda>(i, j, v) m. em_set em m i j v) cs m"

definition dynamics_discrete ::
  "'m eigen_matrix \<Rightarrow> dbl \<Rightarrow> dbl \<Rightarrow> dbl \<Rightarrow> dbl \<Rightarrow> dbl \<Rightarrow> dbl \<Rightarrow> vehicle_model \<Rightarrow> dbl \<Rightarrow> 'm discrete" where
  "dynamics_discrete em lf lr mass iz cf cr vm dt =
     (let vel = fmax (vm_velocity vm) (Fin (1 / 100));
          a = set_coeffs em
            [(0, 1, Fin 1),
             (1, 1, - (cf + cr) div (mass * vel)),
             (1, 2, (cf + cr) div mass),
             (1, 3, (lr * cr - lf * cf) div (mass * vel)),
             (2, 3, Fin 1),
             (3, 1, (lr * cr - lf * cf) div (iz * vel)),
             (3, 2, (lf * cf - lr * cr) div iz),
             (3, 3, - (lf * lf * cf + lr * lr * cr) div (iz * vel))] (em_zero em 4 4);
          i = em_identity em 4;
          half = em_scale em (dt * Fin (1 / 2)) a;
          inv = em_inverse em (em_sub em i half);
          b = set_coeffs em
            [(0, 0, Fin 0), (1, 0, cf div mass), (2, 0, Fin 0), (3, 0, lf * cf div iz)] (em_zero em 4 1);
          w = set_coeffs em
            [(0, 0, Fin 0),
             (1, 0, (lr * cr - lf * cf) div (mass * vel) - vel),
             (2, 0, Fin 0),
             (3, 0, - (lf * lf * cf + lr * lr * cr) div (iz * vel))] (em_zero em 4 1)
      in \<lparr>d_a = em_mult em inv (em_add em i half),
          d_b = em_mult em (em_scale em dt inv) b,
          d_c = set_coeffs em [(0, 0, Fin 1), (1, 2, Fin 1)] (em_zero em 2 4),
          d_w = em_mult em (em_scale em vel (em_scale em (vm_curvature vm) (em_scale em dt inv))) w\<rparr>)"

definition calculateDiscreteMatrix :: "'m eigen_matrix \<Rightarrow> vehicle_model \<Rightarrow> dbl \<Rightarrow> 'm discrete" where
  "calculateDiscreteMatrix em vm dt =
     (case vm_kind vm of
        Kinematics steer_lim steer_tau \<Rightarrow> kinematics_discrete em steer_lim steer_tau vm dt
      | KinematicsNoDelay steer_lim \<Rightarrow> kinematics_no_delay_discrete em steer_lim vm dt
      | Dynamics lf lr mass iz cf cr \<Rightarrow> dynamics_discrete em lf lr mass iz cf cr vm dt)"

text \<open>The reference input: one coefficient, the others of \<open>u_ref\<close> do not exist.\<close>

definition calculateReferenceInput :: "vehicle_model \<Rightarrow> dbl" where
  "calculateReferenceInput vm =
     (case vm_kind vm of
        Kinematics steer_lim steer_tau \<Rightarrow> fatan (vm_wheelbase vm * vm_curvature vm)
      | KinematicsNoDelay steer_lim \<Rightarrow> fatan (vm_wheelbase vm * vm_curvature vm)
      | Dynamics lf lr mass iz cf cr \<Rightarrow>
          let vel = fmax (vm_velocity vm) (Fin (1 / 100));
              kv = lr * mass div (Fin 2 * cf * vm_wheelbase vm)
                 - lf * mass div (Fin 2 * cr * vm_wheelbase vm)
          in vm_wheelbase vm * vm_curvature vm + kv * vel * vel * vm_curvature vm)"

end
