(* ===== verification/Steering.thy ===== *)
theory Steering
  imports Trajectory_Utils Clock_Time Double_Bounds
begin

text \<open>
  The two steering estimators of the lateral controller: \<open>SteeringPredictor\<close>
  (\<open>steering_predictor.cpp\<close>), the response of a first-order steering to the commands of the
  past, and \<open>SteeringOffsetEstimator\<close> (\<open>steering_offset.cpp\<close>), the mean of the last measured
  differences between the steering report and the yaw rate.
\<close>

section \<open>The exponential\<close>

fun fexp :: "dbl \<Rightarrow> dbl" where
  "fexp (Fin r) = fl (exp r)"
| "fexp PInf = PInf"
| "fexp NInf = Fin 0"
| "fexp NaN = NaN"

section \<open>The predictor\<close>

text \<open>
  Of a stored \<open>LateralMsg\<close> the code sets and reads the stamp and the angle; the other fields are
  not initialised and not read.
\<close>

record stored_cmd =
  cmd_stamp :: time_msg
  cmd_angle :: dbl

record steering_predictor =
  sp_prediction_prev :: dbl
  sp_time_prev :: dbl
  sp_tau :: dbl
  sp_input_delay :: dbl
  sp_cmd_vec :: "stored_cmd list"

text \<open>The constructor; \<open>m_time_prev\<close> is initialised from the clock.\<close>

definition predictor_construct :: "dbl \<Rightarrow> dbl \<Rightarrow> int \<Rightarrow> steering_predictor" where
  "predictor_construct steer_tau steer_delay now_ns =
     \<lparr>sp_prediction_prev = Fin 0, sp_time_prev = Clock_now now_ns, sp_tau = steer_tau,
      sp_input_delay = steer_delay, sp_cmd_vec = []\<rparr>"

text \<open>The first index, from \<open>idx\<close> on, whose stamp is not before \<open>t_start\<close>.\<close>

function first_command :: "stored_cmd list \<Rightarrow> dbl \<Rightarrow> nat \<Rightarrow> nat option" where
  "first_command cmds t_start idx =
     (case at_opt cmds idx of
        None \<Rightarrow> None
      | Some c \<Rightarrow>
          if t_start > toDouble (cmd_stamp c) then
            (if idx + 1 \<ge> length cmds then None else first_command cmds t_start (idx + 1))
          else Some idx)"
  by auto
termination
  by (relation "measure (\<lambda>(cmds, t, idx). length cmds - idx)") (auto simp: at_opt_def split: if_splits)

text \<open>The responses to the commands that end before \<open>t_end\<close>: the sum, the last time, the index.\<close>

function response_loop ::
  "stored_cmd list \<Rightarrow> dbl \<Rightarrow> dbl \<Rightarrow> nat \<Rightarrow> dbl \<Rightarrow> dbl \<Rightarrow> dbl \<times> dbl \<times> nat" where
  "response_loop cmds t_end tau idx t steer_sum =
     (case at_opt cmds idx of
        None \<Rightarrow> (steer_sum, t, idx)
      | Some c \<Rightarrow>
          let stamp = toDouble (cmd_stamp c)
          in if t_end > stamp then
               response_loop cmds t_end tau (idx + 1) stamp
                 (steer_sum + (Fin 1 - fexp (- (stamp - t) div tau)) * cmd_angle (cmds ! (idx - 1)))
             else (steer_sum, t, idx))"
  by pat_completeness auto
termination
  by (relation "measure (\<lambda>(cmds, t_end, tau, idx, t, s). length cmds - idx)")
    (auto simp: at_opt_def split: if_splits)

declare first_command.simps [simp del] response_loop.simps [simp del]

definition getSteerCmdSum :: "stored_cmd list \<Rightarrow> dbl \<Rightarrow> dbl \<Rightarrow> dbl \<Rightarrow> dbl" where
  "getSteerCmdSum cmds t_start t_end time_constant =
     (if length cmds \<le> 2 then Fin 0
      else case first_command cmds t_start 1 of
        None \<Rightarrow> Fin 0
      | Some idx \<Rightarrow>
          let (steer_sum, t, idx) = response_loop cmds t_end time_constant idx t_start (Fin 0);
              duration = t_end - t
          in steer_sum + (Fin 1 - fexp (- duration div time_constant)) * cmd_angle (cmds ! (idx - 1)))"

definition calcSteerPrediction :: "int \<Rightarrow> steering_predictor \<Rightarrow> dbl \<times> steering_predictor" where
  "calcSteerPrediction now_ns p =
     (let t_start = sp_time_prev p;
          t_end = Clock_now now_ns;
          duration = t_end - t_start;
          time_constant = sp_tau p;
          initial_response = fexp (- duration div time_constant) * sp_prediction_prev p;
          predicted = (if length (sp_cmd_vec p) \<le> 2 then initial_response
                       else initial_response + getSteerCmdSum (sp_cmd_vec p) t_start t_end time_constant)
      in (predicted, p\<lparr>sp_time_prev := t_end, sp_prediction_prev := predicted\<rparr>))"

definition storeSteerCmd :: "int \<Rightarrow> dbl \<Rightarrow> steering_predictor \<Rightarrow> steering_predictor" where
  "storeSteerCmd now_ns steer p =
     (let time_delayed = Clock_now now_ns + sp_input_delay p;
          cmds = sp_cmd_vec p @ [\<lparr>cmd_stamp = toRosTime time_delayed, cmd_angle = to_float steer\<rparr>];
          store_time = Fin (3 / 10)
      in p\<lparr>sp_cmd_vec :=
           (if length cmds \<le> 2 then cmds
            else if time_delayed - toDouble (cmd_stamp (cmds ! 1)) > sp_input_delay p + store_time
            then tl cmds else cmds)\<rparr>)"

section \<open>The offset\<close>

record steering_offset =
  so_wheelbase :: dbl
  so_average_num :: nat
  so_update_vel_threshold :: dbl
  so_update_steer_threshold :: dbl
  so_offset_limit :: dbl
  so_storage :: "dbl list"
  so_offset :: dbl

definition offset_construct :: "dbl \<Rightarrow> nat \<Rightarrow> dbl \<Rightarrow> dbl \<Rightarrow> dbl \<Rightarrow> steering_offset" where
  "offset_construct wheelbase average_num vel_thres steer_thres offset_limit =
     \<lparr>so_wheelbase = wheelbase, so_average_num = average_num, so_update_vel_threshold = vel_thres,
      so_update_steer_threshold = steer_thres, so_offset_limit = offset_limit,
      so_storage = replicate average_num (Fin 0), so_offset = Fin 0\<rparr>"

text \<open>\<open>updateOffset\<close>; of the twist it reads the forward speed and the yaw rate.\<close>

definition updateOffset :: "dbl \<Rightarrow> dbl \<Rightarrow> dbl \<Rightarrow> steering_offset \<Rightarrow> steering_offset" where
  "updateOffset linear_x angular_z steering s =
     (if \<not> (\<bar>linear_x\<bar> > so_update_vel_threshold s \<and> \<bar>steering\<bar> < so_update_steer_threshold s) then s
      else
        let steer_angvel = fatan2 (angular_z * so_wheelbase s) linear_x;
            steer_offset = steering - steer_angvel;
            pushed = so_storage s @ [steer_offset];
            storage = (if length pushed > so_average_num s then tl pushed else pushed)
        in s\<lparr>so_storage := storage,
             so_offset := foldl (+) (Fin 0) storage div Fin (of_nat (length storage))\<rparr>)"

definition getOffset :: "steering_offset \<Rightarrow> dbl" where
  "getOffset s = fclamp (so_offset s) (- so_offset_limit s) (so_offset_limit s)"

end
