(* ===== verification/Mpc.thy ===== *)
theory Mpc
  imports Vehicle_Model Steering
begin

text \<open>
  The model predictive controller (\<open>mpc.hpp\<close>, \<open>mpc.cpp\<close>): its state, the reference trajectory,
  and the steps that prepare an optimisation. \<open>None\<close> is a run that ends the process or leaves
  by an exception. The two flags of the debug output, which no running code reads, are left out.
\<close>

section \<open>Parameters and state\<close>

record mpc_weight =
  w_lat_error :: dbl
  w_heading_error :: dbl
  w_heading_error_squared_vel :: dbl
  w_terminal_lat_error :: dbl
  w_terminal_heading_error :: dbl
  w_steering_input :: dbl
  w_steering_input_squared_vel :: dbl
  w_lat_jerk :: dbl
  w_steer_rate :: dbl
  w_steer_acc :: dbl

record mpc_params =
  prediction_horizon :: nat
  prediction_dt :: dbl
  zero_ff_steer_deg :: dbl
  input_delay :: dbl
  acceleration_limit :: dbl
  velocity_time_constant :: dbl
  min_prediction_length :: dbl
  mp_steer_tau :: dbl
  nominal_weight :: mpc_weight
  low_curvature_weight :: mpc_weight
  low_curvature_thresh_curvature :: dbl

record filtering_params =
  traj_resample_dist :: dbl
  extend_trajectory_for_end_yaw_control :: bool
  enable_path_smoothing :: bool
  path_filter_moving_ave_num :: int
  curvature_smoothing_num_traj :: int
  curvature_smoothing_num_ref_steer :: int

record mpc_data =
  md_nearest :: nearest
  md_steer :: dbl
  md_predicted_steer :: dbl
  md_lateral_err :: dbl
  md_yaw_err :: dbl

record result_with_reason =
  rr_result :: bool
  rr_reason :: string

text \<open>
  The only solver of the program, \<open>QPSolverEigenLeastSquareLLT\<close>, has no state: the pointer to
  it is the flag \<open>m_has_qpsolver\<close>.
\<close>

record mpc =
  m_vehicle_model :: "vehicle_model option"
  m_has_qpsolver :: bool
  m_steering_predictor :: steering_predictor
  m_lpf_steering_cmd :: butterworth
  m_lpf_lateral_error :: butterworth
  m_lpf_yaw_error :: butterworth
  m_raw_steer_cmd_pprev :: dbl
  m_lateral_error_prev :: dbl
  m_yaw_error_prev :: dbl
  m_is_forward_shift :: bool
  m_reference_trajectory :: mpc_trajectory
  m_param :: mpc_params
  m_input_buffer :: "dbl list"
  m_raw_steer_cmd_prev :: dbl
  m_admissible_position_error :: dbl
  m_admissible_yaw_error_rad :: dbl
  m_steer_lim :: dbl
  m_ctrl_period :: dbl
  m_steer_rate_lim_map_by_curvature :: "(dbl \<times> dbl) list"
  m_steer_rate_lim_map_by_velocity :: "(dbl \<times> dbl) list"
  m_use_steer_prediction :: bool
  mpc_nearest_dist_threshold :: dbl
  mpc_nearest_yaw_threshold :: dbl

definition initializeSteeringPredictor :: "int \<Rightarrow> mpc \<Rightarrow> mpc" where
  "initializeSteeringPredictor now_ns st =
     st\<lparr>m_steering_predictor :=
          predictor_construct (mp_steer_tau (m_param st)) (input_delay (m_param st)) now_ns\<rparr>"

definition initializeLowPassFilters :: "dbl \<Rightarrow> dbl \<Rightarrow> mpc \<Rightarrow> mpc" where
  "initializeLowPassFilters steering_lpf_cutoff_hz error_deriv_lpf_cutoff_hz st =
     st\<lparr>m_lpf_steering_cmd := butterworth_initialize (m_ctrl_period st) steering_lpf_cutoff_hz,
        m_lpf_lateral_error := butterworth_initialize (m_ctrl_period st) error_deriv_lpf_cutoff_hz,
        m_lpf_yaw_error := butterworth_initialize (m_ctrl_period st) error_deriv_lpf_cutoff_hz\<rparr>"

definition hasVehicleModel :: "mpc \<Rightarrow> bool" where
  "hasVehicleModel st \<longleftrightarrow> m_vehicle_model st \<noteq> None"

definition hasQPSolver :: "mpc \<Rightarrow> bool" where
  "hasQPSolver st \<longleftrightarrow> m_has_qpsolver st"

definition getWeight :: "mpc \<Rightarrow> dbl \<Rightarrow> mpc_weight" where
  "getWeight st curvature =
     (if \<bar>curvature\<bar> < low_curvature_thresh_curvature (m_param st)
      then low_curvature_weight (m_param st) else nominal_weight (m_param st))"

definition sign_vx :: "mpc \<Rightarrow> dbl" where
  "sign_vx st = (if m_is_forward_shift st then Fin 1 else Fin (- 1))"

section \<open>The reference trajectory\<close>

text \<open>
  The path smoothing replaces four vectors; a filter that fails leaves the unsmoothed
  trajectory. In the code the four calls are one short-circuit condition.
\<close>

definition smooth_path :: "filtering_params \<Rightarrow> mpc_trajectory \<Rightarrow> mpc_trajectory" where
  "smooth_path p t =
     (let num = path_filter_moving_ave_num p
      in if enable_path_smoothing p \<and> int (mt_size t) > 2 * num then
           let (ok_x, x) = average_filt_vector num (t_x t);
               (ok_y, y) = average_filt_vector num (t_y t);
               (ok_yaw, yaw) = average_filt_vector num (t_yaw t);
               (ok_v, v) = average_filt_vector num (t_vx t)
           in if \<not> ok_x \<or> \<not> ok_y \<or> \<not> ok_yaw \<or> \<not> ok_v then t
              else t\<lparr>t_x := x, t_y := y, t_yaw := yaw, t_vx := v\<rparr>
         else t)"

text \<open>A point at the end, at rest and 100 s later, that keeps the interpolation in range.\<close>

definition add_terminal_point :: "mpc_trajectory \<Rightarrow> mpc_trajectory option" where
  "add_terminal_point t =
     do {
       p \<leftarrow> mt_back t;
       Some (mt_push_back (p\<lparr>mpt_relative_time := mpt_relative_time p + Fin 100, mpt_vx := Fin 0\<rparr>) t)
     }"

text \<open>What follows the resampling, up to the terminal point.\<close>

definition shape_reference ::
  "eigen_ops \<Rightarrow> filtering_params \<Rightarrow> dbl \<Rightarrow> bool \<Rightarrow> mpc_trajectory \<Rightarrow> mpc_trajectory option" where
  "shape_reference eig p end_yaw forward resampled =
     do {
       let t = smooth_path p resampled;
       t \<leftarrow> (if extend_trajectory_for_end_yaw_control p
             then extendTrajectoryInYawDirection eig end_yaw (traj_resample_dist p) forward t
             else Some t);
       t \<leftarrow> calcTrajectoryYawFromXY t forward;
       let t = t\<lparr>t_yaw := convertEulerAngleToMonotonic (t_yaw t)\<rparr>;
       t \<leftarrow> calcTrajectoryCurvature (curvature_smoothing_num_traj p)
             (curvature_smoothing_num_ref_steer p) t;
       v \<leftarrow> set_at (t_vx t) (size_sub (length (t_vx t)) 1) (Fin 0);
       add_terminal_point (t\<lparr>t_vx := v\<rparr>)
     }"

definition setReferenceTrajectory ::
  "eigen_ops \<Rightarrow> tp list \<Rightarrow> filtering_params \<Rightarrow> odometry \<Rightarrow> mpc \<Rightarrow> mpc option" where
  "setReferenceTrajectory eig pts p odom st =
     do {
       nearest_seg_idx \<leftarrow> findFirstNearestSegmentIndexWithSoftConstraints eig pts (odom_pose odom)
         (mpc_nearest_dist_threshold st) (mpc_nearest_yaw_threshold st);
       ego_offset_to_segment \<leftarrow>
         calcLongitudinalOffsetToSegment eig pts nearest_seg_idx (position (odom_pose odom)) False;
       mpc_traj_raw \<leftarrow> convertToMPCTrajectory pts;
       (success_resample, resampled) \<leftarrow> resampleMPCTrajectoryByDistance mpc_traj_raw
         (traj_resample_dist p) nearest_seg_idx ego_offset_to_segment;
       if \<not> success_resample then Some st
       else do {
         resampled_points \<leftarrow> toTrajectoryPoints resampled;
         let st = (case isDrivingForward resampled_points of
                     None \<Rightarrow> st | Some forward \<Rightarrow> st\<lparr>m_is_forward_shift := forward\<rparr>);
         end_yaw \<leftarrow> back_opt (t_yaw mpc_traj_raw);
         t \<leftarrow> shape_reference eig p end_yaw (m_is_forward_shift st) resampled;
         Some (if mt_size t = 0 then st else st\<lparr>m_reference_trajectory := t\<rparr>)
       }
     }"

text \<open>\<open>resetPrevResult\<close>: the limit is narrowed to \<open>float\<close>, as the report is.\<close>

definition resetPrevResult :: "dbl \<Rightarrow> mpc \<Rightarrow> mpc" where
  "resetPrevResult current_steer st =
     (let steer_lim_f = to_float (m_steer_lim st);
          prev = fclamp current_steer (- steer_lim_f) steer_lim_f
      in st\<lparr>m_raw_steer_cmd_prev := prev, m_raw_steer_cmd_pprev := prev\<rparr>)"

section \<open>The input of an optimisation\<close>

definition applyVelocityDynamicsFilter ::
  "eigen_ops \<Rightarrow> mpc \<Rightarrow> odometry \<Rightarrow> mpc_trajectory option" where
  "applyVelocityDynamicsFilter eig st odom =
     do {
       let input = m_reference_trajectory st;
       pts \<leftarrow> convertToAutowareTrajectory input;
       if pts = [] then Some input
       else do {
         nearest_seg_idx \<leftarrow> findFirstNearestSegmentIndexWithSoftConstraints eig pts (odom_pose odom)
           (mpc_nearest_dist_threshold st) (mpc_nearest_yaw_threshold st);
         output \<leftarrow> dynamicSmoothingVelocity nearest_seg_idx (vx (twist_linear odom))
           (acceleration_limit (m_param st)) (velocity_time_constant (m_param st)) input;
         add_terminal_point output
       }
     }"

definition horizon_steps :: "mpc \<Rightarrow> dbl" where
  "horizon_steps st = Fin (of_int (int (prediction_horizon (m_param st)) - 1))"

definition check_data ::
  "mpc \<Rightarrow> mpc_trajectory \<Rightarrow> pose \<Rightarrow> mpc_data \<Rightarrow> dbl \<Rightarrow> string + mpc_data" where
  "check_data st traj current_pose d end_of_trajectory =
     (let dist_err = calcDistance2d (position current_pose) (position (nearest_pose (md_nearest d)));
          max_prediction_time = min_prediction_length (m_param st) div horizon_steps st;
          end_time = nearest_time (md_nearest d) + input_delay (m_param st) + m_ctrl_period st
            + max_prediction_time
      in if dist_err > m_admissible_position_error st then Inl ''too large position error''
         else if \<bar>md_yaw_err d\<bar> > m_admissible_yaw_error_rad st then Inl ''too large yaw error''
         else if end_time > end_of_trajectory then Inl ''path is too short for prediction.''
         else Inr d)"

text \<open>\<open>getData\<close> with the reading of the clock by the steering predictor.\<close>

definition getData ::
  "eigen_ops \<Rightarrow> int \<Rightarrow> mpc_trajectory \<Rightarrow> dbl \<Rightarrow> odometry \<Rightarrow> mpc \<Rightarrow> ((string + mpc_data) \<times> mpc) option" where
  "getData eig now_ns traj current_steer odom st =
     do {
       let current_pose = odom_pose odom;
       found \<leftarrow> calcNearestPoseInterp eig traj current_pose
         (mpc_nearest_dist_threshold st) (mpc_nearest_yaw_threshold st);
       (case found of
          None \<Rightarrow> Some (Inl ''error in calculating nearest pose'', st)
        | Some near \<Rightarrow> do {
            let (predicted_steer, predictor) = calcSteerPrediction now_ns (m_steering_predictor st);
            end_of_trajectory \<leftarrow> back_opt (t_relative_time traj);
            let d = \<lparr>md_nearest = near, md_steer = current_steer, md_predicted_steer = predicted_steer,
                     md_lateral_err = calcLateralError current_pose (nearest_pose near),
                     md_yaw_err = normalizeRadian (getYaw (orientation current_pose)
                       - getYaw (orientation (nearest_pose near)))\<rparr>;
            Some (check_data st traj current_pose d end_of_trajectory,
                  st\<lparr>m_steering_predictor := predictor\<rparr>)
          })
     }"

fun sampled_times :: "dbl \<Rightarrow> dbl \<Rightarrow> nat \<Rightarrow> dbl list" where
  "sampled_times ts dt n = map (\<lambda>i. ts + Fin (of_nat i) * dt) [0..<n]"

definition resampleMPCTrajectoryByTime ::
  "mpc \<Rightarrow> dbl \<Rightarrow> dbl \<Rightarrow> mpc_trajectory \<Rightarrow> (string + mpc_trajectory) option" where
  "resampleMPCTrajectoryByTime st ts dt input =
     do {
       (ok, output) \<leftarrow> linearInterpMPCTrajectory (t_relative_time input) input
         (sampled_times ts dt (prediction_horizon (m_param st))) no_points;
       Some (if ok then Inr output else Inl ''mpc resample error'')
     }"

text \<open>The time at which \<open>min_prediction_length\<close> is travelled, in the loop from the nearest index on.\<close>

fun target_time_loop ::
  "mpc_trajectory \<Rightarrow> dbl \<Rightarrow> dbl \<Rightarrow> nat list \<Rightarrow> dbl option" where
  "target_time_loop t bound sum_dist [] =
     do { end_time \<leftarrow> back_opt (t_relative_time t); Some (end_time - Fin 100) }"
| "target_time_loop t bound sum_dist (i # is) =
     do {
       segment_dist \<leftarrow> mt_distance2d t i (i - 1);
       let travelled = sum_dist + segment_dist;
       if bound < travelled then do {
         let prev_sum_dist = travelled - segment_dist;
         let ratio = (bound - prev_sum_dist) div segment_dist;
         time \<leftarrow> at_opt (t_relative_time t) i;
         before \<leftarrow> at_opt (t_relative_time t) (i - 1);
         let time = (if i = length (t_relative_time t) - 1 then time - Fin 100 else time);
         Some (before + (time - before) * ratio)
       } else target_time_loop t bound travelled is
     }"

definition getPredictionDeltaTime :: "mpc \<Rightarrow> dbl \<Rightarrow> mpc_trajectory \<Rightarrow> odometry \<Rightarrow> dbl option" where
  "getPredictionDeltaTime st start_time input odom =
     do {
       pts \<leftarrow> convertToAutowareTrajectory input;
       nearest_idx \<leftarrow> findFirstNearestIndexWithSoftConstraints pts (odom_pose odom)
         (mpc_nearest_dist_threshold st) (mpc_nearest_yaw_threshold st);
       target_time \<leftarrow> target_time_loop input (min_prediction_length (m_param st)) (Fin 0)
         [nearest_idx + 1..<length (t_relative_time input)];
       Some (fmax ((target_time - start_time) div horizon_steps st) (prediction_dt (m_param st)))
     }"

section \<open>The steering rate limits\<close>

text \<open>The interpolation of a limit over a table, with the fallback of the code at the end.\<close>

fun rate_limit_search :: "(dbl \<times> dbl) list \<Rightarrow> dbl \<Rightarrow> dbl \<Rightarrow> dbl" where
  "rate_limit_search ((r0, l0) # (r1, l1) # rest) fallback current =
     (if r0 \<le> current \<and> current \<le> r1 then
        let ratio = fclamp ((current - r0) div fmax (r1 - r0) (Fin (1 / 10 ^ 5))) (Fin 0) (Fin 1)
        in l0 + ratio * (l1 - l0)
      else rate_limit_search ((r1, l1) # rest) fallback current)"
| "rate_limit_search limits fallback current = fallback"

text \<open>The front of an empty table is undefined in C++: \<open>None\<close>.\<close>

definition rate_limit :: "(dbl \<times> dbl) list \<Rightarrow> dbl \<Rightarrow> dbl option" where
  "rate_limit limits current =
     (if limits = [] then None
      else Some (if current \<le> fst (hd limits) then snd (hd limits)
                 else if current \<ge> fst (last limits) then snd (last limits)
                 else rate_limit_search limits (fst (last limits)) current))"

definition calcSteerRateLimitOnTrajectory :: "mpc \<Rightarrow> mpc_trajectory \<Rightarrow> dbl \<Rightarrow> dbl list option" where
  "calcSteerRateLimitOnTrajectory st traj current_velocity =
     (let n = prediction_horizon (m_param st)
      in if \<bar>current_velocity\<bar> < Fin (1 / 100) then Some (replicate n (Fin 100))
         else those (map (\<lambda>i. do {
           k \<leftarrow> at_opt (t_k traj) i;
           by_curvature \<leftarrow> rate_limit (m_steer_rate_lim_map_by_curvature st) k;
           v \<leftarrow> at_opt (t_vx traj) i;
           by_velocity \<leftarrow> rate_limit (m_steer_rate_lim_map_by_velocity st) v;
           Some (fmin by_curvature by_velocity)
         }) [0..<n]))"

end
