(* ===== verification/Mpc_Solve.thy ===== *)
theory Mpc_Solve
  imports Mpc
begin

text \<open>
  The optimisation of the model predictive controller (\<open>mpc.cpp\<close>, \<open>qp_solver_unconstraint_fast.cpp\<close>):
  the initial state, the delay compensation, the prediction matrices, the cost and its
  minimum, and \<open>calculateMPC\<close>, which puts the steps together.
\<close>

section \<open>Initial state and delay compensation\<close>

definition error_rates :: "mpc \<Rightarrow> mpc_data \<Rightarrow> dbl \<times> dbl \<times> mpc" where
  "error_rates st d =
     (let dlat = (md_lateral_err d - m_lateral_error_prev st) div m_ctrl_period st;
          dyaw = (md_yaw_err d - m_yaw_error_prev st) div m_ctrl_period st;
          (dlat, lpf_lat) = butterworth_filter (m_lpf_lateral_error st) dlat;
          (dyaw, lpf_yaw) = butterworth_filter (m_lpf_yaw_error st) dyaw
      in (dlat, dyaw, st\<lparr>m_lateral_error_prev := md_lateral_err d, m_yaw_error_prev := md_yaw_err d,
                         m_lpf_lateral_error := lpf_lat, m_lpf_yaw_error := lpf_yaw\<rparr>))"

definition getInitialState :: "'m eigen_matrix \<Rightarrow> vehicle_model \<Rightarrow> mpc_data \<Rightarrow> mpc \<Rightarrow> 'm \<times> mpc" where
  "getInitialState em vm d st =
     (let lat_err = md_lateral_err d;
          yaw_err = md_yaw_err d;
          steer = (if m_use_steer_prediction st then md_predicted_steer d else md_steer d)
      in case vm_kind vm of
           Kinematics steer_lim steer_tau \<Rightarrow> (em_fill em 3 1 [lat_err, yaw_err, steer], st)
         | KinematicsNoDelay steer_lim \<Rightarrow> (em_fill em 2 1 [lat_err, yaw_err], st)
         | Dynamics lf lr mass iz cf cr \<Rightarrow>
             let (dlat, dyaw, st) = error_rates st d
             in (em_fill em 4 1 [lat_err, dlat, yaw_err, dyaw], st))"

definition state_update :: "'m eigen_matrix \<Rightarrow> 'm discrete \<Rightarrow> 'm \<Rightarrow> 'm \<Rightarrow> 'm" where
  "state_update em d x u =
     em_add em (em_add em (em_mult em (d_a d) x) (em_mult em (d_b d) u)) (d_w d)"

text \<open>
  The loop of \<open>updateStateForDelayCompensation\<close> over the buffered inputs. An exception of the
  interpolation is caught and gives up; the inner \<open>None\<close> is the flag \<open>false\<close>.
\<close>

fun delay_loop ::
  "'m eigen_matrix \<Rightarrow> mpc_trajectory \<Rightarrow> dbl \<Rightarrow> dbl \<Rightarrow> dbl \<Rightarrow> 'm \<Rightarrow> dbl list \<Rightarrow> vehicle_model \<Rightarrow>
    ('m option \<times> vehicle_model) option" where
  "delay_loop em traj sgn_vx period curr_time x [] vm = Some (Some x, vm)"
| "delay_loop em traj sgn_vx period curr_time x (u # us) vm =
     do {
       k \<leftarrow> lerp_at (t_relative_time traj) (t_k traj) curr_time;
       (case k of
          None \<Rightarrow> Some (None, vm)
        | Some k \<Rightarrow> do {
            v \<leftarrow> lerp_at (t_relative_time traj) (t_vx traj) curr_time;
            (case v of
               None \<Rightarrow> Some (None, vm)
             | Some v \<Rightarrow> do {
                 let vm = setCurvature (k * sgn_vx) (setVelocity v vm);
                 let d = calculateDiscreteMatrix em vm period;
                 let ud = em_set em (em_zero em (getDimU vm) 1) 0 0 u;
                 delay_loop em traj sgn_vx period (curr_time + period) (state_update em d x ud) us vm
               })
          })
     }"

definition updateStateForDelayCompensation ::
  "'m eigen_matrix \<Rightarrow> mpc \<Rightarrow> mpc_trajectory \<Rightarrow> dbl \<Rightarrow> 'm \<Rightarrow> vehicle_model \<Rightarrow>
    ('m option \<times> vehicle_model) option" where
  "updateStateForDelayCompensation em st traj start_time x0_orig vm =
     delay_loop em traj (sign_vx st) (m_ctrl_period st) start_time x0_orig (m_input_buffer st) vm"

section \<open>The prediction matrices\<close>

record 'm mpc_matrix =
  Aex :: 'm
  Bex :: 'm
  Wex :: 'm
  Cex :: 'm
  Qex :: 'm
  R1ex :: 'm
  R2ex :: 'm
  Uref_ex :: 'm

definition zero_matrix :: "'m eigen_matrix \<Rightarrow> nat \<Rightarrow> nat \<Rightarrow> nat \<Rightarrow> nat \<Rightarrow> 'm mpc_matrix" where
  "zero_matrix em n dim_x dim_u dim_y =
     \<lparr>Aex = em_zero em (dim_x * n) dim_x, Bex = em_zero em (dim_x * n) (dim_u * n),
      Wex = em_zero em (dim_x * n) 1, Cex = em_zero em (dim_y * n) (dim_x * n),
      Qex = em_zero em (dim_y * n) (dim_y * n), R1ex = em_zero em (dim_u * n) (dim_u * n),
      R2ex = em_zero em (dim_u * n) (dim_u * n), Uref_ex = em_zero em (dim_u * n) 1\<rparr>"

text \<open>The weights of step \<open>i\<close>: the adapted \<open>Q\<close> and \<open>R\<close>.\<close>

definition step_weights ::
  "'m eigen_matrix \<Rightarrow> mpc \<Rightarrow> nat \<Rightarrow> nat \<Rightarrow> dbl \<Rightarrow> dbl \<Rightarrow> 'm \<times> 'm" where
  "step_weights em st n i ref_vx ref_k =
     (let w = getWeight st ref_k;
          ref_vx_squared = ref_vx * ref_vx;
          q00 = (if i = n - 1 then w_terminal_lat_error (nominal_weight (m_param st))
                 else w_lat_error w);
          q11 = (if i = n - 1 then w_terminal_heading_error (nominal_weight (m_param st))
                 else w_heading_error w)
      in (set_coeffs em [(0, 0, q00), (1, 1, q11 + ref_vx_squared * w_heading_error_squared_vel w)]
            (em_zero em 2 2),
          set_coeffs em
            [(0, 0, w_steering_input w + ref_vx_squared * w_steering_input_squared_vel w)]
            (em_zero em 1 1)))"

text \<open>One row of blocks of the prediction \<open>Xex = Aex * x0 + Bex * Uex + Wex\<close>.\<close>

definition predict_row ::
  "'m eigen_matrix \<Rightarrow> nat \<Rightarrow> nat \<Rightarrow> nat \<Rightarrow> 'm discrete \<Rightarrow> 'm mpc_matrix \<Rightarrow> 'm mpc_matrix" where
  "predict_row em dim_x dim_u i d m =
     (let row = i * dim_x;
          prev = (i - 1) * dim_x;
          m = (if i = 0 then
                 m\<lparr>Aex := em_set_block em (Aex m) 0 0 (d_a d),
                   Bex := em_set_block em (Bex m) 0 0 (d_b d),
                   Wex := em_set_block em (Wex m) 0 0 (d_w d)\<rparr>
               else
                 m\<lparr>Aex := em_set_block em (Aex m) row 0
                     (em_mult em (d_a d) (em_block em (Aex m) prev 0 dim_x dim_x)),
                   Bex := fold (\<lambda>j b. em_set_block em b row (j * dim_u)
                       (em_mult em (d_a d) (em_block em b prev (j * dim_u) dim_x dim_u))) [0..<i] (Bex m),
                   Wex := em_set_block em (Wex m) row 0
                     (em_add em (em_mult em (d_a d) (em_block em (Wex m) prev 0 dim_x 1)) (d_w d))\<rparr>)
      in m\<lparr>Bex := em_set_block em (Bex m) row (i * dim_u) (d_b d)\<rparr>)"

text \<open>The feed-forward input; a small one is curvature noise.\<close>

definition reference_input :: "mpc \<Rightarrow> vehicle_model \<Rightarrow> dbl" where
  "reference_input st vm =
     (let u = calculateReferenceInput vm
      in if \<bar>u\<bar> < zero_ff_steer_deg (m_param st) * Fin pi div Fin 180 then Fin 0 else u)"

fun matrix_loop ::
  "'m eigen_matrix \<Rightarrow> mpc \<Rightarrow> mpc_trajectory \<Rightarrow> dbl \<Rightarrow> nat \<Rightarrow> nat list \<Rightarrow> vehicle_model \<Rightarrow> 'm mpc_matrix \<Rightarrow>
    ('m mpc_matrix \<times> vehicle_model) option" where
  "matrix_loop em st ref dt n [] vm m = Some (m, vm)"
| "matrix_loop em st ref dt n (i # is) vm m =
     do {
       ref_vx \<leftarrow> at_opt (t_vx ref) i;
       k \<leftarrow> at_opt (t_k ref) i;
       smooth_k \<leftarrow> at_opt (t_smooth_k ref) i;
       let ref_k = k * sign_vx st;
       let vm = setCurvature ref_k (setVelocity ref_vx vm);
       let d = calculateDiscreteMatrix em vm dt;
       let (q, r) = step_weights em st n i ref_vx ref_k;
       let m = predict_row em (getDimX vm) (getDimU vm) i d m;
       let vm = setCurvature (smooth_k * sign_vx st) vm;
       let uref = em_fill em (getDimU vm) 1 [reference_input st vm];
       matrix_loop em st ref dt n is vm
         (m\<lparr>Cex := em_set_block em (Cex m) (i * getDimY vm) (i * getDimX vm) (d_c d),
            Qex := em_set_block em (Qex m) (i * getDimY vm) (i * getDimY vm) q,
            R1ex := em_set_block em (R1ex m) (i * getDimU vm) (i * getDimU vm) r,
            Uref_ex := em_set_block em (Uref_ex m) (i * getDimU vm) 0 uref\<rparr>)
     }"

definition add_block :: "'m eigen_matrix \<Rightarrow> nat \<Rightarrow> nat \<Rightarrow> 'm \<Rightarrow> 'm \<Rightarrow> 'm" where
  "add_block em i n b m = em_set_block em m i i (em_add em (em_block em m i i n n) b)"

text \<open>The weight of the lateral jerk, over neighbouring inputs.\<close>

fun jerk_loop ::
  "'m eigen_matrix \<Rightarrow> mpc \<Rightarrow> mpc_trajectory \<Rightarrow> dbl \<Rightarrow> nat list \<Rightarrow> 'm \<Rightarrow> 'm option" where
  "jerk_loop em st ref dt [] r2 = Some r2"
| "jerk_loop em st ref dt (i # is) r2 =
     do {
       ref_vx \<leftarrow> at_opt (t_vx ref) i;
       k \<leftarrow> at_opt (t_k ref) i;
       let j = ref_vx * ref_vx * w_lat_jerk (getWeight st (k * sign_vx st)) div (dt * dt);
       jerk_loop em st ref dt is (add_block em i 2 (em_fill em 2 2 [j, - j, - j, j]) r2)
     }"

fun fpow :: "dbl \<Rightarrow> nat \<Rightarrow> dbl" where
  "fpow (Fin r) n = fl (r ^ n)"
| "fpow PInf n = (if n = 0 then Fin 1 else PInf)"
| "fpow NInf n = (if n = 0 then Fin 1 else if even n then PInf else NInf)"
| "fpow NaN n = (if n = 0 then Fin 1 else NaN)"

definition add_coeff :: "'m eigen_matrix \<Rightarrow> nat \<Rightarrow> nat \<Rightarrow> dbl \<Rightarrow> 'm \<Rightarrow> 'm" where
  "add_coeff em i j v m = em_set em m i j (em_coeff em m i j + v)"

definition addSteerWeightR :: "'m eigen_matrix \<Rightarrow> mpc \<Rightarrow> dbl \<Rightarrow> 'm \<Rightarrow> 'm" where
  "addSteerWeightR em st dt r =
     (let n = prediction_horizon (m_param st);
          cp = m_ctrl_period st;
          rate = w_steer_rate (nominal_weight (m_param st));
          d = em_scale em (rate div (dt * dt)) (em_fill em 2 2 [Fin 1, Fin (- 1), Fin (- 1), Fin 1]);
          r = fold (\<lambda>i. add_block em i 2 d) [0..<n - 1] r;
          r = (if n > 1 then add_coeff em 0 0 (rate div (cp * cp)) r else r);
          w = w_steer_acc (nominal_weight (m_param st));
          acc = w div fpow dt 4;
          acc_cp1 = w div (fpow dt 3 * cp);
          acc_cp2 = w div (fpow dt 2 * fpow cp 2);
          acc_cp4 = w div fpow cp 4;
          d = em_scale em acc (em_fill em 3 3
                (map (\<lambda>c. Fin c) [1, - 2, 1, - 2, 4, - 2, 1, - 2, 1]));
          r = fold (\<lambda>i. add_block em (i - 1) 3 d) [1..<n - 1] r
      in if n > 1 then
           (add_coeff em 0 0 (acc_cp4 * Fin 1)
             \<circ> add_coeff em 1 1 (acc * Fin 1)
             \<circ> add_coeff em 0 1 (acc * Fin (- 1) + acc_cp1 * Fin (- 1))
             \<circ> add_coeff em 1 0 (acc * Fin (- 1) + acc_cp1 * Fin (- 1))
             \<circ> add_coeff em 0 0 (acc * Fin 1 + acc_cp2 * Fin 1 + acc_cp1 * Fin 2)) r
         else r)"

definition generateMPCMatrix ::
  "'m eigen_matrix \<Rightarrow> mpc \<Rightarrow> mpc_trajectory \<Rightarrow> dbl \<Rightarrow> vehicle_model \<Rightarrow>
    ('m mpc_matrix \<times> vehicle_model) option" where
  "generateMPCMatrix em st ref dt vm =
     do {
       let n = prediction_horizon (m_param st);
       (m, vm) \<leftarrow> matrix_loop em st ref dt n [0..<n] vm
         (zero_matrix em n (getDimX vm) (getDimU vm) (getDimY vm));
       r2 \<leftarrow> jerk_loop em st ref dt [0..<n - 1] (R2ex m);
       Some (m\<lparr>R2ex := r2, R1ex := addSteerWeightR em st dt (R1ex m)\<rparr>, vm)
     }"

section \<open>The optimisation\<close>

text \<open>The weights of the previous inputs; a matrix with one row is left as it is.\<close>

definition addSteerWeightF :: "'m eigen_matrix \<Rightarrow> mpc \<Rightarrow> dbl \<Rightarrow> 'm \<Rightarrow> 'm" where
  "addSteerWeightF em st dt f =
     (if em_rows em f < 2 then f
      else
        let w = w_steer_acc (nominal_weight (m_param st));
            cp = m_ctrl_period st;
            prev = m_raw_steer_cmd_prev st;
            acc_cp1 = w div (fpow dt 3 * cp);
            acc_cp2 = w div (fpow dt 2 * fpow cp 2);
            acc_cp4 = w div fpow cp 4
        in (add_coeff em 0 1 (Fin 2 * prev * acc_cp1 * Fin (1 / 2))
             \<circ> add_coeff em 0 0 (Fin (- 2) * prev * (acc_cp1 + acc_cp2) * Fin (1 / 2))
             \<circ> add_coeff em 0 0 ((Fin (- 2) * prev + m_raw_steer_cmd_pprev st) * acc_cp4 * Fin (1 / 2))
             \<circ> add_coeff em 0 0 (Fin (- 2) * w_steer_rate (nominal_weight (m_param st)) div fpow dt 2
                                  * Fin (1 / 2))) f)"

text \<open>\<open>QPSolverEigenLeastSquareLLT::solve\<close>; it does not use the constraints it is given.\<close>

definition qp_solve ::
  "'m eigen_matrix \<Rightarrow> 'm \<Rightarrow> 'm \<Rightarrow> 'm \<Rightarrow> dbl list \<Rightarrow> dbl list \<Rightarrow> dbl list \<Rightarrow> dbl list \<Rightarrow> 'm option" where
  "qp_solve em h f a lb ub lb_a ub_a =
     (if \<bar>em_determinant em h\<bar> < Fin (1 / 10 ^ 9) then None
      else Some (em_neg em (em_llt_solve em h f)))"

definition mpc_isValid :: "'m eigen_matrix \<Rightarrow> 'm mpc_matrix \<Rightarrow> bool" where
  "mpc_isValid em m =
     (let ms = [Aex m, Bex m, Cex m, Wex m, Qex m, R1ex m, R2ex m, Uref_ex m]
      in \<not> list_ex (em_any_nan em) ms \<and> \<not> list_ex (em_any_inf em) ms)"

definition cost_hessian :: "'m eigen_matrix \<Rightarrow> nat \<Rightarrow> 'm mpc_matrix \<Rightarrow> 'm" where
  "cost_hessian em n m =
     (let cb = em_mult em (Cex m) (Bex m);
          qcb = em_mult em (Qex m) cb;
          h = em_set_upper em (em_zero em n n) (em_mult em (em_transpose em cb) qcb);
          h = em_add_upper em h (em_add em (R1ex m) (R2ex m))
      in em_set_lower em h (em_transpose em h))"

definition cost_gradient :: "'m eigen_matrix \<Rightarrow> 'm mpc_matrix \<Rightarrow> 'm \<Rightarrow> 'm" where
  "cost_gradient em m x0 =
     (let cb = em_mult em (Cex m) (Bex m);
          qcb = em_mult em (Qex m) cb
      in em_sub em
           (em_mult em (em_transpose em
              (em_mult em (Cex m) (em_add em (em_mult em (Aex m) x0) (Wex m)))) qcb)
           (em_mult em (em_transpose em (Uref_ex m)) (R1ex m)))"

text \<open>The matrix of the rate constraint: each input less its predecessor.\<close>

definition rate_constraint :: "'m eigen_matrix \<Rightarrow> nat \<Rightarrow> 'm" where
  "rate_constraint em n = fold (\<lambda>i a. em_set em a i (i - 1) (Fin (- 1))) [1..<n] (em_identity em n)"

text \<open>
  \<open>executeOptimization\<close>. The first rate bound is around the previous raw command; an empty
  horizon, whose first bound is undefined in C++, does not come back.
\<close>

definition executeOptimization ::
  "'m eigen_matrix \<Rightarrow> mpc \<Rightarrow> nat \<Rightarrow> 'm mpc_matrix \<Rightarrow> 'm \<Rightarrow> dbl \<Rightarrow> mpc_trajectory \<Rightarrow> dbl \<Rightarrow>
    (string + 'm) option" where
  "executeOptimization em st dim_u m x0 dt traj current_velocity =
     (if \<not> mpc_isValid em m then Some (Inl ''invalid model matrix'')
      else do {
        let n = prediction_horizon (m_param st) * dim_u;
        let h = cost_hessian em n m;
        let f = addSteerWeightF em st dt (cost_gradient em m x0);
        let lb = replicate n (- m_steer_lim st);
        let ub = replicate n (m_steer_lim st);
        limits \<leftarrow> calcSteerRateLimitOnTrajectory st traj current_velocity;
        first \<leftarrow> at_opt limits 0;
        let ubA = (map (\<lambda>l. l * dt) limits)[0 := m_raw_steer_cmd_prev st + first * m_ctrl_period st];
        let lbA = (map (\<lambda>l. - l * dt) limits)[0 := m_raw_steer_cmd_prev st - first * m_ctrl_period st];
        (case qp_solve em h (em_transpose em f) (rate_constraint em n) lb ub lbA ubA of
           None \<Rightarrow> Some (Inl ''qp solver error'')
         | Some u \<Rightarrow>
             if em_any_nan em u then Some (Inl ''model Uex including NaN'') else Some (Inr u))
      })"

definition calcDesiredSteeringRate ::
  "'m eigen_matrix \<Rightarrow> vehicle_kind \<Rightarrow> 'm mpc_matrix \<Rightarrow> 'm \<Rightarrow> 'm \<Rightarrow> dbl \<Rightarrow> dbl \<Rightarrow> dbl \<Rightarrow> dbl" where
  "calcDesiredSteeringRate em kind m x0 u u_filtered current_steer predict_dt =
     (case kind of
        Kinematics steer_lim steer_tau \<Rightarrow>
          let x = em_add em (em_add em (em_mult em (Aex m) x0) (em_mult em (Bex m) u)) (Wex m)
          in (em_coeff em x 2 0 - em_coeff em x0 2 0) div predict_dt
      | KinematicsNoDelay steer_lim \<Rightarrow> (u_filtered - current_steer) div predict_dt
      | Dynamics lf lr mass iz cf cr \<Rightarrow> (u_filtered - current_steer) div predict_dt)"

end
