(* ===== verification/Mpc_Calculate.thy ===== *)
theory Mpc_Calculate
  imports Mpc_Solve
begin

text \<open>
  \<open>MPC::calculateMPC\<close> (\<open>mpc.cpp\<close>): the steps of one control cycle with their early returns. A
  failed cycle returns the state it has reached, the command and the horizon as they were.
\<close>

record horizon =
  h_time_step_ms :: dbl
  h_controls :: "lateral_msg list"

definition empty_horizon :: horizon where
  "empty_horizon = \<lparr>h_time_step_ms = Fin 0, h_controls = []\<rparr>"

definition clamped_steer :: "mpc \<Rightarrow> dbl \<Rightarrow> dbl" where
  "clamped_steer st u = fclamp u (- m_steer_lim st) (m_steer_lim st)"

text \<open>The difference of two \<open>float\<close> angles is a \<open>float\<close>; its quotient is narrowed again.\<close>

fun horizon_loop :: "mpc \<Rightarrow> lateral_msg \<Rightarrow> dbl list \<Rightarrow> lateral_msg list" where
  "horizon_loop st prev [] = []"
| "horizon_loop st prev (u # us) =
     (let angle = to_float (clamped_steer st u);
          rate = to_float (to_float (angle - steering_tire_angle prev) div m_ctrl_period st);
          cmd = zero_lateral\<lparr>steering_tire_angle := angle, steering_tire_rotation_rate := rate,
                             is_defined_steering_tire_rotation_rate := True\<rparr>
      in cmd # horizon_loop st cmd us)"

definition push_input :: "dbl \<Rightarrow> dbl list \<Rightarrow> dbl list" where
  "push_input u buffer = tl (buffer @ [u])"

text \<open>The command, the horizon and the state after a solved optimisation.\<close>

definition solved_output ::
  "'m eigen_matrix \<Rightarrow> int \<Rightarrow> vehicle_kind \<Rightarrow> 'm mpc_matrix \<Rightarrow> 'm \<Rightarrow> 'm \<Rightarrow> dbl \<Rightarrow> dbl \<Rightarrow> lateral_msg \<Rightarrow> mpc \<Rightarrow>
    lateral_msg \<times> horizon \<times> mpc" where
  "solved_output em now_ns kind m x0 u current_steer dt ctrl_cmd st =
     (let u0 = em_coeff em u 0 0;
          u_saturated = clamped_steer st u0;
          (u_filtered, lpf) = butterworth_filter (m_lpf_steering_cmd st) u_saturated;
          rate = calcDesiredSteeringRate em kind m x0 u u_filtered current_steer dt;
          cmd = ctrl_cmd\<lparr>steering_tire_angle := to_float u_filtered,
                         steering_tire_rotation_rate := to_float rate,
                         is_defined_steering_tire_rotation_rate := True\<rparr>;
          st = st\<lparr>m_lpf_steering_cmd := lpf,
                  m_steering_predictor := storeSteerCmd now_ns u_filtered (m_steering_predictor st),
                  m_input_buffer := push_input (steering_tire_angle cmd) (m_input_buffer st),
                  m_raw_steer_cmd_pprev := m_raw_steer_cmd_prev st,
                  m_raw_steer_cmd_prev := u0\<rparr>
      in (cmd,
          \<lparr>h_time_step_ms = dt * Fin 1000, h_controls = cmd # horizon_loop st cmd (tl (em_column em u))\<rparr>,
          st))"

type_synonym mpc_output = "result_with_reason \<times> lateral_msg \<times> horizon \<times> mpc"

definition failed :: "string \<Rightarrow> lateral_msg \<Rightarrow> horizon \<Rightarrow> mpc \<Rightarrow> mpc_output option" where
  "failed reason ctrl_cmd hor st =
     Some (\<lparr>rr_result = False, rr_reason = reason\<rparr>, ctrl_cmd, hor, st)"

text \<open>From the resampled reference on: the matrices, the optimisation and the output.\<close>

definition optimise ::
  "'m eigen_matrix \<Rightarrow> int \<Rightarrow> mpc_trajectory \<Rightarrow> dbl \<Rightarrow> 'm \<Rightarrow> vehicle_model \<Rightarrow> dbl \<Rightarrow> dbl \<Rightarrow>
    lateral_msg \<Rightarrow> horizon \<Rightarrow> mpc \<Rightarrow> mpc_output option" where
  "optimise em now_ns ref dt x0 vm current_steer current_velocity ctrl_cmd hor st =
     do {
       (m, vm) \<leftarrow> generateMPCMatrix em st ref dt vm;
       let st = st\<lparr>m_vehicle_model := Some vm\<rparr>;
       opt \<leftarrow> executeOptimization em st (getDimU vm) m x0 dt ref current_velocity;
       (case opt of
          Inl reason \<Rightarrow> failed (''optimization failure ('' @ reason @ '').'') ctrl_cmd hor st
        | Inr u \<Rightarrow>
            Some (\<lparr>rr_result = True, rr_reason = ''''\<rparr>,
                  solved_output em now_ns (vm_kind vm) m x0 u current_steer dt ctrl_cmd st))
     }"

text \<open>The delay compensation, the sampling time and the resampling.\<close>

definition prepare ::
  "'m eigen_matrix \<Rightarrow> mpc \<Rightarrow> mpc_trajectory \<Rightarrow> mpc_data \<Rightarrow> odometry \<Rightarrow> 'm \<Rightarrow> vehicle_model \<Rightarrow>
    ((string + dbl \<times> mpc_trajectory \<times> 'm) \<times> vehicle_model) option" where
  "prepare em st ref d odom x0 vm =
     do {
       (x0_delayed, vm) \<leftarrow>
         updateStateForDelayCompensation em st ref (nearest_time (md_nearest d)) x0 vm;
       (case x0_delayed of
          None \<Rightarrow> Some (Inl ''delay compensation.'', vm)
        | Some x0_delayed \<Rightarrow> do {
            let mpc_start_time = nearest_time (md_nearest d) + input_delay (m_param st);
            dt \<leftarrow> getPredictionDeltaTime st mpc_start_time ref odom;
            resampled \<leftarrow> resampleMPCTrajectoryByTime st mpc_start_time dt ref;
            Some (case resampled of
                    Inl reason \<Rightarrow> Inl (''trajectory resampling ('' @ reason @ '').'')
                  | Inr t \<Rightarrow> Inr (dt, t, x0_delayed), vm)
          })
     }"

text \<open>
  \<open>calculateMPC\<close> with its two readings of the clock. Without a vehicle model the code
  dereferences a null pointer; \<open>isReady\<close> excludes it.
\<close>

definition calculateMPC ::
  "eigen_ops \<Rightarrow> 'm eigen_matrix \<Rightarrow> int \<Rightarrow> int \<Rightarrow> dbl \<Rightarrow> odometry \<Rightarrow> lateral_msg \<Rightarrow> horizon \<Rightarrow> mpc \<Rightarrow>
    mpc_output option" where
  "calculateMPC eig em now1 now2 current_steer odom ctrl_cmd hor st =
     do {
       ref \<leftarrow> applyVelocityDynamicsFilter eig st odom;
       (data, st) \<leftarrow> getData eig now1 ref current_steer odom st;
       (case data of
          Inl reason \<Rightarrow> failed (''getting MPC Data ('' @ reason @ '').'') ctrl_cmd hor st
        | Inr d \<Rightarrow> do {
            vm \<leftarrow> m_vehicle_model st;
            let (x0, st) = getInitialState em vm d st;
            (prepared, vm) \<leftarrow> prepare em st ref d odom x0 vm;
            let st = st\<lparr>m_vehicle_model := Some vm\<rparr>;
            (case prepared of
               Inl reason \<Rightarrow> failed reason ctrl_cmd hor st
             | Inr (dt, resampled, x0_delayed) \<Rightarrow>
                 optimise em now2 resampled dt x0_delayed vm current_steer (vx (twist_linear odom))
                   ctrl_cmd hor st)
          })
     }"

end
