(* ===== verification/Lateral_Controller.thy ===== *)
theory Lateral_Controller
  imports Mpc_Calculate Follower_Base
begin

text \<open>
  The lateral controller (\<open>mpc_lateral_controller.cpp\<close>): the constructor's parameters, the
  trajectory buffer (\<open>trajectory_buffer_policy.hpp\<close>), the steering history, the stop state and
  \<open>run\<close>. The publishers of debug data, which nothing calls, are left out.
\<close>

section \<open>The trajectory buffer\<close>

definition isDuplicateStamp :: "i32 \<Rightarrow> u32 \<Rightarrow> i32 \<Rightarrow> u32 \<Rightarrow> bool" where
  "isDuplicateStamp back_sec back_nanosec sample_sec sample_nanosec \<longleftrightarrow>
     back_sec = sample_sec \<and> back_nanosec = sample_nanosec"

definition shouldPopFront :: "dbl \<Rightarrow> dbl \<Rightarrow> bool" where
  "shouldPopFront back_minus_front_sec duration_sec =
     (if back_minus_front_sec < 0 then True else duration_sec \<le> back_minus_front_sec)"

section \<open>State\<close>

record lateral_config =
  lc_filtering :: filtering_params
  lc_stop_state_entry_ego_speed :: dbl
  lc_stop_state_entry_target_speed :: dbl
  lc_converged_steer_rad :: dbl
  lc_mpc_converged_threshold_rps :: dbl
  lc_new_traj_duration_time :: dbl
  lc_new_traj_end_dist :: dbl
  lc_keep_steer_control_until_converged :: bool
  lc_nearest_dist_threshold :: dbl
  lc_nearest_yaw_threshold :: dbl
  lc_auto_steering_offset_removal :: bool

record lateral_state =
  ls_config :: lateral_config
  ls_mpc :: mpc
  ls_solved_status :: result_with_reason
  ls_trajectory_buffer :: "trajectory list"
  ls_is_mpc_history_filled :: bool
  ls_steering_history :: "(lateral_msg \<times> dbl) list"
  ls_kinematic_state :: odometry
  ls_steering :: steering_report
  ls_trajectory :: trajectory
  ls_steer_cmd_prev :: dbl
  ls_is_ctrl_cmd_prev_initialized :: bool
  ls_ctrl_cmd_prev :: lateral_msg
  ls_has_received_first_trajectory :: bool
  ls_steering_offset :: steering_offset

section \<open>Trajectories\<close>

definition lat_isValidTrajectory :: "tp list \<Rightarrow> bool" where
  "lat_isValidTrajectory pts \<longleftrightarrow>
     (\<forall>p \<in> set pts.
        isfinite (vx (tp_position p)) \<and> isfinite (vy (tp_position p))
        \<and> isfinite (qw (orientation (tp_pose p))) \<and> isfinite (qx (orientation (tp_pose p)))
        \<and> isfinite (qy (orientation (tp_pose p))) \<and> isfinite (qz (orientation (tp_pose p)))
        \<and> isfinite (longitudinal_velocity_mps p) \<and> isfinite (lateral_velocity_mps p)
        \<and> isfinite (heading_rate_rps p) \<and> isfinite (front_wheel_angle_rad p)
        \<and> isfinite (rear_wheel_angle_rad p))"

definition stamp_seconds :: "trajectory \<Rightarrow> dbl" where
  "stamp_seconds t = toDouble (traj_stamp t)"

text \<open>
  The trim loop: the newest stamp less the oldest decides, and the buffer that it accepts marks
  the first trajectory as received. The empty buffer, whose ends are undefined in C++, is never
  reached: a difference of a stamp with itself is accepted.
\<close>

fun trim_buffer :: "dbl \<Rightarrow> bool \<Rightarrow> trajectory list \<Rightarrow> (trajectory list \<times> bool) option" where
  "trim_buffer new_traj_duration received [] = None"
| "trim_buffer new_traj_duration received (t # ts) =
     (let time_diff = stamp_seconds (last (t # ts)) - stamp_seconds t;
          duration_time = (if received then new_traj_duration else Fin 5)
      in if \<not> shouldPopFront time_diff duration_time then Some (t # ts, True)
         else trim_buffer new_traj_duration received ts)"

definition already_buffered :: "trajectory list \<Rightarrow> trajectory \<Rightarrow> bool" where
  "already_buffered buffer t \<longleftrightarrow>
     buffer \<noteq> [] \<and>
     isDuplicateStamp (sec (traj_stamp (last buffer))) (nanosec (traj_stamp (last buffer)))
       (sec (traj_stamp t)) (nanosec (traj_stamp t))"

definition buffer_trajectory :: "trajectory \<Rightarrow> lateral_state \<Rightarrow> lateral_state option" where
  "buffer_trajectory t st =
     (if already_buffered (ls_trajectory_buffer st) t then Some st
      else do {
        (buffer, received) \<leftarrow> trim_buffer (lc_new_traj_duration_time (ls_config st))
          (ls_has_received_first_trajectory st) (ls_trajectory_buffer st @ [t]);
        Some (st\<lparr>ls_trajectory_buffer := buffer, ls_has_received_first_trajectory := received\<rparr>)
      })"

definition lat_setTrajectory ::
  "eigen_ops \<Rightarrow> trajectory \<Rightarrow> odometry \<Rightarrow> lateral_state \<Rightarrow> lateral_state option" where
  "lat_setTrajectory eig msg odom st =
     do {
       let st = st\<lparr>ls_trajectory := msg\<rparr>;
       if length (points msg) < 3 then Some st
       else if \<not> lat_isValidTrajectory (points msg) then Some st
       else do {
         m \<leftarrow> setReferenceTrajectory eig (points msg) (lc_filtering (ls_config st)) odom (ls_mpc st);
         buffer_trajectory msg (st\<lparr>ls_mpc := m\<rparr>)
       }
     }"

definition lateral_isReady :: "input_data \<Rightarrow> lateral_state \<Rightarrow> bool" where
  "lateral_isReady input st \<longleftrightarrow>
     hasVehicleModel (ls_mpc st) \<and> hasQPSolver (ls_mpc st)
     \<and> \<not> length (points (in_trajectory input)) < 3
     \<and> lat_isValidTrajectory (points (in_trajectory input))"

text \<open>The goal of a buffered trajectory; \<open>back\<close> of an empty one is undefined in C++: \<open>None\<close>.\<close>

fun goal_moved :: "dbl \<Rightarrow> vector3 option \<Rightarrow> trajectory list \<Rightarrow> bool option" where
  "goal_moved threshold goal [] = Some False"
| "goal_moved threshold goal (t # ts) =
     do {
       p \<leftarrow> back_opt (points t);
       g \<leftarrow> goal;
       if calcDistance2d (tp_position p) g > threshold then Some True
       else goal_moved threshold goal ts
     }"

definition isTrajectoryShapeChanged :: "lateral_state \<Rightarrow> bool option" where
  "isTrajectoryShapeChanged st =
     goal_moved (lc_new_traj_end_dist (ls_config st))
       (map_option tp_position (back_opt (points (ls_trajectory st)))) (ls_trajectory_buffer st)"

section \<open>Convergence and the stop state\<close>

text \<open>The difference of the two \<open>float\<close> angles is a \<open>float\<close>.\<close>

definition isSteerConverged :: "lateral_msg \<Rightarrow> lateral_state \<Rightarrow> bool option" where
  "isSteerConverged cmd st =
     (if \<not> ls_has_received_first_trajectory st then Some False
      else do {
        changed \<leftarrow> isTrajectoryShapeChanged st;
        Some (\<not> changed \<and>
          \<bar>to_float (steering_tire_angle cmd - report_steering_tire_angle (ls_steering st))\<bar>
            < to_float (lc_converged_steer_rad (ls_config st)))
      })"

text \<open>
  The trimming of the history. The code erases the first element inside a loop over iterators:
  after the erasure the iterator, which C++ declares invalid, addresses in a vector the element
  after the next one. The model follows the index of the iterator.
\<close>

function erase_loop :: "dbl \<Rightarrow> nat \<Rightarrow> (lateral_msg \<times> dbl) list \<Rightarrow> (lateral_msg \<times> dbl) list" where
  "erase_loop time i history =
     (if i < length history \<and> Fin 1 \<le> time - snd (history ! i)
      then erase_loop time (i + 1) (tl history) else history)"
  by auto
termination
  by (relation "measure (\<lambda>(time, i, history). length history)") auto

declare erase_loop.simps [simp del]

definition setSteeringToHistory :: "int \<Rightarrow> lateral_msg \<Rightarrow> lateral_state \<Rightarrow> lateral_state" where
  "setSteeringToHistory now_ns steering st =
     (let time = Clock_now now_ns;
          history = ls_steering_history st @ [(steering, time)]
      in if ls_steering_history st = [] then
           st\<lparr>ls_steering_history := history, ls_is_mpc_history_filled := False\<rparr>
         else if Fin 1 \<le> time - snd (hd history) then
           st\<lparr>ls_steering_history := erase_loop time 0 history, ls_is_mpc_history_filled := True\<rparr>
         else st\<lparr>ls_steering_history := history, ls_is_mpc_history_filled := False\<rparr>)"

definition isMpcConverged :: "lateral_state \<Rightarrow> bool" where
  "isMpcConverged st =
     (if length (ls_steering_history st) < 2 then False
      else if \<not> ls_is_mpc_history_filled st then False
      else
        let angles = map (\<lambda>h. steering_tire_angle (fst h)) (ls_steering_history st);
            min_value = foldl (\<lambda>m a. if a < m then a else m) (hd angles) (tl angles);
            max_value = foldl (\<lambda>m a. if a > m then a else m) (hd angles) (tl angles)
        in max_value - min_value < lc_mpc_converged_threshold_rps (ls_config st))"

definition getStopControlCommand :: "lateral_state \<Rightarrow> lateral_msg" where
  "getStopControlCommand st =
     zero_lateral\<lparr>steering_tire_angle := to_float (ls_steer_cmd_prev st)\<rparr>"

definition getInitialControlCommand :: "lateral_state \<Rightarrow> lateral_msg" where
  "getInitialControlCommand st =
     zero_lateral\<lparr>steering_tire_angle := report_steering_tire_angle (ls_steering st)\<rparr>"

definition isStoppedState :: "lateral_state \<Rightarrow> bool option" where
  "isStoppedState st =
     (if points (ls_trajectory st) = [] then Some False
      else do {
        nearest \<leftarrow> findFirstNearestIndexWithSoftConstraints (points (ls_trajectory st))
          (odom_pose (ls_kinematic_state st)) (lc_nearest_dist_threshold (ls_config st))
          (lc_nearest_yaw_threshold (ls_config st));
        let current_vel = vx (twist_linear (ls_kinematic_state st));
        p \<leftarrow> at_opt (points (ls_trajectory st)) nearest;
        let target_vel = longitudinal_velocity_mps p;
        converged \<leftarrow> (if lc_keep_steer_control_until_converged (ls_config st)
                      then isSteerConverged (ls_ctrl_cmd_prev st) st else Some True);
        Some (converged
          \<and> \<bar>current_vel\<bar> < lc_stop_state_entry_ego_speed (ls_config st)
          \<and> \<bar>target_vel\<bar> < lc_stop_state_entry_target_speed (ls_config st))
      })"

section \<open>The run\<close>

text \<open>The readings of the clock by one call of \<open>run\<close>, in nanoseconds.\<close>

record lateral_clock =
  at_prediction :: int
  at_store :: int
  at_history :: int
  at_output :: int
  at_horizon :: int

definition createLateralCmdMsg :: "int \<Rightarrow> lateral_msg \<Rightarrow> lateral_state \<Rightarrow> lateral_msg \<times> lateral_state" where
  "createLateralCmdMsg now_ns cmd st =
     (cmd\<lparr>lat_stamp := toRosTime (Clock_now now_ns)\<rparr>,
      st\<lparr>ls_steer_cmd_prev := steering_tire_angle cmd\<rparr>)"

definition createCtrlCmdHorizonMsg :: "int \<Rightarrow> horizon \<Rightarrow> horizon" where
  "createCtrlCmdHorizonMsg now_ns hor =
     hor\<lparr>h_controls := map (\<lambda>c. c\<lparr>lat_stamp := toRosTime (Clock_now now_ns)\<rparr>) (h_controls hor)\<rparr>"

definition createLateralOutput ::
  "lateral_clock \<Rightarrow> lateral_msg \<Rightarrow> bool \<Rightarrow> horizon \<Rightarrow> lateral_state \<Rightarrow>
    (lateral_output \<times> lateral_state) option" where
  "createLateralOutput clk cmd is_mpc_solved hor st =
     do {
       let (out, st) = createLateralCmdMsg (at_output clk) cmd st;
       let hor = createCtrlCmdHorizonMsg (at_horizon clk) hor;
       converged \<leftarrow> (if is_mpc_solved \<and> isMpcConverged st then isSteerConverged cmd st
                     else Some False);
       Some (\<lparr>lat_control_cmd = out, lat_horizon_step_ms = h_time_step_ms hor,
              lat_horizon = h_controls hor, lat_sync_data = \<lparr>is_steer_converged = converged\<rparr>\<rparr>, st)
     }"

definition lat_under_control :: "input_data \<Rightarrow> bool" where
  "lat_under_control input \<longleftrightarrow>
     is_autoware_control_enabled (in_operation_mode input)
     \<and> op_mode (in_operation_mode input) = OPERATION_MODE_STATE_AUTONOMOUS"

text \<open>The input of a cycle: the measured state without the steering offset, and the first command.\<close>

definition take_input :: "input_data \<Rightarrow> lateral_state \<Rightarrow> lateral_state" where
  "take_input input st =
     (let report = in_steering input;
          report = (if lc_auto_steering_offset_removal (ls_config st)
                    then report\<lparr>report_steering_tire_angle := to_float
                      (report_steering_tire_angle report - getOffset (ls_steering_offset st))\<rparr>
                    else report);
          st = st\<lparr>ls_kinematic_state := in_odometry input, ls_steering := report\<rparr>
      in if \<not> ls_is_ctrl_cmd_prev_initialized st \<or> \<not> lat_under_control input
         then st\<lparr>ls_ctrl_cmd_prev := getInitialControlCommand st,
                 ls_is_ctrl_cmd_prev_initialized := True\<rparr>
         else st)"

text \<open>What follows the optimisation: the previous result, the history and the offset.\<close>

definition after_solve ::
  "lateral_clock \<Rightarrow> input_data \<Rightarrow> result_with_reason \<Rightarrow> lateral_msg \<Rightarrow> lateral_state \<Rightarrow>
    lateral_msg \<times> lateral_state" where
  "after_solve clk input status ctrl_cmd st =
     (let st = st\<lparr>ls_solved_status := status\<rparr>;
          st = (if \<not> rr_result status \<or> \<not> lat_under_control input
                then st\<lparr>ls_mpc := resetPrevResult (report_steering_tire_angle (ls_steering st)) (ls_mpc st)\<rparr>
                else setSteeringToHistory (at_history clk) ctrl_cmd st)
      in if lc_auto_steering_offset_removal (ls_config st) then
           let odom = ls_kinematic_state st;
               offset = updateOffset (vx (twist_linear odom)) (vz (twist_angular odom))
                 (report_steering_tire_angle (in_steering input)) (ls_steering_offset st)
           in (ctrl_cmd\<lparr>steering_tire_angle :=
                 to_float (steering_tire_angle ctrl_cmd + getOffset offset)\<rparr>,
               st\<lparr>ls_steering_offset := offset\<rparr>)
         else (ctrl_cmd, st))"

text \<open>In the stop state the buffered inputs and the raw command take the previous command.\<close>

definition hold_inputs :: "lateral_state \<Rightarrow> lateral_state" where
  "hold_inputs st =
     (let angle = steering_tire_angle (ls_ctrl_cmd_prev st)
      in st\<lparr>ls_mpc := (ls_mpc st)
             \<lparr>m_input_buffer := map (\<lambda>_. angle) (m_input_buffer (ls_mpc st)),
              m_raw_steer_cmd_prev := angle\<rparr>\<rparr>)"

definition lateral_run ::
  "eigen_ops \<Rightarrow> 'm eigen_matrix \<Rightarrow> lateral_clock \<Rightarrow> input_data \<Rightarrow> lateral_state \<Rightarrow>
    (lateral_output \<times> lateral_state) option" where
  "lateral_run eig em clk input st =
     do {
       st \<leftarrow> lat_setTrajectory eig (in_trajectory input) (in_odometry input) st;
       let st = take_input input st;
       (status, ctrl_cmd, hor, m) \<leftarrow> calculateMPC eig em (at_prediction clk) (at_store clk)
         (report_steering_tire_angle (ls_steering st)) (ls_kinematic_state st) zero_lateral
         empty_horizon (ls_mpc st);
       let (ctrl_cmd, st) = after_solve clk input status ctrl_cmd (st\<lparr>ls_mpc := m\<rparr>);
       stopped \<leftarrow> isStoppedState st;
       if stopped then
         createLateralOutput clk (ls_ctrl_cmd_prev st) False hor (hold_inputs st)
       else do {
         let ctrl_cmd = (if rr_result status then ctrl_cmd else getStopControlCommand st);
         createLateralOutput clk ctrl_cmd (rr_result status) hor (st\<lparr>ls_ctrl_cmd_prev := ctrl_cmd\<rparr>)
       }
     }"

end
