(* ===== verification/Lateral_Buffer.thy ===== *)
theory Lateral_Buffer
  imports Lateral_Controller
begin

text \<open>
  Facts about the two receipt histories of the lateral controller: the buffer of trajectories,
  trimmed to a window of stamps, and the history of steering commands.
\<close>

section \<open>Stamps\<close>

definition stamp_real :: "trajectory \<Rightarrow> real" where
  "stamp_real t =
     of_int (sint (sec (traj_stamp t)) * nano_per_sec + uint (nanosec (traj_stamp t))) / 1000000000"

lemma stamp_bound:
  "\<bar>sint (sec s) * nano_per_sec + uint (nanosec s)\<bar> \<le> 2 ^ 62"
proof -
  have "- (2 ^ 31) \<le> sint (sec s)" "sint (sec s) < 2 ^ 31"
    using sint_range_size [of "sec s"] by (simp_all add: word_size)
  moreover have "0 \<le> uint (nanosec s)" "uint (nanosec s) < 2 ^ 32"
    using uint_range_size [of "nanosec s"] by (simp_all add: word_size)
  ultimately show ?thesis
    unfolding nano_per_sec_def abs_le_iff by (simp, linarith)
qed

lemma stamp_seconds_Fin: "stamp_seconds t = Fin (stamp_real t)"
  using stamp_bound [of "traj_stamp t"]
  by (simp add: stamp_seconds_def stamp_real_def toDouble_def seconds_of_ns_Fin)

lemma stamp_real_bound: "\<bar>stamp_real t\<bar> \<le> 10 ^ 10"
proof -
  have "\<bar>real_of_int (sint (sec (traj_stamp t)) * nano_per_sec + uint (nanosec (traj_stamp t)))\<bar> \<le> 2 ^ 62"
    using stamp_bound [of "traj_stamp t"]
    by (metis of_int_abs of_int_le_iff of_int_numeral of_int_power)
  then show ?thesis
    unfolding stamp_real_def by simp
qed

lemma stamp_difference: "stamp_seconds a - stamp_seconds b = Fin (stamp_real a - stamp_real b)"
proof -
  have "\<bar>stamp_real a + - stamp_real b\<bar> \<le> 10 ^ 30"
    using stamp_real_bound [of a] stamp_real_bound [of b] by simp
  then show ?thesis
    by (simp add: stamp_seconds_Fin minus_dbl_def)
qed

lemma should_pop_Fin: "shouldPopFront (Fin r) (Fin d) \<longleftrightarrow> r < 0 \<or> d \<le> r"
  by (simp add: shouldPopFront_def zero_dbl_def)

section \<open>The window of trajectories\<close>

definition window :: "real \<Rightarrow> trajectory list \<Rightarrow> bool" where
  "window d buffer \<longleftrightarrow> buffer \<noteq> []
     \<and> 0 \<le> stamp_real (last buffer) - stamp_real (hd buffer)
     \<and> stamp_real (last buffer) - stamp_real (hd buffer) < d"

lemma window_mono: "window d buffer \<Longrightarrow> d \<le> e \<Longrightarrow> window e buffer"
  by (auto simp: window_def)

lemma trim_step:
  "trim_buffer (Fin d) received (t # ts) =
     (if window (if received then d else 5) (t # ts) then Some (t # ts, True)
      else trim_buffer (Fin d) received ts)"
  by (cases received) (auto simp: stamp_difference should_pop_Fin window_def Let_def simp del: last.simps)

lemma trim_buffer_Some:
  assumes "0 < d" and "buffer \<noteq> []"
  obtains k where "trim_buffer (Fin d) received buffer = Some (drop k buffer, True)"
    and "k < length buffer" and "window (if received then d else 5) (drop k buffer)"
    and "\<forall>j < k. \<not> window (if received then d else 5) (drop j buffer)"
proof -
  let ?d = "if received then d else 5"
  have "\<exists>k. trim_buffer (Fin d) received buffer = Some (drop k buffer, True) \<and> k < length buffer
    \<and> window ?d (drop k buffer) \<and> (\<forall>j < k. \<not> window ?d (drop j buffer))"
    using assms(2)
  proof (induction buffer)
    case (Cons t ts)
    show ?case
    proof (cases "window ?d (t # ts)")
      case True
      then show ?thesis by (intro exI [of _ 0]) (simp add: trim_step del: trim_buffer.simps)
    next
      case False
      then have "ts \<noteq> []"
        using assms(1) by (auto simp: window_def split: if_splits)
      with Cons.IH obtain k where k: "trim_buffer (Fin d) received ts = Some (drop k ts, True)"
        "k < length ts" "window ?d (drop k ts)" "\<forall>j < k. \<not> window ?d (drop j ts)"
        by blast
      have "\<not> window ?d (drop j (t # ts))" if "j < Suc k" for j
        using that False k(4) by (cases j) auto
      with False k show ?thesis
        by (intro exI [of _ "Suc k"]) (simp add: trim_step del: trim_buffer.simps)
    qed
  qed simp
  then show ?thesis using that by blast
qed

text \<open>
  The invariant of the buffer. The first window is longer than the later ones, so that the
  bound that always holds is the larger of the two.
\<close>

definition buffer_ok :: "real \<Rightarrow> lateral_state \<Rightarrow> bool" where
  "buffer_ok d st \<longleftrightarrow> 0 < d \<and> lc_new_traj_duration_time (ls_config st) = Fin d
     \<and> (if ls_has_received_first_trajectory st then window (max d 5) (ls_trajectory_buffer st)
        else ls_trajectory_buffer st = [])"

lemma stamp_eqI: "sec s = sec t \<Longrightarrow> nanosec s = nanosec t \<Longrightarrow> s = (t :: time_msg)"
  by simp

lemma buffer_trajectory_Some:
  assumes "buffer_ok d st"
  obtains st' where "buffer_trajectory t st = Some st'" and "buffer_ok d st'"
    and "ls_has_received_first_trajectory st'"
    and "traj_stamp (last (ls_trajectory_buffer st')) = traj_stamp t"
    and "ls_has_received_first_trajectory st \<Longrightarrow> ls_trajectory_buffer st' \<noteq> ls_trajectory_buffer st
           \<Longrightarrow> window d (ls_trajectory_buffer st')"
proof (cases "already_buffered (ls_trajectory_buffer st) t")
  case True
  then have "ls_trajectory_buffer st \<noteq> []"
    "traj_stamp (last (ls_trajectory_buffer st)) = traj_stamp t"
    by (auto simp: already_buffered_def isDuplicateStamp_def intro: stamp_eqI)
  with assms True show ?thesis
    by (intro that [of st]) (auto simp: buffer_trajectory_def buffer_ok_def split: if_splits)
next
  case False
  let ?r = "ls_has_received_first_trajectory st"
  have d: "0 < d" "lc_new_traj_duration_time (ls_config st) = Fin d"
    using assms by (auto simp: buffer_ok_def)
  obtain k where k: "trim_buffer (Fin d) ?r (ls_trajectory_buffer st @ [t])
      = Some (drop k (ls_trajectory_buffer st @ [t]), True)"
    "k < length (ls_trajectory_buffer st @ [t])"
    "window (if ?r then d else 5) (drop k (ls_trajectory_buffer st @ [t]))"
    using trim_buffer_Some [OF d(1), of "ls_trajectory_buffer st @ [t]" ?r] by blast
  let ?b = "drop k (ls_trajectory_buffer st @ [t])"
  have w: "window (max d 5) ?b"
    using k(3) by (rule window_mono) auto
  have l: "last ?b = t"
    using k(2) by (simp only: last_drop) simp
  show ?thesis
    using False d k(1,3) w l
    by (intro that [of "st\<lparr>ls_trajectory_buffer := ?b, ls_has_received_first_trajectory := True\<rparr>"])
      (auto simp: buffer_trajectory_def buffer_ok_def split: if_splits)
qed

text \<open>A sequence of received trajectories.\<close>

fun buffer_all :: "trajectory list \<Rightarrow> lateral_state \<Rightarrow> lateral_state option" where
  "buffer_all [] st = Some st"
| "buffer_all (t # ts) st = do { st \<leftarrow> buffer_trajectory t st; buffer_all ts st }"

section \<open>The history of steering commands\<close>

definition old_entry :: "dbl \<Rightarrow> lateral_msg \<times> dbl \<Rightarrow> bool" where
  "old_entry time h \<longleftrightarrow> Fin 1 \<le> time - snd h"

text \<open>The loop removes every other one of the old entries at the front.\<close>

lemma erase_loop_drop:
  assumes "n < length h" and "\<forall>i < n. old_entry time (h ! i)"
    and "\<forall>i. n \<le> i \<and> i < length h \<longrightarrow> \<not> old_entry time (h ! i)" and "2 * k \<le> n + 1"
  shows "erase_loop time k (drop k h) = drop ((n + 1) div 2) h"
  using assms(4)
proof (induction "(n + 1) div 2 - k" arbitrary: k)
  case 0
  then have k: "k = (n + 1) div 2" by simp
  have "\<not> (k < length (drop k h) \<and> Fin 1 \<le> time - snd (drop k h ! k))"
  proof
    assume a: "k < length (drop k h) \<and> Fin 1 \<le> time - snd (drop k h ! k)"
    then have "k + k < length h" and "drop k h ! k = h ! (k + k)"
      by (auto simp: less_diff_conv)
    moreover have "n \<le> k + k"
      using k by linarith
    ultimately show False
      using a assms(3) by (simp add: old_entry_def)
  qed
  then show ?case
    by (subst erase_loop.simps) (simp only: if_False k)
next
  case (Suc m)
  then have k: "2 * k < n" by linarith
  have "k < length (drop k h) \<and> Fin 1 \<le> time - snd (drop k h ! k)"
    using k assms(1,2) by (auto simp: old_entry_def mult_2)
  moreover have "tl (drop k h) = drop (Suc k) h"
    by (simp add: drop_Suc tl_drop)
  moreover have "erase_loop time (Suc k) (drop (Suc k) h) = drop ((n + 1) div 2) h"
  proof (rule Suc.hyps(1))
    show "m = (n + 1) div 2 - Suc k"
      using Suc.hyps(2) by linarith
    show "2 * Suc k \<le> n + 1"
      using k by simp
  qed
  ultimately show ?case
    by (subst erase_loop.simps) (simp only: if_True simp_thms add_Suc_right add_0_right Suc_eq_plus1 [symmetric])
qed

end
