(* ===== verification/Lateral_Facts.thy ===== *)
theory Lateral_Facts
  imports Lateral_Buffer
begin

text \<open>
  What one cycle of the lateral controller does to the steering angle: the low-pass filter of
  the shipped parameters, the clamped commands of a solved cycle, the frame of the steps, and
  the locale that carries a property of one run to a sequence of runs.
\<close>

section \<open>The filter of the shipped parameters\<close>

lemma cancelled_initialize:
  assumes "cos (pi * (f * dt)) = 0" and "0 < dt" and "dt \<le> 10" and "1 / 10 ^ 6 \<le> dt" and "\<bar>f\<bar> \<le> 10 ^ 6"
  shows "cancelled (butterworth_initialize (Fin dt) (Fin f))"
proof -
  have small: "\<bar>1 / dt\<bar> \<le> 10 ^ 30" "\<bar>pi * f\<bar> \<le> 10 ^ 30" "\<bar>pi * f / (1 / dt)\<bar> \<le> 10 ^ 30"
  proof -
    have "1 / dt \<le> 1 / (1 / 10 ^ 6)"
      using assms(2,4) by (intro divide_left_mono) auto
    then show "\<bar>1 / dt\<bar> \<le> 10 ^ 30"
      using assms(2) by simp
    have "pi \<le> 4"
      using pi_less_4 by simp
    then have p: "\<bar>pi * f\<bar> \<le> 4 * 10 ^ 6"
      using assms(5) mult_mono [of pi 4 "\<bar>f\<bar>" "10 ^ 6"] by (simp add: abs_mult)
    then show "\<bar>pi * f\<bar> \<le> 10 ^ 30"
      by simp
    have "\<bar>pi * f * dt\<bar> \<le> (4 * 10 ^ 6) * 10"
      using p assms(2,3) unfolding abs_mult [of "pi * f"] by (intro mult_mono) auto
    then show "\<bar>pi * f / (1 / dt)\<bar> \<le> 10 ^ 30"
      by simp
  qed
  have "Fin pi * Fin f div (Fin 1 div Fin dt) = Fin (pi * (f * dt))"
    using small assms(2) by (simp add: mult.assoc)
  with assms(1) have "ftan (Fin pi * Fin f div (Fin 1 div Fin dt)) = PInf"
    by (simp add: ftan_def)
  moreover have "fl 0 = Fin 0" "fl 1 = Fin 1" "fl 2 = Fin 2" "fl (- 1) = Fin (- 1)" "fl (- 2) = Fin (- 2)"
    by simp_all
  ultimately show ?thesis
    by (simp add: cancelled_def butterworth_initialize_def Let_def minus_dbl_def)
qed

lemma passing_step:
  assumes "passing m b" and "bounded_by m u" and "m \<le> 10 ^ 6"
  shows "butterworth_filter b u = (u, b\<lparr>m_y2 := m_y1 b, m_y1 := u, m_u2 := m_u1 b, m_u1 := u\<rparr>)"
    and "passing m (b\<lparr>m_y2 := m_y1 b, m_y1 := u, m_u2 := m_u1 b, m_u1 := u\<rparr>)"
proof -
  obtain r where r: "u = Fin r" "\<bar>r\<bar> \<le> m"
    using assms(2) by (rule bounded_cases)
  obtain r1 where r1: "m_u1 b = Fin r1" "\<bar>r1\<bar> \<le> m"
    using assms(1) by (auto simp: passing_def elim: bounded_cases)
  obtain r2 where r2: "m_u2 b = Fin r2" "\<bar>r2\<bar> \<le> m"
    using assms(1) by (auto simp: passing_def elim: bounded_cases)
  have m: "m \<le> 10 ^ 6" "10 ^ 6 * 6 \<le> (10 :: real) ^ 30"
    using assms(3) by simp_all
  have small: "\<bar>x\<bar> \<le> 6 * m \<Longrightarrow> fl x = Fin x" for x
    using m by (intro fl_small) linarith
  have bounds: "\<bar>r2\<bar> \<le> 6 * m" "\<bar>2 * r1\<bar> \<le> 6 * m" "\<bar>r\<bar> \<le> 6 * m" "\<bar>- r2\<bar> \<le> 6 * m"
    "\<bar>- (2 * r1)\<bar> \<le> 6 * m" "\<bar>r2 + 2 * r1\<bar> \<le> 6 * m" "\<bar>r2 + 2 * r1 + r\<bar> \<le> 6 * m"
    "\<bar>2 * r1 + r\<bar> \<le> 6 * m"
    using r r1 r2 by auto
  have "butterworth_step b (m_y1 b) (m_y2 b) (m_u1 b) (m_u2 b) u = u"
    using assms(1) r(1) r1(1) r2(1) bounds
    by (simp add: butterworth_step_def passing_def cancelled_def small)
  then show "butterworth_filter b u = (u, b\<lparr>m_y2 := m_y1 b, m_y1 := u, m_u2 := m_u1 b, m_u1 := u\<rparr>)"
    by (simp add: butterworth_filter_def)
  show "passing m (b\<lparr>m_y2 := m_y1 b, m_y1 := u, m_u2 := m_u1 b, m_u1 := u\<rparr>)"
    using assms(1,2) by (auto simp: passing_def cancelled_def)
qed

lemma passing_initialize:
  "cancelled (butterworth_initialize dt f) \<Longrightarrow> 0 \<le> m \<Longrightarrow> passing m (butterworth_initialize dt f)"
  by (simp add: passing_def butterworth_initialize_def Let_def)

section \<open>Clamped commands\<close>

lemma to_float_bounded_by: "bounded_by m x \<Longrightarrow> m \<le> 10 ^ 30 \<Longrightarrow> to_float x = x"
proof -
  assume "bounded_by m x" and m: "m \<le> 10 ^ 30"
  then obtain r where "x = Fin r" "\<bar>r\<bar> \<le> m"
    by (metis bounded_cases)
  with m show ?thesis
    using to_float_small [of r] by simp
qed

lemma clamped_steer_bounded:
  assumes "m_steer_lim st = Fin L" and "0 \<le> L" and "u \<noteq> NaN"
  shows "bounded_by L (clamped_steer st u)"
  using assms by (cases u) (auto simp: clamped_steer_def fclamp_def)

lemma horizon_bounded:
  assumes "m_steer_lim st = Fin L" and "0 \<le> L" and "L \<le> 10 ^ 30" and "NaN \<notin> set us"
  shows "\<forall>c \<in> set (horizon_loop st prev us). bounded_by L (steering_tire_angle c)"
  using assms(4)
proof (induction us arbitrary: prev)
  case (Cons u us)
  then have "bounded_by L (clamped_steer st u)"
    using assms by (intro clamped_steer_bounded) auto
  with Cons show ?case
    using assms(3) by (auto simp: Let_def to_float_bounded_by)
qed simp

text \<open>\<open>isNaN().any()\<close> finds a NaN coefficient.\<close>

definition finds_nan :: "'m eigen_matrix \<Rightarrow> bool" where
  "finds_nan em \<longleftrightarrow>
     (\<forall>u. \<not> em_any_nan em u \<longrightarrow> em_coeff em u 0 0 \<noteq> NaN \<and> NaN \<notin> set (em_column em u))"

lemma executeOptimization_Inr:
  "executeOptimization em st dim_u m x0 dt traj v = Some (Inr u) \<Longrightarrow> \<not> em_any_nan em u"
  by (auto simp: executeOptimization_def Let_def bind_eq_Some_conv split: if_splits option.splits)

section \<open>Frames\<close>

text \<open>
  A step that leaves the limit and the filter of the command alone, and one that leaves the
  reference trajectory as well.
\<close>

definition keeps_output :: "mpc \<Rightarrow> mpc \<Rightarrow> bool" where
  "keeps_output st st' \<longleftrightarrow>
     m_steer_lim st' = m_steer_lim st \<and> m_lpf_steering_cmd st' = m_lpf_steering_cmd st"

lemma keeps_refl [simp]: "keeps_output st st"
  by (simp add: keeps_output_def)

lemma keeps_trans: "keeps_output a b \<Longrightarrow> keeps_output b c \<Longrightarrow> keeps_output a c"
  by (simp add: keeps_output_def)

lemma setReferenceTrajectory_keeps:
  "setReferenceTrajectory eig pts p odom st = Some st' \<Longrightarrow> keeps_output st st'"
  by (auto simp: setReferenceTrajectory_def keeps_output_def bind_eq_Some_conv Let_def
      split: if_splits option.splits)

definition keeps_reference :: "mpc \<Rightarrow> mpc \<Rightarrow> bool" where
  "keeps_reference st st' \<longleftrightarrow>
     keeps_output st st' \<and> m_reference_trajectory st' = m_reference_trajectory st"

lemma getData_keeps: "getData eig now traj steer odom st = Some (d, st') \<Longrightarrow> keeps_reference st st'"
  by (cases "calcSteerPrediction now (m_steering_predictor st)")
    (auto simp: getData_def keeps_reference_def keeps_output_def bind_eq_Some_conv Let_def split: option.splits)

lemma getInitialState_keeps: "getInitialState em vm d st = (x0, st') \<Longrightarrow> keeps_reference st st'"
  by (auto simp: getInitialState_def error_rates_def keeps_reference_def keeps_output_def Let_def
      split: vehicle_kind.splits prod.splits)

section \<open>One cycle\<close>

definition mpc_ok :: "real \<Rightarrow> mpc \<Rightarrow> bool" where
  "mpc_ok L st \<longleftrightarrow> 0 \<le> L \<and> L \<le> 10 ^ 6 \<and> m_steer_lim st = Fin L \<and> passing L (m_lpf_steering_cmd st)"

lemma mpc_ok_keeps: "mpc_ok L st \<Longrightarrow> keeps_output st st' \<Longrightarrow> mpc_ok L st'"
  by (simp add: mpc_ok_def keeps_output_def)

definition horizon_ok :: "real \<Rightarrow> horizon \<Rightarrow> bool" where
  "horizon_ok L h \<longleftrightarrow> (\<forall>c \<in> set (h_controls h). bounded_by L (steering_tire_angle c))"

lemma solved_output_ok:
  assumes "mpc_ok L st" and "em_coeff em u 0 0 \<noteq> NaN" and "NaN \<notin> set (em_column em u)"
    and "solved_output em now kind m x0 u steer dt cmd st = (cmd', h, st')"
  shows "mpc_ok L st'" and "bounded_by L (steering_tire_angle cmd')" and "horizon_ok L h"
proof -
  let ?c = "clamped_steer st (em_coeff em u 0 0)"
  have L: "0 \<le> L" "L \<le> 10 ^ 6" "L \<le> 10 ^ 30" "m_steer_lim st = Fin L" "passing L (m_lpf_steering_cmd st)"
    using assms(1) by (auto simp: mpc_ok_def)
  have c: "bounded_by L ?c"
    using L assms(2) by (intro clamped_steer_bounded)
  note f = passing_step [OF L(5) c L(2)]
  have cmd': "steering_tire_angle cmd' = ?c"
    using assms(4) to_float_bounded_by [OF c L(3)] by (auto simp: solved_output_def Let_def f(1))
  then show "bounded_by L (steering_tire_angle cmd')"
    using c by simp
  show "mpc_ok L st'"
    using assms(4) L f(2) by (auto simp: solved_output_def Let_def f(1) mpc_ok_def)
  have us: "NaN \<notin> set (tl (em_column em u))"
    using assms(3) list.set_sel(2) by (cases "em_column em u") auto
  have "m_steer_lim st' = m_steer_lim st" "h_controls h = cmd' # horizon_loop st' cmd' (tl (em_column em u))"
    using assms(4) by (auto simp: solved_output_def Let_def f(1))
  then show "horizon_ok L h"
    using c cmd' us L horizon_bounded [of st' L] by (simp add: horizon_ok_def)
qed

text \<open>
  A cycle has no result, and leaves the command and the horizon as they were, or it ends with the
  output of a solution without a NaN.
\<close>

lemma optimise_cases:
  assumes "optimise em now ref dt x0 vm steer v cmd h st = Some (status, cmd', h', st')"
  obtains (unsolved) "\<not> rr_result status" "cmd' = cmd" "h' = h" "keeps_reference st st'"
  | (solved) kind m u st1 where "rr_result status" "keeps_reference st st1" "\<not> em_any_nan em u"
      "solved_output em now kind m x0 u steer dt cmd st1 = (cmd', h', st')"
proof -
  obtain m vm' opt where opt: "generateMPCMatrix em st ref dt vm = Some (m, vm')"
    "executeOptimization em (st\<lparr>m_vehicle_model := Some vm'\<rparr>) (getDimU vm') m x0 dt ref v = Some opt"
    using assms by (auto simp: optimise_def bind_eq_Some_conv Let_def simp del: not_None_eq)
  let ?st = "st\<lparr>m_vehicle_model := Some vm'\<rparr>"
  have keep: "keeps_reference st ?st"
    by (simp add: keeps_reference_def keeps_output_def)
  show ?thesis
  proof (cases opt)
    case (Inl reason)
    then show ?thesis
      using assms opt keep by (intro unsolved) (auto simp: optimise_def failed_def)
  next
    case (Inr u)
    have "\<not> em_any_nan em u"
      using opt(2) unfolding Inr by (rule executeOptimization_Inr)
    then show ?thesis
      using assms opt Inr keep by (intro solved [of ?st u "vm_kind vm'" m]) (auto simp: optimise_def)
  qed
qed

lemma calculateMPC_cases:
  assumes "calculateMPC eig em now1 now2 steer odom cmd h st = Some (status, cmd', h', st')"
  obtains (unsolved) "\<not> rr_result status" "cmd' = cmd" "h' = h" "keeps_reference st st'"
  | (solved) kind m x0 u dt st1 where "rr_result status" "keeps_reference st st1" "\<not> em_any_nan em u"
      "solved_output em now2 kind m x0 u steer dt cmd st1 = (cmd', h', st')"
proof -
  obtain ref data st1 where 1: "applyVelocityDynamicsFilter eig st odom = Some ref"
    "getData eig now1 ref steer odom st = Some (data, st1)"
    using assms by (auto simp: calculateMPC_def bind_eq_Some_conv)
  note keep1 = getData_keeps [OF 1(2)]
  show ?thesis
  proof (cases data)
    case (Inl reason)
    then show ?thesis
      using assms 1 keep1 by (intro unsolved) (auto simp: calculateMPC_def failed_def)
  next
    case (Inr d)
    obtain vm where vm: "m_vehicle_model st1 = Some vm"
      using assms 1 Inr by (auto simp: calculateMPC_def bind_eq_Some_conv)
    obtain x0 st2 where 2: "getInitialState em vm d st1 = (x0, st2)"
      by (cases "getInitialState em vm d st1")
    obtain prepared vm' where 3: "prepare em st2 ref d odom x0 vm = Some (prepared, vm')"
      using assms 1 Inr vm 2 by (auto simp: calculateMPC_def bind_eq_Some_conv)
    let ?st = "st2\<lparr>m_vehicle_model := Some vm'\<rparr>"
    have keep: "keeps_reference st ?st"
      using keep1 getInitialState_keeps [OF 2] by (simp add: keeps_reference_def keeps_output_def)
    show ?thesis
    proof (cases prepared)
      case (Inl reason)
      then show ?thesis
        using assms 1 Inr vm 2 3 keep by (intro unsolved) (auto simp: calculateMPC_def failed_def)
    next
      case (Inr p)
      obtain dt resampled x0_delayed where p: "p = (dt, resampled, x0_delayed)"
        by (cases p)
      have "optimise em now2 resampled dt x0_delayed vm' steer (vx (twist_linear odom)) cmd h ?st
        = Some (status, cmd', h', st')"
        using assms 1 \<open>data = Inr d\<close> vm 2 3 Inr p by (simp add: calculateMPC_def)
      then show ?thesis
        by (rule optimise_cases) (use keep unsolved solved in \<open>auto simp: keeps_reference_def keeps_output_def\<close>)
    qed
  qed
qed

lemma calculateMPC_ok:
  assumes "finds_nan em" and "mpc_ok L st"
    and "calculateMPC eig em now1 now2 steer odom cmd h st = Some (status, cmd', h', st')"
  shows "mpc_ok L st' \<and> (if rr_result status then bounded_by L (steering_tire_angle cmd') \<and> horizon_ok L h'
                         else cmd' = cmd \<and> h' = h)"
  using assms(3)
proof (cases rule: calculateMPC_cases)
  case unsolved
  then show ?thesis
    using assms(2) mpc_ok_keeps by (auto simp: keeps_reference_def)
next
  case (solved kind m x0 u dt st1)
  then have u: "em_coeff em u 0 0 \<noteq> NaN" "NaN \<notin> set (em_column em u)" and ok: "mpc_ok L st1"
    using assms(1,2) mpc_ok_keeps by (auto simp: finds_nan_def keeps_reference_def)
  show ?thesis
    using solved(1) solved_output_ok [OF ok u solved(4)] by simp
qed

lemma calculateMPC_unsolved:
  assumes "calculateMPC eig em now1 now2 steer odom cmd h st = Some (status, cmd', h', st')"
    and "\<not> rr_result status"
  shows "h' = h"
  using assms by (cases rule: calculateMPC_cases) auto

lemma calculateMPC_reference:
  assumes "calculateMPC eig em now1 now2 steer odom cmd h st = Some (status, cmd', h', st')"
  shows "m_reference_trajectory st' = m_reference_trajectory st"
  using assms
  by (cases rule: calculateMPC_cases) (auto simp: keeps_reference_def solved_output_def Let_def split: prod.splits)

end
