(* ===== verification/Lateral_Run.thy ===== *)
theory Lateral_Run
  imports Lateral_Facts
begin

text \<open>
  A run of the lateral controller and sequences of runs: the parts of a run in one rule, the
  locale that carries what one run keeps to every sequence, and its interpretation for the
  limit of the steering angle.
\<close>

section \<open>Sequences of runs\<close>

fun lateral_history ::
  "eigen_ops \<Rightarrow> 'm eigen_matrix \<Rightarrow> (lateral_clock \<times> input_data) list \<Rightarrow> lateral_state \<Rightarrow>
    (lateral_output list \<times> lateral_state) option" where
  "lateral_history eig em [] st = Some ([], st)"
| "lateral_history eig em ((clk, input) # runs) st =
     do {
       (out, st) \<leftarrow> lateral_run eig em clk input st;
       (outs, st) \<leftarrow> lateral_history eig em runs st;
       Some (out # outs, st)
     }"

locale lateral_invariant =
  fixes eig :: eigen_ops and em :: "'m eigen_matrix" and keeps :: "lateral_state \<Rightarrow> bool"
    and allowed :: "input_data \<Rightarrow> bool" and good :: "lateral_output \<Rightarrow> bool"
  assumes run_keeps: "keeps st \<Longrightarrow> allowed input \<Longrightarrow>
      lateral_run eig em clk input st = Some (out, st') \<Longrightarrow> keeps st' \<and> good out"
begin

lemma history_keeps:
  assumes "keeps st" and "\<forall>(clk, input) \<in> set runs. allowed input"
    and "lateral_history eig em runs st = Some (outs, st')"
  shows "keeps st' \<and> (\<forall>out \<in> set outs. good out)"
  using assms
proof (induction runs arbitrary: st outs)
  case (Cons r runs)
  obtain clk input where r: "r = (clk, input)"
    by (cases r)
  obtain out st1 outs1 where 1: "lateral_run eig em clk input st = Some (out, st1)"
    "lateral_history eig em runs st1 = Some (outs1, st')" "outs = out # outs1"
    using Cons.prems(3) by (auto simp: r bind_eq_Some_conv)
  have "keeps st1 \<and> good out"
    using Cons.prems 1(1) by (intro run_keeps) (auto simp: r)
  with Cons.IH [OF _ _ 1(2)] Cons.prems(2) 1(3) show ?case
    by (auto simp: r)
qed auto

end

section \<open>The parts of a run\<close>

lemma lateral_run_cases:
  assumes "lateral_run eig em clk input st = Some (out, st')"
  obtains st1 status ctrl_cmd hor m cmd st2 stopped where
    "lat_setTrajectory eig (in_trajectory input) (in_odometry input) st = Some st1"
    and "calculateMPC eig em (at_prediction clk) (at_store clk)
           (report_steering_tire_angle (ls_steering (take_input input st1)))
           (ls_kinematic_state (take_input input st1)) zero_lateral empty_horizon
           (ls_mpc (take_input input st1)) = Some (status, ctrl_cmd, hor, m)"
    and "after_solve clk input status ctrl_cmd ((take_input input st1)\<lparr>ls_mpc := m\<rparr>) = (cmd, st2)"
    and "isStoppedState st2 = Some stopped"
    and "if stopped then
           createLateralOutput clk (ls_ctrl_cmd_prev st2) False hor (hold_inputs st2) = Some (out, st')
         else
           (let cmd = (if rr_result status then cmd else getStopControlCommand st2)
            in createLateralOutput clk cmd (rr_result status) hor (st2\<lparr>ls_ctrl_cmd_prev := cmd\<rparr>)
               = Some (out, st'))"
proof -
  obtain st1 where 1: "lat_setTrajectory eig (in_trajectory input) (in_odometry input) st = Some st1"
    using assms by (auto simp: lateral_run_def bind_eq_Some_conv Let_def)
  obtain status ctrl_cmd hor m where 2: "calculateMPC eig em (at_prediction clk) (at_store clk)
      (report_steering_tire_angle (ls_steering (take_input input st1)))
      (ls_kinematic_state (take_input input st1)) zero_lateral empty_horizon
      (ls_mpc (take_input input st1)) = Some (status, ctrl_cmd, hor, m)"
    using assms 1 by (auto simp: lateral_run_def bind_eq_Some_conv Let_def)
  obtain cmd st2 where 3: "after_solve clk input status ctrl_cmd ((take_input input st1)\<lparr>ls_mpc := m\<rparr>) = (cmd, st2)"
    by (cases "after_solve clk input status ctrl_cmd ((take_input input st1)\<lparr>ls_mpc := m\<rparr>)")
  obtain stopped where 4: "isStoppedState st2 = Some stopped"
    using assms 1 2 3 by (auto simp: lateral_run_def bind_eq_Some_conv Let_def)
  have "if stopped then
           createLateralOutput clk (ls_ctrl_cmd_prev st2) False hor (hold_inputs st2) = Some (out, st')
         else
           (let cmd = (if rr_result status then cmd else getStopControlCommand st2)
            in createLateralOutput clk cmd (rr_result status) hor (st2\<lparr>ls_ctrl_cmd_prev := cmd\<rparr>)
               = Some (out, st'))"
    using assms 1 2 3 4 by (auto simp: lateral_run_def Let_def)
  with 1 2 3 4 show ?thesis by (rule that)
qed

lemma createLateralOutput_Some:
  assumes "createLateralOutput clk cmd solved hor st = Some (out, st')"
  shows "lat_control_cmd out = cmd\<lparr>lat_stamp := toRosTime (Clock_now (at_output clk))\<rparr>"
    and "st' = st\<lparr>ls_steer_cmd_prev := steering_tire_angle cmd\<rparr>"
    and "lat_horizon out = map (\<lambda>c. c\<lparr>lat_stamp := toRosTime (Clock_now (at_horizon clk))\<rparr>) (h_controls hor)"
  using assms
  by (auto simp: createLateralOutput_def createLateralCmdMsg_def createCtrlCmdHorizonMsg_def
      bind_eq_Some_conv Let_def)

section \<open>The limit of the steering angle\<close>

text \<open>
  The state of a controller that does not remove the offset: its model predictive controller is
  at the limit \<open>L\<close>, and the two commands it may repeat are within the limit.
\<close>

definition steer_inv :: "real \<Rightarrow> lateral_state \<Rightarrow> bool" where
  "steer_inv L st \<longleftrightarrow> mpc_ok L (ls_mpc st) \<and> \<not> lc_auto_steering_offset_removal (ls_config st)
     \<and> bounded_by L (ls_steer_cmd_prev st)
     \<and> (ls_is_ctrl_cmd_prev_initialized st \<longrightarrow> bounded_by L (steering_tire_angle (ls_ctrl_cmd_prev st)))"

definition report_within :: "real \<Rightarrow> input_data \<Rightarrow> bool" where
  "report_within L input \<longleftrightarrow> bounded_by L (report_steering_tire_angle (in_steering input))"

definition angles_within :: "real \<Rightarrow> lateral_output \<Rightarrow> bool" where
  "angles_within L out \<longleftrightarrow> bounded_by L (steering_tire_angle (lat_control_cmd out))
     \<and> (\<forall>c \<in> set (lat_horizon out). bounded_by L (steering_tire_angle c))"

lemma buffer_trajectory_frame:
  "buffer_trajectory t st = Some st' \<Longrightarrow>
     ls_mpc st' = ls_mpc st \<and> ls_config st' = ls_config st \<and> ls_steer_cmd_prev st' = ls_steer_cmd_prev st
     \<and> ls_is_ctrl_cmd_prev_initialized st' = ls_is_ctrl_cmd_prev_initialized st
     \<and> ls_ctrl_cmd_prev st' = ls_ctrl_cmd_prev st"
  by (auto simp: buffer_trajectory_def bind_eq_Some_conv split: if_splits)

lemma steer_inv_setTrajectory:
  assumes "steer_inv L st" and "lat_setTrajectory eig msg odom st = Some st'"
  shows "steer_inv L st'"
proof -
  let ?st = "st\<lparr>ls_trajectory := msg\<rparr>"
  consider "st' = ?st" | m where "setReferenceTrajectory eig (points msg) (lc_filtering (ls_config st)) odom
      (ls_mpc st) = Some m" "buffer_trajectory msg (?st\<lparr>ls_mpc := m\<rparr>) = Some st'"
    using assms(2) by (auto simp: lat_setTrajectory_def bind_eq_Some_conv Let_def split: if_splits)
  then show ?thesis
  proof cases
    case 2
    have "mpc_ok L m"
      using assms(1) setReferenceTrajectory_keeps [OF 2(1)] by (auto simp: steer_inv_def intro: mpc_ok_keeps)
    then show ?thesis
      using assms(1) buffer_trajectory_frame [OF 2(2)] by (simp add: steer_inv_def)
  qed (use assms(1) in \<open>simp add: steer_inv_def\<close>)
qed

lemma steer_inv_take_input:
  assumes "steer_inv L st" and "report_within L input"
  shows "steer_inv L (take_input input st)" and "ls_is_ctrl_cmd_prev_initialized (take_input input st)"
    and "ls_mpc (take_input input st) = ls_mpc st"
  using assms
  by (auto simp: steer_inv_def take_input_def report_within_def getInitialControlCommand_def Let_def)

lemma after_solve_frame:
  assumes "\<not> lc_auto_steering_offset_removal (ls_config st)"
    and "after_solve clk input status cmd st = (cmd', st')"
  shows "cmd' = cmd" and "keeps_output (ls_mpc st) (ls_mpc st')" and "ls_config st' = ls_config st"
    and "ls_steer_cmd_prev st' = ls_steer_cmd_prev st" and "ls_ctrl_cmd_prev st' = ls_ctrl_cmd_prev st"
    and "ls_is_ctrl_cmd_prev_initialized st' = ls_is_ctrl_cmd_prev_initialized st"
  using assms
  by (auto simp: after_solve_def setSteeringToHistory_def resetPrevResult_def keeps_output_def Let_def
      split: if_splits)

lemma steer_inv_run:
  assumes "finds_nan em" and "steer_inv L st" and "report_within L input"
    and "lateral_run eig em clk input st = Some (out, st')"
  shows "steer_inv L st' \<and> angles_within L out"
proof -
  obtain st1 status ctrl_cmd hor m cmd st2 stopped where
    1: "lat_setTrajectory eig (in_trajectory input) (in_odometry input) st = Some st1"
    and 2: "calculateMPC eig em (at_prediction clk) (at_store clk)
           (report_steering_tire_angle (ls_steering (take_input input st1)))
           (ls_kinematic_state (take_input input st1)) zero_lateral empty_horizon
           (ls_mpc (take_input input st1)) = Some (status, ctrl_cmd, hor, m)"
    and 3: "after_solve clk input status ctrl_cmd ((take_input input st1)\<lparr>ls_mpc := m\<rparr>) = (cmd, st2)"
    and 4: "if stopped then
           createLateralOutput clk (ls_ctrl_cmd_prev st2) False hor (hold_inputs st2) = Some (out, st')
         else
           (let cmd = (if rr_result status then cmd else getStopControlCommand st2)
            in createLateralOutput clk cmd (rr_result status) hor (st2\<lparr>ls_ctrl_cmd_prev := cmd\<rparr>)
               = Some (out, st'))"
    using assms(4) by (rule lateral_run_cases)
  have inv1: "steer_inv L (take_input input st1)" and init: "ls_is_ctrl_cmd_prev_initialized (take_input input st1)"
    using steer_inv_take_input [OF steer_inv_setTrajectory [OF assms(2) 1] assms(3)] by auto
  have m: "mpc_ok L m" "if rr_result status then bounded_by L (steering_tire_angle ctrl_cmd) \<and> horizon_ok L hor
      else ctrl_cmd = zero_lateral \<and> hor = empty_horizon"
    using calculateMPC_ok [OF assms(1) _ 2, of L] inv1 by (auto simp: steer_inv_def)
  have off: "\<not> lc_auto_steering_offset_removal (ls_config ((take_input input st1)\<lparr>ls_mpc := m\<rparr>))"
    using inv1 by (simp add: steer_inv_def)
  note frame = after_solve_frame [OF off 3]
  have L: "L \<le> 10 ^ 30"
    using m(1) by (auto simp: mpc_ok_def)
  have inv2: "steer_inv L st2" and prev: "bounded_by L (steering_tire_angle (ls_ctrl_cmd_prev st2))"
    using inv1 init frame m(1) mpc_ok_keeps by (auto simp: steer_inv_def)
  have hor: "horizon_ok L hor"
    using m(2) by (auto simp: horizon_ok_def empty_horizon_def split: if_splits)
  have stop: "bounded_by L (steering_tire_angle (getStopControlCommand st2))"
    using inv2 to_float_bounded_by [OF _ L] by (auto simp: steer_inv_def getStopControlCommand_def)
  show ?thesis
  proof (cases stopped)
    case True
    then have c: "createLateralOutput clk (ls_ctrl_cmd_prev st2) False hor (hold_inputs st2) = Some (out, st')"
      using 4 by simp
    show ?thesis
      using createLateralOutput_Some [OF c] prev inv2 hor
      by (auto simp: steer_inv_def angles_within_def horizon_ok_def hold_inputs_def mpc_ok_def Let_def)
  next
    case False
    let ?cmd = "if rr_result status then cmd else getStopControlCommand st2"
    have c: "createLateralOutput clk ?cmd (rr_result status) hor (st2\<lparr>ls_ctrl_cmd_prev := ?cmd\<rparr>) = Some (out, st')"
      using 4 False by (simp add: Let_def)
    have "bounded_by L (steering_tire_angle ?cmd)"
      using stop m(2) frame(1) by auto
    then show ?thesis
      using createLateralOutput_Some [OF c] inv2 hor
      by (auto simp: steer_inv_def angles_within_def horizon_ok_def)
  qed
qed

interpretation steering: lateral_invariant eig em "\<lambda>st. finds_nan em \<and> steer_inv L st"
  "report_within L" "angles_within L"
  for eig em L
proof (unfold_locales, goal_cases)
  case (1 st input clk out st')
  then show ?case
    using steer_inv_run [of em L st input eig clk out st'] by blast
qed

end
