(* ===== verification/Mpc_Facts.thy ===== *)
theory Mpc_Facts
  imports Lateral_Run
begin

text \<open>
  What the optimisation depends on: the tables of the steering rate limits always give a limit,
  the gradient has one row, and the solver reads neither the bounds nor the previous commands.
\<close>

section \<open>Rate limits\<close>

lemma rate_limit_Some: "limits \<noteq> [] \<Longrightarrow> \<exists>l. rate_limit limits current = Some l"
  by (simp add: rate_limit_def)

lemma calcSteerRateLimit_Some:
  assumes "m_steer_rate_lim_map_by_curvature st \<noteq> []" and "m_steer_rate_lim_map_by_velocity st \<noteq> []"
    and "prediction_horizon (m_param st) \<le> length (t_k traj)"
    and "prediction_horizon (m_param st) \<le> length (t_vx traj)"
  obtains limits where "calcSteerRateLimitOnTrajectory st traj v = Some limits"
    and "length limits = prediction_horizon (m_param st)"
proof (cases "\<bar>v\<bar> < Fin (1 / 100)")
  case True
  then show ?thesis
    by (intro that) (auto simp: calcSteerRateLimitOnTrajectory_def Let_def)
next
  case False
  let ?n = "prediction_horizon (m_param st)"
  let ?f = "\<lambda>i. do { k \<leftarrow> at_opt (t_k traj) i;
    by_curvature \<leftarrow> rate_limit (m_steer_rate_lim_map_by_curvature st) k;
    v \<leftarrow> at_opt (t_vx traj) i; by_velocity \<leftarrow> rate_limit (m_steer_rate_lim_map_by_velocity st) v;
    Some (fmin by_curvature by_velocity) }"
  have "?f i = Some (the (?f i))" if "i \<in> set [0..<?n]" for i
  proof -
    have i: "i < length (t_k traj)" "i < length (t_vx traj)"
      using that assms(3,4) by auto
    obtain a b where "rate_limit (m_steer_rate_lim_map_by_curvature st) (t_k traj ! i) = Some a"
      "rate_limit (m_steer_rate_lim_map_by_velocity st) (t_vx traj ! i) = Some b"
      using rate_limit_Some assms(1,2) by blast
    with i show ?thesis by simp
  qed
  then have "those (map ?f [0..<?n]) = Some (map (\<lambda>i. the (?f i)) [0..<?n])"
    by (rule those_map_Some)
  with False show ?thesis
    by (intro that [of "map (\<lambda>i. the (?f i)) [0..<?n]"]) (auto simp: calcSteerRateLimitOnTrajectory_def Let_def)
qed

section \<open>Shapes\<close>

text \<open>The rows and columns of Eigen's results.\<close>

definition eigen_shapes :: "'m eigen_matrix \<Rightarrow> bool" where
  "eigen_shapes em \<longleftrightarrow>
     (\<forall>a b. em_rows em (em_mult em a b) = em_rows em a \<and> em_cols em (em_mult em a b) = em_cols em b
        \<and> em_cols em (em_add em a b) = em_cols em a \<and> em_rows em (em_sub em a b) = em_rows em a
        \<and> em_rows em (em_transpose em a) = em_cols em a)"

lemma gradient_has_one_row:
  assumes "eigen_shapes em" and "em_cols em x0 = 1"
  shows "em_rows em (cost_gradient em m x0) = 1"
  using assms by (simp add: cost_gradient_def eigen_shapes_def Let_def)

lemma addSteerWeightF_nothing:
  "eigen_shapes em \<Longrightarrow> em_cols em x0 = 1 \<Longrightarrow>
     addSteerWeightF em st dt (cost_gradient em m x0) = cost_gradient em m x0"
  by (simp add: addSteerWeightF_def gradient_has_one_row)

text \<open>What is left of the optimisation: the cost without the previous commands, and no constraint.\<close>

definition unconstrained_minimum ::
  "'m eigen_matrix \<Rightarrow> nat \<Rightarrow> 'm mpc_matrix \<Rightarrow> 'm \<Rightarrow> string + 'm" where
  "unconstrained_minimum em n m x0 =
     (if \<not> mpc_isValid em m then Inl ''invalid model matrix''
      else if \<bar>em_determinant em (cost_hessian em n m)\<bar> < Fin (1 / 10 ^ 9) then Inl ''qp solver error''
      else let u = em_neg em (em_llt_solve em (cost_hessian em n m) (em_transpose em (cost_gradient em m x0)))
           in if em_any_nan em u then Inl ''model Uex including NaN'' else Inr u)"

lemma executeOptimization_eq:
  assumes "eigen_shapes em" and "em_cols em x0 = 1"
    and "m_steer_rate_lim_map_by_curvature st \<noteq> []" and "m_steer_rate_lim_map_by_velocity st \<noteq> []"
    and "0 < prediction_horizon (m_param st)"
    and "prediction_horizon (m_param st) \<le> length (t_k traj)"
    and "prediction_horizon (m_param st) \<le> length (t_vx traj)"
  shows "executeOptimization em st dim_u m x0 dt traj v
    = Some (unconstrained_minimum em (prediction_horizon (m_param st) * dim_u) m x0)"
proof -
  obtain limits where l: "calcSteerRateLimitOnTrajectory st traj v = Some limits"
    "length limits = prediction_horizon (m_param st)"
    using calcSteerRateLimit_Some [OF assms(3,4,6,7)] .
  then have "at_opt limits 0 = Some (limits ! 0)"
    using assms(5) by simp
  with l(1) show ?thesis
    by (simp add: executeOptimization_def unconstrained_minimum_def qp_solve_def Let_def
        addSteerWeightF_nothing [OF assms(1,2)])
qed

end
