(* ===== verification/Lateral_Exit.thy ===== *)
theory Lateral_Exit
  imports Lateral_Run
begin

text \<open>
  How a received trajectory ends the process: a point that repeats its predecessor makes two arc
  lengths equal, and the spline's validation of its keys calls \<open>std::exit\<close>.
\<close>

section \<open>Lengths that do not grow\<close>

lemma fhypot_nonneg: "x \<noteq> NaN \<Longrightarrow> y \<noteq> NaN \<Longrightarrow> Fin 0 \<le> fhypot x y"
  by (cases x; cases y) (auto intro: in_range_nonneg)

lemma minus_not_NaN: "isfinite x \<Longrightarrow> isfinite y \<Longrightarrow> x - y \<noteq> NaN"
  by (auto simp: isfinite_iff minus_dbl_def)

lemma nonneg_plus: "Fin 0 \<le> x \<Longrightarrow> Fin 0 \<le> y \<Longrightarrow> Fin 0 \<le> x + y"
  by (cases x; cases y) (auto intro: in_range_nonneg)

lemma is_double_fhypot: "is_double (fhypot x y)"
  by (cases x; cases y) auto

lemma plus_zero_right: "is_double x \<Longrightarrow> x + Fin 0 = x"
  by (cases x) (auto intro: in_range_Fin)

lemma finite_self_diff: "isfinite x \<Longrightarrow> x - x = Fin 0"
  by (auto simp: isfinite_iff minus_dbl_def)

definition plane_finite :: "mpc_trajectory \<Rightarrow> bool" where
  "plane_finite t \<longleftrightarrow> (\<forall>x \<in> set (t_x t). isfinite x) \<and> (\<forall>y \<in> set (t_y t). isfinite y)"

lemma mt_distance2d_nonneg:
  assumes "plane_finite t" and "mt_distance2d t i j = Some d"
  shows "Fin 0 \<le> d \<and> is_double d"
proof -
  obtain x1 x2 y1 y2 where p: "at_opt (t_x t) i = Some x1" "at_opt (t_x t) j = Some x2"
    "at_opt (t_y t) i = Some y1" "at_opt (t_y t) j = Some y2" "d = fhypot (x1 - x2) (y1 - y2)"
    using assms(2) by (auto simp: mt_distance2d_def bind_eq_Some_conv)
  then have "isfinite x1" "isfinite x2" "isfinite y1" "isfinite y2"
    using assms(1) by (auto simp: plane_finite_def at_opt_def split: if_splits)
  with p(5) show ?thesis
    by (simp add: fhypot_nonneg minus_not_NaN is_double_fhypot)
qed

lemma mt_distance2d_repeat:
  assumes "plane_finite t" and "i < length (t_x t)" and "i < length (t_y t)" and "j < length (t_x t)"
    and "j < length (t_y t)" and "t_x t ! i = t_x t ! j" and "t_y t ! i = t_y t ! j"
  shows "mt_distance2d t i j = Some (Fin 0)"
  using assms by (simp add: mt_distance2d_def plane_finite_def finite_self_diff)

text \<open>The arc lengths are numbers, and the one after a zero distance equals its predecessor.\<close>

lemma arc_lengths_zero_step:
  assumes "plane_finite t" and "arc_lengths_from t len is = Some ls"
    and "Fin 0 \<le> len" and "is_double len"
    and "k < length is" and "mt_distance2d t (is ! k) (is ! k - 1) = Some (Fin 0)"
  shows "k < length ls \<and> (len # ls) ! (k + 1) = (len # ls) ! k \<and> (len # ls) ! k \<noteq> NaN"
  using assms(2-)
proof (induction "is" arbitrary: len ls k)
  case (Cons i "is")
  obtain d rest where r: "mt_distance2d t i (i - 1) = Some d"
    "arc_lengths_from t (len + d) is = Some rest" "ls = (len + d) # rest"
    using Cons.prems(1) by (auto simp: bind_eq_Some_conv)
  have d: "Fin 0 \<le> d" "is_double d"
    using mt_distance2d_nonneg [OF assms(1) r(1)] by auto
  show ?case
  proof (cases k)
    case 0
    then have "d = Fin 0"
      using Cons.prems(5) r(1) by simp
    then show ?thesis
      using 0 r(3) Cons.prems(2,3) by (auto simp: plus_zero_right)
  next
    case (Suc j)
    have "j < length rest \<and> ((len + d) # rest) ! (j + 1) = ((len + d) # rest) ! j \<and> ((len + d) # rest) ! j \<noteq> NaN"
      using Cons.prems d Suc r by (intro Cons.IH) (auto intro: nonneg_plus)
    then show ?thesis
      using Suc r(3) by simp
  qed
qed simp

lemma successively_nth: "successively P xs \<Longrightarrow> Suc k < length xs \<Longrightarrow> P (xs ! k) (xs ! Suc k)"
  by (induction P xs arbitrary: k rule: successively.induct) (auto simp: nth_Cons split: nat.splits)

lemma arc_lengths_not_increasing:
  assumes "plane_finite t" and "aligned n t" and "k + 1 < n"
    and "t_x t ! k = t_x t ! (k + 1)" and "t_y t ! k = t_y t ! (k + 1)"
    and "mpcArcLengths t = Some ls"
  shows "isIncreasing ls = Some False"
proof -
  obtain rest where r: "arc_lengths_from t (Fin 0) [1..<n] = Some rest" "ls = Fin 0 # rest"
    using assms(2,6) by (auto simp: mpcArcLengths_def aligned_size)
  have "mt_distance2d t ([1..<n] ! k) ([1..<n] ! k - 1) = Some (Fin 0)"
    using assms by (intro mt_distance2d_repeat) (auto simp: aligned_def)
  then have "k < length rest \<and> ls ! (k + 1) = ls ! k \<and> ls ! k \<noteq> NaN"
    using arc_lengths_zero_step [OF assms(1) r(1), of k] assms(3) r(2) by simp
  then have "\<not> successively (\<lambda>a b. \<not> b \<le> a) ls"
    using successively_nth [of "\<lambda>a b. \<not> b \<le> a" ls k] r(2) by (auto intro: dbl_refl)
  then show ?thesis
    using r(2) by (simp add: isIncreasing_def)
qed

section \<open>The spline and the resampling end the process\<close>

lemma spline_exits: "isIncreasing keys = Some False \<Longrightarrow> spline_values keys vs qs = None"
proof -
  assume a: "isIncreasing keys = Some False"
  have "s_base_keys s = keys" if "calcSplineCoefficients keys vs = Some s" for s
    using that by (auto simp: calcSplineCoefficients_def bind_eq_Some_conv Let_def split: if_splits)
  moreover have "validateKeys keys qs = None"
    using a by (cases "isNotDecreasing qs") (auto simp: validateKeys_def)
  ultimately show ?thesis
    by (cases "calcSplineCoefficients keys vs") (auto simp: spline_values_def getSplineInterpolatedValues_def)
qed

lemma resample_exits:
  assumes "plane_finite t" and "aligned n t" and "k + 1 < n"
    and "t_x t ! k = t_x t ! (k + 1)" and "t_y t ! k = t_y t ! (k + 1)"
  shows "resampleMPCTrajectoryByDistance t step seg off = None"
proof (cases "mpcArcLengths t")
  case (Some ls)
  then have inc: "isIncreasing ls = Some False"
    using assms by (intro arc_lengths_not_increasing)
  then have "ls \<noteq> []"
    by (auto simp: isIncreasing_def)
  with Some inc assms(2,3) show ?thesis
    by (cases "output_arc_lengths ls step seg off")
      (auto simp: resampleMPCTrajectoryByDistance_def Let_def aligned_empty spline_exits)
qed (use assms(2,3) in \<open>simp add: resampleMPCTrajectoryByDistance_def aligned_empty\<close>)

section \<open>From the message to the trajectory\<close>

lemma times_from_length: "times_from t time is = Some r \<Longrightarrow> length r = length is"
  by (induction t time "is" arbitrary: r rule: times_from.induct) (auto simp: bind_eq_Some_conv Let_def)

lemma calcMPCTrajectoryTime_frame:
  assumes "calcMPCTrajectoryTime t = Some t'"
  shows "t_x t' = t_x t" "t_y t' = t_y t" "t_z t' = t_z t" "t_yaw t' = t_yaw t" "t_vx t' = t_vx t"
    "t_k t' = t_k t" "t_smooth_k t' = t_smooth_k t" "length (t_relative_time t') = length (t_x t)"
  using assms by (auto simp: calcMPCTrajectoryTime_def dest!: times_from_length split: if_splits)

lemma push_points:
  "t_x (fold (\<lambda>p t. mt_push_back (point_of_message p) t) pts t) = t_x t @ map (\<lambda>p. vx (tp_position p)) pts"
  "t_y (fold (\<lambda>p t. mt_push_back (point_of_message p) t) pts t) = t_y t @ map (\<lambda>p. vy (tp_position p)) pts"
  by (induction pts arbitrary: t) (auto simp: mt_push_back_def point_of_message_def)

lemma aligned_push_points:
  "aligned n t \<Longrightarrow> aligned (n + length pts) (fold (\<lambda>p t. mt_push_back (point_of_message p) t) pts t)"
proof (induction pts arbitrary: n t)
  case (Cons p pts)
  from Cons.IH [OF aligned_push_back [OF Cons.prems]] show ?case
    by simp
qed simp

lemma convertToMPCTrajectory_Some:
  assumes "convertToMPCTrajectory pts = Some t"
  shows "aligned (length pts) t" and "t_x t = map (\<lambda>p. vx (tp_position p)) pts"
    and "t_y t = map (\<lambda>p. vy (tp_position p)) pts"
proof -
  let ?t = "fold (\<lambda>p t. mt_push_back (point_of_message p) t) pts no_points"
  have "aligned (0 + length pts) ?t"
    by (rule aligned_push_points) (simp add: aligned_def no_points_def)
  with assms show "aligned (length pts) t"
    using calcMPCTrajectoryTime_frame [of ?t t]
    by (simp add: convertToMPCTrajectory_def aligned_def)
  show "t_x t = map (\<lambda>p. vx (tp_position p)) pts" "t_y t = map (\<lambda>p. vy (tp_position p)) pts"
    using assms calcMPCTrajectoryTime_frame [of ?t t]
    by (simp_all add: convertToMPCTrajectory_def push_points no_points_def)
qed

definition repeats_point :: "tp list \<Rightarrow> bool" where
  "repeats_point pts \<longleftrightarrow>
     (\<exists>k. k + 1 < length pts \<and> vx (tp_position (pts ! k)) = vx (tp_position (pts ! (k + 1)))
        \<and> vy (tp_position (pts ! k)) = vy (tp_position (pts ! (k + 1))))"

lemma setReferenceTrajectory_exits:
  assumes "repeats_point pts" and "lat_isValidTrajectory pts"
  shows "setReferenceTrajectory eig pts p odom st = None"
proof -
  have "resampleMPCTrajectoryByDistance t step seg off = None"
    if "convertToMPCTrajectory pts = Some t" for t step seg off
  proof -
    note t = convertToMPCTrajectory_Some [OF that]
    have "plane_finite t"
      using assms(2) by (auto simp: plane_finite_def lat_isValidTrajectory_def t(2,3))
    moreover obtain k where "k + 1 < length pts" "t_x t ! k = t_x t ! (k + 1)" "t_y t ! k = t_y t ! (k + 1)"
      using assms(1) by (auto simp: repeats_point_def t(2,3))
    ultimately show ?thesis
      using t(1) by (intro resample_exits)
  qed
  then show ?thesis
    by (auto simp: setReferenceTrajectory_def bind_eq_None_conv)
qed

lemma lat_setTrajectory_exits:
  assumes "repeats_point (points msg)" and "lat_isValidTrajectory (points msg)" and "3 \<le> length (points msg)"
  shows "lat_setTrajectory eig msg odom st = None"
  using assms setReferenceTrajectory_exits [OF assms(1,2)] by (simp add: lat_setTrajectory_def Let_def)

end
