(* ===== verification/Vehicle_Info.thy ===== *)
theory Vehicle_Info
  imports Doubles Longitudinal_State
begin

text \<open>
  \<open>autoware_vehicle_info_utils\<close>: the dimensions of the vehicle from the parameters of the node
  (\<open>vehicle_info.cpp\<close>, \<open>vehicle_info_utils.cpp\<close>). Values that are not positive are only logged.
\<close>

record vehicle_info =
  wheel_radius_m :: dbl
  wheel_width_m :: dbl
  wheel_base_m :: dbl
  wheel_tread_m :: dbl
  front_overhang_m :: dbl
  rear_overhang_m :: dbl
  left_overhang_m :: dbl
  right_overhang_m :: dbl
  vehicle_height_m :: dbl
  max_steer_angle_rad :: dbl
  vehicle_length_m :: dbl
  vehicle_width_m :: dbl
  min_longitudinal_offset_m :: dbl
  max_longitudinal_offset_m :: dbl
  min_lateral_offset_m :: dbl
  max_lateral_offset_m :: dbl
  min_height_offset_m :: dbl
  max_height_offset_m :: dbl

text \<open>A wheel base or a steering limit near zero is replaced by a millionth.\<close>

definition away_from_zero :: "dbl \<Rightarrow> dbl" where
  "away_from_zero x = (if \<bar>x\<bar> < Fin (1 / 10 ^ 6) then Fin (1 / 10 ^ 6) else x)"

definition createVehicleInfo ::
  "dbl \<Rightarrow> dbl \<Rightarrow> dbl \<Rightarrow> dbl \<Rightarrow> dbl \<Rightarrow> dbl \<Rightarrow> dbl \<Rightarrow> dbl \<Rightarrow> dbl \<Rightarrow> dbl \<Rightarrow> vehicle_info" where
  "createVehicleInfo wheel_radius wheel_width wheel_base_arg wheel_tread front_overhang rear_overhang
     left_overhang right_overhang vehicle_height max_steer_angle_arg =
     (let base = away_from_zero wheel_base_arg;
          max_steer_angle = away_from_zero max_steer_angle_arg
      in \<lparr>wheel_radius_m = wheel_radius, wheel_width_m = wheel_width, wheel_base_m = base,
          wheel_tread_m = wheel_tread, front_overhang_m = front_overhang,
          rear_overhang_m = rear_overhang, left_overhang_m = left_overhang,
          right_overhang_m = right_overhang, vehicle_height_m = vehicle_height,
          max_steer_angle_rad = max_steer_angle,
          vehicle_length_m = front_overhang + base + rear_overhang,
          vehicle_width_m = wheel_tread + left_overhang + right_overhang,
          min_longitudinal_offset_m = - rear_overhang,
          max_longitudinal_offset_m = front_overhang + base,
          min_lateral_offset_m = - (wheel_tread div Fin 2 + right_overhang),
          max_lateral_offset_m = wheel_tread div Fin 2 + left_overhang,
          min_height_offset_m = Fin 0,
          max_height_offset_m = vehicle_height\<rparr>)"

definition getVehicleInfo :: "(string \<Rightarrow> dbl option) \<Rightarrow> vehicle_info" where
  "getVehicleInfo params =
     (let real = (\<lambda>name d. default_to d (params name))
      in createVehicleInfo (real ''wheel_radius'' (Fin (39 / 100))) (real ''wheel_width'' (Fin (42 / 100)))
           (real ''wheel_base'' (Fin (274 / 100))) (real ''wheel_tread'' (Fin (163 / 100)))
           (real ''front_overhang'' (Fin 1)) (real ''rear_overhang'' (Fin (103 / 100)))
           (real ''left_overhang'' (Fin (1 / 10))) (real ''right_overhang'' (Fin (1 / 10)))
           (real ''vehicle_height'' (Fin (25 / 10))) (real ''max_steer_angle'' (Fin (70 / 100))))"

text \<open>The wheel base and the steering limit are at least a millionth away from zero.\<close>

lemma away_from_zero_ge: "isfinite x \<Longrightarrow> Fin (1 / 10 ^ 6) \<le> \<bar>away_from_zero x\<bar>"
  by (cases x) (auto simp: away_from_zero_def)

end
