(* ===== verification/Lateral_Construct.thy ===== *)
theory Lateral_Construct
  imports Lateral_Controller Vehicle_Info
begin

text \<open>
  The constructor of the lateral controller (\<open>mpc_lateral_controller.cpp\<close>): the parameters it
  declares, the vehicle model, the tables of the steering rate limits, the delay compensation,
  the filters and the offset estimator. An exception of \<open>at\<close> is \<open>None\<close>.
\<close>

text \<open>The parameters of the node by name and type, as for the longitudinal controller.\<close>

record lateral_env =
  lat_real :: "string \<Rightarrow> dbl option"
  lat_bool :: "string \<Rightarrow> bool option"
  lat_int :: "string \<Rightarrow> int option"
  lat_text :: "string \<Rightarrow> string option"
  lat_reals :: "string \<Rightarrow> dbl list option"

definition createVehicleModel ::
  "lateral_env \<Rightarrow> dbl \<Rightarrow> dbl \<Rightarrow> dbl \<Rightarrow> vehicle_model option" where
  "createVehicleModel env wheelbase steer_lim steer_tau =
     (let kind = default_to ''kinematics'' (lat_text env ''vehicle_model_type'');
          real = (\<lambda>name. default_to (Fin 0) (lat_real env name))
      in if kind = ''kinematics'' then Some (KinematicsBicycleModel wheelbase steer_lim steer_tau)
         else if kind = ''kinematics_no_delay'' then Some (KinematicsBicycleModelNoDelay wheelbase steer_lim)
         else if kind = ''dynamics'' then
           Some (DynamicsBicycleModel wheelbase (real ''vehicle.mass_fl'') (real ''vehicle.mass_fr'')
             (real ''vehicle.mass_rl'') (real ''vehicle.mass_rr'') (real ''vehicle.cf'') (real ''vehicle.cr''))
         else None)"

definition createQPSolverInterface :: "lateral_env \<Rightarrow> bool" where
  "createQPSolverInterface env \<longleftrightarrow>
     default_to ''unconstraint_fast'' (lat_text env ''qp_solver_type'') = ''unconstraint_fast''"

text \<open>A negative count, which has no \<open>size_t\<close>, is undefined in C++; the model takes 0.\<close>

definition createSteerOffsetEstimator :: "lateral_env \<Rightarrow> dbl \<Rightarrow> steering_offset" where
  "createSteerOffsetEstimator env wheelbase =
     offset_construct wheelbase (nat (default_to 1000 (lat_int env ''steering_offset.average_num'')))
       (default_to (Fin (556 / 100)) (lat_real env ''steering_offset.update_vel_threshold''))
       (default_to (Fin (35 / 1000)) (lat_real env ''steering_offset.update_steer_threshold''))
       (default_to (Fin (2 / 100)) (lat_real env ''steering_offset.steering_offset_limit''))"

text \<open>The table of a limit: one entry for each limit, whose key \<open>at\<close> must find.\<close>

definition rate_table :: "dbl list \<Rightarrow> dbl list \<Rightarrow> (dbl \<times> dbl) list option" where
  "rate_table keys limits_dps =
     those (map (\<lambda>i. map_option (\<lambda>k. (k, limits_dps ! i * (Fin pi div Fin 180))) (at_opt keys i))
       [0..<length limits_dps])"

definition weights :: "lateral_env \<Rightarrow> mpc_weight" where
  "weights env =
     (let real = (\<lambda>name d. default_to d (lat_real env name))
      in \<lparr>w_lat_error = real ''mpc_weight_lat_error'' (Fin 1),
          w_heading_error = real ''mpc_weight_heading_error'' (Fin 0),
          w_heading_error_squared_vel = real ''mpc_weight_heading_error_squared_vel'' (Fin (3 / 10)),
          w_terminal_lat_error = real ''mpc_weight_terminal_lat_error'' (Fin 1),
          w_terminal_heading_error = real ''mpc_weight_terminal_heading_error'' (Fin (1 / 10)),
          w_steering_input = real ''mpc_weight_steering_input'' (Fin 1),
          w_steering_input_squared_vel = real ''mpc_weight_steering_input_squared_vel'' (Fin (25 / 100)),
          w_lat_jerk = real ''mpc_weight_lat_jerk'' (Fin (1 / 10)),
          w_steer_rate = real ''mpc_weight_steer_rate'' (Fin 0),
          w_steer_acc = real ''mpc_weight_steer_acc'' (Fin (1 / 10 ^ 6))\<rparr>)"

text \<open>The terminal weights at low curvature are not set and not read.\<close>

definition low_weights :: "lateral_env \<Rightarrow> mpc_weight" where
  "low_weights env =
     (let real = (\<lambda>name d. default_to d (lat_real env name))
      in \<lparr>w_lat_error = real ''mpc_low_curvature_weight_lat_error'' (Fin (1 / 10)),
          w_heading_error = real ''mpc_low_curvature_weight_heading_error'' (Fin 0),
          w_heading_error_squared_vel =
            real ''mpc_low_curvature_weight_heading_error_squared_vel'' (Fin (3 / 10)),
          w_terminal_lat_error = Fin 0, w_terminal_heading_error = Fin 0,
          w_steering_input = real ''mpc_low_curvature_weight_steering_input'' (Fin 1),
          w_steering_input_squared_vel =
            real ''mpc_low_curvature_weight_steering_input_squared_vel'' (Fin (25 / 100)),
          w_lat_jerk = real ''mpc_low_curvature_weight_lat_jerk'' (Fin 0),
          w_steer_rate = real ''mpc_low_curvature_weight_steer_rate'' (Fin 0),
          w_steer_acc = real ''mpc_low_curvature_weight_steer_acc'' (Fin (1 / 10 ^ 6))\<rparr>)"

text \<open>\<open>declareMPCparameters\<close> with the delay and the time constant that the constructor sets.\<close>

definition declareMPCparameters :: "lateral_env \<Rightarrow> dbl \<Rightarrow> dbl \<Rightarrow> mpc_params" where
  "declareMPCparameters env delay steer_tau =
     (let real = (\<lambda>name d. default_to d (lat_real env name))
      in \<lparr>prediction_horizon = nat (default_to 50 (lat_int env ''mpc_prediction_horizon'')),
          prediction_dt = real ''mpc_prediction_dt'' (Fin (1 / 10)),
          zero_ff_steer_deg = real ''mpc_zero_ff_steer_deg'' (Fin (5 / 10)),
          input_delay = delay,
          acceleration_limit = real ''mpc_acceleration_limit'' (Fin 2),
          velocity_time_constant = real ''mpc_velocity_time_constant'' (Fin (3 / 10)),
          min_prediction_length = real ''mpc_min_prediction_length'' (Fin 5),
          mp_steer_tau = steer_tau,
          nominal_weight = weights env,
          low_curvature_weight = low_weights env,
          low_curvature_thresh_curvature = real ''mpc_low_curvature_thresh_curvature'' (Fin 0)\<rparr>)"

definition filtering_of :: "lateral_env \<Rightarrow> filtering_params" where
  "filtering_of env =
     \<lparr>traj_resample_dist = default_to (Fin (1 / 10)) (lat_real env ''traj_resample_dist''),
      extend_trajectory_for_end_yaw_control =
        default_to False (lat_bool env ''extend_trajectory_for_end_yaw_control''),
      enable_path_smoothing = default_to False (lat_bool env ''enable_path_smoothing''),
      path_filter_moving_ave_num = default_to 25 (lat_int env ''path_filter_moving_ave_num''),
      curvature_smoothing_num_traj = default_to 15 (lat_int env ''curvature_smoothing_num_traj''),
      curvature_smoothing_num_ref_steer =
        default_to 15 (lat_int env ''curvature_smoothing_num_ref_steer'')\<rparr>"

definition lateral_configure :: "lateral_env \<Rightarrow> lateral_config" where
  "lateral_configure env =
     (let real = (\<lambda>name d. default_to d (lat_real env name))
      in \<lparr>lc_filtering = filtering_of env,
          lc_stop_state_entry_ego_speed = real ''stop_state_entry_ego_speed'' (Fin (1 / 1000)),
          lc_stop_state_entry_target_speed = real ''stop_state_entry_target_speed'' (Fin (1 / 1000)),
          lc_converged_steer_rad = real ''converged_steer_rad'' (Fin (1 / 10)),
          lc_mpc_converged_threshold_rps = real ''mpc_converged_threshold_rps'' (Fin (1 / 100)),
          lc_new_traj_duration_time = real ''new_traj_duration_time'' (Fin 1),
          lc_new_traj_end_dist = real ''new_traj_end_dist'' (Fin (3 / 10)),
          lc_keep_steer_control_until_converged =
            default_to True (lat_bool env ''keep_steer_control_until_converged''),
          lc_nearest_dist_threshold = real ''ego_nearest_dist_threshold'' (Fin 0),
          lc_nearest_yaw_threshold = real ''ego_nearest_yaw_threshold'' (Fin 0),
          lc_auto_steering_offset_removal =
            default_to False (lat_bool env ''steering_offset.enable_auto_steering_offset_removal'')\<rparr>)"

text \<open>
  The delay is a whole number of control periods; the buffer holds one input for each. A number
  of periods that is no \<open>size_t\<close> is undefined in C++: \<open>None\<close>.
\<close>

definition mpc_construct :: "lateral_env \<Rightarrow> int \<Rightarrow> mpc option" where
  "mpc_construct env now_ns =
     do {
       let real = (\<lambda>name d. default_to d (lat_real env name));
       let info = getVehicleInfo (lat_real env);
       let period = real ''ctrl_period'' (Fin 0);
       let steer_tau = real ''vehicle_model_steer_tau'' (Fin (27 / 100));
       by_curvature \<leftarrow> rate_table
         (default_to [Fin (1 / 1000), Fin (2 / 1000), Fin (1 / 100)]
            (lat_reals env ''curvature_list_for_steer_rate_lim''))
         (default_to [Fin 40, Fin 50, Fin 60] (lat_reals env ''steer_rate_lim_dps_list_by_curvature''));
       by_velocity \<leftarrow> rate_table
         (default_to [Fin 10, Fin 15, Fin 20] (lat_reals env ''velocity_list_for_steer_rate_lim''))
         (default_to [Fin 60, Fin 50, Fin 40] (lat_reals env ''steer_rate_lim_dps_list_by_velocity''));
       let delay_step = fround (real ''input_delay'' (Fin 0) div period);
       n \<leftarrow> cast_u32 delay_step;
       let filter = butterworth_initialize (Fin (1 / 100)) (Fin 5);
       let params = declareMPCparameters env (delay_step * period) steer_tau;
       let m = \<lparr>m_vehicle_model =
               createVehicleModel env (wheel_base_m info) (max_steer_angle_rad info) steer_tau,
             m_has_qpsolver = createQPSolverInterface env,
             m_steering_predictor = predictor_construct steer_tau (delay_step * period) now_ns,
             m_lpf_steering_cmd = filter, m_lpf_lateral_error = filter, m_lpf_yaw_error = filter,
             m_raw_steer_cmd_pprev = Fin 0, m_lateral_error_prev = Fin 0, m_yaw_error_prev = Fin 0,
             m_is_forward_shift = True, m_reference_trajectory = no_points, m_param = params,
             m_input_buffer = replicate (nat n) (Fin 0), m_raw_steer_cmd_prev = Fin 0,
             m_admissible_position_error = real ''admissible_position_error'' (Fin 5),
             m_admissible_yaw_error_rad = real ''admissible_yaw_error_rad'' (Fin (157 / 100)),
             m_steer_lim = max_steer_angle_rad info, m_ctrl_period = period,
             m_steer_rate_lim_map_by_curvature = by_curvature,
             m_steer_rate_lim_map_by_velocity = by_velocity,
             m_use_steer_prediction = default_to False (lat_bool env ''use_steer_prediction''),
             mpc_nearest_dist_threshold = real ''ego_nearest_dist_threshold'' (Fin 0),
             mpc_nearest_yaw_threshold = real ''ego_nearest_yaw_threshold'' (Fin 0)\<rparr>;
       Some (initializeSteeringPredictor now_ns
         (initializeLowPassFilters (real ''steering_lpf_cutoff_hz'' (Fin 10))
           (real ''error_deriv_lpf_cutoff_hz'' (Fin 10)) m))
     }"

text \<open>The stored messages and the previous command, which \<open>run\<close> sets before it reads them, are zero.\<close>

definition lateral_construct :: "lateral_env \<Rightarrow> int \<Rightarrow> lateral_state option" where
  "lateral_construct env now_ns =
     do {
       m \<leftarrow> mpc_construct env now_ns;
       Some \<lparr>ls_config = lateral_configure env, ls_mpc = m,
             ls_solved_status = \<lparr>rr_result = True, rr_reason = ''''\<rparr>,
             ls_trajectory_buffer = [], ls_is_mpc_history_filled = False, ls_steering_history = [],
             ls_kinematic_state = zero_odometry, ls_steering = zero_steering,
             ls_trajectory = empty_trajectory, ls_steer_cmd_prev = Fin 0,
             ls_is_ctrl_cmd_prev_initialized = False, ls_ctrl_cmd_prev = zero_lateral,
             ls_has_received_first_trajectory = False,
             ls_steering_offset = createSteerOffsetEstimator env
               (wheel_base_m (getVehicleInfo (lat_real env)))\<rparr>
     }"

end
