(* ===== verification/Lateral_Sample.thy ===== *)
theory Lateral_Sample
  imports Mpc_Facts Lateral_Exit Lateral_Construct Longitudinal_Sample
begin

text \<open>
  Sample values of the lateral controller: Eigen's matrices as a shape and a function, the
  parameters the node ships with, and inputs without a usable trajectory.
\<close>

section \<open>Matrices\<close>

type_synonym matrix = "nat \<times> nat \<times> (nat \<Rightarrow> nat \<Rightarrow> dbl)"

definition coeff_of :: "matrix \<Rightarrow> nat \<Rightarrow> nat \<Rightarrow> dbl" where
  "coeff_of m i j = (case m of (r, c, f) \<Rightarrow> if i < r \<and> j < c then f i j else Fin 0)"

definition sum_of :: "dbl list \<Rightarrow> dbl" where
  "sum_of xs = foldl (+) (Fin 0) xs"

text \<open>The expansion of the determinant along the first row.\<close>

primrec determinant :: "nat \<Rightarrow> (nat \<Rightarrow> nat \<Rightarrow> dbl) \<Rightarrow> dbl" where
  "determinant 0 f = Fin 1"
| "determinant (Suc n) f =
     sum_of (map (\<lambda>j. (if even j then f 0 j else - f 0 j)
       * determinant n (\<lambda>i k. f (Suc i) (if k < j then k else Suc k))) [0..<Suc n])"

definition coeffs :: "matrix \<Rightarrow> dbl list" where
  "coeffs m = (case m of (r, c, f) \<Rightarrow> concat (map (\<lambda>i. map (f i) [0..<c]) [0..<r]))"

text \<open>Linear systems by Cramer's rule, and from them the inverse.\<close>

definition solve :: "matrix \<Rightarrow> matrix \<Rightarrow> matrix" where
  "solve a b =
     (case a of (n, _, f) \<Rightarrow> case b of (_, c, g) \<Rightarrow>
        (n, c, \<lambda>i j. determinant n (\<lambda>k l. if l = i then g k j else f k l) div determinant n f))"

definition identity_of :: "nat \<Rightarrow> matrix" where
  "identity_of n = (n, n, \<lambda>i j. if i = j then Fin 1 else Fin 0)"

definition plain_matrix :: "matrix eigen_matrix" where
  "plain_matrix =
     \<lparr>em_zero = \<lambda>r c. (r, c, \<lambda>i j. Fin 0),
      em_identity = identity_of,
      em_fill = \<lambda>r c xs. (r, c, \<lambda>i j. xs ! (i * c + j)),
      em_coeff = coeff_of,
      em_set = \<lambda>(r, c, f) i j v. (r, c, \<lambda>k l. if k = i \<and> l = j then v else f k l),
      em_block = \<lambda>m i j r c. (r, c, \<lambda>k l. coeff_of m (i + k) (j + l)),
      em_set_block = \<lambda>(r, c, f) i j (r', c', g). (r, c, \<lambda>k l.
        if i \<le> k \<and> k < i + r' \<and> j \<le> l \<and> l < j + c' then g (k - i) (l - j) else f k l),
      em_column = \<lambda>m. map (\<lambda>i. coeff_of m i 0) [0..<fst m],
      em_rows = fst,
      em_cols = \<lambda>m. fst (snd m),
      em_add = \<lambda>(r, c, f) m. (r, c, \<lambda>i j. f i j + coeff_of m i j),
      em_sub = \<lambda>(r, c, f) m. (r, c, \<lambda>i j. f i j - coeff_of m i j),
      em_neg = \<lambda>(r, c, f). (r, c, \<lambda>i j. - f i j),
      em_scale = \<lambda>s (r, c, f). (r, c, \<lambda>i j. s * f i j),
      em_mult = \<lambda>(r, n, f) (_, c, g). (r, c, \<lambda>i j. sum_of (map (\<lambda>k. f i k * g k j) [0..<n])),
      em_transpose = \<lambda>(r, c, f). (c, r, \<lambda>i j. f j i),
      em_inverse = \<lambda>m. solve m (identity_of (fst m)),
      em_determinant = \<lambda>(n, _, f). determinant n f,
      em_llt_solve = solve,
      em_set_upper = \<lambda>(r, c, f) m. (r, c, \<lambda>i j. if i \<le> j then coeff_of m i j else f i j),
      em_add_upper = \<lambda>(r, c, f) m. (r, c, \<lambda>i j. if i \<le> j then f i j + coeff_of m i j else f i j),
      em_set_lower = \<lambda>(r, c, f) m. (r, c, \<lambda>i j. if j \<le> i then coeff_of m i j else f i j),
      em_any_nan = \<lambda>m. NaN \<in> set (coeffs m),
      em_any_inf = \<lambda>m. PInf \<in> set (coeffs m) \<or> NInf \<in> set (coeffs m)\<rparr>"

lemma plain_shapes: "eigen_shapes plain_matrix"
  by (auto simp: eigen_shapes_def plain_matrix_def)

lemma plain_finds_nan: "finds_nan plain_matrix"
proof -
  have "coeff_of u i 0 \<noteq> NaN" if "NaN \<notin> set (coeffs u)" for u i
  proof -
    obtain r c f where u: "u = (r, c, f)"
      by (cases u) auto
    have "f i 0 \<in> set (coeffs u)" if "i < r" "0 < c"
      using that by (auto simp: u coeffs_def intro!: bexI [of _ i] imageI)
    then show ?thesis
      using that by (auto simp: u coeff_of_def)
  qed
  then have "NaN \<notin> set (coeffs u) \<longrightarrow> coeff_of u 0 0 \<noteq> NaN \<and> NaN \<notin> (\<lambda>i. coeff_of u i 0) ` {0..<n}" for u n
    by (metis imageE)
  then show ?thesis
    by (simp add: finds_nan_def plain_matrix_def)
qed

text \<open>A problem of one input whose feed-forward is a tenth, with no state to control.\<close>

definition one_step :: "matrix mpc_matrix" where
  "one_step = (zero_matrix plain_matrix 1 1 1 1)
     \<lparr>R1ex := (1, 1, \<lambda>i j. Fin 1), Uref_ex := (1, 1, \<lambda>i j. Fin (1 / 10))\<rparr>"

lemma one_step_minimum:
  "\<exists>u. unconstrained_minimum plain_matrix 1 one_step (1, 1, \<lambda>i j. Fin 0) = Inr u
     \<and> em_coeff plain_matrix u 0 0 = Fin (1 / 10)"
  by (simp add: unconstrained_minimum_def one_step_def zero_matrix_def plain_matrix_def mpc_isValid_def
      cost_hessian_def cost_gradient_def coeffs_def coeff_of_def sum_of_def solve_def minus_dbl_def Let_def)

section \<open>Parameters and inputs\<close>

definition lateral_shipped_env :: lateral_env where
  "lateral_shipped_env =
     \<lparr>lat_real = [''ctrl_period'' \<mapsto> Fin (15 / 100)], lat_bool = \<lambda>n. None, lat_int = \<lambda>n. None,
      lat_text = \<lambda>n. None, lat_reals = \<lambda>n. None\<rparr>"

text \<open>A plan whose goal is given twice, and a vehicle with a turned wheel and no plan.\<close>

definition halting_plan :: trajectory where
  "halting_plan = empty_trajectory\<lparr>traj_stamp := \<lparr>sec = 1, nanosec = 0\<rparr>, points := [point_at 0 5, point_at 1 0, point_at 1 0]\<rparr>"

definition brief_input :: input_data where
  "brief_input = start_input\<lparr>in_trajectory := empty_trajectory,
     in_steering := zero_steering\<lparr>report_steering_tire_angle := Fin (1 / 2)\<rparr>\<rparr>"

definition zero_lateral_clock :: lateral_clock where
  "zero_lateral_clock =
     \<lparr>at_prediction = 0, at_store = 0, at_history = 0, at_output = 0, at_horizon = 0\<rparr>"

lemma shipped_mpc:
  obtains m where "mpc_construct lateral_shipped_env 0 = Some m" and "m_reference_trajectory m = no_points"
    and "m_steer_rate_lim_map_by_curvature m \<noteq> []" and "m_steer_rate_lim_map_by_velocity m \<noteq> []"
proof -
  have "cast_u32 (fround (Fin 0)) = Some 0"
    by (simp add: fround_def round_away_def cast_int_def trunc_def keep_inf_def)
  then have "\<exists>m. mpc_construct lateral_shipped_env 0 = Some m \<and> m_reference_trajectory m = no_points
    \<and> m_steer_rate_lim_map_by_curvature m \<noteq> [] \<and> m_steer_rate_lim_map_by_velocity m \<noteq> []"
    by (simp add: mpc_construct_def lateral_shipped_env_def default_to_def Let_def rate_table_def
        upt_rec initializeSteeringPredictor_def initializeLowPassFilters_def)
  then show ?thesis
    using that by blast
qed

lemma shipped_lateral:
  obtains st where "lateral_construct lateral_shipped_env 0 = Some st"
    and "m_reference_trajectory (ls_mpc st) = no_points" and "ls_steer_cmd_prev st = Fin 0"
    and "\<not> lc_auto_steering_offset_removal (ls_config st)"
proof -
  obtain m where "mpc_construct lateral_shipped_env 0 = Some m" "m_reference_trajectory m = no_points"
    by (rule shipped_mpc)
  then show ?thesis
    by (intro that [of "the (lateral_construct lateral_shipped_env 0)"])
      (simp_all add: lateral_construct_def lateral_configure_def lateral_shipped_env_def default_to_def Let_def)
qed

lemma no_reference_calculate:
  "m_reference_trajectory m = no_points \<Longrightarrow> calculateMPC eig em now1 now2 steer odom cmd hor m
     = failed (''getting MPC Data ('' @ ''error in calculating nearest pose'' @ '').'') cmd hor m"
  by (simp add: calculateMPC_def applyVelocityDynamicsFilter_def convertToAutowareTrajectory_def
      getData_def calcNearestPoseInterp_def no_points_def mt_size_def mt_empty_def)

lemma take_input_frame:
  "ls_mpc (take_input input st) = ls_mpc st" "ls_config (take_input input st) = ls_config st"
  "ls_trajectory (take_input input st) = ls_trajectory st"
  "ls_steer_cmd_prev (take_input input st) = ls_steer_cmd_prev st"
  by (simp_all add: take_input_def Let_def)

lemma brief_run:
  assumes "m_reference_trajectory (ls_mpc st) = no_points" and "\<not> lc_auto_steering_offset_removal (ls_config st)"
  shows "\<exists>out st'. lateral_run eig em clk brief_input st = Some (out, st')
    \<and> \<not> rr_result (ls_solved_status st')"
proof -
  let ?st = "take_input brief_input (st\<lparr>ls_trajectory := empty_trajectory\<rparr>)"
  have "lat_setTrajectory eig (in_trajectory brief_input) (in_odometry brief_input) st
    = Some (st\<lparr>ls_trajectory := empty_trajectory\<rparr>)"
    by (simp add: lat_setTrajectory_def brief_input_def empty_trajectory_def Let_def)
  then show ?thesis
    using assms
    by (simp add: lateral_run_def take_input_frame no_reference_calculate failed_def after_solve_def
        isStoppedState_def createLateralOutput_def createLateralCmdMsg_def getStopControlCommand_def
        empty_trajectory_def Let_def)
qed

end
