(* ===== verification/Lateral_Properties.thy ===== *)
theory Lateral_Properties
  imports Lateral_Sample Controller_Sample
begin

text \<open>
  What the lateral controller promises the node that runs it, and where it does not: the limit
  of the steering angle, the constraints that the optimisation is given and does not use, the
  trajectories that end the process, the buffers and what an unsolved cycle publishes.
\<close>

section \<open>The limit of the steering angle\<close>






section \<open>The constraints of the optimisation\<close>

text \<open>A state and a reference that the optimisation accepts, for a horizon of \<open>n\<close> steps.\<close>

definition optimisable :: "nat \<Rightarrow> mpc_trajectory \<Rightarrow> mpc \<Rightarrow> bool" where
  "optimisable n traj st \<longleftrightarrow>
     m_steer_rate_lim_map_by_curvature st \<noteq> [] \<and> m_steer_rate_lim_map_by_velocity st \<noteq> []
     \<and> prediction_horizon (m_param st) = n \<and> 0 < n \<and> n \<le> length (t_k traj) \<and> n \<le> length (t_vx traj)"

text \<open>C14. The optimisation is unconstrained. The code computes bounds on the steering angle, bounds on its
  rate from two tables and the speed, and weights of the previous commands; the solver reads no
  bound, and the gradient, a row, is never given the weights. So two controllers that differ in
  all of them find the same inputs: the minimum of the cost without constraints.
\<close>

theorem optimisation_ignores_limits:
  assumes "eigen_shapes em" and "em_cols em x0 = 1" and "optimisable n traj st" and "optimisable n traj st'"
  shows "executeOptimization em st dim_u m x0 dt traj v = Some (unconstrained_minimum em (n * dim_u) m x0)
    \<and> executeOptimization em st dim_u m x0 dt traj v = executeOptimization em st' dim_u m x0 dt' traj v'"
  using assms(3,4) executeOptimization_eq [OF assms(1,2), of st traj dim_u m dt v]
    executeOptimization_eq [OF assms(1,2), of st' traj dim_u m dt' v']
  by (simp add: optimisable_def)

lemma optimisation_ignores_limits_witness:
  "\<exists>m. mpc_construct lateral_shipped_env 0 = Some m \<and>
     (let st = m\<lparr>m_param := (m_param m)\<lparr>prediction_horizon := 1\<rparr>\<rparr>;
          traj = no_points\<lparr>t_k := [Fin 0], t_vx := [Fin 1]\<rparr>
      in \<exists>u. executeOptimization plain_matrix (st\<lparr>m_steer_lim := Fin 0, m_raw_steer_cmd_prev := Fin 1\<rparr>) 1
             one_step (1, 1, \<lambda>i j. Fin 0) (Fin 1) traj (Fin 1) = Some (Inr u)
         \<and> executeOptimization plain_matrix st 1 one_step (1, 1, \<lambda>i j. Fin 0) (Fin 2) traj (Fin 0) = Some (Inr u)
         \<and> em_coeff plain_matrix u 0 0 = Fin (1 / 10))"
proof -
  obtain m where m: "mpc_construct lateral_shipped_env 0 = Some m"
    "m_steer_rate_lim_map_by_curvature m \<noteq> []" "m_steer_rate_lim_map_by_velocity m \<noteq> []"
    by (rule shipped_mpc)
  define st where "st = m\<lparr>m_param := (m_param m)\<lparr>prediction_horizon := 1\<rparr>\<rparr>"
  define traj where "traj = no_points\<lparr>t_k := [Fin 0], t_vx := [Fin 1]\<rparr>"
  obtain u where u: "unconstrained_minimum plain_matrix 1 one_step (1, 1, \<lambda>i j. Fin 0) = Inr u"
    "em_coeff plain_matrix u 0 0 = Fin (1 / 10)"
    using one_step_minimum by blast
  have "em_cols plain_matrix (1, 1, \<lambda>i j. Fin 0) = 1"
    by (simp add: plain_matrix_def)
  moreover have "optimisable 1 traj (st\<lparr>m_steer_lim := Fin 0, m_raw_steer_cmd_prev := Fin 1\<rparr>)" "optimisable 1 traj st"
    using m by (simp_all add: optimisable_def st_def traj_def)
  ultimately have "executeOptimization plain_matrix (st\<lparr>m_steer_lim := Fin 0, m_raw_steer_cmd_prev := Fin 1\<rparr>) 1
      one_step (1, 1, \<lambda>i j. Fin 0) (Fin 1) traj (Fin 1) = Some (Inr u)
    \<and> executeOptimization plain_matrix st 1 one_step (1, 1, \<lambda>i j. Fin 0) (Fin 2) traj (Fin 0) = Some (Inr u)"
    using optimisation_ignores_limits [OF plain_shapes, of "(1, 1, \<lambda>i j. Fin 0)" 1 traj
        "st\<lparr>m_steer_lim := Fin 0, m_raw_steer_cmd_prev := Fin 1\<rparr>" st 1 one_step "Fin 1" "Fin 1" "Fin 2" "Fin 0"] u(1)
    by (simp, metis)
  with m(1) u(2) show ?thesis
    unfolding st_def traj_def Let_def by blast
qed

section \<open>A trajectory that ends the process\<close>

text \<open>C13. A place given twice ends the process. An Autoware trajectory of 3 to 250 finite points that
  repeats a point passes every check of the node and of the controller, but the controller's run
  on it does not come back: the arc lengths do not increase, and the validation of the spline's
  keys calls \<open>std::exit\<close>. This holds for any state, and no removal of overlapping points, which
  the longitudinal controller does, comes before it.
\<close>

theorem accepted_repeat_ends_process:
  assumes "node_mode cfg = SI_CONTROL" and "trajectory_source (startup cfg) = AUTOWARE"
    and "3 \<le> length (points msg)" and "length (points msg) \<le> 250"
    and "\<forall>p \<in> set (points msg). finite_point p"
    and "aw_check (autoware_trajectory_identity st) (stamp_of (traj_stamp msg)) = ACCEPT"
    and "repeats_point (points msg)" and "in_trajectory input = msg"
  shows "current_trajectory (callbackTrajectory cfg clk steady (Some msg) st) = msg
    \<and> (lateral_isReady input ls \<longleftrightarrow> hasVehicleModel (ls_mpc ls) \<and> hasQPSolver (ls_mpc ls))
    \<and> lateral_run eig em lclk input ls = None"
proof -
  have valid: "lat_isValidTrajectory (points msg)"
    using assms(5) by (simp add: lat_isValidTrajectory_def finite_point_def)
  have "lat_setTrajectory eig msg (in_odometry input) ls = None"
    by (rule lat_setTrajectory_exits [OF assms(7) valid assms(3)])
  with assms valid show ?thesis
    by (simp add: callbackTrajectory_def kMinFollowerPoints_def lateral_isReady_def lateral_run_def Let_def)
qed

lemma halting_plan_repeats: "repeats_point (points halting_plan)"
  unfolding repeats_point_def by (intro exI [of _ 1]) (simp add: halting_plan_def point_at_def)

lemma accepted_repeat_ends_process_witness:
  "current_trajectory (callbackTrajectory (sample_cfg SI_CONTROL_MODE) 0 0 (Some halting_plan) boot_state) = halting_plan
   \<and> (\<forall>ls. lateral_run plain_eigen plain_matrix zero_lateral_clock (start_input\<lparr>in_trajectory := halting_plan\<rparr>) ls = None)"
proof -
  have "aw_check (autoware_trajectory_identity boot_state) (stamp_of (traj_stamp halting_plan)) = ACCEPT"
    by (simp add: halting_plan_def boot_state_def initial_state_def stamp_of_def aw_check_def init_autoware_identity_def invalid_stamp_def)
  moreover have "\<forall>p \<in> set (points halting_plan). finite_point p"
    by (simp add: halting_plan_def finite_point_def point_at_def level_def zero_point_def zero_dbl_def)
  ultimately show ?thesis
    using accepted_repeat_ends_process [of "sample_cfg SI_CONTROL_MODE" halting_plan boot_state
        "start_input\<lparr>in_trajectory := halting_plan\<rparr>" 0 0 _ plain_eigen plain_matrix zero_lateral_clock]
      halting_plan_repeats
    by (simp add: sample_cfg_def sample_startup_def halting_plan_def)
qed

section \<open>The buffers\<close>



text \<open>The history of steering commands. A history that starts with \<open>n\<close> entries of at least a second
  ago loses only every other one of them: the loop erases the front of the vector and then
  advances its iterator past the entry that took the place.
\<close>

theorem old_steering_half_erased:
  assumes "history = ls_steering_history st @ [(cmd, Clock_now now)]" and "0 < n" and "n < length history"
    and "\<forall>i < n. old_entry (Clock_now now) (history ! i)"
    and "\<forall>i. n \<le> i \<and> i < length history \<longrightarrow> \<not> old_entry (Clock_now now) (history ! i)"
  shows "ls_steering_history (setSteeringToHistory now cmd st) = drop ((n + 1) div 2) history
    \<and> ls_is_mpc_history_filled (setSteeringToHistory now cmd st)"
proof -
  have ne: "ls_steering_history st \<noteq> []"
    using assms(1-3) by auto
  then have "hd (ls_steering_history st) = history ! 0"
    using assms(1) by (cases "ls_steering_history st") auto
  then have "Fin 1 \<le> Clock_now now - snd (hd (ls_steering_history st))"
    using assms(2,4) by (simp add: old_entry_def)
  with ne show ?thesis
    using erase_loop_drop [OF assms(3-5), of 0] assms(1) by (simp add: setSteeringToHistory_def Let_def)
qed

lemma old_steering_half_erased_witness:
  "\<exists>st. ls_steering_history (setSteeringToHistory (2 * 10 ^ 9) zero_lateral st)
      = [(zero_lateral, Fin 0), (zero_lateral, Fin 2)]"
proof -
  obtain st where "lateral_construct lateral_shipped_env 0 = Some st"
    by (rule shipped_lateral)
  define s where "s = st\<lparr>ls_steering_history := replicate 3 (zero_lateral, Fin 0)\<rparr>"
  have c: "Clock_now 2000000000 = Fin 2"
    by (simp add: Clock_now_def seconds_of_ns_Fin)
  define h where "h = [(zero_lateral, Fin 0), (zero_lateral, Fin 0), (zero_lateral, Fin 0), (zero_lateral, Fin 2)]"
  have "\<forall>i < 3. old_entry (Fin 2) (h ! i)" "\<forall>i. 3 \<le> i \<and> i < length h \<longrightarrow> \<not> old_entry (Fin 2) (h ! i)"
    by (auto simp: old_entry_def h_def minus_dbl_def numeral_3_eq_3 less_Suc_eq nth_Cons split: nat.splits)
  then have "ls_steering_history (setSteeringToHistory 2000000000 zero_lateral s) = drop ((3 + 1) div 2) h"
    using old_steering_half_erased [of h s zero_lateral 2000000000 3]
    by (simp add: c s_def h_def numeral_3_eq_3)
  then show ?thesis
    by (intro exI [of _ s]) (simp add: h_def)
qed

section \<open>An unsolved cycle\<close>






end
