(* ===== verification/Lateral_Reference.thy ===== *)
theory Lateral_Reference
  imports Lateral_Properties
begin

text \<open>
  The shape of the reference trajectory: its eight vectors keep one length through the
  resampling, the smoothing, the extension and the curvature, and it ends at rest.
\<close>

section \<open>Lengths of interpolations\<close>

lemma interpolation_loop_length: "interpolation_loop f bs vs m qs = Some ys \<Longrightarrow> length ys = length qs"
  by (induction qs arbitrary: m ys) (auto simp: bind_eq_Some_conv)

lemma cropped_length [simp]: "length (cropped bs qs) = length qs"
  by (simp add: cropped_def Let_def)

lemma lerp_table_length: "lerp_table bs vs qs = Some (Some ys) \<Longrightarrow> length ys = length qs"
  by (auto simp: lerp_table_def validateKeys_def bind_eq_Some_conv dest: interpolation_loop_length split: if_splits)

lemma spline_values_length: "spline_values bs vs qs = Some ys \<Longrightarrow> length ys = length qs"
  by (auto simp: spline_values_def getSplineInterpolatedValues_def bind_eq_Some_conv)

lemma average_filt_length: "average_filt_vector num u = (ok, ys) \<Longrightarrow> length ys = length u"
  by (auto simp: average_filt_vector_def Let_def split: if_splits)

lemma monotonic_from_length [simp]: "length (monotonic_from p as) = length as"
  by (induction p as rule: monotonic_from.induct) (auto simp: Let_def)

lemma monotonic_length [simp]: "length (convertEulerAngleToMonotonic as) = length as"
  by (cases as) auto

lemma set_at_length: "set_at xs i x = Some ys \<Longrightarrow> length ys = length xs"
  by (auto simp: set_at_def split: if_splits)

lemma those_length: "those xs = Some ys \<Longrightarrow> length ys = length xs"
  by (induction xs arbitrary: ys) (auto split: option.splits)

section \<open>The steps of the reference\<close>

lemma resample_aligned:
  assumes "resampleMPCTrajectoryByDistance t step seg off = Some (ok, t')"
  shows "\<exists>n. aligned n t'"
  using assms
  by (auto simp: resampleMPCTrajectoryByDistance_def aligned_def no_points_def uncaught_def bind_eq_Some_conv Let_def
      dest!: spline_values_length lerp_table_length split: if_splits)

lemma smooth_path_aligned: "aligned n t \<Longrightarrow> aligned n (smooth_path p t)"
  by (auto simp: smooth_path_def aligned_def Let_def dest!: average_filt_length split: prod.splits)

lemma extend_loop_aligned:
  "aligned n t \<Longrightarrow> extend_loop eig x dt m pose t = Some t' \<Longrightarrow> aligned (n + m) t'"
proof (induction m arbitrary: n pose t)
  case (Suc m)
  then obtain q where "extend_loop eig x dt m (calcOffsetPose eig pose x (Fin 0) (Fin 0) (Fin 0)) (mt_push_back q t) = Some t'"
    by (auto simp: bind_eq_Some_conv Let_def)
  from Suc.IH [OF aligned_push_back [OF Suc.prems(1)] this] show ?case
    by simp
qed auto

lemma extend_aligned:
  assumes "aligned n t" and "extendTrajectoryInYawDirection eig yaw interval forward t = Some t'"
  shows "\<exists>m. aligned m t'"
proof -
  obtain ys dt x m pose where "set_at (t_yaw t) (size_sub (length (t_yaw t)) 1) yaw = Some ys"
    "extend_loop eig x dt m pose (t\<lparr>t_yaw := ys\<rparr>) = Some t'"
    using assms(2) by (auto simp: extendTrajectoryInYawDirection_def bind_eq_Some_conv Let_def)
  moreover have "aligned n (t\<lparr>t_yaw := ys\<rparr>)"
    using assms(1) set_at_length [OF calculation(1)] by (auto simp: aligned_def)
  ultimately show ?thesis
    using extend_loop_aligned by blast
qed

lemma yaw_aligned:
  assumes "aligned n t" and "calcTrajectoryYawFromXY t forward = Some t'"
  shows "aligned n t'"
proof (cases "n < 3")
  case True
  then show ?thesis
    using assms by (auto simp: calcTrajectoryYawFromXY_def aligned_def Let_def)
next
  case False
  then obtain inner where i: "those (map (yaw_at forward t) [1..<n - 1]) = Some inner"
    "t' = t\<lparr>t_yaw := hd inner # inner @ [last inner]\<rparr>"
    using assms by (auto simp: calcTrajectoryYawFromXY_def aligned_def bind_eq_Some_conv Let_def)
  then show ?thesis
    using assms(1) those_length [OF i(1)] False by (simp add: aligned_def)
qed

lemma inner_curvature_length: "inner_curvature t L is ks = Some ks' \<Longrightarrow> length ks' = length ks"
  by (induction t L "is" ks rule: inner_curvature.induct) (auto simp: bind_eq_Some_conv dest: set_at_length)

lemma end_curvature_length: "end_curvature n L is ks = Some ks' \<Longrightarrow> length ks' = length ks"
  by (induction n L "is" ks rule: end_curvature.induct) (fastforce simp: bind_eq_Some_conv dest: set_at_length)+

lemma curvature_aligned:
  assumes "aligned n t" and "calcTrajectoryCurvature a b t = Some t'"
  shows "aligned n t'"
proof -
  have "length ks = length (t_x t)" if "curvature_vector c t = Some ks" for c t ks
    using that by (auto simp: curvature_vector_def bind_eq_Some_conv Let_def
        dest!: inner_curvature_length end_curvature_length split: if_splits)
  note vector = this
  obtain ks ss where k: "curvature_vector a t = Some ks" and s: "curvature_vector b (t\<lparr>t_k := ks\<rparr>) = Some ss"
    and t': "t' = t\<lparr>t_k := ks, t_smooth_k := ss\<rparr>"
    using assms(2) by (auto simp: calcTrajectoryCurvature_def bind_eq_Some_conv Let_def)
  show ?thesis
    using assms(1) vector [OF k] vector [OF s] by (simp add: t' aligned_def)
qed

text \<open>The path stands still at its end, for a hundred seconds.\<close>

definition rests_at_end :: "nat \<Rightarrow> mpc_trajectory \<Rightarrow> bool" where
  "rests_at_end n t \<longleftrightarrow> aligned (n + 2) t
     \<and> t_vx t ! (n + 1) = Fin 0 \<and> t_vx t ! n = Fin 0
     \<and> t_x t ! (n + 1) = t_x t ! n \<and> t_y t ! (n + 1) = t_y t ! n \<and> t_yaw t ! (n + 1) = t_yaw t ! n
     \<and> t_relative_time t ! (n + 1) = t_relative_time t ! n + Fin 100"

lemma terminal_rests:
  assumes "aligned m t" and "t_vx t ! (m - 1) = Fin 0" and "add_terminal_point t = Some t'"
  shows "rests_at_end (m - 1) t'"
proof -
  obtain p where p: "mt_back t = Some p"
    "t' = mt_push_back (p\<lparr>mpt_relative_time := mpt_relative_time p + Fin 100, mpt_vx := Fin 0\<rparr>) t"
    using assms(3) by (auto simp: add_terminal_point_def bind_eq_Some_conv)
  have "0 < m"
    using p(1) assms(1) by (auto simp: mt_back_def back_opt_def aligned_def bind_eq_Some_conv split: if_splits)
  then obtain k where k: "m = Suc k"
    by (cases m) auto
  have "aligned (Suc (Suc k)) t'"
    using aligned_push_back [OF assms(1)] by (simp add: p(2) k)
  moreover have "mpt_x p = t_x t ! k" "mpt_y p = t_y t ! k" "mpt_yaw p = t_yaw t ! k"
    "mpt_relative_time p = t_relative_time t ! k"
    using p(1) assms(1) by (auto simp: mt_back_def back_opt_def aligned_def bind_eq_Some_conv k last_conv_nth split: if_splits)
  ultimately show ?thesis
    using assms(1,2) by (simp add: rests_at_end_def p(2) k mt_push_back_def aligned_def nth_append)
qed

lemma shape_rests:
  assumes "aligned n t" and "shape_reference eig p end_yaw forward t = Some t'"
  shows "\<exists>m. rests_at_end m t'"
proof -
  obtain t1 t2 t3 v where
    1: "(if extend_trajectory_for_end_yaw_control p
         then extendTrajectoryInYawDirection eig end_yaw (traj_resample_dist p) forward (smooth_path p t)
         else Some (smooth_path p t)) = Some t1"
    and 2: "calcTrajectoryYawFromXY t1 forward = Some t2"
    and 3: "calcTrajectoryCurvature (curvature_smoothing_num_traj p) (curvature_smoothing_num_ref_steer p)
              (t2\<lparr>t_yaw := convertEulerAngleToMonotonic (t_yaw t2)\<rparr>) = Some t3"
    and 4: "set_at (t_vx t3) (size_sub (length (t_vx t3)) 1) (Fin 0) = Some v"
    and 5: "add_terminal_point (t3\<lparr>t_vx := v\<rparr>) = Some t'"
    using assms(2) by (auto simp: shape_reference_def bind_eq_Some_conv Let_def)
  have "\<exists>m. aligned m t1"
    using 1 smooth_path_aligned [OF assms(1), of p] extend_aligned [OF smooth_path_aligned [OF assms(1), of p]]
    by (cases "extend_trajectory_for_end_yaw_control p") auto
  then obtain m where "aligned m t1" ..
  then have "aligned m t2"
    using 2 by (rule yaw_aligned)
  then have "aligned m (t2\<lparr>t_yaw := convertEulerAngleToMonotonic (t_yaw t2)\<rparr>)"
    by (simp add: aligned_def)
  then have "aligned m t3"
    using 3 by (rule curvature_aligned)
  then have "aligned m (t3\<lparr>t_vx := v\<rparr>)" and "length (t_vx t3) = m"
    using set_at_length [OF 4] by (simp_all add: aligned_def)
  moreover have "v ! (m - 1) = Fin 0"
    using 4 \<open>length (t_vx t3) = m\<close> by (auto simp: set_at_def size_sub_def split: if_splits)
  ultimately show ?thesis
    using terminal_rests [OF _ _ 5] by fastforce
qed

section \<open>The reference trajectory of a run\<close>

definition reference_ok :: "mpc \<Rightarrow> bool" where
  "reference_ok m \<longleftrightarrow>
     m_reference_trajectory m = no_points \<or> (\<exists>n. rests_at_end n (m_reference_trajectory m))"

lemma setReferenceTrajectory_ok:
  assumes "reference_ok m" and "setReferenceTrajectory eig pts p odom m = Some m'"
  shows "reference_ok m'"
proof -
  have "m_reference_trajectory m' = m_reference_trajectory m
    \<or> (\<exists>end_yaw forward n r. aligned n r \<and> shape_reference eig p end_yaw forward r = Some (m_reference_trajectory m'))"
    using assms(2)
    by (auto simp: setReferenceTrajectory_def bind_eq_Some_conv Let_def dest!: resample_aligned
        split: if_splits option.splits)
  then show ?thesis
    using assms(1) shape_rests by (fastforce simp: reference_ok_def)
qed

definition any_input :: "input_data \<Rightarrow> bool" where
  "any_input input \<longleftrightarrow> True"

lemma reference_ok_run:
  assumes "reference_ok (ls_mpc st)" and "lateral_run eig em clk input st = Some (out, st')"
  shows "reference_ok (ls_mpc st')"
proof -
  obtain st1 status ctrl_cmd hor m cmd st2 stopped where
    1: "lat_setTrajectory eig (in_trajectory input) (in_odometry input) st = Some st1"
    and 2: "calculateMPC eig em (at_prediction clk) (at_store clk)
           (report_steering_tire_angle (ls_steering (take_input input st1)))
           (ls_kinematic_state (take_input input st1)) zero_lateral empty_horizon
           (ls_mpc (take_input input st1)) = Some (status, ctrl_cmd, hor, m)"
    and 3: "after_solve clk input status ctrl_cmd ((take_input input st1)\<lparr>ls_mpc := m\<rparr>) = (cmd, st2)"
    and 4: "if stopped then
           createLateralOutput clk (ls_ctrl_cmd_prev st2) False hor (hold_inputs st2) = Some (out, st')
         else
           (let cmd = (if rr_result status then cmd else getStopControlCommand st2)
            in createLateralOutput clk cmd (rr_result status) hor (st2\<lparr>ls_ctrl_cmd_prev := cmd\<rparr>)
               = Some (out, st'))"
    using assms(2) by (rule lateral_run_cases)
  have "reference_ok (ls_mpc st1)"
    using 1 assms(1) setReferenceTrajectory_ok
    by (fastforce simp: reference_ok_def lat_setTrajectory_def bind_eq_Some_conv Let_def
        dest: buffer_trajectory_frame split: if_splits)
  then have "reference_ok m"
    using calculateMPC_reference [OF 2] by (simp add: reference_ok_def take_input_frame)
  then have "reference_ok (ls_mpc st2)"
    using 3 by (auto simp: reference_ok_def after_solve_def resetPrevResult_def setSteeringToHistory_def
        Let_def split: if_splits)
  then show ?thesis
    using 4 by (cases stopped) (auto simp: reference_ok_def hold_inputs_def Let_def dest!: createLateralOutput_Some(2))
qed

interpretation alignment: lateral_invariant eig em "\<lambda>st. reference_ok (ls_mpc st)" any_input "\<lambda>out. True"
  for eig em
  by unfold_locales (use reference_ok_run in blast)

text \<open>C15. The reference trajectory is well formed. Whatever trajectories and vehicle states the runs get,
  it is empty, as at the start, or its eight vectors have one length, so that no access by an
  index below \<open>size\<close> fails (were they to differ, \<open>size\<close> would be 0), and it ends at rest: its last
  two points are one place at speed 0, a hundred seconds apart, on which the predictions beyond
  the end of the path rely.
\<close>

theorem reference_trajectory_rests_at_end:
  assumes "lateral_construct env now = Some st" and "lateral_history eig em runs st = Some (outs, st')"
  shows "m_reference_trajectory (ls_mpc st') = no_points
    \<or> (\<exists>n. rests_at_end n (m_reference_trajectory (ls_mpc st')) \<and> mt_size (m_reference_trajectory (ls_mpc st')) = n + 2)"
proof -
  have "reference_ok (ls_mpc st)"
    using assms(1) by (auto simp: lateral_construct_def mpc_construct_def bind_eq_Some_conv reference_ok_def
        initializeSteeringPredictor_def initializeLowPassFilters_def Let_def)
  then have "reference_ok (ls_mpc st')"
    using alignment.history_keeps [of st runs eig em outs st'] assms(2) by (auto simp: any_input_def)
  then show ?thesis
    using aligned_size by (auto simp: reference_ok_def rests_at_end_def)
qed

lemma reference_trajectory_rests_at_end_witness:
  "\<exists>st outs st'. lateral_construct lateral_shipped_env 0 = Some st
    \<and> lateral_history plain_eigen plain_matrix [(zero_lateral_clock, brief_input)] st = Some (outs, st')
    \<and> (m_reference_trajectory (ls_mpc st') = no_points \<or> (\<exists>n. rests_at_end n (m_reference_trajectory (ls_mpc st'))))"
proof -
  obtain st where st: "lateral_construct lateral_shipped_env 0 = Some st"
    "m_reference_trajectory (ls_mpc st) = no_points" "\<not> lc_auto_steering_offset_removal (ls_config st)"
    by (rule shipped_lateral)
  obtain out st' where "lateral_run plain_eigen plain_matrix zero_lateral_clock brief_input st = Some (out, st')"
    using brief_run [OF st(2,3)] by blast
  then have "lateral_history plain_eigen plain_matrix [(zero_lateral_clock, brief_input)] st = Some ([out], st')"
    by simp
  with st(1) reference_trajectory_rests_at_end [OF st(1) this] show ?thesis
    by blast
qed

end
