(* ===== verification/Interpolation_Properties.thy ===== *)
theory Interpolation_Properties
  imports Interpolation Mpc_Utils Steering
begin

text \<open>
  Properties of the interpolation of a table, of the angles of a trajectory and of the two
  steering estimators.
\<close>

section \<open>Interpolation of a table\<close>

lemma advance_None: "\<forall>b \<in> set bs. b < q \<Longrightarrow> advance bs m q = None"
proof (induction bs m q rule: advance.induct)
  case (1 bs m q)
  show ?case
  proof (cases "at_opt bs (m + 1)")
    case (Some b)
    then have "b < q"
      using 1 by (auto simp: at_opt_def split: if_splits)
    with Some 1 show ?thesis
      by (subst advance.simps) simp
  qed (subst advance.simps, simp)
qed

lemma interpolation_loop_None:
  "q \<in> set qs \<Longrightarrow> \<forall>b \<in> set bs. b < q \<Longrightarrow> interpolation_loop f bs vs m qs = None"
proof (induction qs arbitrary: m)
  case (Cons r qs)
  show ?case
  proof (cases "r = q")
    case False
    with Cons.IH Cons.prems show ?thesis
      by (auto simp: bind_eq_None_conv)
  qed (use Cons.prems advance_None in auto)
qed simp

lemma increasing_keys:
  assumes "isIncreasing keys = Some True" and "NaN \<notin> set keys"
  shows "sorted_wrt (<) keys"
proof -
  have "successively (\<lambda>a b. \<not> b \<le> a) keys"
    using assms(1) by (auto simp: isIncreasing_def split: if_splits)
  then have "successively (<) keys"
    by (rule successively_mono) (use assms(2) dbl_not_le in \<open>metis\<close>)
  moreover have "transp ((<) :: dbl \<Rightarrow> dbl \<Rightarrow> bool)"
    by (auto intro!: transpI dest: dbl_less_imp_le elim: dbl_less_le_trans)
  ultimately show ?thesis
    by (simp add: successively_conv_sorted_wrt)
qed

lemma not_decreasing_queries:
  assumes "isNotDecreasing qs = Some True" and "NaN \<notin> set qs"
  shows "sorted_wrt (\<le>) qs"
proof -
  have "successively (\<lambda>a b. \<not> b < a) qs"
    using assms(1) by (auto simp: isNotDecreasing_def split: if_splits)
  then have "successively (\<le>) qs"
    by (rule successively_mono) (use assms(2) dbl_linear in \<open>metis\<close>)
  moreover have "transp ((\<le>) :: dbl \<Rightarrow> dbl \<Rightarrow> bool)"
    by (auto intro!: transpI elim: dbl_le_trans)
  ultimately show ?thesis
    by (simp add: successively_conv_sorted_wrt)
qed

lemma sorted_le_last: "sorted_wrt (<) (keys :: dbl list) \<Longrightarrow> b \<in> set keys \<Longrightarrow> NaN \<notin> set keys \<Longrightarrow> b \<le> last keys"
  by (induction keys) (auto intro: dbl_refl dbl_less_imp_le)

lemma segment_first: "sorted_wrt (<) keys \<Longrightarrow> segment_of keys (hd keys) = 0"
  by (cases keys; cases "tl keys") (auto simp: segment_of_def dest: dbl_less_le_trans dbl_less_imp_le)

lemma cropped_single: "cropped keys [q] = [fmin (fmax q (hd keys)) (last keys)]"
  by (simp add: cropped_def)

lemma cropped_ends: "cropped keys (q0 # mid @ [ql]) = fmax q0 (hd keys) # mid @ [fmin ql (last keys)]"
  by (simp add: cropped_def Let_def list_update_append)

lemma segments_of_cropped:
  assumes keys: "sorted_wrt (<) keys" "NaN \<notin> set keys" "2 \<le> length keys"
    and qs: "sorted_wrt (\<le>) qs" "NaN \<notin> set qs" "qs \<noteq> []" and inside: "\<forall>q \<in> set (butlast qs). q \<le> last keys"
  shows "sorted_wrt (\<lambda>q r. segment_of keys q \<le> segment_of keys r) (cropped keys qs)"
    and "\<forall>q \<in> set (cropped keys qs). segment_of keys q < length keys - 1"
proof -
  let ?l = "last keys" and ?h = "hd keys"
  have ne: "keys \<noteq> []" and len: "1 < length keys"
    using keys(3) by auto
  have h: "?h \<noteq> NaN" "?l \<noteq> NaN" "?h \<le> ?l"
    using ne keys(1,2) sorted_le_last [of keys ?h] by (auto dest: hd_in_set last_in_set)
  have room: "q \<le> ?l \<Longrightarrow> segment_of keys q < length keys - Suc 0" for q
    using segment_in_table [OF len, of q] dbl_le_less_trans [of q ?l q] by auto
  have "sorted_wrt (\<lambda>q r. segment_of keys q \<le> segment_of keys r) (cropped keys qs)
    \<and> (\<forall>q \<in> set (cropped keys qs). segment_of keys q < length keys - 1)"
  proof (cases "\<exists>q. qs = [q]")
    case True
    then obtain q where q: "qs = [q]" by blast
    have "fmin (fmax q ?h) ?l \<le> ?l"
      using q qs(2) h by (cases q; cases ?h; cases ?l) (auto simp: fmin_def fmax_def)
    then show ?thesis
      by (simp add: q cropped_single room)
  next
    case False
    then obtain q0 mid ql where q: "qs = q0 # mid @ [ql]"
      using qs(3) by (cases qs; cases "tl qs" rule: rev_cases) auto
    have le: "q0 \<le> ?l" "\<forall>m \<in> set mid. m \<le> ?l" "\<forall>m \<in> set mid. q0 \<le> m" "\<forall>m \<in> set mid. m \<le> ql" "q0 \<le> ql"
      "sorted_wrt (\<le>) mid" "ql \<noteq> NaN"
      using inside qs(1,2) by (auto simp: q sorted_wrt_append)
    have front: "segment_of keys (fmax q0 ?h) \<le> segment_of keys r" if "q0 \<le> r" for r
      using segment_first [OF keys(1)] segment_mono [OF that] by (simp add: fmax_def)
    have behind: "segment_of keys r \<le> segment_of keys (fmin ql ?l)" if "r \<le> ql" "r \<le> ?l" for r
      using that by (simp add: fmin_def segment_mono)
    have lowest: "fmin ql ?l \<le> ?l" "q0 \<le> fmin ql ?l"
      using le(1,5,7) h by (cases ql; cases ?l; auto simp: fmin_def)+
    have "fmax q0 ?h \<le> ?l"
      using le(1) h(3) by (simp add: fmax_def)
    then have "\<forall>c \<in> set (cropped keys qs). segment_of keys c < length keys - 1"
      using room le(2) lowest(1) by (simp add: q cropped_ends)
    moreover have "sorted_wrt (\<lambda>q r. segment_of keys q \<le> segment_of keys r) mid"
      by (rule sorted_wrt_mono_rel [OF _ le(6)]) (rule segment_mono)
    moreover have "\<forall>m \<in> set mid. segment_of keys (fmax q0 ?h) \<le> segment_of keys m"
      "\<forall>m \<in> set mid. segment_of keys m \<le> segment_of keys (fmin ql ?l)"
      "segment_of keys (fmax q0 ?h) \<le> segment_of keys (fmin ql ?l)"
      using le(2-4) front behind lowest(2) by blast+
    ultimately show ?thesis
      by (simp add: q cropped_ends sorted_wrt_append)
  qed
  then show "sorted_wrt (\<lambda>q r. segment_of keys q \<le> segment_of keys r) (cropped keys qs)"
    "\<forall>q \<in> set (cropped keys qs). segment_of keys q < length keys - 1"
    by auto
qed

lemma cropped_keeps_butlast: "2 \<le> length qs \<Longrightarrow> q \<in> set (butlast (tl qs)) \<Longrightarrow> q \<in> set (cropped keys qs)"
  by (cases qs; cases "tl qs" rule: rev_cases) (auto simp: cropped_ends)

lemma cropped_beyond:
  assumes "q \<in> set (butlast qs)" and "hd keys \<le> last keys" and "last keys < q" and "NaN \<notin> set qs"
  shows "q \<in> set (cropped keys qs)"
proof -
  obtain q0 mid ql where qs: "qs = q0 # mid @ [ql]"
    using assms(1) by (cases qs; cases "tl qs" rule: rev_cases) auto
  have "\<not> q < hd keys"
    using dbl_le_less_trans [OF assms(2,3)] by (metis dbl_le_less_trans dbl_less_imp_le dbl_less_irrefl)
  then have "fmax q (hd keys) = q"
    by (simp add: fmax_def)
  with assms(1) show ?thesis
    by (auto simp: qs cropped_ends)
qed

text \<open>C23. The interpolation of a table walks through the segments with a cursor that only moves forward.
  On keys and queries that pass the validation and are no NaN it returns, for each query, the
  value on the segment a search from the start of the table finds; it throws
  \<open>std::out_of_range\<close> exactly when a query before the last one lies beyond the last key, which
  the validation's tolerance of a thousandth lets through and only the last query is moved back
  from.
\<close>

theorem interpolation_equals_search:
  assumes "validateKeys keys qs = Some cs" and "length vs = length keys"
    and "NaN \<notin> set keys \<union> set qs"
  shows "lerp_table keys vs qs =
    Some (if \<forall>q \<in> set (butlast qs). q \<le> last keys then Some (map (table_value lerp keys vs) cs) else None)"
proof -
  have v: "isIncreasing keys = Some True" "isNotDecreasing qs = Some True" "2 \<le> length keys" "qs \<noteq> []"
    "cs = cropped keys qs"
    using assms(1) by (auto simp: validateKeys_def bind_eq_Some_conv split: if_splits)
  have nan: "NaN \<notin> set keys" "NaN \<notin> set qs"
    using assms(3) by auto
  have keys: "sorted_wrt (<) keys"
    using v(1) nan(1) by (rule increasing_keys)
  have t: "lerp_table keys vs qs = Some (interpolation_loop lerp keys vs 0 cs)"
    using assms(1,2) v(3) by (auto simp: lerp_table_def validateKeysAndValues_def)
  show ?thesis
  proof (cases "\<forall>q \<in> set (butlast qs). q \<le> last keys")
    case True
    note segs = segments_of_cropped [OF keys nan(1) v(3) not_decreasing_queries [OF v(2) nan(2)] nan(2) v(4) True]
    show ?thesis
      using True interpolation_loop_eq [OF segs assms(2), of 0] by (simp add: t v(5))
  next
    case False
    then obtain q where q: "q \<in> set (butlast qs)" "\<not> q \<le> last keys"
      by blast
    have "keys \<noteq> []"
      using v(3) by auto
    then have ends: "hd keys \<in> set keys" "last keys \<in> set keys"
      by simp_all
    then have "hd keys \<le> last keys"
      using sorted_le_last [OF keys _ nan(1)] by blast
    moreover have "last keys \<noteq> NaN" "q \<noteq> NaN"
      using nan ends q(1) by (auto dest: in_set_butlastD)
    ultimately have "hd keys \<le> last keys" "last keys < q"
      using q(2) by (auto simp: dbl_not_le)
    then have "\<forall>b \<in> set keys. b < q" and "q \<in> set cs"
      using sorted_le_last [OF keys _ nan(1)] dbl_le_less_trans cropped_beyond [OF q(1) \<open>hd keys \<le> last keys\<close>] nan(2)
      by (auto simp: v(5))
    with False show ?thesis
      by (auto simp: t interpolation_loop_None)
  qed
qed

lemma interpolation_equals_search_witness:
  "lerp_table [Fin 0, Fin 1, Fin 2] [Fin 10, Fin 20, Fin 40] [Fin (1 / 2), Fin (3 / 2)] = Some (Some [Fin 15, Fin 30])
   \<and> lerp_table [Fin 0, Fin 1, Fin 2] [Fin 10, Fin 20, Fin 40] [Fin (20002 / 10000), Fin (20003 / 10000)] = Some None"
proof -
  have "validateKeys [Fin 0, Fin 1, Fin 2] [Fin (1 / 2), Fin (3 / 2)] = Some [Fin (1 / 2), Fin (3 / 2)]"
    "validateKeys [Fin 0, Fin 1, Fin 2] [Fin (20002 / 10000), Fin (20003 / 10000)]
       = Some [Fin (20002 / 10000), Fin 2]"
    by (simp_all add: validateKeys_def isIncreasing_def isNotDecreasing_def cropped_def fmax_def fmin_def minus_dbl_def)
  from interpolation_equals_search [OF this(1), of "[Fin 10, Fin 20, Fin 40]"]
    interpolation_equals_search [OF this(2), of "[Fin 10, Fin 20, Fin 40]"]
  show ?thesis
    by (simp add: table_value_def segment_of_def key_ratio_def lerp_def minus_dbl_def)
qed

section \<open>Angles\<close>

lemma monotonic_from_steps:
  assumes "\<forall>a \<in> set as. \<bar>a\<bar> \<le> 10 ^ 6" and "\<bar>p\<bar> + 4 * of_nat (length as) \<le> 10 ^ 10"
  shows "\<exists>bs. monotonic_from (Fin p) (map Fin as) = map Fin bs
    \<and> list_all2 (\<lambda>a b. \<exists>k :: int. b = a + 2 * pi * k) as bs \<and> successively (\<lambda>a b. \<bar>b - a\<bar> \<le> pi) (p # bs)"
  using assms
proof (induction as arbitrary: p)
  case (Cons a as)
  obtain r k where r: "normalizeRadian (Fin (a - p)) = Fin r" "- pi \<le> r" "r \<le> pi" "a - p = r + 2 * pi * of_int k"
    by (rule normalizeRadian_Fin)
  have pi: "pi \<le> 4"
    using pi_less_4 by simp
  have small: "\<bar>a + - p\<bar> \<le> 10 ^ 30" "\<bar>p + r\<bar> \<le> 10 ^ 30"
    using Cons.prems r(2,3) pi by auto
  have "\<bar>p + r\<bar> + 4 * real (length as) \<le> 10 ^ 10"
    using Cons.prems(2) r(2,3) pi by auto
  then obtain bs where bs: "monotonic_from (Fin (p + r)) (map Fin as) = map Fin bs"
    "list_all2 (\<lambda>a b. \<exists>k :: int. b = a + 2 * pi * k) as bs" "successively (\<lambda>a b. \<bar>b - a\<bar> \<le> pi) ((p + r) # bs)"
    using Cons.IH [of "p + r"] Cons.prems(1) by auto
  have step: "Fin p + normalizeRadian (Fin a - Fin p) = Fin (p + r)"
    using small r(1) by (simp add: minus_dbl_def)
  have "monotonic_from (Fin p) (map Fin (a # as)) = map Fin ((p + r) # bs)"
    by (simp only: list.map monotonic_from.simps Let_def step bs(1))
  moreover have "\<exists>k :: int. p + r = a + 2 * pi * k"
    using r(4) by (intro exI [of _ "- k"]) simp
  ultimately show ?case
    using bs(2,3) r(2,3) by (intro exI [of _ "(p + r) # bs"]) auto
qed simp

text \<open>\<open>convertEulerAngleToMonotonic\<close> keeps every direction and removes the jumps: each angle differs
  from the given one by whole turns, and from its predecessor by at most half a turn.
\<close>

theorem monotonic_angles:
  assumes "\<forall>a \<in> set as. \<bar>a\<bar> \<le> 10 ^ 6" and "length as \<le> 10 ^ 9"
  shows "\<exists>bs. convertEulerAngleToMonotonic (map Fin as) = map Fin bs
    \<and> list_all2 (\<lambda>a b. \<exists>k :: int. b = a + 2 * pi * k) as bs
    \<and> successively (\<lambda>a b. \<bar>b - a\<bar> \<le> pi) bs"
proof (cases as)
  case (Cons a rest)
  have "real (length rest) \<le> 10 ^ 9"
    using assms(2) by (simp add: Cons)
  then have "\<bar>a\<bar> + 4 * real (length rest) \<le> 10 ^ 10"
    using assms(1) by (auto simp: Cons)
  then obtain bs where "monotonic_from (Fin a) (map Fin rest) = map Fin bs"
    "list_all2 (\<lambda>a b. \<exists>k :: int. b = a + 2 * pi * k) rest bs" "successively (\<lambda>a b. \<bar>b - a\<bar> \<le> pi) (a # bs)"
    using monotonic_from_steps [of rest a] assms(1) by (auto simp: Cons)
  then show ?thesis
    by (intro exI [of _ "a # bs"]) (auto simp: Cons intro: exI [of _ 0])
qed auto

lemma monotonic_angles_witness:
  "\<exists>bs. convertEulerAngleToMonotonic [Fin 3, Fin (- 3)] = map Fin bs
    \<and> list_all2 (\<lambda>a b. \<exists>k :: int. b = a + 2 * pi * k) [3, - 3] bs \<and> successively (\<lambda>a b. \<bar>b - a\<bar> \<le> pi) bs"
  using monotonic_angles [of "[3, - 3]"] by simp

section \<open>Steering estimators\<close>

lemma updateOffset_params [simp]:
  "so_average_num (updateOffset v w a s) = so_average_num s"
  "so_offset_limit (updateOffset v w a s) = so_offset_limit s"
  by (simp_all add: updateOffset_def Let_def)

lemma updateOffset_length:
  "length (so_storage s) = so_average_num s \<Longrightarrow> length (so_storage (updateOffset v w a s)) = so_average_num s"
  by (simp add: updateOffset_def Let_def)

definition measure_all :: "(dbl \<times> dbl \<times> dbl) list \<Rightarrow> steering_offset \<Rightarrow> steering_offset" where
  "measure_all ms s = fold (\<lambda>(v, w, a) s. updateOffset v w a s) ms s"

lemma measure_all_inv:
  "length (so_storage s) = so_average_num s \<Longrightarrow>
    so_average_num (measure_all ms s) = so_average_num s
    \<and> so_offset_limit (measure_all ms s) = so_offset_limit s
    \<and> length (so_storage (measure_all ms s)) = so_average_num s"
  unfolding measure_all_def by (induction ms arbitrary: s) (auto simp: updateOffset_length)

text \<open>The steering offset: whatever was measured, the storage holds exactly the configured number of
  differences, so the mean forgets each of them, and the offset that is taken from the report
  and added to the command stays within its limit (or is a NaN, after a measurement that is one).
\<close>

theorem steering_offset_is_limited:
  assumes "0 \<le> limit"
  shows "length (so_storage (measure_all ms (offset_construct base n vel steer (Fin limit)))) = n
    \<and> getOffset (measure_all ms (offset_construct base n vel steer (Fin limit)))
        \<in> insert NaN {x. Fin (- limit) \<le> x \<and> x \<le> Fin limit}"
proof -
  let ?s = "measure_all ms (offset_construct base n vel steer (Fin limit))"
  have "length (so_storage ?s) = n" "so_offset_limit ?s = Fin limit"
    using measure_all_inv [of "offset_construct base n vel steer (Fin limit)" ms] by (auto simp: offset_construct_def)
  then show ?thesis
    using assms fclamp_bounds [of "Fin (- limit)" "Fin limit" "so_offset ?s"]
    by (cases "so_offset ?s = NaN") (auto simp: getOffset_def fclamp_def)
qed

lemma steering_offset_is_limited_witness:
  "getOffset (measure_all [(Fin 10, Fin 0, Fin (3 / 100))]
      (offset_construct (Fin (274 / 100)) 2 (Fin (556 / 100)) (Fin (35 / 1000)) (Fin (2 / 100))))
    \<in> insert NaN {x. Fin (- (2 / 100)) \<le> x \<and> x \<le> Fin (2 / 100)}"
  using steering_offset_is_limited [of "2 / 100" "[(Fin 10, Fin 0, Fin (3 / 100))]" "Fin (274 / 100)" 2]
  by simp

end
