(* ===== verification/Emutls.thy ===== *)
theory Emutls
  imports
    Prelude
begin

text \<open>
  The per-task emulated thread-local storage of the X5H image
  (\<open>freertos_x5h/x5h_emutls.c\<close>). Every access to a \<open>__thread\<close> variable of the image calls
  \<open>__emutls_get_address\<close>; each task hangs an array of value blocks off a slot of its TCB.

  The memory is an explicit store: \<open>live\<close> are the blocks \<open>malloc\<close> handed out with their sizes,
  \<open>arrays\<close> the contents of the blocks that hold slot arrays, \<open>below\<close> the word below a value (which
  holds the address \<open>malloc\<close> returned for its block) and \<open>contents\<close> the bytes of a value. An access
  outside a live block, a second \<open>free\<close> of a block and a \<open>memcpy\<close> past the end of a template are
  the fault \<open>Undefined\<close>, so that their absence can be proved. The allocator is a parameter: given
  the live blocks and a size, it answers with an address or, out of memory, with none.

  The runtime is called by tasks that the scheduler interleaves. \<open>emu_advance\<close> is the code of
  \<open>__emutls_get_address\<close> from one access of shared memory to the next, and \<open>estep\<close> lets
  the callers take these steps in any order.
\<close>

section \<open>Data\<close>

type_synonym addr = u32
type_synonym allocator = "(addr \<rightharpoonup> u32) \<Rightarrow> u32 \<Rightarrow> addr option"

text \<open>\<open>x5h_emutls_control_t\<close>; the template is the bytes at the address, \<open>None\<close> for \<open>NULL\<close>.\<close>

record control =
  ctl_size :: u32
  ctl_align :: u32
  ctl_loc :: u32
  ctl_templ :: "u8 list option"

text \<open>Who runs: the code before the scheduler starts, or a task.\<close>

datatype caller = Bootstrap | Task nat

record emutls =
  next_index :: u32
  boot_array :: addr
  tls_slot :: "nat \<Rightarrow> addr"
  controls :: "nat \<Rightarrow> control"
  live :: "addr \<rightharpoonup> u32"
  arrays :: "addr \<rightharpoonup> addr list"
  below :: "addr \<rightharpoonup> addr"
  contents :: "addr \<rightharpoonup> u8 list"

text \<open>\<open>configASSERT\<close>, \<open>abort\<close> after a failed \<open>malloc\<close>, and undefined behaviour.\<close>

datatype emu_fault = In_interrupt | Out_of_memory | Undefined

section \<open>The arrays of the callers\<close>

definition X5H_EMUTLS_GROW :: u32 where
  "X5H_EMUTLS_GROW = 8"

fun emutls_current_array :: "caller \<Rightarrow> emutls \<Rightarrow> addr" where
  "emutls_current_array Bootstrap st = boot_array st"
| "emutls_current_array (Task t) st = tls_slot st t"

fun emutls_set_current_array :: "caller \<Rightarrow> addr \<Rightarrow> emutls \<Rightarrow> emutls" where
  "emutls_set_current_array Bootstrap a st = st\<lparr>boot_array := a\<rparr>"
| "emutls_set_current_array (Task t) a st = st\<lparr>tls_slot := (tls_slot st)(t := a)\<rparr>"

text \<open>The slots of the array at an address; no array (the address 0) has none.\<close>

definition slots_at :: "emutls \<Rightarrow> addr \<Rightarrow> addr list" where
  "slots_at st a = (case arrays st a of None \<Rightarrow> [] | Some xs \<Rightarrow> xs)"

definition free_block :: "addr \<Rightarrow> emutls \<Rightarrow> emu_fault + emutls" where
  "free_block a st =
     (if a = 0 then Inr st
      else if live st a = None then Inl Undefined
      else Inr (st\<lparr>live := (live st)(a := None), arrays := (arrays st)(a := None)\<rparr>))"

section \<open>Value blocks\<close>

definition value_align :: "control \<Rightarrow> u32" where
  "value_align obj = (if 4 < ctl_align obj then ctl_align obj else 4)"

definition value_address :: "addr \<Rightarrow> u32 \<Rightarrow> addr" where
  "value_address raw align = (raw + 4 + (align - 1)) AND NOT (align - 1)"

text \<open>The bytes a fresh value starts with; \<open>None\<close> when \<open>memcpy\<close> would leave the template.\<close>

definition initial_bytes :: "control \<Rightarrow> u8 list option" where
  "initial_bytes obj =
     (case ctl_templ obj of
        None \<Rightarrow> Some (replicate (unat (ctl_size obj)) 0)
      | Some t \<Rightarrow> if unat (ctl_size obj) \<le> length t then Some (take (unat (ctl_size obj)) t) else None)"

text \<open>The word below the value and the value lie inside the block of \<open>n\<close> bytes at \<open>raw\<close>.\<close>

definition fits_block :: "addr \<Rightarrow> u32 \<Rightarrow> addr \<Rightarrow> u32 \<Rightarrow> bool" where
  "fits_block raw n val k \<longleftrightarrow>
     unat raw + 4 \<le> unat val \<and> unat val + unat k \<le> unat raw + unat n"

definition emutls_alloc_value :: "allocator \<Rightarrow> control \<Rightarrow> emutls \<Rightarrow> emu_fault + addr \<times> emutls" where
  "emutls_alloc_value mal obj st =
     (let align = value_align obj;
          n = ctl_size obj + align + 4
      in case mal (live st) n of
           None \<Rightarrow> Inl Out_of_memory
         | Some raw \<Rightarrow>
             let val = value_address raw align
             in case initial_bytes obj of
                  None \<Rightarrow> Inl Undefined
                | Some bytes \<Rightarrow>
                    if fits_block raw n val (ctl_size obj)
                    then Inr (val, st\<lparr>live := (live st)(raw \<mapsto> n), below := (below st)(val - 4 \<mapsto> raw),
                                      contents := (contents st)(val \<mapsto> bytes)\<rparr>)
                    else Inl Undefined)"

definition emutls_free_value :: "addr \<Rightarrow> emutls \<Rightarrow> emu_fault + emutls" where
  "emutls_free_value val st =
     (case below st (val - 4) of
        None \<Rightarrow> Inl Undefined
      | Some raw \<Rightarrow> free_block raw (st\<lparr>below := (below st)(val - 4 := None), contents := (contents st)(val := None)\<rparr>))"

section \<open>\<open>__emutls_get_address\<close>\<close>

text \<open>The critical section: the second read of \<open>loc\<close> decides.\<close>

definition assign_index :: "nat \<Rightarrow> emutls \<Rightarrow> u32 \<times> emutls" where
  "assign_index v st =
     (let obj = controls st v
      in if ctl_loc obj = 0 then
           let idx = next_index st + 1
           in (idx, st\<lparr>next_index := idx, controls := (controls st)(v := obj\<lparr>ctl_loc := idx\<rparr>)\<rparr>)
         else (ctl_loc obj, st))"

definition grown_capacity :: "u32 \<Rightarrow> u32" where
  "grown_capacity idx = (idx + (X5H_EMUTLS_GROW - 1)) AND NOT (X5H_EMUTLS_GROW - 1)"

text \<open>The larger array: the old slots, then zeros. Sizes that wrap around leave the block.\<close>

definition grow_array :: "allocator \<Rightarrow> addr \<Rightarrow> u32 \<Rightarrow> emutls \<Rightarrow> emu_fault + addr \<times> emutls" where
  "grow_array mal arr idx st =
     (let cap = grown_capacity idx;
          old = slots_at st arr;
          n = 4 + cap * 4
      in case mal (live st) n of
           None \<Rightarrow> Inl Out_of_memory
         | Some grown \<Rightarrow>
             if unat n = 4 + 4 * unat cap \<and> length old \<le> unat cap
             then Inr (grown, st\<lparr>live := (live st)(grown \<mapsto> n),
                                 arrays := (arrays st)(grown \<mapsto> old @ replicate (unat cap - length old) 0)\<rparr>)
             else Inl Undefined)"

text \<open>
  Where a caller is: outside the function, behind the first read of \<open>loc\<close>, with its index, with
  the filled larger array, with that array published and the old one still to free, at the slot,
  with a fresh value block, and back at the caller with the address.
\<close>

datatype progress =
    Idle
  | Seen nat u32
  | Indexed nat u32
  | Filled nat u32 addr
  | Published nat u32 addr
  | Ready nat u32
  | Valued nat u32 addr
  | Returned nat addr

fun emu_advance :: "allocator \<Rightarrow> caller \<Rightarrow> progress \<Rightarrow> emutls \<Rightarrow> emu_fault + progress \<times> emutls" where
  "emu_advance mal c Idle st = Inr (Idle, st)"
| "emu_advance mal c (Seen v seen) st =
     (if seen = 0 then (case assign_index v st of (idx, st) \<Rightarrow> Inr (Indexed v idx, st))
      else Inr (Indexed v seen, st))"
| "emu_advance mal c (Indexed v idx) st =
     (let arr = emutls_current_array c st
      in if arr = 0 \<or> length (slots_at st arr) < unat idx then
           (case grow_array mal arr idx st of
              Inl e \<Rightarrow> Inl e
            | Inr (grown, st) \<Rightarrow> Inr (Filled v idx grown, st))
         else Inr (Ready v idx, st))"
| "emu_advance mal c (Filled v idx grown) st =
     Inr (Published v idx (emutls_current_array c st), emutls_set_current_array c grown st)"
| "emu_advance mal c (Published v idx old) st =
     (case free_block old st of Inl e \<Rightarrow> Inl e | Inr st \<Rightarrow> Inr (Ready v idx, st))"
| "emu_advance mal c (Ready v idx) st =
     (let arr = emutls_current_array c st;
          val = slots_at st arr ! (unat idx - 1)
      in if \<not> (0 < unat idx \<and> unat idx \<le> length (slots_at st arr)) then Inl Undefined
         else if val = 0 then
           (case emutls_alloc_value mal (controls st v) st of
              Inl e \<Rightarrow> Inl e
            | Inr (val, st) \<Rightarrow> Inr (Valued v idx val, st))
         else Inr (Returned v val, st))"
| "emu_advance mal c (Valued v idx val) st =
     (let arr = emutls_current_array c st
      in Inr (Returned v val,
              st\<lparr>arrays := (arrays st)(arr \<mapsto> (slots_at st arr)[unat idx - 1 := val])\<rparr>))"
| "emu_advance mal c (Returned v val) st = Inr (Returned v val, st)"

fun run_call :: "nat \<Rightarrow> allocator \<Rightarrow> caller \<Rightarrow> progress \<Rightarrow> emutls \<Rightarrow> emu_fault + progress \<times> emutls" where
  "run_call 0 mal c pr st = Inr (pr, st)"
| "run_call (Suc n) mal c pr st =
     (case emu_advance mal c pr st of Inl e \<Rightarrow> Inl e | Inr (pr, st) \<Rightarrow> run_call n mal c pr st)"

text \<open>The function without interruption; six steps reach its end.\<close>

definition emutls_get_address ::
  "allocator \<Rightarrow> u32 \<Rightarrow> caller \<Rightarrow> nat \<Rightarrow> emutls \<Rightarrow> emu_fault + progress \<times> emutls" where
  "emutls_get_address mal nesting c v st =
     (if nesting \<noteq> 0 then Inl In_interrupt
      else run_call 6 mal c (Seen v (ctl_loc (controls st v))) st)"

section \<open>Registration and reclamation\<close>

definition emutls_register_common :: "u32 \<Rightarrow> u32 \<Rightarrow> u8 list option \<Rightarrow> control \<Rightarrow> control" where
  "emutls_register_common sz align templ obj =
     (let obj = (if ctl_size obj < sz then obj\<lparr>ctl_size := sz, ctl_templ := templ\<rparr>
                 else if ctl_size obj = sz \<and> ctl_templ obj = None then obj\<lparr>ctl_templ := templ\<rparr>
                 else obj)
      in if ctl_align obj < align then obj\<lparr>ctl_align := align\<rparr> else obj)"

fun free_values :: "addr list \<Rightarrow> emutls \<Rightarrow> emu_fault + emutls" where
  "free_values [] st = Inr st"
| "free_values (val # vals) st =
     (if val = 0 then free_values vals st
      else case emutls_free_value val st of Inl e \<Rightarrow> Inl e | Inr st \<Rightarrow> free_values vals st)"

definition emutls_task_cleanup :: "nat \<Rightarrow> emutls \<Rightarrow> emu_fault + emutls" where
  "emutls_task_cleanup t st =
     (let arr = tls_slot st t
      in if arr = 0 then Inr st
         else case free_values (slots_at st arr) (st\<lparr>tls_slot := (tls_slot st)(t := 0)\<rparr>) of
                Inl e \<Rightarrow> Inl e
              | Inr st \<Rightarrow> free_block arr st)"

section \<open>The callers together\<close>

text \<open>
  The callers, the tasks that were parked and cleaned up (they never run again), and the blocks
  that the rest of the program holds.
\<close>

record esystem =
  est :: emutls
  prog :: "caller \<Rightarrow> progress"
  gone :: "caller set"
  foreign :: "addr set"

text \<open>
  A caller enters the function for one of the \<open>n\<close> variables of the image, or takes its next
  step; a task is cleaned up, wherever it was parked; and the rest of the program allocates and frees.
\<close>

inductive estep :: "nat \<Rightarrow> allocator \<Rightarrow> esystem \<Rightarrow> esystem \<Rightarrow> bool" for n mal where
  enter: "prog s c = Idle \<or> (\<exists>v a. prog s c = Returned v a) \<Longrightarrow> c \<notin> gone s \<Longrightarrow> v < n \<Longrightarrow>
    estep n mal s (s\<lparr>prog := (prog s)(c := Seen v (ctl_loc (controls (est s) v)))\<rparr>)"
| move: "c \<notin> gone s \<Longrightarrow> emu_advance mal c (prog s c) (est s) = Inr (pr, st) \<Longrightarrow>
    estep n mal s (s\<lparr>est := st, prog := (prog s)(c := pr)\<rparr>)"
| cleanup: "Task t \<notin> gone s \<Longrightarrow> emutls_task_cleanup t (est s) = Inr st \<Longrightarrow>
    estep n mal s (s\<lparr>est := st, gone := insert (Task t) (gone s)\<rparr>)"
| foreign_malloc: "mal (live (est s)) k = Some a \<Longrightarrow>
    estep n mal s (s\<lparr>est := (est s)\<lparr>live := (live (est s))(a \<mapsto> k)\<rparr>, foreign := insert a (foreign s)\<rparr>)"
| foreign_free: "a \<in> foreign s \<Longrightarrow>
    estep n mal s (s\<lparr>est := (est s)\<lparr>live := (live (est s))(a := None)\<rparr>, foreign := foreign s - {a}\<rparr>)"

definition emutls_start :: "(nat \<Rightarrow> control) \<Rightarrow> esystem" where
  "emutls_start ctls =
     \<lparr>est = \<lparr>next_index = 0, boot_array = 0, tls_slot = (\<lambda>_. 0), controls = ctls, live = Map.empty,
             arrays = Map.empty, below = Map.empty, contents = Map.empty\<rparr>,
      prog = (\<lambda>_. Idle), gone = {}, foreign = {}\<rparr>"

definition emutls_reachable ::
  "nat \<Rightarrow> allocator \<Rightarrow> (nat \<Rightarrow> control) \<Rightarrow> esystem \<Rightarrow> bool" where
  "emutls_reachable n mal ctls s \<longleftrightarrow> (estep n mal)\<^sup>*\<^sup>* (emutls_start ctls) s"

section \<open>What is required of the image and of the allocator\<close>

text \<open>
  A control record as the compiler emits it: a power of two as alignment, a template of the size
  of the variable, and a size that leaves the address space room for the block.
\<close>

definition valid_control :: "control \<Rightarrow> bool" where
  "valid_control obj \<longleftrightarrow>
     list_ex (\<lambda>k. ctl_align obj = 2 ^ k) [0..<32]
     \<and> unat (ctl_size obj) + unat (value_align obj) + 4 < 2 ^ 32
     \<and> (case ctl_templ obj of None \<Rightarrow> True | Some t \<Rightarrow> unat (ctl_size obj) \<le> length t)"

definition fresh_image :: "nat \<Rightarrow> (nat \<Rightarrow> control) \<Rightarrow> bool" where
  "fresh_image n ctls \<longleftrightarrow> n < 2 ^ 28 \<and> (\<forall>v < n. valid_control (ctls v) \<and> ctl_loc (ctls v) = 0)"

text \<open>
  What the C standard says of \<open>malloc\<close>: the block is not at the null address, it ends inside the address space
  (before its last byte, the one-past-the-end address being an address), and it overlaps no live block.
\<close>

definition apart :: "addr \<Rightarrow> u32 \<Rightarrow> addr \<Rightarrow> u32 \<Rightarrow> bool" where
  "apart a n b m \<longleftrightarrow> unat a + unat n \<le> unat b \<or> unat b + unat m \<le> unat a"

definition proper_allocator :: "allocator \<Rightarrow> bool" where
  "proper_allocator mal \<longleftrightarrow>
     (\<forall>blocks n a. mal blocks n = Some a \<longrightarrow>
        a \<noteq> 0 \<and> unat a + unat n < 2 ^ 32 \<and> blocks a = None
        \<and> (\<forall>b m. blocks b = Some m \<longrightarrow> apart a n b m))"

end
