(* ===== verification/Emutls_Facts.thy ===== *)
theory Emutls_Facts
  imports
    Emutls "HOL-Library.Multiset"
begin

text \<open>
  The invariant of the callers of the emulated thread-local storage: every block is held by one
  caller in one role, and every slot points at the value of the variable with its index.
\<close>

section \<open>Alignment arithmetic\<close>

lemma and_not_mask_shift: "x AND NOT (2 ^ j - 1) = push_bit j (drop_bit j (x :: u32))"
  unfolding mask_eq_exp_minus_1 [symmetric]
  by (rule bit_word_eqI) (auto simp: bit_simps)

lemma unat_less_32: "unat (x :: u32) < 2 ^ 32"
  using unsigned_less [of x, where 'a = nat] by simp

lemma unat_and_not_mask: "unat (x AND NOT (2 ^ j - 1) :: u32) = unat x div 2 ^ j * 2 ^ j"
proof -
  have "unat (push_bit j (drop_bit j x)) = take_bit 32 (push_bit j (drop_bit j (unat x)))"
    by (simp add: unsigned_push_bit_eq unsigned_drop_bit_eq take_bit_nat_eq_self [OF unat_less_32])
  also have "\<dots> = push_bit j (drop_bit j (unat x))"
  proof (rule take_bit_nat_eq_self)
    have "push_bit j (drop_bit j (unat x)) \<le> unat x"
      by (simp add: push_bit_eq_mult drop_bit_eq_div)
    then show "push_bit j (drop_bit j (unat x)) < 2 ^ 32"
      using unat_less_32 [of x] by simp
  qed
  finally show ?thesis
    by (simp add: and_not_mask_shift push_bit_eq_mult drop_bit_eq_div)
qed

lemma unat_exp: "i < 32 \<Longrightarrow> unat (2 ^ i :: u32) = 2 ^ i"
  using unat_of_nat [of "2 ^ i", where 'a = 32] power_strict_increasing [of i 32 "2 :: nat"] by simp

lemma unat_add_small: "unat a + unat b < 2 ^ 32 \<Longrightarrow> unat (a + b :: u32) = unat a + unat b"
  by (simp add: unat_word_ariths)

lemma grown_capacity_bounds:
  assumes "unat idx < 2 ^ 31"
  shows "unat idx \<le> unat (grown_capacity idx)" and "unat (grown_capacity idx) \<le> unat idx + 7"
proof -
  have "unat (idx + 7) = unat idx + 7"
    using assms unat_add_small [of idx 7] by simp
  moreover have "unat (grown_capacity idx) = unat (idx + 7) div 8 * 8"
    using unat_and_not_mask [of "idx + 7" 3] by (simp add: grown_capacity_def X5H_EMUTLS_GROW_def)
  ultimately show "unat idx \<le> unat (grown_capacity idx)" and "unat (grown_capacity idx) \<le> unat idx + 7"
    by presburger+
qed

lemma value_align_power:
  assumes "valid_control obj"
  obtains j where "value_align obj = 2 ^ j" and "2 \<le> j" and "j < 32" and "unat (value_align obj) = 2 ^ j"
    and "unat (ctl_align obj) dvd 2 ^ j"
proof -
  obtain k where k: "ctl_align obj = 2 ^ k" "k < 32"
    using assms by (auto simp: valid_control_def list_ex_iff)
  note u = unat_exp
  show thesis
  proof (cases "2 < k")
    case True
    then have "(2 :: nat) ^ 2 < 2 ^ k"
      by (intro power_strict_increasing) auto
    then have "(4 :: u32) < 2 ^ k"
      using u [OF k(2)] by (simp add: word_less_nat_alt)
    then show thesis
      using True k that [of k] u by (simp add: value_align_def)
  next
    case False
    then have "(2 :: nat) ^ k \<le> 2 ^ 2"
      by (intro power_increasing) auto
    then have "\<not> (4 :: u32) < 2 ^ k"
      using u [OF k(2)] by (simp add: word_less_nat_alt)
    moreover have "(2 :: nat) ^ k dvd 2 ^ 2"
      using False by (intro le_imp_power_dvd) auto
    ultimately show thesis
      using k that [of 2] u by (simp add: value_align_def)
  qed
qed

lemma value_address_fits:
  assumes "valid_control obj" and "n = ctl_size obj + value_align obj + 4" and "unat raw + unat n < 2 ^ 32"
  shows "fits_block raw n (value_address raw (value_align obj)) (ctl_size obj)"
    and "unat (ctl_align obj) dvd unat (value_address raw (value_align obj))"
    and "unat n = unat (ctl_size obj) + unat (value_align obj) + 4"
proof -
  obtain j where j: "value_align obj = 2 ^ j" "2 \<le> j" "j < 32" "unat (value_align obj) = 2 ^ j"
    "unat (ctl_align obj) dvd 2 ^ j"
    using assms(1) by (rule value_align_power)
  have small: "unat (ctl_size obj) + unat (value_align obj) + 4 < 2 ^ 32"
    using assms(1) by (simp add: valid_control_def)
  then show n: "unat n = unat (ctl_size obj) + unat (value_align obj) + 4"
    using assms(2) by (simp add: unat_add_small)
  define x where "x = raw + 4 + (2 ^ j - 1)"
  have "unat (2 ^ j - 1 :: u32) = 2 ^ j - 1"
    using unat_exp [OF j(3)] j(3) by (subst unat_minus_one) (auto simp: exp_eq_0_imp_not_bit not_le)
  moreover have "unat raw + 4 + (2 ^ j - 1) < 2 ^ 32"
    using assms(3) n j(4) by linarith
  moreover have "unat raw + unat (4 :: u32) < 2 ^ 32"
    using assms(3) n j(4) by simp
  then have "unat (raw + 4) = unat raw + 4"
    using unat_add_small [of raw 4] by simp
  ultimately have x: "unat x = unat raw + 4 + (2 ^ j - 1)"
    using unat_add_small [of "raw + 4" "2 ^ j - 1"] unfolding x_def by simp
  have val: "unat (value_address raw (value_align obj)) = unat x div 2 ^ j * 2 ^ j"
    by (simp add: value_address_def j(1) x_def unat_and_not_mask)
  have "unat x - unat x mod 2 ^ j = unat x div 2 ^ j * 2 ^ j" "unat x mod 2 ^ j < 2 ^ j"
    by (simp_all add: minus_mod_eq_div_mult)
  then show "fits_block raw n (value_address raw (value_align obj)) (ctl_size obj)"
    using x n j(4) unfolding fits_block_def val by linarith
  show "unat (ctl_align obj) dvd unat (value_address raw (value_align obj))"
    unfolding val using j(5) by (rule dvd_mult)
qed

section \<open>The invariant\<close>

text \<open>The slots of a caller, the block of a value, and the blocks a caller holds.\<close>

definition slots :: "caller \<Rightarrow> emutls \<Rightarrow> addr list" where
  "slots c st = slots_at st (emutls_current_array c st)"

definition block_of :: "emutls \<Rightarrow> addr \<Rightarrow> addr" where
  "block_of st val = the (below st (val - 4))"

definition blocks_of :: "emutls \<Rightarrow> addr list \<Rightarrow> addr list" where
  "blocks_of st xs = map (block_of st) (filter (\<lambda>val. val \<noteq> 0) xs)"

fun in_hand :: "emutls \<Rightarrow> progress \<Rightarrow> addr list" where
  "in_hand st (Filled v idx grown) = [grown]"
| "in_hand st (Published v idx old) = (if old = 0 then [] else [old])"
| "in_hand st (Valued v idx val) = [block_of st val]"
| "in_hand st Idle = []"
| "in_hand st (Seen v seen) = []"
| "in_hand st (Indexed v idx) = []"
| "in_hand st (Ready v idx) = []"
| "in_hand st (Returned v val) = []"

definition own_array :: "caller \<Rightarrow> emutls \<Rightarrow> addr list" where
  "own_array c st = (if emutls_current_array c st = 0 then [] else [emutls_current_array c st])"

definition held :: "caller \<Rightarrow> progress \<Rightarrow> emutls \<Rightarrow> addr list" where
  "held c pr st = own_array c st @ blocks_of st (slots c st) @ in_hand st pr"

definition value_ok :: "emutls \<Rightarrow> control \<Rightarrow> addr \<Rightarrow> bool" where
  "value_ok st obj val \<longleftrightarrow>
     (\<exists>raw n bytes. below st (val - 4) = Some raw \<and> live st raw = Some n \<and> fits_block raw n val (ctl_size obj)
        \<and> contents st val = Some bytes \<and> length bytes = unat (ctl_size obj))
     \<and> unat (ctl_align obj) dvd unat val"

definition slots_ok :: "nat \<Rightarrow> emutls \<Rightarrow> addr list \<Rightarrow> bool" where
  "slots_ok n st xs \<longleftrightarrow>
     (\<forall>i < length xs. xs ! i \<noteq> 0 \<longrightarrow>
        (\<exists>v < n. unat (ctl_loc (controls st v)) = Suc i \<and> value_ok st (controls st v) (xs ! i)))"

definition indexed :: "nat \<Rightarrow> emutls \<Rightarrow> nat \<Rightarrow> u32 \<Rightarrow> bool" where
  "indexed n st v idx \<longleftrightarrow> v < n \<and> idx = ctl_loc (controls st v) \<and> 0 < unat idx"

fun progress_ok :: "nat \<Rightarrow> caller \<Rightarrow> emutls \<Rightarrow> progress \<Rightarrow> bool" where
  "progress_ok n c st Idle = True"
| "progress_ok n c st (Seen v seen) = (v < n \<and> (seen = 0 \<or> seen = ctl_loc (controls st v)))"
| "progress_ok n c st (Indexed v idx) = indexed n st v idx"
| "progress_ok n c st (Filled v idx grown) =
     (indexed n st v idx \<and> grown \<noteq> 0
      \<and> (\<exists>k. arrays st grown = Some (slots c st @ replicate k 0) \<and> unat idx \<le> length (slots c st) + k))"
| "progress_ok n c st (Published v idx old) = (indexed n st v idx \<and> unat idx \<le> length (slots c st))"
| "progress_ok n c st (Ready v idx) = (indexed n st v idx \<and> unat idx \<le> length (slots c st))"
| "progress_ok n c st (Valued v idx val) =
     (indexed n st v idx \<and> unat idx \<le> length (slots c st) \<and> slots c st ! (unat idx - 1) = 0)"
| "progress_ok n c st (Returned v val) =
     (\<exists>idx. indexed n st v idx \<and> unat idx \<le> length (slots c st) \<and> slots c st ! (unat idx - 1) = val \<and> val \<noteq> 0)"

fun hand_ok :: "emutls \<Rightarrow> progress \<Rightarrow> bool" where
  "hand_ok st (Valued v idx val) = value_ok st (controls st v) val"
| "hand_ok st pr = True"

definition caller_ok :: "nat \<Rightarrow> emutls \<Rightarrow> caller \<Rightarrow> progress \<Rightarrow> bool" where
  "caller_ok n st c pr \<longleftrightarrow>
     distinct (held c pr st) \<and> set (held c pr st) \<subseteq> dom (live st) \<and> slots_ok n st (slots c st) \<and> hand_ok st pr"

definition index_ok :: "nat \<Rightarrow> emutls \<Rightarrow> bool" where
  "index_ok n st \<longleftrightarrow>
     n < 2 ^ 28 \<and> (\<forall>v < n. valid_control (controls st v))
     \<and> (\<forall>v < n. \<forall>w < n. ctl_loc (controls st v) = ctl_loc (controls st w) \<and> ctl_loc (controls st v) \<noteq> 0 \<longrightarrow> v = w)
     \<and> (\<forall>v < n. unat (ctl_loc (controls st v)) \<le> unat (next_index st))
     \<and> unat (next_index st) = card {v. v < n \<and> ctl_loc (controls st v) \<noteq> 0}"

definition heap_ok :: "emutls \<Rightarrow> bool" where
  "heap_ok st \<longleftrightarrow>
     arrays st 0 = None \<and> live st 0 = None
     \<and> (\<forall>a b n m. a \<noteq> b \<and> live st a = Some n \<and> live st b = Some m \<longrightarrow> apart a n b m)"

definition esystem_ok :: "nat \<Rightarrow> esystem \<Rightarrow> bool" where
  "esystem_ok n s \<longleftrightarrow>
     heap_ok (est s) \<and> index_ok n (est s)
     \<and> (\<forall>c. caller_ok n (est s) c (prog s c))
     \<and> (\<forall>c. c \<notin> gone s \<longrightarrow> progress_ok n c (est s) (prog s c))
     \<and> (\<forall>c \<in> gone s. emutls_current_array c (est s) = 0)
     \<and> (\<forall>c d. c \<noteq> d \<longrightarrow> set (held c (prog s c) (est s)) \<inter> set (held d (prog s d) (est s)) = {})
     \<and> (\<forall>c. set (held c (prog s c) (est s)) \<inter> foreign s = {})
     \<and> dom (live (est s)) = foreign s \<union> (\<Union>c. set (held c (prog s c) (est s)))"

section \<open>What a step leaves alone\<close>

definition frame :: "addr set \<Rightarrow> emutls \<Rightarrow> emutls \<Rightarrow> bool" where
  "frame P st st' \<longleftrightarrow>
     (\<forall>a \<in> P. live st' a = live st a \<and> arrays st' a = arrays st a)
     \<and> (\<forall>val raw n k. below st (val - 4) = Some raw \<and> raw \<in> P \<and> live st raw = Some n \<and> fits_block raw n val k \<longrightarrow>
          below st' (val - 4) = Some raw \<and> contents st' val = contents st val)
     \<and> (\<forall>v. ctl_size (controls st' v) = ctl_size (controls st v)
          \<and> ctl_align (controls st' v) = ctl_align (controls st v)
          \<and> (ctl_loc (controls st v) \<noteq> 0 \<longrightarrow> ctl_loc (controls st' v) = ctl_loc (controls st v)))"

lemma frame_mono: "frame P st st' \<Longrightarrow> Q \<subseteq> P \<Longrightarrow> frame Q st st'"
  unfolding frame_def by blast

lemma frame_live: "frame P st st' \<Longrightarrow> a \<in> P \<Longrightarrow> live st' a = live st a"
  and frame_arrays: "frame P st st' \<Longrightarrow> a \<in> P \<Longrightarrow> arrays st' a = arrays st a"
  and frame_size: "frame P st st' \<Longrightarrow> ctl_size (controls st' v) = ctl_size (controls st v)"
  and frame_align: "frame P st st' \<Longrightarrow> ctl_align (controls st' v) = ctl_align (controls st v)"
  and frame_loc: "frame P st st' \<Longrightarrow> ctl_loc (controls st v) \<noteq> 0 \<Longrightarrow> ctl_loc (controls st' v) = ctl_loc (controls st v)"
  unfolding frame_def by blast+

lemma frame_value:
  assumes "frame P st st'" and "value_ok st (controls st v) val" and "block_of st val \<in> P"
  shows "value_ok st' (controls st' v) val" and "block_of st' val = block_of st val"
    and "contents st' val = contents st val"
proof -
  obtain raw n bytes where r: "below st (val - 4) = Some raw" "live st raw = Some n"
    "fits_block raw n val (ctl_size (controls st v))" "contents st val = Some bytes"
    "length bytes = unat (ctl_size (controls st v))"
    using assms(2) by (auto simp: value_ok_def)
  have "raw \<in> P"
    using assms(3) r(1) by (simp add: block_of_def)
  with assms(1) r have "below st' (val - 4) = Some raw" "contents st' val = contents st val"
    unfolding frame_def by blast+
  with r assms(2) \<open>raw \<in> P\<close> show "value_ok st' (controls st' v) val" "block_of st' val = block_of st val"
    "contents st' val = contents st val"
    by (auto simp: value_ok_def block_of_def frame_live [OF assms(1)] frame_size [OF assms(1)]
        frame_align [OF assms(1)])
qed

lemma slots_frame:
  assumes "frame P st st'" and "heap_ok st" and "heap_ok st'"
    and "emutls_current_array c st' = emutls_current_array c st" and "set (own_array c st) \<subseteq> P"
  shows "slots c st' = slots c st"
proof (cases "emutls_current_array c st = 0")
  case False
  with assms(5) have "emutls_current_array c st \<in> P"
    by (simp add: own_array_def)
  then show ?thesis
    using frame_arrays [OF assms(1)] by (simp add: slots_def slots_at_def assms(4))
qed (use assms(2-4) in \<open>simp add: slots_def slots_at_def heap_ok_def\<close>)

lemma slots_ok_value:
  "slots_ok n st xs \<Longrightarrow> val \<in> set xs \<Longrightarrow> val \<noteq> 0 \<Longrightarrow> \<exists>v < n. ctl_loc (controls st v) \<noteq> 0 \<and> value_ok st (controls st v) val"
  unfolding slots_ok_def in_set_conv_nth by force

lemma blocks_of_frame:
  assumes "frame P st st'" and "slots_ok n st xs" and "set (blocks_of st xs) \<subseteq> P"
  shows "blocks_of st' xs = blocks_of st xs" and "slots_ok n st' xs"
proof -
  have "block_of st' val = block_of st val \<and> block_of st val \<in> P" if "val \<in> set xs" "val \<noteq> 0" for val
    using frame_value(2) [OF assms(1)] slots_ok_value [OF assms(2) that] that assms(3)
    by (fastforce simp: blocks_of_def)
  then show "blocks_of st' xs = blocks_of st xs"
    by (simp add: blocks_of_def)
  have in_P: "block_of st (xs ! i) \<in> P" if "i < length xs" "xs ! i \<noteq> 0" for i
    using that assms(3) by (auto simp: blocks_of_def)
  show "slots_ok n st' xs"
    unfolding slots_ok_def
  proof (intro allI impI)
    fix i assume i: "i < length xs" "xs ! i \<noteq> 0"
    then obtain v where v: "v < n" "unat (ctl_loc (controls st v)) = Suc i" "value_ok st (controls st v) (xs ! i)"
      using assms(2) by (auto simp: slots_ok_def)
    then have "ctl_loc (controls st v) \<noteq> 0"
      by auto
    with v frame_loc [OF assms(1)] frame_value(1) [OF assms(1) v(3) in_P [OF i]]
    show "\<exists>v < n. unat (ctl_loc (controls st' v)) = Suc i \<and> value_ok st' (controls st' v) (xs ! i)"
      by force
  qed
qed

lemma in_hand_frame:
  assumes "frame P st st'" and "hand_ok st pr" and "set (in_hand st pr) \<subseteq> P"
  shows "in_hand st' pr = in_hand st pr" and "hand_ok st' pr"
  using assms frame_value [OF assms(1)] by (cases pr; simp)+

lemma caller_frame:
  assumes "frame P st st'" and "heap_ok st" and "heap_ok st'" and "caller_ok n st c pr"
    and "emutls_current_array c st' = emutls_current_array c st" and "set (held c pr st) \<subseteq> P"
  shows "held c pr st' = held c pr st" and "slots c st' = slots c st" and "caller_ok n st' c pr"
proof -
  have own: "own_array c st' = own_array c st"
    by (simp add: own_array_def assms(5))
  have sub: "set (own_array c st) \<subseteq> P" "set (blocks_of st (slots c st)) \<subseteq> P" "set (in_hand st pr) \<subseteq> P"
    using assms(6) by (auto simp: held_def)
  have ok: "slots_ok n st (slots c st)" "hand_ok st pr" "set (held c pr st) \<subseteq> dom (live st)"
    using assms(4) by (simp_all add: caller_ok_def)
  show s: "slots c st' = slots c st"
    using assms(1-3,5) sub(1) by (rule slots_frame)
  show h: "held c pr st' = held c pr st"
    using in_hand_frame(1) [OF assms(1) ok(2) sub(3)] blocks_of_frame(1) [OF assms(1) ok(1) sub(2)] own s
    by (simp add: held_def)
  have "set (held c pr st) \<subseteq> dom (live st')"
    using ok(3) assms(6) frame_live [OF assms(1)] by (fastforce simp: dom_def)
  with assms(4) show "caller_ok n st' c pr"
    using in_hand_frame(2) [OF assms(1) ok(2) sub(3)] blocks_of_frame(2) [OF assms(1) ok(1) sub(2)]
    by (simp add: caller_ok_def h s)
qed

lemma indexed_frame: "frame P st st' \<Longrightarrow> indexed n st v idx \<Longrightarrow> indexed n st' v idx"
  using frame_loc [of P st st' v] by (cases "ctl_loc (controls st v) = 0") (auto simp: indexed_def)

lemma progress_frame:
  assumes "frame P st st'" and "slots c st' = slots c st" and "set (in_hand st pr) \<subseteq> P"
    and "progress_ok n c st pr"
  shows "progress_ok n c st' pr"
  using assms(2-4) indexed_frame [OF assms(1)] frame_loc [OF assms(1)] frame_arrays [OF assms(1)]
  by (cases pr) (auto, metis)

section \<open>The operations\<close>

lemma allocator_fresh:
  assumes "proper_allocator mal" and "mal blocks n = Some a"
  shows "a \<noteq> 0" and "blocks a = None" and "unat a + unat n < 2 ^ 32"
    and "blocks b = Some m \<Longrightarrow> apart a n b m"
  using assms unfolding proper_allocator_def by blast+

lemma heap_ok_alloc:
  assumes "proper_allocator mal" and "mal (live st) n = Some a" and "heap_ok st"
    and "live st' = (live st)(a \<mapsto> n)" and "arrays st' 0 = None"
  shows "heap_ok st'"
proof -
  have "apart a n b m \<and> apart b m a n" if "live st b = Some m" for b m
    using allocator_fresh(4) [OF assms(1,2) that] by (auto simp: apart_def)
  then show ?thesis
    using assms(3) allocator_fresh(1) [OF assms(1,2)] by (auto simp: heap_ok_def assms(4,5))
qed

lemma heap_ok_less:
  "heap_ok st \<Longrightarrow> live st' = (live st)(a := None) \<Longrightarrow> arrays st' 0 = None \<Longrightarrow> heap_ok st'"
  unfolding heap_ok_def by auto

lemma valid_control_loc [simp]: "valid_control (obj\<lparr>ctl_loc := i\<rparr>) = valid_control obj"
  by (simp add: valid_control_def value_align_def split: option.splits)

lemma assign_index_ok:
  assumes "assign_index v st = (idx, st')" and "index_ok n st" and "v < n"
  shows "frame UNIV st st'" and "index_ok n st'" and "indexed n st' v idx"
    and "live st' = live st" and "arrays st' = arrays st"
    and "emutls_current_array c st' = emutls_current_array c st"
proof -
  let ?used = "\<lambda>st. {v. v < n \<and> ctl_loc (controls st v) \<noteq> 0}"
  have "live st' = live st \<and> arrays st' = arrays st \<and> below st' = below st \<and> contents st' = contents st
    \<and> emutls_current_array c st' = emutls_current_array c st"
    using assms(1) by (cases c) (auto simp: assign_index_def Let_def split: if_splits)
  then show same: "live st' = live st" "arrays st' = arrays st"
    "emutls_current_array c st' = emutls_current_array c st"
    by simp_all
  show "frame UNIV st st'"
    using assms(1) by (auto simp: frame_def assign_index_def Let_def split: if_splits)
  have num: "unat (next_index st) = card (?used st)" "n < 2 ^ 28"
    using assms(2) by (simp_all add: index_ok_def)
  have "index_ok n st' \<and> indexed n st' v idx"
  proof (cases "ctl_loc (controls st v) = 0")
    case False
    then show ?thesis
      using assms by (auto simp: assign_index_def indexed_def unat_gt_0)
  next
    case True
    then have st': "idx = next_index st + 1"
      "st' = st\<lparr>next_index := idx, controls := (controls st)(v := (controls st v)\<lparr>ctl_loc := idx\<rparr>)\<rparr>"
      using assms(1) by (auto simp: assign_index_def Let_def)
    have "card (?used st) \<le> card {..<n}"
      by (intro card_mono) auto
    then have "unat (next_index st) + 1 < 2 ^ 32"
      using num by simp
    then have idx: "unat idx = unat (next_index st) + 1"
      using unat_add_small [of "next_index st" 1] st'(1) by simp
    have used: "?used st' = insert v (?used st)"
      using assms(3) idx by (auto simp: st'(2))
    have "card (?used st') = card (?used st) + 1"
      unfolding used using True by simp
    moreover have "ctl_loc (controls st w) \<noteq> idx" if "w < n" for w
      using assms(2) that idx by (auto simp: index_ok_def)
    moreover have "valid_control (controls st' w)" if "w < n" for w
      using assms(2) that by (auto simp: st'(2) index_ok_def)
    ultimately show ?thesis
      using assms(2,3) idx num
      by (auto simp: index_ok_def indexed_def st'(2) le_SucI)
  qed
  then show "index_ok n st'" "indexed n st' v idx" by simp_all
qed

lemma index_bound:
  assumes "index_ok n st" and "indexed n st v idx"
  shows "unat idx < 2 ^ 28" and "0 < unat idx" and "valid_control (controls st v)"
proof -
  have "card {v. v < n \<and> ctl_loc (controls st v) \<noteq> 0} \<le> card {..<n}"
    by (intro card_mono) auto
  with assms show "unat idx < 2 ^ 28" "0 < unat idx" "valid_control (controls st v)"
    by (auto simp: index_ok_def indexed_def)
qed

text \<open>Changes of one array, of one pointer to an array, and of the blocks.\<close>

lemma current_array_update [simp]:
  "emutls_current_array c (st\<lparr>live := L\<rparr>) = emutls_current_array c st"
  "emutls_current_array c (st\<lparr>arrays := A\<rparr>) = emutls_current_array c st"
  "emutls_current_array c (st\<lparr>below := B\<rparr>) = emutls_current_array c st"
  "emutls_current_array c (st\<lparr>contents := C\<rparr>) = emutls_current_array c st"
  by (cases c; simp)+

lemma current_array_set [simp]:
  "emutls_current_array d (emutls_set_current_array c a st) = (if d = c then a else emutls_current_array d st)"
  by (cases c; cases d) auto

lemma set_current_array_rest [simp]:
  "live (emutls_set_current_array c a st) = live st"
  "arrays (emutls_set_current_array c a st) = arrays st"
  "below (emutls_set_current_array c a st) = below st"
  "contents (emutls_set_current_array c a st) = contents st"
  "controls (emutls_set_current_array c a st) = controls st"
  "next_index (emutls_set_current_array c a st) = next_index st"
  by (cases c; simp)+

lemma same_memory:
  assumes "live st' = live st" and "below st' = below st" and "contents st' = contents st" and "controls st' = controls st"
  shows "value_ok st' obj val = value_ok st obj val" and "block_of st' val = block_of st val"
    and "blocks_of st' xs = blocks_of st xs" and "slots_ok n st' xs = slots_ok n st xs"
    and "indexed n st' v idx = indexed n st v idx"
proof -
  show v: "value_ok st' obj val = value_ok st obj val" for obj val
    by (simp add: value_ok_def assms)
  show b: "block_of st' val = block_of st val" for val
    by (simp add: block_of_def assms)
  show "blocks_of st' xs = blocks_of st xs" "slots_ok n st' xs = slots_ok n st xs"
    "indexed n st' v idx = indexed n st v idx"
    by (simp_all add: blocks_of_def slots_ok_def indexed_def v b [abs_def] assms)
qed

lemma blocks_of_append [simp]: "blocks_of st (xs @ ys) = blocks_of st xs @ blocks_of st ys"
  and blocks_of_replicate [simp]: "blocks_of st (replicate k 0) = []"
  by (simp_all add: blocks_of_def)

lemma slots_ok_zeros: "slots_ok n st xs \<Longrightarrow> slots_ok n st (xs @ replicate k 0)"
  by (auto simp: slots_ok_def nth_append)

lemma blocks_of_update:
  assumes "i < length xs" and "xs ! i = 0" and "val \<noteq> 0"
  shows "mset (blocks_of st (xs[i := val])) = add_mset (block_of st val) (mset (blocks_of st xs))"
proof -
  have "xs = take i xs @ 0 # drop (Suc i) xs"
    using assms(1,2) by (metis id_take_nth_drop)
  then have "blocks_of st xs = blocks_of st (take i xs) @ blocks_of st (drop (Suc i) xs)"
    by (metis append_Cons append_Nil blocks_of_append blocks_of_replicate replicate_Suc replicate_0)
  moreover have "blocks_of st (xs[i := val]) =
      blocks_of st (take i xs) @ block_of st val # blocks_of st (drop (Suc i) xs)"
    using assms(1,3) by (simp add: upd_conv_take_nth_drop) (simp add: blocks_of_def)
  ultimately show ?thesis
    by simp
qed

lemma grow_array_ok:
  assumes "grow_array mal arr idx st = r" and "proper_allocator mal" and "heap_ok st"
    and "unat idx < 2 ^ 28" and "length (slots_at st arr) < unat idx"
  shows "r = Inl Out_of_memory \<or>
    (\<exists>grown k cap. r = Inr (grown, st\<lparr>live := (live st)(grown \<mapsto> k),
        arrays := (arrays st)(grown \<mapsto> slots_at st arr @ replicate cap 0)\<rparr>)
      \<and> mal (live st) k = Some grown \<and> unat idx \<le> length (slots_at st arr) + cap)"
proof (cases "mal (live st) (4 + grown_capacity idx * 4)")
  case (Some grown)
  have cap: "unat idx \<le> unat (grown_capacity idx)" "unat (grown_capacity idx) \<le> unat idx + 7"
    using assms(4) grown_capacity_bounds [of idx] by simp_all
  have "unat (grown_capacity idx * 4) = 4 * unat (grown_capacity idx)"
    using cap assms(4) by (simp add: unat_word_ariths)
  then have "unat (4 + grown_capacity idx * 4) = 4 + 4 * unat (grown_capacity idx)"
    using unat_add_small [of 4 "grown_capacity idx * 4"] cap assms(4) by simp
  then have "r = Inr (grown, st\<lparr>live := (live st)(grown \<mapsto> 4 + grown_capacity idx * 4),
      arrays := (arrays st)(grown \<mapsto> slots_at st arr
        @ replicate (unat (grown_capacity idx) - length (slots_at st arr)) 0)\<rparr>)"
    using Some cap assms(1,5) by (simp add: grow_array_def Let_def)
  moreover have "unat idx \<le> length (slots_at st arr) + (unat (grown_capacity idx) - length (slots_at st arr))"
    using cap assms(5) by simp
  ultimately show ?thesis
    using Some by blast
qed (use assms(1) in \<open>simp add: grow_array_def Let_def\<close>)

lemma alloc_value_ok:
  assumes "emutls_alloc_value mal obj st = r" and "proper_allocator mal" and "valid_control obj"
  shows "r = Inl Out_of_memory \<or>
    (\<exists>val raw n bytes. r = Inr (val, st\<lparr>live := (live st)(raw \<mapsto> n), below := (below st)(val - 4 \<mapsto> raw),
        contents := (contents st)(val \<mapsto> bytes)\<rparr>)
      \<and> mal (live st) n = Some raw \<and> initial_bytes obj = Some bytes \<and> length bytes = unat (ctl_size obj)
      \<and> fits_block raw n val (ctl_size obj) \<and> unat (ctl_align obj) dvd unat val)"
proof (cases "mal (live st) (ctl_size obj + value_align obj + 4)")
  case (Some raw)
  then have "unat raw + unat (ctl_size obj + value_align obj + 4) < 2 ^ 32"
    using assms(2) by (auto simp: proper_allocator_def)
  note fits = value_address_fits [OF assms(3) refl this]
  obtain bytes where "initial_bytes obj = Some bytes" "length bytes = unat (ctl_size obj)"
    using assms(3) by (auto simp: initial_bytes_def valid_control_def split: option.splits)
  then show ?thesis
    using Some fits assms(1) by (auto simp: emutls_alloc_value_def Let_def)
qed (use assms(1) in \<open>simp add: emutls_alloc_value_def Let_def\<close>)

section \<open>A step of a caller\<close>

definition own_step :: "nat \<Rightarrow> caller \<Rightarrow> progress \<Rightarrow> emutls \<Rightarrow> progress \<Rightarrow> emutls \<Rightarrow> bool" where
  "own_step n c pr st pr' st' \<longleftrightarrow>
     frame (dom (live st) - set (held c pr st)) st st' \<and> heap_ok st' \<and> index_ok n st'
     \<and> caller_ok n st' c pr' \<and> progress_ok n c st' pr'
     \<and> (\<forall>d. d \<noteq> c \<longrightarrow> emutls_current_array d st' = emutls_current_array d st)
     \<and> dom (live st') - set (held c pr' st') = dom (live st) - set (held c pr st)"

lemma own_step_refl:
  "heap_ok st \<Longrightarrow> index_ok n st \<Longrightarrow> caller_ok n st c pr' \<Longrightarrow> progress_ok n c st pr' \<Longrightarrow>
    held c pr' st = held c pr st \<Longrightarrow> own_step n c pr st pr' st"
  by (simp add: own_step_def frame_def)

lemma index_ok_same:
  "index_ok n st \<Longrightarrow> controls st' = controls st \<Longrightarrow> next_index st' = next_index st \<Longrightarrow> index_ok n st'"
  unfolding index_ok_def by metis

lemma held_plain: "in_hand st pr = [] \<Longrightarrow> held c pr st = own_array c st @ blocks_of st (slots c st)"
  by (simp add: held_def)

lemma step_seen:
  assumes "heap_ok st" and "index_ok n st" and "caller_ok n st c (Seen v seen)" and "progress_ok n c st (Seen v seen)"
    and "emu_advance mal c (Seen v seen) st = Inr (pr', st')"
  shows "own_step n c (Seen v seen) st pr' st'"
proof (cases "seen = 0")
  case True
  obtain idx st1 where a: "assign_index v st = (idx, st1)" by fastforce
  have r: "pr' = Indexed v idx" "st' = st1"
    using assms(5) True a by simp_all
  note f = assign_index_ok [OF a assms(2)]
  have v: "v < n"
    using assms(4) by simp
  have "caller_ok n st c (Indexed v idx)"
    using assms(3) by (simp add: caller_ok_def held_def)
  moreover have "heap_ok st1"
    using assms(1) f(4,5) [OF v] by (simp add: heap_ok_def)
  ultimately have "held c (Indexed v idx) st1 = held c (Indexed v idx) st" "caller_ok n st1 c (Indexed v idx)"
    using caller_frame [OF f(1) [OF v] assms(1)] f(6) [OF v] by blast+
  then show ?thesis
    using f [OF v] \<open>heap_ok st1\<close> frame_mono [OF f(1) [OF v]] unfolding own_step_def r
    by (simp add: held_def)
next
  case False
  then have r: "pr' = Indexed v seen" "st' = st"
    using assms(5) by auto
  show ?thesis
    unfolding r using False assms(1-4)
    by (intro own_step_refl) (auto simp: caller_ok_def held_def indexed_def unat_gt_0)
qed

lemma step_indexed:
  assumes "proper_allocator mal" and "heap_ok st" and "index_ok n st" and "caller_ok n st c (Indexed v idx)"
    and "progress_ok n c st (Indexed v idx)" and "emu_advance mal c (Indexed v idx) st = r"
  shows "r = Inl Out_of_memory \<or> (\<exists>pr' st'. r = Inr (pr', st') \<and> own_step n c (Indexed v idx) st pr' st')"
proof (cases "emutls_current_array c st = 0 \<or> length (slots c st) < unat idx")
  case False
  then have "r = Inr (Ready v idx, st)"
    using assms(6) by (auto simp: Let_def slots_def)
  moreover have "own_step n c (Indexed v idx) st (Ready v idx) st"
    using assms False by (intro own_step_refl) (auto simp: caller_ok_def held_def)
  ultimately show ?thesis by blast
next
  case True
  have i: "indexed n st v idx"
    using assms(5) by simp
  have short: "length (slots_at st (emutls_current_array c st)) < unat idx"
    using True assms(2) index_bound(2) [OF assms(3) i] by (auto simp: slots_def slots_at_def heap_ok_def)
  show ?thesis
  proof (cases "grow_array mal (emutls_current_array c st) idx st")
    case (Inl e)
    then show ?thesis
      using grow_array_ok [OF Inl assms(1,2) index_bound(1) [OF assms(3) i] short] True assms(6)
      by (auto simp: slots_def)
  next
    case (Inr p)
    obtain grown k cap where g: "p = (grown, st\<lparr>live := (live st)(grown \<mapsto> k),
        arrays := (arrays st)(grown \<mapsto> slots c st @ replicate cap 0)\<rparr>)"
      "mal (live st) k = Some grown" "unat idx \<le> length (slots c st) + cap"
      using grow_array_ok [OF Inr assms(1,2) index_bound(1) [OF assms(3) i] short] by (auto simp: slots_def)
    define st' where "st' = st\<lparr>live := (live st)(grown \<mapsto> k),
        arrays := (arrays st)(grown \<mapsto> slots c st @ replicate cap 0)\<rparr>"
    have r: "r = Inr (Filled v idx grown, st')"
      using Inr g(1) True assms(6) by (auto simp: st'_def slots_def)
    note fresh = allocator_fresh [OF assms(1) g(2)]
    have st'_eqs: "live st' = (live st)(grown \<mapsto> k)" "arrays st' = (arrays st)(grown \<mapsto> slots c st @ replicate cap 0)"
      "controls st' = controls st" "next_index st' = next_index st" "below st' = below st" "contents st' = contents st"
      "emutls_current_array d st' = emutls_current_array d st" for d
      by (simp_all add: st'_def)
    have "arrays st' 0 = None"
      using assms(2) fresh(1) by (simp add: st'_eqs heap_ok_def)
    with st'_eqs(1) have heap: "heap_ok st'"
      by (rule heap_ok_alloc [OF assms(1) g(2) assms(2)])
    have fr: "frame (dom (live st)) st st'"
      using fresh(2) by (auto simp: frame_def st'_eqs)
    have sub: "set (held c (Indexed v idx) st) \<subseteq> dom (live st)"
      using assms(4) by (simp add: caller_ok_def)
    note same = caller_frame [OF fr assms(2) heap assms(4) st'_eqs(7) sub]
    have h: "held c (Filled v idx grown) st' = held c (Indexed v idx) st @ [grown]"
      using same(1) by (simp add: held_def)
    have new: "grown \<notin> set (held c (Indexed v idx) st)"
      using sub fresh(2) by auto
    have "caller_ok n st' c (Filled v idx grown)"
      using same(3) new sub by (auto simp: caller_ok_def h same(1) st'_eqs(1))
    moreover have "progress_ok n c st' (Filled v idx grown)"
      using i g(3) fresh(1) by (auto simp: same(2) st'_eqs indexed_def)
    moreover have "index_ok n st'"
      using assms(3) by (rule index_ok_same) (simp_all add: st'_eqs)
    moreover have "dom (live st') - set (held c (Filled v idx grown) st') = dom (live st) - set (held c (Indexed v idx) st)"
      using new fresh(2) by (auto simp: h st'_eqs(1))
    ultimately have "own_step n c (Indexed v idx) st (Filled v idx grown) st'"
      using heap frame_mono [OF fr] unfolding own_step_def by (auto simp: st'_eqs(7))
    with r show ?thesis by blast
  qed
qed

lemma step_filled:
  assumes "heap_ok st" and "index_ok n st" and "caller_ok n st c (Filled v idx grown)"
    and "progress_ok n c st (Filled v idx grown)" and "emu_advance mal c (Filled v idx grown) st = Inr (pr', st')"
  shows "own_step n c (Filled v idx grown) st pr' st'"
proof -
  have r: "pr' = Published v idx (emutls_current_array c st)" "st' = emutls_set_current_array c grown st"
    using assms(5) by simp_all
  obtain k where k: "arrays st grown = Some (slots c st @ replicate k 0)" "unat idx \<le> length (slots c st) + k"
    and g: "grown \<noteq> 0" and i: "indexed n st v idx"
    using assms(4) by auto
  note mem = same_memory [of st' st, unfolded r(2), simplified]
  have s: "slots c st' = slots c st @ replicate k 0"
    by (simp add: slots_def slots_at_def r(2) k(1) [unfolded slots_def slots_at_def])
  have m: "mset (held c pr' st') = mset (held c (Filled v idx grown) st)"
    using g unfolding held_def s by (simp add: r mem own_array_def)
  then have h: "set (held c pr' st') = set (held c (Filled v idx grown) st)"
    "distinct (held c pr' st') = distinct (held c (Filled v idx grown) st)"
    by (metis mset_eq_setD, metis mset_eq_imp_distinct_iff)
  have "caller_ok n st' c pr'"
    using assms(3) h s slots_ok_zeros by (simp add: caller_ok_def r mem)
  moreover have "progress_ok n c st' pr'"
    using i k(2) by (simp add: r(1) s [unfolded r(2)] mem r(2))
  moreover have "index_ok n st'"
    using assms(2) by (rule index_ok_same) (simp_all add: r(2))
  moreover have "heap_ok st'"
    using assms(1) by (simp add: heap_ok_def r(2))
  ultimately show ?thesis
    using h(1) by (simp add: own_step_def frame_def r(2))
qed

lemma free_block_eqs:
  assumes "free_block a st = Inr st'"
  shows "live st' = (live st)(a := if a = 0 then live st 0 else None)"
    and "arrays st' = (arrays st)(a := if a = 0 then arrays st 0 else None)"
    and "controls st' = controls st" and "next_index st' = next_index st" and "below st' = below st"
    and "contents st' = contents st" and "emutls_current_array d st' = emutls_current_array d st"
    and "tls_slot st' = tls_slot st" and "boot_array st' = boot_array st"
  using assms by (auto simp: free_block_def split: if_splits)

lemma free_block_live: "a \<noteq> 0 \<Longrightarrow> a \<in> dom (live st) \<Longrightarrow> \<exists>st'. free_block a st = Inr st'"
  by (auto simp: free_block_def)

lemma free_block_heap:
  assumes "free_block a st = Inr st'" and "heap_ok st"
  shows "heap_ok st'"
proof (cases "a = 0")
  case False
  with assms show ?thesis
    by (intro heap_ok_less [OF assms(2), of st' a]) (auto simp: free_block_eqs [OF assms(1)] heap_ok_def)
qed (use assms in \<open>simp add: free_block_def\<close>)

lemma free_block_frame: "free_block a st = Inr st' \<Longrightarrow> frame (- {a}) st st'"
  by (simp add: frame_def free_block_eqs)

lemma step_published:
  assumes "heap_ok st" and "index_ok n st" and "caller_ok n st c (Published v idx old)"
    and "progress_ok n c st (Published v idx old)" and "emu_advance mal c (Published v idx old) st = r"
  shows "\<exists>pr' st'. r = Inr (pr', st') \<and> own_step n c (Published v idx old) st pr' st'"
proof -
  have h: "held c (Published v idx old) st = held c (Ready v idx) st @ (if old = 0 then [] else [old])"
    by (simp add: held_def)
  have ready: "caller_ok n st c (Ready v idx)" and old: "old = 0 \<or> old \<in> dom (live st) - set (held c (Ready v idx) st)"
    using assms(3) by (auto simp: caller_ok_def h split: if_splits)
  then obtain st' where f: "free_block old st = Inr st'"
    using free_block_live [of old st] by (cases "old = 0") (auto simp: free_block_def)
  have "0 \<notin> set (held c (Ready v idx) st)"
    using ready assms(1) by (auto simp: caller_ok_def heap_ok_def)
  with old have sub: "set (held c (Ready v idx) st) \<subseteq> - {old}"
    by auto
  note fr = free_block_frame [OF f] and heap = free_block_heap [OF f assms(1)] and eqs = free_block_eqs [OF f]
  note same = caller_frame [OF fr assms(1) heap ready eqs(7) sub]
  have "index_ok n st'"
    using assms(2) by (rule index_ok_same) (simp_all add: eqs)
  moreover have "progress_ok n c st' (Ready v idx)"
    using assms(4) by (auto simp: same(2) indexed_def eqs)
  moreover have "dom (live st') - set (held c (Ready v idx) st') = dom (live st) - set (held c (Published v idx old) st)"
    using old assms(1) by (auto simp: same(1) h eqs(1) heap_ok_def split: if_splits)
  moreover have "frame (dom (live st) - set (held c (Published v idx old) st)) st st'"
    using old assms(1) by (intro frame_mono [OF fr]) (auto simp: h heap_ok_def split: if_splits)
  ultimately have "own_step n c (Published v idx old) st (Ready v idx) st'"
    using heap same(3) by (simp add: own_step_def eqs(7))
  then show ?thesis
    using assms(5) f by auto
qed

lemma step_ready:
  assumes "proper_allocator mal" and "heap_ok st" and "index_ok n st" and "caller_ok n st c (Ready v idx)"
    and "progress_ok n c st (Ready v idx)" and "emu_advance mal c (Ready v idx) st = r"
  shows "r = Inl Out_of_memory \<or> (\<exists>pr' st'. r = Inr (pr', st') \<and> own_step n c (Ready v idx) st pr' st')"
proof -
  have i: "indexed n st v idx" "unat idx \<le> length (slots c st)"
    using assms(5) by simp_all
  note b = index_bound [OF assms(3) i(1)]
  define val where "val = slots c st ! (unat idx - 1)"
  show ?thesis
  proof (cases "val = 0")
    case False
    then have "r = Inr (Returned v val, st)"
      using assms(6) i b by (simp add: slots_def val_def Let_def)
    moreover have "own_step n c (Ready v idx) st (Returned v val) st"
      using assms i False by (intro own_step_refl) (auto simp: caller_ok_def held_def val_def)
    ultimately show ?thesis by blast
  next
    case True
    show ?thesis
    proof (cases "emutls_alloc_value mal (controls st v) st")
      case (Inl e)
      then show ?thesis
        using alloc_value_ok [OF Inl assms(1) b(3)] True assms(6) i b by (simp add: slots_def val_def Let_def)
    next
      case (Inr p)
      obtain w raw k bytes where p: "p = (w, st\<lparr>live := (live st)(raw \<mapsto> k), below := (below st)(w - 4 \<mapsto> raw),
          contents := (contents st)(w \<mapsto> bytes)\<rparr>)"
        "mal (live st) k = Some raw" "length bytes = unat (ctl_size (controls st v))"
        "fits_block raw k w (ctl_size (controls st v))" "unat (ctl_align (controls st v)) dvd unat w"
        using alloc_value_ok [OF Inr assms(1) b(3)] by auto
      define st' where "st' = st\<lparr>live := (live st)(raw \<mapsto> k), below := (below st)(w - 4 \<mapsto> raw),
          contents := (contents st)(w \<mapsto> bytes)\<rparr>"
      have eqs: "live st' = (live st)(raw \<mapsto> k)" "below st' = (below st)(w - 4 \<mapsto> raw)"
        "contents st' = (contents st)(w \<mapsto> bytes)" "arrays st' = arrays st" "controls st' = controls st"
        "next_index st' = next_index st" "emutls_current_array d st' = emutls_current_array d st" for d
        by (simp_all add: st'_def)
      have r: "r = Inr (Valued v idx w, st')"
        using Inr p(1) True assms(6) i b by (simp add: slots_def val_def Let_def st'_def)
      note fresh = allocator_fresh [OF assms(1) p(2)]
      have "arrays st' 0 = None"
        using assms(2) by (simp add: eqs heap_ok_def)
      with eqs(1) have heap: "heap_ok st'"
        by (rule heap_ok_alloc [OF assms(1) p(2) assms(2)])
      have "u \<noteq> w" if "live st raw' = Some m" "fits_block raw' m u z" for u raw' m z
        using fresh(4) [OF that(1)] p(4) that(2) by (auto simp: fits_block_def apart_def)
      then have fr: "frame (dom (live st)) st st'"
        using fresh(2) by (auto simp: frame_def eqs)
      have sub: "set (held c (Ready v idx) st) \<subseteq> dom (live st)"
        using assms(4) by (simp add: caller_ok_def)
      note same = caller_frame [OF fr assms(2) heap assms(4) eqs(7) sub]
      have h: "held c (Valued v idx w) st' = held c (Ready v idx) st @ [raw]"
        using same(1) by (simp add: held_def block_of_def eqs)
      have new: "raw \<notin> set (held c (Ready v idx) st)"
        using sub fresh(2) by auto
      have "value_ok st' (controls st' v) w"
        using p(3-5) by (simp add: value_ok_def eqs)
      then have "caller_ok n st' c (Valued v idx w)"
        using same(3) new sub by (auto simp: caller_ok_def h same(1) eqs(1))
      moreover have "progress_ok n c st' (Valued v idx w)"
        using i True by (auto simp: same(2) eqs indexed_def val_def)
      moreover have "index_ok n st'"
        using assms(3) by (rule index_ok_same) (simp_all add: eqs)
      moreover have "dom (live st') - set (held c (Valued v idx w) st') = dom (live st) - set (held c (Ready v idx) st)"
        using new fresh(2) by (auto simp: h eqs(1))
      ultimately have "own_step n c (Ready v idx) st (Valued v idx w) st'"
        using heap frame_mono [OF fr] unfolding own_step_def by (auto simp: eqs(7))
      with r show ?thesis by blast
    qed
  qed
qed

lemma step_valued:
  assumes "heap_ok st" and "index_ok n st" and "caller_ok n st c (Valued v idx val)"
    and "progress_ok n c st (Valued v idx val)" and "emu_advance mal c (Valued v idx val) st = Inr (pr', st')"
  shows "own_step n c (Valued v idx val) st pr' st'"
proof -
  define arr where "arr = emutls_current_array c st"
  have i: "indexed n st v idx" "unat idx \<le> length (slots c st)" "slots c st ! (unat idx - 1) = 0"
    using assms(4) by simp_all
  note b = index_bound [OF assms(2) i(1)]
  have r: "pr' = Returned v val" "st' = st\<lparr>arrays := (arrays st)(arr \<mapsto> (slots c st)[unat idx - 1 := val])\<rparr>"
    using assms(5) by (simp_all add: Let_def arr_def slots_def)
  have eqs: "arrays st' = (arrays st)(arr \<mapsto> (slots c st)[unat idx - 1 := val])" "live st' = live st"
    "below st' = below st" "contents st' = contents st" "controls st' = controls st" "next_index st' = next_index st"
    "emutls_current_array d st' = emutls_current_array d st" for d
    by (simp_all add: r(2))
  note mem = same_memory [OF eqs(2-5)]
  have val: "value_ok st (controls st v) val"
    using assms(3) by (simp add: caller_ok_def)
  then have "val \<noteq> 0"
    by (auto simp: value_ok_def fits_block_def)
  have arr: "arr \<noteq> 0"
    using i(2) b(2) assms(1) by (auto simp: slots_def slots_at_def arr_def heap_ok_def)
  have s: "slots c st' = (slots c st)[unat idx - 1 := val]"
    by (simp add: slots_def [of c st'] slots_at_def eqs arr_def)
  have lt: "unat idx - 1 < length (slots c st)"
    using i(2) b(2) by simp
  have m: "mset (held c (Returned v val) st') = mset (held c (Valued v idx val) st)"
    using blocks_of_update [OF lt i(3) \<open>val \<noteq> 0\<close>, of st]
    by (simp add: held_def s mem own_array_def eqs)
  then have h: "set (held c (Returned v val) st') = set (held c (Valued v idx val) st)"
    "distinct (held c (Returned v val) st') = distinct (held c (Valued v idx val) st)"
    by (metis mset_eq_setD, metis mset_eq_imp_distinct_iff)
  have "slots_ok n st ((slots c st)[unat idx - 1 := val])"
    unfolding slots_ok_def
  proof (intro allI impI)
    fix j assume j: "j < length ((slots c st)[unat idx - 1 := val])" "(slots c st)[unat idx - 1 := val] ! j \<noteq> 0"
    show "\<exists>w < n. unat (ctl_loc (controls st w)) = Suc j
        \<and> value_ok st (controls st w) ((slots c st)[unat idx - 1 := val] ! j)"
    proof (cases "j = unat idx - 1")
      case True
      with i(1) val j(1) b(2) show ?thesis
        by (intro exI [of _ v]) (auto simp: indexed_def)
    next
      case False
      with j assms(3) show ?thesis
        by (auto simp: caller_ok_def slots_ok_def)
    qed
  qed
  then have "caller_ok n st' c pr'"
    using assms(3) h by (simp add: caller_ok_def r(1) s mem eqs)
  moreover have "progress_ok n c st' pr'"
    using i lt \<open>val \<noteq> 0\<close> by (auto simp: r(1) s mem)
  moreover have "index_ok n st'"
    using assms(2) by (rule index_ok_same) (simp_all add: eqs)
  moreover have "heap_ok st'"
    using assms(1) arr by (simp add: heap_ok_def eqs)
  moreover have "arr \<in> set (held c (Valued v idx val) st)"
    using arr by (simp add: held_def own_array_def arr_def)
  then have "frame (dom (live st) - set (held c (Valued v idx val) st)) st st'"
    by (auto simp: frame_def eqs)
  ultimately show ?thesis
    using h(1) by (simp add: own_step_def r(1) eqs)
qed

lemma emu_advance_ok:
  assumes "proper_allocator mal" and "heap_ok st" and "index_ok n st" and "caller_ok n st c pr"
    and "progress_ok n c st pr" and "emu_advance mal c pr st = r"
  shows "r = Inl Out_of_memory \<or> (\<exists>pr' st'. r = Inr (pr', st') \<and> own_step n c pr st pr' st')"
proof (cases pr)
  case (Seen v seen)
  obtain pr' st' where r: "r = Inr (pr', st')"
    using assms(6) Seen by (cases "assign_index v st") (auto split: if_splits)
  then show ?thesis
    using step_seen [of st n c v seen mal pr' st'] assms(2-6) unfolding Seen by blast
next
  case (Filled v idx grown)
  then obtain pr' st' where "r = Inr (pr', st')"
    using assms(6) by auto
  then show ?thesis
    using step_filled [of st n c v idx grown mal pr' st'] assms(2-6) unfolding Filled by blast
next
  case (Valued v idx val)
  then obtain pr' st' where "r = Inr (pr', st')"
    using assms(6) by (auto simp: Let_def)
  then show ?thesis
    using step_valued [of st n c v idx val mal pr' st'] assms(2-6) unfolding Valued by blast
next
  case (Indexed v idx)
  with step_indexed [OF assms(1-3), of c v idx r] assms(4-6) show ?thesis by blast
next
  case (Published v idx old)
  with step_published [OF assms(2,3), of c v idx old mal r] assms(4-6) show ?thesis by blast
next
  case (Ready v idx)
  with step_ready [OF assms(1-3), of c v idx r] assms(4-6) show ?thesis by blast
next
  case Idle
  then show ?thesis
    using assms(6) own_step_refl [OF assms(2-5) refl] by auto
next
  case (Returned v val)
  then show ?thesis
    using assms(6) own_step_refl [OF assms(2-5) refl] by auto
qed

section \<open>Cleanup of a task\<close>

lemma free_value_eqs:
  assumes "emutls_free_value val st = Inr st'"
  shows "live st' = (live st)(block_of st val := if block_of st val = 0 then live st 0 else None)"
    and "arrays st' = (arrays st)(block_of st val := if block_of st val = 0 then arrays st 0 else None)"
    and "below st' = (below st)(val - 4 := None)" and "contents st' = (contents st)(val := None)"
    and "controls st' = controls st" and "next_index st' = next_index st"
    and "emutls_current_array d st' = emutls_current_array d st"
  using assms by (auto simp: emutls_free_value_def block_of_def free_block_eqs split: option.splits)

lemma free_value_ok:
  assumes "heap_ok st" and "value_ok st obj val"
  obtains st' where "emutls_free_value val st = Inr st'" and "heap_ok st'" and "frame (- {block_of st val}) st st'"
    and "live st' = (live st)(block_of st val := None)" and "block_of st val \<in> dom (live st)"
    and "controls st' = controls st" and "next_index st' = next_index st"
    and "\<forall>d. emutls_current_array d st' = emutls_current_array d st"
proof -
  obtain raw n where raw: "below st (val - 4) = Some raw" "live st raw = Some n" "fits_block raw n val (ctl_size obj)"
    using assms(2) by (auto simp: value_ok_def)
  have b: "block_of st val = raw" "raw \<noteq> 0"
    using raw(1,2) assms(1) by (auto simp: block_of_def heap_ok_def)
  have "\<exists>st'. emutls_free_value val st = Inr st'"
    using raw(1,2) b(2) by (simp add: emutls_free_value_def free_block_def)
  then obtain st' where f: "emutls_free_value val st = Inr st'" ..
  note eqs = free_value_eqs [OF f, unfolded b(1)]
  have heap: "heap_ok st'"
    using assms(1) b(2) by (intro heap_ok_less [OF assms(1), of st' raw]) (auto simp: eqs heap_ok_def)
  have "u \<noteq> val" if "below st (u - 4) = Some raw'" "raw' \<noteq> raw" for u raw'
    using that raw(1) by auto
  then have "frame (- {raw}) st st'"
    using b(2) by (auto simp: frame_def eqs)
  with f heap raw(2) b eqs show thesis
    by (intro that [of st']) auto
qed

lemma frame_trans:
  assumes "frame P st1 st2" and "frame Q st2 st3"
  shows "frame (P \<inter> Q) st1 st3"
proof -
  have "below st3 (val - 4) = Some raw \<and> contents st3 val = contents st1 val"
    if "below st1 (val - 4) = Some raw" "raw \<in> P" "raw \<in> Q" "live st1 raw = Some n" "fits_block raw n val k"
    for val raw n k
  proof -
    have "below st2 (val - 4) = Some raw \<and> contents st2 val = contents st1 val"
      using assms(1) that(1,2,4,5) unfolding frame_def by blast
    moreover have "live st2 raw = Some n"
      using frame_live [OF assms(1) that(2)] that(4) by simp
    ultimately have "below st3 (val - 4) = Some raw \<and> contents st3 val = contents st2 val"
      using assms(2) that(3,5) unfolding frame_def by blast
    then show ?thesis
      using \<open>below st2 (val - 4) = Some raw \<and> contents st2 val = contents st1 val\<close> by simp
  qed
  then show ?thesis
    using frame_live [OF assms(1)] frame_live [OF assms(2)] frame_arrays [OF assms(1)] frame_arrays [OF assms(2)]
      frame_size [OF assms(1)] frame_size [OF assms(2)] frame_align [OF assms(1)] frame_align [OF assms(2)]
      frame_loc [OF assms(1)] frame_loc [OF assms(2)]
    by (simp add: frame_def) blast
qed

lemma blocks_of_Cons: "blocks_of st (val # xs) = (if val = 0 then blocks_of st xs else block_of st val # blocks_of st xs)"
  by (simp add: blocks_of_def)

lemma free_values_ok:
  assumes "heap_ok st" and "distinct (blocks_of st xs)"
    and "\<forall>val \<in> set xs. val \<noteq> 0 \<longrightarrow> (\<exists>v. value_ok st (controls st v) val)"
  shows "\<exists>st'. free_values xs st = Inr st' \<and> heap_ok st' \<and> frame (- set (blocks_of st xs)) st st'
    \<and> dom (live st') = dom (live st) - set (blocks_of st xs)
    \<and> controls st' = controls st \<and> next_index st' = next_index st
    \<and> (\<forall>d. emutls_current_array d st' = emutls_current_array d st)"
  using assms
proof (induction xs arbitrary: st)
  case Nil
  then show ?case
    by (simp add: blocks_of_def frame_def)
next
  case (Cons val xs)
  show ?case
  proof (cases "val = 0")
    case True
    with Cons show ?thesis
      by (simp add: blocks_of_Cons)
  next
    case False
    obtain v where "value_ok st (controls st v) val"
      using Cons.prems(3) False by auto
    then obtain st1 where f: "emutls_free_value val st = Inr st1" "heap_ok st1" "frame (- {block_of st val}) st st1"
      "live st1 = (live st)(block_of st val := None)" "block_of st val \<in> dom (live st)"
      "controls st1 = controls st" "next_index st1 = next_index st"
      "\<forall>d. emutls_current_array d st1 = emutls_current_array d st"
      by (rule free_value_ok [OF Cons.prems(1)])
    have dist: "block_of st val \<notin> set (blocks_of st xs)" "distinct (blocks_of st xs)"
      using Cons.prems(2) False by (simp_all add: blocks_of_Cons)
    have keep: "block_of st1 u = block_of st u \<and> (\<exists>v. value_ok st1 (controls st1 v) u)"
      if "u \<in> set xs" "u \<noteq> 0" for u
    proof -
      obtain w where w: "value_ok st (controls st w) u"
        using Cons.prems(3) \<open>u \<in> set xs\<close> \<open>u \<noteq> 0\<close> by auto
      have "block_of st u \<in> set (blocks_of st xs)"
        using that by (simp add: blocks_of_def)
      then have "block_of st u \<in> - {block_of st val}"
        using dist(1) by auto
      with frame_value [OF f(3) w] show ?thesis by blast
    qed
    then have blocks: "blocks_of st1 xs = blocks_of st xs"
      by (simp add: blocks_of_def)
    obtain st2 where g: "free_values xs st1 = Inr st2" "heap_ok st2" "frame (- set (blocks_of st xs)) st1 st2"
      "dom (live st2) = dom (live st1) - set (blocks_of st xs)" "controls st2 = controls st1"
      "next_index st2 = next_index st1" "\<forall>d. emutls_current_array d st2 = emutls_current_array d st1"
      using Cons.IH [OF f(2)] dist(2) keep unfolding blocks by blast
    have "frame (- set (blocks_of st (val # xs))) st st2"
      using False by (intro frame_mono [OF frame_trans [OF f(3) g(3)]]) (auto simp: blocks_of_Cons)
    moreover have "dom (live st2) = dom (live st) - set (blocks_of st (val # xs))"
      using f(4) g(4) False by (auto simp: blocks_of_Cons)
    ultimately show ?thesis
      using False f g by simp
  qed
qed

lemma cleanup_ok:
  assumes "heap_ok st" and "index_ok n st" and "caller_ok n st (Task t) pr"
  obtains st' where "emutls_task_cleanup t st = Inr st'" and "heap_ok st'" and "index_ok n st'"
    and "caller_ok n st' (Task t) pr" and "held (Task t) pr st' = in_hand st pr"
    and "frame (dom (live st) - set (held (Task t) pr st)) st st'" and "emutls_current_array (Task t) st' = 0"
    and "\<And>d. d \<noteq> Task t \<Longrightarrow> emutls_current_array d st' = emutls_current_array d st"
    and "dom (live st') = (dom (live st) - set (held (Task t) pr st)) \<union> set (in_hand st pr)"
proof -
  define arr where "arr = tls_slot st t"
  define xs where "xs = slots_at st arr"
  have xs: "slots (Task t) st = xs"
    by (simp add: slots_def xs_def arr_def)
  have ok: "distinct (held (Task t) pr st)" "set (held (Task t) pr st) \<subseteq> dom (live st)" "slots_ok n st xs" "hand_ok st pr"
    using assms(3) by (simp_all add: caller_ok_def xs)
  show thesis
  proof (cases "arr = 0")
    case True
    then have none: "emutls_task_cleanup t st = Inr st" "own_array (Task t) st = []" "xs = []"
      using assms(1) by (simp_all add: emutls_task_cleanup_def arr_def own_array_def xs_def slots_at_def heap_ok_def)
    then have "held (Task t) pr st = in_hand st pr"
      by (simp add: held_def xs blocks_of_def)
    then show thesis
      using that [of st] none assms ok(2) True arr_def by (auto simp: frame_def)
  next
    case False
    define st0 where "st0 = st\<lparr>tls_slot := (tls_slot st)(t := 0)\<rparr>"
    have eqs0: "live st0 = live st" "arrays st0 = arrays st" "below st0 = below st" "contents st0 = contents st"
      "controls st0 = controls st" "next_index st0 = next_index st"
      "emutls_current_array d st0 = (if d = Task t then 0 else emutls_current_array d st)" for d
      by (cases d; simp add: st0_def)+
    note mem = same_memory [OF eqs0(1,3-5)]
    have held: "held (Task t) pr st = arr # blocks_of st xs @ in_hand st pr"
      using False by (simp add: held_def xs own_array_def arr_def)
    have "heap_ok st0"
      using assms(1) by (simp add: heap_ok_def eqs0)
    moreover have "distinct (blocks_of st0 xs)"
      using ok(1) by (simp add: mem held)
    moreover have "\<forall>val \<in> set xs. val \<noteq> 0 \<longrightarrow> (\<exists>v. value_ok st0 (controls st0 v) val)"
      using slots_ok_value [OF ok(3)] by (auto simp: mem eqs0)
    ultimately obtain st1 where f: "free_values xs st0 = Inr st1" "heap_ok st1"
      "frame (- set (blocks_of st xs)) st0 st1" "dom (live st1) = dom (live st) - set (blocks_of st xs)"
      "controls st1 = controls st" "next_index st1 = next_index st"
      "\<forall>d. emutls_current_array d st1 = emutls_current_array d st0"
      using free_values_ok [of st0 xs] by (auto simp: mem eqs0)
    have "arr \<in> dom (live st1)"
      using ok(1,2) f(4) by (auto simp: held)
    then obtain st2 where g: "free_block arr st1 = Inr st2"
      using free_block_live [OF False] by blast
    note eqs2 = free_block_eqs [OF g] and heap = free_block_heap [OF g f(2)]
    have "frame (- set (blocks_of st xs) \<inter> - {arr}) st0 st2"
      by (rule frame_trans [OF f(3) free_block_frame [OF g]])
    then have "frame (- (insert arr (set (blocks_of st xs)))) st0 st2"
      by (rule frame_mono) auto
    then have fr: "frame (- (insert arr (set (blocks_of st xs)))) st st2"
      unfolding frame_def eqs0 .
    have cur: "emutls_current_array (Task t) st2 = 0"
      using f(7) by (simp add: eqs2 eqs0)
    then have no_slots: "slots (Task t) st2 = []" "own_array (Task t) st2 = []"
      using heap by (simp_all add: slots_def slots_at_def heap_ok_def own_array_def)
    have hand: "set (in_hand st pr) \<subseteq> - insert arr (set (blocks_of st xs))"
      using ok(1) by (auto simp: held)
    note keep = in_hand_frame [OF fr ok(4) hand]
    have h: "held (Task t) pr st2 = in_hand st pr"
      using no_slots keep(1) by (simp add: held_def blocks_of_def)
    have "live st2 = (live st1)(arr := None)"
      using False by (simp add: eqs2)
    then have dom: "dom (live st2) = (dom (live st) - set (held (Task t) pr st)) \<union> set (in_hand st pr)"
      using f(4) hand ok(2) by (auto simp: held)
    have "caller_ok n st2 (Task t) pr"
      using ok(1) keep(2) dom by (auto simp: caller_ok_def h held no_slots slots_ok_def)
    moreover have "index_ok n st2"
      using assms(2) by (rule index_ok_same) (simp_all add: eqs2 f)
    moreover have "emutls_task_cleanup t st = Inr st2"
      using False f(1) g by (simp add: emutls_task_cleanup_def arr_def [symmetric] xs_def [symmetric] st0_def [symmetric] Let_def)
    moreover have "frame (dom (live st) - set (held (Task t) pr st)) st st2"
      by (intro frame_mono [OF fr]) (auto simp: held)
    moreover have "emutls_current_array d st2 = emutls_current_array d st" if "d \<noteq> Task t" for d
      using f(7) that by (simp add: eqs2 eqs0)
    ultimately show thesis
      using that [of st2] heap h cur dom by blast
  qed
qed

section \<open>All callers\<close>

lemma esystem_okD:
  assumes "esystem_ok n s"
  shows "heap_ok (est s)" and "index_ok n (est s)" and "caller_ok n (est s) c (prog s c)"
    and "c \<notin> gone s \<Longrightarrow> progress_ok n c (est s) (prog s c)"
    and "c \<in> gone s \<Longrightarrow> emutls_current_array c (est s) = 0"
    and "c \<noteq> d \<Longrightarrow> set (held c (prog s c) (est s)) \<inter> set (held d (prog s d) (est s)) = {}"
    and "set (held c (prog s c) (est s)) \<inter> foreign s = {}"
    and "dom (live (est s)) = foreign s \<union> (\<Union>c. set (held c (prog s c) (est s)))"
proof -
  note parts = assms [unfolded esystem_ok_def]
  show "heap_ok (est s)" by (insert parts, elim conjE, assumption)
  show "index_ok n (est s)" by (insert parts, elim conjE, assumption)
  show "dom (live (est s)) = foreign s \<union> (\<Union>c. set (held c (prog s c) (est s)))" by (insert parts, elim conjE, assumption)
  have "\<forall>c. caller_ok n (est s) c (prog s c)" by (insert parts, elim conjE, assumption)
  then show "caller_ok n (est s) c (prog s c)" ..
  have "\<forall>c. c \<notin> gone s \<longrightarrow> progress_ok n c (est s) (prog s c)" by (insert parts, elim conjE, assumption)
  then show "c \<notin> gone s \<Longrightarrow> progress_ok n c (est s) (prog s c)" by simp
  have "\<forall>c \<in> gone s. emutls_current_array c (est s) = 0" by (insert parts, elim conjE, assumption)
  then show "c \<in> gone s \<Longrightarrow> emutls_current_array c (est s) = 0" by simp
  have "\<forall>c d. c \<noteq> d \<longrightarrow> set (held c (prog s c) (est s)) \<inter> set (held d (prog s d) (est s)) = {}" by (insert parts, elim conjE, assumption)
  then show "c \<noteq> d \<Longrightarrow> set (held c (prog s c) (est s)) \<inter> set (held d (prog s d) (est s)) = {}" by simp
  have "\<forall>c. set (held c (prog s c) (est s)) \<inter> foreign s = {}" by (insert parts, elim conjE, assumption)
  then show "set (held c (prog s c) (est s)) \<inter> foreign s = {}" ..
qed

text \<open>What one caller's step, or its cleanup, does to the others.\<close>

lemma others_keep:
  assumes ok: "esystem_ok n s" and "d \<noteq> c"
    and fr: "frame (dom (live (est s)) - set (held c (prog s c) (est s))) (est s) st'"
    and "heap_ok st'" and "emutls_current_array d st' = emutls_current_array d (est s)"
  shows "held d (prog s d) st' = held d (prog s d) (est s)" and "slots d st' = slots d (est s)"
    and "caller_ok n st' d (prog s d)"
    and "progress_ok n d (est s) (prog s d) \<Longrightarrow> progress_ok n d st' (prog s d)"
proof -
  have sub: "set (held d (prog s d) (est s)) \<subseteq> dom (live (est s)) - set (held c (prog s c) (est s))"
    using esystem_okD(3) [OF ok, of d] esystem_okD(6) [OF ok assms(2)] by (auto simp: caller_ok_def)
  note same = caller_frame [OF fr esystem_okD(1) [OF ok] assms(4) esystem_okD(3) [OF ok] assms(5) sub]
  from same show "held d (prog s d) st' = held d (prog s d) (est s)" "slots d st' = slots d (est s)"
    "caller_ok n st' d (prog s d)" by blast+
  have "set (in_hand (est s) (prog s d)) \<subseteq> dom (live (est s)) - set (held c (prog s c) (est s))"
    using sub by (auto simp: held_def)
  then show "progress_ok n d (est s) (prog s d) \<Longrightarrow> progress_ok n d st' (prog s d)"
    using progress_frame [OF fr same(2)] by blast
qed

lemma esystem_ok_step:
  assumes ok: "esystem_ok n s" and "heap_ok st'" and "index_ok n st'" and "caller_ok n st' c pr'"
    and fr: "frame (dom (live (est s)) - set (held c (prog s c) (est s))) (est s) st'"
    and others: "\<forall>d. d \<noteq> c \<longrightarrow> emutls_current_array d st' = emutls_current_array d (est s)"
    and dom: "dom (live st') - set (held c pr' st') = dom (live (est s)) - set (held c (prog s c) (est s))"
    and own: "c \<notin> gone s \<Longrightarrow> (c \<notin> g \<and> progress_ok n c st' pr') \<or> (c \<in> g \<and> emutls_current_array c st' = 0)"
    and g: "g = gone s \<or> g = insert c (gone s)" and "c \<notin> gone s"
  shows "esystem_ok n (s\<lparr>est := st', prog := (prog s)(c := pr'), gone := g\<rparr>)"
proof -
  let ?h = "\<lambda>d. set (held d (prog s d) (est s))"
  have keep: "held d (prog s d) st' = held d (prog s d) (est s)" "caller_ok n st' d (prog s d)"
    "progress_ok n d (est s) (prog s d) \<Longrightarrow> progress_ok n d st' (prog s d)" if "d \<noteq> c" for d
    using others_keep [OF ok that fr assms(2)] others that by blast+
  have c: "set (held c pr' st') \<subseteq> dom (live st')"
    using assms(4) by (simp add: caller_ok_def)
  have rest: "dom (live (est s)) - ?h c = foreign s \<union> (\<Union>d \<in> - {c}. ?h d)"
  proof -
    have "(\<Union>d. ?h d) = ?h c \<union> (\<Union>d \<in> - {c}. ?h d)"
      by auto
    then have "dom (live (est s)) = ?h c \<union> (foreign s \<union> (\<Union>d \<in> - {c}. ?h d))"
      using esystem_okD(8) [OF ok] by (metis Un_left_commute)
    moreover have "?h c \<inter> (\<Union>d \<in> - {c}. ?h d) = {}"
    proof -
      have "?h c \<inter> ?h d = {}" if "d \<in> - {c}" for d
        using esystem_okD(6) [OF ok, of c d] that by simp
      then show ?thesis by blast
    qed
    ultimately show ?thesis
      using esystem_okD(7) [OF ok, of c] by (simp only:) blast
  qed
  have new: "set (held c pr' st') \<inter> (foreign s \<union> (\<Union>d \<in> - {c}. ?h d)) = {}"
    using dom rest by blast
  have "dom (live st') = set (held c pr' st') \<union> (foreign s \<union> (\<Union>d \<in> - {c}. ?h d))"
    using dom rest c by blast
  moreover have "(\<Union>d. set (held d (((prog s)(c := pr')) d) st')) = set (held c pr' st') \<union> (\<Union>d \<in> - {c}. ?h d)"
  proof -
    let ?F = "\<lambda>d. set (held d (((prog s)(c := pr')) d) st')"
    have "(\<Union>d. F d) = F c \<union> (\<Union>d \<in> - {c}. F d)" for F :: "caller \<Rightarrow> addr set"
      by auto
    from this [of ?F] have "(\<Union>d. ?F d) = ?F c \<union> (\<Union>d \<in> - {c}. ?F d)" .
    moreover have "(\<Union>d \<in> - {c}. ?F d) = (\<Union>d \<in> - {c}. ?h d)"
      using keep(1) by (intro SUP_cong) auto
    ultimately show ?thesis
      by (simp only: fun_upd_same)
  qed
  ultimately have "dom (live st') = foreign s \<union> (\<Union>d. set (held d (((prog s)(c := pr')) d) st'))"
    by (simp only: Un_left_commute)
  moreover have "set (held d (((prog s)(c := pr')) d) st') \<inter> set (held e (((prog s)(c := pr')) e) st') = {}"
    if "d \<noteq> e" for d e
  proof (cases "d = c")
    case True
    then show ?thesis using that new keep(1) [of e] by auto
  next
    case d: False
    show ?thesis
    proof (cases "e = c")
      case True
      then show ?thesis using d new keep(1) [of d] by auto
    next
      case False
      then show ?thesis using d that keep(1) esystem_okD(6) [OF ok that] by simp
    qed
  qed
  moreover have "set (held d (((prog s)(c := pr')) d) st') \<inter> foreign s = {}" for d
    using new keep(1) [of d] esystem_okD(7) [OF ok, of d] by (cases "d = c") auto
  moreover have "caller_ok n st' d (((prog s)(c := pr')) d)" for d
    using keep(2) [of d] assms(4) by (cases "d = c") auto
  moreover have "progress_ok n d st' (((prog s)(c := pr')) d)" if "d \<notin> g" for d
    using keep(3) [of d] esystem_okD(4) [OF ok, of d] own g that assms(10) by (cases "d = c") auto
  moreover have "emutls_current_array d st' = 0" if "d \<in> g" for d
    using others esystem_okD(5) [OF ok, of d] own g that assms(10) by (cases "d = c") auto
  ultimately show ?thesis
    using assms(2,3) by (simp add: esystem_ok_def)
qed

lemma foreign_keep:
  assumes ok: "esystem_ok n s" and "heap_ok st'" and fr: "frame P (est s) st'"
    and "(\<Union>c. set (held c (prog s c) (est s))) \<subseteq> P" and "controls st' = controls (est s)"
    and "next_index st' = next_index (est s)" and "\<forall>c. emutls_current_array c st' = emutls_current_array c (est s)"
    and "dom (live st') = F \<union> (\<Union>c. set (held c (prog s c) (est s)))"
    and "\<forall>c. set (held c (prog s c) (est s)) \<inter> F = {}"
  shows "esystem_ok n (s\<lparr>est := st', foreign := F\<rparr>)"
proof -
  have sub: "set (held c (prog s c) (est s)) \<subseteq> P" for c
    using assms(4) by auto
  note same = caller_frame [OF fr esystem_okD(1) [OF ok] assms(2) esystem_okD(3) [OF ok] _ sub]
  have held: "held c (prog s c) st' = held c (prog s c) (est s)" and slots: "slots c st' = slots c (est s)"
    and caller: "caller_ok n st' c (prog s c)" for c
    using same assms(7) by blast+
  have "index_ok n st'"
    using esystem_okD(2) [OF ok] assms(5,6) by (rule index_ok_same)
  moreover have "progress_ok n c st' (prog s c)" if "c \<notin> gone s" for c
    using progress_frame [OF fr slots _ esystem_okD(4) [OF ok that]] sub [of c] by (auto simp: held_def)
  moreover have "emutls_current_array c st' = 0" if "c \<in> gone s" for c
    using esystem_okD(5) [OF ok that] assms(7) by simp
  ultimately show ?thesis
    using assms(2,8,9) caller esystem_okD(6) [OF ok] by (simp add: esystem_ok_def held)
qed

theorem estep_ok:
  assumes "proper_allocator mal" and "estep n mal s s'" and "esystem_ok n s"
  shows "esystem_ok n s'"
  using assms(2)
proof cases
  case (enter c v)
  have "in_hand (est s) (prog s c) = []" "progress_ok n c (est s) (Seen v (ctl_loc (controls (est s) v)))"
    using enter(2,4) by auto
  moreover from this have "held c (Seen v (ctl_loc (controls (est s) v))) (est s) = held c (prog s c) (est s)"
    by (simp add: held_def)
  moreover from this have "caller_ok n (est s) c (Seen v (ctl_loc (controls (est s) v)))"
    using esystem_okD(3) [OF assms(3), of c] by (simp add: caller_ok_def)
  ultimately have "esystem_ok n (s\<lparr>est := est s, prog := (prog s)(c := Seen v (ctl_loc (controls (est s) v))), gone := gone s\<rparr>)"
    using enter(3) esystem_okD(1,2) [OF assms(3)]
    by (intro esystem_ok_step [OF assms(3)]) (auto simp: frame_def)
  then show ?thesis
    by (simp add: enter(1))
next
  case (move c pr st)
  then have "own_step n c (prog s c) (est s) pr st"
    using emu_advance_ok [OF assms(1) esystem_okD(1-4) [OF assms(3)] move(3)] by auto
  then have "esystem_ok n (s\<lparr>est := st, prog := (prog s)(c := pr), gone := gone s\<rparr>)"
    using move(2) by (intro esystem_ok_step [OF assms(3)]) (auto simp: own_step_def)
  then show ?thesis
    by (simp add: move(1))
next
  case (cleanup t st)
  obtain st' where c: "emutls_task_cleanup t (est s) = Inr st'" "heap_ok st'" "index_ok n st'"
    "caller_ok n st' (Task t) (prog s (Task t))" "held (Task t) (prog s (Task t)) st' = in_hand (est s) (prog s (Task t))"
    "frame (dom (live (est s)) - set (held (Task t) (prog s (Task t)) (est s))) (est s) st'"
    "emutls_current_array (Task t) st' = 0"
    "\<And>d. d \<noteq> Task t \<Longrightarrow> emutls_current_array d st' = emutls_current_array d (est s)"
    "dom (live st') = (dom (live (est s)) - set (held (Task t) (prog s (Task t)) (est s)))
       \<union> set (in_hand (est s) (prog s (Task t)))"
    using cleanup_ok [OF esystem_okD(1-3) [OF assms(3)], of t] by metis
  have "set (in_hand (est s) (prog s (Task t))) \<subseteq> set (held (Task t) (prog s (Task t)) (est s))"
    by (auto simp: held_def)
  then have "esystem_ok n (s\<lparr>est := st', prog := (prog s)(Task t := prog s (Task t)), gone := insert (Task t) (gone s)\<rparr>)"
    using cleanup(2) c by (intro esystem_ok_step [OF assms(3) c(2-4,6)]) auto
  then show ?thesis
    using c(1) cleanup(3) by (simp add: cleanup(1))
next
  case (foreign_malloc k a)
  note fresh = allocator_fresh [OF assms(1) foreign_malloc(2)]
  let ?st = "est s\<lparr>live := (live (est s))(a \<mapsto> k)\<rparr>"
  have "arrays ?st 0 = None"
    using esystem_okD(1) [OF assms(3)] by (simp add: heap_ok_def)
  from heap_ok_alloc [OF assms(1) foreign_malloc(2) esystem_okD(1) [OF assms(3)] _ this]
  have heap: "heap_ok ?st" by simp
  have fr: "frame (dom (live (est s))) (est s) ?st"
    using fresh(2) by (auto simp: frame_def)
  have not_held: "a \<notin> set (held c (prog s c) (est s))" for c
    using esystem_okD(3) [OF assms(3), of c] fresh(2) by (auto simp: caller_ok_def)
  have "dom (live ?st) = insert a (dom (live (est s)))"
    by simp
  then have dom: "dom (live ?st) = insert a (foreign s) \<union> (\<Union>c. set (held c (prog s c) (est s)))"
    unfolding esystem_okD(8) [OF assms(3)] Un_insert_left .
  have disj: "\<forall>c. set (held c (prog s c) (est s)) \<inter> insert a (foreign s) = {}"
    using esystem_okD(7) [OF assms(3)] not_held by simp
  have sub: "(\<Union>c. set (held c (prog s c) (est s))) \<subseteq> dom (live (est s))"
    unfolding esystem_okD(8) [OF assms(3)] by (rule Un_upper2)
  show ?thesis
    unfolding foreign_malloc(1)
    by (rule foreign_keep [OF assms(3) heap fr sub _ _ _ dom disj]) simp_all
next
  case (foreign_free a)
  let ?st = "est s\<lparr>live := (live (est s))(a := None)\<rparr>"
  have "arrays (est s) 0 = None"
    using esystem_okD(1) [OF assms(3)] by (simp add: heap_ok_def)
  then have heap: "heap_ok ?st"
    by (intro heap_ok_less [OF esystem_okD(1) [OF assms(3)], of _ a]) simp_all
  have fr: "frame (- {a}) (est s) ?st"
    by (auto simp: frame_def)
  have not_held: "a \<notin> set (held c (prog s c) (est s))" for c
    using esystem_okD(7) [OF assms(3), of c] foreign_free(2) by auto
  then have sub: "(\<Union>c. set (held c (prog s c) (est s))) \<subseteq> - {a}"
    by blast
  have "dom (live ?st) = dom (live (est s)) - {a}"
    by simp
  also have "\<dots> = (foreign s - {a}) \<union> (\<Union>c. set (held c (prog s c) (est s)))"
    unfolding esystem_okD(8) [OF assms(3)] using sub by blast
  finally have dom: "dom (live ?st) = (foreign s - {a}) \<union> (\<Union>c. set (held c (prog s c) (est s)))" .
  have disj: "\<forall>c. set (held c (prog s c) (est s)) \<inter> (foreign s - {a}) = {}"
    using esystem_okD(7) [OF assms(3)] by blast
  show ?thesis
    unfolding foreign_free(1)
    by (rule foreign_keep [OF assms(3) heap fr sub _ _ _ dom disj]) simp_all
qed

lemma start_ok:
  assumes "fresh_image n ctls"
  shows "esystem_ok n (emutls_start ctls)"
proof -
  have cur: "emutls_current_array c (est (emutls_start ctls)) = 0" for c
    by (cases c) (simp_all add: emutls_start_def)
  then have "held c Idle (est (emutls_start ctls)) = []" "slots c (est (emutls_start ctls)) = []" for c
    by (simp_all add: held_def own_array_def slots_def slots_at_def blocks_of_def emutls_start_def)
  with assms show ?thesis
    by (auto simp: esystem_ok_def heap_ok_def index_ok_def caller_ok_def slots_ok_def fresh_image_def emutls_start_def)
qed

theorem reachable_ok:
  assumes "fresh_image n ctls" and "proper_allocator mal" and "emutls_reachable n mal ctls s"
  shows "esystem_ok n s"
  using assms(3) unfolding emutls_reachable_def
  by (induction rule: rtranclp_induct) (use start_ok [OF assms(1)] estep_ok [OF assms(2)] in blast)+

text \<open>
  The storage of a variable for a caller: where it is, that it stays there, and a whole call of
  \<open>__emutls_get_address\<close>.
\<close>

section \<open>The storage of a variable\<close>

text \<open>The address a caller's accesses of variable \<open>v\<close> go to; 0 before the first one.\<close>

definition storage :: "caller \<Rightarrow> nat \<Rightarrow> emutls \<Rightarrow> addr" where
  "storage c v st =
     (let idx = unat (ctl_loc (controls st v))
      in if 0 < idx \<and> idx \<le> length (slots c st) then slots c st ! (idx - 1) else 0)"

lemma storage_value:
  assumes ok: "esystem_ok n s" and "v < n" and "storage c v (est s) \<noteq> 0"
  shows "value_ok (est s) (controls (est s) v) (storage c v (est s))"
    and "block_of (est s) (storage c v (est s)) \<in> set (held c (prog s c) (est s))"
    and "storage c v (est s) = slots c (est s) ! (unat (ctl_loc (controls (est s) v)) - 1)"
    and "0 < unat (ctl_loc (controls (est s) v))"
    and "unat (ctl_loc (controls (est s) v)) \<le> length (slots c (est s))"
proof -
  let ?st = "est s" and ?i = "unat (ctl_loc (controls (est s) v)) - 1"
  show i: "storage c v ?st = slots c ?st ! ?i" "0 < unat (ctl_loc (controls ?st v))"
    "unat (ctl_loc (controls ?st v)) \<le> length (slots c ?st)"
    using assms(3) by (simp_all add: storage_def Let_def split: if_splits)
  then have lt: "?i < length (slots c ?st)" and nz: "slots c ?st ! ?i \<noteq> 0"
    using assms(3) by simp_all
  obtain w where w: "w < n" "unat (ctl_loc (controls ?st w)) = Suc ?i" "value_ok ?st (controls ?st w) (slots c ?st ! ?i)"
    using esystem_okD(3) [OF ok, of c] lt nz by (auto simp: caller_ok_def slots_ok_def)
  have "ctl_loc (controls ?st w) = ctl_loc (controls ?st v)"
    using w(2) i(2) by (metis One_nat_def Suc_pred unsigned_word_eqI)
  then have "w = v"
    using esystem_okD(2) [OF ok] w(1) assms(2) i(2) unfolding index_ok_def by (metis unat_gt_0)
  with w i(1) show "value_ok ?st (controls ?st v) (storage c v ?st)" by simp
  have "storage c v ?st \<in> set (slots c ?st)"
    using lt i(1) by simp
  then show "block_of ?st (storage c v ?st) \<in> set (held c (prog s c) ?st)"
    using assms(3) by (simp add: held_def blocks_of_def)
qed

lemma distinct_map_filter_nth:
  "distinct (map f (filter P xs)) \<Longrightarrow> i < length xs \<Longrightarrow> j < length xs \<Longrightarrow> i \<noteq> j \<Longrightarrow> P (xs ! i) \<Longrightarrow> P (xs ! j) \<Longrightarrow>
    f (xs ! i) \<noteq> f (xs ! j)"
proof (induction xs arbitrary: i j)
  case (Cons x xs)
  have "f y \<noteq> f x" if "P x" "y \<in> set xs" "P y" for y
    using Cons.prems(1) that by (force simp: image_iff)
  with Cons show ?case
    by (cases i; cases j) (auto split: if_splits)
qed simp

lemma storage_blocks_differ:
  assumes ok: "esystem_ok n s" and "v < n" and "w < n" and "(c, v) \<noteq> (d, w)"
    and "storage c v (est s) \<noteq> 0" and "storage d w (est s) \<noteq> 0"
  shows "block_of (est s) (storage c v (est s)) \<noteq> block_of (est s) (storage d w (est s))"
proof (cases "c = d")
  case False
  then show ?thesis
    using esystem_okD(6) [OF ok False] storage_value(2) [OF ok assms(2,5)] storage_value(2) [OF ok assms(3,6)] by auto
next
  case True
  note a = storage_value(3-5) [OF ok assms(2,5)] and b = storage_value(3-5) [OF ok assms(3,6)]
  have "ctl_loc (controls (est s) v) \<noteq> ctl_loc (controls (est s) w)"
    using esystem_okD(2) [OF ok] assms(2-4) True a(2) unfolding index_ok_def by (metis unat_gt_0)
  then have "unat (ctl_loc (controls (est s) v)) - 1 \<noteq> unat (ctl_loc (controls (est s) w)) - 1"
    using a(2) b(2) by (metis Suc_pred One_nat_def unsigned_word_eqI)
  moreover have "distinct (blocks_of (est s) (slots c (est s)))"
    using esystem_okD(3) [OF ok, of c] by (simp add: caller_ok_def held_def)
  ultimately have "block_of (est s) (slots c (est s) ! (unat (ctl_loc (controls (est s) v)) - 1))
      \<noteq> block_of (est s) (slots c (est s) ! (unat (ctl_loc (controls (est s) w)) - 1))"
    using a b assms(5,6) True
    by (intro distinct_map_filter_nth [where P = "\<lambda>val. val \<noteq> 0"]) (auto simp: blocks_of_def)
  then show ?thesis
    using a(1) b(1) True by simp
qed

section \<open>A step keeps the storage of its caller\<close>

definition keeps :: "caller \<Rightarrow> emutls \<Rightarrow> emutls \<Rightarrow> bool" where
  "keeps c st st' \<longleftrightarrow>
     (\<forall>i < length (slots c st). slots c st ! i \<noteq> 0 \<longrightarrow>
        i < length (slots c st') \<and> slots c st' ! i = slots c st ! i
        \<and> contents st' (slots c st ! i) = contents st (slots c st ! i))"

lemma keeps_storage_refl: "slots c st' = slots c st \<Longrightarrow> contents st' = contents st \<Longrightarrow> keeps c st st'"
  by (simp add: keeps_def)

lemma keeps_storage_trans: "keeps c st1 st2 \<Longrightarrow> keeps c st2 st3 \<Longrightarrow> keeps c st1 st3"
  unfolding keeps_def by metis

lemma keeps_frame:
  assumes "frame P st st'" and "heap_ok st" and "heap_ok st'" and "caller_ok n st c pr"
    and "emutls_current_array c st' = emutls_current_array c st" and "set (own_array c st @ blocks_of st (slots c st)) \<subseteq> P"
  shows "keeps c st st'"
proof -
  have "slots c st' = slots c st"
    using assms(6) by (intro slots_frame [OF assms(1-3,5)]) simp
  moreover have "contents st' val = contents st val" if val: "val \<in> set (slots c st)" "val \<noteq> 0" for val
  proof -
    obtain v where "value_ok st (controls st v) val"
      using slots_ok_value [OF _ val] assms(4) by (metis caller_ok_def)
    moreover have "block_of st val \<in> P"
      using val assms(6) by (auto simp: blocks_of_def)
    ultimately show ?thesis
      by (rule frame_value(3) [OF assms(1)])
  qed
  ultimately show ?thesis
    by (simp add: keeps_def)
qed

lemma frame_alloc:
  assumes "proper_allocator mal" and "mal (live st) n = Some a" and "live st' = (live st)(a \<mapsto> n)"
    and "\<And>b. b \<noteq> a \<Longrightarrow> arrays st' b = arrays st b" and "controls st' = controls st"
    and "\<And>val raw m k. live st raw = Some m \<Longrightarrow> fits_block raw m val k \<Longrightarrow>
      below st' (val - 4) = below st (val - 4) \<and> contents st' val = contents st val"
  shows "frame (dom (live st)) st st'"
proof -
  have "b \<noteq> a" if "b \<in> dom (live st)" for b
    using allocator_fresh(2) [OF assms(1,2)] that by auto
  then show ?thesis
    using assms(3-6) by (auto simp: frame_def)
qed

lemma emu_advance_keeps:
  assumes mal: "proper_allocator mal" and heap: "heap_ok st" and index: "index_ok n st" and caller: "caller_ok n st c pr"
    and prog: "progress_ok n c st pr" and adv: "emu_advance mal c pr st = Inr (pr', st')"
  shows "keeps c st st'"
proof -
  have own: "own_step n c pr st pr' st'"
    using emu_advance_ok [OF mal heap index caller prog adv] by auto
  then have heap': "heap_ok st'"
    by (simp add: own_step_def)
  have sub: "set (own_array c st @ blocks_of st (slots c st)) \<subseteq> dom (live st)"
    using caller by (simp add: caller_ok_def held_def)
  show ?thesis
  proof (cases pr)
    case (Seen v seen)
    have "contents st' = contents st \<and> arrays st' = arrays st \<and> emutls_current_array c st' = emutls_current_array c st"
      using adv Seen by (cases c) (auto simp: assign_index_def Let_def split: if_splits)
    then show ?thesis
      by (intro keeps_storage_refl) (simp_all add: slots_def slots_at_def)
  next
    case (Indexed v idx)
    show ?thesis
    proof (cases "emutls_current_array c st = 0 \<or> length (slots c st) < unat idx")
      case False
      then show ?thesis
        using adv Indexed by (intro keeps_storage_refl) (auto simp: Let_def slots_def)
    next
      case True
      then obtain grown k xs where "mal (live st) k = Some grown"
        "st' = st\<lparr>live := (live st)(grown \<mapsto> k), arrays := (arrays st)(grown \<mapsto> xs)\<rparr>"
        using adv Indexed by (auto simp: Let_def slots_def grow_array_def split: option.splits if_splits sum.splits)
      then show ?thesis
        by (intro keeps_frame [OF frame_alloc [OF mal] heap heap' caller _ sub]) auto
    qed
  next
    case (Filled v idx grown)
    then obtain k where k: "arrays st grown = Some (slots c st @ replicate k 0)"
      using prog by auto
    have "st' = emutls_set_current_array c grown st"
      using adv Filled by auto
    then have "slots c st' = slots c st @ replicate k 0" "contents st' = contents st"
      using k by (simp_all add: slots_def slots_at_def)
    then show ?thesis
      by (simp add: keeps_def nth_append)
  next
    case (Published v idx old)
    then have f: "free_block old st = Inr st'"
      using adv by (auto split: sum.splits)
    have "0 \<notin> dom (live st)"
      using heap by (auto simp: heap_ok_def)
    then have "set (own_array c st @ blocks_of st (slots c st)) \<subseteq> - {old}"
      using caller Published sub by (auto simp: caller_ok_def held_def split: if_splits)
    then show ?thesis
      by (rule keeps_frame [OF free_block_frame [OF f] heap heap' caller free_block_eqs(7) [OF f]])
  next
    case (Ready v idx)
    show ?thesis
    proof (cases "emutls_alloc_value mal (controls st v) st")
      case (Inl e)
      then show ?thesis
        using adv Ready by (intro keeps_storage_refl) (auto simp: Let_def split: if_splits)
    next
      case (Inr p)
      have "valid_control (controls st v)"
        using prog index index_bound(3) by (auto simp: Ready)
      then obtain w raw k bytes where a: "p = (w, st\<lparr>live := (live st)(raw \<mapsto> k), below := (below st)(w - 4 \<mapsto> raw),
          contents := (contents st)(w \<mapsto> bytes)\<rparr>)" "mal (live st) k = Some raw" "fits_block raw k w (ctl_size (controls st v))"
        using alloc_value_ok [OF Inr mal] by auto
      have other: "u \<noteq> w" if "live st raw' = Some m" "fits_block raw' m u z" for u raw' m z
        using allocator_fresh(4) [OF mal a(2) that(1)] a(3) that(2) by (auto simp: fits_block_def apart_def)
      consider "st' = st" | "st' = snd p"
        using adv Ready Inr by (cases p) (auto simp: Let_def split: if_splits)
      then show ?thesis
      proof cases
        case 1
        then show ?thesis by (simp add: keeps_def)
      next
        case 2
        then show ?thesis
          using a(1) other by (intro keeps_frame [OF frame_alloc [OF mal a(2)] heap heap' caller _ sub]) auto
      qed
    qed
  next
    case (Valued v idx val)
    then have st': "st' = st\<lparr>arrays := (arrays st)(emutls_current_array c st \<mapsto> (slots c st)[unat idx - 1 := val])\<rparr>"
      and zero: "slots c st ! (unat idx - 1) = 0"
      using adv prog by (auto simp: Let_def slots_def)
    then have "slots c st' = (slots c st)[unat idx - 1 := val]" "contents st' = contents st"
      by (simp_all add: slots_def slots_at_def)
    then show ?thesis
      using zero by (simp add: keeps_def) (metis nth_list_update_neq)
  qed (use adv in \<open>auto simp: keeps_def\<close>)
qed

lemma storage_keeps:
  assumes "keeps c st st'" and "storage c v st \<noteq> 0" and "ctl_loc (controls st' v) = ctl_loc (controls st v)"
  shows "storage c v st' = storage c v st" and "contents st' (storage c v st) = contents st (storage c v st)"
proof -
  have i: "0 < unat (ctl_loc (controls st v))" "unat (ctl_loc (controls st v)) - 1 < length (slots c st)"
    "storage c v st = slots c st ! (unat (ctl_loc (controls st v)) - 1)"
    using assms(2) by (auto simp: storage_def Let_def split: if_splits)
  moreover from this have "slots c st ! (unat (ctl_loc (controls st v)) - 1) \<noteq> 0"
    using assms(2) by simp
  ultimately have k: "unat (ctl_loc (controls st v)) - 1 < length (slots c st')"
    "slots c st' ! (unat (ctl_loc (controls st v)) - 1) = storage c v st"
    "contents st' (storage c v st) = contents st (storage c v st)"
    using assms(1) by (auto simp: keeps_def)
  from k(3) show "contents st' (storage c v st) = contents st (storage c v st)" .
  have "unat (ctl_loc (controls st v)) \<le> length (slots c st')"
    using k(1) i(1) by linarith
  then show "storage c v st' = storage c v st"
    using k(1,2) i(1) by (simp add: storage_def [of c v st'] assms(3) Let_def)
qed

end
