(* ===== verification/Emutls_Properties.thy ===== *)
theory Emutls_Properties
  imports
    Emutls_Facts
begin

text \<open>
  What the emulated thread-local storage promises its callers, whatever the scheduler does, and
  a sample image on which the promises are exercised.
\<close>

section \<open>A sample image\<close>

text \<open>An allocator that serves from pages of 4096 bytes, and an image of two variables.\<close>

definition sample_malloc :: allocator where
  "sample_malloc blocks n =
     find (\<lambda>a. a \<noteq> 0 \<and> unat a + unat n < 2 ^ 32 \<and> blocks a = None
             \<and> (\<forall>b m. blocks b = Some m \<longrightarrow> apart a n b m))
       [0x1000, 0x2000, 0x3000, 0x4000, 0x5000, 0x6000]"

definition sample_controls :: "nat \<Rightarrow> control" where
  "sample_controls v = \<lparr>ctl_size = 4, ctl_align = 8, ctl_loc = 0, ctl_templ = (if v = 0 then Some [1, 2, 3, 4] else None)\<rparr>"

lemma sample_malloc_proper: "proper_allocator sample_malloc"
  unfolding proper_allocator_def sample_malloc_def by (auto dest!: find_Some_set)

lemma sample_image: "fresh_image 2 sample_controls"
proof -
  have "(8 :: u32) = 2 ^ 3"
    by simp
  then have "list_ex (\<lambda>k. (8 :: u32) = 2 ^ k) [0..<32]"
    by (auto simp: list_ex_iff intro!: bexI [of _ 3])
  then show ?thesis
    by (simp add: fresh_image_def valid_control_def value_align_def sample_controls_def)
qed

section \<open>Calls as steps\<close>

lemma reachable_step: "emutls_reachable n mal ctls s \<Longrightarrow> estep n mal s s' \<Longrightarrow> emutls_reachable n mal ctls s'"
  unfolding emutls_reachable_def by (rule rtranclp.rtrancl_into_rtrancl)

lemma run_call_reaches:
  assumes "run_call k mal c (prog s c) (est s) = Inr (pr, st)" and "c \<notin> gone s" and "emutls_reachable n mal ctls s"
  shows "emutls_reachable n mal ctls (s\<lparr>est := st, prog := (prog s)(c := pr)\<rparr>)"
  using assms
proof (induction k arbitrary: s)
  case 0
  then have "s\<lparr>est := st, prog := (prog s)(c := pr)\<rparr> = s"
    using 0(1) by (cases s) (auto simp: fun_eq_iff)
  with 0(3) show ?case
    by (simp del: fun_upd_apply)
next
  case (Suc k)
  obtain pr1 st1 where a: "emu_advance mal c (prog s c) (est s) = Inr (pr1, st1)" "run_call k mal c pr1 st1 = Inr (pr, st)"
    using Suc.prems(1) by (auto split: sum.splits)
  let ?s1 = "s\<lparr>est := st1, prog := (prog s)(c := pr1)\<rparr>"
  have "emutls_reachable n mal ctls ?s1"
    using reachable_step [OF Suc.prems(3) estep.move [OF Suc.prems(2) a(1)]] .
  from Suc.IH [of ?s1, OF _ _ this] a(2) Suc.prems(2) show ?case
    by (simp del: fun_upd_apply add: fun_upd_same)
qed

text \<open>A caller's own steps, one after the other.\<close>

definition caller_inv :: "nat \<Rightarrow> caller \<Rightarrow> progress \<Rightarrow> emutls \<Rightarrow> bool" where
  "caller_inv n c pr st \<longleftrightarrow> heap_ok st \<and> index_ok n st \<and> caller_ok n st c pr \<and> progress_ok n c st pr"

lemma emu_advance_inv:
  assumes "proper_allocator mal" and "caller_inv n c pr st"
  shows "emu_advance mal c pr st = Inl Out_of_memory \<or>
    (\<exists>pr' st'. emu_advance mal c pr st = Inr (pr', st') \<and> caller_inv n c pr' st' \<and> keeps c st st'
       \<and> frame {} st st')"
proof -
  note inv = assms(2) [unfolded caller_inv_def]
  consider "emu_advance mal c pr st = Inl Out_of_memory"
    | pr' st' where "emu_advance mal c pr st = Inr (pr', st')" "own_step n c pr st pr' st'"
    using emu_advance_ok [OF assms(1) _ _ _ _ refl, of st n c pr] inv by blast
  then show ?thesis
  proof cases
    case 2
    moreover have "keeps c st st'"
      using emu_advance_keeps [OF assms(1) _ _ _ _ 2(1)] inv by blast
    ultimately show ?thesis
      using frame_mono [of _ st st' "{}"] by (auto simp: own_step_def caller_inv_def)
  qed simp
qed

text \<open>How many steps a call still takes.\<close>

fun steps_left :: "progress \<Rightarrow> nat" where
  "steps_left (Seen v seen) = 6"
| "steps_left (Indexed v idx) = 5"
| "steps_left (Filled v idx grown) = 4"
| "steps_left (Published v idx old) = 3"
| "steps_left (Ready v idx) = 2"
| "steps_left (Valued v idx val) = 1"
| "steps_left (Returned v val) = 0"
| "steps_left Idle = 0"

fun variable_of :: "progress \<Rightarrow> nat" where
  "variable_of (Seen v seen) = v"
| "variable_of (Indexed v idx) = v"
| "variable_of (Filled v idx grown) = v"
| "variable_of (Published v idx old) = v"
| "variable_of (Ready v idx) = v"
| "variable_of (Valued v idx val) = v"
| "variable_of (Returned v val) = v"
| "variable_of Idle = 0"

lemma emu_advance_progress:
  assumes "emu_advance mal c pr st = Inr (pr', st')" and "pr \<noteq> Idle"
  shows "pr' \<noteq> Idle" and "variable_of pr' = variable_of pr" and "steps_left pr' \<le> steps_left pr - 1"
  using assms by (cases pr; auto simp: Let_def split: if_splits sum.splits prod.splits)+

lemma run_call_returns:
  assumes "proper_allocator mal" and "caller_inv n c pr st" and "pr \<noteq> Idle" and "steps_left pr \<le> k"
  shows "run_call k mal c pr st = Inl Out_of_memory \<or>
    (\<exists>val st'. run_call k mal c pr st = Inr (Returned (variable_of pr) val, st')
       \<and> caller_inv n c (Returned (variable_of pr) val) st' \<and> keeps c st st' \<and> frame {} st st')"
  using assms(2-4)
proof (induction k arbitrary: pr st)
  case 0
  then obtain v val where "pr = Returned v val"
    by (cases pr) auto
  then show ?case
    using 0 by (simp add: keeps_def frame_def)
next
  case (Suc k)
  consider "emu_advance mal c pr st = Inl Out_of_memory"
    | pr1 st1 where "emu_advance mal c pr st = Inr (pr1, st1)" "caller_inv n c pr1 st1" "keeps c st st1" "frame {} st st1"
    using emu_advance_inv [OF assms(1) Suc.prems(1)] by blast
  then show ?case
  proof cases
    case 2
    note p = emu_advance_progress [OF 2(1) Suc.prems(2)]
    have "steps_left pr1 \<le> k"
      using p(3) Suc.prems(3) by simp
    from Suc.IH [OF 2(2) p(1) this] show ?thesis
      using 2 p(2) keeps_storage_trans [OF 2(3)] frame_trans [OF 2(4), of "{}"] by auto
  qed simp
qed

text \<open>The first call for a variable, up to the bytes the value starts with.\<close>

fun first_touch :: "caller \<Rightarrow> emutls \<Rightarrow> progress \<Rightarrow> bool" where
  "first_touch c st (Valued v idx val) = (contents st val = initial_bytes (controls st v))"
| "first_touch c st (Returned v val) = (contents st val = initial_bytes (controls st v))"
| "first_touch c st pr = (storage c (variable_of pr) st = 0)"

lemma storage_same:
  "slots c st' = slots c st \<Longrightarrow> ctl_loc (controls st' v) = ctl_loc (controls st v) \<Longrightarrow> storage c v st' = storage c v st"
  by (simp add: storage_def Let_def)

lemma next_index_bound:
  assumes "index_ok n st"
  shows "unat (next_index st) < 2 ^ 28"
proof -
  have "card {v. v < n \<and> ctl_loc (controls st v) \<noteq> 0} \<le> card {..<n}"
    by (intro card_mono) auto
  with assms show ?thesis
    by (auto simp: index_ok_def)
qed

lemma assign_index_storage:
  assumes inv: "caller_inv n c (Seen v 0) st" and a: "assign_index v st = (idx, st')" and zero: "storage c v st = 0"
  shows "storage c v st' = 0"
proof (rule ccontr)
  assume nz: "storage c v st' \<noteq> 0"
  have s: "slots c st' = slots c st"
    using a by (cases c) (auto simp: assign_index_def Let_def slots_def slots_at_def split: if_splits)
  have new: "ctl_loc (controls st v) = 0"
  proof (rule ccontr)
    assume "ctl_loc (controls st v) \<noteq> 0"
    then have "st' = st"
      using a by (simp add: assign_index_def)
    with zero nz show False by simp
  qed
  then have idx: "ctl_loc (controls st' v) = next_index st + 1"
    using a by (auto simp: assign_index_def Let_def)
  let ?i = "unat (next_index st + 1) - 1"
  have i: "?i < length (slots c st)" "slots c st ! ?i \<noteq> 0" "0 < unat (next_index st + 1)"
    using nz by (auto simp: storage_def [of c v st'] idx s Let_def split: if_splits)
  then obtain w where w: "w < n" "unat (ctl_loc (controls st w)) = Suc ?i"
    using inv by (auto simp: caller_inv_def caller_ok_def slots_ok_def)
  then have "unat (next_index st + 1) \<le> unat (next_index st)"
    using inv i(3) by (auto simp: caller_inv_def index_ok_def)
  moreover have "unat (next_index st) < 2 ^ 28"
    using inv next_index_bound [of n st] by (simp add: caller_inv_def)
  then have "unat (next_index st + 1) = unat (next_index st) + 1"
    using unat_add_small [of "next_index st" 1] by simp
  ultimately show False by simp
qed

lemma emu_advance_first_touch:
  assumes mal: "proper_allocator mal" and inv: "caller_inv n c pr st" and adv: "emu_advance mal c pr st = Inr (pr', st')"
    and first: "first_touch c st pr" and "pr \<noteq> Idle"
  shows "first_touch c st' pr' \<and> initial_bytes (controls st' v) = initial_bytes (controls st v)"
proof (cases pr)
  case (Seen w seen)
  have b: "initial_bytes (controls st' v) = initial_bytes (controls st v)"
    using adv Seen by (auto simp: assign_index_def Let_def initial_bytes_def split: if_splits option.splits)
  show ?thesis
  proof (cases "seen = 0")
    case True
    then have "assign_index w st = (case pr' of Indexed w idx \<Rightarrow> idx, st')" "pr' = Indexed w (case pr' of Indexed w idx \<Rightarrow> idx)"
      using adv Seen by (auto split: prod.splits)
    with assign_index_storage [of n c w st] inv first Seen True b show ?thesis
      by (metis first_touch.simps(4,5) variable_of.simps(1,2))
  next
    case False
    then show ?thesis
      using adv Seen first by auto
  qed
next
  case (Indexed w idx)
  show ?thesis
  proof (cases "pr' = Ready w idx")
    case True
    then show ?thesis
      using adv Indexed first by (auto simp: Let_def split: if_splits sum.splits)
  next
    case False
    then obtain grown k xs where g: "mal (live st) k = Some grown" "pr' = Filled w idx grown"
      "st' = st\<lparr>live := (live st)(grown \<mapsto> k), arrays := (arrays st)(grown \<mapsto> xs)\<rparr>"
      using adv Indexed by (auto simp: Let_def slots_def grow_array_def split: option.splits if_splits sum.splits)
    have "heap_ok st"
      using inv by (simp add: caller_inv_def)
    moreover have "set (held c pr st) \<subseteq> dom (live st)"
      using inv by (simp add: caller_inv_def caller_ok_def)
    ultimately have "emutls_current_array c st \<noteq> grown"
      using allocator_fresh(1,2) [OF mal g(1)] by (auto simp: held_def own_array_def split: if_splits)
    then have "slots c st' = slots c st"
      by (simp add: g(3) slots_def slots_at_def)
    then show ?thesis
      using first Indexed storage_same [of c st' st w] by (simp add: g(2,3))
  qed
next
  case (Filled w idx grown)
  then obtain k where k: "arrays st grown = Some (slots c st @ replicate k 0)"
    using inv by (auto simp: caller_inv_def)
  have st': "st' = emutls_set_current_array c grown st" "pr' = Published w idx (emutls_current_array c st)"
    using adv Filled by auto
  then have "slots c st' = slots c st @ replicate k 0"
    using k by (simp add: slots_def slots_at_def)
  then have "storage c w st' = storage c w st"
    by (auto simp: storage_def st'(1) nth_append Let_def)
  then show ?thesis
    using first Filled st' by simp
next
  case (Published w idx old)
  then have f: "free_block old st = Inr st'" "pr' = Ready w idx"
    using adv by (auto split: sum.splits)
  have ok: "heap_ok st" "caller_ok n st c pr"
    using inv by (simp_all add: caller_inv_def)
  then have "set (own_array c st) \<subseteq> - {old}"
    using Published by (auto simp: caller_ok_def held_def heap_ok_def own_array_def split: if_splits)
  then have "slots c st' = slots c st"
    by (rule slots_frame [OF free_block_frame [OF f(1)] ok(1) free_block_heap [OF f(1) ok(1)] free_block_eqs(7) [OF f(1)]])
  then show ?thesis
    using first Published f(2) storage_same [of c st' st w] by (simp add: free_block_eqs [OF f(1)])
next
  case (Ready w idx)
  have "slots c st ! (unat idx - 1) = 0"
    using inv first Ready by (auto simp: caller_inv_def indexed_def storage_def Let_def)
  then show ?thesis
    using adv Ready
    by (auto simp: Let_def slots_def emutls_alloc_value_def split: if_splits option.splits sum.splits)
next
  case (Valued w idx val)
  then show ?thesis
    using adv first by (auto simp: Let_def)
qed (use adv first assms(5) in auto)

lemma run_call_first_touch:
  assumes mal: "proper_allocator mal" and "caller_inv n c pr st" and "pr \<noteq> Idle"
    and "run_call k mal c pr st = Inr (pr', st')" and "first_touch c st pr"
  shows "first_touch c st' pr' \<and> initial_bytes (controls st' v) = initial_bytes (controls st v)"
  using assms(2-5)
proof (induction k arbitrary: pr st)
  case (Suc k)
  obtain pr1 st1 where a: "emu_advance mal c pr st = Inr (pr1, st1)" "run_call k mal c pr1 st1 = Inr (pr', st')"
    using Suc.prems(3) by (auto split: sum.splits)
  have inv: "caller_inv n c pr1 st1"
    using emu_advance_inv [OF mal Suc.prems(1)] a(1) by auto
  note f = emu_advance_first_touch [OF mal Suc.prems(1) a(1) Suc.prems(4,2), of v]
  from Suc.IH [OF inv emu_advance_progress(1) [OF a(1) Suc.prems(2)] a(2)] f show ?case
    by simp
qed simp

section \<open>A sample run\<close>

lemma run_call_6: "run_call 6 mal c pr st = run_call (Suc (Suc (Suc (Suc (Suc (Suc 0)))))) mal c pr st"
  by (rule arg_cong [where f = "\<lambda>k. run_call k mal c pr st"]) simp

lemmas sample_eval = emutls_start_def sample_controls_def assign_index_def grow_array_def Let_def
  sample_malloc_def apart_def grown_capacity_def X5H_EMUTLS_GROW_def slots_at_def emutls_alloc_value_def
  value_align_def value_address_def initial_bytes_def fits_block_def free_block_def

lemma sample_park:
  "\<exists>st. run_call (Suc (Suc 0)) sample_malloc (Task 0) (Seen 0 0) (est (emutls_start sample_controls)) = Inr (Filled 0 1 0x1000, st)
    \<and> emutls_task_cleanup 0 st = Inr st"
  by (simp add: sample_eval emutls_task_cleanup_def)

lemma sample_malloc_values:
  "sample_malloc Map.empty 36 = Some 0x1000"
  "sample_malloc [0x1000 \<mapsto> 36] 16 = Some 0x2000"
  "sample_malloc [0x1000 \<mapsto> 36, 0x2000 \<mapsto> 16] 36 = Some 0x3000"
  "sample_malloc [0x1000 \<mapsto> 36, 0x2000 \<mapsto> 16, 0x3000 \<mapsto> 36] 16 = Some 0x4000"
  by (simp_all add: sample_malloc_def apart_def)

lemma replicate_8: "replicate 8 x = [x, x, x, x, x, x, x, x]"
  by (simp add: numeral_eq_Suc)

lemmas call_eval = emutls_start_def sample_controls_def assign_index_def grow_array_def Let_def
  grown_capacity_def X5H_EMUTLS_GROW_def slots_at_def emutls_alloc_value_def
  value_align_def value_address_def initial_bytes_def fits_block_def free_block_def sample_malloc_values replicate_8

definition sample_after_call :: emutls where
  "sample_after_call =
     \<lparr>next_index = 1, boot_array = 0, tls_slot = (\<lambda>_. 0)(0 := 0x1000),
      controls = sample_controls(0 := \<lparr>ctl_size = 4, ctl_align = 8, ctl_loc = 1, ctl_templ = Some [1, 2, 3, 4]\<rparr>),
      live = [0x1000 \<mapsto> 36, 0x2000 \<mapsto> 16], arrays = [0x1000 \<mapsto> [0x2008, 0, 0, 0, 0, 0, 0, 0]],
      below = [0x2004 \<mapsto> 0x2000], contents = [0x2008 \<mapsto> [1, 2, 3, 4]]\<rparr>"

lemma sample_call:
  "run_call 6 sample_malloc (Task 0) (Seen 0 0) (est (emutls_start sample_controls)) = Inr (Returned 0 0x2008, sample_after_call)"
  by (simp add: run_call_6 call_eval sample_after_call_def)

lemma sample_second_call:
  "\<exists>st. run_call 6 sample_malloc (Task 1) (Seen 0 1) sample_after_call = Inr (Returned 0 0x4008, st)
    \<and> storage (Task 0) 0 st = 0x2008 \<and> storage (Task 1) 0 st = 0x4008"
  by (simp add: run_call_6 call_eval sample_after_call_def storage_def slots_def)

lemma reachable_start: "emutls_reachable n mal ctls (emutls_start ctls)"
  by (simp add: emutls_reachable_def)

text \<open>A call as a whole is a run of steps.\<close>

lemma call_reaches:
  assumes "emutls_reachable n mal ctls s" and "prog s c = Idle" and "c \<notin> gone s" and "v < n"
    and "run_call k mal c (Seen v (ctl_loc (controls (est s) v))) (est s) = Inr (pr, st)"
  obtains s' where "emutls_reachable n mal ctls s'" and "est s' = st" and "prog s' = (prog s)(c := pr)" and "gone s' = gone s"
proof -
  let ?s = "s\<lparr>prog := (prog s)(c := Seen v (ctl_loc (controls (est s) v)))\<rparr>"
  have r: "emutls_reachable n mal ctls ?s"
    using assms(2-4) by (intro reachable_step [OF assms(1)] estep.enter) auto
  have "emutls_reachable n mal ctls (?s\<lparr>est := st, prog := (prog ?s)(c := pr)\<rparr>)"
    using assms(3,5) by (intro run_call_reaches [OF _ _ r]) auto
  then show thesis
    by (rule that) auto
qed

lemma sample_two_tasks:
  obtains s where "emutls_reachable 2 sample_malloc sample_controls s" and "gone s = {}"
    and "storage (Task 0) 0 (est s) = 0x2008" and "storage (Task 1) 0 (est s) = 0x4008"
    and "prog s (Task 0) = Returned 0 0x2008"
proof -
  obtain st2 where r: "run_call 6 sample_malloc (Task 1) (Seen 0 (ctl_loc (controls sample_after_call 0))) sample_after_call
      = Inr (Returned 0 0x4008, st2)" "storage (Task 0) 0 st2 = 0x2008" "storage (Task 1) 0 st2 = 0x4008"
    using sample_second_call by (auto simp: sample_after_call_def)
  obtain s1 where s1: "emutls_reachable 2 sample_malloc sample_controls s1" "est s1 = sample_after_call"
    "prog s1 = (prog (emutls_start sample_controls))(Task 0 := Returned 0 0x2008)" "gone s1 = gone (emutls_start sample_controls)"
    by (rule call_reaches [OF reachable_start, of sample_controls "Task 0" 0 2 6 sample_malloc "Returned 0 0x2008" sample_after_call])
      (use sample_call in \<open>auto simp: emutls_start_def sample_controls_def\<close>)
  obtain s2 where s2: "emutls_reachable 2 sample_malloc sample_controls s2" "est s2 = st2"
    "prog s2 = (prog s1)(Task 1 := Returned 0 0x4008)" "gone s2 = gone s1"
    by (rule call_reaches [OF s1(1), of "Task 1" 0 6 "Returned 0 0x4008" st2])
      (use r(1) s1 in \<open>auto simp: emutls_start_def\<close>)
  show thesis
    using that [of s2] s1 s2 r(2,3) by (simp add: emutls_start_def)
qed

section \<open>Properties\<close>

text \<open>C16. Thread storage is private. Whatever the order in which the callers run, the storage of two
  variables, or of one variable for two callers, never overlaps; it is aligned as its variable asks.\<close>

theorem thread_storage_is_private:
  assumes "fresh_image n ctls" and "proper_allocator mal" and "emutls_reachable n mal ctls s"
    and "v < n" and "w < n" and "(c, v) \<noteq> (d, w)"
    and "storage c v (est s) \<noteq> 0" and "storage d w (est s) \<noteq> 0"
  shows "(unat (storage c v (est s)) + unat (ctl_size (controls (est s) v)) \<le> unat (storage d w (est s))
      \<or> unat (storage d w (est s)) + unat (ctl_size (controls (est s) w)) \<le> unat (storage c v (est s)))
    \<and> storage c v (est s) \<noteq> storage d w (est s)
    \<and> unat (ctl_align (controls (est s) v)) dvd unat (storage c v (est s))"
proof -
  note ok = reachable_ok [OF assms(1-3)]
  let ?a = "storage c v (est s)" and ?b = "storage d w (est s)"
  note va = storage_value(1) [OF ok assms(4,7)] and vb = storage_value(1) [OF ok assms(5,8)]
  obtain ra na where a: "below (est s) (?a - 4) = Some ra" "live (est s) ra = Some na"
    "fits_block ra na ?a (ctl_size (controls (est s) v))"
    using va by (auto simp: value_ok_def)
  obtain rb nb where b: "below (est s) (?b - 4) = Some rb" "live (est s) rb = Some nb"
    "fits_block rb nb ?b (ctl_size (controls (est s) w))"
    using vb by (auto simp: value_ok_def)
  have "ra \<noteq> rb"
    using storage_blocks_differ [OF ok assms(4-8)] a(1) b(1) by (simp add: block_of_def)
  then have "apart ra na rb nb"
    using esystem_okD(1) [OF ok] a(2) b(2) unfolding heap_ok_def by blast
  then have "?a \<noteq> ?b" and "unat ?a + unat (ctl_size (controls (est s) v)) \<le> unat ?b
      \<or> unat ?b + unat (ctl_size (controls (est s) w)) \<le> unat ?a"
    using a(3) b(3) by (auto simp: fits_block_def apart_def)
  with va show ?thesis
    by (simp add: value_ok_def)
qed

lemma thread_storage_is_private_witness:
  "\<exists>s. emutls_reachable 2 sample_malloc sample_controls s \<and> storage (Task 0) 0 (est s) \<noteq> 0
    \<and> storage (Task 1) 0 (est s) \<noteq> 0 \<and> storage (Task 0) 0 (est s) \<noteq> storage (Task 1) 0 (est s)"
proof -
  obtain s where s: "emutls_reachable 2 sample_malloc sample_controls s" "storage (Task 0) 0 (est s) = 0x2008"
    "storage (Task 1) 0 (est s) = 0x4008"
    by (rule sample_two_tasks)
  then show ?thesis
    using thread_storage_is_private [OF sample_image sample_malloc_proper s(1), of 0 0 "Task 0" "Task 1"] by auto
qed

text \<open>Every step is the caller's own, or leaves what the caller holds alone.\<close>

lemma estep_others:
  assumes mal: "proper_allocator mal" and step: "estep n mal s s'" and ok: "esystem_ok n s"
  obtains (other) P where "frame P (est s) (est s')" and "set (held c (prog s c) (est s)) \<subseteq> P"
      and "emutls_current_array c (est s') = emutls_current_array c (est s)" and "prog s' c = prog s c"
      and "c \<in> gone s' \<longleftrightarrow> c \<in> gone s"
    | (entry) "c \<notin> gone s" "est s' = est s"
    | (own) pr where "c \<notin> gone s" "emu_advance mal c (prog s c) (est s) = Inr (pr, est s')"
    | (gone) "c \<notin> gone s" "c \<in> gone s'"
proof -
  have away: "set (held c (prog s c) (est s)) \<subseteq> dom (live (est s)) - set (held d (prog s d) (est s))" if "c \<noteq> d" for d
    using esystem_okD(3) [OF ok, of c] esystem_okD(6) [OF ok that] by (auto simp: caller_ok_def)
  from step show thesis
  proof cases
    case (enter d v)
    show thesis
    proof (cases "c = d")
      case True
      then show thesis using entry enter by simp
    next
      case False
      then show thesis
        using other [of UNIV] enter(1) by (simp add: frame_def)
    qed
  next
    case (move d pr st)
    show thesis
    proof (cases "c = d")
      case True
      then show thesis using own move by simp
    next
      case False
      have "own_step n d (prog s d) (est s) pr st"
        using emu_advance_ok [OF mal esystem_okD(1-4) [OF ok] move(3)] move(2) by auto
      then show thesis
        using other [OF _ away [OF False]] False by (auto simp: own_step_def move(1))
    qed
  next
    case (cleanup t st)
    show thesis
    proof (cases "c = Task t")
      case True
      then show thesis using gone cleanup by simp
    next
      case False
      obtain st' where "emutls_task_cleanup t (est s) = Inr st'"
        "frame (dom (live (est s)) - set (held (Task t) (prog s (Task t)) (est s))) (est s) st'"
        "\<And>d. d \<noteq> Task t \<Longrightarrow> emutls_current_array d st' = emutls_current_array d (est s)"
        using cleanup_ok [OF esystem_okD(1-3) [OF ok], of t] by metis
      then show thesis
        using other [OF _ away [OF False]] False cleanup by simp
    qed
  next
    case (foreign_malloc k a)
    have "frame (dom (live (est s))) (est s) (est s')"
      using allocator_fresh(2) [OF mal foreign_malloc(2)] by (auto simp: frame_def foreign_malloc(1))
    then show thesis
      using esystem_okD(3) [OF ok, of c] by (intro other) (auto simp: caller_ok_def foreign_malloc(1))
  next
    case (foreign_free a)
    have "a \<notin> set (held c (prog s c) (est s))"
      using esystem_okD(7) [OF ok, of c] foreign_free(2) by auto
    then show thesis
      by (intro other [of "- {a}"]) (auto simp: frame_def foreign_free(1))
  qed
qed

text \<open>A value stays where it is. Once a variable has storage for a caller, no step of any caller moves
  it or changes its bytes, until that caller's storage is reclaimed.\<close>

theorem step_keeps_storage:
  assumes "fresh_image n ctls" and "proper_allocator mal" and "emutls_reachable n mal ctls s" and "estep n mal s s'"
    and "v < n" and "storage c v (est s) \<noteq> 0" and "c \<notin> gone s'"
  shows "storage c v (est s') = storage c v (est s)
    \<and> contents (est s') (storage c v (est s)) = contents (est s) (storage c v (est s))"
proof -
  note ok = reachable_ok [OF assms(1-3)]
  note ok' = estep_ok [OF assms(2,4) ok]
  note inv = esystem_okD(1-3) [OF ok]
  have "ctl_loc (controls (est s) v) \<noteq> 0"
    using storage_value(4) [OF ok assms(5,6)] by auto
  have "keeps c (est s) (est s') \<and> ctl_loc (controls (est s') v) = ctl_loc (controls (est s) v)"
  proof (rule estep_others [OF assms(2,4) ok, of c])
    fix P assume p: "frame P (est s) (est s')" "set (held c (prog s c) (est s)) \<subseteq> P"
      "emutls_current_array c (est s') = emutls_current_array c (est s)"
    have "set (own_array c (est s) @ blocks_of (est s) (slots c (est s))) \<subseteq> P"
      using p(2) by (simp add: held_def)
    from keeps_frame [OF p(1) inv(1) esystem_okD(1) [OF ok'] inv(3) p(3) this] show ?thesis
      using frame_loc [OF p(1)] \<open>ctl_loc (controls (est s) v) \<noteq> 0\<close> by simp
  next
    assume "est s' = est s"
    then show ?thesis by (simp add: keeps_def)
  next
    fix pr assume p: "c \<notin> gone s" "emu_advance mal c (prog s c) (est s) = Inr (pr, est s')"
    have "own_step n c (prog s c) (est s) pr (est s')"
      using emu_advance_ok [OF assms(2) inv esystem_okD(4) [OF ok p(1)] p(2)] by auto
    then show ?thesis
      using emu_advance_keeps [OF assms(2) inv esystem_okD(4) [OF ok p(1)] p(2)] frame_loc
        \<open>ctl_loc (controls (est s) v) \<noteq> 0\<close> by (auto simp: own_step_def)
  next
    assume "c \<in> gone s'"
    with assms(7) show ?thesis by simp
  qed
  then show ?thesis
    using storage_keeps [OF _ assms(6)] by blast
qed

lemma step_keeps_storage_witness:
  "\<exists>s s'. estep 2 sample_malloc s s' \<and> storage (Task 0) 0 (est s) \<noteq> 0
    \<and> storage (Task 0) 0 (est s') = storage (Task 0) 0 (est s)"
proof -
  obtain s where s: "emutls_reachable 2 sample_malloc sample_controls s" "gone s = {}"
    "storage (Task 0) 0 (est s) = 0x2008" "prog s (Task 0) = Returned 0 0x2008"
    by (rule sample_two_tasks)
  let ?s = "s\<lparr>prog := (prog s)(Task 0 := Seen 0 (ctl_loc (controls (est s) 0)))\<rparr>"
  have "estep 2 sample_malloc s ?s"
    using s by (intro estep.enter) auto
  moreover have "storage (Task 0) 0 (est ?s) = storage (Task 0) 0 (est s)"
    using step_keeps_storage [OF sample_image sample_malloc_proper s(1) calculation, of 0 "Task 0"] s by simp
  ultimately show ?thesis
    using s(3) by (intro exI [of _ s] exI [of _ ?s]) simp
qed

text \<open>C24. A call ends and gives the storage. From every reachable state a caller that enters the function and
  is not interrupted is back within six steps, with the address of its variable, unless \<open>malloc\<close> fails. The first
  call for a variable gives a value that starts with the bytes of the template, or with zeros; a later one the value
  the first one gave.\<close>

theorem call_gives_storage:
  assumes "fresh_image n ctls" and "proper_allocator mal" and "emutls_reachable n mal ctls s"
    and "c \<notin> gone s" and "prog s c = Idle \<or> (\<exists>w a. prog s c = Returned w a)" and "v < n"
  shows "emutls_get_address mal 0 c v (est s) = Inl Out_of_memory
    \<or> (\<exists>val st'. emutls_get_address mal 0 c v (est s) = Inr (Returned v val, st') \<and> val \<noteq> 0 \<and> storage c v st' = val
         \<and> (if storage c v (est s) = 0 then contents st' val = initial_bytes (controls (est s) v)
            else val = storage c v (est s) \<and> contents st' val = contents (est s) val))"
proof -
  note ok = reachable_ok [OF assms(1-3)]
  let ?pr = "Seen v (ctl_loc (controls (est s) v))"
  have "in_hand (est s) (prog s c) = []"
    using assms(5) by auto
  then have "caller_ok n (est s) c ?pr"
    using esystem_okD(3) [OF ok, of c] assms(5) by (auto simp: caller_ok_def held_def)
  then have inv: "caller_inv n c ?pr (est s)"
    using esystem_okD(1,2) [OF ok] assms(6) by (simp add: caller_inv_def)
  have run: "emutls_get_address mal 0 c v (est s) = run_call 6 mal c ?pr (est s)"
    by (simp add: emutls_get_address_def)
  consider "run_call 6 mal c ?pr (est s) = Inl Out_of_memory"
    | val st' where "run_call 6 mal c ?pr (est s) = Inr (Returned v val, st')" "caller_inv n c (Returned v val) st'"
      "keeps c (est s) st'" "frame {} (est s) st'"
    using run_call_returns [OF assms(2) inv, of 6] by auto
  then show ?thesis
  proof cases
    case 2
    have st: "val \<noteq> 0" "storage c v st' = val"
      using 2(2) by (auto simp: caller_inv_def indexed_def storage_def Let_def)
    have "contents st' val = initial_bytes (controls (est s) v)" if "storage c v (est s) = 0"
      using run_call_first_touch [OF assms(2) inv _ 2(1), of v] that by auto
    moreover have "val = storage c v (est s) \<and> contents st' val = contents (est s) val" if nz: "storage c v (est s) \<noteq> 0"
    proof -
      have "ctl_loc (controls (est s) v) \<noteq> 0"
        using storage_value(4) [OF ok assms(6) nz] by auto
      then show ?thesis
        using storage_keeps [OF 2(3) nz frame_loc [OF 2(4)]] st(2) by simp
    qed
    ultimately show ?thesis
      using 2(1) st run by auto
  qed (use run in simp)
qed

lemma call_gives_storage_witness:
  "\<exists>val st'. emutls_get_address sample_malloc 0 (Task 0) 0 (est (emutls_start sample_controls)) = Inr (Returned 0 val, st')
    \<and> contents st' val = Some [1, 2, 3, 4]"
proof -
  have "storage (Task 0) 0 (est (emutls_start sample_controls)) = 0"
    by (simp add: storage_def emutls_start_def sample_controls_def Let_def)
  moreover have "emutls_get_address sample_malloc 0 (Task 0) 0 (est (emutls_start sample_controls)) \<noteq> Inl Out_of_memory"
    using sample_call by (auto simp: emutls_get_address_def emutls_start_def sample_controls_def)
  ultimately show ?thesis
    using call_gives_storage [OF sample_image sample_malloc_proper reachable_start, of "Task 0" 0]
    by (auto simp: emutls_start_def initial_bytes_def sample_controls_def)
qed

text \<open>C17. No undefined behaviour. In every reachable state the next step of a caller is a step or an abort for lack
  of memory, and cleaning up a task succeeds: no access leaves its block, no block is freed twice and no
  template is read past its end.\<close>

theorem emutls_has_no_undefined_behaviour:
  assumes "fresh_image n ctls" and "proper_allocator mal" and "emutls_reachable n mal ctls s" and "c \<notin> gone s"
  shows "emu_advance mal c (prog s c) (est s) \<in> insert (Inl Out_of_memory) (range Inr)
    \<and> emutls_task_cleanup t (est s) \<in> range Inr"
proof -
  note ok = reachable_ok [OF assms(1-3)]
  have "emutls_task_cleanup t (est s) \<in> range Inr"
    by (rule cleanup_ok [OF esystem_okD(1-3) [OF ok], of t]) auto
  moreover have "emu_advance mal c (prog s c) (est s) \<in> insert (Inl Out_of_memory) (range Inr)"
    using emu_advance_ok [OF assms(2) esystem_okD(1-4) [OF ok] refl] assms(4) by blast
  ultimately show ?thesis by blast
qed

lemma emutls_has_no_undefined_behaviour_witness:
  "\<exists>s. emutls_reachable 2 sample_malloc sample_controls s \<and> storage (Task 0) 0 (est s) \<noteq> 0
    \<and> emutls_task_cleanup 0 (est s) \<in> range Inr"
proof -
  obtain s where s: "emutls_reachable 2 sample_malloc sample_controls s" "gone s = {}" "storage (Task 0) 0 (est s) = 0x2008"
    by (rule sample_two_tasks)
  then show ?thesis
    using emutls_has_no_undefined_behaviour [OF sample_image sample_malloc_proper s(1), of "Task 1" 0] by auto
qed

text \<open>C25. A finished task leaves nothing behind. Cleaning up a task that is outside the function frees exactly its
  array and its values: what is live afterwards is held by the other callers or by the rest of the program.\<close>

theorem cleanup_frees_storage:
  assumes "fresh_image n ctls" and "proper_allocator mal" and "emutls_reachable n mal ctls s"
    and "prog s (Task t) = Idle \<or> (\<exists>w a. prog s (Task t) = Returned w a)"
  shows "\<exists>st'. emutls_task_cleanup t (est s) = Inr st' \<and> storage (Task t) v st' = 0
    \<and> dom (live st') = foreign s \<union> (\<Union>d \<in> - {Task t}. set (held d (prog s d) (est s)))"
proof -
  note ok = reachable_ok [OF assms(1-3)]
  let ?h = "\<lambda>d. set (held d (prog s d) (est s))"
  obtain st' where c: "emutls_task_cleanup t (est s) = Inr st'" "heap_ok st'" "emutls_current_array (Task t) st' = 0"
    "dom (live st') = (dom (live (est s)) - ?h (Task t)) \<union> set (in_hand (est s) (prog s (Task t)))"
    using cleanup_ok [OF esystem_okD(1-3) [OF ok], of t] by metis
  have "slots (Task t) st' = []"
    using c(2,3) by (simp add: slots_def slots_at_def heap_ok_def)
  then have none: "storage (Task t) v st' = 0"
    by (auto simp: storage_def Let_def)
  have "in_hand (est s) (prog s (Task t)) = []"
    using assms(4) by auto
  moreover have "?h d \<inter> ?h (Task t) = {}" if "d \<in> - {Task t}" for d
    using esystem_okD(6) [OF ok] that by simp
  ultimately have "dom (live st') = foreign s \<union> (\<Union>d \<in> - {Task t}. ?h d)"
    using c(4) esystem_okD(7) [OF ok, of "Task t"] unfolding esystem_okD(8) [OF ok] by auto
  with c(1) none show ?thesis by blast
qed

lemma cleanup_frees_storage_witness:
  "\<exists>s st'. emutls_reachable 2 sample_malloc sample_controls s \<and> storage (Task 0) 0 (est s) \<noteq> 0
    \<and> emutls_task_cleanup 0 (est s) = Inr st' \<and> storage (Task 0) 0 st' = 0"
proof -
  obtain s where s: "emutls_reachable 2 sample_malloc sample_controls s" "storage (Task 0) 0 (est s) = 0x2008"
    "prog s (Task 0) = Returned 0 0x2008"
    by (rule sample_two_tasks)
  then show ?thesis
    using cleanup_frees_storage [OF sample_image sample_malloc_proper s(1), of 0 0] by auto
qed

text \<open>A task parked inside the function leaks. A block that a task has taken from \<open>malloc\<close> and not yet
  published, or has unpublished and not yet freed, when the task is suspended and cleaned up, stays live for
  ever: the cleanup does not know it, and the task never runs again.\<close>

theorem parked_task_leaks:
  assumes "fresh_image n ctls" and "proper_allocator mal" and "emutls_reachable n mal ctls s"
    and "Task t \<in> gone s" and "b \<in> set (in_hand (est s) (prog s (Task t)))" and "(estep n mal)\<^sup>*\<^sup>* s s'"
  shows "b \<in> dom (live (est s')) \<and> b \<notin> foreign s'"
proof -
  have "esystem_ok n s' \<and> Task t \<in> gone s' \<and> prog s' (Task t) = prog s (Task t)
    \<and> b \<in> set (in_hand (est s') (prog s (Task t)))"
    using assms(6)
  proof (induction rule: rtranclp_induct)
    case base
    then show ?case
      using assms(4,5) reachable_ok [OF assms(1-3)] by simp
  next
    case (step s1 s2)
    then have ok: "esystem_ok n s1" and g: "Task t \<in> gone s1" "prog s1 (Task t) = prog s (Task t)"
      and b: "b \<in> set (in_hand (est s1) (prog s (Task t)))"
      by simp_all
    have "Task t \<in> gone s2 \<and> prog s2 (Task t) = prog s (Task t) \<and> b \<in> set (in_hand (est s2) (prog s (Task t)))"
    proof (rule estep_others [OF assms(2) step.hyps(2) ok, of "Task t"])
      fix P assume p: "frame P (est s1) (est s2)" "set (held (Task t) (prog s1 (Task t)) (est s1)) \<subseteq> P"
        "prog s2 (Task t) = prog s1 (Task t)" "Task t \<in> gone s2 \<longleftrightarrow> Task t \<in> gone s1"
      have "hand_ok (est s1) (prog s1 (Task t))" "set (in_hand (est s1) (prog s1 (Task t))) \<subseteq> P"
        using esystem_okD(3) [OF ok, of "Task t"] p(2) by (auto simp: caller_ok_def held_def)
      then show ?thesis
        using in_hand_frame(1) [OF p(1)] p(3,4) g b by simp
    qed (use g in simp_all)
    then show ?case
      using estep_ok [OF assms(2) step.hyps(2) ok] by blast
  qed
  then have ok: "esystem_ok n s'" and b: "b \<in> set (held (Task t) (prog s' (Task t)) (est s'))"
    by (simp_all add: held_def)
  show ?thesis
    using esystem_okD(3,7) [OF ok, of "Task t"] b by (auto simp: caller_ok_def)
qed

lemma parked_task_leaks_witness:
  "\<exists>s. emutls_reachable 2 sample_malloc sample_controls s \<and> Task 0 \<in> gone s
    \<and> 0x1000 \<in> dom (live (est s)) \<and> 0x1000 \<notin> foreign s"
proof -
  obtain st where st: "run_call (Suc (Suc 0)) sample_malloc (Task 0) (Seen 0 0) (est (emutls_start sample_controls))
      = Inr (Filled 0 1 0x1000, st)" "emutls_task_cleanup 0 st = Inr st"
    using sample_park by blast
  obtain s where s: "emutls_reachable 2 sample_malloc sample_controls s" "est s = st"
    "prog s = (prog (emutls_start sample_controls))(Task 0 := Filled 0 1 0x1000)" "gone s = gone (emutls_start sample_controls)"
    by (rule call_reaches [OF reachable_start, of sample_controls "Task 0" 0 2 "Suc (Suc 0)" sample_malloc "Filled 0 1 0x1000" st])
      (use st(1) in \<open>auto simp: emutls_start_def sample_controls_def\<close>)
  let ?s = "s\<lparr>est := st, gone := insert (Task 0) (gone s)\<rparr>"
  have "emutls_reachable 2 sample_malloc sample_controls ?s"
    using st(2) s by (intro reachable_step [OF s(1)] estep.cleanup) (auto simp: emutls_start_def)
  from parked_task_leaks [OF sample_image sample_malloc_proper this, of 0 "0x1000" ?s] this s(3) show ?thesis
    by (intro exI [of _ ?s]) auto
qed

definition covers :: "u8 list option \<Rightarrow> u32 \<Rightarrow> bool" where
  "covers templ k \<longleftrightarrow> (case templ of None \<Rightarrow> True | Some t \<Rightarrow> unat k \<le> length t)"

text \<open>Merging the sizes of a common variable never leaves a template shorter than the variable, whatever the
  order in which the translation units register it.\<close>

theorem registered_template_covers:
  assumes "covers (ctl_templ obj) (ctl_size obj)" and "\<forall>(k, a, t) \<in> set regs. covers t k"
  shows "covers (ctl_templ (foldr (\<lambda>(k, a, t). emutls_register_common k a t) regs obj))
      (ctl_size (foldr (\<lambda>(k, a, t). emutls_register_common k a t) regs obj))
    \<and> (\<forall>(k, a, t) \<in> set regs. k \<le> ctl_size (foldr (\<lambda>(k, a, t). emutls_register_common k a t) regs obj)
         \<and> a \<le> ctl_align (foldr (\<lambda>(k, a, t). emutls_register_common k a t) regs obj))"
  using assms(2)
proof (induction regs)
  case (Cons r regs)
  obtain k a t where r: "r = (k, a, t)" by (cases r)
  define o1 where "o1 = foldr (\<lambda>(k, a, t). emutls_register_common k a t) regs obj"
  have "covers (ctl_templ o1) (ctl_size o1)" "\<forall>(k, a, t) \<in> set regs. k \<le> ctl_size o1 \<and> a \<le> ctl_align o1"
    using Cons unfolding o1_def by simp_all
  moreover have "covers t k"
    using Cons.prems by (simp add: r)
  moreover have "ctl_size o1 \<le> ctl_size (emutls_register_common k a t o1)" "k \<le> ctl_size (emutls_register_common k a t o1)"
    "ctl_align o1 \<le> ctl_align (emutls_register_common k a t o1)" "a \<le> ctl_align (emutls_register_common k a t o1)"
    by (auto simp: emutls_register_common_def Let_def)
  ultimately have "covers (ctl_templ (emutls_register_common k a t o1)) (ctl_size (emutls_register_common k a t o1))
      \<and> (\<forall>(k', a', t') \<in> set (r # regs). k' \<le> ctl_size (emutls_register_common k a t o1)
           \<and> a' \<le> ctl_align (emutls_register_common k a t o1))"
    by (fastforce simp: r emutls_register_common_def Let_def)
  then show ?case
    by (simp add: r o1_def)
qed (use assms(1) in simp)

lemma registered_template_covers_witness:
  "4 \<le> ctl_size (foldr (\<lambda>(k, a, t). emutls_register_common k a t) [(4, 4, Some [1, 2, 3, 4]), (2, 8, None)]
     \<lparr>ctl_size = 0, ctl_align = 1, ctl_loc = 0, ctl_templ = None\<rparr>)"
  using registered_template_covers [of "\<lparr>ctl_size = 0, ctl_align = 1, ctl_loc = 0, ctl_templ = None\<rparr>"
      "[(4, 4, Some [1, 2, 3, 4]), (2, 8, None)]"]
  by (simp add: covers_def)

end
