(* ===== verification/Node_Timer.thy ===== *)
theory Node_Timer
  imports
    Clock_Time
begin

text \<open>
  The node under the controller: its timer (\<open>common/node/timer.hpp\<close>), its parameters and its
  thread (\<open>common/node/node.hpp\<close>), and the subscriptions the thread serves (\<open>common/dds/dds.hpp\<close>,
  \<open>common/dds/subscriber.hpp\<close>). What CycloneDDS answers to a call is an argument.
\<close>

section \<open>Timer\<close>

record timer =
  timer_active :: bool
  period_ms :: u32
  last_execution_time :: dbl
  user_callback :: bool

definition Timer :: timer where
  "Timer = \<lparr>timer_active = False, period_ms = 0, last_execution_time = Fin 0, user_callback = False\<rparr>"

definition timer_start :: "u32 \<Rightarrow> bool \<Rightarrow> int \<Rightarrow> timer \<Rightarrow> bool \<times> timer" where
  "timer_start period callback clk t =
     (if timer_active t then (False, t)
      else if \<not> callback then (False, t)
      else (True, \<lparr>timer_active = True, period_ms = period, last_execution_time = Clock_now clk,
                   user_callback = True\<rparr>))"

definition timer_stop :: "timer \<Rightarrow> timer" where
  "timer_stop t =
     (if timer_active t
      then t\<lparr>timer_active := False, user_callback := False, period_ms := 0, last_execution_time := Fin 0\<rparr>
      else t)"

definition timer_is_ready :: "int \<Rightarrow> timer \<Rightarrow> bool" where
  "timer_is_ready clk t \<longleftrightarrow>
     timer_active t \<and> user_callback t
     \<and> Fin (real (unat (period_ms t))) \<le> (Clock_now clk - last_execution_time t) * Fin 1000"

text \<open>\<open>execute\<close> reads the clock twice: in \<open>is_ready\<close> and for itself. The flag says that the
  callback runs.\<close>

definition timer_execute :: "int \<Rightarrow> int \<Rightarrow> timer \<Rightarrow> bool \<times> timer" where
  "timer_execute ready_clk clk t =
     (if \<not> timer_is_ready ready_clk t then (False, t)
      else
        let current_time = Clock_now clk;
            period_s = Fin (real (unat (period_ms t))) div Fin 1000;
            elapsed = current_time - last_execution_time t;
            last = (if Fin 2 * period_s < elapsed
                    then last_execution_time t + (ffloor (elapsed div period_s) - Fin 1) * period_s
                    else last_execution_time t)
        in (True, t\<lparr>last_execution_time := last + period_s\<rparr>))"

section \<open>Parameters\<close>

text \<open>The alternatives of \<open>param_type\<close>. A call names the type it wants with a value of that type.\<close>

datatype param_value =
    Param_bool bool
  | Param_int i32
  | Param_int64 "64 word"
  | Param_double dbl
  | Param_string string
  | Param_bools "bool list"
  | Param_ints "i32 list"
  | Param_int64s "64 word list"
  | Param_doubles "dbl list"
  | Param_strings "string list"
  | Param_bytes "u8 list"

fun param_index :: "param_value \<Rightarrow> nat" where
  "param_index (Param_bool b) = 0"
| "param_index (Param_int i) = 1"
| "param_index (Param_int64 i) = 2"
| "param_index (Param_double d) = 3"
| "param_index (Param_string s) = 4"
| "param_index (Param_bools bs) = 5"
| "param_index (Param_ints is) = 6"
| "param_index (Param_int64s is) = 7"
| "param_index (Param_doubles ds) = 8"
| "param_index (Param_strings ss) = 9"
| "param_index (Param_bytes bs) = 10"

type_synonym parameters = "string \<rightharpoonup> param_value"

definition declare_parameter :: "string \<Rightarrow> param_value \<Rightarrow> parameters \<Rightarrow> param_value \<times> parameters" where
  "declare_parameter name default_value ps =
     (case ps name of
        None \<Rightarrow> (default_value, ps(name \<mapsto> default_value))
      | Some value \<Rightarrow>
          if param_index value = param_index default_value then (value, ps) else (default_value, ps))"

text \<open>\<open>get_parameter\<close>; \<open>zero\<close> is the default-constructed value of the type.\<close>

definition get_parameter :: "string \<Rightarrow> param_value \<Rightarrow> parameters \<Rightarrow> param_value" where
  "get_parameter name zero ps =
     (case ps name of
        None \<Rightarrow> zero
      | Some value \<Rightarrow> if param_index value = param_index zero then value else zero)"

definition set_parameter :: "string \<Rightarrow> param_value \<Rightarrow> parameters \<Rightarrow> bool \<times> parameters" where
  "set_parameter name value ps =
     (case ps name of
        None \<Rightarrow> (False, ps)
      | Some old \<Rightarrow> if param_index old = param_index value then (True, ps(name \<mapsto> value)) else (False, ps))"

definition has_parameter :: "string \<Rightarrow> parameters \<Rightarrow> bool" where
  "has_parameter name ps \<longleftrightarrow> ps name \<noteq> None"

section \<open>Subscriptions\<close>

text \<open>The constructor of \<open>Subscriber\<close>: the reader it is left with, for the answers of
  \<open>dds_create_topic\<close> and \<open>dds_create_reader\<close>. It reports a failure to the log only.\<close>

definition Subscriber :: "int \<Rightarrow> int \<Rightarrow> int" where
  "Subscriber topic reader = (if topic < 0 then 0 else reader)"

text \<open>What CycloneDDS answers while a subscription is set up.\<close>

record dds_setup =
  qos_created :: bool
  qos_copied :: bool
  topic_entity :: int
  created_reader :: int

text \<open>\<open>create_subscription_dds\<close>: \<open>None\<close> is the null pointer.\<close>

definition create_subscription_dds :: "bool \<Rightarrow> dds_setup \<Rightarrow> int list \<Rightarrow> int option \<times> int list" where
  "create_subscription_dds volatile d readers =
     (if \<not> volatile \<and> \<not> qos_created d then (None, readers)
      else if \<not> volatile \<and> \<not> qos_copied d then (None, readers)
      else let sub = Subscriber (topic_entity d) (created_reader d) in (Some sub, readers @ [sub]))"

definition create_subscription :: "bool \<Rightarrow> dds_setup \<Rightarrow> int list \<Rightarrow> bool \<times> int list" where
  "create_subscription volatile d readers =
     (case create_subscription_dds volatile d readers of (sub, readers) \<Rightarrow> (sub \<noteq> None, readers))"

text \<open>The answer of \<open>dds_take\<close>: a negative code, no sample, or a sample with its \<open>valid_data\<close>.\<close>

datatype 'ev take_answer = Take_error int | Take_none | Taken bool 'ev

fun process_next_message :: "('ev \<Rightarrow> 's \<Rightarrow> 's \<times> 'out list) \<Rightarrow> 'ev take_answer \<Rightarrow> 's \<Rightarrow> 's \<times> ('ev \<times> 'out list) list" where
  "process_next_message callback (Taken valid ev) s =
     (if valid then (case callback ev s of (s, outs) \<Rightarrow> (s, [(ev, outs)])) else (s, []))"
| "process_next_message callback Take_none s = (s, [])"
| "process_next_message callback (Take_error rc) s = (s, [])"

fun execute_subscriptions ::
  "('ev \<Rightarrow> 's \<Rightarrow> 's \<times> 'out list) \<Rightarrow> 'ev take_answer list \<Rightarrow> 's \<Rightarrow> 's \<times> ('ev \<times> 'out list) list" where
  "execute_subscriptions callback [] s = (s, [])"
| "execute_subscriptions callback (a # as) s =
     (case process_next_message callback a s of (s, tr1) \<Rightarrow>
      case execute_subscriptions callback as s of (s, tr2) \<Rightarrow> (s, tr1 @ tr2))"

section \<open>The thread of the node\<close>

text \<open>One pass of \<open>main_thread_entry_\<close>: what each reader answers, the two clock readings of the
  timer, and the event its callback is when it runs.\<close>

record 'ev spin_input =
  answers :: "'ev take_answer list"
  ready_clk :: int
  exec_clk :: int
  tick_event :: 'ev

definition spin_iteration ::
  "('ev \<Rightarrow> 's \<Rightarrow> 's \<times> 'out list) \<Rightarrow> 'ev spin_input \<Rightarrow> timer \<Rightarrow> 's \<Rightarrow> timer \<times> 's \<times> ('ev \<times> 'out list) list" where
  "spin_iteration callback inp t s =
     (case execute_subscriptions callback (answers inp) s of (s, tr) \<Rightarrow>
      case timer_execute (ready_clk inp) (exec_clk inp) t of (fired, t) \<Rightarrow>
        if fired then (case callback (tick_event inp) s of (s, outs) \<Rightarrow> (t, s, tr @ [(tick_event inp, outs)]))
        else (t, s, tr))"

fun spin ::
  "('ev \<Rightarrow> 's \<Rightarrow> 's \<times> 'out list) \<Rightarrow> 'ev spin_input list \<Rightarrow> timer \<Rightarrow> 's \<Rightarrow> timer \<times> 's \<times> ('ev \<times> 'out list) list" where
  "spin callback [] t s = (t, s, [])"
| "spin callback (inp # inps) t s =
     (case spin_iteration callback inp t s of (t, s, tr1) \<Rightarrow>
      case spin callback inps t s of (t, s, tr2) \<Rightarrow> (t, s, tr1 @ tr2))"

text \<open>
  The timer on ordinary clock readings: one step in exact arithmetic, and what a sequence of passes
  of the thread makes of it.
\<close>

section \<open>One pass\<close>

definition period_s :: "timer \<Rightarrow> real" where
  "period_s t = real (unat (period_ms t)) / 1000"

definition seconds :: "int \<Rightarrow> real" where
  "seconds ns = of_int ns / 1000000000"

text \<open>A started timer with a period, whose last execution is at \<open>L\<close>.\<close>

definition running :: "timer \<Rightarrow> real \<Rightarrow> bool" where
  "running t L \<longleftrightarrow> timer_active t \<and> user_callback t \<and> period_ms t \<noteq> 0 \<and> last_execution_time t = Fin L \<and> \<bar>L\<bar> \<le> 10 ^ 12"

lemma Clock_now_seconds: "\<bar>ns\<bar> \<le> 2 ^ 63 \<Longrightarrow> Clock_now ns = Fin (seconds ns)"
  by (simp add: Clock_now_def seconds_def seconds_of_ns_Fin)

lemma seconds_bound:
  assumes "\<bar>ns\<bar> \<le> 2 ^ 63"
  shows "\<bar>seconds ns\<bar> \<le> 10 ^ 10"
proof -
  have "\<bar>real_of_int ns\<bar> \<le> 2 ^ 63"
    using assms by (metis of_int_abs of_int_le_iff of_int_numeral of_int_power)
  then show ?thesis
    by (simp add: seconds_def abs_le_iff)
qed

lemma seconds_mono: "a \<le> b \<Longrightarrow> seconds a \<le> seconds b"
  by (simp add: seconds_def divide_right_mono)

lemma period_bounds:
  assumes "period_ms t \<noteq> 0"
  shows "1 / 1000 \<le> period_s t" and "period_s t \<le> 10 ^ 7"
proof -
  have "1 \<le> unat (period_ms t)"
    using assms by (simp add: Suc_leI unat_gt_0)
  then have "1 \<le> real (unat (period_ms t))"
    by linarith
  then show "1 / 1000 \<le> period_s t"
    by (simp add: period_s_def)
  have "unat (period_ms t) < 2 ^ 32"
    using unsigned_less [of "period_ms t", where 'a = nat] by simp
  then have "real (unat (period_ms t)) \<le> 2 ^ 32"
    by (metis less_imp_le of_nat_le_iff of_nat_numeral of_nat_power)
  then show "period_s t \<le> 10 ^ 7"
    by (simp add: period_s_def)
qed

lemma ready_iff:
  assumes "running t L" and "\<bar>a\<bar> \<le> 2 ^ 63"
  shows "timer_is_ready a t \<longleftrightarrow> L + period_s t \<le> seconds a"
proof -
  have L: "last_execution_time t = Fin L" "\<bar>L\<bar> \<le> 10 ^ 12" "timer_active t" "user_callback t"
    using assms(1) by (simp_all add: running_def)
  have s: "\<bar>seconds a\<bar> \<le> 10 ^ 10"
    by (rule seconds_bound [OF assms(2)])
  have d: "\<bar>seconds a - L\<bar> \<le> 10 ^ 13"
    using s L(2) by (simp add: abs_le_iff)
  have "Clock_now a - last_execution_time t = Fin (seconds a - L)"
    using d by (simp add: L(1) Clock_now_seconds [OF assms(2)] minus_dbl_def)
  moreover have "\<bar>(seconds a - L) * 1000\<bar> \<le> 10 ^ 30"
    using d by (simp add: abs_mult)
  ultimately show ?thesis
    using L(3,4) by (auto simp: timer_is_ready_def period_s_def)
qed

lemma floor_minus_one_bound:
  assumes "\<bar>q :: real\<bar> \<le> 10 ^ 16"
  shows "\<bar>of_int \<lfloor>q\<rfloor> - 1 :: real\<bar> \<le> 10 ^ 17"
proof -
  have "q \<le> 10 ^ 16" "- (10 ^ 16) \<le> q"
    using assms by linarith+
  moreover have "(10 :: real) ^ 17 = 10 * 10 ^ 16" "(1 :: real) \<le> 10 ^ 16"
    by simp_all
  ultimately have "of_int \<lfloor>q\<rfloor> - 1 \<le> (10 ^ 17 :: real)" "- (of_int \<lfloor>q\<rfloor> - 1 :: real) \<le> 10 ^ 17"
    by linarith+
  then show ?thesis
    by (rule abs_leI)
qed

lemma execute_cases:
  assumes "running t L" and "\<bar>a\<bar> \<le> 2 ^ 63" and "\<bar>b\<bar> \<le> 2 ^ 63" and "a \<le> b"
  obtains (silent) "seconds a < L + period_s t" "timer_execute a b t = (False, t)"
    | (fires) L' t' where "L + period_s t \<le> seconds a" "timer_execute a b t = (True, t')" "running t' L'"
        "period_ms t' = period_ms t" "L + period_s t \<le> L'" "L' \<le> seconds b" "seconds b \<le> L' + period_s t"
proof (cases "L + period_s t \<le> seconds a")
  case False
  then show thesis
    using silent ready_iff [OF assms(1,2)] by (simp add: timer_execute_def)
next
  case True
  define P where "P = period_s t"
  define e where "e = seconds b - L"
  have L: "last_execution_time t = Fin L" "\<bar>L\<bar> \<le> 10 ^ 12" "period_ms t \<noteq> 0"
    using assms(1) by (simp_all add: running_def)
  note P = period_bounds [OF L(3), folded P_def]
  have s: "\<bar>seconds b\<bar> \<le> 10 ^ 10"
    by (rule seconds_bound [OF assms(3)])
  have e: "P \<le> e" "\<bar>e\<bar> \<le> 10 ^ 13"
    using True seconds_mono [OF assms(4)] s L(2) by (simp_all add: e_def P_def abs_le_iff)
  have elapsed: "Clock_now b - last_execution_time t = Fin e"
    using e(2) by (simp add: L(1) Clock_now_seconds [OF assms(3)] minus_dbl_def e_def)
  have period: "Fin (real (unat (period_ms t))) div Fin 1000 = Fin P"
    using P unfolding P_def period_s_def by simp
  have two: "Fin 2 * Fin P = Fin (2 * P)"
    using P by simp
  define m where "m = (if 2 * P < e then \<lfloor>e / P\<rfloor> else 1)"
  have m: "1 \<le> m" "of_int m * P \<le> e" "e \<le> of_int m * P + P"
  proof -
    have "2 * P < e \<Longrightarrow> 2 \<le> \<lfloor>e / P\<rfloor>"
      using P(1) by (simp add: le_floor_iff pos_le_divide_eq)
    then show "1 \<le> m"
      by (auto simp: m_def)
    have "of_int \<lfloor>e / P\<rfloor> * P \<le> e / P * P"
      using P(1) by (intro mult_right_mono) auto
    then show "of_int m * P \<le> e"
      using e(1) P(1) by (auto simp: m_def)
    have "e / P \<le> of_int \<lfloor>e / P\<rfloor> + 1"
      by linarith
    then have "e / P * P \<le> (of_int \<lfloor>e / P\<rfloor> + 1) * P"
      using P(1) by (intro mult_right_mono) simp_all
    then show "e \<le> of_int m * P + P"
      using P(1) by (auto simp: m_def algebra_simps)
  qed
  have mP: "\<bar>of_int m * P\<bar> \<le> 10 ^ 13"
    using m P(1) e(2) by (simp add: abs_le_iff)
  have sum: "(if 2 * P < e then Fin L + (ffloor (Fin e div Fin P) - Fin 1) * Fin P else Fin L) + Fin P = Fin (L + of_int m * P)"
  proof (cases "2 * P < e")
    case True
    have "\<bar>e / P\<bar> \<le> 10 ^ 16"
    proof -
      have "\<bar>e / P\<bar> = \<bar>e\<bar> / P"
        using P(1) by simp
      also have "\<dots> \<le> 10 ^ 13 / (1 / 1000)"
        using P(1) e(2) by (intro frac_le) auto
      finally show ?thesis by simp
    qed
    then have q: "Fin e div Fin P = Fin (e / P)"
      using P(1) by simp
    have r: "\<bar>real_of_int \<lfloor>e / P\<rfloor> - 1\<bar> \<le> 10 ^ 17"
      by (rule floor_minus_one_bound [OF \<open>\<bar>e / P\<bar> \<le> 10 ^ 16\<close>])
    have k: "ffloor (Fin e div Fin P) - Fin 1 = Fin (of_int \<lfloor>e / P\<rfloor> - 1)"
      using q r by (simp add: ffloor_def keep_inf_def minus_dbl_def)
    have "(of_int \<lfloor>e / P\<rfloor> - 1) * P = of_int m * P - P"
      using True by (simp add: m_def algebra_simps)
    moreover have "\<bar>of_int m * P - P\<bar> \<le> 10 ^ 14" "\<bar>L + (of_int m * P - P)\<bar> \<le> 10 ^ 15" "\<bar>L + of_int m * P\<bar> \<le> 10 ^ 15"
      using mP P L(2) by (auto simp: abs_le_iff)
    ultimately show ?thesis
      using True k by simp
  next
    case False
    have "\<bar>L + P\<bar> \<le> 10 ^ 30"
      using L(2) P by (auto simp: abs_le_iff)
    then show ?thesis
      using False by (simp add: m_def)
  qed
  define t' where "t' = t\<lparr>last_execution_time := Fin (L + of_int m * P)\<rparr>"
  have "timer_execute a b t = (True, t')"
  proof -
    have body: "timer_execute a b t = (True, t\<lparr>last_execution_time :=
      (if Fin (2 * P) < Fin e then Fin L + (ffloor (Fin e div Fin P) - Fin 1) * Fin P else Fin L) + Fin P\<rparr>)"
      using True ready_iff [OF assms(1,2)]
      unfolding timer_execute_def Let_def elapsed period two by (simp only: L(1) simp_thms if_False)
    show ?thesis
      unfolding body t'_def using sum by (simp only: less_dbl.simps)
  qed
  moreover have "P \<le> of_int m * P"
    using m(1) P(1) mult_right_mono [of 1 "of_int m" P] by simp
  moreover have "L + of_int m * P \<le> seconds b" "seconds b \<le> L + of_int m * P + P"
    using m(2,3) by (simp_all add: e_def)
  moreover from calculation have "running t' (L + of_int m * P)"
    using assms(1) s L(2) P by (auto simp: running_def t'_def abs_le_iff)
  ultimately show thesis
    using fires True by (simp add: t'_def P_def)
qed

section \<open>The passes of the thread\<close>

text \<open>In which of its passes the thread runs the timer's callback.\<close>

fun firings :: "'ev spin_input list \<Rightarrow> timer \<Rightarrow> bool list" where
  "firings [] t = []"
| "firings (inp # inps) t =
     (case timer_execute (ready_clk inp) (exec_clk inp) t of (fired, t) \<Rightarrow> fired # firings inps t)"

fun timer_after :: "'ev spin_input list \<Rightarrow> timer \<Rightarrow> timer" where
  "timer_after [] t = t"
| "timer_after (inp # inps) t = timer_after inps (snd (timer_execute (ready_clk inp) (exec_clk inp) t))"

text \<open>Clock readings of a run: ordinary, and never going back, from \<open>c\<close> on.\<close>

fun clocks_from :: "int \<Rightarrow> 'ev spin_input list \<Rightarrow> bool" where
  "clocks_from c [] = True"
| "clocks_from c (inp # inps) =
     (c \<le> ready_clk inp \<and> ready_clk inp \<le> exec_clk inp \<and> - (2 ^ 63) \<le> ready_clk inp \<and> exec_clk inp \<le> 2 ^ 63
      \<and> clocks_from (exec_clk inp) inps)"

lemma length_firings [simp]: "length (firings inps t) = length inps"
  by (induction inps arbitrary: t) (auto split: prod.splits)

lemma clocks_from_nth:
  "clocks_from c inps \<Longrightarrow> k < length inps \<Longrightarrow>
    c \<le> ready_clk (inps ! k) \<and> ready_clk (inps ! k) \<le> exec_clk (inps ! k)
    \<and> \<bar>ready_clk (inps ! k)\<bar> \<le> 2 ^ 63 \<and> \<bar>exec_clk (inps ! k)\<bar> \<le> 2 ^ 63"
proof (induction inps arbitrary: c k)
  case (Cons inp inps)
  then show ?case
    by (cases k) (fastforce simp: abs_le_iff)+
qed simp

lemma clocks_from_take: "clocks_from c inps \<Longrightarrow> clocks_from c (take k inps)"
proof (induction inps arbitrary: c k)
  case (Cons inp inps)
  then show ?case by (cases k) auto
qed simp

lemma timer_after_append: "timer_after (xs @ ys) t = timer_after ys (timer_after xs t)"
  by (induction xs arbitrary: t) auto

lemma firings_append: "firings (xs @ ys) t = firings xs t @ firings ys (timer_after xs t)"
  by (induction xs arbitrary: t) (auto split: prod.splits)

lemma clocks_from_append:
  assumes "clocks_from c (xs @ ys)"
  shows "clocks_from c xs" and "clocks_from (if xs = [] then c else exec_clk (last xs)) ys"
  using assms by (induction xs arbitrary: c) (auto split: if_splits)

text \<open>After a pass the last execution is not in the future, and less than a period and a pass ago.\<close>

lemma running_pass:
  assumes "running t L" and "\<bar>a\<bar> \<le> 2 ^ 63" and "\<bar>b\<bar> \<le> 2 ^ 63" and "a \<le> b" and "L \<le> seconds a"
  shows "\<exists>L'. running (snd (timer_execute a b t)) L' \<and> L \<le> L' \<and> L' \<le> seconds b
    \<and> period_ms (snd (timer_execute a b t)) = period_ms t
    \<and> (fst (timer_execute a b t) \<longrightarrow> L + period_s t \<le> L') \<and> (\<not> fst (timer_execute a b t) \<longrightarrow> L' = L)"
proof (rule execute_cases [OF assms(1-4)])
  assume "timer_execute a b t = (False, t)"
  then show ?thesis
    using assms(1,5) seconds_mono [OF assms(4)] by (intro exI [of _ L]) auto
next
  fix L' t' assume "timer_execute a b t = (True, t')" "running t' L'" "period_ms t' = period_ms t"
    "L + period_s t \<le> L'" "L' \<le> seconds b"
  moreover have "0 \<le> real (unat (period_ms t)) / 1000"
    by (intro divide_nonneg_nonneg) linarith+
  then have "0 \<le> period_s t"
    by (simp only: period_s_def)
  ultimately show ?thesis
    by (intro exI [of _ L']) auto
qed

lemma running_after:
  assumes "running t L" and "clocks_from c inps" and "L \<le> seconds c"
  shows "\<exists>L'. running (timer_after inps t) L' \<and> L + real (count_list (firings inps t) True) * period_s t \<le> L'
    \<and> L' \<le> seconds (if inps = [] then c else exec_clk (last inps))
    \<and> period_ms (timer_after inps t) = period_ms t \<and> (True \<notin> set (firings inps t) \<longrightarrow> L' = L)"
  using assms
proof (induction inps arbitrary: t L c)
  case Nil
  then show ?case by auto
next
  case (Cons inp inps)
  have clk: "\<bar>ready_clk inp\<bar> \<le> 2 ^ 63" "\<bar>exec_clk inp\<bar> \<le> 2 ^ 63" "ready_clk inp \<le> exec_clk inp" "c \<le> ready_clk inp"
    "clocks_from (exec_clk inp) inps"
    using Cons.prems(2) by (auto simp: abs_le_iff)
  obtain fired t1 where x: "timer_execute (ready_clk inp) (exec_clk inp) t = (fired, t1)"
    by fastforce
  have "L \<le> seconds (ready_clk inp)"
    using Cons.prems(3) seconds_mono [OF clk(4)] by simp
  then obtain L1 where L1: "running t1 L1" "L \<le> L1" "L1 \<le> seconds (exec_clk inp)" "period_ms t1 = period_ms t"
    "fired \<longrightarrow> L + period_s t \<le> L1" "\<not> fired \<longrightarrow> L1 = L"
    using running_pass [OF Cons.prems(1) clk(1-3)] x by auto
  obtain L2 where "running (timer_after inps t1) L2"
    "L1 + real (count_list (firings inps t1) True) * period_s t1 \<le> L2"
    "L2 \<le> seconds (if inps = [] then exec_clk inp else exec_clk (last inps))"
    "period_ms (timer_after inps t1) = period_ms t1" "True \<notin> set (firings inps t1) \<longrightarrow> L2 = L1"
    using Cons.IH [OF L1(1) clk(5) L1(3)] by blast
  then show ?case
    using L1(2,4-6) by (intro exI [of _ L2]) (auto simp: x period_s_def algebra_simps add_divide_distrib)
qed

section \<open>Parameters\<close>

text \<open>A parameter reads back what was declared or set, and a value of another type changes nothing.\<close>

lemma declare_cases:
  "declare_parameter name v ps = (case ps name of None \<Rightarrow> (v, ps(name \<mapsto> v))
    | Some old \<Rightarrow> (if param_index old = param_index v then old else v, ps))"
  by (cases "ps name") (simp_all add: declare_parameter_def)

lemma declared_reads_back:
  assumes "ps name = None" and "param_index zero = param_index v"
  shows "get_parameter name zero (snd (declare_parameter name v ps)) = v"
    and "has_parameter name (snd (declare_parameter name v ps))"
  using assms(1) assms(2) [symmetric] by (simp_all add: declare_cases get_parameter_def has_parameter_def)

lemma declaring_keeps: "has_parameter name ps \<Longrightarrow> snd (declare_parameter name v ps) = ps"
  by (cases "ps name") (simp_all add: declare_cases has_parameter_def)

lemma set_reads_back:
  assumes "set_parameter name v ps = (ok, ps')" and "param_index v = param_index zero"
  shows "if ok then get_parameter name zero ps' = v else ps' = ps"
proof (cases "ps name")
  case (Some old)
  then show ?thesis
    using assms by (cases "param_index old = param_index v") (auto simp: set_parameter_def get_parameter_def)
qed (use assms in \<open>simp add: set_parameter_def\<close>)

end
