(* ===== verification/Node_Timer_Properties.thy ===== *)
theory Node_Timer_Properties
  imports
    Node_Timer Controller_Sample
begin

text \<open>
  How often the controller runs. The thread of the node turns clock readings and samples into the
  events the controller handles; the bounds on the timer are bounds on its published requests.
\<close>

section \<open>The thread drives the controller\<close>

text \<open>A pass the controller's node makes: samples are no timer events, driving commands come in
  \<open>VP_CONTROL\<close> only, and the timer's event is a tick.\<close>

definition controller_input :: "node_config \<Rightarrow> ('lat, 'lon) node_event spin_input \<Rightarrow> bool" where
  "controller_input cfg inp \<longleftrightarrow>
     (\<forall>b ev. Taken b ev \<in> set (answers inp) \<longrightarrow>
        (\<forall>fol e. ev \<noteq> Tick fol e) \<and> (node_mode cfg = VP_CONTROL \<or> (\<forall>n c s m. ev \<noteq> Driving_Command n c s m)))
     \<and> (\<exists>fol e. tick_event inp = Tick fol e)"

lemma node_run_append: "node_run cfg st1 tr2 st2 \<Longrightarrow> node_run cfg st0 tr1 st1 \<Longrightarrow> node_run cfg st0 (tr1 @ tr2) st2"
  by (induction rule: node_run.induct) (auto simp flip: append_assoc intro: node_run.run_snoc)

lemma node_run_single: "node_step cfg st ev st' \<Longrightarrow> node_run cfg st [ev] st'"
  using node_run.run_snoc [OF node_run.run_nil] by fastforce

lemma ticks_append: "ticks (tr1 @ tr2) = ticks tr1 + ticks tr2"
  by (simp add: ticks_def)

lemma subscriptions_run:
  assumes "execute_subscriptions (node_handle cfg) as st = (st', tr)"
    and "\<forall>b ev. Taken b ev \<in> set as \<longrightarrow>
        (\<forall>fol e. ev \<noteq> Tick fol e) \<and> (node_mode cfg = VP_CONTROL \<or> (\<forall>n c s m. ev \<noteq> Driving_Command n c s m))"
  shows "node_run cfg st tr st' \<and> ticks tr = 0"
  using assms
proof (induction as arbitrary: st tr)
  case (Cons a as)
  obtain st1 tr1 where p: "process_next_message (node_handle cfg) a st = (st1, tr1)" by fastforce
  obtain tr2 where q: "execute_subscriptions (node_handle cfg) as st1 = (st', tr2)" "tr = tr1 @ tr2"
    using Cons.prems(1) p by (auto split: prod.splits)
  have "node_run cfg st tr1 st1 \<and> ticks tr1 = 0"
  proof (cases a)
    case (Taken b ev)
    show ?thesis
    proof (cases b)
      case True
      obtain outs where "node_handle cfg ev st = (st1, outs)" "tr1 = [(ev, outs)]"
        using p Taken True by (auto split: prod.splits)
      moreover have "(\<forall>fol e. ev \<noteq> Tick fol e) \<and> (node_mode cfg = VP_CONTROL \<or> (\<forall>n c s m. ev \<noteq> Driving_Command n c s m))"
        using Cons.prems(2) Taken by (metis list.set_intros(1))
      ultimately show ?thesis
        by (auto simp: ticks_def simp del: node_handle.simps intro!: node_run_single node_step.callback)
    qed (use p Taken in \<open>auto simp: ticks_def intro: node_run.run_nil\<close>)
  qed (use p in \<open>auto simp: ticks_def intro: node_run.run_nil\<close>)
  then show ?case
    using Cons.IH [OF q(1)] Cons.prems(2) q(2) node_run_append by (auto simp: ticks_append)
qed (auto simp: ticks_def intro: node_run.run_nil)

lemma spin_runs_controller:
  assumes "spin (node_handle cfg) inps t st = (t', st', tr)" and "\<forall>inp \<in> set inps. controller_input cfg inp"
  shows "node_run cfg st tr st' \<and> ticks tr = count_list (firings inps t) True \<and> t' = timer_after inps t"
  using assms
proof (induction inps arbitrary: t st tr)
  case (Cons inp inps)
  have inp: "controller_input cfg inp"
    using Cons.prems(2) by simp
  obtain st1 tr1 where sub: "execute_subscriptions (node_handle cfg) (answers inp) st = (st1, tr1)" by fastforce
  obtain fired t1 where x: "timer_execute (ready_clk inp) (exec_clk inp) t = (fired, t1)" by fastforce
  obtain fol e where tick: "tick_event inp = Tick fol e"
    using inp by (auto simp: controller_input_def)
  have run1: "node_run cfg st tr1 st1 \<and> ticks tr1 = 0"
    using subscriptions_run [OF sub] inp by (simp add: controller_input_def)
  obtain st2 tr2 where it: "spin_iteration (node_handle cfg) inp t st = (t1, st2, tr1 @ tr2)"
    "node_run cfg st1 tr2 st2" "ticks tr2 = (if fired then 1 else 0)"
  proof (cases fired)
    case True
    obtain st2 outs where "node_handle cfg (Tick fol e) st1 = (st2, outs)" by fastforce
    moreover from this have "node_run cfg st1 [(Tick fol e, outs)] st2"
      by (intro node_run_single node_step.callback) simp_all
    ultimately show thesis
      using that [of st2 "[(Tick fol e, outs)]"] sub x tick True
      by (simp add: spin_iteration_def ticks_def)
  next
    case False
    then show thesis
      using that [of st1 "[]"] sub x by (auto simp: spin_iteration_def ticks_def intro: node_run.run_nil)
  qed
  obtain tr3 where rest: "spin (node_handle cfg) inps t1 st2 = (t', st', tr3)" "tr = (tr1 @ tr2) @ tr3"
    using Cons.prems(1) it(1) by (auto split: prod.splits)
  have "node_run cfg st2 tr3 st' \<and> ticks tr3 = count_list (firings inps t1) True \<and> t' = timer_after inps t1"
    using Cons.IH [OF rest(1)] Cons.prems(2) by simp
  then have "node_run cfg st ((tr1 @ tr2) @ tr3) st'"
    using run1 it(2) by (blast intro: node_run_append)
  then show ?case
    using run1 it(3) rest(2) x \<open>node_run cfg st2 tr3 st' \<and> _\<close> by (simp add: ticks_append)
qed (auto simp: ticks_def intro: node_run.run_nil)

lemma requests_per_tick:
  assumes "node_run cfg st tr st'"
  shows "length (requests tr) = ticks tr"
  using assms
proof (induction rule: node_run.induct)
  case (run_snoc st tr st' evo st'')
  obtain ev outs where evo: "evo = (ev, outs)" by (cases evo)
  have handle: "node_handle cfg ev st' = (st'', outs)"
    using run_snoc.hyps(2) by (simp add: evo node_step_iff)
  show ?case
  proof (cases "\<exists>fol e. ev = Tick fol e")
    case True
    then obtain fol e where ev: "ev = Tick fol e" by blast
    then obtain r where "approved_in outs = [r]"
      using tick_one [where cfg = cfg and fol = fol and e = e and st = st'] handle by auto
    then show ?thesis
      using run_snoc.IH by (simp add: evo ev requests_def ticks_def)
  next
    case False
    then have "outs = []"
      using callbacks_quiet [OF handle] by blast
    then show ?thesis
      using run_snoc.IH False by (simp add: evo requests_def ticks_def)
  qed
qed (simp add: requests_def ticks_def)

text \<open>A timer that was just started.\<close>

lemma started_running:
  assumes "timer_start period True c Timer = (True, t)" and "period \<noteq> 0" and "\<bar>c\<bar> \<le> 2 ^ 63"
  shows "running t (seconds c)" and "period_ms t = period"
proof -
  have t: "t = \<lparr>timer_active = True, period_ms = period, last_execution_time = Clock_now c, user_callback = True\<rparr>"
    using assms(1) by (simp add: timer_start_def Timer_def)
  have "\<bar>seconds c\<bar> \<le> 10 ^ 12"
    using seconds_bound [OF assms(3)] by simp
  then show "running t (seconds c)" "period_ms t = period"
    using assms(2) by (simp_all add: t running_def Clock_now_seconds [OF assms(3)])
qed

section \<open>Properties\<close>

text \<open>C8. Not too often. From the start of the timer on, while the clock does not go back, the controller publishes
  at most one request per period: the number of requests times the period is at most the time that passed,
  whatever the pauses between the passes of the thread were.\<close>

theorem requests_at_most_one_per_period:
  assumes "timer_start period True c Timer = (True, t)" and "period \<noteq> 0" and "\<bar>c\<bar> \<le> 2 ^ 63"
    and "inps \<noteq> []" and "clocks_from c inps" and "\<forall>inp \<in> set inps. controller_input cfg inp"
    and "spin (node_handle cfg) inps t st = (t', st', tr)"
  shows "real (length (requests tr)) * (real (unat period) / 1000)
    \<le> (of_int (exec_clk (last inps)) - of_int c) / 1000000000"
proof -
  note start = started_running [OF assms(1-3)]
  obtain L' where "seconds c + real (count_list (firings inps t) True) * period_s t \<le> L'"
    "L' \<le> seconds (exec_clk (last inps))"
    using running_after [OF start(1) assms(5) order_refl] assms(4) by auto
  moreover have "length (requests tr) = count_list (firings inps t) True"
    using spin_runs_controller [OF assms(7,6)] requests_per_tick by metis
  ultimately have "real (length (requests tr)) * period_s t \<le> seconds (exec_clk (last inps)) - seconds c"
    by simp
  then show ?thesis
    by (simp only: period_s_def start(2) seconds_def diff_divide_distrib)
qed




section \<open>The properties on a run\<close>

text \<open>A node with a period of 150 ms: a pass after 50 ms, one after 400 ms and one at once.\<close>

definition sample_pass :: "int \<Rightarrow> (unit, unit) node_event spin_input" where
  "sample_pass ms = \<lparr>answers = [Taken True (Heartbeat second), Take_none, Take_error (- 1), Taken False (Heartbeat second)],
     ready_clk = second + ms * 1000000, exec_clk = second + ms * 1000000 + 10,
     tick_event = Tick sample_follower (sample_tick 0)\<rparr>"

definition sample_timer :: timer where
  "sample_timer = snd (timer_start 150 True second Timer)"

lemma sample_timer_start: "timer_start 150 True second Timer = (True, sample_timer)"
  by (simp add: sample_timer_def timer_start_def Timer_def)

lemma sample_pass_input: "controller_input (sample_cfg SI_CONTROL_MODE) (sample_pass ms)"
  by (simp add: controller_input_def sample_pass_def)

lemma sample_clocks:
  "clocks_from second [sample_pass 50, sample_pass 400, sample_pass 401]"
  by (simp add: sample_pass_def second_def)

theorem requests_at_most_one_per_period_witness:
  "\<exists>t' st' tr. spin (node_handle (sample_cfg SI_CONTROL_MODE)) [sample_pass 50, sample_pass 400, sample_pass 401]
      sample_timer boot_state = (t', st', tr)
    \<and> real (length (requests tr)) * (real (unat (150 :: u32)) / 1000)
      \<le> (of_int (exec_clk (sample_pass 401)) - of_int second) / 1000000000"
proof -
  obtain t' st' tr where run: "spin (node_handle (sample_cfg SI_CONTROL_MODE)) [sample_pass 50, sample_pass 400, sample_pass 401]
      sample_timer boot_state = (t', st', tr)"
    by (rule prod_cases3)
  have "\<bar>second\<bar> \<le> 2 ^ 63"
    by (simp add: second_def)
  from requests_at_most_one_per_period [OF sample_timer_start _ this _ sample_clocks _ run] run show ?thesis
    by (auto simp: sample_pass_input)
qed


end
