(* ===== verification/Dds_Setup.thy ===== *)
theory Dds_Setup
  imports
    Clock_Time
begin

text \<open>
  How the node names its topics, sets CycloneDDS up and writes to it (\<open>common/dds/helper.hpp\<close>,
  \<open>config.hpp\<close>, \<open>publisher.hpp\<close> and the constructor of \<open>DDS\<close>), and the throttle of the logger
  (\<open>common/logger/logger.hpp\<close>). What CycloneDDS answers is an argument; the settings of the build
  are the fields of \<open>dds_build\<close>.
\<close>

section \<open>Names\<close>

definition MAX_TYPENAME_LENGTH :: nat where
  "MAX_TYPENAME_LENGTH = 512"

definition transformTopicName :: "string \<Rightarrow> string" where
  "transformTopicName topic_name = ''rt'' @ topic_name"

text \<open>The scan for the last \<open>::\<close>; -1 when there is none.\<close>

function last_colons :: "string \<Rightarrow> nat \<Rightarrow> int \<Rightarrow> int" where
  "last_colons s i lastColonPos =
     (if i < length s \<and> i < MAX_TYPENAME_LENGTH - 10
      then last_colons s (i + 1)
             (if s ! i = CHR '':'' \<and> i + 1 < length s \<and> s ! (i + 1) = CHR '':'' then int i else lastColonPos)
      else lastColonPos)"
  by pat_completeness auto
termination by (relation "measure (\<lambda>(s, i, l). length s - i)") auto

text \<open>The copy into the buffer, which holds \<open>out\<close> so far.\<close>

function copy_typename :: "string \<Rightarrow> int \<Rightarrow> nat \<Rightarrow> string \<Rightarrow> string" where
  "copy_typename s lastColonPos i out =
     (if i < length s \<and> length out < MAX_TYPENAME_LENGTH - 2
      then if int i = lastColonPos
           then if MAX_TYPENAME_LENGTH \<le> length out + 8 then out
                else copy_typename s lastColonPos (i + 2) (out @ ''::dds_::'')
           else if MAX_TYPENAME_LENGTH \<le> length out + 1 then out
                else copy_typename s lastColonPos (i + 1) (out @ [s ! i])
      else out)"
  by pat_completeness auto
termination by (relation "measure (\<lambda>(s, l, i, out). length s - i)") auto

declare last_colons.simps [simp del] copy_typename.simps [simp del]

definition transform_typename :: "string \<Rightarrow> string" where
  "transform_typename s =
     (let out = copy_typename s (last_colons s 0 (- 1)) 0 []
      in if length out < MAX_TYPENAME_LENGTH - 1 then out @ ''_'' else out)"

record 'f topic_descriptor =
  m_typename :: string
  other_fields :: 'f

definition transformTopicDescriptor :: "'f topic_descriptor \<Rightarrow> 'f topic_descriptor" where
  "transformTopicDescriptor d = d\<lparr>m_typename := transform_typename (m_typename d)\<rparr>"

section \<open>Selection of the interface\<close>

definition is_digit :: "char \<Rightarrow> bool" where
  "is_digit c \<longleftrightarrow> (of_char (CHR ''0'') :: nat) \<le> of_char c \<and> (of_char c :: nat) \<le> of_char (CHR ''9'')"

text \<open>The loop of \<open>dds_selector_is_ipv4\<close> over the characters and the final NUL.\<close>

fun ipv4_loop :: "string \<Rightarrow> nat \<Rightarrow> nat \<Rightarrow> nat \<Rightarrow> bool" where
  "ipv4_loop [] groups digits octet = (if digits = 0 then False else groups + 1 = 4)"
| "ipv4_loop (c # cs) groups digits octet =
     (if is_digit c then
        let octet = octet * 10 + (of_char c - of_char (CHR ''0''))
        in if 3 < digits + 1 \<or> 255 < octet then False else ipv4_loop cs groups (digits + 1) octet
      else if c = CHR ''.'' then
        if digits = 0 then False else ipv4_loop cs (groups + 1) 0 0
      else False)"

definition dds_selector_is_ipv4 :: "string \<Rightarrow> bool" where
  "dds_selector_is_ipv4 s = ipv4_loop s 0 0 0"

datatype multicast = Multicast_default | DDSI_AMC_FALSE | DDSI_AMC_SPDP

datatype dds_interface = By_address string | By_name string

text \<open>The settings of the build; \<open>None\<close> is a macro that is not defined.\<close>

record dds_build =
  CONFIG_DDS_NETWORK_INTERFACE :: string
  PLATFORM_FREERTOS_POSIX :: bool
  CONFIG_DDS_MAX_MSG_SIZE :: "u32 option"
  CONFIG_DDS_MAX_REXMIT_MSG_SIZE :: "u32 option"
  CONFIG_DDS_FRAGMENT_SIZE :: "u32 option"
  CONFIG_DDS_DISABLE_MULTICAST :: bool
  CONFIG_DDS_LOG_LEVEL :: nat
  CONFIG_NET_CONFIG_PEER_IPV4_ADDR :: "string option"

text \<open>The fields of \<open>ddsi_config\<close> that are set, with what \<open>tracemask\<close> selects.\<close>

datatype trace = Trace_none | Trace_config | Trace_all | Trace_discovery

record ddsi_config =
  network_interfaces :: "dds_interface option"
  retransmit_merging_always :: bool
  rbuf_size :: u32
  rmsg_chunk_size :: u32
  max_msg_size :: u32
  max_rexmit_msg_size :: u32
  fragment_size :: u32
  participantIndex_auto :: bool
  maxAutoParticipantIndex :: int
  allowMulticast :: multicast
  tracefile :: string
  tracemask :: trace
  peers :: "string option"

text \<open>\<open>env\<close> is \<open>SI_DDS_INTERFACE\<close>, \<open>cfg\<close> what \<open>ddsi_config_init_default\<close> gives.\<close>

definition selected_interface :: "dds_build \<Rightarrow> string option \<Rightarrow> string" where
  "selected_interface b env =
     (case (PLATFORM_FREERTOS_POSIX b, env) of
        (True, Some s) \<Rightarrow> if s = ''auto'' then [] else s
      | _ \<Rightarrow> CONFIG_DDS_NETWORK_INTERFACE b)"

definition given :: "'a option \<Rightarrow> 'a \<Rightarrow> 'a" where
  "given setting other = (case setting of None \<Rightarrow> other | Some x \<Rightarrow> x)"

definition init_config :: "dds_build \<Rightarrow> string option \<Rightarrow> ddsi_config \<Rightarrow> ddsi_config" where
  "init_config b env cfg =
     (let iface = selected_interface b env
      in cfg\<lparr>network_interfaces :=
               (if iface = [] then network_interfaces cfg
                else if dds_selector_is_ipv4 iface then Some (By_address iface) else Some (By_name iface)),
             retransmit_merging_always := True,
             rbuf_size := 8 * 1024,
             rmsg_chunk_size := 2 * 1024,
             max_msg_size := given (CONFIG_DDS_MAX_MSG_SIZE b) 1400,
             max_rexmit_msg_size := given (CONFIG_DDS_MAX_REXMIT_MSG_SIZE b) (max_rexmit_msg_size cfg),
             fragment_size := given (CONFIG_DDS_FRAGMENT_SIZE b) (fragment_size cfg),
             participantIndex_auto := True,
             maxAutoParticipantIndex := 60,
             allowMulticast := (if CONFIG_DDS_DISABLE_MULTICAST b then DDSI_AMC_FALSE else DDSI_AMC_SPDP),
             tracefile := ''stderr'',
             tracemask := (if CONFIG_DDS_LOG_LEVEL b = 3 then Trace_discovery
                           else if CONFIG_DDS_LOG_LEVEL b = 2 then Trace_all
                           else if CONFIG_DDS_LOG_LEVEL b = 1 then Trace_config
                           else Trace_none),
             peers := (case CONFIG_NET_CONFIG_PEER_IPV4_ADDR b of
                         None \<Rightarrow> peers cfg
                       | Some a \<Rightarrow> if 0 < length a then Some a else peers cfg)\<rparr>)"

section \<open>Participant and writers\<close>

text \<open>The constructor of \<open>DDS\<close>: the participant, or \<open>None\<close> where the process exits.\<close>

definition DDS_construct :: "int \<Rightarrow> int \<Rightarrow> int \<Rightarrow> int option" where
  "DDS_construct precondition_not_met domain participant =
     (if domain < 0 \<and> domain \<noteq> precondition_not_met then None
      else if participant < 0 then None
      else Some participant)"

text \<open>The constructor of \<open>Publisher\<close>: the writer, or \<open>None\<close> where the process exits.\<close>

definition Publisher :: "int \<Rightarrow> int \<Rightarrow> int option" where
  "Publisher topic writer =
     (if topic < 0 then None else if writer < 0 then None else Some writer)"

text \<open>\<open>publish\<close>, for the answer of \<open>dds_write\<close>.\<close>

definition publish :: "int \<Rightarrow> bool" where
  "publish rc = (if rc < 0 then False else True)"

section \<open>Throttled log lines\<close>

text \<open>\<open>log_info_throttle_\<close> and \<open>log_warn_throttle_\<close>, each with its own map, at a location of the code:
  whether the line is printed, and the times of the last lines.\<close>

type_synonym location = "string \<times> int"

definition log_throttle ::
  "dbl \<Rightarrow> location \<Rightarrow> int \<Rightarrow> (location \<rightharpoonup> int) \<Rightarrow> bool \<times> (location \<rightharpoonup> int)" where
  "log_throttle interval_seconds location_key now last_print_times =
     (case last_print_times location_key of
        None \<Rightarrow> (True, last_print_times(location_key \<mapsto> now))
      | Some t \<Rightarrow>
          if interval_seconds \<le> seconds_of_ns (now - t) then (True, last_print_times(location_key \<mapsto> now))
          else (False, last_print_times))"

fun log_run :: "dbl \<Rightarrow> (location \<times> int) list \<Rightarrow> (location \<rightharpoonup> int) \<Rightarrow> (location \<times> int) list" where
  "log_run interval [] printed_at = []"
| "log_run interval ((l, now) # calls) printed_at =
     (case log_throttle interval l now printed_at of
        (printed, printed_at) \<Rightarrow>
          if printed then (l, now) # log_run interval calls printed_at else log_run interval calls printed_at)"

text \<open>
  The names the node gives its types, the choice between an interface's name and its address, and the
  distance of throttled log lines.
\<close>

section \<open>Type names\<close>

text \<open>A \<open>::\<close> somewhere in the string.\<close>

fun has_colons :: "string \<Rightarrow> bool" where
  "has_colons (a # b # s) \<longleftrightarrow> a = CHR '':'' \<and> b = CHR '':'' \<or> has_colons (b # s)"
| "has_colons s \<longleftrightarrow> False"

lemma has_colons_nth:
  "has_colons s \<longleftrightarrow> (\<exists>i. i + 1 < length s \<and> s ! i = CHR '':'' \<and> s ! (i + 1) = CHR '':'')"
proof (induction s rule: has_colons.induct)
  case (1 a b s)
  show ?case
  proof
    assume "has_colons (a # b # s)"
    then consider "a = CHR '':'' \<and> b = CHR '':''" | "has_colons (b # s)"
      unfolding has_colons.simps by blast
    then show "\<exists>i. i + 1 < length (a # b # s) \<and> (a # b # s) ! i = CHR '':'' \<and> (a # b # s) ! (i + 1) = CHR '':''"
    proof cases
      case 1
      then show ?thesis by (intro exI [of _ 0]) simp
    next
      case 2
      then obtain i where "i + 1 < length (b # s) \<and> (b # s) ! i = CHR '':'' \<and> (b # s) ! (i + 1) = CHR '':''"
        using 1 by blast
      then show ?thesis by (intro exI [of _ "Suc i"]) simp
    qed
  next
    assume "\<exists>i. i + 1 < length (a # b # s) \<and> (a # b # s) ! i = CHR '':'' \<and> (a # b # s) ! (i + 1) = CHR '':''"
    then obtain i where i: "i + 1 < length (a # b # s)" "(a # b # s) ! i = CHR '':''" "(a # b # s) ! (i + 1) = CHR '':''"
      by blast
    show "has_colons (a # b # s)"
    proof (cases i)
      case (Suc k)
      then have "has_colons (b # s)"
        using i by (subst 1) (auto intro: exI [of _ k])
      then show ?thesis by simp
    qed (use i in simp)
  qed
qed auto

lemma last_colons_none:
  assumes "\<And>j. i \<le> j \<Longrightarrow> j + 1 < length s \<Longrightarrow> \<not> (s ! j = CHR '':'' \<and> s ! (j + 1) = CHR '':'')"
  shows "last_colons s i l = l"
  using assms
proof (induction s i l rule: last_colons.induct)
  case (1 s i l)
  show ?case
    by (subst last_colons.simps) (use 1 in auto)
qed

lemma last_colons_at:
  assumes "p + 1 < length s" and "p < MAX_TYPENAME_LENGTH - 10" and "s ! p = CHR '':''" and "s ! (p + 1) = CHR '':''"
    and "\<And>j. p < j \<Longrightarrow> j + 1 < length s \<Longrightarrow> \<not> (s ! j = CHR '':'' \<and> s ! (j + 1) = CHR '':'')" and "i \<le> p"
  shows "last_colons s i l = int p"
  using assms
proof (induction s i l rule: last_colons.induct)
  case (1 s i l)
  show ?case
  proof (cases "i = p")
    case True
    then show ?thesis
      using 1(2-6) last_colons_none [of "p + 1" s "int p"] by (subst last_colons.simps) auto
  next
    case False
    then show ?thesis
      using 1 by (subst last_colons.simps) auto
  qed
qed

lemma copy_typename_plain:
  assumes "i \<le> k" and "k \<le> length s" and "length out + (k - i) \<le> MAX_TYPENAME_LENGTH - 2"
    and "\<And>j. i \<le> j \<Longrightarrow> j < k \<Longrightarrow> int j \<noteq> l"
  shows "copy_typename s l i out = copy_typename s l k (out @ take (k - i) (drop i s))"
  using assms
proof (induction "k - i" arbitrary: i out)
  case (Suc d)
  then have "i < k" "i < length s" by auto
  then have "copy_typename s l i out = copy_typename s l (i + 1) (out @ [s ! i])"
    using Suc.prems by (subst copy_typename.simps) (auto simp: MAX_TYPENAME_LENGTH_def)
  also have "\<dots> = copy_typename s l k ((out @ [s ! i]) @ take (k - (i + 1)) (drop (i + 1) s))"
    using Suc.prems Suc.hyps(2) \<open>i < k\<close> by (intro Suc.hyps(1)) auto
  also have "(out @ [s ! i]) @ take (k - (i + 1)) (drop (i + 1) s) = out @ take (k - i) (drop i s)"
    using \<open>i < k\<close> Cons_nth_drop_Suc [OF \<open>i < length s\<close>] 
      by (metis Suc_diff_Suc Suc_eq_plus1 append.assoc append_Cons append_Nil take_Suc_Cons)
  finally show ?case by simp
qed simp

lemma copy_typename_end: "length s \<le> i \<Longrightarrow> copy_typename s l i out = out"
  by (subst copy_typename.simps) simp

lemma copy_typename_length: "length out < MAX_TYPENAME_LENGTH \<Longrightarrow> length (copy_typename s l i out) < MAX_TYPENAME_LENGTH"
proof (induction s l i out rule: copy_typename.induct)
  case (1 s l i out)
  show ?case
    by (subst copy_typename.simps) (use 1 in \<open>auto simp: MAX_TYPENAME_LENGTH_def\<close>)
qed

text \<open>The buffer of the type name is never overrun: the transformed name and its final NUL fit into it,
  however long the name is.\<close>

theorem typename_fits_buffer: "length (m_typename (transformTopicDescriptor d)) + 1 \<le> MAX_TYPENAME_LENGTH"
proof -
  have "length (copy_typename s l i []) < MAX_TYPENAME_LENGTH" for s l i
    by (rule copy_typename_length) (simp add: MAX_TYPENAME_LENGTH_def)
  then show ?thesis
    by (auto simp: transformTopicDescriptor_def transform_typename_def Let_def Suc_le_eq)
qed

text \<open>The name of a type becomes the one ROS 2 uses: \<open>dds_::\<close> goes before its last component and an underscore
  behind it. A name of up to 502 characters is never cut.\<close>

theorem ros_type_name:
  assumes "\<not> has_colons (CHR '':'' # name)" and "length pkg + 2 + length name \<le> 502"
  shows "transform_typename (pkg @ ''::'' @ name) = pkg @ ''::dds_::'' @ name @ ''_''"
proof -
  let ?s = "pkg @ ''::'' @ name" and ?p = "length pkg"
  have "\<not> (?s ! j = CHR '':'' \<and> ?s ! (j + 1) = CHR '':'')" if "?p < j" "j + 1 < length ?s" for j
  proof -
    have "\<not> ((CHR '':'' # name) ! (j - ?p - 1) = CHR '':'' \<and> (CHR '':'' # name) ! (j - ?p - 1 + 1) = CHR '':'')"
      using assms(1) that unfolding has_colons_nth by (auto dest!: spec [of _ "j - ?p - 1"])
    then show ?thesis
      using that by (auto simp: nth_append nth_Cons' Suc_diff_Suc)
  qed
  then have last: "last_colons ?s 0 (- 1) = int ?p"
    using assms(2) by (intro last_colons_at) (auto simp: MAX_TYPENAME_LENGTH_def nth_append)
  have "copy_typename ?s (int ?p) 0 [] = copy_typename ?s (int ?p) ?p pkg"
    using assms(2) copy_typename_plain [of 0 ?p ?s "[]" "int ?p"] by (simp add: MAX_TYPENAME_LENGTH_def)
  also have "\<dots> = copy_typename ?s (int ?p) (?p + 2) (pkg @ ''::dds_::'')"
    using assms(2) by (subst copy_typename.simps) (simp add: MAX_TYPENAME_LENGTH_def)
  also have "\<dots> = copy_typename ?s (int ?p) (length ?s) ((pkg @ ''::dds_::'') @ name)"
    using assms(2) copy_typename_plain [of "?p + 2" "length ?s" ?s "pkg @ ''::dds_::''" "int ?p"]
    by (simp add: MAX_TYPENAME_LENGTH_def)
  also have "\<dots> = (pkg @ ''::dds_::'') @ name"
    by (rule copy_typename_end) simp
  finally show ?thesis
    using assms(2) by (simp only: transform_typename_def last Let_def) (simp add: MAX_TYPENAME_LENGTH_def)
qed

theorem ros_type_name_witness:
  "transform_typename ''geometry_msgs::msg::PoseStamped'' = ''geometry_msgs::msg::dds_::PoseStamped_''"
  using ros_type_name [of "''PoseStamped''" "''geometry_msgs::msg''"] by simp

section \<open>Address or name\<close>

fun split_dots :: "string \<Rightarrow> string list" where
  "split_dots [] = [[]]"
| "split_dots (c # cs) =
     (if c = CHR ''.'' then [] # split_dots cs
      else (c # hd (split_dots cs)) # tl (split_dots cs))"

definition digits_value :: "nat \<Rightarrow> string \<Rightarrow> nat" where
  "digits_value start s = foldl (\<lambda>n c. n * 10 + (of_char c - of_char (CHR ''0''))) start s"

definition octet_string :: "string \<Rightarrow> bool" where
  "octet_string s \<longleftrightarrow> list_all is_digit s \<and> length s \<in> {1..3} \<and> digits_value 0 s \<le> 255"

lemma split_dots_ne [simp]: "split_dots s \<noteq> []"
  by (cases s) auto

lemma digits_value_mono: "start \<le> digits_value start s"
proof (induction s arbitrary: start)
  case (Cons c s)
  have "start \<le> start * 10 + (of_char c - of_char (CHR ''0''))" by simp
  then show ?case
    using Cons [of "start * 10 + (of_char c - of_char (CHR ''0''))"] by (simp add: digits_value_def)
qed (simp add: digits_value_def)

lemma dot_no_digit: "\<not> is_digit (CHR ''.'')"
  by (simp add: is_digit_def)

lemma ipv4_loop_iff:
  assumes "digits \<le> 3" and "octet \<le> 255"
  shows "ipv4_loop s groups digits octet \<longleftrightarrow>
    groups + length (split_dots s) = 4 \<and> list_all octet_string (tl (split_dots s))
    \<and> list_all is_digit (hd (split_dots s)) \<and> digits + length (hd (split_dots s)) \<in> {1..3}
    \<and> digits_value octet (hd (split_dots s)) \<le> 255"
  using assms
proof (induction s arbitrary: groups digits octet)
  case Nil
  then show ?case by (auto simp: digits_value_def)
next
  case (Cons c s)
  let ?o = "octet * 10 + (of_char c - of_char (CHR ''0''))"
  have split: "list_all octet_string (split_dots s) \<longleftrightarrow>
      octet_string (hd (split_dots s)) \<and> list_all octet_string (tl (split_dots s))"
    by (cases "split_dots s") auto
  show ?case
  proof (cases "is_digit c")
    case True
    then have "c \<noteq> CHR ''.''"
      using dot_no_digit by blast
    moreover have "digits_value octet (c # x) = digits_value ?o x" for x
      by (simp add: digits_value_def)
    ultimately show ?thesis
      using True Cons.IH [of "digits + 1" ?o groups] digits_value_mono [of ?o "hd (split_dots s)"]
      by (auto simp: Let_def Suc_le_eq)
  next
    case False
    show ?thesis
    proof (cases "c = CHR ''.''")
      case True
      have "ipv4_loop s (groups + 1) 0 0 \<longleftrightarrow> groups + 1 + length (split_dots s) = 4 \<and> list_all octet_string (split_dots s)"
        unfolding split using Cons.IH [of 0 0 "groups + 1"] octet_string_def [of "hd (split_dots s)"] by auto
      then show ?thesis
        using True False Cons.prems by (auto simp: digits_value_def Suc_le_eq)
    qed (use False in auto)
  qed
qed

text \<open>A selector is taken for an address exactly when it is a dotted quad: four groups of one to three digits
  separated by dots, each at most 255. Anything else is the name of an interface.\<close>

theorem ipv4_selector_iff_dotted_quad:
  "dds_selector_is_ipv4 s \<longleftrightarrow> length (split_dots s) = 4 \<and> list_all octet_string (split_dots s)"
proof -
  have "list_all octet_string (split_dots s) \<longleftrightarrow>
      octet_string (hd (split_dots s)) \<and> list_all octet_string (tl (split_dots s))"
    by (cases "split_dots s") auto
  then show ?thesis
    by (auto simp: dds_selector_is_ipv4_def ipv4_loop_iff octet_string_def)
qed

section \<open>The throttle of the logger\<close>

lemma log_run_spaced:
  "successively (\<lambda>a b. iv \<le> seconds_of_ns (snd b - snd a))
     (case printed l of None \<Rightarrow> filter (\<lambda>c. fst c = l) (log_run iv calls printed)
      | Some t \<Rightarrow> (l, t) # filter (\<lambda>c. fst c = l) (log_run iv calls printed))"
proof (induction iv calls printed rule: log_run.induct)
  case (2 iv k now calls printed)
  obtain p printed' where t: "log_throttle iv k now printed = (p, printed')" by fastforce
  note IH = 2 [OF t [symmetric]]
  show ?case
    using t IH unfolding log_throttle_def
    by (cases "k = l"; cases "printed l"; cases "printed k")
      (auto simp: t [unfolded log_throttle_def] log_throttle_def split: if_splits)
qed (auto split: option.splits)

text \<open>Lines of one place in the code that the throttle lets through are at least the interval apart, whatever
  other places log meanwhile, and the first line of a place always passes.\<close>

theorem throttled_lines_are_spaced:
  "successively (\<lambda>a b. iv \<le> seconds_of_ns (snd b - snd a)) (filter (\<lambda>c. fst c = l) (log_run iv calls Map.empty))
   \<and> fst (log_throttle iv l now Map.empty)"
  using log_run_spaced [where iv = iv and printed = Map.empty and l = l and calls = calls] by (simp add: log_throttle_def)

end
