(* ===== verification/Rpmsg_Transport.thy ===== *)
theory Rpmsg_Transport
  imports
    Prelude Si_Channel
begin

text \<open>
  The network interface over RPMsg of the X5H image: the framing policy (\<open>rpmsg_netif_core.c\<close>)
  and the glue to lwIP (\<open>rpmsg_netif.c\<close>). A frame is one message. What lwIP and OpenAMP answer to
  a call is an argument; the buffers taken from and given back to lwIP are listed as events.
\<close>

section \<open>The framing policy\<close>

definition RPMSG_ETH_MTU :: u32 where
  "RPMSG_ETH_MTU = 1500"

definition RPMSG_ETH_MAX_FRAME :: u32 where
  "RPMSG_ETH_MAX_FRAME = RPMSG_ETH_MTU + 14"

record netif_stats =
  tx_ok :: u32
  tx_drop_oversize :: u32
  tx_err :: u32
  rx_ok :: u32
  rx_drop_oversize :: u32

text \<open>The operations work on a context of type \<open>'c\<close>, the state their functions reach.\<close>

record 'c netif_ops =
  op_tx :: "u8 list \<Rightarrow> u32 \<Rightarrow> 'c \<Rightarrow> int \<times> 'c"
  op_rx_deliver :: "u8 list \<Rightarrow> u32 \<Rightarrow> 'c \<Rightarrow> 'c"

definition rpmsg_netif_core_tx ::
  "'c netif_ops \<Rightarrow> netif_stats \<Rightarrow> u8 list \<Rightarrow> u32 \<Rightarrow> 'c \<Rightarrow> int \<times> netif_stats \<times> 'c" where
  "rpmsg_netif_core_tx ops st frame len c =
     (if RPMSG_ETH_MAX_FRAME < len then (- 1, st\<lparr>tx_drop_oversize := tx_drop_oversize st + 1\<rparr>, c)
      else case op_tx ops frame len c of
        (rc, c) \<Rightarrow>
          if rc \<noteq> 0 then (- 2, st\<lparr>tx_err := tx_err st + 1\<rparr>, c)
          else (0, st\<lparr>tx_ok := tx_ok st + 1\<rparr>, c))"

definition rpmsg_netif_core_rx ::
  "'c netif_ops \<Rightarrow> netif_stats \<Rightarrow> u8 list \<Rightarrow> u32 \<Rightarrow> 'c \<Rightarrow> int \<times> netif_stats \<times> 'c" where
  "rpmsg_netif_core_rx ops st msg len c =
     (if RPMSG_ETH_MAX_FRAME < len then (- 1, st\<lparr>rx_drop_oversize := rx_drop_oversize st + 1\<rparr>, c)
      else let c = op_rx_deliver ops msg len c
           in (0, st\<lparr>rx_ok := rx_ok st + 1\<rparr>, c))"

section \<open>The glue\<close>

text \<open>The fields of lwIP's \<open>struct netif\<close> that the initialisation sets.\<close>

record netif =
  nif_name :: "char list"
  nif_mtu :: u32
  hwaddr_len :: nat
  hwaddr :: "u8 list"
  nif_flags :: "string list"
  has_output :: bool
  has_linkoutput :: bool

definition added_netif :: netif where
  "added_netif =
     \<lparr>nif_name = [], nif_mtu = 0, hwaddr_len = 0, hwaddr = replicate 6 0, nif_flags = [],
      has_output = False, has_linkoutput = False\<rparr>"

text \<open>What is asked of lwIP and of OpenAMP, in order: a buffer taken, given back, or handed to
  \<open>input\<close> with the interface as it was then; a frame given to \<open>rpmsg_trysend\<close>.\<close>

datatype link_event = Pbuf_alloc | Pbuf_free | Pbuf_input "u8 list" netif | Try_send "u8 list"

text \<open>The statics of the glue; \<open>nif\<close> is the interface lwIP is adding, \<open>published\<close> says that
  \<open>s_netif\<close> points to it.\<close>

record glue =
  nif :: netif
  published :: bool
  rx_drop_no_netif :: u32
  rx_drop_no_pbuf :: u32
  rx_drop_input_err :: u32
  s_tx_frame :: "u8 list"
  link_events :: "link_event list"

definition initial_glue :: glue where
  "initial_glue =
     \<lparr>nif = added_netif, published = False, rx_drop_no_netif = 0, rx_drop_no_pbuf = 0, rx_drop_input_err = 0,
      s_tx_frame = replicate (unat RPMSG_ETH_MAX_FRAME) 0, link_events = []\<rparr>"

definition note_link :: "link_event \<Rightarrow> glue \<Rightarrow> glue" where
  "note_link e g = g\<lparr>link_events := link_events g @ [e]\<rparr>"

text \<open>The answers of \<open>pbuf_alloc\<close>, \<open>pbuf_take\<close> and \<open>input\<close>.\<close>

record lwip_answers =
  pbuf_allocated :: bool
  pbuf_taken :: bool
  input_accepted :: bool

definition no_answers :: lwip_answers where
  "no_answers = \<lparr>pbuf_allocated = False, pbuf_taken = False, input_accepted = False\<rparr>"

text \<open>\<open>rpmsg_transport_send\<close>, for the answer of \<open>rpmsg_trysend\<close> to the bytes of the frame.\<close>

definition rpmsg_transport_send :: "(u8 list \<Rightarrow> int) \<Rightarrow> u8 list \<Rightarrow> u32 \<Rightarrow> glue \<Rightarrow> int \<times> glue" where
  "rpmsg_transport_send trysend buf len g =
     (let sent = take (unat len) buf
      in (if 0 \<le> trysend sent then 0 else - 1, note_link (Try_send sent) g))"

definition glue_tx :: "(u8 list \<Rightarrow> int) \<Rightarrow> u8 list \<Rightarrow> u32 \<Rightarrow> glue \<Rightarrow> int \<times> glue" where
  "glue_tx trysend frame len g = rpmsg_transport_send trysend frame len g"

definition glue_rx_deliver :: "lwip_answers \<Rightarrow> u8 list \<Rightarrow> u32 \<Rightarrow> glue \<Rightarrow> glue" where
  "glue_rx_deliver a frame len g =
     (if \<not> published g then g\<lparr>rx_drop_no_netif := rx_drop_no_netif g + 1\<rparr>
      else if \<not> pbuf_allocated a then g\<lparr>rx_drop_no_pbuf := rx_drop_no_pbuf g + 1\<rparr>
      else
        let g = note_link Pbuf_alloc g
        in if \<not> pbuf_taken a then note_link Pbuf_free g
           else
             let g = note_link (Pbuf_input (take (unat (ucast len :: u16)) frame) (nif g)) g
             in if \<not> input_accepted a
                then note_link Pbuf_free (g\<lparr>rx_drop_input_err := rx_drop_input_err g + 1\<rparr>)
                else g)"

definition s_ops :: "(u8 list \<Rightarrow> int) \<Rightarrow> lwip_answers \<Rightarrow> glue netif_ops" where
  "s_ops trysend a = \<lparr>op_tx = glue_tx trysend, op_rx_deliver = glue_rx_deliver a\<rparr>"

text \<open>\<open>rpmsg_netif_rx\<close>, with the core's counters. Only one function of the table is reached from either side,
  so that the answers of the other side do not matter.\<close>

definition rpmsg_netif_rx :: "lwip_answers \<Rightarrow> u8 list \<Rightarrow> netif_stats \<times> glue \<Rightarrow> netif_stats \<times> glue" where
  "rpmsg_netif_rx a msg s =
     (case s of (st, g) \<Rightarrow>
        snd (rpmsg_netif_core_rx (s_ops (\<lambda>_. 0) a) st msg (of_nat (length msg)) g))"

datatype err_t = ERR_OK | ERR_MEM | ERR_IF

text \<open>\<open>rpmsg_netif_linkoutput\<close>; the payload of the buffer chain, whose \<open>tot_len\<close> has 16 bits.\<close>

definition rpmsg_netif_linkoutput ::
  "(u8 list \<Rightarrow> int) \<Rightarrow> u8 list \<Rightarrow> netif_stats \<times> glue \<Rightarrow> err_t \<times> netif_stats \<times> glue" where
  "rpmsg_netif_linkoutput trysend payload s =
     (case s of (st, g) \<Rightarrow>
        let tot_len = (of_nat (length payload) :: u16);
            copy_len = (if unat tot_len \<le> length (s_tx_frame g) then unat tot_len else length (s_tx_frame g));
            g = g\<lparr>s_tx_frame := take copy_len payload @ drop copy_len (s_tx_frame g)\<rparr>
        in case rpmsg_netif_core_tx (s_ops trysend no_answers) st (s_tx_frame g) (ucast tot_len) g of
             (rc, st, g) \<Rightarrow> (if rc = 0 then ERR_OK else if rc = - 1 then ERR_MEM else ERR_IF, st, g))"

section \<open>The initialisation\<close>

text \<open>\<open>rpmsg_netif_init\<close>, one assignment after the other; \<open>s_netif\<close> is published last.\<close>

definition rpmsg_netif_init_steps :: "(glue \<Rightarrow> glue) list" where
  "rpmsg_netif_init_steps =
     [\<lambda>g. g\<lparr>nif := (nif g)\<lparr>nif_name := ''rp''\<rparr>\<rparr>,
      \<lambda>g. g\<lparr>nif := (nif g)\<lparr>nif_mtu := RPMSG_ETH_MTU\<rparr>\<rparr>,
      \<lambda>g. g\<lparr>nif := (nif g)\<lparr>hwaddr_len := 6\<rparr>\<rparr>,
      \<lambda>g. g\<lparr>nif := (nif g)\<lparr>hwaddr := [0x02, 0x5c, 0x52, 0x00, 0x00, 0x02]\<rparr>\<rparr>,
      \<lambda>g. g\<lparr>nif := (nif g)\<lparr>nif_flags := [''BROADCAST'', ''ETHARP'', ''LINK_UP'', ''ETHERNET'']\<rparr>\<rparr>,
      \<lambda>g. g\<lparr>nif := (nif g)\<lparr>has_output := True\<rparr>\<rparr>,
      \<lambda>g. g\<lparr>nif := (nif g)\<lparr>has_linkoutput := True\<rparr>\<rparr>,
      \<lambda>g. g\<lparr>published := True\<rparr>]"

definition rpmsg_netif_init :: "glue \<Rightarrow> glue" where
  "rpmsg_netif_init g = fold (\<lambda>f. f) rpmsg_netif_init_steps g"

section \<open>Counters on the console\<close>

record glue_stats =
  core_stats :: netif_stats
  no_netif :: u32
  no_pbuf :: u32
  input_err :: u32

definition rpmsg_netif_get_stats :: "netif_stats \<times> glue \<Rightarrow> glue_stats" where
  "rpmsg_netif_get_stats s =
     (case s of (st, g) \<Rightarrow>
        \<lparr>core_stats = st, no_netif = rx_drop_no_netif g, no_pbuf = rx_drop_no_pbuf g,
         input_err = rx_drop_input_err g\<rparr>)"

text \<open>The statics of \<open>rpmsg_netif_print_stats_if_changed\<close>; \<open>None\<close> is \<open>s_have_last\<close> = 0. A tick is a millisecond.\<close>

record stats_printer =
  s_last_print_ticks :: u32
  s_last :: "glue_stats option"

definition RPMSG_NETIF_STATS_PRINT_PERIOD_TICKS :: u32 where
  "RPMSG_NETIF_STATS_PRINT_PERIOD_TICKS = 5000"

definition rpmsg_netif_print_stats_if_changed ::
  "u32 \<Rightarrow> netif_stats \<times> glue \<Rightarrow> stats_printer \<Rightarrow> glue_stats option \<times> stats_printer" where
  "rpmsg_netif_print_stats_if_changed now s p =
     (if s_last p \<noteq> None \<and> now - s_last_print_ticks p < RPMSG_NETIF_STATS_PRINT_PERIOD_TICKS then (None, p)
      else
        let cur = rpmsg_netif_get_stats s
        in if s_last p \<noteq> None \<and> s_last p = Some cur then (None, p\<lparr>s_last_print_ticks := now\<rparr>)
           else (Some cur, \<lparr>s_last_print_ticks = now, s_last = Some cur\<rparr>))"

text \<open>
  The RPMsg transport of the X5H image (\<open>rpmsg_transport.c\<close>), the platform layer under it
  (\<open>platform_rcar.c\<close>, \<open>remoteproc_rcar.c\<close>) and the start of the network (\<open>lwip_bringup.c\<close>).
  OpenAMP, FreeRTOS and lwIP are arguments: what their functions answer.
\<close>

section \<open>Platform\<close>

definition EINVAL :: int where
  "EINVAL = 22"

text \<open>\<open>platform_create_proc\<close>: whether there is an instance, for the answers of \<open>remoteproc_init\<close> and
  \<open>remoteproc_set_rsc_table\<close>; the second component says that the instance is left initialised.\<close>

definition platform_create_proc :: "bool \<Rightarrow> int \<Rightarrow> bool \<times> bool" where
  "platform_create_proc initialised rsc_rc =
     (if \<not> initialised then (False, False)
      else if rsc_rc \<noteq> 0 then (False, False)
      else (True, True))"

definition platform_init :: "bool \<Rightarrow> bool \<Rightarrow> int \<Rightarrow> int" where
  "platform_init platform initialised rsc_rc =
     (if \<not> platform then - EINVAL
      else if \<not> fst (platform_create_proc initialised rsc_rc) then - EINVAL
      else 0)"

text \<open>\<open>platform_create_rpmsg_vdev\<close>: whether there is a device, and what stays allocated.\<close>

record vdev_answers =
  memory_allocated :: bool
  region_found :: bool
  virtio_created :: bool
  init_vdev_rc :: int

record vdev_result =
  rpdev_made :: bool
  memory_held :: bool
  virtio_held :: bool

definition platform_create_rpmsg_vdev :: "vdev_answers \<Rightarrow> vdev_result" where
  "platform_create_rpmsg_vdev a =
     (if \<not> memory_allocated a then \<lparr>rpdev_made = False, memory_held = False, virtio_held = False\<rparr>
      else if \<not> region_found a then \<lparr>rpdev_made = False, memory_held = False, virtio_held = False\<rparr>
      else if \<not> virtio_created a then \<lparr>rpdev_made = False, memory_held = False, virtio_held = False\<rparr>
      else if init_vdev_rc a \<noteq> 0 then \<lparr>rpdev_made = False, memory_held = False, virtio_held = False\<rparr>
      else \<lparr>rpdev_made = True, memory_held = True, virtio_held = True\<rparr>)"

text \<open>\<open>x5h_proc_mmap\<close>: the addresses and the attribute of the mapping.\<close>

definition x5h_proc_mmap ::
  "u32 \<Rightarrow> u32 \<Rightarrow> u32 \<Rightarrow> u32 \<Rightarrow> u32 \<Rightarrow> bool \<Rightarrow> bool \<Rightarrow> (u32 \<times> u32 \<times> u32) option" where
  "x5h_proc_mmap bad_phys default_attribute pa da attribute mem_allocated io_allocated =
     (if pa = bad_phys \<and> da = bad_phys then None
      else
        let lpa = (if pa = bad_phys then da else pa);
            lda = (if da = bad_phys then lpa else da);
            attribute = (if attribute = 0 then default_attribute else attribute)
        in if \<not> mem_allocated then None
           else if \<not> io_allocated then None
           else Some (lpa, lda, attribute))"

section \<open>Start of the transport\<close>

record transport =
  s_rpdev :: bool
  s_ept :: bool
  poll_task :: bool
  vdev_heartbeat :: bool
  s_si_ept :: bool
  si_heartbeat :: bool

definition no_transport :: transport where
  "no_transport =
     \<lparr>s_rpdev = False, s_ept = False, poll_task = False, vdev_heartbeat = False, s_si_ept = False, si_heartbeat = False\<rparr>"

definition pdPASS :: int where
  "pdPASS = 1"

record transport_answers =
  platform_rc :: int
  vdev_hb_created :: bool
  vdev :: vdev_answers
  ept_rc :: int
  poll_rc :: int
  tx_buffer_size :: int

text \<open>The result, and whether the warning about the size of the buffers is printed.\<close>

definition rpmsg_transport_init :: "transport_answers \<Rightarrow> transport \<Rightarrow> int \<times> bool \<times> transport" where
  "rpmsg_transport_init a t =
     (if platform_rc a \<noteq> 0 then (platform_rc a, False, t)
      else
        let t = t\<lparr>vdev_heartbeat := vdev_hb_created a\<rparr>;
            t = t\<lparr>s_rpdev := rpdev_made (platform_create_rpmsg_vdev (vdev a))\<rparr>;
            t = t\<lparr>vdev_heartbeat := False\<rparr>
        in if \<not> s_rpdev t then (- 2, False, t)
           else if ept_rc a \<noteq> 0 then (ept_rc a, False, t)
           else
             let t = t\<lparr>s_ept := True\<rparr>
             in if poll_rc a \<noteq> pdPASS then (poll_rc a, False, t\<lparr>s_ept := False\<rparr>)
                else (0, tx_buffer_size a < int (unat RPMSG_ETH_MAX_FRAME), t\<lparr>poll_task := True\<rparr>))"

definition rpmsg_transport_si_init :: "int \<Rightarrow> bool \<Rightarrow> transport \<Rightarrow> int \<times> transport" where
  "rpmsg_transport_si_init si_ept_rc si_hb_created t =
     (if \<not> s_rpdev t then (- 1, t)
      else if si_ept_rc \<noteq> 0 then (si_ept_rc, t)
      else
        let t = t\<lparr>s_si_ept := True\<rparr>
        in if \<not> si_hb_created then (- 2, t) else (0, t\<lparr>si_heartbeat := True\<rparr>))"

section \<open>Start of the network\<close>

record bringup_answers =
  semaphore_created :: bool
  tcpip_done :: bool
  transport_start :: transport_answers
  si_start_ept_rc :: int
  si_start_hb :: bool
  address_valid :: bool
  netmask_valid :: bool
  gateway_valid :: bool
  netif_added :: bool

text \<open>What the start leaves behind: the semaphore, the lock of the TCP/IP core, the transport, the
  glue, and whether the interface is up and the default one.\<close>

record network =
  done_semaphore :: bool
  core_locked :: bool
  net_transport :: transport
  net_glue :: glue
  netif_up :: bool

definition no_network :: network where
  "no_network =
     \<lparr>done_semaphore = False, core_locked = False, net_transport = no_transport, net_glue = initial_glue, netif_up = False\<rparr>"

definition lwip_bring_up_blocking :: "bringup_answers \<Rightarrow> network \<Rightarrow> int \<times> network" where
  "lwip_bring_up_blocking a n =
     (if \<not> semaphore_created a then (- 1, n)
      else
        let n = n\<lparr>done_semaphore := True\<rparr>
        in if \<not> tcpip_done a then (- 2, n)
           else
             let n = n\<lparr>done_semaphore := False\<rparr>;
                 (rc, warned, t) = rpmsg_transport_init (transport_start a) (net_transport n);
                 n = n\<lparr>net_transport := t\<rparr>
             in if rc \<noteq> 0 then (- 5, n)
                else
                  let t = snd (rpmsg_transport_si_init (si_start_ept_rc a) (si_start_hb a) (net_transport n));
                      n = n\<lparr>net_transport := t\<rparr>
                  in if \<not> address_valid a \<or> \<not> netmask_valid a \<or> \<not> gateway_valid a then (- 4, n)
                     else
                       let n = n\<lparr>core_locked := True\<rparr>;
                           n = (if netif_added a
                                then n\<lparr>net_glue := rpmsg_netif_init (net_glue n), netif_up := True\<rparr> else n);
                           n = n\<lparr>core_locked := False\<rparr>
                       in if \<not> netif_added a then (- 3, n) else (0, n))"

section \<open>The poll task\<close>

text \<open>
  A message in the ring comes with the answers lwIP will give to it. \<open>notify\<close> is
  \<open>remoteproc_get_notification\<close>: the messages it hands to the endpoint, and those it leaves. The
  interrupt handler sets \<open>int_source\<close>; \<open>platform_poll\<close> reads it, drains the ring and clears it.
\<close>

type_synonym inbound = "u8 list \<times> lwip_answers"
type_synonym notifier = "inbound list \<Rightarrow> inbound list \<times> inbound list"

datatype poll_point = Poll_test | Poll_drain | Poll_clear | Poll_backstop | Poll_stats | Poll_delay

record poll_state =
  at_point :: poll_point
  ring :: "inbound list"
  int_source :: u16
  link_state :: "netif_stats \<times> glue"
  printer :: stats_printer
  handled :: "inbound list"

text \<open>\<open>ept_cb\<close>: one message after the other goes to the interface.\<close>

definition ept_cb :: "inbound list \<Rightarrow> netif_stats \<times> glue \<Rightarrow> netif_stats \<times> glue" where
  "ept_cb ms s = fold (\<lambda>(m, a). rpmsg_netif_rx a m) ms s"

definition get_notification :: "notifier \<Rightarrow> poll_state \<Rightarrow> poll_state" where
  "get_notification notify s =
     (case notify (ring s) of
        (ms, rest) \<Rightarrow> s\<lparr>ring := rest, link_state := ept_cb ms (link_state s), handled := handled s @ ms\<rparr>)"

text \<open>One step of \<open>rpmsg_poll_task\<close>, with the tick counter it may read. The first three points are
  \<open>platform_poll\<close>; the backstop drains the ring whatever it saw.\<close>

definition rpmsg_poll_task :: "notifier \<Rightarrow> u32 \<Rightarrow> poll_state \<Rightarrow> poll_state" where
  "rpmsg_poll_task notify now s =
     (case at_point s of
        Poll_test \<Rightarrow> s\<lparr>at_point := (if int_source s \<noteq> 0 then Poll_drain else Poll_backstop)\<rparr>
      | Poll_drain \<Rightarrow> (get_notification notify s)\<lparr>at_point := Poll_clear\<rparr>
      | Poll_clear \<Rightarrow> s\<lparr>int_source := 0, at_point := Poll_backstop\<rparr>
      | Poll_backstop \<Rightarrow> (get_notification notify s)\<lparr>at_point := Poll_stats\<rparr>
      | Poll_stats \<Rightarrow>
          s\<lparr>printer := snd (rpmsg_netif_print_stats_if_changed now (link_state s) (printer s)), at_point := Poll_delay\<rparr>
      | Poll_delay \<Rightarrow> s\<lparr>at_point := Poll_test\<rparr>)"

text \<open>Linux posts a message, and its interrupt comes, at any time between two steps of the task.\<close>

inductive linux_step :: "poll_state \<Rightarrow> poll_state \<Rightarrow> bool" where
  post: "linux_step s (s\<lparr>ring := ring s @ [m]\<rparr>)"
| kick: "linux_step s (s\<lparr>int_source := source\<rparr>)"

text \<open>A run with the number of steps the task took in it.\<close>

inductive poll_run :: "notifier \<Rightarrow> nat \<Rightarrow> poll_state \<Rightarrow> poll_state \<Rightarrow> bool" for notify where
  poll_nil: "poll_run notify 0 s s"
| poll_own: "poll_run notify n (rpmsg_poll_task notify now s) s' \<Longrightarrow> poll_run notify (Suc n) s s'"
| poll_linux: "linux_step s s1 \<Longrightarrow> poll_run notify n s1 s' \<Longrightarrow> poll_run notify n s s'"

section \<open>The second endpoint\<close>

text \<open>\<open>si_ept_cb\<close>, with the line it prints.\<close>

definition si_ept_cb :: "string option \<Rightarrow> si_channel \<Rightarrow> bool option \<times> si_channel" where
  "si_ept_cb data st =
     (let before = s_fault st;
          st = si_channel_rx data st
      in (if s_fault st \<noteq> before then Some (s_fault st) else None, st))"

text \<open>One round of \<open>si_heartbeat_task\<close> after its wait: the line it sends, if it fits.\<close>

definition si_heartbeat_round :: "u32 \<Rightarrow> u32 \<Rightarrow> si_channel \<Rightarrow> string option \<times> u32" where
  "si_heartbeat_round ticks sequence st =
     (case si_channel_format_hb SI_CHANNEL_HB_LINE_MAX sequence ticks (s_fault st) of
        None \<Rightarrow> (None, sequence + 1)
      | Some line \<Rightarrow> (if 0 < length line then Some line else None, sequence + 1))"

fun si_heartbeats :: "(u32 \<times> si_channel) list \<Rightarrow> u32 \<Rightarrow> string option list" where
  "si_heartbeats [] sequence = []"
| "si_heartbeats ((ticks, st) # rounds) sequence =
     (case si_heartbeat_round ticks sequence st of
        (line, sequence) \<Rightarrow> line # si_heartbeats rounds sequence)"

end
