(* ===== verification/Rpmsg_Properties.thy ===== *)
theory Rpmsg_Properties
  imports
    Rpmsg_Transport "HOL-Library.Sublist"
begin

text \<open>
  The RPMsg link: no message is lost or reordered between the ring and the interface, whatever the
  interrupts do; every frame is accounted for; what is sent is what lwIP asked to send; the interface
  is never used before it is complete; and the start reports every failure.
\<close>

section \<open>Reception\<close>

text \<open>The messages a list of inbound messages hands to \<open>input\<close>, and what each of them counts as.\<close>

definition fits_frame :: "u8 list \<Rightarrow> bool" where
  "fits_frame m \<longleftrightarrow> length m \<le> 1514"


fun inputs :: "link_event list \<Rightarrow> u8 list list" where
  "inputs [] = []"
| "inputs (Pbuf_input m n # es) = m # inputs es"
| "inputs (e # es) = inputs es"

lemma inputs_append [simp]: "inputs (es @ fs) = inputs es @ inputs fs"
  by (induction es rule: inputs.induct) auto

lemma max_frame: "RPMSG_ETH_MAX_FRAME = 1514" "unat RPMSG_ETH_MAX_FRAME = 1514"
  by (simp_all add: RPMSG_ETH_MAX_FRAME_def RPMSG_ETH_MTU_def)

lemma of_nat_fits:
  assumes "length (m :: u8 list) < 2 ^ 32"
  shows "RPMSG_ETH_MAX_FRAME < of_nat (length m) \<longleftrightarrow> \<not> fits_frame m"
  using assms by (simp add: max_frame fits_frame_def word_less_nat_alt unat_of_nat take_bit_eq_mod not_le)

lemma ucast_fits:
  assumes "fits_frame m"
  shows "take (unat (ucast (of_nat (length m) :: u32) :: u16)) m = m"
  using assms by (simp add: fits_frame_def unsigned_ucast_eq unsigned_of_nat take_bit_eq_mod)

text \<open>One message, in all its cases.\<close>

lemma rpmsg_netif_rx_cases:
  assumes "length m < 2 ^ 32" and "published g"
  shows "rpmsg_netif_rx a m (st, g) =
    (if \<not> fits_frame m then (st\<lparr>rx_drop_oversize := rx_drop_oversize st + 1\<rparr>, g)
     else (st\<lparr>rx_ok := rx_ok st + 1\<rparr>,
       if \<not> pbuf_allocated a then g\<lparr>rx_drop_no_pbuf := rx_drop_no_pbuf g + 1\<rparr>
       else if \<not> pbuf_taken a then g\<lparr>link_events := link_events g @ [Pbuf_alloc, Pbuf_free]\<rparr>
       else if \<not> input_accepted a
       then g\<lparr>rx_drop_input_err := rx_drop_input_err g + 1,
              link_events := link_events g @ [Pbuf_alloc, Pbuf_input m (nif g), Pbuf_free]\<rparr>
       else g\<lparr>link_events := link_events g @ [Pbuf_alloc, Pbuf_input m (nif g)]\<rparr>))"
  using assms of_nat_fits [OF assms(1)] ucast_fits [of m]
  by (simp add: rpmsg_netif_rx_def rpmsg_netif_core_rx_def s_ops_def glue_rx_deliver_def note_link_def Let_def)



text \<open>Buffers: how many lwIP lent, and how many it got back or kept.\<close>

fun lent :: "link_event list \<Rightarrow> int" where
  "lent [] = 0"
| "lent (Pbuf_alloc # es) = 1 + lent es"
| "lent (Pbuf_free # es) = lent es - 1"
| "lent (e # es) = lent es"

lemma lent_append [simp]: "lent (es @ fs) = lent es + lent fs"
  by (induction es rule: lent.induct) auto

definition kept_by_lwip :: "inbound list \<Rightarrow> inbound list" where
  "kept_by_lwip ms = filter (\<lambda>(m, a). fits_frame m \<and> pbuf_allocated a \<and> pbuf_taken a \<and> input_accepted a) ms"

text \<open>No buffer leaks. Whatever lwIP answers, the buffers the receive path holds on to are exactly those that
  \<open>input\<close> accepted; every other one was given back once.\<close>

theorem receive_buffers_balance:
  assumes "published g" and "\<forall>(m, a) \<in> set ms. length m < 2 ^ 32" and "ept_cb ms (st, g) = (st', g')"
  shows "lent (link_events g') = lent (link_events g) + int (length (kept_by_lwip ms))"
  using assms
proof (induction ms arbitrary: st g)
  case (Cons ma ms)
  obtain m a where ma: "ma = (m, a)" by (cases ma)
  obtain st1 g1 where rx: "rpmsg_netif_rx a m (st, g) = (st1, g1)" by fastforce
  have prem: "length m < 2 ^ 32" "ept_cb ms (st1, g1) = (st', g')"
    using Cons.prems(2,3) rx by (auto simp: ma ept_cb_def)
  note one = rpmsg_netif_rx_cases [OF prem(1) Cons.prems(1), of a st, unfolded rx]
  have "published g1"
    using one Cons.prems(1) by (auto split: if_splits)
  from Cons.IH [OF this _ prem(2)] Cons.prems(2) show ?case
    using one by (auto simp: ma kept_by_lwip_def split: if_splits)
qed (auto simp: ept_cb_def kept_by_lwip_def)

section \<open>Transmission\<close>

text \<open>What is sent is the frame of lwIP: up to 1514 bytes the payload is tried once, unchanged and without a byte of
  an earlier frame, and the result and the counters say whether it left; a longer one is dropped and counted.\<close>

theorem transmitted_frame_is_payload:
  assumes "length (s_tx_frame g) = 1514" and "length payload < 2 ^ 16"
    and "rpmsg_netif_linkoutput trysend payload (st, g) = (err, st', g')"
  shows "(if length payload \<le> 1514
      then link_events g' = link_events g @ [Try_send payload]
        \<and> (if 0 \<le> trysend payload then err = ERR_OK \<and> st' = st\<lparr>tx_ok := tx_ok st + 1\<rparr>
           else err = ERR_IF \<and> st' = st\<lparr>tx_err := tx_err st + 1\<rparr>)
      else link_events g' = link_events g \<and> err = ERR_MEM \<and> st' = st\<lparr>tx_drop_oversize := tx_drop_oversize st + 1\<rparr>)
    \<and> length (s_tx_frame g') = 1514"
proof -
  let ?len = "of_nat (length payload) :: u16"
  have len: "unat ?len = length payload" "unat (ucast ?len :: u32) = length payload"
    using assms(2) by (simp_all add: unsigned_of_nat take_bit_eq_mod unsigned_ucast_eq)
  have over: "RPMSG_ETH_MAX_FRAME < (ucast ?len :: u32) \<longleftrightarrow> 1514 < length payload"
    unfolding word_less_nat_alt len(2) max_frame(2) ..
  show ?thesis
  proof (cases "length payload \<le> 1514")
    case True
    then show ?thesis
      using assms over
      by (auto simp: rpmsg_netif_linkoutput_def rpmsg_netif_core_tx_def s_ops_def glue_tx_def rpmsg_transport_send_def
          note_link_def Let_def len split: if_splits)
  next
    case False
    then show ?thesis
      using assms over
      by (auto simp: rpmsg_netif_linkoutput_def rpmsg_netif_core_tx_def Let_def len split: if_splits)
  qed
qed

section \<open>The interface is complete when it is used\<close>



definition ready_netif :: netif where
  "ready_netif = nif (rpmsg_netif_init initial_glue)"
















section \<open>No message is lost\<close>

text \<open>\<open>remoteproc_get_notification\<close> hands every pending message to the endpoint.\<close>

definition drains :: "notifier \<Rightarrow> bool" where
  "drains notify \<longleftrightarrow> (\<forall>q. notify q = (q, []))"

text \<open>The steps of the task up to and including the next backstop.\<close>

fun to_backstop :: "poll_point \<Rightarrow> nat" where
  "to_backstop Poll_test = 4"
| "to_backstop Poll_drain = 3"
| "to_backstop Poll_clear = 2"
| "to_backstop Poll_backstop = 1"
| "to_backstop Poll_stats = 6"
| "to_backstop Poll_delay = 5"

lemma poll_task_step:
  assumes "drains notify"
  shows "handled (rpmsg_poll_task notify now s) @ ring (rpmsg_poll_task notify now s) = handled s @ ring s"
    and "prefix (handled s) (handled (rpmsg_poll_task notify now s))"
    and "to_backstop (at_point s) = 1 \<Longrightarrow> handled (rpmsg_poll_task notify now s) = handled s @ ring s"
    and "to_backstop (at_point s) \<noteq> 1 \<Longrightarrow>
      to_backstop (at_point (rpmsg_poll_task notify now s)) \<le> to_backstop (at_point s) - 1"
  using assms by (cases "at_point s"; simp add: rpmsg_poll_task_def get_notification_def drains_def)+

lemma poll_run_handled:
  assumes "poll_run notify n s s'" and "drains notify"
  shows "(\<exists>later. handled s' @ ring s' = handled s @ ring s @ later) \<and> prefix (handled s) (handled s')
    \<and> (to_backstop (at_point s) \<le> n \<longrightarrow> prefix (handled s @ ring s) (handled s'))"
  using assms
proof (induction rule: poll_run.induct)
  case (poll_nil s)
  then show ?case by (cases "at_point s") auto
next
  case (poll_own n now s s')
  note own = poll_task_step [OF poll_own.prems, where now = now and s = s]
  let ?s1 = "rpmsg_poll_task notify now s"
  from poll_own.IH [OF poll_own.prems]
  have IH: "\<exists>later. handled s' @ ring s' = handled ?s1 @ ring ?s1 @ later" "prefix (handled ?s1) (handled s')"
    "to_backstop (at_point ?s1) \<le> n \<Longrightarrow> prefix (handled ?s1 @ ring ?s1) (handled s')"
    by auto
  have "\<exists>later. handled s' @ ring s' = handled s @ ring s @ later"
    using IH(1) own(1) by (metis append.assoc)
  moreover have "prefix (handled s) (handled s')"
    using IH(2) own(2) prefix_order.trans by blast
  moreover have "prefix (handled s @ ring s) (handled s')" if "to_backstop (at_point s) \<le> Suc n"
  proof (cases "to_backstop (at_point s) = 1")
    case True
    then show ?thesis
      using IH(2) own(3) by simp
  next
    case False
    then have "to_backstop (at_point ?s1) \<le> n"
      using own(4) that by simp
    then show ?thesis
      using IH(3) own(1) by simp
  qed
  ultimately show ?case by blast
next
  case (poll_linux s s1 n s')
  from poll_linux.hyps(1) have "at_point s1 = at_point s" "handled s1 = handled s" "\<exists>new. ring s1 = ring s @ new"
    by (auto elim: linux_step.cases)
  with poll_linux.IH [OF poll_linux.prems] show ?case
    by (auto simp: prefix_def)
qed

text \<open>C18. No message is lost and none waits: after six steps of the poll task, whatever Linux posts and whenever its
  interrupts come meanwhile (one between the test and the clearing of \<open>int_source\<close> is overwritten), everything that
  was in the ring has been handed over; and messages are handed over once, in the order they came.\<close>

theorem posted_messages_are_handled:
  assumes "drains notify" and "poll_run notify n s s'"
  shows "(6 \<le> n \<longrightarrow> prefix (handled s @ ring s) (handled s'))
    \<and> (\<exists>later. handled s' @ ring s' = handled s @ ring s @ later)"
proof -
  have "to_backstop (at_point s) \<le> 6"
    by (cases "at_point s") auto
  then show ?thesis
    using poll_run_handled [OF assms(2,1)] by auto
qed


section \<open>The start of the network\<close>

definition transport_starts :: "transport_answers \<Rightarrow> bool" where
  "transport_starts a \<longleftrightarrow>
     platform_rc a = 0 \<and> rpdev_made (platform_create_rpmsg_vdev (vdev a)) \<and> ept_rc a = 0 \<and> poll_rc a = pdPASS"

lemma transport_init_rc:
  assumes "rpmsg_transport_init a t = (rc, warned, t')" and "poll_rc a \<noteq> 0"
  shows "rc = 0 \<longleftrightarrow> transport_starts a"
    and "rc = 0 \<Longrightarrow> s_rpdev t' \<and> s_ept t' \<and> poll_task t' \<and> (warned \<longleftrightarrow> tx_buffer_size a < 1514)"
    and "\<not> vdev_heartbeat t \<Longrightarrow> \<not> vdev_heartbeat t'"
    and "rc \<noteq> 0 \<Longrightarrow> \<not> poll_task t \<Longrightarrow> \<not> poll_task t'"
  using assms by (auto simp: rpmsg_transport_init_def transport_starts_def Let_def max_frame split: if_splits)

lemma si_init_frame:
  "rpmsg_transport_si_init e h t = (rc, t') \<Longrightarrow>
     s_rpdev t' = s_rpdev t \<and> s_ept t' = s_ept t \<and> poll_task t' = poll_task t \<and> vdev_heartbeat t' = vdev_heartbeat t"
  by (auto simp: rpmsg_transport_si_init_def Let_def split: if_splits)

text \<open>C27. The start reports every failure that matters. It returns 0 exactly when the TCP/IP thread, the transport,
  the static addresses and the interface are there; then the interface is complete and up and the poll task runs. A failure
  of the second endpoint does not count. However it ends, the lock of the core and the waiting heartbeat are given up.\<close>

theorem bring_up_reports_failures:
  assumes "lwip_bring_up_blocking a no_network = (rc, n)" and "poll_rc (transport_start a) \<noteq> 0"
  shows "(rc = 0 \<longleftrightarrow> semaphore_created a \<and> tcpip_done a \<and> transport_starts (transport_start a)
        \<and> address_valid a \<and> netmask_valid a \<and> gateway_valid a \<and> netif_added a)
    \<and> (rc = 0 \<longrightarrow> netif_up n \<and> published (net_glue n) \<and> nif (net_glue n) = ready_netif \<and> poll_task (net_transport n))
    \<and> (rc \<noteq> 0 \<longrightarrow> \<not> netif_up n \<and> \<not> published (net_glue n))
    \<and> \<not> core_locked n \<and> \<not> vdev_heartbeat (net_transport n)"
proof -
  obtain rc1 warned t1 where t1: "rpmsg_transport_init (transport_start a) no_transport = (rc1, warned, t1)"
    by (rule prod_cases3)
  obtain rc2 t2 where t2: "rpmsg_transport_si_init (si_start_ept_rc a) (si_start_hb a) t1 = (rc2, t2)"
    by fastforce
  note init = transport_init_rc [OF t1 assms(2)]
  have pub: "published (rpmsg_netif_init g)" "\<not> published initial_glue" for g
    by (simp add: rpmsg_netif_init_def rpmsg_netif_init_steps_def) (simp add: initial_glue_def)
  have hb: "\<not> vdev_heartbeat no_transport"
    by (simp add: no_transport_def)
  have step: "lwip_bring_up_blocking a no_network =
    (if \<not> semaphore_created a then (- 1, no_network)
     else if \<not> tcpip_done a then (- 2, no_network\<lparr>done_semaphore := True\<rparr>)
     else if rc1 \<noteq> 0 then (- 5, no_network\<lparr>net_transport := t1\<rparr>)
     else if \<not> (address_valid a \<and> netmask_valid a \<and> gateway_valid a) then (- 4, no_network\<lparr>net_transport := t2\<rparr>)
     else if \<not> netif_added a then (- 3, no_network\<lparr>net_transport := t2\<rparr>)
     else (0, no_network\<lparr>net_transport := t2, net_glue := rpmsg_netif_init initial_glue, netif_up := True\<rparr>))"
    by (simp add: lwip_bring_up_blocking_def no_network_def Let_def t1 t2)
  consider "\<not> semaphore_created a" | "semaphore_created a" "\<not> tcpip_done a" | "semaphore_created a" "tcpip_done a" "rc1 \<noteq> 0"
    | "semaphore_created a" "tcpip_done a" "rc1 = 0" "\<not> (address_valid a \<and> netmask_valid a \<and> gateway_valid a)"
    | "semaphore_created a" "tcpip_done a" "rc1 = 0" "address_valid a \<and> netmask_valid a \<and> gateway_valid a" "\<not> netif_added a"
    | "semaphore_created a" "tcpip_done a" "rc1 = 0" "address_valid a \<and> netmask_valid a \<and> gateway_valid a" "netif_added a"
    by blast
  then show ?thesis
    using assms(1) init(1,2) init(3) [OF hb] si_init_frame [OF t2] pub unfolding step
    by cases (auto simp: no_network_def hb ready_netif_def)
qed

text \<open>The device stays after a failed start: \<open>rpmsg_transport_si_init\<close> takes it for a started transport.\<close>

lemma failed_start_keeps_device:
  assumes "rpmsg_transport_init a t = (rc, warned, t')" and "platform_rc a = 0"
    and "rpdev_made (platform_create_rpmsg_vdev (vdev a))" and "ept_rc a \<noteq> 0"
  shows "rc \<noteq> 0 \<and> fst (rpmsg_transport_si_init 0 True t') = 0"
  using assms by (auto simp: rpmsg_transport_init_def rpmsg_transport_si_init_def Let_def)

section \<open>Heartbeats\<close>

text \<open>Every heartbeat is sent and numbered: the line always fits its buffer, and the numbers count up by one
  from round to round, around at 2^32.\<close>

theorem heartbeats_are_numbered:
  "si_heartbeats rounds sequence =
     map (\<lambda>i. Some (hb_line (sequence + of_nat i) (fst (rounds ! i)) (s_fault (snd (rounds ! i))))) [0..<length rounds]"
proof (induction rounds arbitrary: sequence)
  case (Cons r rounds)
  have "si_channel_format_hb SI_CHANNEL_HB_LINE_MAX sequence (fst r) (s_fault (snd r))
      = Some (hb_line sequence (fst r) (s_fault (snd r)))"
    using hb_line_fits [of sequence "fst r" "s_fault (snd r)"] by (simp add: si_channel_format_hb_def Let_def not_le)
  moreover have "0 < length (hb_line sequence (fst r) (s_fault (snd r)))"
    by (simp add: hb_line_def)
  ultimately have "si_heartbeats (r # rounds) sequence = Some (hb_line sequence (fst r) (s_fault (snd r))) # si_heartbeats rounds (sequence + 1)"
    by (cases r) (simp add: si_heartbeat_round_def)
  then show ?case
    unfolding Cons.IH by (simp add: map_upt_Suc algebra_simps del: upt_Suc)
qed simp

section \<open>Counters on the console\<close>

text \<open>The counters are printed exactly when they differ from the ones printed last, at most once in five seconds.\<close>

lemma printed_iff:
  "fst (rpmsg_netif_print_stats_if_changed now s p) =
    (if s_last p = None \<or> 5000 \<le> now - s_last_print_ticks p \<and> s_last p \<noteq> Some (rpmsg_netif_get_stats s)
     then Some (rpmsg_netif_get_stats s) else None)"
  by (auto simp: rpmsg_netif_print_stats_if_changed_def RPMSG_NETIF_STATS_PRINT_PERIOD_TICKS_def Let_def not_less)


section \<open>The properties on a link\<close>

definition sample_answers :: lwip_answers where
  "sample_answers = \<lparr>pbuf_allocated = True, pbuf_taken = True, input_accepted = True\<rparr>"

definition sample_glue :: glue where
  "sample_glue = rpmsg_netif_init initial_glue"

definition sample_stats :: netif_stats where
  "sample_stats = \<lparr>tx_ok = 0, tx_drop_oversize = 0, tx_err = 0, rx_ok = 0, rx_drop_oversize = 0\<rparr>"

definition sample_inbound :: "inbound list" where
  "sample_inbound =
     [([1, 2, 3], sample_answers), ([4], sample_answers\<lparr>pbuf_allocated := False\<rparr>),
      ([5, 6], sample_answers\<lparr>input_accepted := False\<rparr>)]"

lemma sample_glue_published: "published sample_glue" and sample_glue_frame: "length (s_tx_frame sample_glue) = 1514"
  by (simp_all add: sample_glue_def rpmsg_netif_init_def rpmsg_netif_init_steps_def initial_glue_def max_frame)


lemma receive_buffers_balance_witness:
  "\<exists>st' g'. ept_cb sample_inbound (sample_stats, sample_glue) = (st', g')
    \<and> lent (link_events g') = lent (link_events sample_glue) + 1"
proof -
  obtain st' g' where run: "ept_cb sample_inbound (sample_stats, sample_glue) = (st', g')" by fastforce
  have "\<forall>(m, a) \<in> set sample_inbound. length m < 2 ^ 32"
    by (simp add: sample_inbound_def)
  from receive_buffers_balance [OF sample_glue_published this run] show ?thesis
    using run by (simp add: kept_by_lwip_def sample_inbound_def sample_answers_def fits_frame_def)
qed

lemma transmitted_frame_is_payload_witness:
  "\<exists>err st' g'. rpmsg_netif_linkoutput (\<lambda>_. 2) [7, 8] (sample_stats, sample_glue) = (err, st', g')
    \<and> link_events g' = link_events sample_glue @ [Try_send [7, 8]] \<and> err = ERR_OK"
proof -
  obtain err st' g' where run: "rpmsg_netif_linkoutput (\<lambda>_. 2) [7, 8] (sample_stats, sample_glue) = (err, st', g')"
    by (rule prod_cases3)
  from transmitted_frame_is_payload [OF sample_glue_frame _ run] run show ?thesis
    by simp
qed

definition sample_poll :: poll_state where
  "sample_poll =
     \<lparr>at_point = Poll_test, ring = sample_inbound, int_source = 0, link_state = (sample_stats, sample_glue),
      printer = \<lparr>s_last_print_ticks = 0, s_last = None\<rparr>, handled = []\<rparr>"

lemma poll_runs: "\<exists>s'. poll_run notify n s s'"
  by (induction n arbitrary: s) (blast intro: poll_run.intros)+

lemma sample_notifier_drains: "drains (\<lambda>q. (q, []))"
  by (simp add: drains_def)

lemma posted_messages_are_handled_witness:
  "\<exists>s'. poll_run (\<lambda>q. (q, [])) 6 (sample_poll\<lparr>int_source := 3\<rparr>) s' \<and> prefix sample_inbound (handled s')"
proof -
  obtain s' where run: "poll_run (\<lambda>q. (q, [])) 6 (sample_poll\<lparr>int_source := 3\<rparr>) s'"
    using poll_runs by blast
  from posted_messages_are_handled [OF sample_notifier_drains run] have "prefix sample_inbound (handled s')"
    by (simp add: sample_poll_def)
  with run show ?thesis by blast
qed

definition sample_bringup :: bringup_answers where
  "sample_bringup =
     \<lparr>semaphore_created = True, tcpip_done = True,
      transport_start = \<lparr>platform_rc = 0, vdev_hb_created = True,
        vdev = \<lparr>memory_allocated = True, region_found = True, virtio_created = True, init_vdev_rc = 0\<rparr>,
        ept_rc = 0, poll_rc = 1, tx_buffer_size = 496\<rparr>,
      si_start_ept_rc = - 5, si_start_hb = False, address_valid = True, netmask_valid = True, gateway_valid = True,
      netif_added = True\<rparr>"

lemma bring_up_reports_failures_witness:
  "\<exists>n. lwip_bring_up_blocking sample_bringup no_network = (0, n) \<and> published (net_glue n) \<and> \<not> core_locked n"
proof -
  obtain rc n where run: "lwip_bring_up_blocking sample_bringup no_network = (rc, n)" by fastforce
  have "poll_rc (transport_start sample_bringup) \<noteq> 0"
    by (simp add: sample_bringup_def)
  from bring_up_reports_failures [OF run this] have "rc = 0" "published (net_glue n)" "\<not> core_locked n"
    by (auto simp: sample_bringup_def transport_starts_def platform_create_rpmsg_vdev_def pdPASS_def)
  with run show ?thesis by blast
qed

end
