(* ===== verification/Pthread_Shim.thy ===== *)
theory Pthread_Shim
  imports
    Prelude
begin

text \<open>
  The threads the X5H image makes of FreeRTOS tasks (\<open>platform/freertos/x5h/pthread.h\<close>): creation,
  join, cancellation, the mutex that is created when it is first locked, and \<open>usleep\<close>.

  Join and cancellation are code of several tasks that share the record of a thread. Each is a
  sequence of points, one access to shared memory or call of the kernel after the other, and
  \<open>pstep\<close> lets the tasks take them in any order. An access to freed memory, a second \<open>free\<close> and a
  call of the kernel with a task that no longer exists are a \<open>Fault\<close>.
\<close>

section \<open>Creation\<close>

text \<open>What FreeRTOS answers to the calls of \<open>pthread_create\<close>.\<close>

record create_answers =
  info_allocated :: bool
  semaphore_made :: bool
  tcb_allocated :: bool
  static_task_made :: bool
  dynamic_task_made :: bool

text \<open>The blocks that are allocated afterwards, and how the task was made.\<close>

datatype stack_kind = Static_stack | Dynamic_stack

record created =
  info_block :: bool
  done_block :: bool
  tcb_block :: bool
  made_with :: "stack_kind option"

definition nothing_created :: created where
  "nothing_created = \<lparr>info_block = False, done_block = False, tcb_block = False, made_with = None\<rparr>"

record pthread_attr =
  stackaddr :: bool
  stacksize :: int

definition pthread_attr_init :: pthread_attr where
  "pthread_attr_init = \<lparr>stackaddr = False, stacksize = 0\<rparr>"

definition pthread_attr_setstack :: "bool \<Rightarrow> u32 \<Rightarrow> pthread_attr \<Rightarrow> pthread_attr" where
  "pthread_attr_setstack addr size_bytes attr = attr\<lparr>stackaddr := addr, stacksize := sint size_bytes\<rparr>"

text \<open>\<open>StackType_t\<close> has four bytes; \<open>minimal\<close> is \<open>configMINIMAL_STACK_SIZE\<close>.\<close>

definition stack_depth :: "nat \<Rightarrow> pthread_attr option \<Rightarrow> nat" where
  "stack_depth minimal attr =
     (case attr of
        None \<Rightarrow> minimal
      | Some a \<Rightarrow> if 0 < stacksize a then nat (stacksize a) div 4 else minimal)"

definition pthread_create :: "bool \<Rightarrow> pthread_attr option \<Rightarrow> create_answers \<Rightarrow> int \<times> created" where
  "pthread_create valid_args attr a =
     (if \<not> valid_args then (- 1, nothing_created)
      else if \<not> info_allocated a then (- 1, nothing_created)
      else
        let c = nothing_created\<lparr>info_block := True\<rparr>
        in if \<not> semaphore_made a then (- 1, c\<lparr>info_block := False\<rparr>)
           else
             let c = c\<lparr>done_block := True\<rparr>;
                 c = (case attr of
                        Some b \<Rightarrow>
                          if stackaddr b \<and> 0 < stacksize b then
                            (if tcb_allocated a then
                               (if static_task_made a then c\<lparr>tcb_block := True, made_with := Some Static_stack\<rparr> else c)
                             else c)
                          else if dynamic_task_made a then c\<lparr>made_with := Some Dynamic_stack\<rparr> else c
                      | None \<Rightarrow> if dynamic_task_made a then c\<lparr>made_with := Some Dynamic_stack\<rparr> else c)
             in if made_with c = None then (- 1, c\<lparr>done_block := False, info_block := False\<rparr>)
                else (0, c))"

section \<open>Join and cancellation\<close>

text \<open>Where the thread is: in its function, behind it, behind the release of \<open>done\<close>, and suspended.\<close>

datatype thread_point = In_entry | After_entry | Done_given | Parked

datatype call = Join | Cancel

datatype caller_point =
    Outside
  | Join_wait | Join_test | Join_cleanup | Join_delete | Join_free_tcb | Join_free_done | Join_free_info
  | Cancel_test | Cancel_clear | Cancel_give | Cancel_suspend | Cancel_cleanup | Cancel_delete

text \<open>The record of the thread with its blocks, the kernel's view of the task, and the tasks that join or
  cancel it, each with the calls it still has to make.\<close>

record thread_sys =
  static_stack :: bool
  info_live :: bool
  tcb_live :: bool
  done_live :: bool
  done_given :: bool
  task_set :: bool
  thread_at :: thread_point
  task_alive :: bool
  task_suspended :: bool
  callers :: "nat \<Rightarrow> call list \<times> caller_point"

text \<open>The kernel still has the task: not deleted, and its control block not freed.\<close>

definition handle_ok :: "thread_sys \<Rightarrow> bool" where
  "handle_ok s \<longleftrightarrow> task_alive s \<and> (static_stack s \<longrightarrow> tcb_live s)"

datatype outcome = Blocked | Fault | Next caller_point thread_sys

definition next_if :: "bool \<Rightarrow> caller_point \<Rightarrow> thread_sys \<Rightarrow> outcome" where
  "next_if ok pt s = (if ok then Next pt s else Fault)"

fun caller_advance :: "caller_point \<Rightarrow> thread_sys \<Rightarrow> outcome" where
  "caller_advance Outside s = Blocked"
| "caller_advance Join_wait s =
     (if \<not> (info_live s \<and> done_live s) then Fault
      else if done_given s then Next Join_test (s\<lparr>done_given := False\<rparr>) else Blocked)"
| "caller_advance Join_test s = next_if (info_live s) (if task_set s then Join_cleanup else Join_free_tcb) s"
| "caller_advance Join_cleanup s = next_if (info_live s \<and> handle_ok s) Join_delete s"
| "caller_advance Join_delete s = next_if (info_live s \<and> handle_ok s) Join_free_tcb (s\<lparr>task_alive := False\<rparr>)"
| "caller_advance Join_free_tcb s =
     next_if (info_live s \<and> (static_stack s \<longrightarrow> tcb_live s)) Join_free_done (s\<lparr>tcb_live := False\<rparr>)"
| "caller_advance Join_free_done s = next_if (info_live s \<and> done_live s) Join_free_info (s\<lparr>done_live := False\<rparr>)"
| "caller_advance Join_free_info s = next_if (info_live s) Outside (s\<lparr>info_live := False\<rparr>)"
| "caller_advance Cancel_test s = next_if (info_live s) (if task_set s then Cancel_clear else Outside) s"
| "caller_advance Cancel_clear s = next_if (info_live s) Cancel_give (s\<lparr>task_set := False\<rparr>)"
| "caller_advance Cancel_give s = next_if (info_live s \<and> done_live s) Cancel_suspend (s\<lparr>done_given := True\<rparr>)"
| "caller_advance Cancel_suspend s = next_if (handle_ok s) Cancel_cleanup (s\<lparr>task_suspended := True\<rparr>)"
| "caller_advance Cancel_cleanup s = next_if (handle_ok s) Cancel_delete s"
| "caller_advance Cancel_delete s = next_if (handle_ok s) Outside (s\<lparr>task_alive := False\<rparr>)"

fun first_point :: "call \<Rightarrow> caller_point" where
  "first_point Join = Join_wait"
| "first_point Cancel = Cancel_test"

text \<open>\<open>pthread_x5h_entry_\<close>, the code of the thread. It runs while the kernel has the task and it is not
  suspended; \<open>None\<close> is a fault.\<close>

definition thread_runs :: "thread_sys \<Rightarrow> bool" where
  "thread_runs s \<longleftrightarrow> task_alive s \<and> \<not> task_suspended s \<and> thread_at s \<noteq> Parked"

definition pthread_x5h_entry :: "thread_sys \<Rightarrow> thread_sys option" where
  "pthread_x5h_entry s =
     (if static_stack s \<and> \<not> tcb_live s then None
      else case thread_at s of
        In_entry \<Rightarrow> Some (s\<lparr>thread_at := After_entry\<rparr>)
      | After_entry \<Rightarrow>
          if info_live s \<and> done_live s then Some (s\<lparr>done_given := True, thread_at := Done_given\<rparr>) else None
      | Done_given \<Rightarrow> Some (s\<lparr>task_suspended := True, thread_at := Parked\<rparr>)
      | Parked \<Rightarrow> Some s)"

text \<open>Any task takes its next step. The function of the thread may run for ever: it need not take the step out of
  \<open>In_entry\<close>.\<close>

inductive pstep :: "thread_sys \<Rightarrow> thread_sys \<Rightarrow> bool" where
  call: "callers s c = (k # ks, Outside) \<Longrightarrow> pstep s (s\<lparr>callers := (callers s)(c := (ks, first_point k))\<rparr>)"
| caller: "callers s c = (ks, pt) \<Longrightarrow> caller_advance pt s = Next pt' s' \<Longrightarrow>
    pstep s (s'\<lparr>callers := (callers s)(c := (ks, pt'))\<rparr>)"
| thread: "thread_runs s \<Longrightarrow> pthread_x5h_entry s = Some s' \<Longrightarrow> pstep s s'"

definition may_fault :: "thread_sys \<Rightarrow> bool" where
  "may_fault s \<longleftrightarrow>
     (\<exists>c. caller_advance (snd (callers s c)) s = Fault) \<or> (thread_runs s \<and> pthread_x5h_entry s = None)"

definition started_thread :: "stack_kind \<Rightarrow> (nat \<Rightarrow> call list) \<Rightarrow> thread_sys" where
  "started_thread k calls =
     \<lparr>static_stack = (k = Static_stack), info_live = True, tcb_live = (k = Static_stack), done_live = True,
      done_given = False, task_set = True, thread_at = In_entry, task_alive = True, task_suspended = False,
      callers = (\<lambda>c. (calls c, Outside))\<rparr>"

section \<open>The mutex\<close>

text \<open>
  The word of the mutex (\<open>None\<close> is \<open>PTHREAD_MUTEX_INITIALIZER\<close>), the task that holds each semaphore
  made so far, and the tasks inside the operations. The critical section is one step.
\<close>

datatype lock_point = Unlocked | Lock_test | Lock_create | Lock_load | Lock_take nat | Locked | Lock_failed | Unlock_give

record mutex_sys =
  mutex_word :: "nat option"
  holder :: "nat \<Rightarrow> nat option"
  made :: nat
  lockers :: "nat \<Rightarrow> lock_point"

text \<open>A step of \<open>pthread_mutex_lock\<close> or \<open>pthread_mutex_unlock\<close>; \<open>created\<close> is the answer of
  \<open>xSemaphoreCreateMutex\<close>. \<open>None\<close>: the task waits.\<close>

fun lock_advance :: "bool \<Rightarrow> nat \<Rightarrow> lock_point \<Rightarrow> mutex_sys \<Rightarrow> (lock_point \<times> mutex_sys) option" where
  "lock_advance created c Unlocked m = Some (Lock_test, m)"
| "lock_advance created c Lock_test m = Some (if mutex_word m = None then Lock_create else Lock_load, m)"
| "lock_advance created c Lock_create m =
     Some (Lock_load,
       if mutex_word m = None \<and> created
       then m\<lparr>mutex_word := Some (made m), made := made m + 1\<rparr> else m)"
| "lock_advance created c Lock_load m =
     Some (case mutex_word m of None \<Rightarrow> Lock_failed | Some s \<Rightarrow> Lock_take s, m)"
| "lock_advance created c (Lock_take s) m =
     (if holder m s = None then Some (Locked, m\<lparr>holder := (holder m)(s := Some c)\<rparr>) else None)"
| "lock_advance created c Locked m = Some (Unlock_give, m)"
| "lock_advance created c Unlock_give m =
     Some (Unlocked, case mutex_word m of None \<Rightarrow> m | Some s \<Rightarrow> m\<lparr>holder := (holder m)(s := None)\<rparr>)"
| "lock_advance created c Lock_failed m = Some (Lock_failed, m)"

inductive mutex_step :: "mutex_sys \<Rightarrow> mutex_sys \<Rightarrow> bool" where
  "lock_advance created c (lockers m c) m = Some (pt, m') \<Longrightarrow>
     mutex_step m (m'\<lparr>lockers := (lockers m)(c := pt)\<rparr>)"

definition fresh_mutex :: mutex_sys where
  "fresh_mutex = \<lparr>mutex_word = None, holder = (\<lambda>_. None), made = 0, lockers = (\<lambda>_. Unlocked)\<rparr>"

section \<open>\<open>usleep\<close>\<close>

text \<open>The ticks of the delay at \<open>hz\<close> ticks a second; \<open>None\<close> only yields.\<close>

definition usleep :: "u32 \<Rightarrow> u32 \<Rightarrow> u32 option" where
  "usleep hz useconds =
     (if useconds = 0 then None
      else
        let ticks = (ucast useconds * ucast hz + 999999 :: u64) div 1000000;
            ticks = (if ticks = 0 then 1 else ticks)
        in Some (ucast ticks))"

end
