(* ===== verification/Pthread_Properties.thy ===== *)
theory Pthread_Properties
  imports
    Pthread_Shim
begin

text \<open>
  What the thread shim guarantees to a task that uses it as POSIX asks, and what goes wrong otherwise.
\<close>

section \<open>Creation\<close>

text \<open>A thread that could not be created leaves nothing allocated, and one that was has exactly the blocks its
  join frees: the record, the semaphore and, on a given stack, the control block.\<close>

theorem failed_create_leaves_nothing:
  "if fst (pthread_create valid_args attr a) = 0
   then let c = snd (pthread_create valid_args attr a)
        in info_block c \<and> done_block c \<and> made_with c \<noteq> None \<and> (tcb_block c \<longleftrightarrow> made_with c = Some Static_stack)
   else pthread_create valid_args attr a = (- 1, nothing_created)"
  by (cases attr) (simp_all add: pthread_create_def nothing_created_def Let_def)

section \<open>Join and cancel\<close>

definition finished :: "thread_sys \<Rightarrow> bool" where
  "finished s \<longleftrightarrow> thread_at s = Done_given \<or> thread_at s = Parked"

definition blocks_live :: "thread_sys \<Rightarrow> bool" where
  "blocks_live s \<longleftrightarrow> info_live s \<and> done_live s \<and> (static_stack s \<longrightarrow> tcb_live s)"

text \<open>The thread as it was made, whatever of its code it has run.\<close>

definition untouched :: "thread_sys \<Rightarrow> bool" where
  "untouched s \<longleftrightarrow> blocks_live s \<and> task_set s \<and> task_alive s \<and> (done_given s \<longrightarrow> finished s)"

definition cancelled :: "thread_sys \<Rightarrow> bool" where
  "cancelled s \<longleftrightarrow> blocks_live s \<and> \<not> task_set s \<and> \<not> task_alive s \<and> done_given s"

definition released :: "thread_sys \<Rightarrow> bool" where
  "released s \<longleftrightarrow> \<not> info_live s \<and> \<not> done_live s \<and> \<not> tcb_live s \<and> \<not> task_alive s \<and> (task_set s \<longrightarrow> finished s)"

text \<open>What holds at the points of the only caller.\<close>

fun caller_ok :: "call list \<times> caller_point \<Rightarrow> thread_sys \<Rightarrow> bool" where
  "caller_ok (ks, Outside) s \<longleftrightarrow>
     ks = [Cancel, Join] \<and> untouched s \<or> ks = [Join] \<and> (untouched s \<or> cancelled s) \<or> ks = [] \<and> released s"
| "caller_ok (ks, Join_wait) s \<longleftrightarrow> ks = [] \<and> (untouched s \<or> cancelled s)"
| "caller_ok (ks, Join_test) s \<longleftrightarrow> ks = [] \<and> blocks_live s
     \<and> (if task_set s then task_alive s \<and> finished s else \<not> task_alive s)"
| "caller_ok (ks, Join_cleanup) s \<longleftrightarrow> ks = [] \<and> blocks_live s \<and> task_set s \<and> task_alive s \<and> finished s"
| "caller_ok (ks, Join_delete) s \<longleftrightarrow> ks = [] \<and> blocks_live s \<and> task_set s \<and> task_alive s \<and> finished s"
| "caller_ok (ks, Join_free_tcb) s \<longleftrightarrow> ks = [] \<and> blocks_live s \<and> \<not> task_alive s \<and> (task_set s \<longrightarrow> finished s)"
| "caller_ok (ks, Join_free_done) s \<longleftrightarrow>
     ks = [] \<and> info_live s \<and> done_live s \<and> \<not> tcb_live s \<and> \<not> task_alive s \<and> (task_set s \<longrightarrow> finished s)"
| "caller_ok (ks, Join_free_info) s \<longleftrightarrow>
     ks = [] \<and> info_live s \<and> \<not> done_live s \<and> \<not> tcb_live s \<and> \<not> task_alive s \<and> (task_set s \<longrightarrow> finished s)"
| "caller_ok (ks, Cancel_test) s \<longleftrightarrow> ks = [Join] \<and> untouched s"
| "caller_ok (ks, Cancel_clear) s \<longleftrightarrow> ks = [Join] \<and> untouched s"
| "caller_ok (ks, Cancel_give) s \<longleftrightarrow> ks = [Join] \<and> blocks_live s \<and> \<not> task_set s \<and> task_alive s"
| "caller_ok (ks, Cancel_suspend) s \<longleftrightarrow> ks = [Join] \<and> blocks_live s \<and> \<not> task_set s \<and> task_alive s \<and> done_given s"
| "caller_ok (ks, Cancel_cleanup) s \<longleftrightarrow>
     ks = [Join] \<and> blocks_live s \<and> \<not> task_set s \<and> task_alive s \<and> done_given s \<and> task_suspended s"
| "caller_ok (ks, Cancel_delete) s \<longleftrightarrow>
     ks = [Join] \<and> blocks_live s \<and> \<not> task_set s \<and> task_alive s \<and> done_given s \<and> task_suspended s"

definition single_ok :: "thread_sys \<Rightarrow> bool" where
  "single_ok s \<longleftrightarrow> caller_ok (callers s 0) s \<and> (\<forall>c. c \<noteq> 0 \<longrightarrow> callers s c = ([], Outside))
    \<and> (thread_at s = Parked \<longrightarrow> task_suspended s)"

lemma caller_ok_callers [simp]: "caller_ok x (s\<lparr>callers := f\<rparr>) = caller_ok x s"
  by (cases "(x, s)" rule: caller_ok.cases)
    (auto simp: untouched_def cancelled_def released_def blocks_live_def finished_def)

lemmas state_defs = untouched_def cancelled_def released_def blocks_live_def finished_def handle_ok_def

lemma caller_ok_advance:
  assumes "caller_ok (ks, pt) s" and "caller_advance pt s = Next pt' s'"
  shows "caller_ok (ks, pt') s' \<and> thread_at s' = thread_at s \<and> (task_suspended s \<longrightarrow> task_suspended s')"
  using assms by (cases pt) (auto simp: next_if_def state_defs split: if_splits)

lemma caller_ok_no_fault: "caller_ok (ks, pt) s \<Longrightarrow> caller_advance pt s \<noteq> Fault"
  by (cases pt) (auto simp: next_if_def state_defs)

text \<open>What the thread changes: it gets further, releases \<open>done\<close> when it is finished, and suspends itself.\<close>

lemma caller_ok_thread:
  assumes "caller_ok (ks, pt) s"
    and "info_live s' = info_live s" "done_live s' = done_live s" "tcb_live s' = tcb_live s"
      "static_stack s' = static_stack s" "task_set s' = task_set s" "task_alive s' = task_alive s"
    and "done_given s \<Longrightarrow> done_given s'" and "task_suspended s \<Longrightarrow> task_suspended s'" and "finished s \<Longrightarrow> finished s'"
    and "done_given s' \<Longrightarrow> done_given s \<or> finished s'"
  shows "caller_ok (ks, pt) s'"
proof -
  have blocks: "blocks_live s' = blocks_live s"
    using assms(2-5) by (simp add: blocks_live_def)
  have "untouched s \<Longrightarrow> untouched s'" "cancelled s \<Longrightarrow> cancelled s'" "released s \<Longrightarrow> released s'"
    using assms(2-) blocks by (auto simp: untouched_def cancelled_def released_def)
  then show ?thesis
    using assms blocks by (cases pt) (simp_all split: if_splits, blast+)
qed

lemma thread_ok:
  assumes "caller_ok (ks, pt) s" and "thread_runs s"
  shows "\<exists>s'. pthread_x5h_entry s = Some s' \<and> caller_ok (ks, pt) s' \<and> callers s' = callers s
    \<and> (thread_at s' = Parked \<longrightarrow> task_suspended s')"
proof -
  have live: "blocks_live s"
    using assms by (cases pt) (auto simp: thread_runs_def untouched_def cancelled_def released_def split: if_splits)
  have "thread_at s \<noteq> Parked"
    using assms(2) by (simp add: thread_runs_def)
  then obtain s' where s': "pthread_x5h_entry s = Some s'"
    using live by (cases "thread_at s") (simp_all add: pthread_x5h_entry_def blocks_live_def)
  then have frame: "info_live s' = info_live s" "done_live s' = done_live s" "tcb_live s' = tcb_live s"
    "static_stack s' = static_stack s" "task_set s' = task_set s" "task_alive s' = task_alive s" "callers s' = callers s"
    and progress: "done_given s \<Longrightarrow> done_given s'" "task_suspended s \<Longrightarrow> task_suspended s'" "finished s \<Longrightarrow> finished s'"
      "done_given s' \<Longrightarrow> done_given s \<or> finished s'" "thread_at s' = Parked \<Longrightarrow> task_suspended s'"
    using \<open>thread_at s \<noteq> Parked\<close>
    by (cases "thread_at s"; auto simp: pthread_x5h_entry_def finished_def split: if_splits)+
  then show ?thesis
    using caller_ok_thread [OF assms(1) frame(1-6)] s' by blast
qed

lemma single_ok_step:
  assumes "pstep s s'" and "single_ok s"
  shows "single_ok s'"
  using assms(1)
proof cases
  case (call c k ks)
  have c0: "c = 0"
    using assms(2) call(2) by (cases "c = 0") (simp_all add: single_ok_def)
  then have c: "c = 0" "caller_ok (k # ks, Outside) s"
    using assms(2) call(2) by (simp_all add: single_ok_def)
  then have "caller_ok (ks, first_point k) s"
    by auto
  then show ?thesis
    using assms(2) c call(1) by (simp add: single_ok_def)
next
  case (caller c ks pt pt' s1)
  have "c = 0"
    using assms(2) caller(2,3) by (cases "c = 0") (auto simp: single_ok_def)
  then have "caller_ok (ks, pt) s"
    using assms(2) caller(2) by (simp add: single_ok_def)
  from caller_ok_advance [OF this caller(3)] show ?thesis
    using assms(2) caller(1,2) \<open>c = 0\<close> by (auto simp: single_ok_def)
next
  case thread
  obtain ks pt where c: "callers s 0 = (ks, pt)" by fastforce
  from thread_ok [of ks pt s] show ?thesis
    using assms(2) thread c by (auto simp: single_ok_def)
qed

lemma single_ok_reachable: "pstep\<^sup>*\<^sup>* s s' \<Longrightarrow> single_ok s \<Longrightarrow> single_ok s'"
  by (induction rule: rtranclp_induct) (auto intro: single_ok_step)

lemma single_ok_no_fault: "single_ok s \<Longrightarrow> \<not> may_fault s"
proof
  assume ok: "single_ok s" and "may_fault s"
  then consider c where "caller_advance (snd (callers s c)) s = Fault" | "thread_runs s" "pthread_x5h_entry s = None"
    by (auto simp: may_fault_def)
  then show False
  proof cases
    case 1
    obtain ks pt where c: "callers s c = (ks, pt)" by fastforce
    show False
    proof (cases "c = 0")
      case True
      then show False
        using ok c 1 caller_ok_no_fault [of ks pt s] by (simp add: single_ok_def)
    next
      case False
      then show False
        using ok 1 by (simp add: single_ok_def)
    qed
  next
    case 2
    obtain ks pt where c: "callers s 0 = (ks, pt)" by fastforce
    then show False
      using ok 2 thread_ok [of ks pt s] by (auto simp: single_ok_def)
  qed
qed

text \<open>One task that joins the thread, or cancels and then joins it.\<close>

definition one_caller :: "call list \<Rightarrow> nat \<Rightarrow> call list" where
  "one_caller ks c = (if c = 0 then ks else [])"

lemma single_ok_started: "ks \<in> {[Join], [Cancel, Join]} \<Longrightarrow> single_ok (started_thread k (one_caller ks))"
  by (auto simp: single_ok_def started_thread_def one_caller_def state_defs)

text \<open>C20. Join, and cancel followed by join, are safe wherever the thread is interrupted: no freed memory is touched, nothing is
  freed twice, no deleted task is used, and when the caller is through everything the creation allocated is freed. A join
  without a cancel returns only when the function of the thread has ended.\<close>

theorem join_and_cancel_are_safe:
  assumes "ks \<in> {[Join], [Cancel, Join]}" and "pstep\<^sup>*\<^sup>* (started_thread k (one_caller ks)) s"
  shows "\<not> may_fault s \<and> (callers s 0 = ([], Outside) \<longrightarrow>
    \<not> info_live s \<and> \<not> done_live s \<and> \<not> tcb_live s \<and> \<not> task_alive s \<and> (task_set s \<longrightarrow> finished s))"
proof -
  have ok: "single_ok s"
    by (rule single_ok_reachable [OF assms(2) single_ok_started [OF assms(1)]])
  then show ?thesis
    using single_ok_no_fault [OF ok] by (auto simp: single_ok_def released_def)
qed

text \<open>The steps the caller has left.\<close>

fun point_left :: "caller_point \<Rightarrow> nat" where
  "point_left Outside = 0"
| "point_left Join_free_info = 1" | "point_left Join_free_done = 2" | "point_left Join_free_tcb = 3"
| "point_left Join_delete = 4" | "point_left Join_cleanup = 5" | "point_left Join_test = 6" | "point_left Join_wait = 7"
| "point_left Cancel_delete = 1" | "point_left Cancel_cleanup = 2" | "point_left Cancel_suspend = 3"
| "point_left Cancel_give = 4" | "point_left Cancel_clear = 5" | "point_left Cancel_test = 6"

definition caller_left :: "call list \<times> caller_point \<Rightarrow> nat" where
  "caller_left x = 8 * length (fst x) + point_left (snd x)"

text \<open>The task field is set until the cancellation clears it.\<close>

definition stop_ok :: "thread_sys \<Rightarrow> bool" where
  "stop_ok s \<longleftrightarrow> single_ok s
     \<and> (task_set s \<longrightarrow> callers s 0 = ([Cancel, Join], Outside) \<or> snd (callers s 0) \<in> {Cancel_test, Cancel_clear})"

lemma advance_task_set:
  "caller_advance pt s = Next pt' s' \<Longrightarrow> task_set s' \<Longrightarrow> task_set s \<and> (pt = Cancel_test \<longrightarrow> pt' = Cancel_clear) \<and> pt \<noteq> Cancel_clear"
  by (cases pt) (auto simp: next_if_def split: if_splits)

lemma entry_task_set: "pthread_x5h_entry s = Some s' \<Longrightarrow> task_set s' = task_set s \<and> callers s' = callers s"
  by (cases "thread_at s") (auto simp: pthread_x5h_entry_def split: if_splits)

lemma stop_ok_step:
  assumes "pstep s s'" and "stop_ok s"
  shows "stop_ok s'"
proof -
  have ok: "single_ok s'" "single_ok s"
    using single_ok_step assms by (auto simp: stop_ok_def)
  from assms(1) show ?thesis
  proof cases
    case (call c k ks)
    have "c = 0"
      using ok(2) call(2) by (cases "c = 0") (simp_all add: single_ok_def)
    then show ?thesis
      using assms(2) ok(1) call by (auto simp: stop_ok_def)
  next
    case (caller c ks pt pt' s1)
    have "c = 0"
      using ok(2) caller(2,3) by (cases "c = 0") (auto simp: single_ok_def)
    have "snd (callers s' 0) \<in> {Cancel_test, Cancel_clear}" if "task_set s'"
    proof -
      have t: "task_set s1"
        using that caller(1) by simp
      note adv = advance_task_set [OF caller(3) t]
      have "pt = Cancel_test"
        using assms(2) adv caller(2,3) \<open>c = 0\<close> by (auto simp: stop_ok_def)
      then show ?thesis
        using adv caller(1) \<open>c = 0\<close> by simp
    qed
    then show ?thesis
      using ok(1) by (simp add: stop_ok_def)
  next
    case thread
    then show ?thesis
      using entry_task_set [OF thread(2)] assms(2) ok(1) by (simp add: stop_ok_def)
  qed
qed

lemma stop_ok_moves:
  assumes "stop_ok s" and "callers s 0 \<noteq> ([], Outside)"
  shows "\<exists>s'. pstep s s' \<and> caller_left (callers s' 0) < caller_left (callers s 0)"
proof -
  obtain ks pt where c: "callers s 0 = (ks, pt)" by fastforce
  have ok: "caller_ok (ks, pt) s"
    using assms(1) c by (simp add: stop_ok_def single_ok_def)
  show ?thesis
  proof (cases "pt = Outside")
    case True
    then obtain k ks' where ks: "ks = k # ks'"
      using assms(2) c by (cases ks) auto
    have "pstep s (s\<lparr>callers := (callers s)(0 := (ks', first_point k))\<rparr>)"
      using c True ks by (intro pstep.call) simp
    moreover have "point_left (first_point k) < 8"
      by (cases k) simp_all
    ultimately show ?thesis
      using c True ks by (intro exI [of _ "s\<lparr>callers := (callers s)(0 := (ks', first_point k))\<rparr>"]) (auto simp: caller_left_def)
  next
    case False
    have "pt = Join_wait \<Longrightarrow> done_given s"
      using assms(1) ok c by (auto simp: stop_ok_def cancelled_def untouched_def)
    then obtain pt' s1 where adv: "caller_advance pt s = Next pt' s1" "point_left pt' < point_left pt"
      using caller_ok_no_fault [OF ok] False by (cases pt) (auto simp: next_if_def split: if_splits)
    then have "pstep s (s1\<lparr>callers := (callers s)(0 := (ks, pt'))\<rparr>)"
      using c by (intro pstep.caller)
    then show ?thesis
      using adv(2) c by (intro exI [of _ "s1\<lparr>callers := (callers s)(0 := (ks, pt'))\<rparr>"]) (simp add: caller_left_def)
  qed
qed

text \<open>A stop ends: from every reachable point of a cancel followed by a join the caller can take its next step, without
  waiting for the thread, whatever that does, and each of its steps brings it closer to the end.\<close>

theorem stop_never_waits:
  assumes "pstep\<^sup>*\<^sup>* (started_thread k (one_caller [Cancel, Join])) s" and "callers s 0 \<noteq> ([], Outside)"
  shows "\<exists>s'. pstep s s' \<and> caller_left (callers s' 0) < caller_left (callers s 0)"
proof -
  have "stop_ok (started_thread k (one_caller [Cancel, Join]))"
    using single_ok_started [of "[Cancel, Join]" k] by (simp add: stop_ok_def started_thread_def one_caller_def)
  with assms(1) have "stop_ok s"
    by (induction rule: rtranclp_induct) (auto intro: stop_ok_step)
  then show ?thesis
    by (rule stop_ok_moves [OF _ assms(2)])
qed

section \<open>What goes wrong\<close>

text \<open>The callers take their steps in the given order.\<close>

fun schedule :: "nat list \<Rightarrow> thread_sys \<Rightarrow> thread_sys option" where
  "schedule [] s = Some s"
| "schedule (c # cs) s =
     (case callers s c of
        (ks, pt) \<Rightarrow>
          (case caller_advance pt s of
             Next pt' s' \<Rightarrow> schedule cs (s'\<lparr>callers := (callers s)(c := (ks, pt'))\<rparr>)
           | Fault \<Rightarrow> None
           | Blocked \<Rightarrow>
               (case (ks, pt) of
                  (k # ks, Outside) \<Rightarrow> schedule cs (s\<lparr>callers := (callers s)(c := (ks, first_point k))\<rparr>)
                | _ \<Rightarrow> None)))"

lemma schedule_steps: "schedule cs s = Some s' \<Longrightarrow> pstep\<^sup>*\<^sup>* s s'"
proof (induction cs arbitrary: s)
  case (Cons c cs)
  obtain ks pt where c: "callers s c = (ks, pt)" by fastforce
  obtain s1 where "pstep s s1" "schedule cs s1 = Some s'"
  proof (cases "caller_advance pt s")
    case Blocked
    obtain k ks' where k: "ks = k # ks'" "pt = Outside"
      using Cons.prems c Blocked by (cases ks; cases pt) auto
    show thesis
      by (rule that [of "s\<lparr>callers := (callers s)(c := (ks', first_point k))\<rparr>"])
        (use c k Cons.prems in \<open>auto intro: pstep.call\<close>)
  next
    case (Next pt' s1)
    show thesis
      by (rule that [of "s1\<lparr>callers := (callers s)(c := (ks, pt'))\<rparr>"])
        (use c Next Cons.prems in \<open>auto intro: pstep.caller\<close>)
  qed (use Cons.prems c in simp)
  then show ?case
    using Cons.IH by (blast intro: converse_rtranclp_into_rtranclp)
qed simp

lemma schedule_faults:
  assumes "case schedule cs s of None \<Rightarrow> False | Some s' \<Rightarrow> caller_advance (snd (callers s' c)) s' = Fault"
  shows "\<exists>s'. pstep\<^sup>*\<^sup>* s s' \<and> may_fault s'"
  using assms schedule_steps by (auto simp: may_fault_def split: option.splits)

text \<open>A cancel is not safe against a join of another task: the cancel releases \<open>done\<close> before it suspends the thread, so that
  the join can free the control block and the record first; the cancel then suspends a task that no longer exists.\<close>

theorem concurrent_cancel_uses_freed_task:
  "\<exists>s. pstep\<^sup>*\<^sup>* (started_thread Static_stack (\<lambda>c. if c = 0 then [Join] else if c = 1 then [Cancel] else [])) s \<and> may_fault s"
  by (rule schedule_faults [where cs = "[0, 1, 1, 1, 1, 0, 0, 0]" and c = 1])
    (simp add: started_thread_def next_if_def handle_ok_def)


section \<open>The mutex\<close>

definition holds_mutex :: "lock_point \<Rightarrow> bool" where
  "holds_mutex pt \<longleftrightarrow> pt = Locked \<or> pt = Unlock_give"

definition mutex_ok :: "mutex_sys \<Rightarrow> bool" where
  "mutex_ok m \<longleftrightarrow> (mutex_word m = None \<and> made m = 0 \<or> mutex_word m = Some 0 \<and> made m = 1)
     \<and> (\<forall>c s. lockers m c = Lock_take s \<longrightarrow> s = 0 \<and> mutex_word m = Some 0)
     \<and> (\<forall>c. holds_mutex (lockers m c) \<longrightarrow> holder m 0 = Some c \<and> mutex_word m = Some 0)"

lemma mutex_ok_step:
  assumes "mutex_step m m'" and "mutex_ok m"
  shows "mutex_ok m'"
  using assms(1)
proof cases
  case (1 created c pt m1)
  note ok = assms(2) [unfolded mutex_ok_def]
  show ?thesis
    using 1(2) ok unfolding 1(1) mutex_ok_def
    by (cases "lockers m c") (auto simp: holds_mutex_def split: option.splits if_splits, (metis option.distinct(1) option.inject)+)
qed

text \<open>The mutex excludes: whatever the order in which tasks lock it first, one semaphore is made, and no two tasks hold
  it at once.\<close>

theorem mutex_excludes:
  assumes "mutex_step\<^sup>*\<^sup>* fresh_mutex m" and "holds_mutex (lockers m c)" and "holds_mutex (lockers m d)"
  shows "c = d \<and> made m = 1"
proof -
  have "mutex_ok fresh_mutex"
    by (simp add: mutex_ok_def fresh_mutex_def holds_mutex_def)
  with assms(1) have "mutex_ok m"
    by (induction rule: rtranclp_induct) (auto intro: mutex_ok_step)
  then show ?thesis
    using assms(2,3) unfolding mutex_ok_def by (metis option.distinct(1) option.inject)
qed

section \<open>\<open>usleep\<close>\<close>

text \<open>A sleep is never too short: at up to a million ticks a second, the ticks that are waited last at least as
  long as asked, and one tick less would not.\<close>

theorem usleep_is_long_enough:
  assumes "usleep hz useconds = Some ticks" and "0 < hz" and "hz \<le> 1000000"
  shows "unat useconds * unat hz \<le> unat ticks * 1000000 \<and> (unat ticks - 1) * 1000000 < unat useconds * unat hz"
proof -
  let ?p = "unat useconds * unat hz"
  have bounds: "unat useconds < 2 ^ 32" "unat hz \<le> 1000000" "0 < unat hz" "0 < unat useconds"
    using unsigned_less [of useconds, where 'a = nat] assms
    by (auto simp: usleep_def word_le_nat_alt unat_gt_0 word_neq_0_conv [symmetric] split: if_splits)
  have p: "0 < ?p" "?p \<le> 2 ^ 32 * 1000000" "?p \<le> unat useconds * 1000000"
    using bounds mult_le_mono [of "unat useconds" "2 ^ 32" "unat hz" 1000000] by simp_all
  let ?t = "(ucast useconds * ucast hz + 999999 :: u64) div 1000000"
  have wide: "unat (ucast x :: u64) = unat x" for x :: u32
    using unsigned_less [of x, where 'a = nat] by (simp add: unsigned_ucast_eq take_bit_eq_mod)
  have "unat (ucast useconds * ucast hz :: u64) = ?p"
    using p(2) by (simp add: unat_word_ariths wide)
  then have t: "unat ?t = (?p + 999999) div 1000000"
    using p(2) by (simp add: unat_div unat_word_ariths)
  have "(?p + 999999) div 1000000 \<noteq> 0"
    using p(1) by (simp add: div_eq_0_iff)
  then have "?t \<noteq> 0"
    using t by (metis unat_0)
  then have "ticks = ucast ?t"
    using assms(1) bounds(4) by (auto simp: usleep_def Let_def split: if_splits)
  moreover have "(?p + 999999) div 1000000 < 2 ^ 32"
    using p(3) bounds(1) by linarith
  ultimately have "unat ticks = (?p + 999999) div 1000000"
    using t by (simp add: unsigned_ucast_eq take_bit_eq_mod)
  then show ?thesis
    using p(1) by (intro conjI) linarith+
qed


section \<open>The properties on runs\<close>

lemma join_and_cancel_are_safe_witness:
  "\<exists>s. pstep\<^sup>*\<^sup>* (started_thread Static_stack (one_caller [Cancel, Join])) s \<and> callers s 0 = ([], Outside)
    \<and> \<not> may_fault s \<and> \<not> tcb_live s"
proof -
  have "\<exists>s. schedule (replicate 13 0) (started_thread Static_stack (one_caller [Cancel, Join])) = Some s \<and> callers s 0 = ([], Outside)"
    by (simp add: started_thread_def one_caller_def next_if_def handle_ok_def numeral_eq_Suc)
  then obtain s where s: "pstep\<^sup>*\<^sup>* (started_thread Static_stack (one_caller [Cancel, Join])) s" "callers s 0 = ([], Outside)"
    using schedule_steps by blast
  with join_and_cancel_are_safe [OF _ s(1)] show ?thesis
    by blast
qed

lemma stop_never_waits_witness:
  "\<exists>s'. pstep (started_thread Dynamic_stack (one_caller [Cancel, Join])) s'
    \<and> caller_left (callers s' 0) < caller_left (callers (started_thread Dynamic_stack (one_caller [Cancel, Join])) 0)"
  by (rule stop_never_waits [where k = Dynamic_stack]) (simp_all add: started_thread_def one_caller_def)

fun lock_schedule :: "nat list \<Rightarrow> mutex_sys \<Rightarrow> mutex_sys option" where
  "lock_schedule [] m = Some m"
| "lock_schedule (c # cs) m =
     (case lock_advance True c (lockers m c) m of
        None \<Rightarrow> None
      | Some (pt, m') \<Rightarrow> lock_schedule cs (m'\<lparr>lockers := (lockers m)(c := pt)\<rparr>))"

lemma lock_schedule_steps: "lock_schedule cs m = Some m' \<Longrightarrow> mutex_step\<^sup>*\<^sup>* m m'"
  by (induction cs arbitrary: m)
    (auto split: option.splits intro: mutex_step.intros converse_rtranclp_into_rtranclp)

text \<open>Two tasks lock a new mutex at the same time; the second waits.\<close>

lemma mutex_excludes_witness:
  "\<exists>m. mutex_step\<^sup>*\<^sup>* fresh_mutex m \<and> lockers m 3 = Locked \<and> lockers m 5 = Lock_take 0 \<and> made m = 1"
proof -
  have "\<exists>m. lock_schedule [3, 5, 3, 5, 3, 5, 3, 5, 3] fresh_mutex = Some m \<and> lockers m 3 = Locked \<and> lockers m 5 = Lock_take 0"
    by (simp add: fresh_mutex_def)
  then obtain m where m: "mutex_step\<^sup>*\<^sup>* fresh_mutex m" "lockers m 3 = Locked" "lockers m 5 = Lock_take 0"
    using lock_schedule_steps by blast
  with mutex_excludes [OF m(1), of 3 3] show ?thesis
    by (auto simp: holds_mutex_def)
qed

text \<open>A pause of a millisecond and a half at 1000 ticks a second.\<close>

lemma usleep_is_long_enough_witness:
  "\<exists>ticks. usleep 1000 1500 = Some ticks \<and> 1500 * 1000 \<le> unat ticks * 1000000"
proof -
  obtain ticks where t: "usleep 1000 1500 = Some ticks"
    by (auto simp: usleep_def Let_def)
  from usleep_is_long_enough [OF this] show ?thesis
    using t by simp
qed

end
