(* ===== verification/Spec2Isabelle.thy ===== *)
theory Spec2Isabelle
  imports Controller_Sample Can_Properties Vp_Properties Supervision_Properties
    Longitudinal_Properties Trajectory_Properties Lateral_Reference
    Interpolation_Properties Emutls_Properties Node_Timer_Properties Dds_Setup
    Rpmsg_Properties Pthread_Properties
begin

text \<open>
  The actuation module of the Autoware Safety Island (\<open>src/actuation_module\<close>): a control node
  that follows a trajectory, or passes on the commands of VisionPilot, and supervises what it
  sends to the vehicle.

  How the program is put together. One process runs a node (\<open>controller_node.cpp\<close>). Its
  subscriber callbacks store the latest odometry, acceleration, steering report, operation mode
  and candidate (an Autoware trajectory, a VisionPilot driving reference or a VisionPilot
  command), and note the time of arrival of each source. A timer runs every control period: it
  latches a fault when a source is stale, the fault channel reports one or an output leaves the
  actuation envelope, clears the latch only for an operator, runs the lateral and the
  longitudinal controller on the stored data, and publishes one approved request: a normal one,
  a hold or a stop. The request also leaves as a legacy message and on CAN.

  Numbers. \<open>Doubles\<close> models \<open>double\<close> and \<open>float\<close> values: exact reals with the range of the
  format, the infinities and NaN, the comparisons and the library functions of C++. The rounding
  of a finite result and the sign of zero are not modelled. Integers are kept at their width
  (\<open>Prelude\<close>); indices are natural numbers, and where the code subtracts from a \<open>size_t\<close> the
  wrap-around of the 32-bit targets is written out (\<open>size_sub\<close>). \<open>Messages\<close> has the DDS
  messages, \<open>Clock_Time\<close> the conversions of \<open>common/clock/clock.hpp\<close>. Every reading of a clock
  is an argument of the handler that makes it.

  Supervision. \<open>Supervision\<close> holds the primitives of \<open>supervision_latch.hpp\<close> and
  \<open>supervision.hpp\<close> (latch, re-enable request, arrival watch, stop ramp, envelope, decisions);
  \<open>Candidate_Identity\<close> the replay gates of \<open>candidate_identity.hpp\<close> over the ring buffers of
  \<open>Ring\<close>; \<open>Staleness_Gate\<close> the two-threshold gate; \<open>Startup_Config\<close> the environment variables;
  \<open>Si_Channel\<close> the fault channel of \<open>si_channel.c\<close>. Their properties are in
  \<open>Supervision_Properties\<close>: the gates implement their specification over the whole accepted
  history, the start-up accepts exactly the documented values, the gate's edges are spaced.

  The node. \<open>Controller_State\<close> has its configuration, state and constructor, \<open>Controller_Node\<close>
  the handlers of \<open>controller_node.cpp\<close>, \<open>Controller_Callbacks\<close> the subscriber callbacks and the
  step relation of events; the two controllers are a parameter of the tick (\<open>Follower_Base\<close>).
  \<open>Controller_Facts\<close> describes one tick, \<open>Controller_Properties\<close> what the node promises: one
  numbered request per tick, normal outputs inside the envelope, no output on a stale source, a
  latch only an operator releases, a stop payload that never speeds up. \<open>Controller_Sample\<close>
  applies the properties to sample configurations.

  VisionPilot. \<open>Vp_Reference\<close> is the conversion of a driving reference into a trajectory
  (\<open>vp_reference.hpp\<close>); \<open>Vp_Reference_Facts\<close>, \<open>Vp_Convert\<close> and \<open>Vp_Properties\<close> show what the
  result contains. The sampling of the path runs with fuel \<open>path_fuel\<close>, 27 steps: a step
  advances by one metre and the extent is capped at 25 m, so that more fuel changes nothing,
  which is proved.

  CAN. \<open>Can_Encoder\<close>, \<open>Can_Output\<close> and \<open>Can_Tunnel\<close> are the headers under \<open>common/can\<close>;
  \<open>Can_Properties\<close> has the round trips, the error cases and the sequence numbers.

  The longitudinal controller. \<open>Geometry\<close> (of \<open>autoware_universe_utils\<close> and
  \<open>autoware_interpolation\<close>), \<open>Trajectory_Utils\<close> (\<open>autoware_motion_utils\<close>) and
  \<open>Longitudinal_Utils\<close> are the functions it computes with; \<open>Pid_Controller\<close> and \<open>Smooth_Stop\<close>
  its parts; \<open>Longitudinal_State\<close> its members and constructor, \<open>Longitudinal_Controller\<close> and
  \<open>Longitudinal_Command\<close> the operations of \<open>pid_longitudinal_controller.cpp\<close>. A function that
  can throw, call \<open>exit\<close> or run into undefined behaviour returns an option, \<open>None\<close> for that.
  \<open>Longitudinal_Facts\<close> and \<open>Longitudinal_Run\<close> take a run apart; \<open>Longitudinal_Limits\<close> and
  \<open>Longitudinal_Invariants\<close> prove four invariants of every sequence of calls through one locale;
  \<open>Longitudinal_Properties\<close> and \<open>Trajectory_Properties\<close> state what follows: a run never fails,
  commands stay within the limits and within the plan, the control state follows its diagram,
  and what a NaN does. \<open>Longitudinal_Sample\<close> holds the shipped parameters.

  The lateral controller (\<open>autoware_mpc_lateral_controller\<close>). \<open>Interpolation\<close> and
  \<open>Spline_Interpolation\<close> are the tables of \<open>autoware_interpolation\<close>; their functions end the
  process on invalid keys (the outer \<open>None\<close>) or throw (the inner one). \<open>Mpc_Filters\<close> and \<open>Steering\<close>
  hold the Butterworth filter, the moving average, the steering predictor and the offset
  estimator, \<open>Vehicle_Info\<close> the vehicle's dimensions. \<open>Mpc_Trajectory\<close>, \<open>Mpc_Utils\<close> and
  \<open>Mpc_Path\<close> are the trajectories of eight vectors and \<open>mpc_utils.cpp\<close>; the two loops that
  sample a path run as long as the step makes them, and are partial functions whose \<open>None\<close> is a
  loop that does not end. \<open>Vehicle_Model\<close> has the three bicycle models, \<open>Mpc\<close> the state of the
  class \<open>MPC\<close> and the preparation of the reference, \<open>Mpc_Solve\<close> the prediction matrices, the
  cost and the solver, \<open>Mpc_Calculate\<close> the cycle that puts them together.
  \<open>Lateral_Controller\<close> and \<open>Lateral_Construct\<close> are \<open>mpc_lateral_controller.cpp\<close>: the buffers,
  the stop state, \<open>run\<close> and the constructor. \<open>Lateral_Buffer\<close>, \<open>Lateral_Facts\<close>, \<open>Lateral_Run\<close>,
  \<open>Mpc_Facts\<close> and \<open>Lateral_Exit\<close> take a cycle apart; a locale carries what one run keeps to
  every sequence of runs. \<open>Interpolation_Properties\<close>, \<open>Lateral_Properties\<close> and
  \<open>Lateral_Reference\<close> state what follows: the commanded angle stays within the vehicle's limit
  and passes the node's check, the reference is well formed and ends at rest, the buffer of
  trajectories spans a window, an unsolved cycle holds the steering; and what is wrong: a
  repeated point ends the process, the optimisation uses no constraint, the history of commands
  is trimmed by half. \<open>Lateral_Sample\<close> holds the shipped parameters and matrices to apply them to.

  The thread of the node. \<open>Node_Timer\<close> has the timer, the parameters, the subscriptions and the
  loop of \<open>common/node\<close> and \<open>common/dds\<close> that turns clock readings and samples into the events of
  the controller; \<open>Node_Timer_Properties\<close> bounds the published requests from above and below by the
  time that passed, and shows that a failed subscription goes unnoticed. \<open>Dds_Setup\<close> has the names of
  topics and types, the configuration of CycloneDDS, the construction of participant and writers and the
  throttle of the logger.

  The X5H image. \<open>Emutls\<close> is the emulated thread-local storage (\<open>x5h_emutls.c\<close>) over an explicit
  heap, its callers interleaved step by step; \<open>Emutls_Facts\<close> has the invariant of every reachable
  state, \<open>Emutls_Properties\<close> what follows: storage is private and stays, a call ends within six
  steps, there is no undefined behaviour, a cleaned task leaves nothing unless it was parked inside the
  runtime. \<open>Rpmsg_Transport\<close> is the Ethernet link over RPMsg (\<open>rpmsg_netif_core.c\<close>,
  \<open>rpmsg_netif.c\<close>, \<open>rpmsg_transport.c\<close>, \<open>platform_rcar.c\<close>) and the start of the network
  (\<open>lwip_bringup.c\<close>); \<open>Rpmsg_Properties\<close> shows that no message is lost whenever the interrupts
  come, that frames are accounted for and never meet an unfinished interface, and what the start reports.
  \<open>Pthread_Shim\<close> is the thread layer (\<open>platform/freertos/x5h/pthread.h\<close>), join and cancel interleaved
  with the thread; \<open>Pthread_Properties\<close> shows which uses are safe and which are not, and that the lazily
  made mutex excludes.

  Parameters. Eigen is not part of the sources: its vector and quaternion operations are the
  fields of \<open>eigen_ops\<close>, its matrices a type variable with the operations \<open>eigen_matrix\<close>, and a
  statement that needs more of them says so (the shapes of results, \<open>isNaN().any()\<close>). The
  platform's CAN transport and its clocks are arguments of the definitions that use them; so are the
  answers of CycloneDDS, FreeRTOS, lwIP and OpenAMP. The allocator of the thread-local storage is a
  function that is required to behave as the C standard says of \<open>malloc\<close>, and
  \<open>remoteproc_get_notification\<close> one that hands over every pending message.

  Not modelled. The predicted trajectories of the vehicle models and the publishers of debug data
  of the lateral controller, which no running code calls; the Akima spline, the spline of points
  in the plane, the resampling of trajectories and the polygon geometry, which no controller
  calls, are left out. Of the X5H image the diagnostics (\<open>x5h_diag.c\<close>), the boot code and the patched
  vendor files, and the S32Z2 and Zephyr ports, work on registers, the console and vendor libraries. The
  endpoint addresses of RPMsg are kept by OpenAMP. Debug values, diagnostics and log output have no effect
  on what is modelled.
\<close>

end
